(* ===== verification/Base_Prelude.thy ===== *)
theory Base_Prelude
  imports Main "HOL-Library.Word" "HOL-Library.List_Lexorder" "HOL-Library.Char_ord"
    "HOL-Library.Multiset"
begin

text \<open>
  The vocabulary every component theory shares: Rust's fixed-width integers as words with the
  saturating operations the sources call, little- and big-endian byte strings, Rust strings as
  byte lists with the UTF-8 check of \<^verbatim>\<open>String::from_utf8\<close>, and the \<^verbatim>\<open>?\<close> operator on
  \<^verbatim>\<open>Result\<close> as a bind on sums.
\<close>

declare Let_def [simp]

named_theorems sat_simps "facts that move saturating word arithmetic to nat"
named_theorems wire_simps "round-trip facts of byte-level encoders and decoders"

section \<open>Integers\<close>

type_synonym u8 = "8 word"
type_synonym u32 = "32 word"
type_synonym u64 = "64 word"
type_synonym i16 = "16 word"
type_synonym i32 = "32 word"
type_synonym i64 = "64 word"
type_synonym millis = u64
type_synonym bytes = "u8 list"

text \<open>Rust's \<^verbatim>\<open>saturating_add\<close> and \<^verbatim>\<open>saturating_sub\<close> on unsigned integers.\<close>

definition sat_add :: "'a::len word \<Rightarrow> 'a word \<Rightarrow> 'a word" where
  "sat_add a b = (if unat a + unat b < 2 ^ LENGTH('a) then a + b else - 1)"

definition sat_sub :: "'a::len word \<Rightarrow> 'a word \<Rightarrow> 'a word" where
  "sat_sub a b = (if b \<le> a then a - b else 0)"

definition sat_mul :: "'a::len word \<Rightarrow> 'a word \<Rightarrow> 'a word" where
  "sat_mul a b = (if unat a * unat b < 2 ^ LENGTH('a) then a * b else - 1)"

lemma unat_max_word: "unat (- 1 :: 'a::len word) = 2 ^ LENGTH('a) - 1"
  by (simp add: unsigned_minus_1_eq_mask mask_eq_exp_minus_1)

lemma unat_sat_add [sat_simps]:
  "unat (sat_add a b :: 'a::len word) = min (unat a + unat b) (2 ^ LENGTH('a) - 1)"
proof (cases "unat a + unat b < 2 ^ LENGTH('a)")
  case True
  then show ?thesis by (simp add: sat_add_def unat_word_ariths)
next
  case False
  then show ?thesis by (simp add: sat_add_def unat_max_word)
qed

lemma unat_sat_mul [sat_simps]:
  "unat (sat_mul a b :: 'a::len word) = min (unat a * unat b) (2 ^ LENGTH('a) - 1)"
proof (cases "unat a * unat b < 2 ^ LENGTH('a)")
  case True
  then show ?thesis by (simp add: sat_mul_def unat_word_ariths)
next
  case False
  then show ?thesis by (simp add: sat_mul_def unat_max_word)
qed

lemma unat_sat_sub [sat_simps]: "unat (sat_sub a b) = unat a - unat b"
  by (auto simp: sat_sub_def unat_sub word_le_nat_alt)

lemma unat_word_of_nat_small:
  "n < 2 ^ LENGTH('a) \<Longrightarrow> unat (word_of_nat n :: 'a::len word) = n"
  by (simp add: unat_of_nat)

lemma unat_le_max: "unat (a :: 'a::len word) \<le> 2 ^ LENGTH('a) - 1"
  using unsigned_less [where w = a and 'a = nat] by linarith

lemma sat_add_ge [simp]: "a \<le> sat_add a b" "b \<le> sat_add a b"
  using unat_le_max [of a] unat_le_max [of b] by (auto simp: word_le_nat_alt sat_simps)

lemma sat_add_mono: "a \<le> c \<Longrightarrow> b \<le> d \<Longrightarrow> sat_add a b \<le> sat_add c d"
  by (auto simp: word_le_nat_alt sat_simps)

lemma sat_add_0 [simp]: "sat_add 0 a = a" "sat_add a 0 = a"
  by (simp_all add: sat_add_def)

lemma sat_sub_le [simp]: "sat_sub a b \<le> a"
  by (simp add: word_le_nat_alt sat_simps)

section \<open>Results\<close>

text \<open>\<^verbatim>\<open>Result<T, E>\<close> is \<open>'e + 't\<close>; \<open>rbind\<close> is the early return of \<^verbatim>\<open>?\<close>.\<close>

definition rbind :: "'e + 'a \<Rightarrow> ('a \<Rightarrow> 'e + 'b) \<Rightarrow> 'e + 'b" where
  "rbind m f = (case m of Inl e \<Rightarrow> Inl e | Inr x \<Rightarrow> f x)"

lemma rbind_simps [simp]: "rbind (Inl e) f = Inl e" "rbind (Inr x) f = f x"
  by (simp_all add: rbind_def)

lemma rbind_Inr_iff: "rbind m f = Inr y \<longleftrightarrow> (\<exists>x. m = Inr x \<and> f x = Inr y)"
  by (cases m) auto

lemma rbind_Inl_iff: "rbind m f = Inl e \<longleftrightarrow> m = Inl e \<or> (\<exists>x. m = Inr x \<and> f x = Inl e)"
  by (cases m) auto

definition is_ok :: "'e + 'a \<Rightarrow> bool" where
  "is_ok r = (case r of Inl _ \<Rightarrow> False | Inr _ \<Rightarrow> True)"

lemma is_ok_simps [simp]: "is_ok (Inr x)" "\<not> is_ok (Inl e)"
  by (simp_all add: is_ok_def)

lemma is_ok_iff: "is_ok r \<longleftrightarrow> (\<exists>x. r = Inr x)"
  by (cases r) auto

text \<open>
  Fallible code over a mutable object: \<open>('s, 'e, 'a) eff\<close> is a method that may fail with \<open>'e\<close> or
  return \<open>'a\<close>, and leaves the object in a new state either way.
\<close>

type_synonym ('s, 'e, 'a) eff = "'s \<Rightarrow> ('e + 'a) \<times> 's"

definition eret :: "'a \<Rightarrow> ('s, 'e, 'a) eff" where
  "eret x s = (Inr x, s)"

definition efail :: "'e \<Rightarrow> ('s, 'e, 'a) eff" where
  "efail e s = (Inl e, s)"

definition elift :: "'e + 'a \<Rightarrow> ('s, 'e, 'a) eff" where
  "elift r s = (r, s)"

definition ebind :: "('s, 'e, 'a) eff \<Rightarrow> ('a \<Rightarrow> ('s, 'e, 'b) eff) \<Rightarrow> ('s, 'e, 'b) eff" where
  "ebind m f s = (case m s of (Inl e, s') \<Rightarrow> (Inl e, s') | (Inr x, s') \<Rightarrow> f x s')"

lemma eff_simps [simp]: "eret x s = (Inr x, s)" "efail e s = (Inl e, s)" "elift r s = (r, s)"
  by (simp_all add: eret_def efail_def elift_def)

lemma ebind_Inr_iff:
  "ebind m f s = (Inr y, s') \<longleftrightarrow> (\<exists>x s1. m s = (Inr x, s1) \<and> f x s1 = (Inr y, s'))"
  by (auto simp: ebind_def split: sum.splits prod.splits)

section \<open>Byte strings\<close>

text \<open>\<open>le_bytes k n\<close> is the low \<open>k\<close> bytes of \<open>n\<close>, least significant first.\<close>

primrec le_bytes :: "nat \<Rightarrow> nat \<Rightarrow> bytes" where
  "le_bytes 0 n = []"
| "le_bytes (Suc k) n = word_of_nat n # le_bytes k (n div 256)"

fun of_le_bytes :: "bytes \<Rightarrow> nat" where
  "of_le_bytes [] = 0"
| "of_le_bytes (b # bs) = unat b + 256 * of_le_bytes bs"

lemma length_le_bytes [simp]: "length (le_bytes k n) = k"
  by (induction k arbitrary: n) auto

lemma of_le_bytes_le_bytes: "of_le_bytes (le_bytes k n) = n mod 256 ^ k"
proof (induction k arbitrary: n)
  case 0
  then show ?case by simp
next
  case (Suc k)
  have "n mod (256 * 256 ^ k) = 256 * (n div 256 mod 256 ^ k) + n mod 256"
    by (rule mod_mult2_eq)
  with Suc show ?case by (simp add: unat_of_nat)
qed

lemma le_bytes_inj:
  assumes "le_bytes k m = le_bytes k n" and "m < 256 ^ k" and "n < 256 ^ k"
  shows "m = n"
proof -
  have "of_le_bytes (le_bytes k m) = of_le_bytes (le_bytes k n)" by (simp add: assms(1))
  with assms(2,3) show ?thesis by (simp add: of_le_bytes_le_bytes)
qed

definition u32_le :: "u32 \<Rightarrow> bytes" where
  "u32_le w = le_bytes 4 (unat w)"

definition u64_le :: "u64 \<Rightarrow> bytes" where
  "u64_le w = le_bytes 8 (unat w)"

definition u64_be :: "u64 \<Rightarrow> bytes" where
  "u64_be w = rev (le_bytes 8 (unat w))"

definition i32_be :: "i32 \<Rightarrow> bytes" where
  "i32_be w = rev (le_bytes 4 (unat w))"

definition i16_be :: "i16 \<Rightarrow> bytes" where
  "i16_be w = rev (le_bytes 2 (unat w))"

lemma length_int_bytes [simp]:
  "length (u32_le a) = 4" "length (u64_le b) = 8" "length (u64_be b) = 8"
  "length (i32_be c) = 4" "length (i16_be d) = 2"
  by (simp_all add: u32_le_def u64_le_def u64_be_def i32_be_def i16_be_def)

lemma int_bytes_bounds:
  "unat (a :: 32 word) < 256 ^ 4" "unat (b :: 64 word) < 256 ^ 8" "unat (d :: 16 word) < 256 ^ 2"
  using unsigned_less [where w = a and 'a = nat] unsigned_less [where w = b and 'a = nat]
    unsigned_less [where w = d and 'a = nat] by simp_all

lemmas le_bytes_unat_inj =
  le_bytes_inj [OF _ int_bytes_bounds(1) int_bytes_bounds(1)]
  le_bytes_inj [OF _ int_bytes_bounds(2) int_bytes_bounds(2)]
  le_bytes_inj [OF _ int_bytes_bounds(3) int_bytes_bounds(3)]

lemma int_bytes_inj [simp]:
  "u32_le a = u32_le a' \<longleftrightarrow> a = a'" "u64_le b = u64_le b' \<longleftrightarrow> b = b'"
  "u64_be b = u64_be b' \<longleftrightarrow> b = b'" "i32_be c = i32_be c' \<longleftrightarrow> c = c'"
  "i16_be d = i16_be d' \<longleftrightarrow> d = d'"
  by (auto simp: u32_le_def u64_le_def u64_be_def i32_be_def i16_be_def
      dest: le_bytes_unat_inj [THEN unsigned_word_eqI])

lemma append_same_prefix_length:
  "length xs = length ys \<Longrightarrow> xs @ us = ys @ vs \<longleftrightarrow> xs = ys \<and> us = vs"
  by (rule append_eq_append_conv) simp

section \<open>Strings\<close>

text \<open>
  A Rust \<^verbatim>\<open>String\<close> is its UTF-8 bytes: the model uses \<open>string\<close> (a list of 8-bit characters),
  \<open>as_bytes\<close> is \<^verbatim>\<open>str::as_bytes\<close>, and \<open>utf8_valid\<close> is the check \<^verbatim>\<open>String::from_utf8\<close>
  makes (no overlong form, no surrogate, nothing above U+10FFFF).
\<close>

definition as_bytes :: "string \<Rightarrow> bytes" where
  "as_bytes s = map (\<lambda>c. word_of_nat (of_char c)) s"

definition str_of_bytes :: "bytes \<Rightarrow> string" where
  "str_of_bytes bs = map (\<lambda>b. char_of (unat b)) bs"

lemma str_of_as_bytes [simp]: "str_of_bytes (as_bytes s) = s"
proof -
  have "char_of (unat (word_of_nat (of_char c) :: u8)) = c" for c :: char
    by (simp add: unat_of_nat)
  then show ?thesis by (simp add: str_of_bytes_def as_bytes_def map_idI)
qed

lemma as_str_of_bytes [simp]: "as_bytes (str_of_bytes bs) = bs"
proof -
  have "word_of_nat (of_char (char_of (unat b) :: char)) = (b :: u8)" for b
    using unsigned_less [where w = b and 'a = nat] by simp
  then show ?thesis by (simp add: str_of_bytes_def as_bytes_def map_idI)
qed

lemma as_bytes_inj [simp]: "as_bytes s = as_bytes t \<longleftrightarrow> s = t"
  by (metis str_of_as_bytes)

lemma str_of_bytes_inj [simp]: "str_of_bytes a = str_of_bytes b \<longleftrightarrow> a = b"
  by (metis as_str_of_bytes)

lemma as_bytes_append [simp]: "as_bytes (s @ t) = as_bytes s @ as_bytes t"
  by (simp add: as_bytes_def)

lemma length_as_bytes [simp]: "length (as_bytes s) = length s"
  by (simp add: as_bytes_def)

lemma as_bytes_Nil [simp]: "as_bytes s = [] \<longleftrightarrow> s = []"
  by (simp add: as_bytes_def)

text \<open>Decimal rendering of an unsigned integer, as \<^verbatim>\<open>format!("{}")\<close> prints it.\<close>

fun decimal :: "nat \<Rightarrow> string" where
  "decimal n = (if n < 10 then [char_of (48 + n)] else decimal (n div 10) @ [char_of (48 + n mod 10)])"

declare decimal.simps [simp del]

lemma decimal_digits: "c \<in> set (decimal n) \<Longrightarrow> (48 :: nat) \<le> of_char c \<and> of_char c \<le> (57 :: nat)"
proof (induction n rule: decimal.induct)
  case (1 n)
  then show ?case by (subst (asm) decimal.simps) (auto split: if_splits)
qed

text \<open>A run of decimal digits as a number; absent when it is empty or holds anything else.\<close>

definition parse_digits :: "string \<Rightarrow> nat option" where
  "parse_digits s =
     (if s = [] \<or> (\<exists>c \<in> set s. (of_char c :: nat) < 48 \<or> (57 :: nat) < of_char c) then None
      else Some (foldl (\<lambda>n c. n * 10 + (of_char c - 48)) 0 s))"

lemma parse_decimal [simp]: "parse_digits (decimal n) = Some n"
proof -
  have "foldl (\<lambda>n c. n * 10 + (of_char c - 48)) 0 (decimal n) = n"
  proof (induction n rule: decimal.induct)
    case (1 n)
    then show ?case by (subst decimal.simps) auto
  qed
  moreover have "decimal n \<noteq> []" by (subst decimal.simps) simp
  ultimately show ?thesis by (auto simp: parse_digits_def dest: decimal_digits)
qed

text \<open>\<^verbatim>\<open>str::split\<close> at a one-byte separator.\<close>

fun split_on :: "char \<Rightarrow> string \<Rightarrow> string list" where
  "split_on c [] = [[]]"
| "split_on c (x # xs) =
     (if x = c then [] # split_on c xs else (case split_on c xs of w # ws \<Rightarrow> (x # w) # ws | [] \<Rightarrow> [[x]]))"

lemma split_on_none: "c \<notin> set s \<Longrightarrow> split_on c s = [s]"
  by (induction s) auto

lemma split_on_append: "c \<notin> set a \<Longrightarrow> split_on c (a @ c # r) = a # split_on c r"
  by (induction a) auto

definition cont_byte :: "u8 \<Rightarrow> bool" where
  "cont_byte b = (0x80 \<le> b \<and> b \<le> 0xBF)"

fun utf8_valid :: "bytes \<Rightarrow> bool" where
  "utf8_valid [] = True"
| "utf8_valid (a # r) =
     (if a \<le> 0x7F then utf8_valid r
      else if 0xC2 \<le> a \<and> a \<le> 0xDF then
        (case r of b # r' \<Rightarrow> cont_byte b \<and> utf8_valid r' | _ \<Rightarrow> False)
      else if 0xE0 \<le> a \<and> a \<le> 0xEF then
        (case r of b # c # r' \<Rightarrow>
           cont_byte b \<and> cont_byte c \<and> (a = 0xE0 \<longrightarrow> 0xA0 \<le> b) \<and> (a = 0xED \<longrightarrow> b \<le> 0x9F)
           \<and> utf8_valid r' | _ \<Rightarrow> False)
      else if 0xF0 \<le> a \<and> a \<le> 0xF4 then
        (case r of b # c # d # r' \<Rightarrow>
           cont_byte b \<and> cont_byte c \<and> cont_byte d \<and> (a = 0xF0 \<longrightarrow> 0x90 \<le> b)
           \<and> (a = 0xF4 \<longrightarrow> b \<le> 0x8F) \<and> utf8_valid r' | _ \<Rightarrow> False)
      else False)"

definition from_utf8 :: "bytes \<Rightarrow> string option" where
  "from_utf8 bs = (if utf8_valid bs then Some (str_of_bytes bs) else None)"

definition is_str :: "string \<Rightarrow> bool" where
  "is_str s = utf8_valid (as_bytes s)"

lemma from_utf8_as_bytes [simp]: "is_str s \<Longrightarrow> from_utf8 (as_bytes s) = Some s"
  by (simp add: from_utf8_def is_str_def)

lemma from_utf8_Some: "from_utf8 bs = Some s \<Longrightarrow> is_str s \<and> as_bytes s = bs"
  by (auto simp: from_utf8_def is_str_def split: if_splits)

lemma is_str_ascii: "\<forall>b \<in> set (as_bytes s). b \<le> 0x7F \<Longrightarrow> is_str s"
proof -
  have "\<forall>b \<in> set bs. b \<le> 0x7F \<Longrightarrow> utf8_valid bs" for bs :: bytes
    by (induction bs) auto
  then show "\<forall>b \<in> set (as_bytes s). b \<le> 0x7F \<Longrightarrow> is_str s" by (simp add: is_str_def)
qed

end
