(* ===== verification/Tighten_Order.thy ===== *)
theory Tighten_Order
  imports Base_Prelude
begin

text \<open>
  The contract that the trust lattice of \<^verbatim>\<open>crates/core/src/session.rs\<close> and the verdict ladder of
  \<^verbatim>\<open>crates/policy/src/verdict.rs\<close> share: an operation that combines two levels and never returns
  one that is looser than either. \<open>at_least_as_tight a b\<close> reads "a is at least as tight as b".
\<close>

locale tighten_order =
  fixes tighten :: "'l \<Rightarrow> 'l \<Rightarrow> 'l"
    and at_least_as_tight :: "'l \<Rightarrow> 'l \<Rightarrow> bool"
  assumes tight_refl: "at_least_as_tight a a"
    and tight_trans: "at_least_as_tight a b \<Longrightarrow> at_least_as_tight b c \<Longrightarrow> at_least_as_tight a c"
    and tight_antisym: "at_least_as_tight a b \<Longrightarrow> at_least_as_tight b a \<Longrightarrow> a = b"
    and tighten_left: "at_least_as_tight (tighten a b) a"
    and tighten_right: "at_least_as_tight (tighten a b) b"
    and tighten_least: "at_least_as_tight c a \<Longrightarrow> at_least_as_tight c b
      \<Longrightarrow> at_least_as_tight c (tighten a b)"
begin

lemma tighten_commute: "tighten a b = tighten b a"
  by (intro tight_antisym tighten_least tighten_left tighten_right)

lemma tighten_absorb: "at_least_as_tight a b \<Longrightarrow> tighten a b = a"
  by (intro tight_antisym tighten_least tighten_left tight_refl)

lemma tighten_assoc: "tighten (tighten a b) c = tighten a (tighten b c)"
  by (intro tight_antisym tighten_least)
    (meson tight_trans tighten_left tighten_right)+

text \<open>Folding signals into a level only tightens, whatever the signals are.\<close>

lemma foldl_tight: "at_least_as_tight (foldl tighten l xs) l"
proof (induction xs arbitrary: l)
  case Nil
  show ?case by (simp add: tight_refl)
next
  case (Cons x xs)
  then show ?case using tight_trans tighten_left by (metis foldl_Cons)
qed

lemma foldl_tight_elem: "x \<in> set xs \<Longrightarrow> at_least_as_tight (foldl tighten l xs) x"
proof (induction xs arbitrary: l)
  case Nil
  then show ?case by simp
next
  case (Cons y ys)
  have "at_least_as_tight (foldl tighten (tighten l y) ys) y"
    using foldl_tight tighten_right tight_trans by blast
  with Cons show ?case by auto
qed

text \<open>The fold is the loosest level that is as tight as the start and every signal.\<close>

lemma foldl_least:
  "at_least_as_tight c l \<Longrightarrow> (\<And>x. x \<in> set xs \<Longrightarrow> at_least_as_tight c x)
    \<Longrightarrow> at_least_as_tight c (foldl tighten l xs)"
  by (induction xs arbitrary: l) (auto intro: tighten_least)

lemma foldl_mono_set:
  assumes "set xs \<subseteq> set ys"
  shows "at_least_as_tight (foldl tighten l ys) (foldl tighten l xs)"
  using assms by (intro foldl_least foldl_tight foldl_tight_elem) auto

lemma foldl_set_eq:
  assumes "set xs = set ys"
  shows "foldl tighten l xs = foldl tighten l ys"
  using assms by (intro tight_antisym foldl_mono_set) auto

lemma foldl_tighten_start: "foldl tighten (tighten a b) xs = tighten a (foldl tighten b xs)"
  by (induction xs arbitrary: b) (simp_all add: tighten_assoc)

text \<open>Signals that are looser than the current level change nothing.\<close>

lemma foldl_loose: "(\<And>x. x \<in> set xs \<Longrightarrow> at_least_as_tight l x) \<Longrightarrow> foldl tighten l xs = l"
  by (induction xs) (auto simp: tighten_absorb)

end

end
