(* ===== verification/Core_Session.thy ===== *)
theory Core_Session
  imports Tighten_Order
begin

text \<open>
  Session trust (\<^verbatim>\<open>crates/core/src/session.rs\<close>) and the injectable clock
  (\<^verbatim>\<open>crates/core/src/clock.rs\<close>): the trust lattice, the events that lower trust, the pure
  transition and the mutable session with its cumulative counters.
\<close>

section \<open>Clock\<close>

text \<open>
  A clock is its two readings; the mock clock is the same pair, moved by \<open>clock_advance\<close>
  (\<^verbatim>\<open>fetch_add\<close> wraps) and by \<open>set_unix_millis\<close>.
\<close>

record clock =
  now_unix_millis :: millis
  monotonic_millis :: millis

definition clock_starting_at :: "millis \<Rightarrow> clock" where
  "clock_starting_at start = \<lparr>now_unix_millis = start, monotonic_millis = start\<rparr>"

definition clock_advance :: "clock \<Rightarrow> millis \<Rightarrow> clock \<times> millis" where
  "clock_advance c delta =
     (c\<lparr>now_unix_millis := now_unix_millis c + delta,
        monotonic_millis := monotonic_millis c + delta\<rparr>,
      monotonic_millis c + delta)"

definition set_unix_millis :: "clock \<Rightarrow> millis \<Rightarrow> clock" where
  "set_unix_millis c v = c\<lparr>now_unix_millis := v\<rparr>"

section \<open>Trust levels\<close>

datatype trust_level = Untrusted | Agent | Operator

primrec trust_rank :: "trust_level \<Rightarrow> nat" where
  "trust_rank Untrusted = 0"
| "trust_rank Agent = 1"
| "trust_rank Operator = 2"

lemma trust_rank_inj [simp]: "trust_rank a = trust_rank b \<longleftrightarrow> a = b"
  by (cases a; cases b) auto

instantiation trust_level :: linorder
begin

definition less_eq_trust_level :: "trust_level \<Rightarrow> trust_level \<Rightarrow> bool" where
  "less_eq_trust_level a b = (trust_rank a \<le> trust_rank b)"

definition less_trust_level :: "trust_level \<Rightarrow> trust_level \<Rightarrow> bool" where
  "less_trust_level a b = (trust_rank a < trust_rank b)"

instance
  by standard (auto simp: less_eq_trust_level_def less_trust_level_def)

end

lemmas trust_order = less_eq_trust_level_def less_trust_level_def

definition default_floor :: trust_level where
  "default_floor = Untrusted"

fun budget_multiplier_bp :: "trust_level \<Rightarrow> u32" where
  "budget_multiplier_bp Untrusted = 1000"
| "budget_multiplier_bp Agent = 5000"
| "budget_multiplier_bp Operator = 10000"

definition trust_tighten :: "trust_level \<Rightarrow> trust_level \<Rightarrow> trust_level" where
  "trust_tighten self other = min self other"

interpretation trust: tighten_order trust_tighten "\<lambda>a b. a \<le> b"
  by unfold_locales (auto simp: trust_tighten_def)

lemma budget_multiplier_mono: "a \<le> b \<Longrightarrow> budget_multiplier_bp a \<le> budget_multiplier_bp b"
  by (cases a; cases b) (simp_all add: trust_order)

lemma default_floor_least [simp]: "default_floor \<le> l"
  by (simp add: default_floor_def trust_order)

section \<open>Events and the pure transition\<close>

datatype trust_event =
    BenignRead u64 u64
  | BenignWrite u64
  | SuspiciousPattern
  | FloorTripped
  | SlowDripSuspected
  | OperatorQuarantine

fun trust_ceiling :: "trust_event \<Rightarrow> trust_level" where
  "trust_ceiling (BenignRead _ _) = Operator"
| "trust_ceiling (BenignWrite _) = Operator"
| "trust_ceiling SuspiciousPattern = Agent"
| "trust_ceiling FloorTripped = Untrusted"
| "trust_ceiling SlowDripSuspected = Untrusted"
| "trust_ceiling OperatorQuarantine = Untrusted"

fun event_rows :: "trust_event \<Rightarrow> u64" where
  "event_rows (BenignRead rows _) = rows"
| "event_rows (BenignWrite rows) = rows"
| "event_rows _ = 0"

fun event_bytes :: "trust_event \<Rightarrow> u64" where
  "event_bytes (BenignRead _ bytes) = bytes"
| "event_bytes _ = 0"

definition trust_transition :: "trust_event list \<Rightarrow> clock \<Rightarrow> trust_level" where
  "trust_transition events clk =
     (let _ = monotonic_millis clk in
      foldl (\<lambda>level event. trust_tighten level (trust_ceiling event)) Operator events)"

lemma trust_transition_fold:
  "trust_transition events clk = foldl trust_tighten Operator (map trust_ceiling events)"
proof -
  have "foldl (\<lambda>level event. trust_tighten level (trust_ceiling event)) l es
      = foldl trust_tighten l (map trust_ceiling es)" for l es
    by (induction es arbitrary: l) simp_all
  then show ?thesis by (simp add: trust_transition_def)
qed

section \<open>Session state\<close>

record session_state =
  cumulative_rows :: u64
  cumulative_bytes :: u64
  granted :: trust_level
  trust :: trust_level

definition with_granted :: "trust_level \<Rightarrow> session_state" where
  "with_granted g = \<lparr>cumulative_rows = 0, cumulative_bytes = 0, granted = g, trust = g\<rparr>"

definition session_new :: session_state where
  "session_new = with_granted default_floor"

definition session_budget_multiplier_bp :: "session_state \<Rightarrow> u32" where
  "session_budget_multiplier_bp s = budget_multiplier_bp (trust s)"

definition apply_event :: "session_state \<Rightarrow> trust_event \<Rightarrow> clock \<Rightarrow> session_state" where
  "apply_event s event clk =
     (let s1 = s\<lparr>cumulative_rows := sat_add (cumulative_rows s) (event_rows event)\<rparr>;
          s2 = s1\<lparr>cumulative_bytes := sat_add (cumulative_bytes s1) (event_bytes event)\<rparr>;
          from_event = trust_transition [event] clk
      in s2\<lparr>trust := trust_tighten (trust s2) from_event\<rparr>)"

definition recompute_trust :: "session_state \<Rightarrow> trust_event list \<Rightarrow> clock \<Rightarrow> session_state" where
  "recompute_trust s events clk =
     (let recomputed = trust_transition events clk
      in s\<lparr>trust := trust_tighten (trust s) recomputed\<rparr>)"

text \<open>The operations a caller can run on a session, in any order and at any clock reading.\<close>

inductive session_step :: "session_state \<Rightarrow> session_state \<Rightarrow> bool" where
  step_event: "session_step s (apply_event s e clk)"
| step_recompute: "session_step s (recompute_trust s es clk)"

inductive_cases session_stepE: "session_step s t"

lemma apply_event_simps [simp]:
  "cumulative_rows (apply_event s e clk) = sat_add (cumulative_rows s) (event_rows e)"
  "cumulative_bytes (apply_event s e clk) = sat_add (cumulative_bytes s) (event_bytes e)"
  "granted (apply_event s e clk) = granted s"
  "trust (apply_event s e clk) = trust_tighten (trust s) (trust_ceiling e)"
proof -
  have "trust_tighten Operator (trust_ceiling e) = trust_ceiling e"
    by (cases e) (simp_all add: trust_tighten_def min_def trust_order)
  then show "trust (apply_event s e clk) = trust_tighten (trust s) (trust_ceiling e)"
    by (simp add: apply_event_def trust_transition_fold)
qed (simp_all add: apply_event_def)

lemma recompute_trust_simps [simp]:
  "cumulative_rows (recompute_trust s es clk) = cumulative_rows s"
  "cumulative_bytes (recompute_trust s es clk) = cumulative_bytes s"
  "granted (recompute_trust s es clk) = granted s"
  "trust (recompute_trust s es clk) = trust_tighten (trust s) (trust_transition es clk)"
  by (simp_all add: recompute_trust_def)

lemma session_step_mono:
  assumes "session_step s t"
  shows "trust t \<le> trust s \<and> granted t = granted s
    \<and> cumulative_rows s \<le> cumulative_rows t \<and> cumulative_bytes s \<le> cumulative_bytes t"
  using assms by (cases rule: session_step.cases) (auto intro: trust.tighten_left)

lemma session_steps_mono:
  assumes "session_step\<^sup>*\<^sup>* s t"
  shows "trust t \<le> trust s \<and> granted t = granted s
    \<and> cumulative_rows s \<le> cumulative_rows t \<and> cumulative_bytes s \<le> cumulative_bytes t"
  using assms by (induction rule: rtranclp_induct) (auto dest!: session_step_mono intro: order_trans)

text \<open>
  C33: along every sequence of session operations, in any order and with any clock, trust never
  rises, never exceeds the granted identity, and the byte and row totals never fall, so neither the
  budget multiplier nor a slow-drip total can be reset.
\<close>

theorem session_tighten_only:
  assumes "session_step\<^sup>*\<^sup>* (with_granted g) s" and "session_step\<^sup>*\<^sup>* s t"
  shows "trust t \<le> trust s \<and> trust t \<le> g
    \<and> session_budget_multiplier_bp t \<le> session_budget_multiplier_bp s
    \<and> session_budget_multiplier_bp t \<le> budget_multiplier_bp g
    \<and> cumulative_rows s \<le> cumulative_rows t \<and> cumulative_bytes s \<le> cumulative_bytes t"
proof -
  have "trust s \<le> g"
    using session_steps_mono [OF assms(1)] by (simp add: with_granted_def)
  with session_steps_mono [OF assms(2)] show ?thesis
    by (auto simp: session_budget_multiplier_bp_def intro: budget_multiplier_mono order_trans)
qed

theorem session_tighten_only_witness:
  "let s = apply_event (with_granted Operator) SuspiciousPattern (clock_starting_at 0);
       t = recompute_trust s [FloorTripped, BenignRead 10 100] (clock_starting_at 9)
   in trust s = Agent \<and> trust t = Untrusted
      \<and> session_budget_multiplier_bp t \<le> session_budget_multiplier_bp s"
proof -
  let ?s = "apply_event (with_granted Operator) SuspiciousPattern (clock_starting_at 0)"
  let ?t = "recompute_trust ?s [FloorTripped, BenignRead 10 100] (clock_starting_at 9)"
  have "session_step\<^sup>*\<^sup>* (with_granted Operator) ?s" "session_step\<^sup>*\<^sup>* ?s ?t"
    by (rule r_into_rtranclp, rule step_event, rule r_into_rtranclp, rule step_recompute)
  then have "session_budget_multiplier_bp ?t \<le> session_budget_multiplier_bp ?s"
    using session_tighten_only by blast
  then show ?thesis
    by (simp add: Let_def with_granted_def trust_transition_fold trust_tighten_def min_def trust_order
        session_budget_multiplier_bp_def)
qed

end
