(* ===== verification/Prefix_Code.thy ===== *)
theory Prefix_Code
  imports Base_Prelude
begin

text \<open>
  The contract of the canonical encoders (\<^verbatim>\<open>crates/core/src/pk_checksum.rs\<close>,
  \<^verbatim>\<open>crates/policy/src/grant.rs\<close>, \<^verbatim>\<open>crates/audit/src/kms.rs\<close>): an encoding that delimits itself,
  so that a value can be cancelled from the front of a byte stream. A concatenation of such
  encodings is unambiguous, which is what the sources claim for their length prefixes.
\<close>

locale prefix_code =
  fixes enc :: "'a \<Rightarrow> bytes"
    and wf :: "'a \<Rightarrow> bool"
  assumes enc_cancel: "wf x \<Longrightarrow> wf y \<Longrightarrow> enc x @ r = enc y @ s \<Longrightarrow> x = y \<and> r = s"
begin

lemma enc_append_iff: "wf x \<Longrightarrow> wf y \<Longrightarrow> enc x @ r = enc y @ s \<longleftrightarrow> x = y \<and> r = s"
  using enc_cancel by blast

lemma enc_inj: "wf x \<Longrightarrow> wf y \<Longrightarrow> enc x = enc y \<longleftrightarrow> x = y"
  using enc_cancel [of x y "[]" "[]"] by auto

lemma enc_list_cancel:
  assumes "\<forall>x \<in> set xs. wf x" and "\<forall>y \<in> set ys. wf y" and "length xs = length ys"
    and "concat (map enc xs) @ r = concat (map enc ys) @ s"
  shows "xs = ys \<and> r = s"
  using assms(3,1,2,4)
proof (induction xs ys rule: list_induct2)
  case Nil
  then show ?case by simp
next
  case (Cons x xs y ys)
  from Cons.prems have "wf x" "wf y"
    and "enc x @ concat (map enc xs) @ r = enc y @ concat (map enc ys) @ s" by simp_all
  then have "x = y" and "concat (map enc xs) @ r = concat (map enc ys) @ s"
    using enc_cancel by blast+
  with Cons show ?case by simp
qed

text \<open>A block: the length of the encoding, then the encoding.\<close>

lemma enc_count_cancel:
  assumes "\<forall>x \<in> set xs. wf x" and "\<forall>y \<in> set ys. wf y"
    and "length xs < 256 ^ k" and "length ys < 256 ^ k"
    and "le_bytes k (length xs) @ concat (map enc xs) @ r
      = le_bytes k (length ys) @ concat (map enc ys) @ s"
  shows "xs = ys \<and> r = s"
proof -
  have "le_bytes k (length xs) = le_bytes k (length ys)"
    and rest: "concat (map enc xs) @ r = concat (map enc ys) @ s"
    using assms(5) by (simp_all add: append_same_prefix_length)
  then have "length xs = length ys" using assms(3,4) by (blast dest: le_bytes_inj)
  with assms(1,2) rest show ?thesis by (blast dest: enc_list_cancel)
qed

end

text \<open>The two length-prefixed blobs the encoders use.\<close>

definition blob_le32 :: "bytes \<Rightarrow> bytes" where
  "blob_le32 bs = u32_le (word_of_nat (length bs)) @ bs"

definition blob_be64 :: "bytes \<Rightarrow> bytes" where
  "blob_be64 bs = u64_be (word_of_nat (length bs)) @ bs"

definition blob_le64 :: "bytes \<Rightarrow> bytes" where
  "blob_le64 bs = u64_le (word_of_nat (length bs)) @ bs"

lemma word_of_nat_eq_iff:
  "m < 2 ^ LENGTH('a) \<Longrightarrow> n < 2 ^ LENGTH('a)
    \<Longrightarrow> (word_of_nat m :: 'a::len word) = word_of_nat n \<longleftrightarrow> m = n"
  by (metis unat_word_of_nat_small)

interpretation blob32: prefix_code blob_le32 "\<lambda>bs. length bs < 2 ^ 32"
  by unfold_locales (auto simp: blob_le32_def append_same_prefix_length word_of_nat_eq_iff)

interpretation blob64: prefix_code blob_be64 "\<lambda>bs. length bs < 2 ^ 64"
  by unfold_locales (auto simp: blob_be64_def append_same_prefix_length word_of_nat_eq_iff)

interpretation blob64l: prefix_code blob_le64 "\<lambda>bs. length bs < 2 ^ 64"
  by unfold_locales (auto simp: blob_le64_def append_same_prefix_length word_of_nat_eq_iff)

lemma u32_le_of_nat: "n < 2 ^ 32 \<Longrightarrow> u32_le (word_of_nat n) = le_bytes 4 n"
  by (simp add: u32_le_def unat_of_nat)

lemma u64_le_of_nat: "n < 2 ^ 64 \<Longrightarrow> u64_le (word_of_nat n) = le_bytes 8 n"
  by (simp add: u64_le_def unat_of_nat)

end
