(* ===== verification/Core_Pk_Checksum.thy ===== *)
theory Core_Pk_Checksum
  imports Prefix_Code "HOL-Library.Product_Lexorder"
begin

text \<open>
  The affected-PK-set checksum (\<^verbatim>\<open>crates/core/src/pk_checksum.rs\<close>): typed key values with the
  derived order, their tagged and length-prefixed encoding, the per-relation builder and the
  digest of the sorted set. SHA-256 and the hex encoder are parameters: the crates \<^verbatim>\<open>sha2\<close> and
  \<^verbatim>\<open>hex\<close> are not part of the sources.
\<close>

section \<open>Key values and their order\<close>

datatype pk_value = PkInt i64 | PkText string | PkBytes bytes | PkNull

text \<open>
  The derived \<^verbatim>\<open>Ord\<close> compares the variant first and then the payload: \<^verbatim>\<open>i64\<close> as a signed number,
  strings and byte vectors lexicographically by byte.
\<close>

fun pk_key :: "pk_value \<Rightarrow> nat \<times> int \<times> string \<times> bytes" where
  "pk_key (PkInt v) = (0, sint v, [], [])"
| "pk_key (PkText s) = (1, 0, s, [])"
| "pk_key (PkBytes b) = (2, 0, [], b)"
| "pk_key PkNull = (3, 0, [], [])"

lemma pk_key_inj [simp]: "pk_key a = pk_key b \<longleftrightarrow> a = b"
  by (cases a; cases b) (auto simp: signed_word_eqI)

instantiation pk_value :: linorder
begin

definition less_eq_pk_value :: "pk_value \<Rightarrow> pk_value \<Rightarrow> bool" where
  "less_eq_pk_value a b = (pk_key a \<le> pk_key b)"

definition less_pk_value :: "pk_value \<Rightarrow> pk_value \<Rightarrow> bool" where
  "less_pk_value a b = (pk_key a < pk_key b)"

instance
proof
  fix x y z :: pk_value
  show "(x < y) = (x \<le> y \<and> \<not> y \<le> x)"
    unfolding less_eq_pk_value_def less_pk_value_def by (rule less_le_not_le)
  show "x \<le> x" by (simp add: less_eq_pk_value_def)
  show "x \<le> y \<Longrightarrow> y \<le> z \<Longrightarrow> x \<le> z"
    unfolding less_eq_pk_value_def by (rule order_trans)
  show "x \<le> y \<Longrightarrow> y \<le> x \<Longrightarrow> x = y"
    unfolding less_eq_pk_value_def by (metis order_antisym pk_key_inj)
  show "x \<le> y \<or> y \<le> x"
    unfolding less_eq_pk_value_def by (rule linear)
qed

end

lemmas pk_order = less_eq_pk_value_def less_pk_value_def

section \<open>Encoding\<close>

fun pk_tag :: "pk_value \<Rightarrow> u8" where
  "pk_tag (PkInt _) = 0x01"
| "pk_tag (PkText _) = 0x02"
| "pk_tag (PkBytes _) = 0x03"
| "pk_tag PkNull = 0x00"

text \<open>\<open>encode_into\<close> appends to a buffer; the model takes and returns it.\<close>

fun pk_encode_into :: "pk_value \<Rightarrow> bytes \<Rightarrow> bytes" where
  "pk_encode_into (PkInt v) out =
     (let out = out @ [pk_tag (PkInt v)]; bytes = u64_be v
      in out @ u32_le (word_of_nat (length bytes)) @ bytes)"
| "pk_encode_into (PkText s) out =
     (let out = out @ [pk_tag (PkText s)]; bytes = as_bytes s
      in out @ u32_le (word_of_nat (length bytes)) @ bytes)"
| "pk_encode_into (PkBytes b) out =
     (let out = out @ [pk_tag (PkBytes b)]
      in out @ u32_le (word_of_nat (length b)) @ b)"
| "pk_encode_into PkNull out = (let out = out @ [pk_tag PkNull] in out @ u32_le 0)"

type_synonym pk_tuple = "pk_value list"

definition tuple_encode_into :: "pk_tuple \<Rightarrow> bytes \<Rightarrow> bytes" where
  "tuple_encode_into t out =
     foldl (\<lambda>acc v. pk_encode_into v acc) (out @ u32_le (word_of_nat (length t))) t"

text \<open>A value whose payload the 32-bit length prefix can describe.\<close>

fun pk_value_wf :: "pk_value \<Rightarrow> bool" where
  "pk_value_wf (PkText s) = (length s < 2 ^ 32)"
| "pk_value_wf (PkBytes b) = (length b < 2 ^ 32)"
| "pk_value_wf _ = True"

fun pk_payload :: "pk_value \<Rightarrow> bytes" where
  "pk_payload (PkInt v) = u64_be v"
| "pk_payload (PkText s) = as_bytes s"
| "pk_payload (PkBytes b) = b"
| "pk_payload PkNull = []"

lemma pk_encode_into_eq: "pk_encode_into v out = out @ pk_tag v # blob_le32 (pk_payload v)"
  by (cases v) (simp_all add: blob_le32_def Let_def)

lemma pk_tag_payload_inj:
  assumes "pk_tag v = pk_tag w" and "pk_payload v = pk_payload w"
  shows "v = w"
  using assms by (cases v; cases w) auto

interpretation pk_value: prefix_code "\<lambda>v. pk_encode_into v []" pk_value_wf
proof
  fix v w r s
  assume wf: "pk_value_wf v" "pk_value_wf w"
    and eq: "pk_encode_into v [] @ r = pk_encode_into w [] @ s"
  have "length (pk_payload v) < 2 ^ 32" "length (pk_payload w) < 2 ^ 32"
    using wf by (cases v; cases w; simp)+
  with eq have "pk_tag v = pk_tag w" "pk_payload v = pk_payload w" "r = s"
    using blob32.enc_cancel [of "pk_payload v" "pk_payload w" r s]
    by (simp_all add: pk_encode_into_eq)
  then show "v = w \<and> r = s" by (simp add: pk_tag_payload_inj)
qed

definition tuple_wf :: "pk_tuple \<Rightarrow> bool" where
  "tuple_wf t = (length t < 2 ^ 32 \<and> (\<forall>v \<in> set t. pk_value_wf v))"

lemma foldl_pk_encode:
  "foldl (\<lambda>acc v. pk_encode_into v acc) out t = out @ concat (map (\<lambda>v. pk_encode_into v []) t)"
  by (induction t arbitrary: out) (simp_all add: pk_encode_into_eq)

lemma tuple_encode_into_eq:
  "tuple_encode_into t out
    = out @ u32_le (word_of_nat (length t)) @ concat (map (\<lambda>v. pk_encode_into v []) t)"
  by (simp add: tuple_encode_into_def foldl_pk_encode)

interpretation pk_tuple: prefix_code "\<lambda>t. tuple_encode_into t []" tuple_wf
proof
  fix t u r s
  assume "tuple_wf t" "tuple_wf u" and eq: "tuple_encode_into t [] @ r = tuple_encode_into u [] @ s"
  then show "t = u \<and> r = s"
    using pk_value.enc_count_cancel [of t u 4 r s]
    by (simp add: tuple_encode_into_eq tuple_wf_def u32_le_of_nat)
qed

section \<open>The builder\<close>

datatype checksum_error =
    Refused string
  | EmptyTuple
  | InconsistentArity nat nat

definition tuple_new :: "pk_value list \<Rightarrow> checksum_error + pk_tuple" where
  "tuple_new vs = (if vs = [] then Inl EmptyTuple else Inr vs)"

definition tuple_single :: "pk_value \<Rightarrow> pk_tuple" where
  "tuple_single v = [v]"

record pk_set_builder =
  psb_relation :: string
  psb_arity :: "nat option"
  psb_tuples :: "pk_tuple list"
  psb_pk_less :: bool

definition for_relation :: "string \<Rightarrow> pk_set_builder" where
  "for_relation r = \<lparr>psb_relation = r, psb_arity = None, psb_tuples = [], psb_pk_less = False\<rparr>"

definition pk_less :: "string \<Rightarrow> pk_set_builder" where
  "pk_less r = \<lparr>psb_relation = r, psb_arity = None, psb_tuples = [], psb_pk_less = True\<rparr>"

definition psb_push :: "pk_set_builder \<Rightarrow> pk_tuple \<Rightarrow> checksum_error + pk_set_builder" where
  "psb_push b t =
     (let ar = length t in
      case psb_arity b of
        None \<Rightarrow> Inr (b\<lparr>psb_arity := Some ar, psb_tuples := psb_tuples b @ [t]\<rparr>)
      | Some expected \<Rightarrow>
          if expected \<noteq> ar then Inl (InconsistentArity expected ar)
          else Inr (b\<lparr>psb_tuples := psb_tuples b @ [t]\<rparr>))"

definition psb_len :: "pk_set_builder \<Rightarrow> nat" where
  "psb_len b = length (psb_tuples b)"

definition psb_is_empty :: "pk_set_builder \<Rightarrow> bool" where
  "psb_is_empty b = (psb_tuples b = [])"

text \<open>The byte stream fed to the hasher: domain, cardinality, then each tuple as a block.\<close>

definition pkset_domain :: bytes where
  "pkset_domain = as_bytes ''pgb-pkset-v1'' @ [0]"

definition pkset_preimage :: "pk_tuple list \<Rightarrow> bytes" where
  "pkset_preimage ts =
     (let sorted_ts = sort ts in
      foldl (\<lambda>h t. let buf = tuple_encode_into t [] in h @ u64_le (word_of_nat (length buf)) @ buf)
        (pkset_domain @ u64_le (word_of_nat (length sorted_ts))) sorted_ts)"

record pk_checksum = pkc_hex :: string

definition as_prefixed :: "pk_checksum \<Rightarrow> string" where
  "as_prefixed c = ''sha256:'' @ pkc_hex c"

definition psb_finalize ::
  "(bytes \<Rightarrow> bytes) \<Rightarrow> (bytes \<Rightarrow> string) \<Rightarrow> pk_set_builder \<Rightarrow> checksum_error + pk_checksum" where
  "psb_finalize sha256 hex_encode b =
     (if psb_pk_less b then Inl (Refused (psb_relation b))
      else Inr \<lparr>pkc_hex = hex_encode (sha256 (pkset_preimage (psb_tuples b)))\<rparr>)"

section \<open>Correctness\<close>

definition pkset_wf :: "pk_tuple list \<Rightarrow> bool" where
  "pkset_wf ts = (length ts < 2 ^ 64
     \<and> (\<forall>t \<in> set ts. tuple_wf t \<and> length (tuple_encode_into t []) < 2 ^ 64))"

lemma pkset_preimage_eq:
  "pkset_preimage ts = pkset_domain @ u64_le (word_of_nat (length ts))
     @ concat (map (\<lambda>t. blob_le64 (tuple_encode_into t [])) (sort ts))"
proof -
  have "foldl (\<lambda>h t. let buf = tuple_encode_into t [] in h @ u64_le (word_of_nat (length buf)) @ buf)
      h us = h @ concat (map (\<lambda>t. blob_le64 (tuple_encode_into t [])) us)" for h us
    by (induction us arbitrary: h) (simp_all add: blob_le64_def Let_def)
  then show ?thesis by (simp add: pkset_preimage_def Let_def)
qed

interpretation pk_block: prefix_code "\<lambda>t. blob_le64 (tuple_encode_into t [])"
  "\<lambda>t. tuple_wf t \<and> length (tuple_encode_into t []) < 2 ^ 64"
  using blob64l.enc_cancel pk_tuple.enc_inj by unfold_locales blast

text \<open>The stream determines the multiset of tuples.\<close>

lemma pkset_preimage_mset:
  assumes "pkset_wf ts" and "pkset_wf us" and "pkset_preimage ts = pkset_preimage us"
  shows "mset ts = mset us"
proof -
  have small: "length ts < 2 ^ 64" "length us < 2 ^ 64"
    using assms(1,2) by (simp_all add: pkset_wf_def)
  have "u64_le (word_of_nat (length ts)) @ concat (map (\<lambda>t. blob_le64 (tuple_encode_into t [])) (sort ts))
      = u64_le (word_of_nat (length us)) @ concat (map (\<lambda>t. blob_le64 (tuple_encode_into t [])) (sort us))"
    using assms(3) unfolding pkset_preimage_eq by (rule same_append_eq [THEN iffD1])
  then have eq: "le_bytes 8 (length (sort ts)) @ concat (map (\<lambda>t. blob_le64 (tuple_encode_into t [])) (sort ts)) @ []
      = le_bytes 8 (length (sort us)) @ concat (map (\<lambda>t. blob_le64 (tuple_encode_into t [])) (sort us)) @ []"
    by (simp only: u64_le_of_nat [OF small(1)] u64_le_of_nat [OF small(2)] length_sort append_Nil2)
  have bound: "length (sort ts) < 256 ^ 8" "length (sort us) < 256 ^ 8"
    using small by (simp_all only: length_sort) simp_all
  have "sort ts = sort us \<and> [] = ([] :: bytes)"
    using assms(1,2) by (intro pk_block.enc_count_cancel [OF _ _ bound eq]) (simp_all add: pkset_wf_def)
  then have "mset (sort ts) = mset (sort us)" by simp
  then show ?thesis by simp
qed

lemma pkset_preimage_perm: "mset ts = mset us \<Longrightarrow> pkset_preimage ts = pkset_preimage us"
proof -
  assume eq: "mset ts = mset us"
  then have "sort ts = sort us" by (intro properties_for_sort) simp_all
  then show ?thesis by (simp add: pkset_preimage_eq mset_eq_length [OF eq])
qed

text \<open>A caller pushes the affected rows one by one and stops at the first error.\<close>

definition pushes :: "pk_set_builder \<Rightarrow> pk_tuple list \<Rightarrow> checksum_error + pk_set_builder" where
  "pushes b ts = foldl (\<lambda>r t. rbind r (\<lambda>b. psb_push b t)) (Inr b) ts"

lemma pushes_Nil [simp]: "pushes b [] = Inr b"
  by (simp add: pushes_def)

lemma pushes_Cons [simp]: "pushes b (t # ts) = rbind (psb_push b t) (\<lambda>b'. pushes b' ts)"
proof (cases "psb_push b t")
  case (Inl e)
  have "foldl (\<lambda>r t. rbind r (\<lambda>b. psb_push b t)) (Inl e) ts = Inl e"
    by (induction ts) simp_all
  with Inl show ?thesis by (simp add: pushes_def)
next
  case (Inr b')
  then show ?thesis by (simp add: pushes_def)
qed

lemma pushes_tuples:
  "pushes b ts = Inr b' \<Longrightarrow> psb_tuples b' = psb_tuples b @ ts
    \<and> psb_pk_less b' = psb_pk_less b \<and> psb_relation b' = psb_relation b"
  by (induction ts arbitrary: b)
    (auto simp: rbind_Inr_iff psb_push_def split: option.splits if_splits)

lemma pushes_arity_Some:
  "psb_arity b = Some n \<Longrightarrow> is_ok (pushes b ts) \<longleftrightarrow> (\<forall>t \<in> set ts. length t = n)"
  by (induction ts arbitrary: b) (auto simp: psb_push_def)

lemma pushes_ok_iff_one_arity:
  "is_ok (pushes (for_relation r) ts) \<longleftrightarrow> (\<exists>n. \<forall>t \<in> set ts. length t = n)"
  by (cases ts) (auto simp: psb_push_def for_relation_def pushes_arity_Some)

text \<open>
  C32: collected in any order and for any two relations, the affected rows get the same checksum
  exactly when they are the same multiset of key tuples, provided SHA-256 does not collide on the
  two byte streams and the hex encoder is injective. A change of row identity at an unchanged row
  count is therefore always visible.
\<close>

theorem pk_checksum_iff_same_rows:
  assumes "inj hex_encode"
    and "inj_on sha256 {pkset_preimage ts, pkset_preimage us}"
    and "pkset_wf ts" and "pkset_wf us"
    and "pushes (for_relation ra) ts = Inr a" and "pushes (for_relation rb) us = Inr b"
  shows "is_ok (psb_finalize sha256 hex_encode a) \<and> is_ok (psb_finalize sha256 hex_encode b)
    \<and> (psb_finalize sha256 hex_encode a = psb_finalize sha256 hex_encode b
       \<longleftrightarrow> mset ts = mset us)"
proof -
  have tuples: "psb_tuples a = ts" "psb_tuples b = us" "\<not> psb_pk_less a" "\<not> psb_pk_less b"
    using pushes_tuples [OF assms(5)] pushes_tuples [OF assms(6)] by (simp_all add: for_relation_def)
  have "hex_encode (sha256 (pkset_preimage ts)) = hex_encode (sha256 (pkset_preimage us))
      \<longleftrightarrow> pkset_preimage ts = pkset_preimage us"
    using assms(1,2) by (auto dest: injD inj_onD)
  also have "\<dots> \<longleftrightarrow> mset ts = mset us"
    using pkset_preimage_mset [OF assms(3,4)] pkset_preimage_perm by blast
  finally show ?thesis by (simp add: psb_finalize_def tuples)
qed

theorem pk_checksum_iff_same_rows_witness:
  "\<exists>a b. pushes (for_relation ''a'') [[PkInt 1], [PkInt 2]] = Inr a
     \<and> pushes (for_relation ''a'') [[PkInt 1], [PkInt 3]] = Inr b
     \<and> psb_finalize id str_of_bytes a \<noteq> psb_finalize id str_of_bytes b"
proof -
  obtain a b where ab: "pushes (for_relation ''a'') [[PkInt 1], [PkInt 2]] = Inr a"
      "pushes (for_relation ''a'') [[PkInt 1], [PkInt 3]] = Inr b"
    by (simp add: psb_push_def for_relation_def)
  have wf: "pkset_wf [[PkInt 1], [PkInt 2]]" "pkset_wf [[PkInt 1], [PkInt 3]]"
    by (simp_all add: pkset_wf_def tuple_wf_def tuple_encode_into_eq pk_encode_into_eq blob_le32_def)
  have "inj str_of_bytes" by (metis as_str_of_bytes injI)
  from pk_checksum_iff_same_rows [OF this _ wf ab, of id]
  have "psb_finalize id str_of_bytes a \<noteq> psb_finalize id str_of_bytes b" by simp
  with ab show ?thesis by blast
qed

end
