(* ===== verification/Core_Inverse.thy ===== *)
theory Core_Inverse
  imports Core_Pk_Checksum
begin

text \<open>
  The typed inverse and the default-deny certified action set
  (\<^verbatim>\<open>crates/core/src/inverse.rs\<close>).
\<close>

section \<open>Inverse plans\<close>

datatype inverse_kind = PreimageUpsert | InvInsert | InvNone

definition inverse_for_update :: inverse_kind where
  "inverse_for_update = PreimageUpsert"

definition inverse_for_delete :: inverse_kind where
  "inverse_for_delete = InvInsert"

type_synonym image_value = pk_value

record inverse_row =
  ir_pk :: pk_tuple
  ir_before_image :: "(string \<times> image_value) list"

datatype not_restored = SequenceAdvance | TriggerSideEffect | NotifyDelivered

definition not_restored_all :: "not_restored list" where
  "not_restored_all = [SequenceAdvance, TriggerSideEffect, NotifyDelivered]"

record inverse_plan =
  ip_relation :: string
  ip_kind :: inverse_kind
  ip_rows :: "inverse_row list"
  ip_fk_order :: "string list"
  ip_not_restored :: "not_restored list"

record inverse_plan_builder =
  ipb_relation :: string
  ipb_kind :: inverse_kind
  ipb_rows :: "inverse_row list"
  ipb_fk_order :: "string list"

definition ipb_new :: "string \<Rightarrow> inverse_kind \<Rightarrow> inverse_plan_builder" where
  "ipb_new relation kind =
     \<lparr>ipb_relation = relation, ipb_kind = kind, ipb_rows = [], ipb_fk_order = [relation]\<rparr>"

definition ipb_push_row :: "inverse_plan_builder \<Rightarrow> inverse_row \<Rightarrow> inverse_plan_builder" where
  "ipb_push_row b row = b\<lparr>ipb_rows := ipb_rows b @ [row]\<rparr>"

definition ipb_set_fk_order :: "inverse_plan_builder \<Rightarrow> string list \<Rightarrow> inverse_plan_builder" where
  "ipb_set_fk_order b order = b\<lparr>ipb_fk_order := order\<rparr>"

definition ipb_build :: "inverse_plan_builder \<Rightarrow> inverse_plan" where
  "ipb_build b =
     \<lparr>ip_relation = ipb_relation b, ip_kind = ipb_kind b, ip_rows = ipb_rows b,
      ip_fk_order = ipb_fk_order b, ip_not_restored = not_restored_all\<rparr>"

lemma foldl_push_row:
  "foldl ipb_push_row b rows = b\<lparr>ipb_rows := ipb_rows b @ rows\<rparr>"
  by (induction rows arbitrary: b) (simp_all add: ipb_push_row_def)

section \<open>The certified action set\<close>

datatype certified_action = BoundedUpdate | BoundedDelete | NonVolatileInsert

datatype refused_op =
    RefusedTruncate
  | RefusedDrop
  | RefusedAlter
  | VolatileDefaultInsert
  | DeleteWithoutPreimage
  | PkLessTable
  | NotCertified string

text \<open>\<open>OpUpdate has_preimage has_pk\<close>, \<open>OpInsert volatile_default has_pk\<close>.\<close>

datatype operation =
    OpUpdate bool bool
  | OpDelete bool bool
  | OpInsert bool bool
  | OpTruncate
  | OpDrop
  | OpAlter
  | OpUnknown string

fun certify :: "operation \<Rightarrow> refused_op + certified_action" where
  "certify (OpUpdate True True) = Inr BoundedUpdate"
| "certify (OpDelete True True) = Inr BoundedDelete"
| "certify (OpInsert False True) = Inr NonVolatileInsert"
| "certify (OpUpdate _ False) = Inl PkLessTable"
| "certify (OpDelete _ False) = Inl PkLessTable"
| "certify (OpInsert _ False) = Inl PkLessTable"
| "certify (OpDelete False _) = Inl DeleteWithoutPreimage"
| "certify (OpUpdate False _) = Inl (NotCertified ''UPDATE without pre-image'')"
| "certify (OpInsert True _) = Inl VolatileDefaultInsert"
| "certify OpTruncate = Inl RefusedTruncate"
| "certify OpDrop = Inl RefusedDrop"
| "certify OpAlter = Inl RefusedAlter"
| "certify (OpUnknown name) = Inl (NotCertified name)"

fun_cases certify_okE: "certify op = Inr a"

text \<open>An operation that a primary key and, for a row it changes or removes, a pre-image make reversible.\<close>

fun reversible_op :: "operation \<Rightarrow> bool" where
  "reversible_op (OpUpdate has_preimage has_pk) = (has_preimage \<and> has_pk)"
| "reversible_op (OpDelete has_preimage has_pk) = (has_preimage \<and> has_pk)"
| "reversible_op (OpInsert volatile_default has_pk) = (\<not> volatile_default \<and> has_pk)"
| "reversible_op _ = False"

text \<open>
  The choke point certifies exactly the reversible operations on tables with a usable key;
  structural operations, unknown ones, writes to key-less tables, changes with no pre-image and
  inserts with a volatile default are all refused.
\<close>

lemma certify_default_deny: "is_ok (certify op) \<longleftrightarrow> reversible_op op"
  by (cases op rule: certify.cases) simp_all

end
