(* ===== verification/Btree_Map.thy ===== *)
theory Btree_Map
  imports Base_Prelude
begin

text \<open>
  Rust's \<^verbatim>\<open>BTreeMap\<close>, whose iteration order the sources rely on: a list of key-value pairs sorted
  strictly by key. \<open>bt_insert\<close> replaces the value of a key that is present, as \<^verbatim>\<open>insert\<close> does.
\<close>

type_synonym ('k, 'v) btree = "('k \<times> 'v) list"

abbreviation bt_get :: "('k, 'v) btree \<Rightarrow> 'k \<Rightarrow> 'v option" where
  "bt_get \<equiv> map_of"

abbreviation bt_keys :: "('k, 'v) btree \<Rightarrow> 'k list" where
  "bt_keys \<equiv> map fst"

abbreviation bt_values :: "('k, 'v) btree \<Rightarrow> 'v list" where
  "bt_values \<equiv> map snd"

definition bt_contains :: "('k, 'v) btree \<Rightarrow> 'k \<Rightarrow> bool" where
  "bt_contains m k = (bt_get m k \<noteq> None)"

definition bt_wf :: "('k::linorder, 'v) btree \<Rightarrow> bool" where
  "bt_wf m = sorted_wrt (<) (bt_keys m)"

fun bt_insert :: "'k::linorder \<Rightarrow> 'v \<Rightarrow> ('k, 'v) btree \<Rightarrow> ('k, 'v) btree" where
  "bt_insert k v [] = [(k, v)]"
| "bt_insert k v ((k', v') # m) =
     (if k < k' then (k, v) # (k', v') # m
      else if k = k' then (k, v) # m
      else (k', v') # bt_insert k v m)"

text \<open>The contract a client of an ordered map relies on.\<close>

locale ordered_map =
  fixes empty :: 'm
    and insert :: "'k \<Rightarrow> 'v \<Rightarrow> 'm \<Rightarrow> 'm"
    and lookup :: "'m \<Rightarrow> 'k \<Rightarrow> 'v option"
    and keys :: "'m \<Rightarrow> 'k list"
    and invar :: "'m \<Rightarrow> bool"
  assumes lookup_empty: "lookup empty k = None"
    and lookup_insert: "invar m \<Longrightarrow> lookup (insert k v m) k' = (if k' = k then Some v else lookup m k')"
    and keys_lookup: "invar m \<Longrightarrow> k \<in> set (keys m) \<longleftrightarrow> lookup m k \<noteq> None"
    and keys_distinct: "invar m \<Longrightarrow> distinct (keys m)"
    and invar_empty: "invar empty"
    and invar_insert: "invar m \<Longrightarrow> invar (insert k v m)"
begin

definition build :: "('k \<times> 'v) list \<Rightarrow> 'm" where
  "build kvs = foldl (\<lambda>m (k, v). insert k v m) empty kvs"

lemma foldl_insert_invar: "invar m \<Longrightarrow> invar (foldl (\<lambda>m (k, v). insert k v m) m kvs)"
  by (induction kvs arbitrary: m) (auto simp: invar_insert)

lemma foldl_insert_lookup:
  "invar m \<Longrightarrow> lookup (foldl (\<lambda>m (k, v). insert k v m) m kvs) k
    = (case map_of (rev kvs) k of Some v \<Rightarrow> Some v | None \<Rightarrow> lookup m k)"
  by (induction kvs arbitrary: m)
    (auto simp: invar_insert lookup_insert map_add_def split: option.splits)

lemma build_invar: "invar (build kvs)"
  by (simp add: build_def foldl_insert_invar invar_empty)

lemma build_lookup: "lookup (build kvs) k = map_of (rev kvs) k"
  by (simp add: build_def foldl_insert_lookup invar_empty lookup_empty split: option.splits)

end

lemma set_bt_keys_insert: "fst ` set (bt_insert k v m) = insert k (fst ` set m)"
  by (induction k v m rule: bt_insert.induct) (simp_all add: insert_commute)

lemma bt_wf_Cons: "bt_wf (p # m) \<longleftrightarrow> (\<forall>j \<in> fst ` set m. fst p < j) \<and> bt_wf m"
  by (simp add: bt_wf_def)

lemma bt_wf_small [simp]: "bt_wf []" "bt_wf [p]"
  by (simp_all add: bt_wf_def)

lemma bt_wf_insert: "bt_wf m \<Longrightarrow> bt_wf (bt_insert k v m)"
proof (induction k v m rule: bt_insert.induct)
  case (1 k v)
  then show ?case by (simp add: bt_wf_def)
next
  case (2 k v k' v' m)
  then show ?case by (auto simp: bt_wf_Cons set_bt_keys_insert)
qed

lemma bt_get_insert:
  "bt_wf m \<Longrightarrow> bt_get (bt_insert k v m) k' = (if k' = k then Some v else bt_get m k')"
  by (induction m) (auto simp: bt_wf_def)

interpretation bt: ordered_map "[]" bt_insert bt_get bt_keys bt_wf
proof
  fix m :: "('a::linorder, 'b) btree" and k k' :: 'a and v :: 'b
  show "bt_wf m \<Longrightarrow> distinct (bt_keys m)"
    by (simp add: bt_wf_def strict_sorted_iff)
  show "k \<in> set (bt_keys m) \<longleftrightarrow> bt_get m k \<noteq> None"
    by (simp add: map_of_eq_None_iff)
qed (simp_all add: bt_get_insert bt_wf_insert)

lemma bt_contains_iff: "bt_contains m k \<longleftrightarrow> k \<in> set (bt_keys m)"
  by (simp add: bt_contains_def map_of_eq_None_iff)

end
