(* ===== verification/Core_Blast_Radius.thy ===== *)
theory Core_Blast_Radius
  imports Core_Inverse Btree_Map
begin

text \<open>
  The blast-radius record (\<^verbatim>\<open>crates/core/src/blast_radius.rs\<close>): per-relation change counts, the
  affected rows, the approved cap and the derived magnitudes. The floating-point headroom
  computation of \<^verbatim>\<open>suggested_cap\<close> is a parameter (\<open>headroom_extra\<close>): it yields the ceiled extra
  term, or \<open>None\<close> where the source saturates because the product is not finite or too large.
\<close>

record op_counts =
  oc_ins :: u64
  oc_upd :: u64
  oc_del :: u64

definition op_counts_new :: "u64 \<Rightarrow> u64 \<Rightarrow> u64 \<Rightarrow> op_counts" where
  "op_counts_new i u d = \<lparr>oc_ins = i, oc_upd = u, oc_del = d\<rparr>"

definition op_counts_default :: op_counts where
  "op_counts_default = op_counts_new 0 0 0"

definition op_counts_total :: "op_counts \<Rightarrow> u64" where
  "op_counts_total c = sat_add (sat_add (oc_ins c) (oc_upd c)) (oc_del c)"

definition op_counts_is_empty :: "op_counts \<Rightarrow> bool" where
  "op_counts_is_empty c = (op_counts_total c = 0)"

record affected =
  by_table :: "(string, u64) btree"
  cascade_by_table :: "(string, u64) btree"
  pk_set_checksum :: "(string, string) btree"
  effect_by_table :: "(string, op_counts) btree"
  total_rows :: u64

record write_cap =
  max_rows :: u64
  max_wal_bytes :: u64

record trigger_fired =
  tf_name :: string
  tf_rows :: u64

datatype lock_mode =
    AccessShareLock | RowShareLock | RowExclusiveLock | ShareUpdateExclusiveLock
  | ShareLock | ShareRowExclusiveLock | ExclusiveLock | AccessExclusiveLock

primrec lock_rank :: "lock_mode \<Rightarrow> nat" where
  "lock_rank AccessShareLock = 0"
| "lock_rank RowShareLock = 1"
| "lock_rank RowExclusiveLock = 2"
| "lock_rank ShareUpdateExclusiveLock = 3"
| "lock_rank ShareLock = 4"
| "lock_rank ShareRowExclusiveLock = 5"
| "lock_rank ExclusiveLock = 6"
| "lock_rank AccessExclusiveLock = 7"

lemma lock_rank_inj [simp]: "lock_rank a = lock_rank b \<longleftrightarrow> a = b"
  by (cases a; cases b) simp_all

instantiation lock_mode :: linorder
begin

definition less_eq_lock_mode :: "lock_mode \<Rightarrow> lock_mode \<Rightarrow> bool" where
  "less_eq_lock_mode a b = (lock_rank a \<le> lock_rank b)"

definition less_lock_mode :: "lock_mode \<Rightarrow> lock_mode \<Rightarrow> bool" where
  "less_lock_mode a b = (lock_rank a < lock_rank b)"

instance
  by standard (auto simp: less_eq_lock_mode_def less_lock_mode_def)

end

record lock_held =
  lk_relation :: string
  lk_mode :: lock_mode
  lk_held_ms :: u64

record constraint_violation =
  cv_relation :: string
  cv_constraint :: string

record blast_radius =
  br_proposal_id :: string
  br_clone_lsn :: string
  br_staleness_lsn_bytes :: u64
  br_affected :: affected
  br_triggers_fired :: "trigger_fired list"
  br_locks :: "lock_held list"
  br_max_lock_mode :: lock_mode
  br_duration_ms :: u64
  br_wal_bytes :: u64
  br_constraint_violations :: "constraint_violation list"
  br_reversible :: bool
  br_inverse_kind :: inverse_kind
  br_predicate_volatile :: bool

definition computed_max_lock_mode :: "blast_radius \<Rightarrow> lock_mode option" where
  "computed_max_lock_mode br =
     (case map lk_mode (br_locks br) of [] \<Rightarrow> None | m # ms \<Rightarrow> Some (foldl max m ms))"

text \<open>\<^verbatim>\<open>Iterator::sum\<close> on \<^verbatim>\<open>u64\<close> wraps in a release build; only the final addition saturates.\<close>

definition computed_total_rows :: "blast_radius \<Rightarrow> u64" where
  "computed_total_rows br =
     (let direct = sum_list (bt_values (by_table (br_affected br)));
          cascade = sum_list (bt_values (cascade_by_table (br_affected br)))
      in sat_add direct cascade)"

definition predicted_total_tuples :: "blast_radius \<Rightarrow> u64" where
  "predicted_total_tuples br =
     (let measured = foldl sat_add 0 (map op_counts_total (bt_values (effect_by_table (br_affected br))))
      in if measured = 0 then computed_total_rows br else measured)"

definition with_headroom :: "(u64 \<Rightarrow> u64 option) \<Rightarrow> u64 \<Rightarrow> u64" where
  "with_headroom headroom_extra base =
     (case headroom_extra base of None \<Rightarrow> - 1 | Some extra_ceiled \<Rightarrow> sat_add base extra_ceiled)"

definition suggested_cap :: "(u64 \<Rightarrow> u64 option) \<Rightarrow> blast_radius \<Rightarrow> write_cap" where
  "suggested_cap headroom_extra br =
     (let rows_base = max (predicted_total_tuples br) 1
      in \<lparr>max_rows = with_headroom headroom_extra rows_base,
          max_wal_bytes = with_headroom headroom_extra (br_wal_bytes br)\<rparr>)"

section \<open>Saturating totals\<close>

lemma foldl_sat_add:
  "unat (foldl sat_add (a :: 'a::len word) xs)
    = min (unat a + sum_list (map unat xs)) (2 ^ LENGTH('a) - 1)"
proof (induction xs arbitrary: a)
  case Nil
  show ?case using unat_le_max [of a] by simp
next
  case (Cons x xs)
  then show ?case by (simp add: sat_simps)
qed

lemma unat_op_counts_total:
  "unat (op_counts_total c) = min (unat (oc_ins c) + unat (oc_upd c) + unat (oc_del c)) (2 ^ 64 - 1)"
  by (simp add: op_counts_total_def sat_simps)

lemma op_counts_total_0 [simp]:
  "op_counts_total c = 0 \<longleftrightarrow> oc_ins c = 0 \<and> oc_upd c = 0 \<and> oc_del c = 0"
proof -
  have "op_counts_total c = 0 \<longleftrightarrow> unat (op_counts_total c) = 0" by (simp add: unat_eq_0)
  also have "\<dots> \<longleftrightarrow> unat (oc_ins c) = 0 \<and> unat (oc_upd c) = 0 \<and> unat (oc_del c) = 0"
    by (auto simp: unat_op_counts_total min_def)
  finally show ?thesis by (simp add: unat_eq_0)
qed

lemma max_word_ge [simp]: "a \<le> (- 1 :: 'a::len word)"
  by simp

lemma with_headroom_ge: "base \<le> with_headroom f base"
  by (simp add: with_headroom_def split: option.splits)

lemma foldl_max_in: "foldl max (m :: 'a::linorder) ms \<in> set (m # ms)"
proof (induction ms arbitrary: m)
  case (Cons x xs)
  from Cons [of "max m x"] show ?case by (auto simp: max_def split: if_splits)
qed simp

lemma foldl_max_start: "(m :: 'a::linorder) \<le> foldl max m ms"
  by (induction ms arbitrary: m) (auto intro: order_trans [OF max.cobounded1])

lemma foldl_max_ge: "x \<in> set (m # ms) \<Longrightarrow> x \<le> foldl max (m :: 'a::linorder) ms"
proof (induction ms arbitrary: m)
  case (Cons y ys)
  have "m \<le> foldl max (max m y) ys" "y \<le> foldl max (max m y) ys"
    using foldl_max_start [of "max m y" ys] by simp_all
  with Cons show ?case by auto
qed simp

text \<open>
  The mode reported for a record with locks is one of the modes taken and at least as strong
  as every mode taken; a record with no locks reports none.
\<close>

lemma computed_max_lock_mode_strongest:
  "(computed_max_lock_mode br = None \<longleftrightarrow> br_locks br = [])
   \<and> (\<forall>m. computed_max_lock_mode br = Some m
        \<longrightarrow> m \<in> lk_mode ` set (br_locks br) \<and> (\<forall>l \<in> set (br_locks br). lk_mode l \<le> m))"
proof (cases "br_locks br")
  case Nil
  then show ?thesis by (simp add: computed_max_lock_mode_def)
next
  case (Cons l ls)
  have "foldl max (lk_mode l) (map lk_mode ls) \<in> lk_mode ` set (br_locks br)"
    using foldl_max_in [of "lk_mode l" "map lk_mode ls"] Cons by auto
  moreover have "\<forall>k \<in> set (br_locks br). lk_mode k \<le> foldl max (lk_mode l) (map lk_mode ls)"
    using foldl_max_ge [of _ "lk_mode l" "map lk_mode ls"] Cons by simp
  ultimately show ?thesis by (simp add: computed_max_lock_mode_def Cons)
qed

text \<open>
  Whatever headroom the floating-point term yields, the suggested cap admits the write it was
  suggested for: its row bound is at least the predicted magnitude and at least one, and its WAL
  bound at least the measured WAL volume.
\<close>

lemma suggested_cap_admits_prediction:
  "predicted_total_tuples br \<le> max_rows (suggested_cap f br)
   \<and> 1 \<le> max_rows (suggested_cap f br)
   \<and> br_wal_bytes br \<le> max_wal_bytes (suggested_cap f br)"
proof -
  let ?base = "max (predicted_total_tuples br) 1"
  have "?base \<le> max_rows (suggested_cap f br)"
    using with_headroom_ge [of ?base f] by (simp add: suggested_cap_def)
  moreover have "predicted_total_tuples br \<le> ?base" "1 \<le> ?base" by simp_all
  ultimately have "predicted_total_tuples br \<le> max_rows (suggested_cap f br)"
    and "1 \<le> max_rows (suggested_cap f br)" by (blast intro: order_trans)+
  then show ?thesis by (simp add: suggested_cap_def with_headroom_ge)
qed

end
