(* ===== verification/Orch_Dry_Run.thy ===== *)
theory Orch_Dry_Run
  imports Core_Blast_Radius Core_Session
begin

text \<open>
  Proposals and the dry run (\<^verbatim>\<open>crates/clone-orchestrator/src/proposal.rs\<close> and
  \<^verbatim>\<open>dry_run.rs\<close>): the TTL on the monotonic clock, the refusal pipeline that runs before any
  rehearsal, and the assembly of the measured facts into the blast-radius record.
  The SQL parser is not part of the sources: it is a parameter, and so are the two gates that walk
  a predicate's syntax tree (\<^verbatim>\<open>predicate_volatile_reason\<close>, \<^verbatim>\<open>self_determined_predicate_reason\<close>) and
  the rehearsal backend.
\<close>

section \<open>Proposals\<close>

definition DEFAULT_TTL_MILLIS :: u64 where
  "DEFAULT_TTL_MILLIS = 15 * 60 * 1000"

record proposal =
  pr_id :: string
  pr_statement :: string
  pr_expected_rows :: "u64 option"
  pr_created_unix_millis :: u64
  pr_created_monotonic_millis :: u64
  pr_ttl_millis :: u64

definition proposal_is_expired :: "proposal \<Rightarrow> clock \<Rightarrow> bool" where
  "proposal_is_expired p clk =
     (let now = monotonic_millis clk
      in pr_ttl_millis p \<le> sat_sub now (pr_created_monotonic_millis p))"

definition proposal_remaining_millis :: "proposal \<Rightarrow> clock \<Rightarrow> u64" where
  "proposal_remaining_millis p clk =
     (let elapsed = sat_sub (monotonic_millis clk) (pr_created_monotonic_millis p)
      in sat_sub (pr_ttl_millis p) elapsed)"

text \<open>FNV-1a over the defining fields; \<open>hex16\<close> is the \<^verbatim>\<open>{:016x}\<close> rendering.\<close>

unbundle bit_operations_syntax

definition fnv_mix :: "u64 \<Rightarrow> bytes \<Rightarrow> u64" where
  "fnv_mix h bs = foldl (\<lambda>h b. (h XOR ucast b) * 0x100000001b3) h bs"

definition hex_digit :: "nat \<Rightarrow> char" where
  "hex_digit n = (if n < 10 then char_of (48 + n) else char_of (87 + n))"

definition hex16 :: "u64 \<Rightarrow> string" where
  "hex16 h = map (\<lambda>i. hex_digit (unat h div 16 ^ i mod 16)) (rev [0..<16])"

definition make_id :: "string \<Rightarrow> u64 option \<Rightarrow> u64 \<Rightarrow> u64 \<Rightarrow> string" where
  "make_id statement expected_rows created_millis seq =
     (let h = 0xcbf29ce484222325;
          h = fnv_mix h (as_bytes statement);
          h = fnv_mix h (u64_le (case expected_rows of None \<Rightarrow> - 1 | Some n \<Rightarrow> n));
          h = fnv_mix h (u64_le created_millis);
          h = fnv_mix h (u64_le seq)
      in ''p-'' @ hex16 h)"

text \<open>The process-wide sequence counter is passed in and returned.\<close>

definition propose_with_ttl ::
  "string \<Rightarrow> u64 option \<Rightarrow> u64 \<Rightarrow> clock \<Rightarrow> u64 \<Rightarrow> proposal \<times> u64" where
  "propose_with_ttl statement expected_rows ttl_millis clk seq =
     (\<lparr>pr_id = make_id statement expected_rows (now_unix_millis clk) seq,
       pr_statement = statement, pr_expected_rows = expected_rows,
       pr_created_unix_millis = now_unix_millis clk,
       pr_created_monotonic_millis = monotonic_millis clk,
       pr_ttl_millis = ttl_millis\<rparr>, seq + 1)"

definition propose :: "string \<Rightarrow> u64 option \<Rightarrow> clock \<Rightarrow> u64 \<Rightarrow> proposal \<times> u64" where
  "propose statement expected_rows clk seq =
     propose_with_ttl statement expected_rows DEFAULT_TTL_MILLIS clk seq"

section \<open>Write kinds and measurements\<close>

datatype write_kind = Update | Delete

fun write_kind_inverse :: "write_kind \<Rightarrow> inverse_kind" where
  "write_kind_inverse Update = inverse_for_update"
| "write_kind_inverse Delete = inverse_for_delete"

fun write_kind_op_counts :: "write_kind \<Rightarrow> u64 \<Rightarrow> op_counts" where
  "write_kind_op_counts Update n = op_counts_new 0 n 0"
| "write_kind_op_counts Delete n = op_counts_new 0 0 n"

datatype ('v, 'n) dry_run_error =
    Volatile 'v
  | NotRehearsable string
  | NotSelfDetermined 'n
  | PkLess string
  | Expired string
  | DryBackend string

record affected_table =
  at_relation :: string
  at_checksum :: "pk_checksum option"
  at_rows :: u64

record relation_effect =
  re_relation :: string
  re_counts :: op_counts

record measurement =
  m_target :: affected_table
  m_cascades :: "affected_table list"
  m_full_effect :: "relation_effect list"
  m_triggers_fired :: "trigger_fired list"
  m_locks :: "lock_held list"
  m_duration_ms :: u64
  m_wal_bytes :: u64
  m_constraint_violations :: "constraint_violation list"
  m_clone_lsn :: string
  m_staleness_lsn_bytes :: u64

section \<open>Assembly\<close>

text \<open>The cascade loop: the four accumulators, or the first relation without a key.\<close>

fun fold_cascades ::
  "affected_table list \<Rightarrow> (string, u64) btree \<Rightarrow> (string, string) btree \<Rightarrow> u64
    \<Rightarrow> ('v, 'n) dry_run_error + (string, u64) btree \<times> (string, string) btree \<times> u64" where
  "fold_cascades [] cascade_map checksums tot = Inr (cascade_map, checksums, tot)"
| "fold_cascades (c # cs) cascade_map checksums tot =
     (case at_checksum c of
        None \<Rightarrow> Inl (PkLess (at_relation c))
      | Some k \<Rightarrow> fold_cascades cs (bt_insert (at_relation c) (at_rows c) cascade_map)
          (bt_insert (at_relation c) (as_prefixed k) checksums) (sat_add tot (at_rows c)))"

definition assemble_effect :: "write_kind \<Rightarrow> measurement \<Rightarrow> (string, op_counts) btree" where
  "assemble_effect kind m =
     (if m_full_effect m = [] then
        foldl (\<lambda>e c. bt_insert (at_relation c) (write_kind_op_counts kind (at_rows c)) e)
          (bt_insert (at_relation (m_target m)) (write_kind_op_counts kind (at_rows (m_target m))) [])
          (m_cascades m)
      else foldl (\<lambda>e r. bt_insert (re_relation r) (re_counts r) e) [] (m_full_effect m))"

definition assemble ::
  "proposal \<Rightarrow> write_kind \<Rightarrow> measurement \<Rightarrow> ('v, 'n) dry_run_error + blast_radius" where
  "assemble p kind m =
     (case at_checksum (m_target m) of
        None \<Rightarrow> Inl (PkLess (at_relation (m_target m)))
      | Some k \<Rightarrow>
          rbind (fold_cascades (m_cascades m) []
              (bt_insert (at_relation (m_target m)) (as_prefixed k) []) (at_rows (m_target m)))
            (\<lambda>(cascade_map, checksums, tot).
              Inr \<lparr>br_proposal_id = pr_id p, br_clone_lsn = m_clone_lsn m,
                   br_staleness_lsn_bytes = m_staleness_lsn_bytes m,
                   br_affected =
                     \<lparr>by_table = bt_insert (at_relation (m_target m)) (at_rows (m_target m)) [],
                      cascade_by_table = cascade_map, pk_set_checksum = checksums,
                      effect_by_table = assemble_effect kind m, total_rows = tot\<rparr>,
                   br_triggers_fired = m_triggers_fired m, br_locks = m_locks m,
                   br_max_lock_mode =
                     (case map lk_mode (m_locks m) of
                        [] \<Rightarrow> RowExclusiveLock | l # ls \<Rightarrow> foldl max l ls),
                   br_duration_ms = m_duration_ms m, br_wal_bytes = m_wal_bytes m,
                   br_constraint_violations = m_constraint_violations m,
                   br_reversible = True, br_inverse_kind = write_kind_inverse kind,
                   br_predicate_volatile = False\<rparr>))"

section \<open>The pipeline\<close>

text \<open>
  The part of the parser's syntax tree that the classification looks at: a target is a table named
  by its parts or something else, and a statement is an update, a delete or another kind.
\<close>

datatype table_factor = TableName "string list" | OtherFactor

datatype sql_statement =
    SqlUpdate table_factor
  | SqlDelete "table_factor list"
  | SqlInsert
  | SqlTruncate
  | SqlDrop
  | SqlAlterTable
  | SqlCreateTable
  | SqlQuery
  | SqlMerge
  | SqlOther

fun join_with :: "string \<Rightarrow> string list \<Rightarrow> string" where
  "join_with sep [] = []"
| "join_with sep [x] = x"
| "join_with sep (x # y # ys) = x @ sep @ join_with sep (y # ys)"

fun relation_of_table_factor :: "table_factor \<Rightarrow> string option" where
  "relation_of_table_factor (TableName parts) =
     (case parts of [part] \<Rightarrow> Some (''public.'' @ part) | _ \<Rightarrow> Some (join_with ''.'' parts))"
| "relation_of_table_factor OtherFactor = None"

fun stmt_label :: "sql_statement \<Rightarrow> string" where
  "stmt_label SqlInsert = ''INSERT''"
| "stmt_label SqlTruncate = ''TRUNCATE''"
| "stmt_label SqlDrop = ''DROP''"
| "stmt_label SqlAlterTable = ''ALTER''"
| "stmt_label SqlCreateTable = ''CREATE TABLE''"
| "stmt_label SqlQuery = ''SELECT''"
| "stmt_label SqlMerge = ''MERGE''"
| "stmt_label _ = ''unsupported''"

definition classify ::
  "(string \<Rightarrow> string + sql_statement list) \<Rightarrow> string \<Rightarrow> ('v, 'n) dry_run_error + write_kind \<times> string" where
  "classify parse_sql statement =
     (case parse_sql statement of
        Inl e \<Rightarrow> Inl (NotRehearsable (''parse error: '' @ e))
      | Inr [SqlUpdate target] \<Rightarrow>
          (case relation_of_table_factor target of
             None \<Rightarrow> Inl (NotRehearsable ''UPDATE target is not a plain table'')
           | Some rel \<Rightarrow> Inr (Update, rel))
      | Inr [SqlDelete []] \<Rightarrow> Inl (NotRehearsable ''DELETE has no target table'')
      | Inr [SqlDelete (target # _)] \<Rightarrow>
          (case relation_of_table_factor target of
             None \<Rightarrow> Inl (NotRehearsable ''DELETE target is not a plain table'')
           | Some rel \<Rightarrow> Inr (Delete, rel))
      | Inr [other] \<Rightarrow>
          Inl (NotRehearsable (''statement kind `'' @ stmt_label other @ ''` is not a certified rehearsable write''))
      | Inr parsed \<Rightarrow>
          Inl (NotRehearsable (''expected exactly one statement, got '' @ decimal (length parsed))))"

datatype volatility = Immutable | Stable | VolatileFn | UnknownFn

text \<open>
  The rehearsal backend over its own state. The two predicate gates read function volatility through
  it, so they take its \<open>volatility_of\<close> and move its state.
\<close>

record 's rehearsal =
  rh_volatility_of :: "string \<Rightarrow> 's \<Rightarrow> volatility \<times> 's"
  rh_certify_apply_shape :: "string \<Rightarrow> write_kind \<Rightarrow> string \<Rightarrow> 's \<Rightarrow> string option \<times> 's"
  rh_self_determined_pk_column :: "string \<Rightarrow> 's \<Rightarrow> string option \<times> 's"
  rh_rehearse :: "string \<Rightarrow> write_kind \<Rightarrow> string \<Rightarrow> ('s, string, measurement) eff"

definition dry_run ::
  "(string \<Rightarrow> string + sql_statement list)
    \<Rightarrow> (string \<Rightarrow> (string \<Rightarrow> 's \<Rightarrow> volatility \<times> 's) \<Rightarrow> 's \<Rightarrow> 'v option \<times> 's)
    \<Rightarrow> (string \<Rightarrow> string \<Rightarrow> (string \<Rightarrow> 's \<Rightarrow> volatility \<times> 's) \<Rightarrow> 's \<Rightarrow> 'n option \<times> 's)
    \<Rightarrow> proposal \<Rightarrow> 's rehearsal \<Rightarrow> clock \<Rightarrow> 's \<Rightarrow> (('v, 'n) dry_run_error + blast_radius) \<times> 's" where
  "dry_run parse_sql predicate_volatile_reason self_determined_predicate_reason p rh clk s0 =
     (if proposal_is_expired p clk then (Inl (Expired (pr_id p)), s0)
      else case classify parse_sql (pr_statement p) of
        Inl e \<Rightarrow> (Inl e, s0)
      | Inr (kind, target) \<Rightarrow>
      case predicate_volatile_reason (pr_statement p) (rh_volatility_of rh) s0 of
        (Some reason, s1) \<Rightarrow> (Inl (Volatile reason), s1)
      | (None, s1) \<Rightarrow>
      case rh_certify_apply_shape rh (pr_statement p) kind target s1 of
        (Some reason, s2) \<Rightarrow> (Inl (NotRehearsable reason), s2)
      | (None, s2) \<Rightarrow>
      case rh_self_determined_pk_column rh target s2 of (pk, s3) \<Rightarrow>
      case (case pk of
              None \<Rightarrow> (None, s3)
            | Some pk_col \<Rightarrow> self_determined_predicate_reason (pr_statement p) pk_col (rh_volatility_of rh) s3) of
        (Some reason, s4) \<Rightarrow> (Inl (NotSelfDetermined reason), s4)
      | (None, s4) \<Rightarrow>
      case rh_rehearse rh (pr_statement p) kind target s4 of
        (Inl msg, s5) \<Rightarrow> (Inl (DryBackend msg), s5)
      | (Inr m, s5) \<Rightarrow> (assemble p kind m, s5))"

section \<open>Correctness\<close>

lemma proposal_remaining_iff:
  "proposal_is_expired p clk \<longleftrightarrow> proposal_remaining_millis p clk = 0"
proof -
  let ?e = "sat_sub (monotonic_millis clk) (pr_created_monotonic_millis p)"
  have "sat_sub (pr_ttl_millis p) ?e = 0 \<longleftrightarrow> unat (sat_sub (pr_ttl_millis p) ?e) = 0"
    by (simp add: unat_eq_0)
  also have "\<dots> \<longleftrightarrow> pr_ttl_millis p \<le> ?e"
    by (simp add: sat_simps word_le_nat_alt)
  finally show ?thesis by (simp add: proposal_is_expired_def proposal_remaining_millis_def)
qed

lemma fold_cascades_ok:
  assumes "fold_cascades cs cm ck tot = Inr (cm', ck', tot')" and "bt_wf cm" and "bt_wf ck"
  shows "bt_wf cm' \<and> bt_wf ck'
    \<and> fst ` set cm' = fst ` set cm \<union> at_relation ` set cs
    \<and> fst ` set ck' = fst ` set ck \<union> at_relation ` set cs
    \<and> unat tot' = min (unat tot + (\<Sum>c \<leftarrow> cs. unat (at_rows c))) (2 ^ 64 - 1)"
  using assms
proof (induction cs cm ck tot rule: fold_cascades.induct)
  case (1 cm ck tot)
  then show ?case using unat_le_max [of tot] by simp
next
  case (2 c cs cm ck tot)
  from "2.prems"(1) obtain k where k: "at_checksum c = Some k"
    by (auto split: option.splits)
  have "unat tot' = min (unat (sat_add tot (at_rows c)) + (\<Sum>c \<leftarrow> cs. unat (at_rows c))) (2 ^ 64 - 1)"
    using "2.IH" [OF k] "2.prems" k by (simp add: bt_wf_insert)
  then show ?case
    using "2.IH" [OF k] "2.prems" k by (auto simp: bt_wf_insert set_bt_keys_insert sat_simps)
qed

lemma fold_cascades_fail:
  "fold_cascades cs cm ck tot = Inl e \<longleftrightarrow>
     (\<exists>c. find (\<lambda>d. at_checksum d = None) cs = Some c \<and> e = PkLess (at_relation c))"
  by (induction cs cm ck tot rule: fold_cascades.induct) (auto split: option.splits)

lemma foldl_bt_keys:
  "bt_wf e \<Longrightarrow> bt_wf (foldl (\<lambda>e x. bt_insert (f x) (g x) e) e xs)
    \<and> fst ` set (foldl (\<lambda>e x. bt_insert (f x) (g x) e) e xs) = fst ` set e \<union> f ` set xs"
  by (induction xs arbitrary: e) (auto simp: bt_wf_insert set_bt_keys_insert)

text \<open>The record an assembly returns is one a guarded apply can be checked against.\<close>

definition blast_radius_wf :: "string \<Rightarrow> write_kind \<Rightarrow> blast_radius \<Rightarrow> bool" where
  "blast_radius_wf target kind br =
     (bt_wf (by_table (br_affected br)) \<and> bt_wf (cascade_by_table (br_affected br))
      \<and> bt_wf (pk_set_checksum (br_affected br)) \<and> bt_wf (effect_by_table (br_affected br))
      \<and> bt_contains (pk_set_checksum (br_affected br)) target
      \<and> effect_by_table (br_affected br) \<noteq> []
      \<and> set (bt_keys (cascade_by_table (br_affected br)))
            \<subseteq> set (bt_keys (pk_set_checksum (br_affected br)))
      \<and> br_reversible br \<and> \<not> br_predicate_volatile br
      \<and> br_inverse_kind br = write_kind_inverse kind)"

lemma assemble_effect_keys:
  "fst ` set (assemble_effect kind m) =
     (if m_full_effect m = [] then insert (at_relation (m_target m)) (at_relation ` set (m_cascades m))
      else re_relation ` set (m_full_effect m))"
  using foldl_bt_keys [of "bt_insert (at_relation (m_target m)) (write_kind_op_counts kind (at_rows (m_target m))) []"
      at_relation "\<lambda>c. write_kind_op_counts kind (at_rows c)" "m_cascades m"]
    foldl_bt_keys [of "[]" re_relation re_counts "m_full_effect m"]
  by (simp add: assemble_effect_def)

lemma assemble_effect_wf: "bt_wf (assemble_effect kind m) \<and> assemble_effect kind m \<noteq> []"
proof -
  have "bt_wf []" by (simp add: bt_wf_def)
  then have ins: "bt_wf (bt_insert k v [])" for k :: string and v :: op_counts
    by (rule bt_wf_insert)
  have nonempty: "fst ` set e = A \<Longrightarrow> A \<noteq> {} \<Longrightarrow> e \<noteq> []" for e :: "(string, op_counts) btree" and A
    by auto
  note casc = foldl_bt_keys [of _ at_relation "\<lambda>c. write_kind_op_counts kind (at_rows c)" "m_cascades m", OF ins]
  note full = foldl_bt_keys [of "[]" re_relation re_counts "m_full_effect m", OF \<open>bt_wf []\<close>]
  show ?thesis
  proof (cases "m_full_effect m = []")
    case True
    then show ?thesis
      using casc nonempty [OF conjunct2 [OF casc]] by (simp add: assemble_effect_def)
  next
    case False
    then show ?thesis
      using full nonempty [OF conjunct2 [OF full]] by (simp add: assemble_effect_def)
  qed
qed

lemma assemble_complete:
  assumes "assemble p kind m = Inr br"
  shows "blast_radius_wf (at_relation (m_target m)) kind br \<and> br_proposal_id br = pr_id p
    \<and> effect_by_table (br_affected br) = assemble_effect kind m
    \<and> set (bt_keys (cascade_by_table (br_affected br))) = at_relation ` set (m_cascades m)
    \<and> unat (total_rows (br_affected br))
      = min (unat (at_rows (m_target m)) + (\<Sum>c \<leftarrow> m_cascades m. unat (at_rows c))) (2 ^ 64 - 1)"
proof -
  obtain k cm ck tot where k: "at_checksum (m_target m) = Some k"
    and fc: "fold_cascades (m_cascades m) [] (bt_insert (at_relation (m_target m)) (as_prefixed k) [])
        (at_rows (m_target m)) = (Inr (cm, ck, tot) :: ('a, 'b) dry_run_error + _)"
    using assms by (auto simp: assemble_def rbind_Inr_iff split: option.splits)
  have facts: "bt_wf cm" "bt_wf ck" "fst ` set cm = at_relation ` set (m_cascades m)"
    "fst ` set ck = insert (at_relation (m_target m)) (at_relation ` set (m_cascades m))"
    "unat tot = min (unat (at_rows (m_target m)) + (\<Sum>c \<leftarrow> m_cascades m. unat (at_rows c))) (2 ^ 64 - 1)"
    using fold_cascades_ok [OF fc] by simp_all
  have br: "br = projr (assemble p kind m :: ('a, 'b) dry_run_error + _)" by (simp add: assms)
  show ?thesis
    by (simp add: br assemble_def k fc [simplified] blast_radius_wf_def bt_contains_iff facts assemble_effect_wf
        subset_insertI)
qed

text \<open>
  Nothing is rehearsed before the gates passed: a proposal that has expired, does not classify,
  has a volatile or steerable predicate or a shape the apply cannot carry is answered the same
  whatever the rehearsal would do, and the backend is left in the same state.
\<close>

lemma refused_before_rehearsal:
  fixes e :: "('v, 'n) dry_run_error"
  assumes "dry_run parse_sql pvr sdr p rh clk s = (Inl e, s')"
    and "\<forall>msg. e \<noteq> DryBackend msg" and "\<forall>rel. e \<noteq> PkLess rel"
  shows "dry_run parse_sql pvr sdr p (rh\<lparr>rh_rehearse := other\<rparr>) clk s = (Inl e, s')"
proof -
  have pkless: "assemble q kind m = Inl e' \<Longrightarrow> \<exists>rel. e' = PkLess rel" for q kind m and e' :: "('v, 'n) dry_run_error"
    by (auto simp: assemble_def rbind_Inl_iff fold_cascades_fail split: option.splits)
  obtain pv s1 where pv: "pvr (pr_statement p) (rh_volatility_of rh) s = (pv, s1)" by fastforce
  show ?thesis
  proof (cases "proposal_is_expired p clk \<or> pv \<noteq> None")
    case True
    then show ?thesis
      using assms(1) pv by (cases "classify parse_sql (pr_statement p) :: ('v, 'n) dry_run_error + _")
        (auto simp: dry_run_def)
  next
    case fresh: False
    show ?thesis
    proof (cases "classify parse_sql (pr_statement p) :: ('v, 'n) dry_run_error + _")
      case (Inl e')
      with fresh assms(1) show ?thesis by (simp add: dry_run_def)
    next
      case (Inr kt)
      obtain kind target where kt: "kt = (kind, target)" by fastforce
      obtain cs s2 where cs: "rh_certify_apply_shape rh (pr_statement p) kind target s1 = (cs, s2)" by fastforce
      obtain pk s3 where pk: "rh_self_determined_pk_column rh target s2 = (pk, s3)" by fastforce
      obtain sd s4 where sd: "(case pk of None \<Rightarrow> (None, s3)
          | Some c \<Rightarrow> sdr (pr_statement p) c (rh_volatility_of rh) s3) = (sd, s4)" by fastforce
      obtain r s5 where r: "rh_rehearse rh (pr_statement p) kind target s4 = (r, s5)" by fastforce
      note gates = fresh Inr kt pv cs pk sd
      have "cs \<noteq> None \<or> sd \<noteq> None"
      proof (rule ccontr)
        assume "\<not> (cs \<noteq> None \<or> sd \<noteq> None)"
        with assms(1) gates r
        have "(case r of Inl msg \<Rightarrow> Inl (DryBackend msg) | Inr m \<Rightarrow> assemble p kind m) = Inl e"
          by (simp add: dry_run_def split: sum.splits)
        then show False using assms(2,3) by (auto split: sum.splits dest: pkless)
      qed
      then show ?thesis using assms(1) gates by (cases cs; cases sd; cases pk) (simp_all add: dry_run_def)
    qed
  qed
qed

definition sample_rehearsal :: "unit rehearsal" where
  "sample_rehearsal =
     \<lparr>rh_volatility_of = (\<lambda>_ s. (UnknownFn, s)), rh_certify_apply_shape = (\<lambda>_ _ _ s. (None, s)),
      rh_self_determined_pk_column = (\<lambda>_ s. (None, s)), rh_rehearse = (\<lambda>_ _ _. efail ''no backend'')\<rparr>"

lemma refused_before_rehearsal_sample:
  "dry_run (\<lambda>_. Inr [SqlTruncate]) (\<lambda>_ _ s. (None :: unit option, s)) (\<lambda>_ _ _ s. (None :: unit option, s))
     (fst (propose ''TRUNCATE t'' None (clock_starting_at 0) 0))
     (sample_rehearsal\<lparr>rh_rehearse := \<lambda>_ _ _. efail ''other''\<rparr>) (clock_starting_at 0) ()
   = (Inl (NotRehearsable ''statement kind `TRUNCATE` is not a certified rehearsable write''), ())"
proof -
  have "dry_run (\<lambda>_. Inr [SqlTruncate]) (\<lambda>_ _ s. (None :: unit option, s)) (\<lambda>_ _ _ s. (None :: unit option, s))
     (fst (propose ''TRUNCATE t'' None (clock_starting_at 0) 0)) sample_rehearsal (clock_starting_at 0) ()
   = (Inl (NotRehearsable ''statement kind `TRUNCATE` is not a certified rehearsable write''), ())"
    by (simp add: dry_run_def classify_def propose_def propose_with_ttl_def proposal_is_expired_def
        clock_starting_at_def DEFAULT_TTL_MILLIS_def sat_sub_def)
  then show ?thesis by (rule refused_before_rehearsal) simp_all
qed

end
