(* ===== verification/Orch_Apply.thy ===== *)
theory Orch_Apply
  imports Orch_Dry_Run
begin

text \<open>
  The guarded apply (\<^verbatim>\<open>crates/clone-orchestrator/src/apply.rs\<close>): the primary-side transaction that
  runs a proposal the dry run validated, and commits only when the live write stays inside the
  approved cap, inside the predicted footprint, and inside what the captured inverse can restore.
  The connection (\<^verbatim>\<open>trait ApplyConn\<close>) is a record of methods over its own state, so every
  theorem holds for every connection; diagnostics carry their values instead of the rendered text.
\<close>

section \<open>Data\<close>

definition MIN_STATEMENT_TIMEOUT_MS :: u64 where
  "MIN_STATEMENT_TIMEOUT_MS = 1000"

definition STATEMENT_TIMEOUT_MULTIPLIER :: u64 where
  "STATEMENT_TIMEOUT_MULTIPLIER = 3"

definition statement_timeout_ms :: "u64 \<Rightarrow> u64" where
  "statement_timeout_ms dry_run_duration_ms =
     max (sat_mul dry_run_duration_ms STATEMENT_TIMEOUT_MULTIPLIER) MIN_STATEMENT_TIMEOUT_MS"

datatype channel = Ins | Upd | Del

datatype magnitude = Rows | WalBytes

datatype invalid_grant =
    ProposalMismatch string string
  | NoTargetChecksum string
  | NoFootprint string
  | FootprintMissesTarget string
  | NoCascadeChecksum string

datatype irreversible_detail =
    DestroyedUncaptured u64 u64
  | UpdatedUncaptured u64 u64

datatype backend_detail =
    ChecksumFailed checksum_error
  | BackendMsg string

datatype apply_error =
    ApplyRefused refused_op
  | CapExceeded string magnitude u64 u64
  | UnpredictedRelationWrite string u64 op_counts
  | RelationOverWrite string channel op_counts op_counts
  | IrreversibleChange string irreversible_detail
  | UncapturedColumn string pk_tuple "string list"
  | MissingPreImage string pk_tuple
  | SerializationFailure
  | ApplyTimeout u64
  | InvalidGrant invalid_grant
  | ApplyBackend backend_detail

record captured_row =
  cr_pk :: pk_tuple
  cr_before_image :: "(string \<times> image_value) list"

record forward_result =
  fw_written :: "captured_row list"
  fw_cascade_preimages :: "(string, captured_row list) btree"
  fw_written_columns :: "string list"

definition forward_new :: "captured_row list \<Rightarrow> forward_result" where
  "forward_new written =
     \<lparr>fw_written = written, fw_cascade_preimages = [], fw_written_columns = []\<rparr>"

definition with_written_columns :: "forward_result \<Rightarrow> string list \<Rightarrow> forward_result" where
  "with_written_columns fw cols = fw\<lparr>fw_written_columns := cols\<rparr>"

definition written_checksum ::
  "(bytes \<Rightarrow> bytes) \<Rightarrow> (bytes \<Rightarrow> string) \<Rightarrow> forward_result \<Rightarrow> string \<Rightarrow> apply_error + pk_checksum" where
  "written_checksum sha256 hex_encode fw relation =
     (case pushes (for_relation relation) (map cr_pk (fw_written fw)) of
        Inl e \<Rightarrow> Inl (ApplyBackend (ChecksumFailed e))
      | Inr b \<Rightarrow>
          (case psb_finalize sha256 hex_encode b of
             Inl e \<Rightarrow> Inl (ApplyBackend (ChecksumFailed e))
           | Inr c \<Rightarrow> Inr c))"

record relation_change =
  rc_relation :: string
  rc_ins :: u64
  rc_upd :: u64
  rc_del :: u64

definition rc_total :: "relation_change \<Rightarrow> u64" where
  "rc_total c = sat_add (sat_add (rc_ins c) (rc_upd c)) (rc_del c)"

definition as_op_counts :: "relation_change \<Rightarrow> op_counts" where
  "as_op_counts c = op_counts_new (rc_ins c) (rc_upd c) (rc_del c)"

record 's apply_conn =
  ac_create_restore_point :: "string \<Rightarrow> ('s, apply_error, string) eff"
  ac_begin :: "u64 \<Rightarrow> ('s, apply_error, unit) eff"
  ac_xact_wal_bytes :: "('s, apply_error, u64) eff"
  ac_self_determined_pk_column :: "string \<Rightarrow> 's \<Rightarrow> string option \<times> 's"
  ac_apply_forward :: "write_kind \<Rightarrow> string \<Rightarrow> string list \<Rightarrow> ('s, apply_error, forward_result) eff"
  ac_xact_tuple_deltas :: "('s, apply_error, relation_change list) eff"
  ac_commit :: "('s, apply_error, unit) eff"
  ac_rollback :: "('s, apply_error, unit) eff"

record pitr_config = pitr_enabled :: bool

datatype recovery_fence =
    PitrRestorePoint string string
  | TypedInverseOnly

record applied_write =
  aw_proposal_id :: string
  aw_rows_written :: u64
  aw_apply_checksum :: pk_checksum
  aw_inverse :: inverse_plan
  aw_fence :: recovery_fence
  aw_statement_timeout_ms :: u64

fun operation_from_dry_run :: "write_kind \<Rightarrow> blast_radius \<Rightarrow> operation" where
  "operation_from_dry_run Update br = OpUpdate (br_reversible br) True"
| "operation_from_dry_run Delete br = OpDelete (br_reversible br) True"

section \<open>The predicted blast radius\<close>

record predicted_blast_radius =
  pb_cascades :: "(string \<times> string) list"
  pb_effect_by_table :: "(string, op_counts) btree"

fun grant_cascades ::
  "(string, string) btree \<Rightarrow> string \<Rightarrow> string list \<Rightarrow> apply_error + (string \<times> string) list" where
  "grant_cascades checksums target [] = Inr []"
| "grant_cascades checksums target (rel # rels) =
     (if rel = target then grant_cascades checksums target rels
      else case bt_get checksums rel of
        None \<Rightarrow> Inl (InvalidGrant (NoCascadeChecksum rel))
      | Some cs \<Rightarrow> rbind (grant_cascades checksums target rels) (\<lambda>rest. Inr ((rel, cs) # rest)))"

definition from_grant :: "blast_radius \<Rightarrow> string \<Rightarrow> apply_error + predicted_blast_radius" where
  "from_grant br target =
     (let aff = br_affected br in
      if \<not> bt_contains (pk_set_checksum aff) target then Inl (InvalidGrant (NoTargetChecksum target))
      else if effect_by_table aff = [] then Inl (InvalidGrant (NoFootprint target))
      else if \<not> bt_contains (effect_by_table aff) target
      then Inl (InvalidGrant (FootprintMissesTarget target))
      else rbind (grant_cascades (pk_set_checksum aff) target (bt_keys (cascade_by_table aff)))
        (\<lambda>cascades. Inr \<lparr>pb_cascades = cascades, pb_effect_by_table = effect_by_table aff\<rparr>))"

definition pb_relations :: "predicted_blast_radius \<Rightarrow> string set" where
  "pb_relations p = set (bt_keys (pb_effect_by_table p))"

section \<open>The guards\<close>

fun primary_channel :: "write_kind \<Rightarrow> channel" where
  "primary_channel Update = Upd"
| "primary_channel Delete = Del"

definition over_channel :: "(channel \<Rightarrow> bool) \<Rightarrow> op_counts \<Rightarrow> op_counts \<Rightarrow> channel option" where
  "over_channel exempt a p =
     (if oc_ins a > oc_ins p \<and> \<not> exempt Ins then Some Ins
      else if oc_upd a > oc_upd p \<and> \<not> exempt Upd then Some Upd
      else if oc_del a > oc_del p \<and> \<not> exempt Del then Some Del
      else None)"

fun reconcile_full_effect ::
  "predicted_blast_radius \<Rightarrow> string \<Rightarrow> write_kind \<Rightarrow> relation_change list \<Rightarrow> apply_error + unit" where
  "reconcile_full_effect predicted target kind [] = Inr ()"
| "reconcile_full_effect predicted target kind (change # rest) =
     (if rc_total change = 0 then reconcile_full_effect predicted target kind rest
      else if rc_relation change \<notin> pb_relations predicted
      then Inl (UnpredictedRelationWrite (rc_relation change) (rc_total change) (as_op_counts change))
      else
        let p = (case bt_get (pb_effect_by_table predicted) (rc_relation change) of
                   None \<Rightarrow> op_counts_default | Some p \<Rightarrow> p);
            a = as_op_counts change;
            exempt = (\<lambda>ch. rc_relation change = target \<and> ch = primary_channel kind)
        in case over_channel exempt a p of
             Some ch \<Rightarrow> Inl (RelationOverWrite (rc_relation change) ch p a)
           | None \<Rightarrow> reconcile_full_effect predicted target kind rest)"

definition captured_for :: "string \<Rightarrow> forward_result \<Rightarrow> string \<Rightarrow> captured_row list" where
  "captured_for target fw rel =
     (if rel = target then fw_written fw
      else case bt_get (fw_cascade_preimages fw) rel of None \<Rightarrow> [] | Some rows \<Rightarrow> rows)"

fun assert_reversible_preimage_coverage ::
  "string \<Rightarrow> relation_change list \<Rightarrow> forward_result \<Rightarrow> apply_error + unit" where
  "assert_reversible_preimage_coverage target [] fw = Inr ()"
| "assert_reversible_preimage_coverage target (change # rest) fw =
     (if rc_total change = 0 then assert_reversible_preimage_coverage target rest fw
      else
        let captured = (word_of_nat (length (captured_for target fw (rc_relation change))) :: u64)
        in if rc_del change > 0 \<and> captured < rc_del change
           then Inl (IrreversibleChange (rc_relation change) (DestroyedUncaptured (rc_del change) captured))
           else if rc_relation change \<noteq> target \<and> rc_upd change > 0 \<and> captured < rc_upd change
           then Inl (IrreversibleChange (rc_relation change) (UpdatedUncaptured (rc_upd change) captured))
           else assert_reversible_preimage_coverage target rest fw)"

text \<open>A \<^verbatim>\<open>BTreeSet<&str>\<close> is iterated in ascending order, without duplicates.\<close>

definition column_set :: "string list \<Rightarrow> string list" where
  "column_set cols = remdups (sort (filter (\<lambda>c. c \<noteq> ''id'') cols))"

fun check_columns ::
  "string \<Rightarrow> string list \<Rightarrow> captured_row list \<Rightarrow> apply_error + unit" where
  "check_columns relation required [] = Inr ()"
| "check_columns relation required (row # rows) =
     (let captured = column_set (map fst (cr_before_image row)) in
      if required = [] then
        if captured = []
        then Inl (UncapturedColumn relation (cr_pk row) [''<any written column>''])
        else check_columns relation required rows
      else
        let missing = filter (\<lambda>c. c \<notin> set captured) required in
        if missing \<noteq> [] then Inl (UncapturedColumn relation (cr_pk row) missing)
        else check_columns relation required rows)"

definition assert_written_column_coverage ::
  "write_kind \<Rightarrow> string \<Rightarrow> forward_result \<Rightarrow> apply_error + unit" where
  "assert_written_column_coverage kind relation fw =
     (if kind \<noteq> Update then Inr ()
      else check_columns relation (column_set (fw_written_columns fw)) (fw_written fw))"

section \<open>The inverse\<close>

definition RELATION_STAMP :: string where
  "RELATION_STAMP = ''__relation''"

definition stamp_row :: "string \<Rightarrow> captured_row \<Rightarrow> inverse_row" where
  "stamp_row rel row =
     \<lparr>ir_pk = cr_pk row, ir_before_image = cr_before_image row @ [(RELATION_STAMP, PkText rel)]\<rparr>"

definition plain_row :: "captured_row \<Rightarrow> inverse_row" where
  "plain_row row = \<lparr>ir_pk = cr_pk row, ir_before_image = cr_before_image row\<rparr>"

definition build_inverse ::
  "write_kind \<Rightarrow> string \<Rightarrow> predicted_blast_radius \<Rightarrow> forward_result \<Rightarrow> inverse_plan" where
  "build_inverse kind relation predicted fw =
     (let b = ipb_new relation (case kind of Update \<Rightarrow> inverse_for_update | Delete \<Rightarrow> inverse_for_delete);
          b = foldl (\<lambda>b row. ipb_push_row b (plain_row row)) b (fw_written fw);
          (b, fk_order) =
            foldl (\<lambda>(b, fk_order) (rel, _).
              ((case bt_get (fw_cascade_preimages fw) rel of
                  None \<Rightarrow> b
                | Some rows \<Rightarrow> foldl (\<lambda>b row. ipb_push_row b (stamp_row rel row)) b rows),
               fk_order @ [rel])) (b, [relation]) (pb_cascades predicted)
      in ipb_build (ipb_set_fk_order b fk_order))"

definition restore_point_label :: "string \<Rightarrow> clock \<Rightarrow> string" where
  "restore_point_label proposal_id clk =
     ''pgb_'' @ proposal_id @ ''_'' @ decimal (unat (now_unix_millis clk))"

section \<open>The transaction\<close>

text \<open>Steps 4 to 8b, and the barrier crossed before them.\<close>

definition guarded_steps ::
  "write_kind \<Rightarrow> string \<Rightarrow> predicted_blast_radius \<Rightarrow> write_cap \<Rightarrow> 's apply_conn
    \<Rightarrow> ('s, apply_error, forward_result) eff" where
  "guarded_steps kind relation predicted cap conn =
     ebind (ac_apply_forward conn kind relation (map fst (pb_cascades predicted))) (\<lambda>forward.
     ebind (ac_xact_tuple_deltas conn) (\<lambda>deltas.
     ebind (elift (reconcile_full_effect predicted relation kind deltas)) (\<lambda>_.
     let live_rows = foldl sat_add 0 (map rc_total deltas) in
     if live_rows > max_rows cap
     then efail (CapExceeded relation Rows (max_rows cap) live_rows)
     else
     ebind (ac_xact_wal_bytes conn) (\<lambda>live_wal.
     if live_wal > max_wal_bytes cap
     then efail (CapExceeded relation WalBytes (max_wal_bytes cap) live_wal)
     else
     ebind (elift (assert_reversible_preimage_coverage relation deltas forward)) (\<lambda>_.
     ebind (elift (assert_written_column_coverage kind relation forward)) (\<lambda>_.
     eret forward))))))"

definition guarded_body ::
  "write_kind \<Rightarrow> string \<Rightarrow> predicted_blast_radius \<Rightarrow> write_cap \<Rightarrow> 's apply_conn
    \<Rightarrow> (string \<Rightarrow> 's \<Rightarrow> 's) \<Rightarrow> ('s, apply_error, forward_result) eff" where
  "guarded_body kind relation predicted cap conn pause_point s =
     guarded_steps kind relation predicted cap conn (pause_point ''between dry_run and apply'' s)"

definition create_fence ::
  "string \<Rightarrow> pitr_config \<Rightarrow> 's apply_conn \<Rightarrow> clock \<Rightarrow> ('s, apply_error, recovery_fence) eff" where
  "create_fence proposal_id pitr conn clk =
     (if pitr_enabled pitr
      then let label = restore_point_label proposal_id clk
           in ebind (ac_create_restore_point conn label) (\<lambda>lsn. eret (PitrRestorePoint label lsn))
      else eret TypedInverseOnly)"

definition guarded_txn ::
  "(bytes \<Rightarrow> bytes) \<Rightarrow> (bytes \<Rightarrow> string) \<Rightarrow> string \<Rightarrow> write_kind \<Rightarrow> string \<Rightarrow> blast_radius
    \<Rightarrow> predicted_blast_radius \<Rightarrow> write_cap \<Rightarrow> recovery_fence \<Rightarrow> 's apply_conn
    \<Rightarrow> (string \<Rightarrow> 's \<Rightarrow> 's) \<Rightarrow> ('s, apply_error, applied_write) eff" where
  "guarded_txn sha256 hex_encode proposal_id kind relation br predicted cap fence conn pause_point =
     (let timeout_ms = statement_timeout_ms (br_duration_ms br) in
      ebind (ac_begin conn timeout_ms) (\<lambda>_ s.
        case guarded_body kind relation predicted cap conn pause_point s of
          (Inr forward, s1) \<Rightarrow>
            ebind (ac_commit conn) (\<lambda>_.
            let inverse = build_inverse kind relation predicted forward in
            ebind (elift (written_checksum sha256 hex_encode forward relation)) (\<lambda>apply_checksum.
            eret \<lparr>aw_proposal_id = proposal_id,
                  aw_rows_written = word_of_nat (length (fw_written forward)),
                  aw_apply_checksum = apply_checksum, aw_inverse = inverse, aw_fence = fence,
                  aw_statement_timeout_ms = timeout_ms\<rparr>)) s1
        | (Inl e, s1) \<Rightarrow> (Inl e, snd (ac_rollback conn s1))))"

definition guarded_apply ::
  "(bytes \<Rightarrow> bytes) \<Rightarrow> (bytes \<Rightarrow> string) \<Rightarrow> string \<Rightarrow> write_kind \<Rightarrow> string \<Rightarrow> blast_radius
    \<Rightarrow> write_cap \<Rightarrow> pitr_config \<Rightarrow> 's apply_conn \<Rightarrow> (string \<Rightarrow> 's \<Rightarrow> 's) \<Rightarrow> clock
    \<Rightarrow> ('s, apply_error, applied_write) eff" where
  "guarded_apply sha256 hex_encode proposal_id kind relation br cap pitr conn pause_point clk =
     (if br_proposal_id br \<noteq> proposal_id
      then efail (InvalidGrant (ProposalMismatch (br_proposal_id br) proposal_id))
      else
      ebind (elift (from_grant br relation)) (\<lambda>predicted.
      let predicted_rows = predicted_total_tuples br in
      if max_rows cap < predicted_rows
      then efail (CapExceeded relation Rows (max_rows cap) predicted_rows)
      else if max_wal_bytes cap < br_wal_bytes br
      then efail (CapExceeded relation WalBytes (max_wal_bytes cap) (br_wal_bytes br))
      else
      case certify (operation_from_dry_run kind br) of
        Inl refused \<Rightarrow> efail (ApplyRefused refused)
      | Inr _ \<Rightarrow>
          ebind (create_fence proposal_id pitr conn clk) (\<lambda>fence.
          guarded_txn sha256 hex_encode proposal_id kind relation br predicted cap fence conn
            pause_point)))"

section \<open>What the guards establish\<close>

fun channel_count :: "op_counts \<Rightarrow> channel \<Rightarrow> u64" where
  "channel_count c Ins = oc_ins c"
| "channel_count c Upd = oc_upd c"
| "channel_count c Del = oc_del c"

text \<open>
  Every relation the transaction changed was predicted, and on every channel but the target's
  primary one it changed no more rows than predicted.
\<close>

definition change_within ::
  "predicted_blast_radius \<Rightarrow> string \<Rightarrow> write_kind \<Rightarrow> relation_change \<Rightarrow> bool" where
  "change_within predicted target kind c =
     (as_op_counts c = op_counts_default \<or>
       (case bt_get (pb_effect_by_table predicted) (rc_relation c) of
          None \<Rightarrow> False
        | Some p \<Rightarrow> \<forall>ch \<in> {Ins, Upd, Del}. (rc_relation c = target \<and> ch = primary_channel kind)
            \<or> channel_count (as_op_counts c) ch \<le> channel_count p ch))"

definition within_prediction ::
  "predicted_blast_radius \<Rightarrow> string \<Rightarrow> write_kind \<Rightarrow> relation_change list \<Rightarrow> bool" where
  "within_prediction predicted target kind deltas = (\<forall>c \<in> set deltas. change_within predicted target kind c)"

text \<open>Every deleted row, and every updated row outside the target, has a captured pre-image.\<close>

definition covered_by_capture :: "string \<Rightarrow> relation_change list \<Rightarrow> forward_result \<Rightarrow> bool" where
  "covered_by_capture target deltas fw =
     (\<forall>c \<in> set deltas.
        unat (rc_del c) \<le> length (captured_for target fw (rc_relation c))
        \<and> (rc_relation c \<noteq> target \<longrightarrow> unat (rc_upd c) \<le> length (captured_for target fw (rc_relation c))))"

text \<open>Every written row of an update has a pre-image of every written column (of some column when none is declared).\<close>

definition columns_captured :: "write_kind \<Rightarrow> forward_result \<Rightarrow> bool" where
  "columns_captured kind fw =
     (kind = Update \<longrightarrow>
       (let required = set (fw_written_columns fw) - {''id''} in
        \<forall>row \<in> set (fw_written fw).
          let captured = fst ` set (cr_before_image row) - {''id''} in
          if required = {} then captured \<noteq> {} else required \<subseteq> captured))"

lemma op_counts_default_iff: "as_op_counts c = op_counts_default \<longleftrightarrow> rc_total c = 0"
proof -
  have "rc_total c = 0 \<longleftrightarrow> op_counts_total (as_op_counts c) = 0"
    by (simp add: rc_total_def as_op_counts_def op_counts_total_def op_counts_new_def)
  then show ?thesis
    by (auto simp: as_op_counts_def op_counts_new_def op_counts_default_def)
qed

lemma over_channel_None:
  "over_channel ex a p = None \<longleftrightarrow> (\<forall>ch \<in> {Ins, Upd, Del}. ex ch \<or> channel_count a ch \<le> channel_count p ch)"
  by (auto simp: over_channel_def)

lemma reconcile_ok_iff:
  "reconcile_full_effect predicted target kind deltas = Inr () \<longleftrightarrow>
     within_prediction predicted target kind deltas"
proof (induction deltas)
  case Nil
  then show ?case by (simp add: within_prediction_def)
next
  case (Cons c cs)
  have "change_within predicted target kind c \<longleftrightarrow> rc_total c = 0 \<or>
      (\<exists>p. bt_get (pb_effect_by_table predicted) (rc_relation c) = Some p \<and>
        over_channel (\<lambda>ch. rc_relation c = target \<and> ch = primary_channel kind) (as_op_counts c) p = None)"
    by (simp add: change_within_def op_counts_default_iff over_channel_None split: option.splits)
  with Cons show ?case
    by (auto simp: within_prediction_def pb_relations_def map_of_eq_None_iff [symmetric] split: option.splits)
qed

lemma word_le_length_imp: "(w :: u64) \<le> word_of_nat n \<Longrightarrow> unat w \<le> n"
  using mod_less_eq_dividend [of n "2 ^ 64"] by (simp add: word_le_nat_alt unat_of_nat)

lemma coverage_ok_imp:
  "assert_reversible_preimage_coverage target deltas fw = Inr () \<Longrightarrow> covered_by_capture target deltas fw"
proof (induction target deltas fw rule: assert_reversible_preimage_coverage.induct)
  case (1 target fw)
  then show ?case by (simp add: covered_by_capture_def)
next
  case (2 target c cs fw)
  let ?n = "length (captured_for target fw (rc_relation c))"
  have rest: "covered_by_capture target cs fw"
    using "2.IH" "2.prems" by (auto split: if_splits)
  have zero: "rc_total c = 0 \<Longrightarrow> rc_del c = 0 \<and> rc_upd c = 0"
    unfolding op_counts_default_iff [symmetric] by (simp add: as_op_counts_def op_counts_new_def op_counts_default_def)
  have del: "unat (rc_del c) \<le> ?n"
    using "2.prems" zero word_le_length_imp [of "rc_del c" ?n]
    by (auto simp: not_less word_gt_0 split: if_splits)
  have upd: "unat (rc_upd c) \<le> ?n" if "rc_relation c \<noteq> target"
    using "2.prems" zero word_le_length_imp [of "rc_upd c" ?n] that
    by (auto simp: not_less word_gt_0 split: if_splits)
  from rest del upd show ?case by (simp add: covered_by_capture_def)
qed

lemma set_column_set [simp]: "set (column_set cols) = set cols - {''id''}"
  by (auto simp: column_set_def)

lemma column_set_Nil_iff: "column_set cols = [] \<longleftrightarrow> set cols - {''id''} = {}"
  by (metis set_column_set set_empty)

lemma check_columns_ok_iff:
  "check_columns relation required rows = Inr () \<longleftrightarrow>
     (\<forall>row \<in> set rows. let captured = fst ` set (cr_before_image row) - {''id''} in
        if set required = {} then captured \<noteq> {} else set required \<subseteq> captured)"
  by (induction relation required rows rule: check_columns.induct)
    (auto simp: column_set_Nil_iff filter_empty_conv)

lemma columns_ok_iff:
  "assert_written_column_coverage kind relation fw = Inr () \<longleftrightarrow> columns_captured kind fw"
  by (simp add: assert_written_column_coverage_def columns_captured_def check_columns_ok_iff)

lemma grant_cascades_ok:
  "grant_cascades checksums target rels = Inr cs \<Longrightarrow> map fst cs = filter (\<lambda>r. r \<noteq> target) rels"
  by (induction rels arbitrary: cs) (auto simp: rbind_Inr_iff split: if_splits option.splits)

lemma grant_cascades_total:
  "set rels - {target} \<subseteq> set (bt_keys checksums) \<Longrightarrow> is_ok (grant_cascades checksums target rels)"
proof (induction rels)
  case Nil
  then show ?case by simp
next
  case (Cons r rels)
  show ?case
  proof (cases "r = target")
    case True
    with Cons show ?thesis by auto
  next
    case False
    with Cons.prems have "bt_get checksums r \<noteq> None"
      by (simp add: map_of_eq_None_iff) blast
    then obtain v where "bt_get checksums r = Some v" by auto
    moreover have "is_ok (grant_cascades checksums target rels)"
      using Cons by auto
    ultimately show ?thesis using False by (auto simp: is_ok_iff)
  qed
qed

end
