(* ===== verification/Orch_Apply_Safety.thy ===== *)
theory Orch_Apply_Safety
  imports Orch_Apply
begin

text \<open>
  What a guarded apply does to its connection: the sequence of calls it makes and the answers it
  gets, for every connection and every barrier. A traced connection records the calls beside the
  connection's own state; erasing the trace gives back the run on the plain connection.
\<close>

section \<open>Traced connections\<close>

datatype conn_call =
    CallRestorePoint string "apply_error + string"
  | CallBegin u64 "apply_error + unit"
  | CallPause string
  | CallForward write_kind string "string list" "apply_error + forward_result"
  | CallDeltas "apply_error + relation_change list"
  | CallWal "apply_error + u64"
  | CallPkColumn string "string option"
  | CallCommit "apply_error + unit"
  | CallRollback "apply_error + unit"

definition logged :: "('r \<Rightarrow> conn_call) \<Rightarrow> ('s \<Rightarrow> 'r \<times> 's) \<Rightarrow> 's \<times> conn_call list \<Rightarrow> 'r \<times> 's \<times> conn_call list" where
  "logged call m st = (case m (fst st) of (r, s') \<Rightarrow> (r, s', snd st @ [call r]))"

definition traced :: "'s apply_conn \<Rightarrow> ('s \<times> conn_call list) apply_conn" where
  "traced conn =
     \<lparr>ac_create_restore_point = (\<lambda>label. logged (CallRestorePoint label) (ac_create_restore_point conn label)),
      ac_begin = (\<lambda>t. logged (CallBegin t) (ac_begin conn t)),
      ac_xact_wal_bytes = logged CallWal (ac_xact_wal_bytes conn),
      ac_self_determined_pk_column = (\<lambda>rel. logged (CallPkColumn rel) (ac_self_determined_pk_column conn rel)),
      ac_apply_forward = (\<lambda>kind rel cs. logged (CallForward kind rel cs) (ac_apply_forward conn kind rel cs)),
      ac_xact_tuple_deltas = logged CallDeltas (ac_xact_tuple_deltas conn),
      ac_commit = logged CallCommit (ac_commit conn),
      ac_rollback = logged CallRollback (ac_rollback conn)\<rparr>"

definition traced_pause :: "(string \<Rightarrow> 's \<Rightarrow> 's) \<Rightarrow> string \<Rightarrow> 's \<times> conn_call list \<Rightarrow> 's \<times> conn_call list" where
  "traced_pause pause_point label st = (pause_point label (fst st), snd st @ [CallPause label])"

text \<open>The run of a guarded apply on a fresh trace: its result, the connection's final state, the calls.\<close>

definition apply_run ::
  "(bytes \<Rightarrow> bytes) \<Rightarrow> (bytes \<Rightarrow> string) \<Rightarrow> string \<Rightarrow> write_kind \<Rightarrow> string \<Rightarrow> blast_radius
    \<Rightarrow> write_cap \<Rightarrow> pitr_config \<Rightarrow> 's apply_conn \<Rightarrow> (string \<Rightarrow> 's \<Rightarrow> 's) \<Rightarrow> clock \<Rightarrow> 's
    \<Rightarrow> (apply_error + applied_write) \<times> 's \<times> conn_call list" where
  "apply_run sha256 hex_encode pid kind rel br cap pitr conn pause_point clk s =
     guarded_apply sha256 hex_encode pid kind rel br cap pitr (traced conn) (traced_pause pause_point) clk (s, [])"

section \<open>Simulation\<close>

text \<open>A traced method does to the state what the plain one does, and gives the same answer.\<close>

definition erases :: "('s \<times> conn_call list \<Rightarrow> 'r \<times> 's \<times> conn_call list) \<Rightarrow> ('s \<Rightarrow> 'r \<times> 's) \<Rightarrow> bool" where
  "erases m' m = (\<forall>s t. case m' (s, t) of (r, s', _) \<Rightarrow> m s = (r, s'))"

lemma erasesD: "erases m' m \<Longrightarrow> m' (s, t) = (r, s', t') \<Longrightarrow> m s = (r, s')"
  unfolding erases_def by (drule spec [of _ s], drule spec [of _ t]) simp

lemma erasesI: "(\<And>s t r s' t'. m' (s, t) = (r, s', t') \<Longrightarrow> m s = (r, s')) \<Longrightarrow> erases m' m"
  by (auto simp: erases_def split: prod.splits)

lemma erases_logged [simp, intro]: "erases (logged call m) m"
  by (simp add: erases_def logged_def split: prod.splits)

lemma erases_ret [simp, intro]: "erases (eret x) (eret x)" "erases (efail e) (efail e)" "erases (elift r) (elift r)"
  by (simp_all add: erases_def split: prod.splits)

lemma erases_bind [intro]:
  assumes "erases m' m" and "\<And>x. erases (f' x) (f x)"
  shows "erases (ebind m' f') (ebind m f)"
proof (rule erasesI)
  fix s t r s' t'
  assume run: "ebind m' f' (s, t) = (r, s', t')"
  obtain q s1 t1 where m': "m' (s, t) = (q, s1, t1)" by (cases "m' (s, t)") auto
  note m = erasesD [OF assms(1) m']
  show "ebind m f s = (r, s')"
  proof (cases q)
    case (Inl e)
    with run show ?thesis by (simp add: ebind_def m' m)
  next
    case (Inr x)
    with run show ?thesis using erasesD [OF assms(2) [of x], of s1 t1] by (simp add: ebind_def m' m)
  qed
qed

lemma traced_erases [simp, intro]:
  "erases (ac_create_restore_point (traced conn) label) (ac_create_restore_point conn label)"
  "erases (ac_begin (traced conn) t) (ac_begin conn t)"
  "erases (ac_xact_wal_bytes (traced conn)) (ac_xact_wal_bytes conn)"
  "erases (ac_apply_forward (traced conn) kind rel cs) (ac_apply_forward conn kind rel cs)"
  "erases (ac_xact_tuple_deltas (traced conn)) (ac_xact_tuple_deltas conn)"
  "erases (ac_commit (traced conn)) (ac_commit conn)"
  "erases (ac_rollback (traced conn)) (ac_rollback conn)"
  by (simp_all add: traced_def)

lemma guarded_body_erases:
  "erases (guarded_body kind rel predicted cap (traced conn) (traced_pause pause_point))
     (guarded_body kind rel predicted cap conn pause_point)"
proof (rule erasesI)
  fix s t r s' t'
  assume run: "guarded_body kind rel predicted cap (traced conn) (traced_pause pause_point) (s, t) = (r, s', t')"
  have "erases (guarded_steps kind rel predicted cap (traced conn)) (guarded_steps kind rel predicted cap conn)"
    unfolding guarded_steps_def Let_def
    by (intro erases_bind traced_erases erases_ret) (auto intro!: erases_bind)
  from erasesD [OF this] run show "guarded_body kind rel predicted cap conn pause_point s = (r, s')"
    by (simp add: guarded_body_def traced_pause_def)
qed

lemma guarded_txn_erases:
  "erases (guarded_txn sha256 hex_encode pid kind rel br predicted cap fence (traced conn) (traced_pause pause_point))
     (guarded_txn sha256 hex_encode pid kind rel br predicted cap fence conn pause_point)"
proof -
  have rollback: "erases (\<lambda>s. (Inl e, snd (ac_rollback (traced conn) s))) (\<lambda>s. (Inl e, snd (ac_rollback conn s)))"
    for e :: apply_error
    by (rule erasesI) (auto simp: traced_def logged_def split: prod.splits)
  have handler: "erases (\<lambda>s. case m' s of (Inr x, s1) \<Rightarrow> f' x s1 | (Inl e, s1) \<Rightarrow> g' e s1)
      (\<lambda>s. case m s of (Inr x, s1) \<Rightarrow> f x s1 | (Inl e, s1) \<Rightarrow> g e s1)"
    if m: "erases m' m" and f: "\<And>x. erases (f' x) (f x)" and g: "\<And>e. erases (g' e) (g e)"
    for m' and m :: "('s, apply_error, forward_result) eff"
      and f' g' and f :: "forward_result \<Rightarrow> ('s, apply_error, applied_write) eff" and g
  proof (rule erasesI)
    fix s t r s' t'
    assume run: "(case m' (s, t) of (Inr x, s1) \<Rightarrow> f' x s1 | (Inl e, s1) \<Rightarrow> g' e s1) = (r, s', t')"
    obtain q s1 t1 where m': "m' (s, t) = (q, s1, t1)" by (cases "m' (s, t)") auto
    from run show "(case m s of (Inr x, s1) \<Rightarrow> f x s1 | (Inl e, s1) \<Rightarrow> g e s1) = (r, s')"
      using erasesD [OF f] erasesD [OF g] by (cases q) (simp_all add: m' erasesD [OF m m'])
  qed
  show ?thesis
    unfolding guarded_txn_def Let_def
    by (intro erases_bind traced_erases handler guarded_body_erases rollback erases_ret)
qed

text \<open>
  The trace is an observer: a run on the traced connection returns the result and leaves the
  state of the run on the connection itself.
\<close>

lemma apply_run_simulates:
  "guarded_apply sha256 hex_encode pid kind rel br cap pitr conn pause_point clk s
     = (case apply_run sha256 hex_encode pid kind rel br cap pitr conn pause_point clk s of (r, s', _) \<Rightarrow> (r, s'))"
proof -
  have fence: "erases (create_fence q pitr (traced conn) clk) (create_fence q pitr conn clk)" for q
    by (auto simp: create_fence_def intro!: erases_bind)
  have "erases (guarded_apply sha256 hex_encode pid kind rel br cap pitr (traced conn) (traced_pause pause_point) clk)
      (guarded_apply sha256 hex_encode pid kind rel br cap pitr conn pause_point clk)"
    unfolding guarded_apply_def Let_def
    by (auto intro!: erases_bind fence guarded_txn_erases split: sum.splits)
  from erasesD [OF this] show ?thesis
    by (auto simp: apply_run_def split: prod.splits)
qed

section \<open>The protocol\<close>

definition live_tuples :: "relation_change list \<Rightarrow> nat" where
  "live_tuples deltas = (\<Sum>c \<leftarrow> deltas. unat (rc_ins c) + unat (rc_upd c) + unat (rc_del c))"

text \<open>A cap of \<^verbatim>\<open>u64::MAX\<close> bounds nothing: the live total saturates there.\<close>

definition guards_hold ::
  "write_kind \<Rightarrow> string \<Rightarrow> predicted_blast_radius \<Rightarrow> write_cap \<Rightarrow> forward_result
    \<Rightarrow> relation_change list \<Rightarrow> u64 \<Rightarrow> bool" where
  "guards_hold kind rel predicted cap fw deltas wal =
     (within_prediction predicted rel kind deltas
      \<and> (max_rows cap = - 1 \<or> live_tuples deltas \<le> unat (max_rows cap))
      \<and> wal \<le> max_wal_bytes cap
      \<and> covered_by_capture rel deltas fw
      \<and> columns_captured kind fw)"

text \<open>What the caller's record and cap must satisfy before the connection is touched.\<close>

definition grant_admits ::
  "string \<Rightarrow> write_kind \<Rightarrow> string \<Rightarrow> blast_radius \<Rightarrow> write_cap \<Rightarrow> predicted_blast_radius \<Rightarrow> bool" where
  "grant_admits pid kind rel br cap predicted =
     (br_proposal_id br = pid \<and> from_grant br rel = Inr predicted
      \<and> predicted_total_tuples br \<le> max_rows cap \<and> br_wal_bytes br \<le> max_wal_bytes cap
      \<and> br_reversible br)"

inductive fence_calls :: "string \<Rightarrow> pitr_config \<Rightarrow> clock \<Rightarrow> recovery_fence \<Rightarrow> conn_call list \<Rightarrow> bool" where
  fence_off: "\<not> pitr_enabled pitr \<Longrightarrow> fence_calls pid pitr clk TypedInverseOnly []"
| fence_on: "pitr_enabled pitr \<Longrightarrow> label = restore_point_label pid clk \<Longrightarrow>
    fence_calls pid pitr clk (PitrRestorePoint label lsn) [CallRestorePoint label (Inr lsn)]"

fun txn_control :: "conn_call \<Rightarrow> bool" where
  "txn_control (CallRestorePoint _ _) = True"
| "txn_control (CallBegin _ _) = True"
| "txn_control (CallCommit _) = True"
| "txn_control (CallRollback _) = True"
| "txn_control _ = False"

text \<open>
  The protocol a guarded apply follows with its connection: refused before any call, stopped at the
  restore point, stopped at \<^verbatim>\<open>BEGIN\<close>, rolled back, or committed behind every guard.
\<close>

inductive apply_trace ::
  "(bytes \<Rightarrow> bytes) \<Rightarrow> (bytes \<Rightarrow> string) \<Rightarrow> string \<Rightarrow> write_kind \<Rightarrow> string \<Rightarrow> blast_radius
    \<Rightarrow> write_cap \<Rightarrow> pitr_config \<Rightarrow> clock \<Rightarrow> (apply_error + applied_write) \<Rightarrow> conn_call list \<Rightarrow> bool"
  for sha256 hex_encode pid kind rel br cap pitr clk where
  refused: "\<not> (\<exists>predicted. grant_admits pid kind rel br cap predicted) \<Longrightarrow>
    apply_trace sha256 hex_encode pid kind rel br cap pitr clk (Inl e) []"
| no_fence: "pitr_enabled pitr \<Longrightarrow> grant_admits pid kind rel br cap predicted \<Longrightarrow>
    apply_trace sha256 hex_encode pid kind rel br cap pitr clk (Inl e)
      [CallRestorePoint (restore_point_label pid clk) (Inl e)]"
| not_begun: "fence_calls pid pitr clk fence fs \<Longrightarrow> grant_admits pid kind rel br cap predicted \<Longrightarrow>
    apply_trace sha256 hex_encode pid kind rel br cap pitr clk (Inl e)
      (fs @ [CallBegin (statement_timeout_ms (br_duration_ms br)) (Inl e)])"
| aborted: "fence_calls pid pitr clk fence fs \<Longrightarrow> grant_admits pid kind rel br cap predicted \<Longrightarrow>
    \<forall>c \<in> set calls. \<not> txn_control c \<Longrightarrow>
    apply_trace sha256 hex_encode pid kind rel br cap pitr clk (Inl e)
      (fs @ CallBegin (statement_timeout_ms (br_duration_ms br)) (Inr ()) # calls @ [CallRollback x])"
| committed: "fence_calls pid pitr clk fence fs \<Longrightarrow> grant_admits pid kind rel br cap predicted \<Longrightarrow>
    guards_hold kind rel predicted cap fw deltas wal \<Longrightarrow>
    r = rbind c (\<lambda>_. rbind (written_checksum sha256 hex_encode fw rel) (\<lambda>ck.
      Inr \<lparr>aw_proposal_id = pid, aw_rows_written = word_of_nat (length (fw_written fw)),
        aw_apply_checksum = ck, aw_inverse = build_inverse kind rel predicted fw, aw_fence = fence,
        aw_statement_timeout_ms = statement_timeout_ms (br_duration_ms br)\<rparr>)) \<Longrightarrow>
    apply_trace sha256 hex_encode pid kind rel br cap pitr clk r
      (fs @ [CallBegin (statement_timeout_ms (br_duration_ms br)) (Inr ()),
        CallPause ''between dry_run and apply'',
        CallForward kind rel (map fst (pb_cascades predicted)) (Inr fw),
        CallDeltas (Inr deltas), CallWal (Inr wal), CallCommit c])"

inductive_cases apply_traceE: "apply_trace sha256 hex_encode pid kind rel br cap pitr clk r tr"

lemma min_sum_list_min:
  "min (\<Sum>x \<leftarrow> xs. min (f x) m) m = min (\<Sum>x \<leftarrow> xs. f x) (m :: nat)"
  by (induction xs) auto

lemma rows_cap_iff:
  "foldl sat_add 0 (map rc_total deltas) \<le> k \<longleftrightarrow> k = - 1 \<or> live_tuples deltas \<le> unat (k :: u64)"
proof -
  have tot: "unat (rc_total c) = min (unat (rc_ins c) + unat (rc_upd c) + unat (rc_del c)) (2 ^ 64 - 1)" for c
    by (simp add: rc_total_def sat_simps)
  have live: "unat (foldl sat_add 0 (map rc_total deltas)) = min (live_tuples deltas) (2 ^ 64 - 1)"
    using min_sum_list_min [of "\<lambda>c. unat (rc_ins c) + unat (rc_upd c) + unat (rc_del c)" "2 ^ 64 - 1" deltas]
    by (simp add: foldl_sat_add live_tuples_def o_def tot)
  have "unat (- 1 :: u64) = 2 ^ 64 - 1" using unat_max_word [where 'a = 64] by simp
  then have "k = - 1 \<longleftrightarrow> unat k = 2 ^ 64 - 1" by (metis unsigned_word_eqI)
  then show ?thesis
    using unat_le_max [of k] by (auto simp: word_le_nat_alt live)
qed

lemma guarded_body_trace:
  assumes "guarded_body kind rel predicted cap (traced conn) (traced_pause pause_point) (s, t) = (r, s', t')"
  shows "(\<exists>calls. t' = t @ calls \<and> (\<forall>c \<in> set calls. \<not> txn_control c))
    \<and> (\<forall>fw. r = Inr fw \<longrightarrow> (\<exists>deltas wal. t' = t @ [CallPause ''between dry_run and apply'',
        CallForward kind rel (map fst (pb_cascades predicted)) (Inr fw),
        CallDeltas (Inr deltas), CallWal (Inr wal)] \<and> guards_hold kind rel predicted cap fw deltas wal))"
  using assms
  by (auto simp: guarded_body_def guarded_steps_def traced_def logged_def traced_pause_def ebind_def guards_hold_def
      reconcile_ok_iff columns_ok_iff coverage_ok_imp rows_cap_iff [symmetric] not_less
      split: prod.splits sum.splits if_splits)

lemma guarded_txn_trace:
  assumes run: "guarded_txn sha256 hex_encode pid kind rel br predicted cap fence (traced conn) (traced_pause pause_point)
      (s, fs) = (r, s', tr)"
    and fs: "fence_calls pid pitr clk fence fs" and adm: "grant_admits pid kind rel br cap predicted"
  shows "apply_trace sha256 hex_encode pid kind rel br cap pitr clk r tr"
proof -
  let ?t = "statement_timeout_ms (br_duration_ms br)"
  obtain q s1 where bg: "ac_begin conn ?t s = (q, s1)" by (cases "ac_begin conn ?t s")
  then have bg': "ac_begin (traced conn) ?t (s, fs) = (q, s1, fs @ [CallBegin ?t q])"
    by (simp add: traced_def logged_def)
  show ?thesis
  proof (cases q)
    case (Inl e)
    with run bg' show ?thesis
      using not_begun [OF fs adm] by (auto simp: guarded_txn_def ebind_def)
  next
    case (Inr u)
    obtain b s2 t2 where body: "guarded_body kind rel predicted cap (traced conn) (traced_pause pause_point)
        (s1, fs @ [CallBegin ?t q]) = (b, s2, t2)"
      by (metis prod.collapse)
    note gb = guarded_body_trace [OF body]
    show ?thesis
    proof (cases b)
      case (Inl e)
      from gb obtain calls where calls: "t2 = (fs @ [CallBegin ?t q]) @ calls" "\<forall>c \<in> set calls. \<not> txn_control c"
        by blast
      show ?thesis
        using run bg' body Inr Inl calls aborted [OF fs adm calls(2)]
        by (auto simp: guarded_txn_def ebind_def traced_def logged_def split: prod.splits)
    next
      case (Inr fw)
      with gb obtain deltas wal where t2: "t2 = (fs @ [CallBegin ?t q]) @ [CallPause ''between dry_run and apply'',
          CallForward kind rel (map fst (pb_cascades predicted)) (Inr fw), CallDeltas (Inr deltas), CallWal (Inr wal)]"
        and guards: "guards_hold kind rel predicted cap fw deltas wal"
        by blast
      obtain c s3 where "ac_commit conn s2 = (c, s3)" by (cases "ac_commit conn s2")
      then have cm: "ac_commit (traced conn) (s2, t2) = (c, s3, t2 @ [CallCommit c])"
        by (simp add: traced_def logged_def)
      have "tr = t2 @ [CallCommit c]" and "r = rbind c (\<lambda>_. rbind (written_checksum sha256 hex_encode fw rel) (\<lambda>ck.
          Inr \<lparr>aw_proposal_id = pid, aw_rows_written = word_of_nat (length (fw_written fw)),
            aw_apply_checksum = ck, aw_inverse = build_inverse kind rel predicted fw, aw_fence = fence,
            aw_statement_timeout_ms = ?t\<rparr>))"
        using run bg' body \<open>q = Inr u\<close> Inr cm
        by (auto simp: guarded_txn_def ebind_def rbind_def split: sum.splits)
      with committed [OF fs adm guards] t2 \<open>q = Inr u\<close> show ?thesis by simp
    qed
  qed
qed

lemma create_fence_trace:
  assumes "create_fence pid pitr (traced conn) clk (s, []) = (r, s', t')"
  shows "(\<exists>fence. r = Inr fence \<and> fence_calls pid pitr clk fence t')
    \<or> (\<exists>e. r = Inl e \<and> pitr_enabled pitr \<and> t' = [CallRestorePoint (restore_point_label pid clk) (Inl e)])"
  using assms
  by (auto simp: create_fence_def ebind_def traced_def logged_def intro: fence_calls.intros
      split: if_splits prod.splits sum.splits)

lemma operation_certified: "is_ok (certify (operation_from_dry_run kind br)) \<longleftrightarrow> br_reversible br"
  by (cases kind; cases "br_reversible br") simp_all

lemma apply_run_protocolD:
  assumes run: "apply_run sha256 hex_encode pid kind rel br cap pitr conn pause_point clk s = (r, s', tr)"
  shows "apply_trace sha256 hex_encode pid kind rel br cap pitr clk r tr"
proof (cases "\<exists>predicted. grant_admits pid kind rel br cap predicted")
  case False
  then have "\<exists>e. r = Inl e \<and> tr = []"
    using run operation_certified [of kind br]
    by (auto simp: apply_run_def guarded_apply_def ebind_def grant_admits_def not_less split: if_splits sum.splits)
  with refused [OF False] show ?thesis by auto
next
  case True
  then obtain predicted where adm: "grant_admits pid kind rel br cap predicted" by blast
  then obtain a where cert: "certify (operation_from_dry_run kind br) = Inr a"
    using operation_certified [of kind br] by (auto simp: grant_admits_def is_ok_iff)
  obtain q s1 t1 where cf: "create_fence pid pitr (traced conn) clk (s, []) = (q, s1, t1)"
    by (metis prod.collapse)
  show ?thesis
  proof (cases q)
    case (Inl e)
    with run adm cert cf have "r = Inl e \<and> tr = t1"
      by (auto simp: apply_run_def guarded_apply_def ebind_def grant_admits_def not_less [symmetric])
    with create_fence_trace [OF cf] Inl no_fence [OF _ adm] show ?thesis by auto
  next
    case (Inr fence)
    with create_fence_trace [OF cf] have fc: "fence_calls pid pitr clk fence t1" by auto
    have "guarded_txn sha256 hex_encode pid kind rel br predicted cap fence (traced conn) (traced_pause pause_point)
        (s1, t1) = (r, s', tr)"
      using run adm cert cf Inr
      by (auto simp: apply_run_def guarded_apply_def ebind_def grant_admits_def not_less [symmetric])
    then show ?thesis by (rule guarded_txn_trace [OF _ fc adm])
  qed
qed

section \<open>A scripted connection\<close>

text \<open>
  A connection that answers every call from a script, as the in-memory connections of the unit
  tests do, and an update of one row of \<^verbatim>\<open>t\<close> predicted by its dry run.
\<close>

definition script_conn :: "forward_result \<Rightarrow> relation_change list \<Rightarrow> u64 \<Rightarrow> unit apply_conn" where
  "script_conn fw deltas wal =
     \<lparr>ac_create_restore_point = (\<lambda>_. eret ''0/0''), ac_begin = (\<lambda>_. eret ()),
      ac_xact_wal_bytes = eret wal, ac_self_determined_pk_column = (\<lambda>_ s. (None, s)),
      ac_apply_forward = (\<lambda>_ _ _. eret fw), ac_xact_tuple_deltas = eret deltas,
      ac_commit = eret (), ac_rollback = eret ()\<rparr>"

definition sample_br :: blast_radius where
  "sample_br =
     \<lparr>br_proposal_id = ''p'', br_clone_lsn = [], br_staleness_lsn_bytes = 0,
      br_affected = \<lparr>by_table = [(''t'', 1)], cascade_by_table = [], pk_set_checksum = [(''t'', ''c'')],
        effect_by_table = [(''t'', op_counts_new 0 1 0)], total_rows = 1\<rparr>,
      br_triggers_fired = [], br_locks = [], br_max_lock_mode = RowExclusiveLock, br_duration_ms = 5,
      br_wal_bytes = 10, br_constraint_violations = [], br_reversible = True,
      br_inverse_kind = PreimageUpsert, br_predicate_volatile = False\<rparr>"

definition sample_row :: "pk_tuple \<Rightarrow> captured_row" where
  "sample_row pk = \<lparr>cr_pk = pk, cr_before_image = [(''balance'', PkInt 100)]\<rparr>"

definition sample_forward :: "pk_tuple list \<Rightarrow> forward_result" where
  "sample_forward pks = with_written_columns (forward_new (map sample_row pks)) [''balance'']"

definition sample_deltas :: "u64 \<Rightarrow> relation_change list" where
  "sample_deltas n = [\<lparr>rc_relation = ''t'', rc_ins = 0, rc_upd = n, rc_del = 0\<rparr>]"

definition sample_run ::
  "pk_tuple list \<Rightarrow> u64 \<Rightarrow> (apply_error + applied_write) \<times> unit \<times> conn_call list" where
  "sample_run pks n =
     apply_run (\<lambda>_. []) (\<lambda>_. []) ''p'' Update ''t'' sample_br \<lparr>max_rows = 2, max_wal_bytes = 20\<rparr>
       \<lparr>pitr_enabled = False\<rparr> (script_conn (sample_forward pks) (sample_deltas n) 15)
       (\<lambda>_ s. s) (clock_starting_at 0) ()"

lemmas sample_defs =
  sample_run_def apply_run_def guarded_apply_def guarded_txn_def guarded_body_def guarded_steps_def create_fence_def
  from_grant_def script_conn_def sample_br_def sample_row_def sample_forward_def sample_deltas_def
  traced_def logged_def traced_pause_def ebind_def predicted_total_tuples_def statement_timeout_ms_def
  with_written_columns_def forward_new_def written_checksum_def op_counts_new_def as_op_counts_def
  op_counts_total_def rc_total_def over_channel_def pb_relations_def captured_for_def
  assert_written_column_coverage_def column_set_def bt_contains_def psb_push_def for_relation_def
  psb_finalize_def

lemma sample_run_commits:
  "CallCommit (Inr ()) \<in> set (snd (snd (sample_run [[PkInt 1]] 1)))"
  by (simp add: sample_defs sat_add_def)

lemma sample_runD:
  "apply_run (\<lambda>_. []) (\<lambda>_. []) ''p'' Update ''t'' sample_br \<lparr>max_rows = 2, max_wal_bytes = 20\<rparr>
     \<lparr>pitr_enabled = False\<rparr> (script_conn (sample_forward pks) (sample_deltas n) 15)
     (\<lambda>_ s. s) (clock_starting_at 0) ()
   = (fst (sample_run pks n), fst (snd (sample_run pks n)), snd (snd (sample_run pks n)))"
  by (simp only: sample_run_def prod.collapse)

lemma sample_run_begins: "CallBegin 1000 (Inr ()) \<in> set (snd (snd (sample_run [[PkInt 1]] 3)))"
  by (simp add: sample_defs sat_add_def MIN_STATEMENT_TIMEOUT_MS_def STATEMENT_TIMEOUT_MULTIPLIER_def sat_mul_def)

lemma sample_run_mixed:
  "CallCommit (Inr ()) \<in> set (snd (snd (sample_run [[PkInt 1], [PkInt 1, PkInt 2]] 2)))"
  "CallForward Update ''t'' [] (Inr (sample_forward [[PkInt 1], [PkInt 1, PkInt 2]]))
     \<in> set (snd (snd (sample_run [[PkInt 1], [PkInt 1, PkInt 2]] 2)))"
  by (simp_all add: sample_defs sat_add_def)

section \<open>Consequences\<close>

lemma written_checksum_ok_iff:
  "is_ok (written_checksum sha256 hex_encode fw rel) \<longleftrightarrow>
     (\<forall>a \<in> set (fw_written fw). \<forall>b \<in> set (fw_written fw). length (cr_pk a) = length (cr_pk b))"
proof -
  have "is_ok (written_checksum sha256 hex_encode fw rel) \<longleftrightarrow>
      is_ok (pushes (for_relation rel) (map cr_pk (fw_written fw)))"
    using pushes_tuples [of "for_relation rel" "map cr_pk (fw_written fw)"]
    by (auto simp: written_checksum_def psb_finalize_def for_relation_def split: sum.splits)
  also have "\<dots> \<longleftrightarrow> (\<exists>n. \<forall>a \<in> set (fw_written fw). length (cr_pk a) = n)"
    by (simp add: pushes_ok_iff_one_arity)
  also have "\<dots> \<longleftrightarrow> (\<forall>a \<in> set (fw_written fw). \<forall>b \<in> set (fw_written fw). length (cr_pk a) = length (cr_pk b))"
    by (cases "fw_written fw") auto
  finally show ?thesis .
qed

text \<open>
  C5: for every connection and every barrier, the calls a guarded apply makes and the answers it
  acts on follow the protocol: it is refused before any call, stopped at the restore point or at
  \<^verbatim>\<open>BEGIN\<close>, rolled back, or committed with every guard holding on the answers it saw.
\<close>

theorem apply_run_follows_protocol:
  "case apply_run sha256 hex_encode pid kind rel br cap pitr conn pause_point clk s of (r, s', tr) \<Rightarrow>
     apply_trace sha256 hex_encode pid kind rel br cap pitr clk r tr"
  by (auto split: prod.splits intro: apply_run_protocolD)

text \<open>
  C1: no write is committed without its guards: when a run commits, the record names the proposal
  and covers the target, the cap admits the prediction, and on the transaction's own measurements
  every relation stayed inside the prediction, the total and the WAL inside the cap, and every
  destroyed row and every written column has a captured pre-image.
\<close>

theorem commit_only_behind_guards:
  assumes "apply_run sha256 hex_encode pid kind rel br cap pitr conn pause_point clk s = (r, s', tr)"
    and "CallCommit c \<in> set tr"
  shows "\<exists>predicted fw deltas wal. grant_admits pid kind rel br cap predicted
    \<and> CallForward kind rel (map fst (pb_cascades predicted)) (Inr fw) \<in> set tr
    \<and> CallDeltas (Inr deltas) \<in> set tr \<and> CallWal (Inr wal) \<in> set tr
    \<and> guards_hold kind rel predicted cap fw deltas wal \<and> last tr = CallCommit c"
  using apply_run_protocolD [OF assms(1)] assms(2) by cases (auto elim!: fence_calls.cases)

theorem commit_only_behind_guards_witness:
  "\<exists>predicted fw deltas wal. grant_admits ''p'' Update ''t'' sample_br \<lparr>max_rows = 2, max_wal_bytes = 20\<rparr> predicted
    \<and> CallDeltas (Inr deltas) \<in> set (snd (snd (sample_run [[PkInt 1]] 1)))
    \<and> guards_hold Update ''t'' predicted \<lparr>max_rows = 2, max_wal_bytes = 20\<rparr> fw deltas wal"
  using commit_only_behind_guards [OF sample_runD sample_run_commits] by blast


text \<open>
  C8: a transaction that was opened is closed, once: the last call is a rollback, with an error
  returned and no commit anywhere, or a commit, with no rollback anywhere.
\<close>

theorem opened_txn_is_closed:
  assumes "apply_run sha256 hex_encode pid kind rel br cap pitr conn pause_point clk s = (r, s', tr)"
    and "CallBegin t (Inr ()) \<in> set tr"
  shows "(\<exists>x e. last tr = CallRollback x \<and> r = Inl e \<and> (\<forall>c. CallCommit c \<notin> set tr))
    \<or> (\<exists>c. last tr = CallCommit c \<and> (\<forall>x. CallRollback x \<notin> set tr))"
  using apply_run_protocolD [OF assms(1)] assms(2) by cases (auto elim!: fence_calls.cases)

theorem opened_txn_is_closed_witness:
  "(\<exists>x e. last (snd (snd (sample_run [[PkInt 1]] 3))) = CallRollback x \<and> fst (sample_run [[PkInt 1]] 3) = Inl e)
    \<or> (\<exists>c. last (snd (snd (sample_run [[PkInt 1]] 3))) = CallCommit c)"
  using opened_txn_is_closed [OF sample_runD sample_run_begins] by blast


text \<open>
  C35: an error returned after the server acknowledged the commit has one cause: the written rows
  do not all have the same number of key columns, so the audit checksum cannot be computed. Every
  other error means that nothing was acknowledged as committed.
\<close>

theorem error_after_commit_iff_mixed_arity:
  assumes "apply_run sha256 hex_encode pid kind rel br cap pitr conn pause_point clk s = (r, s', tr)"
    and "CallCommit (Inr ()) \<in> set tr" and "CallForward k' rel' cs' (Inr fw) \<in> set tr"
  shows "(\<exists>e. r = Inl e) \<longleftrightarrow>
    \<not> (\<forall>a \<in> set (fw_written fw). \<forall>b \<in> set (fw_written fw). length (cr_pk a) = length (cr_pk b))"
proof -
  have "(\<exists>e. r = Inl e) \<longleftrightarrow> \<not> is_ok (written_checksum sha256 hex_encode fw rel)"
    using apply_run_protocolD [OF assms(1)] assms(2,3)
    by cases (auto simp: is_ok_def rbind_def split: sum.splits elim!: fence_calls.cases)
  then show ?thesis by (simp add: written_checksum_ok_iff)
qed

theorem error_after_commit_iff_mixed_arity_witness:
  "\<exists>e. fst (sample_run [[PkInt 1], [PkInt 1, PkInt 2]] 2) = Inl e"
  using error_after_commit_iff_mixed_arity [OF sample_runD sample_run_mixed]
  by (simp add: sample_forward_def with_written_columns_def forward_new_def sample_row_def)


end
