(* ===== verification/Orch_Revert.thy ===== *)
theory Orch_Revert
  imports Orch_Apply
begin

text \<open>
  The revert engine (\<^verbatim>\<open>crates/clone-orchestrator/src/revert.rs\<close>): routing the rows of a typed
  inverse to their relations and restoring them in foreign-key order inside one transaction. The
  round trip with \<open>build_inverse\<close> shows that what a guarded apply captured is what a revert restores.
\<close>

section \<open>Data\<close>

datatype malformed_row_detail =
    StampNotText image_value
  | NoPreimageColumns

datatype revert_error =
    MalformedInverse string
  | MalformedRow string malformed_row_detail
  | NotReversible
  | RevertBackend string

record revert_row =
  rr_pk :: pk_tuple
  rr_before_image :: "(string \<times> image_value) list"

record 's revert_conn =
  rv_begin :: "('s, revert_error, unit) eff"
  rv_restore_update :: "string \<Rightarrow> revert_row list \<Rightarrow> ('s, revert_error, u64) eff"
  rv_restore_insert :: "string \<Rightarrow> revert_row list \<Rightarrow> ('s, revert_error, u64) eff"
  rv_commit :: "('s, revert_error, unit) eff"
  rv_rollback :: "('s, revert_error, unit) eff"

record revert_report =
  rp_kind :: inverse_kind
  rp_restored_by_relation :: "(string \<times> u64) list"
  rp_total_restored :: u64
  rp_not_restored :: "not_restored list"

definition rp_restored :: "revert_report \<Rightarrow> string \<Rightarrow> u64" where
  "rp_restored rp relation =
     (case find (\<lambda>(r, _). r = relation) (rp_restored_by_relation rp) of None \<Rightarrow> 0 | Some (_, n) \<Rightarrow> n)"

section \<open>Routing\<close>

text \<open>One row's image: the last stamp seen, and the real columns in order.\<close>

fun split_stamp ::
  "string \<Rightarrow> (string \<times> image_value) list \<Rightarrow> string option \<Rightarrow> (string \<times> image_value) list
    \<Rightarrow> revert_error + string option \<times> (string \<times> image_value) list" where
  "split_stamp target [] relation before_image = Inr (relation, before_image)"
| "split_stamp target ((col, val) # rest) relation before_image =
     (if col = RELATION_STAMP then
        (case val of
           PkText rel \<Rightarrow> split_stamp target rest (Some rel) before_image
         | other \<Rightarrow> Inl (MalformedRow target (StampNotText other)))
      else split_stamp target rest relation (before_image @ [(col, val)]))"

definition route_push ::
  "string \<Rightarrow> revert_row \<Rightarrow> (string, revert_row list) btree \<Rightarrow> (string, revert_row list) btree" where
  "route_push relation row routed =
     bt_insert relation ((case bt_get routed relation of None \<Rightarrow> [] | Some rows \<Rightarrow> rows) @ [row]) routed"

definition route_row ::
  "inverse_plan \<Rightarrow> inverse_row \<Rightarrow> (string, revert_row list) btree
    \<Rightarrow> revert_error + (string, revert_row list) btree" where
  "route_row plan row routed =
     rbind (split_stamp (ip_relation plan) (ir_before_image row) None []) (\<lambda>(rel_opt, before_image).
       let relation = (case rel_opt of None \<Rightarrow> ip_relation plan | Some r \<Rightarrow> r) in
       if relation \<notin> set (ip_fk_order plan) then Inl (MalformedInverse relation)
       else if before_image = [] then Inl (MalformedRow relation NoPreimageColumns)
       else Inr (route_push relation \<lparr>rr_pk = ir_pk row, rr_before_image = before_image\<rparr> routed))"

fun route_all ::
  "inverse_plan \<Rightarrow> inverse_row list \<Rightarrow> (string, revert_row list) btree
    \<Rightarrow> revert_error + (string, revert_row list) btree" where
  "route_all plan [] routed = Inr routed"
| "route_all plan (row # rows) routed = rbind (route_row plan row routed) (route_all plan rows)"

definition route_rows :: "inverse_plan \<Rightarrow> revert_error + (string, revert_row list) btree" where
  "route_rows plan = route_all plan (ip_rows plan) []"

section \<open>Restoring\<close>

fun restore_relation ::
  "inverse_kind \<Rightarrow> 's revert_conn \<Rightarrow> string \<Rightarrow> revert_row list \<Rightarrow> ('s, revert_error, u64) eff" where
  "restore_relation PreimageUpsert conn = rv_restore_update conn"
| "restore_relation InvInsert conn = rv_restore_insert conn"
| "restore_relation InvNone conn = (\<lambda>_ _. efail NotReversible)"

fun revert_body ::
  "inverse_kind \<Rightarrow> (string, revert_row list) btree \<Rightarrow> 's revert_conn \<Rightarrow> string list
    \<Rightarrow> (string \<times> u64) list \<Rightarrow> u64 \<Rightarrow> ('s, revert_error, (string \<times> u64) list \<times> u64) eff" where
  "revert_body kind routed conn [] restored tot = eret (restored, tot)"
| "revert_body kind routed conn (relation # rest) restored tot =
     (let rows = (case bt_get routed relation of None \<Rightarrow> [] | Some v \<Rightarrow> v) in
      ebind (restore_relation kind conn relation rows) (\<lambda>n.
        revert_body kind routed conn rest (restored @ [(relation, n)]) (sat_add tot n)))"

definition revert :: "inverse_plan \<Rightarrow> 's revert_conn \<Rightarrow> ('s, revert_error, revert_report) eff" where
  "revert plan conn =
     (if ip_kind plan = InvNone then efail NotReversible
      else ebind (elift (route_rows plan)) (\<lambda>routed.
        ebind (rv_begin conn) (\<lambda>_ s.
          case revert_body (ip_kind plan) routed conn (ip_fk_order plan) [] 0 s of
            (Inr (restored, tot), s1) \<Rightarrow>
              ebind (rv_commit conn) (\<lambda>_.
                eret \<lparr>rp_kind = ip_kind plan, rp_restored_by_relation = restored,
                      rp_total_restored = tot, rp_not_restored = ip_not_restored plan\<rparr>) s1
          | (Inl e, s1) \<Rightarrow> (Inl e, snd (rv_rollback conn s1)))))"

section \<open>Round trip with the capture\<close>

definition to_revert :: "captured_row \<Rightarrow> revert_row" where
  "to_revert row = \<lparr>rr_pk = cr_pk row, rr_before_image = cr_before_image row\<rparr>"

definition routed_rows :: "(string, revert_row list) btree \<Rightarrow> string \<Rightarrow> revert_row list" where
  "routed_rows routed r = (case bt_get routed r of None \<Rightarrow> [] | Some rows \<Rightarrow> rows)"

text \<open>
  A captured row the inverse can carry: some column, and none that is named like the stamp. The
  inverse marks the relation of a cascade row by one more column, \<^verbatim>\<open>__relation\<close>, so a table's own
  column of that name is taken for the mark.
\<close>

definition restorable :: "captured_row \<Rightarrow> bool" where
  "restorable row = (cr_before_image row \<noteq> [] \<and> RELATION_STAMP \<notin> fst ` set (cr_before_image row))"

definition cascade_rows :: "forward_result \<Rightarrow> string \<Rightarrow> captured_row list" where
  "cascade_rows fw r = (case bt_get (fw_cascade_preimages fw) r of None \<Rightarrow> [] | Some rows \<Rightarrow> rows)"

lemma captured_for_cascade: "r \<noteq> target \<Longrightarrow> captured_for target fw r = cascade_rows fw r"
  by (simp add: captured_for_def cascade_rows_def)

lemma foldl_push_map: "foldl (\<lambda>b x. ipb_push_row b (g x)) b xs = b\<lparr>ipb_rows := ipb_rows b @ map g xs\<rparr>"
  by (induction xs arbitrary: b) (simp_all add: ipb_push_row_def)

lemma foldl_cascades:
  "foldl (\<lambda>(b, fk) (rel, cs).
      ((case bt_get (fw_cascade_preimages fw) rel of
          None \<Rightarrow> b
        | Some rows \<Rightarrow> foldl (\<lambda>b row. ipb_push_row b (stamp_row rel row)) b rows), fk @ [rel])) (b, fk) cs
   = (b\<lparr>ipb_rows := ipb_rows b @ concat (map (\<lambda>r. map (stamp_row r) (cascade_rows fw r)) (map fst cs))\<rparr>,
      fk @ map fst cs)"
  by (induction cs arbitrary: b fk)
    (auto simp: foldl_push_map cascade_rows_def split: option.splits)

lemma build_inverse_eq:
  "build_inverse kind rel predicted fw =
     \<lparr>ip_relation = rel, ip_kind = write_kind_inverse kind,
      ip_rows = map plain_row (fw_written fw)
        @ concat (map (\<lambda>r. map (stamp_row r) (cascade_rows fw r)) (map fst (pb_cascades predicted))),
      ip_fk_order = rel # map fst (pb_cascades predicted), ip_not_restored = not_restored_all\<rparr>"
  by (cases kind)
    (simp_all add: build_inverse_def foldl_push_map foldl_cascades ipb_new_def ipb_set_fk_order_def ipb_build_def)

lemma split_stamp_plain:
  "RELATION_STAMP \<notin> fst ` set img \<Longrightarrow> split_stamp t (img @ rest) rel acc = split_stamp t rest rel (acc @ img)"
  by (induction img arbitrary: acc) auto

lemma routed_rows_push:
  "bt_wf m \<Longrightarrow> routed_rows (route_push r row m) r' = routed_rows m r' @ (if r' = r then [row] else [])"
  by (simp add: routed_rows_def route_push_def bt_get_insert split: option.splits)

lemma bt_wf_route_push [simp]: "bt_wf m \<Longrightarrow> bt_wf (route_push r row m)"
  by (simp add: route_push_def bt_wf_insert)

lemma route_plain:
  "restorable row \<Longrightarrow> ip_relation plan \<in> set (ip_fk_order plan) \<Longrightarrow>
     route_row plan (plain_row row) m = Inr (route_push (ip_relation plan) (to_revert row) m)"
  using split_stamp_plain [of "cr_before_image row" "ip_relation plan" "[]" None "[]"]
  by (simp add: route_row_def plain_row_def restorable_def to_revert_def)

lemma route_stamped:
  "restorable row \<Longrightarrow> r \<in> set (ip_fk_order plan) \<Longrightarrow>
     route_row plan (stamp_row r row) m = Inr (route_push r (to_revert row) m)"
  by (simp add: route_row_def stamp_row_def restorable_def to_revert_def split_stamp_plain)

lemma route_all_append: "route_all plan (xs @ ys) m = rbind (route_all plan xs m) (route_all plan ys)"
  by (induction xs arbitrary: m) (simp_all add: rbind_def split: sum.splits)

lemma route_all_block:
  assumes "\<forall>row \<in> set rows. \<forall>m. route_row plan (g row) m = Inr (route_push r (to_revert row) m)" and "bt_wf m"
  shows "\<exists>m'. route_all plan (map g rows) m = Inr m' \<and> bt_wf m'
    \<and> (\<forall>r'. routed_rows m' r' = routed_rows m r' @ (if r' = r then map to_revert rows else []))"
  using assms
proof (induction rows arbitrary: m)
  case Nil
  then show ?case by simp
next
  case (Cons row rows)
  then show ?case
    using Cons.IH [of "route_push r (to_revert row) m"] by (auto simp: routed_rows_push)
qed

lemma route_all_cascades:
  assumes "\<forall>r \<in> set cs. r \<in> set (ip_fk_order plan) \<and> (\<forall>row \<in> set (f r). restorable row)"
    and "distinct cs" and "bt_wf m"
  shows "\<exists>m'. route_all plan (concat (map (\<lambda>r. map (stamp_row r) (f r)) cs)) m = Inr m' \<and> bt_wf m'
    \<and> (\<forall>r'. routed_rows m' r' = routed_rows m r' @ (if r' \<in> set cs then map to_revert (f r') else []))"
  using assms
proof (induction cs arbitrary: m)
  case Nil
  then show ?case by simp
next
  case (Cons r cs)
  obtain m1 where m1: "route_all plan (map (stamp_row r) (f r)) m = Inr m1" "bt_wf m1"
    "\<forall>r'. routed_rows m1 r' = routed_rows m r' @ (if r' = r then map to_revert (f r) else [])"
    using route_all_block [of "f r" plan "stamp_row r" r m] Cons.prems route_stamped by auto
  from Cons.IH [OF _ _ m1(2)] Cons.prems m1 show ?case
    by (auto simp: route_all_append)
qed

lemma route_build_inverse_rows:
  assumes "\<forall>row \<in> set (fw_written fw). restorable row"
    and "\<forall>r \<in> fst ` set (pb_cascades predicted). \<forall>row \<in> set (cascade_rows fw r). restorable row"
    and "distinct (map fst (pb_cascades predicted))" and "rel \<notin> fst ` set (pb_cascades predicted)"
  shows "\<exists>routed. route_rows (build_inverse kind rel predicted fw) = Inr routed
    \<and> (\<forall>r. routed_rows routed r =
        (if r \<in> insert rel (fst ` set (pb_cascades predicted)) then map to_revert (captured_for rel fw r) else []))"
proof -
  let ?plan = "build_inverse kind rel predicted fw"
  have plan: "ip_relation ?plan = rel" "ip_fk_order ?plan = rel # map fst (pb_cascades predicted)"
    by (simp_all add: build_inverse_eq)
  obtain m where m: "route_all ?plan (map plain_row (fw_written fw)) [] = Inr m" "bt_wf m"
    "\<forall>r'. routed_rows m r' = (if r' = rel then map to_revert (fw_written fw) else [])"
    using route_all_block [of "fw_written fw" ?plan plain_row rel "[]"] assms(1) route_plain [of _ ?plan] plan
    by (auto simp: routed_rows_def)
  obtain m' where m': "route_all ?plan (concat (map (\<lambda>r. map (stamp_row r) (cascade_rows fw r))
        (map fst (pb_cascades predicted)))) m = Inr m'"
    "\<forall>r'. routed_rows m' r' = routed_rows m r' @
      (if r' \<in> set (map fst (pb_cascades predicted)) then map to_revert (cascade_rows fw r') else [])"
    using route_all_cascades [of "map fst (pb_cascades predicted)" ?plan "cascade_rows fw" m] assms m(2) plan
    by auto
  have "route_rows ?plan = Inr m'"
    using m m' by (simp add: route_rows_def build_inverse_eq route_all_append)
  then show ?thesis
    using m(3) m'(2) assms(4) by (auto simp: captured_for_cascade captured_for_def [of rel _ rel])
qed

text \<open>
  The restore an observer expects: one transaction, one call per relation, parents first, each with
  the rows captured for that relation; rolled back when a call fails.
\<close>

definition restore_calls ::
  "string \<Rightarrow> predicted_blast_radius \<Rightarrow> forward_result \<Rightarrow> (string \<times> revert_row list) list" where
  "restore_calls rel predicted fw =
     map (\<lambda>r. (r, map to_revert (captured_for rel fw r))) (rel # map fst (pb_cascades predicted))"

fun run_restores ::
  "inverse_kind \<Rightarrow> 's revert_conn \<Rightarrow> (string \<times> revert_row list) list \<Rightarrow> ('s, revert_error, (string \<times> u64) list) eff" where
  "run_restores kind conn [] = eret []"
| "run_restores kind conn ((r, rows) # calls) =
     ebind (restore_relation kind conn r rows) (\<lambda>n.
       ebind (run_restores kind conn calls) (\<lambda>ns. eret ((r, n) # ns)))"

definition restore_txn ::
  "inverse_kind \<Rightarrow> 's revert_conn \<Rightarrow> (string \<times> revert_row list) list \<Rightarrow> ('s, revert_error, revert_report) eff" where
  "restore_txn kind conn calls =
     ebind (rv_begin conn) (\<lambda>_ s.
       case run_restores kind conn calls s of
         (Inr ns, s1) \<Rightarrow>
           ebind (rv_commit conn) (\<lambda>_.
             eret \<lparr>rp_kind = kind, rp_restored_by_relation = ns,
                   rp_total_restored = foldl sat_add 0 (map snd ns), rp_not_restored = not_restored_all\<rparr>) s1
       | (Inl e, s1) \<Rightarrow> (Inl e, snd (rv_rollback conn s1)))"

lemma revert_body_run:
  assumes "\<forall>r \<in> set rels. routed_rows routed r = f r"
  shows "revert_body kind routed conn rels acc tot s =
    (case run_restores kind conn (map (\<lambda>r. (r, f r)) rels) s of
       (Inr ns, s1) \<Rightarrow> (Inr (acc @ ns, foldl sat_add tot (map snd ns)), s1)
     | (Inl e, s1) \<Rightarrow> (Inl e, s1))"
  using assms
proof (induction rels arbitrary: acc tot s)
  case Nil
  then show ?case by simp
next
  case (Cons r rels)
  have "(case bt_get routed r of None \<Rightarrow> [] | Some v \<Rightarrow> v) = f r"
    using Cons.prems by (simp add: routed_rows_def)
  with Cons show ?case
    by (simp add: ebind_def split: prod.splits sum.splits)
qed

text \<open>What routing a plan's rows comes to, once it succeeds.\<close>

lemma revert_routed:
  assumes "ip_kind plan \<noteq> InvNone" and "route_rows plan = Inr routed" and "ip_not_restored plan = not_restored_all"
  shows "revert plan conn s
    = restore_txn (ip_kind plan) conn (map (\<lambda>r. (r, routed_rows routed r)) (ip_fk_order plan)) s"
proof -
  have all: "\<forall>r \<in> set (ip_fk_order plan). routed_rows routed r = routed_rows routed r" by simp
  have body: "revert_body (ip_kind plan) routed conn (ip_fk_order plan) [] 0 s1 =
    (case run_restores (ip_kind plan) conn (map (\<lambda>r. (r, routed_rows routed r)) (ip_fk_order plan)) s1 of
       (Inr ns, s2) \<Rightarrow> (Inr (ns, foldl sat_add 0 (map snd ns)), s2)
     | (Inl e, s2) \<Rightarrow> (Inl e, s2))" for s1
    unfolding revert_body_run [OF all] append_Nil by (rule refl)
  show ?thesis
    by (simp add: revert_def restore_txn_def assms body ebind_def del: revert_body.simps run_restores.simps
        split: prod.splits sum.splits)
qed

text \<open>Whatever is routed has a column and none named like the stamp.\<close>

definition carried :: "revert_row \<Rightarrow> bool" where
  "carried x = (rr_before_image x \<noteq> [] \<and> RELATION_STAMP \<notin> fst ` set (rr_before_image x))"

lemma carried_to_revert: "carried (to_revert row) \<longleftrightarrow> restorable row"
  by (simp add: carried_def restorable_def to_revert_def)

lemma split_stamp_image:
  "split_stamp t img r acc = Inr (r', acc') \<Longrightarrow> RELATION_STAMP \<notin> fst ` set acc \<Longrightarrow> RELATION_STAMP \<notin> fst ` set acc'"
proof (induction img arbitrary: r acc)
  case (Cons cv img)
  obtain c v where cv: "cv = (c, v)" by (cases cv)
  show ?case
  proof (cases "c = RELATION_STAMP")
    case True
    with Cons show ?thesis by (cases v) (simp_all add: cv)
  next
    case False
    with Cons.prems Cons.IH [of r "acc @ [(c, v)]"] show ?thesis by (simp add: cv)
  qed
qed simp

lemma route_row_image:
  assumes "route_row plan row m = Inr m'" and "bt_wf m"
  shows "\<exists>rel x. m' = route_push rel x m \<and> carried x"
  using assms split_stamp_image [of "ip_relation plan" "ir_before_image row" None "[]"]
  by (fastforce simp: route_row_def rbind_Inr_iff Let_def carried_def split: if_splits)

lemma route_all_images:
  assumes "route_all plan rows m = Inr m'" and "bt_wf m" and "\<forall>r. list_all carried (routed_rows m r)"
  shows "list_all carried (routed_rows m' r)"
  using assms
proof (induction rows arbitrary: m)
  case (Cons row rows)
  from Cons.prems(1) obtain m1 where m1: "route_row plan row m = Inr m1" "route_all plan rows m1 = Inr m'"
    by (auto simp: rbind_Inr_iff)
  obtain rel x where "m1 = route_push rel x m" "carried x" using route_row_image [OF m1(1) Cons.prems(2)] by blast
  with Cons.prems(2,3) show ?case by (intro Cons.IH [OF m1(2)]) (simp_all add: routed_rows_push)
qed simp

text \<open>Every row an apply captured, for the target and for the cascades of the prediction.\<close>

definition captured_rows :: "predicted_blast_radius \<Rightarrow> forward_result \<Rightarrow> captured_row list" where
  "captured_rows predicted fw = fw_written fw @ concat (map (cascade_rows fw) (map fst (pb_cascades predicted)))"

lemma captured_rows_for:
  assumes "rel \<notin> fst ` set (pb_cascades predicted)"
  shows "set (captured_rows predicted fw)
    = (\<Union>r \<in> set (rel # map fst (pb_cascades predicted)). set (captured_for rel fw r))"
proof -
  have "captured_for rel fw rel = fw_written fw" by (simp add: captured_for_def)
  moreover have "captured_for rel fw r = cascade_rows fw r" if "r \<in> fst ` set (pb_cascades predicted)" for r
    using that assms by (intro captured_for_cascade) blast
  ultimately show ?thesis by (auto simp: captured_rows_def)
qed

text \<open>A connection that records every restore call, as the unit tests' connection does.\<close>

definition record_conn :: "(string \<times> revert_row list) list revert_conn" where
  "record_conn =
     (let restore = (\<lambda>r rows s. (Inr (word_of_nat (length rows)), s @ [(r, rows)]))
      in \<lparr>rv_begin = eret (), rv_restore_update = restore, rv_restore_insert = restore,
          rv_commit = eret (), rv_rollback = eret ()\<rparr>)"

lemma run_restores_recorded:
  "kind \<noteq> InvNone \<Longrightarrow> run_restores kind record_conn calls st
    = (Inr (map (\<lambda>(r, rows). (r, word_of_nat (length rows))) calls), st @ calls)"
  by (induction calls arbitrary: st; cases kind) (auto simp: record_conn_def ebind_def)

lemma restore_txn_recorded:
  "kind \<noteq> InvNone \<Longrightarrow> \<exists>rp. restore_txn kind record_conn calls [] = (Inr rp, calls)"
  by (simp add: restore_txn_def run_restores_recorded) (simp add: record_conn_def ebind_def)

lemma inverse_fields:
  "ip_kind (build_inverse kind rel predicted fw) = write_kind_inverse kind"
  "ip_fk_order (build_inverse kind rel predicted fw) = rel # map fst (pb_cascades predicted)"
  "ip_not_restored (build_inverse kind rel predicted fw) = not_restored_all"
  "write_kind_inverse kind \<noteq> InvNone"
  by (cases kind; simp add: build_inverse_eq inverse_for_update_def inverse_for_delete_def)+

lemma revert_restores_restorable:
  assumes "\<forall>row \<in> set (captured_rows predicted fw). restorable row"
    and "distinct (map fst (pb_cascades predicted))" and "rel \<notin> fst ` set (pb_cascades predicted)"
  shows "revert (build_inverse kind rel predicted fw) conn s
    = restore_txn (write_kind_inverse kind) conn (restore_calls rel predicted fw) s"
proof -
  obtain routed where routed: "route_rows (build_inverse kind rel predicted fw) = Inr routed"
    and rows: "\<forall>r. routed_rows routed r =
      (if r \<in> insert rel (fst ` set (pb_cascades predicted)) then map to_revert (captured_for rel fw r) else [])"
    using route_build_inverse_rows [OF _ _ assms(2,3), of fw kind] assms(1) by (fastforce simp: captured_rows_def)
  have "map (\<lambda>r. (r, routed_rows routed r)) (rel # map fst (pb_cascades predicted)) = restore_calls rel predicted fw"
    using rows by (simp add: restore_calls_def)
  with revert_routed [OF _ routed] show ?thesis by (simp add: inverse_fields)
qed

lemma unrestorable_is_not_restored:
  assumes "row \<in> set (captured_rows predicted fw)" and "\<not> restorable row"
    and "rel \<notin> fst ` set (pb_cascades predicted)"
  shows "revert (build_inverse kind rel predicted fw) record_conn []
    \<noteq> restore_txn (write_kind_inverse kind) record_conn (restore_calls rel predicted fw) []"
proof
  let ?plan = "build_inverse kind rel predicted fw"
  assume eq: "revert ?plan record_conn [] = restore_txn (write_kind_inverse kind) record_conn (restore_calls rel predicted fw) []"
  show False
  proof (cases "route_rows ?plan")
    case (Inl e)
    then have "fst (revert ?plan record_conn []) = Inl e" by (simp add: revert_def inverse_fields ebind_def)
    with eq show False using restore_txn_recorded [OF inverse_fields(4)] by (metis fst_conv Inr_not_Inl)
  next
    case (Inr routed)
    have "map (\<lambda>r. (r, routed_rows routed r)) (rel # map fst (pb_cascades predicted)) = restore_calls rel predicted fw"
      using eq revert_routed [OF _ Inr] restore_txn_recorded [OF inverse_fields(4)] inverse_fields
      by (metis snd_conv)
    then have same: "\<forall>r \<in> set (rel # map fst (pb_cascades predicted)).
        routed_rows routed r = map to_revert (captured_for rel fw r)"
      unfolding restore_calls_def by simp
    obtain r where r: "r \<in> set (rel # map fst (pb_cascades predicted))" "row \<in> set (captured_for rel fw r)"
      using assms(1) captured_rows_for [OF assms(3)] by blast
    then have "to_revert row \<in> set (routed_rows routed r)" using same by auto
    moreover have "list_all carried (routed_rows routed r)"
      by (rule route_all_images [OF Inr [unfolded route_rows_def]]) (simp_all add: routed_rows_def)
    ultimately show False using assms(2) by (auto simp: list_all_iff carried_to_revert)
  qed
qed

text \<open>
  C26: reverting the inverse a guarded apply built is the restore an observer expects exactly when
  every captured row has a column and none named \<^verbatim>\<open>__relation\<close>: then, on every connection, the target's
  captured rows are restored first inside one transaction, then each cascade's in plan order, each
  relation once and with exactly its captured rows, and a failing call rolls the whole back; and when
  some captured row is not so, the revert is seen to differ on a connection that records its calls.
  The cascades of the prediction are distinct and are not the target, as those of a grant are.
\<close>

theorem revert_restores_capture:
  assumes "distinct (map fst (pb_cascades predicted))" and "rel \<notin> fst ` set (pb_cascades predicted)"
  shows "((\<forall>row \<in> set (captured_rows predicted fw). restorable row) \<longrightarrow>
      revert (build_inverse kind rel predicted fw) conn s
      = restore_txn (write_kind_inverse kind) conn (restore_calls rel predicted fw) s)
    \<and> (revert (build_inverse kind rel predicted fw) record_conn []
      = restore_txn (write_kind_inverse kind) record_conn (restore_calls rel predicted fw) [] \<longleftrightarrow>
      (\<forall>row \<in> set (captured_rows predicted fw). restorable row))"
proof (intro conjI impI iffI ballI)
  show "revert (build_inverse kind rel predicted fw) conn s
      = restore_txn (write_kind_inverse kind) conn (restore_calls rel predicted fw) s"
    if "\<forall>row \<in> set (captured_rows predicted fw). restorable row"
    by (rule revert_restores_restorable [OF that assms])
  show "revert (build_inverse kind rel predicted fw) record_conn []
      = restore_txn (write_kind_inverse kind) record_conn (restore_calls rel predicted fw) []"
    if "\<forall>row \<in> set (captured_rows predicted fw). restorable row"
    by (rule revert_restores_restorable [OF that assms])
qed (use unrestorable_is_not_restored [OF _ _ assms(2)] in blast)

text \<open>
  A table of the target with a text column \<^verbatim>\<open>__relation\<close> has its row restored into the relation the
  column names, and without that column.
\<close>

definition stamped_forward :: forward_result where
  "stamped_forward =
     \<lparr>fw_written = [\<lparr>cr_pk = [PkInt 1], cr_before_image = [(''id'', PkInt 1), (RELATION_STAMP, PkText ''entries'')]\<rparr>],
      fw_cascade_preimages = [], fw_written_columns = []\<rparr>"

lemma stamp_column_misroutes:
  "snd (revert (build_inverse Delete ''accounts'' \<lparr>pb_cascades = [(''entries'', ''c'')], pb_effect_by_table = []\<rparr>
      stamped_forward) record_conn [])
   = [(''accounts'', []), (''entries'', [\<lparr>rr_pk = [PkInt 1], rr_before_image = [(''id'', PkInt 1)]\<rparr>])]"
  by (simp add: revert_def build_inverse_eq stamped_forward_def cascade_rows_def record_conn_def ebind_def
      route_rows_def route_row_def route_push_def plain_row_def RELATION_STAMP_def inverse_for_delete_def)

definition sample_cascade_forward :: forward_result where
  "sample_cascade_forward =
     \<lparr>fw_written = [\<lparr>cr_pk = [PkInt 1], cr_before_image = [(''id'', PkInt 1), (''owner'', PkText ''a'')]\<rparr>],
      fw_cascade_preimages = [(''entries'', [\<lparr>cr_pk = [PkInt 7], cr_before_image = [(''amount'', PkInt 5)]\<rparr>])],
      fw_written_columns = []\<rparr>"

theorem revert_restores_capture_witness:
  "map (\<lambda>(r, rows). (r, map rr_pk rows)) (snd (revert (build_inverse Delete ''accounts''
      \<lparr>pb_cascades = [(''entries'', ''c'')], pb_effect_by_table = []\<rparr> sample_cascade_forward) record_conn []))
   = [(''accounts'', [[PkInt 1]]), (''entries'', [[PkInt 7]])]"
proof -
  have "revert (build_inverse Delete ''accounts'' \<lparr>pb_cascades = [(''entries'', ''c'')], pb_effect_by_table = []\<rparr>
      sample_cascade_forward) record_conn []
    = restore_txn InvInsert record_conn (restore_calls ''accounts''
      \<lparr>pb_cascades = [(''entries'', ''c'')], pb_effect_by_table = []\<rparr> sample_cascade_forward) []"
    using revert_restores_capture [of "\<lparr>pb_cascades = [(''entries'', ''c'')], pb_effect_by_table = []\<rparr>" "''accounts''"
        sample_cascade_forward Delete record_conn "[]"]
    by (simp add: captured_rows_def sample_cascade_forward_def restorable_def RELATION_STAMP_def cascade_rows_def
        inverse_for_delete_def)
  then show ?thesis
    by (simp add: restore_txn_def restore_calls_def record_conn_def ebind_def sample_cascade_forward_def
        captured_for_def to_revert_def)
qed

end
