(* ===== verification/Orch_Reversibility.thy ===== *)
theory Orch_Reversibility
  imports Orch_Apply_Safety Orch_Revert
begin

text \<open>
  How the dry run, the guarded apply and the revert fit together: a record the dry run assembled is
  a grant the apply accepts, and what an apply destroyed is what the inverse it returned restores.
\<close>

lemma from_grant_cascades:
  assumes "from_grant br rel = Inr predicted" and "bt_wf (cascade_by_table (br_affected br))"
  shows "distinct (map fst (pb_cascades predicted))" and "rel \<notin> fst ` set (pb_cascades predicted)"
proof -
  from assms(1) have cs: "map fst (pb_cascades predicted)
      = filter (\<lambda>r. r \<noteq> rel) (bt_keys (cascade_by_table (br_affected br)))"
    by (auto simp: from_grant_def rbind_Inr_iff dest: grant_cascades_ok split: if_splits)
  from assms(2) show "distinct (map fst (pb_cascades predicted))"
    by (simp add: cs bt_wf_def strict_sorted_iff)
  have "rel \<notin> set (map fst (pb_cascades predicted))" by (simp add: cs)
  then show "rel \<notin> fst ` set (pb_cascades predicted)" by simp
qed

text \<open>
  A record the dry run assembled is a grant the apply accepts whenever the measured footprint
  names the target (always so when only the target and its cascades were measured), and its
  cascades are those of the measurement without the target.
\<close>

lemma assembled_record_is_grantable:
  assumes asm: "assemble p kind m = Inr br"
    and foot: "m_full_effect m = [] \<or> at_relation (m_target m) \<in> re_relation ` set (m_full_effect m)"
  shows "\<exists>predicted. from_grant br (at_relation (m_target m)) = Inr predicted
    \<and> set (map fst (pb_cascades predicted)) = at_relation ` set (m_cascades m) - {at_relation (m_target m)}
    \<and> is_ok (certify (operation_from_dry_run kind br)) \<and> br_proposal_id br = pr_id p
    \<and> unat (total_rows (br_affected br))
      = min (unat (at_rows (m_target m)) + (\<Sum>c \<leftarrow> m_cascades m. unat (at_rows c))) (2 ^ 64 - 1)"
proof -
  let ?t = "at_relation (m_target m)" and ?a = "br_affected br"
  have wf: "blast_radius_wf ?t kind br" and eff: "effect_by_table ?a = assemble_effect kind m"
    and keys: "set (bt_keys (cascade_by_table ?a)) = at_relation ` set (m_cascades m)"
    and rest: "br_proposal_id br = pr_id p" "unat (total_rows ?a)
      = min (unat (at_rows (m_target m)) + (\<Sum>c \<leftarrow> m_cascades m. unat (at_rows c))) (2 ^ 64 - 1)"
    using assemble_complete [OF asm] by blast+
  have "?t \<in> fst ` set (effect_by_table ?a)"
    using foot by (auto simp: eff assemble_effect_keys)
  then have target: "bt_contains (effect_by_table ?a) ?t" "bt_contains (pk_set_checksum ?a) ?t"
    "effect_by_table ?a \<noteq> []"
    using wf by (auto simp: bt_contains_iff blast_radius_wf_def)
  obtain cs where cs: "grant_cascades (pk_set_checksum ?a) ?t (bt_keys (cascade_by_table ?a)) = Inr cs"
    using grant_cascades_total [of "bt_keys (cascade_by_table ?a)" ?t "pk_set_checksum ?a"] wf
    by (auto simp: is_ok_iff blast_radius_wf_def)
  have "set (map fst cs) = at_relation ` set (m_cascades m) - {?t}"
    unfolding grant_cascades_ok [OF cs] using keys by auto
  with target cs wf rest show ?thesis
    by (auto simp: from_grant_def operation_certified blast_radius_wf_def)
qed

definition sample_measurement :: measurement where
  "sample_measurement =
     \<lparr>m_target = \<lparr>at_relation = ''orders'', at_checksum = Some \<lparr>pkc_hex = ''aa''\<rparr>, at_rows = 2\<rparr>,
      m_cascades = [\<lparr>at_relation = ''items'', at_checksum = Some \<lparr>pkc_hex = ''bb''\<rparr>, at_rows = 3\<rparr>],
      m_full_effect = [], m_triggers_fired = [], m_locks = [], m_duration_ms = 5, m_wal_bytes = 100,
      m_constraint_violations = [], m_clone_lsn = ''0/1'', m_staleness_lsn_bytes = 0\<rparr>"

definition sample_assembled :: blast_radius where
  "sample_assembled = projr (assemble (fst (propose ''x'' None (clock_starting_at 0) 0)) Delete
     sample_measurement :: (unit, unit) dry_run_error + blast_radius)"

lemma sample_assembled_eq:
  "assemble (fst (propose ''x'' None (clock_starting_at 0) 0)) Delete sample_measurement
     = (Inr sample_assembled :: (unit, unit) dry_run_error + blast_radius)"
  by (simp add: sample_assembled_def assemble_def sample_measurement_def)

lemma assembled_record_is_grantable_sample:
  "\<exists>predicted. from_grant sample_assembled ''orders'' = Inr predicted
    \<and> set (map fst (pb_cascades predicted)) = {''items''} \<and> unat (total_rows (br_affected sample_assembled)) = 5"
  using assembled_record_is_grantable [OF sample_assembled_eq] by (auto simp: sample_measurement_def)

text \<open>
  C4: what a guarded apply destroyed, its inverse restores: when an apply returns success, the
  inverse routes without error to exactly the rows the transaction captured, for every relation at
  least as many as the transaction deleted there, and reverting it is one transaction that restores
  these rows, the target's first. The connection's side of the contract is that it captures cascade
  pre-images only for the relations it was asked for and that each captured row has a column and
  none named \<^verbatim>\<open>__relation\<close>; the cascades of the record are a well-formed map.
\<close>

theorem committed_deletes_are_restorable:
  assumes run: "apply_run sha256 hex_encode pid kind rel br cap pitr conn pause_point clk s = (Inr aw, s', tr)"
    and wf: "bt_wf (cascade_by_table (br_affected br))"
    and fwd: "CallForward kind rel cs (Inr fw) \<in> set tr" and del: "CallDeltas (Inr deltas) \<in> set tr"
    and asked: "set (bt_keys (fw_cascade_preimages fw)) \<subseteq> set cs"
    and real: "\<forall>row \<in> set (fw_written fw). restorable row"
      "\<forall>r \<in> set cs. \<forall>row \<in> set (cascade_rows fw r). restorable row"
  shows "(\<exists>routed. route_rows (aw_inverse aw) = Inr routed
      \<and> (\<forall>r. routed_rows routed r = map to_revert (captured_for rel fw r))
      \<and> (\<forall>c \<in> set deltas. unat (rc_del c) \<le> length (routed_rows routed (rc_relation c))))
    \<and> revert (aw_inverse aw) rconn rs
      = restore_txn (write_kind_inverse kind) rconn (map (\<lambda>r. (r, map to_revert (captured_for rel fw r))) (rel # cs)) rs"
proof -
  obtain predicted where adm: "grant_admits pid kind rel br cap predicted"
    and cs: "cs = map fst (pb_cascades predicted)"
    and cover: "covered_by_capture rel deltas fw"
    and inv: "aw_inverse aw = build_inverse kind rel predicted fw"
    using apply_run_protocolD [OF run] fwd del
    by cases (auto simp: guards_hold_def rbind_def split: sum.splits elim!: fence_calls.cases)
  have "from_grant br rel = Inr predicted" using adm by (simp add: grant_admits_def)
  note casc = from_grant_cascades [OF this wf]
  obtain routed where routed: "route_rows (aw_inverse aw) = Inr routed"
    and rows: "\<forall>r. routed_rows routed r =
      (if r \<in> insert rel (fst ` set (pb_cascades predicted)) then map to_revert (captured_for rel fw r) else [])"
    using route_build_inverse_rows [OF real(1) _ casc, of kind] real(2) unfolding inv cs set_map by blast
  have none: "captured_for rel fw r = []" if "r \<notin> insert rel (fst ` set (pb_cascades predicted))" for r
  proof -
    from that asked cs have "r \<notin> fst ` set (fw_cascade_preimages fw)" by auto
    then have "bt_get (fw_cascade_preimages fw) r = None" by (simp add: map_of_eq_None_iff)
    with that show ?thesis by (simp add: captured_for_def)
  qed
  have exact: "routed_rows routed r = map to_revert (captured_for rel fw r)" for r
    using rows none [of r] by (cases "r \<in> insert rel (fst ` set (pb_cascades predicted))") auto
  have "\<forall>c \<in> set deltas. unat (rc_del c) \<le> length (routed_rows routed (rc_relation c))"
    using cover by (auto simp: exact covered_by_capture_def)
  moreover have "revert (aw_inverse aw) rconn rs
      = restore_txn (write_kind_inverse kind) rconn (restore_calls rel predicted fw) rs"
    unfolding inv by (rule revert_restores_restorable [OF _ casc]) (use real in \<open>auto simp: captured_rows_def cs\<close>)
  ultimately show ?thesis using routed exact unfolding restore_calls_def cs by blast
qed

text \<open>A delete of an account takes two of its entries along; every row is captured.\<close>

definition sample_delete_br :: blast_radius where
  "sample_delete_br = sample_br\<lparr>br_inverse_kind := InvInsert, br_affected :=
     \<lparr>by_table = [(''accounts'', 1)], cascade_by_table = [(''entries'', 2)],
      pk_set_checksum = [(''accounts'', ''aa''), (''entries'', ''bb'')],
      effect_by_table = [(''accounts'', op_counts_new 0 0 1), (''entries'', op_counts_new 0 0 2)], total_rows = 3\<rparr>\<rparr>"

definition sample_delete_forward :: forward_result where
  "sample_delete_forward =
     \<lparr>fw_written = [\<lparr>cr_pk = [PkInt 1], cr_before_image = [(''id'', PkInt 1), (''owner'', PkText ''a'')]\<rparr>],
      fw_cascade_preimages = [(''entries'', [\<lparr>cr_pk = [PkInt 7], cr_before_image = [(''amount'', PkInt 5)]\<rparr>,
        \<lparr>cr_pk = [PkInt 8], cr_before_image = [(''amount'', PkInt 6)]\<rparr>])],
      fw_written_columns = []\<rparr>"

definition sample_delete_deltas :: "relation_change list" where
  "sample_delete_deltas =
     [\<lparr>rc_relation = ''accounts'', rc_ins = 0, rc_upd = 0, rc_del = 1\<rparr>,
      \<lparr>rc_relation = ''entries'', rc_ins = 0, rc_upd = 0, rc_del = 2\<rparr>]"

definition sample_delete_run :: "(apply_error + applied_write) \<times> unit \<times> conn_call list" where
  "sample_delete_run =
     apply_run (\<lambda>_. []) (\<lambda>_. []) ''p'' Delete ''accounts'' sample_delete_br \<lparr>max_rows = 3, max_wal_bytes = 20\<rparr>
       \<lparr>pitr_enabled = False\<rparr> (script_conn sample_delete_forward sample_delete_deltas 15)
       (\<lambda>_ s. s) (clock_starting_at 0) ()"

lemmas sample_delete_defs =
  sample_delete_run_def sample_delete_br_def sample_delete_forward_def sample_delete_deltas_def sample_defs

lemma sample_delete_ok:
  "\<exists>aw. fst sample_delete_run = Inr aw"
  "CallForward Delete ''accounts'' [''entries''] (Inr sample_delete_forward) \<in> set (snd (snd sample_delete_run))"
  "CallDeltas (Inr sample_delete_deltas) \<in> set (snd (snd sample_delete_run))"
  by (simp_all add: sample_delete_defs sat_add_def)

text \<open>The revert of that delete puts the account and its two entries back, in this order.\<close>

theorem committed_deletes_are_restorable_witness:
  "\<exists>aw. fst sample_delete_run = Inr aw
    \<and> map (\<lambda>(r, rows). (r, map rr_pk rows)) (snd (revert (aw_inverse aw) record_conn []))
      = [(''accounts'', [[PkInt 1]]), (''entries'', [[PkInt 7], [PkInt 8]])]"
proof -
  obtain aw where aw: "fst sample_delete_run = Inr aw" using sample_delete_ok(1) by blast
  have run: "apply_run (\<lambda>_. []) (\<lambda>_. []) ''p'' Delete ''accounts'' sample_delete_br \<lparr>max_rows = 3, max_wal_bytes = 20\<rparr>
       \<lparr>pitr_enabled = False\<rparr> (script_conn sample_delete_forward sample_delete_deltas 15) (\<lambda>_ s. s) (clock_starting_at 0) ()
     = (Inr aw, fst (snd sample_delete_run), snd (snd sample_delete_run))"
    using aw by (simp only: sample_delete_run_def [symmetric] prod.collapse flip: aw)
  have "revert (aw_inverse aw) record_conn []
      = restore_txn (write_kind_inverse Delete) record_conn
          (map (\<lambda>r. (r, map to_revert (captured_for ''accounts'' sample_delete_forward r))) [''accounts'', ''entries'']) []"
    by (rule conjunct2 [OF committed_deletes_are_restorable [OF run _ sample_delete_ok(2,3)]])
      (simp_all add: sample_delete_br_def sample_delete_forward_def restorable_def RELATION_STAMP_def cascade_rows_def bt_wf_def)
  with aw show ?thesis
    by (simp add: restore_txn_def record_conn_def ebind_def sample_delete_forward_def captured_for_def to_revert_def
        inverse_for_delete_def)
qed

text \<open>
  The coverage guard leaves the target's own update channel to the forward result: there is a
  run that commits an update of two target rows within the cap while one pre-image was captured,
  so the inverse it returns carries one row.
\<close>

lemma update_beyond_capture_commits:
  "\<exists>aw. fst (sample_run [[PkInt 1]] 2) = Inr aw \<and> length (ip_rows (aw_inverse aw)) = 1
    \<and> CallDeltas (Inr (sample_deltas 2)) \<in> set (snd (snd (sample_run [[PkInt 1]] 2)))
    \<and> live_tuples (sample_deltas 2) = 2"
  by (simp add: sample_defs sat_add_def live_tuples_def build_inverse_eq)

end
