(* ===== verification/Policy_Grant.thy ===== *)
theory Policy_Grant
  imports Prefix_Code Core_Session Core_Blast_Radius
begin

text \<open>
  Signed grants (\<^verbatim>\<open>crates/policy/src/grant.rs\<close>): the canonical binding bytes, the signature check,
  the re-verification at apply time, and the single-use nonce store. SHA-256, Ed25519 and the hex
  codec are third-party code, so they are parameters; the theorems name what they rely on.
\<close>

section \<open>Bindings\<close>

record grant_binding =
  gb_statement_text :: string
  gb_normalized_params :: "string list"
  gb_role :: string
  gb_session_id :: string
  gb_proposal_id :: string
  gb_dry_run_lsn :: string
  gb_cap :: write_cap
  gb_nonce :: string
  gb_expiry_unix_millis :: u64

definition BINDING_DOMAIN :: bytes where
  "BINDING_DOMAIN = as_bytes ''pg_brakes.grant.binding.v2''"

definition absorb_str :: "string \<Rightarrow> bytes \<Rightarrow> bytes" where
  "absorb_str s h = h @ u64_be (word_of_nat (length (as_bytes s))) @ as_bytes s"

text \<open>The byte stream the hasher absorbs, in the order of the updates.\<close>

definition binding_preimage :: "grant_binding \<Rightarrow> bytes" where
  "binding_preimage b =
     (let h = BINDING_DOMAIN;
          h = absorb_str (gb_statement_text b) h;
          h = h @ u64_be (word_of_nat (length (gb_normalized_params b)));
          h = foldl (\<lambda>h p. absorb_str p h) h (gb_normalized_params b);
          h = absorb_str (gb_role b) h;
          h = absorb_str (gb_session_id b) h;
          h = absorb_str (gb_proposal_id b) h;
          h = absorb_str (gb_dry_run_lsn b) h;
          h = h @ u64_be (max_rows (gb_cap b));
          h = h @ u64_be (max_wal_bytes (gb_cap b));
          h = absorb_str (gb_nonce b) h
      in h @ u64_be (gb_expiry_unix_millis b))"

definition binding_hash :: "(bytes \<Rightarrow> bytes) \<Rightarrow> grant_binding \<Rightarrow> bytes" where
  "binding_hash sha256 b = sha256 (binding_preimage b)"

definition binding_hash_hex :: "(bytes \<Rightarrow> bytes) \<Rightarrow> (bytes \<Rightarrow> string) \<Rightarrow> grant_binding \<Rightarrow> string" where
  "binding_hash_hex sha256 hex_encode b = ''sha256:'' @ hex_encode (binding_hash sha256 b)"

section \<open>Tokens\<close>

record grant_token =
  gt_binding :: grant_binding
  gt_signature_hex :: string

datatype grant_error =
    MalformedSignature
  | BadSignature
  | BindingMismatch
  | ReplayedNonce
  | GrantExpired u64 u64

definition grant_sign ::
  "(bytes \<Rightarrow> bytes) \<Rightarrow> (bytes \<Rightarrow> string) \<Rightarrow> (bytes \<Rightarrow> bytes) \<Rightarrow> grant_binding \<Rightarrow> grant_token" where
  "grant_sign sha256 hex_encode sign b =
     \<lparr>gt_binding = b, gt_signature_hex = hex_encode (sign (binding_hash sha256 b))\<rparr>"

definition verify_signature ::
  "(bytes \<Rightarrow> bytes) \<Rightarrow> (string \<Rightarrow> bytes option) \<Rightarrow> (bytes \<Rightarrow> bytes \<Rightarrow> bool) \<Rightarrow> grant_token \<Rightarrow> grant_error + unit" where
  "verify_signature sha256 hex_decode verify_strict tok =
     (case hex_decode (gt_signature_hex tok) of
        None \<Rightarrow> Inl MalformedSignature
      | Some sig \<Rightarrow>
          if length sig \<noteq> 64 then Inl MalformedSignature
          else if verify_strict (binding_hash sha256 (gt_binding tok)) sig then Inr ()
          else Inl BadSignature)"

text \<open>\<open>consume\<close> is the nonce store's method over its own state.\<close>

definition verify_for_apply ::
  "(bytes \<Rightarrow> bytes) \<Rightarrow> (string \<Rightarrow> bytes option) \<Rightarrow> (bytes \<Rightarrow> bytes \<Rightarrow> bool) \<Rightarrow> (string \<Rightarrow> 'n \<Rightarrow> bool \<times> 'n)
    \<Rightarrow> grant_token \<Rightarrow> grant_binding \<Rightarrow> clock \<Rightarrow> ('n, grant_error, unit) eff" where
  "verify_for_apply sha256 hex_decode verify_strict consume tok live clk =
     ebind (elift (verify_signature sha256 hex_decode verify_strict tok)) (\<lambda>_.
     if binding_hash sha256 live \<noteq> binding_hash sha256 (gt_binding tok) then efail BindingMismatch
     else
     let now = now_unix_millis clk in
     if now \<ge> gb_expiry_unix_millis (gt_binding tok)
     then efail (GrantExpired now (gb_expiry_unix_millis (gt_binding tok)))
     else (\<lambda>nonces. case consume (gb_nonce (gt_binding tok)) nonces of
       (ok, nonces') \<Rightarrow> if \<not> ok then (Inl ReplayedNonce, nonces') else (Inr (), nonces')))"

section \<open>Nonce stores\<close>

text \<open>Any number of verifications, one after another, on one store: the accepted tokens' nonces.\<close>

primrec accepted_nonces ::
  "(bytes \<Rightarrow> bytes) \<Rightarrow> (string \<Rightarrow> bytes option) \<Rightarrow> (bytes \<Rightarrow> bytes \<Rightarrow> bool) \<Rightarrow> (string \<Rightarrow> 'n \<Rightarrow> bool \<times> 'n)
    \<Rightarrow> (grant_token \<times> grant_binding \<times> clock) list \<Rightarrow> 'n \<Rightarrow> string list" where
  "accepted_nonces sha256 hex_decode verify_strict consume [] st = []"
| "accepted_nonces sha256 hex_decode verify_strict consume (a # as) st =
     (case a of (tok, live, clk) \<Rightarrow>
       case verify_for_apply sha256 hex_decode verify_strict consume tok live clk st of
         (Inr _, st') \<Rightarrow>
           gb_nonce (gt_binding tok) # accepted_nonces sha256 hex_decode verify_strict consume as st'
       | (Inl _, st') \<Rightarrow> accepted_nonces sha256 hex_decode verify_strict consume as st')"

text \<open>
  What the verifier relies on: \<open>consume\<close> answers whether the nonce was unspent, and afterwards it
  is spent, with every other nonce as it was.
\<close>

locale nonce_store =
  fixes consume :: "string \<Rightarrow> 'n \<Rightarrow> bool \<times> 'n"
    and spent :: "'n \<Rightarrow> string set"
  assumes consume_fresh: "fst (consume x st) \<longleftrightarrow> x \<notin> spent st"
    and consume_spent: "spent (snd (consume x st)) = insert x (spent st)"
begin

lemma verify_cases:
  "verify_for_apply sha256 hex_decode verify_strict consume tok live clk st = (r, st') \<Longrightarrow>
     (case r of Inr _ \<Rightarrow> gb_nonce (gt_binding tok) \<notin> spent st
        \<and> spent st' = insert (gb_nonce (gt_binding tok)) (spent st)
        \<and> verify_signature sha256 hex_decode verify_strict tok = Inr ()
        \<and> binding_hash sha256 live = binding_hash sha256 (gt_binding tok)
        \<and> now_unix_millis clk < gb_expiry_unix_millis (gt_binding tok)
      | Inl e \<Rightarrow> spent st' = spent st)"
  using consume_fresh [of "gb_nonce (gt_binding tok)" st] consume_spent [of "gb_nonce (gt_binding tok)" st]
  by (cases "consume (gb_nonce (gt_binding tok)) st")
    (auto simp: verify_for_apply_def ebind_def not_le split: sum.splits if_splits)

lemma accepted_once:
  "distinct (accepted_nonces sha256 hex_decode verify_strict consume as st)
    \<and> set (accepted_nonces sha256 hex_decode verify_strict consume as st) \<inter> spent st = {}"
proof (induction as arbitrary: st)
  case Nil
  then show ?case by simp
next
  case (Cons a as)
  obtain tok live clk where a: "a = (tok, live, clk)" by (cases a)
  obtain r st' where v: "verify_for_apply sha256 hex_decode verify_strict consume tok live clk st = (r, st')"
    by (metis prod.collapse)
  from Cons [of st'] verify_cases [OF v] show ?case
    by (cases r) (auto simp: a v)
qed

end

text \<open>The in-memory store is the set of used nonces; \<^verbatim>\<open>HashSet::insert\<close> reports a new element.\<close>

record in_memory_nonce_store = ins_used :: "string set"

definition in_memory_new :: in_memory_nonce_store where
  "in_memory_new = \<lparr>ins_used = {}\<rparr>"

definition in_memory_consume :: "string \<Rightarrow> in_memory_nonce_store \<Rightarrow> bool \<times> in_memory_nonce_store" where
  "in_memory_consume nonce st = (nonce \<notin> ins_used st, st\<lparr>ins_used := insert nonce (ins_used st)\<rparr>)"

interpretation mem_nonce: nonce_store in_memory_consume ins_used
  by unfold_locales (simp_all add: in_memory_consume_def)

section \<open>Correctness\<close>

definition str_fits :: "string \<Rightarrow> bool" where
  "str_fits s = (length s < 2 ^ 64)"

text \<open>Every string fits in the address space, as on every real machine.\<close>

definition binding_wf :: "grant_binding \<Rightarrow> bool" where
  "binding_wf b =
     (str_fits (gb_statement_text b) \<and> (\<forall>p \<in> set (gb_normalized_params b). str_fits p)
      \<and> length (gb_normalized_params b) < 2 ^ 64 \<and> str_fits (gb_role b) \<and> str_fits (gb_session_id b)
      \<and> str_fits (gb_proposal_id b) \<and> str_fits (gb_dry_run_lsn b) \<and> str_fits (gb_nonce b))"

definition str_code :: "string \<Rightarrow> bytes" where
  "str_code s = blob_be64 (as_bytes s)"

interpretation str_code: prefix_code str_code str_fits
  by unfold_locales (auto simp: str_code_def str_fits_def dest!: blob64.enc_cancel [rotated 2])

lemma absorb_str_eq: "absorb_str s h = h @ str_code s"
  by (simp add: absorb_str_def str_code_def blob_be64_def)

lemma foldl_absorb: "foldl (\<lambda>h p. h @ str_code p) h ps = h @ concat (map str_code ps)"
  by (induction ps arbitrary: h) simp_all

lemma u64_be_append_iff: "u64_be a @ r = u64_be b @ s \<longleftrightarrow> a = b \<and> r = s"
  by (simp add: append_same_prefix_length)

text \<open>The fields absorbed after the parameters.\<close>

definition binding_tail :: "grant_binding \<Rightarrow> bytes" where
  "binding_tail b =
     str_code (gb_role b) @ str_code (gb_session_id b) @ str_code (gb_proposal_id b)
     @ str_code (gb_dry_run_lsn b) @ u64_be (max_rows (gb_cap b)) @ u64_be (max_wal_bytes (gb_cap b))
     @ str_code (gb_nonce b) @ u64_be (gb_expiry_unix_millis b)"

lemma binding_preimage_eq:
  "binding_preimage b = BINDING_DOMAIN @ str_code (gb_statement_text b)
     @ u64_be (word_of_nat (length (gb_normalized_params b)))
     @ concat (map str_code (gb_normalized_params b)) @ binding_tail b"
  by (simp add: binding_preimage_def binding_tail_def absorb_str_eq foldl_absorb)

lemma binding_preimage_inj:
  assumes "binding_wf a" and "binding_wf b"
  shows "binding_preimage a = binding_preimage b \<longleftrightarrow> a = b"
proof
  assume eq: "binding_preimage a = binding_preimage b"
  note wf = assms [unfolded binding_wf_def]
  from eq have stmt: "gb_statement_text a = gb_statement_text b"
    and len: "length (gb_normalized_params a) = length (gb_normalized_params b)"
    and rest: "concat (map str_code (gb_normalized_params a)) @ binding_tail a
      = concat (map str_code (gb_normalized_params b)) @ binding_tail b"
    using wf by (simp_all add: binding_preimage_eq str_code.enc_append_iff u64_be_append_iff word_of_nat_eq_iff)
  have params: "gb_normalized_params a = gb_normalized_params b" and tail: "binding_tail a = binding_tail b"
    using str_code.enc_list_cancel [OF _ _ len rest] wf by blast+
  from tail wf have "gb_role a = gb_role b \<and> gb_session_id a = gb_session_id b
      \<and> gb_proposal_id a = gb_proposal_id b \<and> gb_dry_run_lsn a = gb_dry_run_lsn b
      \<and> max_rows (gb_cap a) = max_rows (gb_cap b) \<and> max_wal_bytes (gb_cap a) = max_wal_bytes (gb_cap b)
      \<and> gb_nonce a = gb_nonce b \<and> gb_expiry_unix_millis a = gb_expiry_unix_millis b"
    by (simp add: binding_tail_def str_code.enc_append_iff str_code.enc_inj u64_be_append_iff)
  with stmt params show "a = b" by (simp add: grant_binding.equality write_cap.equality)
qed simp

text \<open>
  C6: a grant authorises exactly the request the approver signed: when a token is accepted for a
  live request, every bound field of the request (statement, parameters in order, role, session,
  proposal, clone position, both ceilings of the cap, nonce, expiry) is the signed one, the
  signature verifies over the signed fields, the expiry is in the future, and the nonce was unspent
  and is now spent. SHA-256 must not collide on the two binding streams.
\<close>

theorem verified_request_is_the_signed_one:
  assumes "verify_for_apply sha256 hex_decode verify_strict in_memory_consume tok live clk st = (Inr (), st')"
    and "inj_on sha256 {binding_preimage live, binding_preimage (gt_binding tok)}"
    and "binding_wf live" and "binding_wf (gt_binding tok)"
  shows "live = gt_binding tok
    \<and> (\<exists>sig. hex_decode (gt_signature_hex tok) = Some sig \<and> length sig = 64
        \<and> verify_strict (sha256 (binding_preimage live)) sig)
    \<and> now_unix_millis clk < gb_expiry_unix_millis live
    \<and> gb_nonce live \<notin> ins_used st \<and> ins_used st' = insert (gb_nonce live) (ins_used st)"
proof -
  note v = mem_nonce.verify_cases [OF assms(1), simplified]
  from v have "sha256 (binding_preimage live) = sha256 (binding_preimage (gt_binding tok))"
    by (simp add: binding_hash_def)
  then have "binding_preimage live = binding_preimage (gt_binding tok)"
    by (rule inj_onD [OF assms(2)]) simp_all
  with binding_preimage_inj assms(3,4) have live: "live = gt_binding tok" by blast
  have "\<exists>sig. hex_decode (gt_signature_hex tok) = Some sig \<and> length sig = 64
      \<and> verify_strict (sha256 (binding_preimage (gt_binding tok))) sig"
    using v by (auto simp: verify_signature_def binding_hash_def split: option.splits if_splits)
  with v show ?thesis unfolding live by blast
qed

definition sample_binding :: "string \<Rightarrow> grant_binding" where
  "sample_binding nonce =
     \<lparr>gb_statement_text = ''DELETE FROM t WHERE id = $1'', gb_normalized_params = [''7''], gb_role = ''app'',
      gb_session_id = ''s1'', gb_proposal_id = ''p1'', gb_dry_run_lsn = ''0/1'',
      gb_cap = \<lparr>max_rows = 1, max_wal_bytes = 100\<rparr>, gb_nonce = nonce, gb_expiry_unix_millis = 50\<rparr>"

definition sample_sign :: "bytes \<Rightarrow> bytes" where
  "sample_sign _ = replicate 64 7"

definition sample_token :: "string \<Rightarrow> grant_token" where
  "sample_token nonce = grant_sign id str_of_bytes sample_sign (sample_binding nonce)"

lemma sample_verify:
  "verify_for_apply id (\<lambda>s. Some (as_bytes s)) (\<lambda>msg sig. sig = sample_sign msg) in_memory_consume
     (sample_token n) (sample_binding n) (clock_starting_at 10) st
   = (if n \<in> ins_used st then Inl ReplayedNonce else Inr (), st\<lparr>ins_used := insert n (ins_used st)\<rparr>)"
  by (simp add: verify_for_apply_def ebind_def verify_signature_def sample_token_def grant_sign_def
      sample_sign_def in_memory_consume_def clock_starting_at_def) (simp add: sample_binding_def)

theorem verified_request_is_the_signed_one_witness:
  "now_unix_millis (clock_starting_at 10) < gb_expiry_unix_millis (sample_binding ''n'')"
proof -
  have ok: "verify_for_apply id (\<lambda>s. Some (as_bytes s)) (\<lambda>msg sig. sig = sample_sign msg) in_memory_consume
     (sample_token ''n'') (sample_binding ''n'') (clock_starting_at 10) in_memory_new
     = (Inr (), \<lparr>ins_used = {''n''}\<rparr>)"
    by (simp add: sample_verify in_memory_new_def)
  have wf: "binding_wf (sample_binding ''n'')"
    by (simp add: binding_wf_def sample_binding_def str_fits_def)
  have tok: "gt_binding (sample_token ''n'') = sample_binding ''n''"
    by (simp add: sample_token_def grant_sign_def)
  show ?thesis
    using verified_request_is_the_signed_one [OF ok] by (simp add: tok wf)
qed

text \<open>
  A grant is spent at most once: over any sequence of verifications on one nonce store, with any
  tokens, live requests and clock readings, no nonce is accepted twice, and none that was spent
  before is accepted. The verifications are run one after another on the in-memory store.
\<close>

lemma nonce_accepted_at_most_once:
  "distinct (accepted_nonces sha256 hex_decode verify_strict in_memory_consume attempts st)
    \<and> set (accepted_nonces sha256 hex_decode verify_strict in_memory_consume attempts st) \<inter> ins_used st = {}"
  by (rule mem_nonce.accepted_once)

text \<open>
  A token the approver signed is accepted for the request it was signed for, before its expiry
  and with an unspent nonce, provided the hex codec and the signature scheme are correct; a failed
  verification spends no nonce.
\<close>

lemma signed_grant_verifies:
  assumes "\<And>bs. hex_decode (hex_encode bs) = Some bs"
    and "\<And>msg. length (sign msg) = 64 \<and> verify_strict msg (sign msg)"
  shows "verify_for_apply sha256 hex_decode verify_strict in_memory_consume
      (grant_sign sha256 hex_encode sign b) b clk st =
    (if gb_expiry_unix_millis b \<le> now_unix_millis clk
     then (Inl (GrantExpired (now_unix_millis clk) (gb_expiry_unix_millis b)), st)
     else if gb_nonce b \<in> ins_used st then (Inl ReplayedNonce, st)
     else (Inr (), st\<lparr>ins_used := insert (gb_nonce b) (ins_used st)\<rparr>))"
  using assms by (simp add: verify_for_apply_def ebind_def verify_signature_def grant_sign_def
      in_memory_consume_def insert_absorb)

lemma signed_grant_verifies_sample:
  "fst (verify_for_apply id (\<lambda>s. Some (as_bytes s)) (\<lambda>msg sig. sig = sample_sign msg) in_memory_consume
     (grant_sign id str_of_bytes sample_sign (sample_binding ''n'')) (sample_binding ''n'')
     (clock_starting_at 10) in_memory_new) = Inr ()"
  by (subst signed_grant_verifies)
    (simp_all add: sample_sign_def clock_starting_at_def in_memory_new_def, simp add: sample_binding_def)

end
