(* ===== verification/Policy_Config.thy ===== *)
theory Policy_Config
  imports Btree_Map
begin

text \<open>
  The operator's policy file (\<^verbatim>\<open>crates/policy/src/config.rs\<close>): the typed configuration, its
  validation, and the resolution of a connection target from environment overrides and policy. The
  YAML deserializer is a parameter. A plan-cost ceiling is the bit pattern of its \<^verbatim>\<open>f64\<close>.
\<close>

section \<open>Characters\<close>

text \<open>The code points \<^verbatim>\<open>str::chars\<close> yields for the UTF-8 bytes of a string.\<close>

fun utf8_chars :: "bytes \<Rightarrow> nat list" where
  "utf8_chars [] = []"
| "utf8_chars (a # r) =
     (if a \<le> 0x7F then unat a # utf8_chars r
      else if a \<le> 0xDF then
        (case r of b # r' \<Rightarrow> ((unat a - 0xC0) * 64 + (unat b - 0x80)) # utf8_chars r' | _ \<Rightarrow> [])
      else if a \<le> 0xEF then
        (case r of b # c # r' \<Rightarrow>
           (((unat a - 0xE0) * 64 + (unat b - 0x80)) * 64 + (unat c - 0x80)) # utf8_chars r' | _ \<Rightarrow> [])
      else
        (case r of b # c # d # r' \<Rightarrow>
           ((((unat a - 0xF0) * 64 + (unat b - 0x80)) * 64 + (unat c - 0x80)) * 64 + (unat d - 0x80))
             # utf8_chars r' | _ \<Rightarrow> []))"

definition chars :: "string \<Rightarrow> nat list" where
  "chars s = utf8_chars (as_bytes s)"

text \<open>\<^verbatim>\<open>char::is_whitespace\<close> (Unicode \<^verbatim>\<open>White_Space\<close>) and \<^verbatim>\<open>char::is_control\<close> (category \<^verbatim>\<open>Cc\<close>).\<close>

definition is_whitespace :: "nat \<Rightarrow> bool" where
  "is_whitespace c = (9 \<le> c \<and> c \<le> 13 \<or> c \<in> {0x20, 0x85, 0xA0, 0x1680, 0x2028, 0x2029, 0x202F, 0x205F, 0x3000}
     \<or> 0x2000 \<le> c \<and> c \<le> 0x200A)"

definition is_control :: "nat \<Rightarrow> bool" where
  "is_control c = (c \<le> 0x1F \<or> 0x7F \<le> c \<and> c \<le> 0x9F)"

section \<open>Data\<close>

datatype autonomy_level = L0 | L1 | L2 | L3

primrec autonomy_rank :: "autonomy_level \<Rightarrow> nat" where
  "autonomy_rank L0 = 0"
| "autonomy_rank L1 = 1"
| "autonomy_rank L2 = 2"
| "autonomy_rank L3 = 3"

definition MVP_MAX :: autonomy_level where
  "MVP_MAX = L2"

record window_budget =
  wb_window_secs :: u64
  wb_max_bytes :: u64
  wb_max_rows :: u64

record role_budget =
  rb_max_bytes :: u64
  rb_max_rows :: u64
  rb_max_plan_cost :: u64
  rb_max_plan_rows :: u64
  rb_per_window :: window_budget

record role_policy =
  rp_select_whitelist :: "string list"
  rp_budget :: role_budget
  rp_autonomy :: autonomy_level

datatype clone_provider = ProviderNone | ProviderDblab

record dsn_target =
  dt_host :: string
  dt_port :: "16 word"
  dt_database :: string
  dt_role :: string
  dt_secret_ref :: "string option"

record policy_config =
  pc_version :: u32
  pc_roles :: "(string, role_policy) btree"
  pc_primary :: "dsn_target option"
  pc_replica_dsn :: "string option"
  pc_replica_target :: "dsn_target option"
  pc_clone_provider :: clone_provider
  pc_pitr_enabled :: bool
  pc_cli_signing_key_id :: "string option"
  pc_audit_target :: "dsn_target option"
  pc_anchor_endpoint :: "string option"

datatype target_slot = PrimaryTarget | ReplicaTarget | AuditTarget | ResolvedSlot

datatype policy_invalid =
    VersionZero
  | NoRoles
  | EmptyField target_slot string
  | IllegalChar target_slot string nat
  | AutonomyTooHigh string autonomy_level
  | SingleShotZero string u64 u64
  | PlanCostInvalid string u64
  | PlanRowsZero string
  | WindowSecsZero string
  | WindowCapsZero string u64 u64
  | WindowBelowSingleShot string

datatype 'p policy_error = PolicyParse 'p | PolicyInvalid policy_invalid

section \<open>Validation\<close>

definition illegal_dsn_char :: "nat \<Rightarrow> bool" where
  "illegal_dsn_char c = (is_whitespace c \<or> is_control c \<or> c \<in> {0x3D, 0x27, 0x22, 0x5C})"

definition reject_dsn_injection :: "target_slot \<Rightarrow> string \<Rightarrow> string \<Rightarrow> policy_invalid + unit" where
  "reject_dsn_injection slot field val =
     (if val = [] then Inl (EmptyField slot field)
      else case find illegal_dsn_char (chars val) of
        Some bad \<Rightarrow> Inl (IllegalChar slot field bad)
      | None \<Rightarrow> Inr ())"

definition dsn_target_validate :: "target_slot \<Rightarrow> dsn_target \<Rightarrow> policy_invalid + unit" where
  "dsn_target_validate slot t =
     rbind (reject_dsn_injection slot ''host'' (dt_host t)) (\<lambda>_.
     rbind (reject_dsn_injection slot ''database'' (dt_database t)) (\<lambda>_.
     rbind (reject_dsn_injection slot ''role'' (dt_role t)) (\<lambda>_.
     (case dt_secret_ref t of
        None \<Rightarrow> Inr ()
      | Some secret_ref \<Rightarrow> reject_dsn_injection slot ''secret_ref'' secret_ref))))"

definition f64_finite_pos :: "u64 \<Rightarrow> bool" where
  "f64_finite_pos bits = (0 < bits \<and> bits < 0x7FF0000000000000)"

definition DEFAULT_MAX_PLAN_ROWS :: u64 where
  "DEFAULT_MAX_PLAN_ROWS = 1000000000"

definition role_budget_validate :: "string \<Rightarrow> role_budget \<Rightarrow> policy_invalid + unit" where
  "role_budget_validate role_name b =
     (let w = rb_per_window b in
      if rb_max_bytes b = 0 \<or> rb_max_rows b = 0
      then Inl (SingleShotZero role_name (rb_max_bytes b) (rb_max_rows b))
      else if \<not> f64_finite_pos (rb_max_plan_cost b) then Inl (PlanCostInvalid role_name (rb_max_plan_cost b))
      else if rb_max_plan_rows b = 0 then Inl (PlanRowsZero role_name)
      else if wb_window_secs w = 0 then Inl (WindowSecsZero role_name)
      else if wb_max_bytes w = 0 \<or> wb_max_rows w = 0
      then Inl (WindowCapsZero role_name (wb_max_bytes w) (wb_max_rows w))
      else if wb_max_bytes w < rb_max_bytes b \<or> wb_max_rows w < rb_max_rows b
      then Inl (WindowBelowSingleShot role_name)
      else Inr ())"

definition role_policy_validate :: "string \<Rightarrow> role_policy \<Rightarrow> policy_invalid + unit" where
  "role_policy_validate role_name r =
     (if autonomy_rank (rp_autonomy r) > autonomy_rank MVP_MAX
      then Inl (AutonomyTooHigh role_name (rp_autonomy r))
      else role_budget_validate role_name (rp_budget r))"

fun validate_roles :: "(string, role_policy) btree \<Rightarrow> policy_invalid + unit" where
  "validate_roles [] = Inr ()"
| "validate_roles ((name, role) # rest) = rbind (role_policy_validate name role) (\<lambda>_. validate_roles rest)"

definition validate_target :: "target_slot \<Rightarrow> dsn_target option \<Rightarrow> policy_invalid + unit" where
  "validate_target slot t = (case t of None \<Rightarrow> Inr () | Some t \<Rightarrow> dsn_target_validate slot t)"

definition policy_validate :: "policy_config \<Rightarrow> policy_invalid + unit" where
  "policy_validate cfg =
     (if pc_version cfg = 0 then Inl VersionZero
      else if pc_roles cfg = [] then Inl NoRoles
      else
      rbind (validate_roles (pc_roles cfg)) (\<lambda>_.
      rbind (validate_target PrimaryTarget (pc_primary cfg)) (\<lambda>_.
      rbind (validate_target ReplicaTarget (pc_replica_target cfg)) (\<lambda>_.
      validate_target AuditTarget (pc_audit_target cfg)))))"

definition load_from_yaml :: "(string \<Rightarrow> 'p + policy_config) \<Rightarrow> string \<Rightarrow> 'p policy_error + policy_config" where
  "load_from_yaml from_str yaml =
     (case from_str yaml of
        Inl e \<Rightarrow> Inl (PolicyParse e)
      | Inr cfg \<Rightarrow> (case policy_validate cfg of Inl e \<Rightarrow> Inl (PolicyInvalid e) | Inr _ \<Rightarrow> Inr cfg))"

section \<open>Target resolution\<close>

record resolved_target =
  rt_host :: string
  rt_port :: "16 word"
  rt_database :: string
  rt_role :: string

definition to_credential_less_dsn :: "resolved_target \<Rightarrow> string" where
  "to_credential_less_dsn t =
     ''host='' @ rt_host t @ '' port='' @ decimal (unat (rt_port t)) @ '' dbname='' @ rt_database t
       @ '' user='' @ rt_role t"

definition dsn_target_dsn :: "dsn_target \<Rightarrow> string" where
  "dsn_target_dsn t =
     ''host='' @ dt_host t @ '' port='' @ decimal (unat (dt_port t)) @ '' dbname='' @ dt_database t
       @ '' user='' @ dt_role t"

datatype target_resolution_error =
    TargetMissing string string string
  | TargetInjection string policy_invalid

fun target_error_field :: "target_resolution_error \<Rightarrow> string" where
  "target_error_field (TargetMissing field _ _) = field"
| "target_error_field (TargetInjection field _) = field"

record target_resolver =
  tr_policy_target :: "dsn_target option"
  tr_host_override :: "string option"
  tr_port_override :: "string option"
  tr_db_override :: "string option"
  tr_role_override :: "string option"
  tr_default_database :: string
  tr_default_role :: string
  tr_host_env_key :: string
  tr_port_env_key :: string
  tr_policy_hint :: string

text \<open>\<^verbatim>\<open>str::parse::<u16>\<close>: an optional plus sign, then decimal digits, no overflow.\<close>

definition parse_u16 :: "string \<Rightarrow> 16 word option" where
  "parse_u16 s =
     (case parse_digits (case s of CHR ''+'' # r \<Rightarrow> r | _ \<Rightarrow> s) of
        None \<Rightarrow> None
      | Some n \<Rightarrow> if n < 2 ^ 16 then Some (word_of_nat n) else None)"

definition or_policy :: "string option \<Rightarrow> string option \<Rightarrow> string option" where
  "or_policy override pol = (case override of Some v \<Rightarrow> Some v | None \<Rightarrow> pol)"

definition reject_resolved_injection :: "string \<Rightarrow> string \<Rightarrow> target_resolution_error + unit" where
  "reject_resolved_injection field val =
     (case reject_dsn_injection ResolvedSlot field val of
        Inl e \<Rightarrow> Inl (TargetInjection field e) | Inr _ \<Rightarrow> Inr ())"

definition resolve_port :: "target_resolver \<Rightarrow> target_resolution_error + 16 word" where
  "resolve_port r =
     (let missing = TargetMissing ''port'' (tr_port_env_key r) (tr_policy_hint r) in
      case tr_port_override r of
        Some p \<Rightarrow> (case parse_u16 p of None \<Rightarrow> Inl missing | Some n \<Rightarrow> Inr n)
      | None \<Rightarrow> (case tr_policy_target r of None \<Rightarrow> Inl missing | Some t \<Rightarrow> Inr (dt_port t)))"

definition resolve :: "target_resolver \<Rightarrow> target_resolution_error + resolved_target" where
  "resolve r =
     (case or_policy (tr_host_override r) (map_option dt_host (tr_policy_target r)) of
        None \<Rightarrow> Inl (TargetMissing ''host'' (tr_host_env_key r) (tr_policy_hint r))
      | Some host \<Rightarrow>
          rbind (resolve_port r) (\<lambda>port.
          let database = (case or_policy (tr_db_override r) (map_option dt_database (tr_policy_target r)) of
                            None \<Rightarrow> tr_default_database r | Some d \<Rightarrow> d);
              role = (case or_policy (tr_role_override r) (map_option dt_role (tr_policy_target r)) of
                        None \<Rightarrow> tr_default_role r | Some u \<Rightarrow> u)
          in rbind (reject_resolved_injection ''host'' host) (\<lambda>_.
             rbind (reject_resolved_injection ''database'' database) (\<lambda>_.
             rbind (reject_resolved_injection ''role'' role) (\<lambda>_.
             Inr \<lparr>rt_host = host, rt_port = port, rt_database = database, rt_role = role\<rparr>)))))"

section \<open>Correctness\<close>

lemma utf8_chars_ascii:
  "utf8_valid bs \<Longrightarrow> b \<in> set bs \<Longrightarrow> b \<le> 0x7F \<Longrightarrow> unat b \<in> set (utf8_chars bs)"
proof (induction bs rule: utf8_valid.induct)
  case 1
  then show ?case by simp
next
  case (2 a r)
  have cont: "\<not> cont_byte b" using "2.prems"(3) by (auto simp: cont_byte_def word_le_nat_alt)
  show ?case
    using 2 cont by (auto simp: word_le_nat_alt split: if_splits list.splits)
qed

definition dsn_safe :: "string \<Rightarrow> bool" where
  "dsn_safe s = (s \<noteq> [] \<and> (\<forall>c \<in> set (chars s). \<not> illegal_dsn_char c))"

lemma reject_ok_iff: "reject_dsn_injection slot field s = Inr () \<longleftrightarrow> dsn_safe s"
  by (auto simp: reject_dsn_injection_def dsn_safe_def find_None_iff split: option.splits)
    (metis find_None_iff option.distinct(1))

lemma dsn_safe_char:
  assumes "dsn_safe s" and "is_str s" and "c \<in> set s" and "of_char c \<le> (0x7F :: nat)"
  shows "\<not> illegal_dsn_char (of_char c)"
proof -
  let ?b = "word_of_nat (of_char c) :: u8"
  have "?b \<in> set (as_bytes s)" using assms(3) by (simp add: as_bytes_def)
  moreover have "unat ?b = of_char c" by (simp add: unat_of_nat)
  ultimately have "of_char c \<in> set (chars s)"
    using utf8_chars_ascii [of "as_bytes s" ?b] assms(2,4) by (simp add: chars_def is_str_def word_le_nat_alt)
  with assms(1) show ?thesis by (simp add: dsn_safe_def)
qed

text \<open>A connection string read as unquoted \<^verbatim>\<open>keyword=value\<close> settings separated by spaces.\<close>

definition dsn_settings :: "string \<Rightarrow> (string \<times> string list) list" where
  "dsn_settings s = map (\<lambda>w. (hd (split_on CHR ''='' w), tl (split_on CHR ''='' w))) (split_on CHR '' '' s)"

lemma dsn_safe_seps:
  assumes "dsn_safe s" and "is_str s"
  shows "CHR '' '' \<notin> set s" and "CHR ''='' \<notin> set s"
  using dsn_safe_char [OF assms, of "CHR '' ''"] dsn_safe_char [OF assms, of "CHR ''=''"]
  by (auto simp: illegal_dsn_char_def is_whitespace_def)

lemma resolve_ok:
  assumes "resolve r = Inr t"
  shows "dsn_safe (rt_host t) \<and> dsn_safe (rt_database t) \<and> dsn_safe (rt_role t)
    \<and> or_policy (tr_host_override r) (map_option dt_host (tr_policy_target r)) = Some (rt_host t)
    \<and> resolve_port r = Inr (rt_port t)"
proof -
  have safe: "reject_resolved_injection f v = Inr u \<Longrightarrow> dsn_safe v" for f v u
    by (auto simp: reject_resolved_injection_def reject_ok_iff split: sum.splits)
  from assms show ?thesis
    by (auto simp: resolve_def rbind_Inr_iff split: option.splits dest!: safe)
qed

lemma decimal_seps: "CHR '' '' \<notin> set (decimal n)" "CHR ''='' \<notin> set (decimal n)"
  using decimal_digits [of "CHR '' ''" n] decimal_digits [of "CHR ''=''" n] by auto

text \<open>
  A resolved target cannot smuggle a connection setting: whatever the overrides and the policy
  hold, a target that resolves renders to a connection string that reads back as exactly its four
  settings, with the host and the port the override or the policy named.
\<close>

lemma resolved_dsn_has_four_settings:
  assumes "resolve r = Inr t"
    and "is_str (rt_host t)" and "is_str (rt_database t)" and "is_str (rt_role t)"
  shows "dsn_settings (to_credential_less_dsn t) =
      [(''host'', [rt_host t]), (''port'', [decimal (unat (rt_port t))]),
       (''dbname'', [rt_database t]), (''user'', [rt_role t])]
    \<and> or_policy (tr_host_override r) (map_option dt_host (tr_policy_target r)) = Some (rt_host t)
    \<and> resolve_port r = Inr (rt_port t)"
proof -
  note ok = resolve_ok [OF assms(1)]
  note seps = dsn_safe_seps [OF _ assms(2)] dsn_safe_seps [OF _ assms(3)] dsn_safe_seps [OF _ assms(4)]
    decimal_seps [of "unat (rt_port t)"]
  have kv: "split_on CHR ''='' (k @ CHR ''='' # v) = [k, v]"
    if "CHR ''='' \<notin> set k" "CHR ''='' \<notin> set v" for k v
    using that by (simp add: split_on_append split_on_none)
  let ?words = "[''host'' @ CHR ''='' # rt_host t, ''port'' @ CHR ''='' # decimal (unat (rt_port t)),
      ''dbname'' @ CHR ''='' # rt_database t, ''user'' @ CHR ''='' # rt_role t]"
  have "to_credential_less_dsn t = (?words ! 0) @ CHR '' '' # (?words ! 1) @ CHR '' '' # (?words ! 2)
      @ CHR '' '' # (?words ! 3)"
    by (simp add: to_credential_less_dsn_def)
  moreover have "\<forall>w \<in> set ?words. CHR '' '' \<notin> set w" using ok seps by auto
  ultimately have "split_on CHR '' '' (to_credential_less_dsn t) = ?words"
    by (simp only: split_on_append split_on_none list.set ball_simps insert_iff nth_Cons_0 nth_Cons_Suc
        One_nat_def numeral_2_eq_2 numeral_3_eq_3 simp_thms)
  then show ?thesis
    using ok seps by (simp add: dsn_settings_def kv del: append_Cons append_Nil)
qed

definition sample_resolver :: target_resolver where
  "sample_resolver =
     \<lparr>tr_policy_target = Some \<lparr>dt_host = ''db'', dt_port = 5432, dt_database = ''app'', dt_role = ''ro'',
        dt_secret_ref = None\<rparr>,
      tr_host_override = None, tr_port_override = Some ''6432'', tr_db_override = None, tr_role_override = None,
      tr_default_database = ''postgres'', tr_default_role = ''postgres'', tr_host_env_key = ''H'',
      tr_port_env_key = ''P'', tr_policy_hint = ''hint''\<rparr>"

definition sample_target :: resolved_target where
  "sample_target = \<lparr>rt_host = ''db'', rt_port = 6432, rt_database = ''app'', rt_role = ''ro''\<rparr>"

lemma sample_resolves: "resolve sample_resolver = Inr sample_target"
  by (simp add: resolve_def sample_resolver_def or_policy_def resolve_port_def parse_u16_def parse_digits_def
      reject_resolved_injection_def reject_dsn_injection_def chars_def as_bytes_def illegal_dsn_char_def
      is_whitespace_def is_control_def sample_target_def)

lemma resolved_dsn_has_four_settings_sample:
  "dsn_settings (to_credential_less_dsn sample_target) =
     [(''host'', [''db'']), (''port'', [decimal 6432]), (''dbname'', [''app'']), (''user'', [''ro''])]"
  using resolved_dsn_has_four_settings [OF sample_resolves]
  by (simp add: sample_target_def is_str_def as_bytes_def)

definition budget_ok :: "role_budget \<Rightarrow> bool" where
  "budget_ok b =
     (0 < rb_max_bytes b \<and> 0 < rb_max_rows b \<and> f64_finite_pos (rb_max_plan_cost b) \<and> 0 < rb_max_plan_rows b
      \<and> 0 < wb_window_secs (rb_per_window b)
      \<and> rb_max_bytes b \<le> wb_max_bytes (rb_per_window b) \<and> rb_max_rows b \<le> wb_max_rows (rb_per_window b))"

definition target_ok :: "dsn_target option \<Rightarrow> bool" where
  "target_ok t = (case t of None \<Rightarrow> True | Some t \<Rightarrow>
     dsn_safe (dt_host t) \<and> dsn_safe (dt_database t) \<and> dsn_safe (dt_role t)
     \<and> (case dt_secret_ref t of None \<Rightarrow> True | Some s \<Rightarrow> dsn_safe s))"

lemma budget_validate_iff: "role_budget_validate name b = Inr () \<longleftrightarrow> budget_ok b"
  by (auto simp: role_budget_validate_def budget_ok_def word_gt_0 not_less not_le)

lemma validate_target_iff: "validate_target slot t = Inr () \<longleftrightarrow> target_ok t"
  by (auto simp: validate_target_def target_ok_def dsn_target_validate_def rbind_Inr_iff reject_ok_iff
      split: option.splits)

lemma role_validate_iff:
  "role_policy_validate name r = Inr () \<longleftrightarrow> rp_autonomy r \<in> {L0, L1, L2} \<and> budget_ok (rp_budget r)"
  by (cases "rp_autonomy r") (simp_all add: role_policy_validate_def budget_validate_iff MVP_MAX_def)

lemma validate_roles_iff:
  "validate_roles rs = Inr () \<longleftrightarrow> (\<forall>r \<in> snd ` set rs. rp_autonomy r \<in> {L0, L1, L2} \<and> budget_ok (rp_budget r))"
  by (induction rs rule: validate_roles.induct) (auto simp: rbind_Inr_iff role_validate_iff)

text \<open>
  A policy loads exactly when it deserializes and every gate holds: a version, at least one
  role, no role above the autonomy ceiling, positive caps with the window at least as wide as a
  single statement, a positive finite plan-cost ceiling, and no target that could inject a setting.
\<close>

lemma policy_loads_iff_safe:
  "load_from_yaml from_str yaml = Inr cfg \<longleftrightarrow>
     from_str yaml = Inr cfg \<and> pc_version cfg \<noteq> 0 \<and> pc_roles cfg \<noteq> []
     \<and> list_all (\<lambda>(_, r). rp_autonomy r \<in> {L0, L1, L2} \<and> budget_ok (rp_budget r)) (pc_roles cfg)
     \<and> target_ok (pc_primary cfg) \<and> target_ok (pc_replica_target cfg) \<and> target_ok (pc_audit_target cfg)"
proof -
  have "policy_validate c = Inr () \<longleftrightarrow> pc_version c \<noteq> 0 \<and> pc_roles c \<noteq> []
     \<and> (\<forall>r \<in> snd ` set (pc_roles c). rp_autonomy r \<in> {L0, L1, L2} \<and> budget_ok (rp_budget r))
     \<and> target_ok (pc_primary c) \<and> target_ok (pc_replica_target c) \<and> target_ok (pc_audit_target c)" for c
    unfolding validate_roles_iff [symmetric]
    by (auto simp: policy_validate_def rbind_Inr_iff validate_target_iff)
  moreover have "load_from_yaml from_str yaml = Inr cfg \<longleftrightarrow>
      from_str yaml = Inr cfg \<and> policy_validate cfg = Inr ()"
    by (auto simp: load_from_yaml_def split: sum.splits)
  ultimately show ?thesis by (simp add: list_all_iff split_beta)
qed

end
