(* ===== verification/Orch_Apply_Grant.thy ===== *)
theory Orch_Apply_Grant
  imports Orch_Apply_Safety Policy_Grant Policy_Config
begin

text \<open>
  The production apply path (\<^verbatim>\<open>crates/clone-orchestrator/src/apply_grant.rs\<close>): the signed grant is
  re-verified against the live request before the guarded apply is reached. The structural check of
  the statement's predicate works on the syntax tree of the SQL parser, which is not part of the
  sources, so it is a parameter (\<open>structural_reason\<close>).
\<close>

datatype provider_kind = KindNone | KindLocal | KindDblab

fun is_isolated :: "provider_kind \<Rightarrow> bool" where
  "is_isolated KindNone = False"
| "is_isolated KindLocal = True"
| "is_isolated KindDblab = True"

fun provider_kind_from :: "clone_provider \<Rightarrow> provider_kind" where
  "provider_kind_from ProviderNone = KindNone"
| "provider_kind_from ProviderDblab = KindDblab"

definition pitr_from :: "bool \<Rightarrow> pitr_config" where
  "pitr_from enabled = (if enabled then \<lparr>pitr_enabled = True\<rparr> else \<lparr>pitr_enabled = False\<rparr>)"

record live_request =
  lr_statement_text :: string
  lr_normalized_params :: "string list"
  lr_role :: string
  lr_session_id :: string
  lr_proposal_id :: string

datatype inconsistent =
    ProposalDiffers string string
  | Unkeyable string
  | CapBelowRows u64 u64
  | CapBelowWal u64 u64

datatype 'r granted_apply_error =
    GrantFailed grant_error
  | ApplyFailed apply_error
  | Inconsistent inconsistent
  | NotSelfDeterminedApply 'r

record bridged_apply_config =
  bc_provider :: provider_kind
  bc_pitr :: pitr_config

definition from_policy :: "policy_config \<Rightarrow> bridged_apply_config" where
  "from_policy policy =
     \<lparr>bc_provider = provider_kind_from (pc_clone_provider policy), bc_pitr = pitr_from (pc_pitr_enabled policy)\<rparr>"

definition live_binding :: "grant_token \<Rightarrow> live_request \<Rightarrow> blast_radius \<Rightarrow> grant_binding" where
  "live_binding grant live br =
     \<lparr>gb_statement_text = lr_statement_text live, gb_normalized_params = lr_normalized_params live,
      gb_role = lr_role live, gb_session_id = lr_session_id live, gb_proposal_id = lr_proposal_id live,
      gb_dry_run_lsn = br_clone_lsn br, gb_cap = gb_cap (gt_binding grant),
      gb_nonce = gb_nonce (gt_binding grant),
      gb_expiry_unix_millis = gb_expiry_unix_millis (gt_binding grant)\<rparr>"

text \<open>The checks between the predicate gate and the signature.\<close>

definition grant_consistency ::
  "grant_token \<Rightarrow> live_request \<Rightarrow> string \<Rightarrow> blast_radius \<Rightarrow> inconsistent option" where
  "grant_consistency grant live relation br =
     (let cap = gb_cap (gt_binding grant); predicted_rows = predicted_total_tuples br in
      if br_proposal_id br \<noteq> lr_proposal_id live
      then Some (ProposalDiffers (br_proposal_id br) (lr_proposal_id live))
      else if \<not> bt_contains (pk_set_checksum (br_affected br)) relation then Some (Unkeyable relation)
      else if max_rows cap < predicted_rows then Some (CapBelowRows (max_rows cap) predicted_rows)
      else if max_wal_bytes cap < br_wal_bytes br then Some (CapBelowWal (max_wal_bytes cap) (br_wal_bytes br))
      else None)"

definition guarded_apply_with_grant ::
  "(bytes \<Rightarrow> bytes) \<Rightarrow> (bytes \<Rightarrow> string) \<Rightarrow> (string \<Rightarrow> bytes option) \<Rightarrow> (bytes \<Rightarrow> bytes \<Rightarrow> bool)
    \<Rightarrow> (string \<Rightarrow> string \<Rightarrow> 'r option) \<Rightarrow> (string \<Rightarrow> 'n \<Rightarrow> bool \<times> 'n) \<Rightarrow> policy_config \<Rightarrow> grant_token
    \<Rightarrow> live_request \<Rightarrow> write_kind \<Rightarrow> string \<Rightarrow> blast_radius \<Rightarrow> 's apply_conn \<Rightarrow> (string \<Rightarrow> 's \<Rightarrow> 's) \<Rightarrow> clock
    \<Rightarrow> 'n \<times> 's \<Rightarrow> ('r granted_apply_error + applied_write \<times> bridged_apply_config) \<times> 'n \<times> 's" where
  "guarded_apply_with_grant sha256 hex_encode hex_decode verify_strict structural_reason consume policy grant
     live kind relation br conn pause_point clk = (\<lambda>(nonces, s).
     let bridged = from_policy policy in
     case ac_self_determined_pk_column conn relation s of (pk_col, s1) \<Rightarrow>
     (case Option.bind pk_col (structural_reason (lr_statement_text live)) of
       Some reason \<Rightarrow> (Inl (NotSelfDeterminedApply reason), nonces, s1)
     | None \<Rightarrow>
       (case grant_consistency grant live relation br of
         Some why \<Rightarrow> (Inl (Inconsistent why), nonces, s1)
       | None \<Rightarrow>
         (case verify_for_apply sha256 hex_decode verify_strict consume grant (live_binding grant live br) clk nonces of
           (Inl e, nonces') \<Rightarrow> (Inl (GrantFailed e), nonces', s1)
         | (Inr _, nonces') \<Rightarrow>
           (case guarded_apply sha256 hex_encode (lr_proposal_id live) kind relation br (gb_cap (gt_binding grant))
               (bc_pitr bridged) conn pause_point clk s1 of
             (Inl e, s2) \<Rightarrow> (Inl (ApplyFailed e), nonces', s2)
           | (Inr applied, s2) \<Rightarrow> (Inr (applied, bridged), nonces', s2))))))"

datatype drift_decision = DriftProceed | DriftAbort

definition guard_decision :: "u64 \<Rightarrow> u64 \<Rightarrow> drift_decision" where
  "guard_decision dry_run_checksum apply_checksum =
     (if dry_run_checksum = apply_checksum then DriftProceed else DriftAbort)"

section \<open>Correctness\<close>

text \<open>The granted run on a traced connection and the in-memory nonce store.\<close>

definition granted_run ::
  "(bytes \<Rightarrow> bytes) \<Rightarrow> (bytes \<Rightarrow> string) \<Rightarrow> (string \<Rightarrow> bytes option) \<Rightarrow> (bytes \<Rightarrow> bytes \<Rightarrow> bool)
    \<Rightarrow> (string \<Rightarrow> string \<Rightarrow> 'r option) \<Rightarrow> policy_config \<Rightarrow> grant_token
    \<Rightarrow> live_request \<Rightarrow> write_kind \<Rightarrow> string \<Rightarrow> blast_radius \<Rightarrow> 's apply_conn \<Rightarrow> (string \<Rightarrow> 's \<Rightarrow> 's) \<Rightarrow> clock
    \<Rightarrow> in_memory_nonce_store \<Rightarrow> 's
    \<Rightarrow> ('r granted_apply_error + applied_write \<times> bridged_apply_config) \<times> in_memory_nonce_store \<times> 's \<times> conn_call list" where
  "granted_run sha256 hex_encode hex_decode verify_strict structural_reason policy grant live kind relation br
     conn pause_point clk nonces s =
     guarded_apply_with_grant sha256 hex_encode hex_decode verify_strict structural_reason in_memory_consume policy
       grant live kind relation br (traced conn) (traced_pause pause_point) clk (nonces, s, [])"

text \<open>A traced method only appends to the trace, and what it appends does not depend on what is there.\<close>

definition appends :: "('s \<times> conn_call list \<Rightarrow> 'r \<times> 's \<times> conn_call list) \<Rightarrow> bool" where
  "appends m = (\<forall>s t. m (s, t) = (case m (s, []) of (r, s', tr) \<Rightarrow> (r, s', t @ tr)))"

lemma appendsD: "appends m \<Longrightarrow> m (s, []) = (r, s', tr) \<Longrightarrow> m (s, t) = (r, s', t @ tr)"
  unfolding appends_def by (drule spec [of _ s], drule spec [of _ t]) simp

lemma appendsI:
  "(\<And>s t r s' tr. m (s, []) = (r, s', tr) \<Longrightarrow> m (s, t) = (r, s', t @ tr)) \<Longrightarrow> appends m"
  by (auto simp: appends_def split: prod.splits)

lemma appends_basic [simp, intro]:
  "appends (logged call m)" "appends (eret x)" "appends (efail e)" "appends (elift q)"
  by (auto simp: appends_def logged_def split: prod.splits)

lemma appends_bind [intro]:
  assumes "appends m" and "\<And>x. appends (f x)"
  shows "appends (ebind m f)"
proof (rule appendsI)
  fix s t r s' tr
  assume run: "ebind m f (s, []) = (r, s', tr)"
  obtain q s1 t1 where m: "m (s, []) = (q, s1, t1)" by (cases "m (s, [])") auto
  show "ebind m f (s, t) = (r, s', t @ tr)"
  proof (cases q)
    case (Inl e)
    with run show ?thesis by (simp add: ebind_def m appendsD [OF assms(1) m])
  next
    case (Inr x)
    obtain q2 s2 t2 where f: "f x (s1, []) = (q2, s2, t2)" by (cases "f x (s1, [])") auto
    from run Inr show ?thesis
      by (simp add: ebind_def m appendsD [OF assms(1) m] appendsD [OF assms(2) f])
  qed
qed

lemma traced_appends [simp, intro]:
  "appends (ac_create_restore_point (traced conn) label)" "appends (ac_begin (traced conn) t)"
  "appends (ac_xact_wal_bytes (traced conn))" "appends (ac_apply_forward (traced conn) kind rel cs)"
  "appends (ac_xact_tuple_deltas (traced conn))" "appends (ac_commit (traced conn))"
  "appends (ac_rollback (traced conn))"
  by (simp_all add: traced_def)

lemma appends_handler:
  assumes "appends m" and "\<And>x. appends (f x)" and "\<And>e. appends (g e)"
  shows "appends (\<lambda>s. case m s of (Inr x, s1) \<Rightarrow> f x s1 | (Inl e, s1) \<Rightarrow> g e s1)"
proof (rule appendsI)
  fix s t r s' tr
  assume run: "(case m (s, []) of (Inr x, s1) \<Rightarrow> f x s1 | (Inl e, s1) \<Rightarrow> g e s1) = (r, s', tr)"
  obtain q s1 t1 where m: "m (s, []) = (q, s1, t1)" by (cases "m (s, [])") auto
  have step: "h (s1, t @ t1) = (r, s', t @ tr)" if "appends h" and "h (s1, t1) = (r, s', tr)" for h
  proof -
    obtain q2 s2 t2 where "h (s1, []) = (q2, s2, t2)" by (cases "h (s1, [])") auto
    from appendsD [OF that(1) this] that(2) show ?thesis by auto
  qed
  from run show "(case m (s, t) of (Inr x, s1) \<Rightarrow> f x s1 | (Inl e, s1) \<Rightarrow> g e s1) = (r, s', t @ tr)"
    by (cases q) (simp_all add: m appendsD [OF assms(1) m] step assms(2,3))
qed

lemma guarded_body_appends:
  "appends (guarded_body kind rel predicted cap (traced conn) (traced_pause pause_point))"
proof (rule appendsI)
  fix s t r s' tr
  assume run: "guarded_body kind rel predicted cap (traced conn) (traced_pause pause_point) (s, []) = (r, s', tr)"
  let ?p = "pause_point ''between dry_run and apply'' s"
  have steps: "appends (guarded_steps kind rel predicted cap (traced conn))"
    unfolding guarded_steps_def Let_def
    by (intro appends_bind traced_appends appends_basic) (auto intro!: appends_bind)
  obtain q s1 t1 where st: "guarded_steps kind rel predicted cap (traced conn) (?p, []) = (q, s1, t1)"
    by (metis prod.collapse)
  from run show "guarded_body kind rel predicted cap (traced conn) (traced_pause pause_point) (s, t) = (r, s', t @ tr)"
    by (auto simp: guarded_body_def traced_pause_def appendsD [OF steps st])
qed

lemma guarded_apply_appends:
  "appends (guarded_apply sha256 hex_encode pid kind rel br cap pitr (traced conn) (traced_pause pause_point) clk)"
proof -
  have rollback: "appends (\<lambda>s. (Inl e, snd (ac_rollback (traced conn) s)))" for e :: apply_error
    by (rule appendsI) (auto simp: traced_def logged_def split: prod.splits)
  have txn: "appends (guarded_txn sha256 hex_encode q kind rel br predicted cap fence (traced conn) (traced_pause pause_point))"
    for q predicted fence
    unfolding guarded_txn_def Let_def
    by (intro appends_bind traced_appends appends_handler guarded_body_appends rollback appends_basic)
  have fence: "appends (create_fence q pitr (traced conn) clk)" for q
    by (auto simp: create_fence_def intro!: appends_bind)
  show ?thesis
    unfolding guarded_apply_def Let_def
    by (auto intro!: appends_bind fence txn split: sum.splits)
qed

lemma granted_run_cases:
  assumes "granted_run sha256 hex_encode hex_decode verify_strict structural_reason policy grant live kind rel br
      conn pause_point clk nonces s = (r, nonces', s', tr)"
  obtains (stopped) pk e where "tr = [CallPkColumn rel pk]" and "r = Inl e"
  | (applied) pk q s1 calls where "tr = CallPkColumn rel pk # calls"
      and "Option.bind pk (structural_reason (lr_statement_text live)) = None"
      and "verify_for_apply sha256 hex_decode verify_strict in_memory_consume grant (live_binding grant live br) clk
        nonces = (Inr (), nonces')"
      and "apply_run sha256 hex_encode (lr_proposal_id live) kind rel br (gb_cap (gt_binding grant))
        (bc_pitr (from_policy policy)) conn pause_point clk s1 = (q, s', calls)"
      and "r = (case q of Inl e \<Rightarrow> Inl (ApplyFailed e) | Inr aw \<Rightarrow> Inr (aw, from_policy policy))"
proof -
  obtain pk s1 where pk: "ac_self_determined_pk_column conn rel s = (pk, s1)" by (metis prod.collapse)
  then have pk': "ac_self_determined_pk_column (traced conn) rel (s, []) = (pk, s1, [CallPkColumn rel pk])"
    by (simp add: traced_def logged_def)
  obtain q s2 calls where run: "apply_run sha256 hex_encode (lr_proposal_id live) kind rel br (gb_cap (gt_binding grant))
      (bc_pitr (from_policy policy)) conn pause_point clk s1 = (q, s2, calls)"
    by (metis prod.collapse)
  from appendsD [OF guarded_apply_appends run [unfolded apply_run_def], of "[CallPkColumn rel pk]"]
  have run': "guarded_apply sha256 hex_encode (lr_proposal_id live) kind rel br (gb_cap (gt_binding grant))
      (bc_pitr (from_policy policy)) (traced conn) (traced_pause pause_point) clk (s1, [CallPkColumn rel pk])
    = (q, s2, CallPkColumn rel pk # calls)" by simp
  obtain v n1 where v: "verify_for_apply sha256 hex_decode verify_strict in_memory_consume grant
      (live_binding grant live br) clk nonces = (v, n1)"
    by (metis prod.collapse)
  consider "\<exists>e. tr = [CallPkColumn rel pk] \<and> r = Inl e"
    | "Option.bind pk (structural_reason (lr_statement_text live)) = None" "v = Inr ()" "n1 = nonces'" "s2 = s'"
      "tr = CallPkColumn rel pk # calls"
      "r = (case q of Inl e \<Rightarrow> Inl (ApplyFailed e) | Inr aw \<Rightarrow> Inr (aw, from_policy policy))"
    using assms by (auto simp: granted_run_def guarded_apply_with_grant_def pk' v run' split: option.splits sum.splits)
  then show thesis
    by cases (use that v run in auto)
qed

text \<open>
  C3: a write is committed only under a signed grant for exactly that write: when a granted run
  commits, the predicate gate passed, every field of the live request and the clone position of the
  record are those of the grant, the grant's 64-byte signature verifies over the hash of just these
  fields, the grant had not expired, its nonce was unspent and is now the one nonce spent, and the
  record and the transaction's own measurements passed the guards under the grant's cap. Strings
  are within the length prefix and the hash tells the two preimages apart.
\<close>

theorem commit_needs_matching_grant:
  assumes run: "granted_run sha256 hex_encode hex_decode verify_strict structural_reason policy grant live kind rel br
      conn pause_point clk nonces s = (r, nonces', s', tr)"
    and commit: "CallCommit c \<in> set tr"
    and coll: "inj_on sha256 {binding_preimage (live_binding grant live br), binding_preimage (gt_binding grant)}"
    and wf: "binding_wf (live_binding grant live br)" "binding_wf (gt_binding grant)"
  shows "live_binding grant live br = gt_binding grant
    \<and> (\<exists>sig. hex_decode (gt_signature_hex grant) = Some sig \<and> length sig = 64
        \<and> verify_strict (sha256 (binding_preimage (live_binding grant live br))) sig)
    \<and> now_unix_millis clk < gb_expiry_unix_millis (gt_binding grant)
    \<and> gb_nonce (gt_binding grant) \<notin> ins_used nonces
    \<and> ins_used nonces' = insert (gb_nonce (gt_binding grant)) (ins_used nonces)
    \<and> (\<forall>pk. CallPkColumn rel (Some pk) \<in> set tr \<longrightarrow> structural_reason (lr_statement_text live) pk = None)
    \<and> (\<exists>predicted fw deltas wal.
        grant_admits (lr_proposal_id live) kind rel br (gb_cap (gt_binding grant)) predicted
        \<and> CallForward kind rel (map fst (pb_cascades predicted)) (Inr fw) \<in> set tr
        \<and> CallDeltas (Inr deltas) \<in> set tr \<and> CallWal (Inr wal) \<in> set tr
        \<and> guards_hold kind rel predicted (gb_cap (gt_binding grant)) fw deltas wal)"
  using run
proof (cases rule: granted_run_cases)
  case (stopped pk e)
  with commit show ?thesis by simp
next
  case (applied pk q s1 calls)
  note v = mem_nonce.verify_cases [OF applied(3), simplified]
  from v have "sha256 (binding_preimage (live_binding grant live br)) = sha256 (binding_preimage (gt_binding grant))"
    by (simp add: binding_hash_def)
  then have "binding_preimage (live_binding grant live br) = binding_preimage (gt_binding grant)"
    by (rule inj_onD [OF coll]) simp_all
  with binding_preimage_inj [OF wf] have same: "live_binding grant live br = gt_binding grant" by simp
  have signed: "\<exists>sig. hex_decode (gt_signature_hex grant) = Some sig \<and> length sig = 64
      \<and> verify_strict (sha256 (binding_preimage (live_binding grant live br))) sig"
    using v by (auto simp: same verify_signature_def binding_hash_def split: option.splits if_splits)
  have guards: "(\<exists>predicted fw deltas wal.
      grant_admits (lr_proposal_id live) kind rel br (gb_cap (gt_binding grant)) predicted
      \<and> CallForward kind rel (map fst (pb_cascades predicted)) (Inr fw) \<in> set calls
      \<and> CallDeltas (Inr deltas) \<in> set calls \<and> CallWal (Inr wal) \<in> set calls
      \<and> guards_hold kind rel predicted (gb_cap (gt_binding grant)) fw deltas wal)
      \<and> (\<forall>pk'. CallPkColumn rel pk' \<notin> set calls)"
    using apply_run_protocolD [OF applied(4)] commit applied(1)
    by cases (auto elim!: fence_calls.cases)
  have gate: "structural_reason (lr_statement_text live) pk' = None" if "CallPkColumn rel (Some pk') \<in> set tr" for pk'
    using that guards applied(1,2) by auto
  from guards applied(1) have guards': "\<exists>predicted fw deltas wal.
      grant_admits (lr_proposal_id live) kind rel br (gb_cap (gt_binding grant)) predicted
      \<and> CallForward kind rel (map fst (pb_cascades predicted)) (Inr fw) \<in> set tr
      \<and> CallDeltas (Inr deltas) \<in> set tr \<and> CallWal (Inr wal) \<in> set tr
      \<and> guards_hold kind rel predicted (gb_cap (gt_binding grant)) fw deltas wal"
    by (metis list.set_intros(2))
  from v same have spent: "now_unix_millis clk < gb_expiry_unix_millis (gt_binding grant)"
    "gb_nonce (gt_binding grant) \<notin> ins_used nonces"
    "ins_used nonces' = insert (gb_nonce (gt_binding grant)) (ins_used nonces)"
    by simp_all
  show ?thesis using same signed spent gate guards' by blast
qed

definition sample_live :: live_request where
  "sample_live = \<lparr>lr_statement_text = ''UPDATE t SET balance = 0 WHERE id = 1'', lr_normalized_params = [],
     lr_role = ''app'', lr_session_id = ''s1'', lr_proposal_id = ''p''\<rparr>"

definition sample_grant :: grant_token where
  "sample_grant = grant_sign id str_of_bytes sample_sign
     \<lparr>gb_statement_text = lr_statement_text sample_live, gb_normalized_params = [], gb_role = ''app'',
      gb_session_id = ''s1'', gb_proposal_id = ''p'', gb_dry_run_lsn = [],
      gb_cap = \<lparr>max_rows = 2, max_wal_bytes = 20\<rparr>, gb_nonce = ''n'', gb_expiry_unix_millis = 50\<rparr>"

definition sample_policy :: policy_config where
  "sample_policy = \<lparr>pc_version = 1, pc_roles = [], pc_primary = None, pc_replica_dsn = None, pc_replica_target = None,
     pc_clone_provider = ProviderNone, pc_pitr_enabled = False, pc_cli_signing_key_id = None,
     pc_audit_target = None, pc_anchor_endpoint = None\<rparr>"

definition sample_granted_run ::
  "(unit granted_apply_error + applied_write \<times> bridged_apply_config) \<times> in_memory_nonce_store \<times> unit \<times> conn_call list" where
  "sample_granted_run =
     granted_run id (\<lambda>_. []) (\<lambda>s. Some (as_bytes s)) (\<lambda>msg sig. sig = sample_sign msg) (\<lambda>_ _. None) sample_policy
       sample_grant sample_live Update ''t'' sample_br (script_conn (sample_forward [[PkInt 1]]) (sample_deltas 1) 15)
       (\<lambda>_ s. s) (clock_starting_at 10) in_memory_new ()"

lemma sample_live_binding: "live_binding sample_grant sample_live sample_br = gt_binding sample_grant"
  by (simp add: live_binding_def sample_grant_def grant_sign_def sample_live_def sample_br_def)

lemma sample_grant_verifies:
  "verify_for_apply id (\<lambda>s. Some (as_bytes s)) (\<lambda>msg sig. sig = sample_sign msg) in_memory_consume
     sample_grant (gt_binding sample_grant) (clock_starting_at 10) in_memory_new = (Inr (), \<lparr>ins_used = {''n''}\<rparr>)"
proof -
  have "gb_nonce (gt_binding sample_grant) = ''n''" "gb_expiry_unix_millis (gt_binding sample_grant) = 50"
    "gt_signature_hex sample_grant = str_of_bytes (replicate 64 7)"
    by (simp_all add: sample_grant_def grant_sign_def sample_sign_def)
  then show ?thesis
    by (simp add: verify_for_apply_def ebind_def verify_signature_def sample_sign_def in_memory_consume_def
        in_memory_new_def clock_starting_at_def)
qed

lemma sample_granted_commits: "CallCommit (Inr ()) \<in> set (snd (snd (snd sample_granted_run)))"
proof -
  have "grant_consistency sample_grant sample_live ''t'' sample_br = None"
    by (simp add: grant_consistency_def sample_grant_def grant_sign_def sample_live_def sample_br_def
        predicted_total_tuples_def op_counts_new_def op_counts_total_def sat_add_def bt_contains_def)
  moreover have "gb_cap (gt_binding sample_grant) = \<lparr>max_rows = 2, max_wal_bytes = 20\<rparr>"
    "lr_proposal_id sample_live = ''p''" "bc_pitr (from_policy sample_policy) = \<lparr>pitr_enabled = False\<rparr>"
    by (simp_all add: sample_grant_def grant_sign_def sample_live_def from_policy_def pitr_from_def sample_policy_def)
  ultimately show ?thesis
    by (simp add: sample_granted_run_def granted_run_def guarded_apply_with_grant_def sample_live_binding
        sample_grant_verifies) (simp add: sample_defs sat_add_def)
qed

theorem commit_needs_matching_grant_witness:
  "''n'' \<in> ins_used (fst (snd sample_granted_run))"
proof -
  have eq: "granted_run id (\<lambda>_. []) (\<lambda>s. Some (as_bytes s)) (\<lambda>msg sig. sig = sample_sign msg) (\<lambda>_ _. None) sample_policy
       sample_grant sample_live Update ''t'' sample_br (script_conn (sample_forward [[PkInt 1]]) (sample_deltas 1) 15)
       (\<lambda>_ s. s) (clock_starting_at 10) in_memory_new ()
    = (fst sample_granted_run, fst (snd sample_granted_run), fst (snd (snd sample_granted_run)),
       snd (snd (snd sample_granted_run)))"
    by (simp only: sample_granted_run_def prod.collapse)
  have "binding_wf (gt_binding sample_grant)"
    by (simp add: binding_wf_def sample_grant_def grant_sign_def str_fits_def sample_live_def)
  moreover have "gb_nonce (gt_binding sample_grant) = ''n''" by (simp add: sample_grant_def grant_sign_def)
  ultimately show ?thesis
    using commit_needs_matching_grant [OF eq sample_granted_commits] by (simp add: sample_live_binding)
qed

end
