(* ===== verification/Orch_Predicate.thy ===== *)
theory Orch_Predicate
  imports Orch_Dry_Run
begin

text \<open>
  The predicate gates of the write path (\<^verbatim>\<open>crates/clone-orchestrator/src/predicate.rs\<close>): the
  volatility gate and the self-determination gate, which walk the syntax tree of a statement's
  WHERE clause. The tree is the part of the parser's that the gates match on; the parser and
  \<^verbatim>\<open>str::to_lowercase\<close> are parameters. A semantics of predicates over rows and database states
  says what the gates are for.
\<close>

section \<open>Syntax\<close>

record sql_ident =
  id_value :: string
  id_quoted :: bool

datatype sub_kind = SubqueryK | ExistsK | InSubqueryK | AnyOpK | AllOpK | InUnnestK

datatype wrap_kind =
    UnaryOpW string | NestedW | IsTrueW | IsNotTrueW | IsFalseW | IsNotFalseW | IsNullW | IsNotNullW
  | IsUnknownW | IsNotUnknownW | CastW string | CollateW string

datatype like_kind = LikeK | ILikeK | SimilarToK | RLikeK

text \<open>
  \<^verbatim>\<open>sqlparser::ast::Expr\<close> as the gates see it. A node lists the expressions the visitor descends
  into; every variant no gate names is \<open>EOther\<close>.
\<close>

datatype pexpr =
    EIdentifier sql_ident
  | ECompoundIdentifier "sql_ident list"
  | ECompoundFieldAccess pexpr "pexpr list"
  | EQuery sub_kind "pexpr list"
  | EBinaryOp string pexpr pexpr
  | EWrap wrap_kind pexpr
  | EBetween bool pexpr pexpr pexpr
  | EInList bool pexpr "pexpr list"
  | ELike like_kind bool pexpr pexpr
  | EDistinctFrom bool pexpr pexpr
  | ECase "pexpr option" "(pexpr \<times> pexpr) list" "pexpr option"
  | EFunction "string list" "pexpr list"
  | EValue string
  | ETypedString string
  | EInterval pexpr
  | EOther string "pexpr list"

datatype pstatement =
    PUpdate bool nat "pexpr option"
  | PDelete bool "nat list" "pexpr option"
  | POtherStatement

text \<open>
  An update carries whether it has a FROM, how many joins hang on its target, and its WHERE; a
  delete whether it has a USING, the joins of each of its tables, and its WHERE.
\<close>

fun pchildren :: "pexpr \<Rightarrow> pexpr list" where
  "pchildren (ECompoundFieldAccess root chain) = root # chain"
| "pchildren (EQuery _ xs) = xs"
| "pchildren (EBinaryOp _ l r) = [l, r]"
| "pchildren (EWrap _ e) = [e]"
| "pchildren (EBetween _ e low high) = [e, low, high]"
| "pchildren (EInList _ e xs) = e # xs"
| "pchildren (ELike _ _ e pattern) = [e, pattern]"
| "pchildren (EDistinctFrom _ a b) = [a, b]"
| "pchildren (ECase operand whens els) =
     (case operand of None \<Rightarrow> [] | Some e \<Rightarrow> [e])
     @ concat (map (\<lambda>(c, r). [c, r]) whens) @ (case els of None \<Rightarrow> [] | Some e \<Rightarrow> [e])"
| "pchildren (EFunction _ args) = args"
| "pchildren (EInterval e) = [e]"
| "pchildren (EOther _ xs) = xs"
| "pchildren _ = []"

lemma pchildren_size: "x \<in> set (pchildren e) \<Longrightarrow> size x < size e"
proof -
  have "x \<in> set xs \<Longrightarrow> size x \<le> size_list size xs" for xs :: "pexpr list"
    by (induction xs) auto
  moreover have "(c, r) \<in> set ws \<Longrightarrow> size c \<le> size_list (size_prod size size) ws \<and> size r \<le> size_list (size_prod size size) ws"
    for c r :: pexpr and ws by (induction ws) auto
  ultimately show "x \<in> set (pchildren e) \<Longrightarrow> size x < size e"
    by (cases e) (fastforce simp: le_imp_less_Suc less_Suc_eq_le split: option.splits intro: le_SucI trans_le_add1 trans_le_add2)+
qed

text \<open>\<^verbatim>\<open>visit_expressions\<close>: every node, a parent before its children.\<close>

function pnodes :: "pexpr \<Rightarrow> pexpr list" where
  "pnodes e = e # concat (map pnodes (pchildren e))"
  by auto
termination by (relation "measure size") (auto simp: pchildren_size)

declare pnodes.simps [simp del]

section \<open>The volatility gate\<close>

definition NONDETERMINISTIC_KEYWORDS :: "string list" where
  "NONDETERMINISTIC_KEYWORDS =
     [''now'', ''current_timestamp'', ''current_time'', ''current_date'', ''localtime'', ''localtimestamp'',
      ''statement_timestamp'', ''transaction_timestamp'', ''txid_current'', ''pg_current_xact_id'',
      ''pg_current_xact_id_if_assigned'']"

definition KNOWN_DETERMINISTIC_SPECIAL_FORMS :: "string list" where
  "KNOWN_DETERMINISTIC_SPECIAL_FORMS = [''coalesce'', ''nullif'', ''greatest'', ''least'']"

datatype volatile_reason =
    NondeterministicKeyword string
  | VolatileFunction string
  | UnresolvableFunction string
  | Unparseable

definition no_function_volatility :: "string \<Rightarrow> 's \<Rightarrow> volatility \<times> 's" where
  "no_function_volatility name s = (UnknownFn, s)"

definition predicate_of :: "pstatement \<Rightarrow> pexpr option option" where
  "predicate_of stmt =
     (case stmt of PUpdate _ _ sel \<Rightarrow> Some sel | PDelete _ _ sel \<Rightarrow> Some sel | POtherStatement \<Rightarrow> None)"

definition object_name_lower :: "(string \<Rightarrow> string) \<Rightarrow> string list \<Rightarrow> string" where
  "object_name_lower lower parts = join_with ''.'' (map lower parts)"

definition bare_name :: "string \<Rightarrow> string" where
  "bare_name dotted = last (split_on CHR ''.'' dotted)"

definition function_names_in :: "(string \<Rightarrow> string) \<Rightarrow> pexpr \<Rightarrow> string list" where
  "function_names_in lower e =
     List.map_filter (\<lambda>n. case n of EFunction name _ \<Rightarrow> Some (object_name_lower lower name) | _ \<Rightarrow> None) (pnodes e)"

fun resolve_names ::
  "(string \<Rightarrow> 's \<Rightarrow> volatility \<times> 's) \<Rightarrow> string list \<Rightarrow> 's \<Rightarrow> volatile_reason option \<times> 's" where
  "resolve_names volatility_of [] s = (None, s)"
| "resolve_names volatility_of (name # names) s =
     (if CHR ''.'' \<notin> set name \<and> bare_name name \<in> set KNOWN_DETERMINISTIC_SPECIAL_FORMS
      then resolve_names volatility_of names s
      else case volatility_of name s of
        (VolatileFn, s') \<Rightarrow> (Some (VolatileFunction name), s')
      | (UnknownFn, s') \<Rightarrow> (Some (UnresolvableFunction name), s')
      | (_, s') \<Rightarrow> resolve_names volatility_of names s')"

definition predicate_volatile_reason ::
  "(string \<Rightarrow> pstatement list option) \<Rightarrow> (string \<Rightarrow> string) \<Rightarrow> string
    \<Rightarrow> (string \<Rightarrow> 's \<Rightarrow> volatility \<times> 's) \<Rightarrow> 's \<Rightarrow> volatile_reason option \<times> 's" where
  "predicate_volatile_reason parse lower sql volatility_of s =
     (case parse sql of
        Some [stmt] \<Rightarrow>
          (case predicate_of stmt of
             None \<Rightarrow> (Some Unparseable, s)
           | Some None \<Rightarrow> (None, s)
           | Some (Some predicate) \<Rightarrow>
               let names = function_names_in lower predicate in
               (case find (\<lambda>name. bare_name name \<in> set NONDETERMINISTIC_KEYWORDS) names of
                  Some name \<Rightarrow> (Some (NondeterministicKeyword name), s)
                | None \<Rightarrow> resolve_names volatility_of names s))
      | _ \<Rightarrow> (Some Unparseable, s))"

section \<open>The self-determination gate\<close>

datatype not_self_determined =
    NonPkColumn string string
  | Subquery
  | JoinCorrelation
  | NonImmutable volatile_reason
  | Unclassifiable

definition or_else :: "'a option \<Rightarrow> 'a option \<Rightarrow> 'a option" where
  "or_else a b = (case a of Some x \<Rightarrow> Some x | None \<Rightarrow> b)"

definition non_pk_column :: "(string \<Rightarrow> string) \<Rightarrow> string \<Rightarrow> sql_ident \<Rightarrow> not_self_determined option" where
  "non_pk_column lower pk_bare i =
     (if lower (id_value i) = pk_bare then None else Some (NonPkColumn pk_bare (id_value i)))"

fun classify_atom_only :: "(string \<Rightarrow> string) \<Rightarrow> string \<Rightarrow> pexpr \<Rightarrow> not_self_determined option" where
  "classify_atom_only lower pk_bare (EIdentifier i) = non_pk_column lower pk_bare i"
| "classify_atom_only lower pk_bare (ECompoundIdentifier parts) =
     (if parts = [] then None else non_pk_column lower pk_bare (last parts))"
| "classify_atom_only lower pk_bare (EQuery _ _) = Some Subquery"
| "classify_atom_only lower pk_bare _ = None"

text \<open>The first atom of a list of nodes that is refused.\<close>

definition sweep :: "(string \<Rightarrow> string) \<Rightarrow> string \<Rightarrow> pexpr list \<Rightarrow> not_self_determined option" where
  "sweep lower pk_bare nodes = foldr (\<lambda>e rest. or_else (classify_atom_only lower pk_bare e) rest) nodes None"

text \<open>The conditions and results of a CASE, in the order they are examined.\<close>

abbreviation when_parts :: "(pexpr \<times> pexpr) list \<Rightarrow> pexpr list" where
  "when_parts whens \<equiv> concat (map (\<lambda>(c, r). [c, r]) whens)"

lemma when_parts_size: "size_list size (when_parts whens) = size_list (size_prod size size) whens"
  by (induction whens) auto

function classify_self_determined_expr ::
  "(string \<Rightarrow> string) \<Rightarrow> string \<Rightarrow> pexpr \<Rightarrow> not_self_determined option"
  and classify_all :: "(string \<Rightarrow> string) \<Rightarrow> string \<Rightarrow> pexpr list \<Rightarrow> not_self_determined option" where
  "classify_self_determined_expr lower pk (EIdentifier i) = non_pk_column lower pk i"
| "classify_self_determined_expr lower pk (ECompoundIdentifier parts) =
     (if parts = [] then Some Unclassifiable else non_pk_column lower pk (last parts))"
| "classify_self_determined_expr lower pk (ECompoundFieldAccess root chain) =
     or_else (classify_self_determined_expr lower pk root)
       (sweep lower pk (tl (pnodes (ECompoundFieldAccess root chain))))"
| "classify_self_determined_expr lower pk (EQuery _ _) = Some Subquery"
| "classify_self_determined_expr lower pk (EBinaryOp _ l r) =
     or_else (classify_self_determined_expr lower pk l) (classify_self_determined_expr lower pk r)"
| "classify_self_determined_expr lower pk (EWrap _ e) = classify_self_determined_expr lower pk e"
| "classify_self_determined_expr lower pk (EBetween _ e low high) =
     or_else (or_else (classify_self_determined_expr lower pk e) (classify_self_determined_expr lower pk low))
       (classify_self_determined_expr lower pk high)"
| "classify_self_determined_expr lower pk (EInList _ e xs) =
     or_else (classify_self_determined_expr lower pk e) (classify_all lower pk xs)"
| "classify_self_determined_expr lower pk (ELike _ _ e pattern) =
     or_else (classify_self_determined_expr lower pk e) (classify_self_determined_expr lower pk pattern)"
| "classify_self_determined_expr lower pk (EDistinctFrom _ a b) =
     or_else (classify_self_determined_expr lower pk a) (classify_self_determined_expr lower pk b)"
| "classify_self_determined_expr lower pk (ECase operand whens els) =
     or_else (case operand of None \<Rightarrow> None | Some e \<Rightarrow> classify_self_determined_expr lower pk e)
       (or_else (classify_all lower pk (when_parts whens))
         (case els of None \<Rightarrow> None | Some e \<Rightarrow> classify_self_determined_expr lower pk e))"
| "classify_self_determined_expr lower pk (EFunction name args) =
     sweep lower pk (tl (pnodes (EFunction name args)))"
| "classify_self_determined_expr lower pk (EValue _) = None"
| "classify_self_determined_expr lower pk (ETypedString _) = None"
| "classify_self_determined_expr lower pk (EInterval _) = None"
| "classify_self_determined_expr lower pk (EOther l xs) =
     Some (case sweep lower pk (pnodes (EOther l xs)) of None \<Rightarrow> Unclassifiable | Some r \<Rightarrow> r)"
| "classify_all lower pk [] = None"
| "classify_all lower pk (e # es) = or_else (classify_self_determined_expr lower pk e) (classify_all lower pk es)"
  by pat_completeness auto
termination
  by (relation "measure (case_sum (\<lambda>(_, _, e). size e) (\<lambda>(_, _, es). size_list size es))")
    (auto simp: when_parts_size)

definition join_correlation_reason :: "pstatement \<Rightarrow> not_self_determined option" where
  "join_correlation_reason stmt =
     (case stmt of
        PUpdate has_from joins _ \<Rightarrow> if has_from then Some JoinCorrelation else if joins \<noteq> 0 then Some JoinCorrelation else None
      | PDelete has_using joins _ \<Rightarrow>
          if has_using then Some JoinCorrelation
          else if \<exists>j \<in> set joins. j \<noteq> 0 then Some JoinCorrelation else None
      | POtherStatement \<Rightarrow> None)"

definition self_determined_predicate_structural_reason ::
  "(string \<Rightarrow> pstatement list option) \<Rightarrow> (string \<Rightarrow> string) \<Rightarrow> string \<Rightarrow> string \<Rightarrow> not_self_determined option" where
  "self_determined_predicate_structural_reason parse lower sql pk_col =
     (case parse sql of
        Some [stmt] \<Rightarrow>
          (case join_correlation_reason stmt of
             Some reason \<Rightarrow> Some reason
           | None \<Rightarrow>
               (case predicate_of stmt of
                  Some (Some predicate) \<Rightarrow> classify_self_determined_expr lower (bare_name (lower pk_col)) predicate
                | _ \<Rightarrow> Some Unclassifiable))
      | _ \<Rightarrow> Some Unclassifiable)"

definition self_determined_predicate_reason ::
  "(string \<Rightarrow> pstatement list option) \<Rightarrow> (string \<Rightarrow> string) \<Rightarrow> string \<Rightarrow> string
    \<Rightarrow> (string \<Rightarrow> 's \<Rightarrow> volatility \<times> 's) \<Rightarrow> 's \<Rightarrow> not_self_determined option \<times> 's" where
  "self_determined_predicate_reason parse lower sql pk_col volatility_of s =
     (case parse sql of
        Some [stmt] \<Rightarrow>
          (case join_correlation_reason stmt of
             Some reason \<Rightarrow> (Some reason, s)
           | None \<Rightarrow>
               (case predicate_of stmt of
                  Some (Some predicate) \<Rightarrow>
                    (case classify_self_determined_expr lower (bare_name (lower pk_col)) predicate of
                       Some reason \<Rightarrow> (Some reason, s)
                     | None \<Rightarrow>
                         (case predicate_volatile_reason parse lower sql volatility_of s of
                            (Some reason, s') \<Rightarrow> (Some (NonImmutable reason), s')
                          | (None, s') \<Rightarrow> (None, s')))
                | _ \<Rightarrow> (Some Unclassifiable, s)))
      | _ \<Rightarrow> (Some Unclassifiable, s))"

section \<open>What a predicate means\<close>

text \<open>
  The column an identifier names: an unquoted one is folded, a quoted one is taken as written.
\<close>

definition column_of :: "(string \<Rightarrow> string) \<Rightarrow> sql_ident \<Rightarrow> string" where
  "column_of lower i = (if id_quoted i then id_value i else lower (id_value i))"

definition leaf :: pexpr where
  "leaf = EValue []"

text \<open>A node without what is below it.\<close>

fun skeleton :: "pexpr \<Rightarrow> pexpr" where
  "skeleton (ECompoundFieldAccess root chain) = ECompoundFieldAccess leaf (map (\<lambda>_. leaf) chain)"
| "skeleton (EBinaryOp op l r) = EBinaryOp op leaf leaf"
| "skeleton (EWrap k e) = EWrap k leaf"
| "skeleton (EBetween b e low high) = EBetween b leaf leaf leaf"
| "skeleton (EInList b e xs) = EInList b leaf (map (\<lambda>_. leaf) xs)"
| "skeleton (ELike k b e pattern) = ELike k b leaf leaf"
| "skeleton (EDistinctFrom b x y) = EDistinctFrom b leaf leaf"
| "skeleton (ECase operand whens els) =
     ECase (map_option (\<lambda>_. leaf) operand) (map (\<lambda>_. (leaf, leaf)) whens) (map_option (\<lambda>_. leaf) els)"
| "skeleton (EInterval e) = EInterval leaf"
| "skeleton e = e"

text \<open>
  An interpretation gives a literal its value, and every other construct one from the values below
  it and the state of the database: the settings and the clock of the session are part of that
  state, since casts and typed strings may read them (\<^verbatim>\<open>'today'::date\<close>, \<^verbatim>\<open>'t'::regclass\<close>) and
  operators may be user-defined.
\<close>

record ('d, 'v) interp =
  in_value :: "string \<Rightarrow> 'v"
  in_op :: "pexpr \<Rightarrow> 'd \<Rightarrow> 'v list \<Rightarrow> 'v"
  in_fun :: "string \<Rightarrow> 'd \<Rightarrow> 'v list \<Rightarrow> 'v"
  in_other :: "string \<Rightarrow> 'd \<Rightarrow> 'v list \<Rightarrow> 'v"
  in_query :: "pexpr \<Rightarrow> 'd \<Rightarrow> (string \<Rightarrow> 'v) \<Rightarrow> 'v"

function peval :: "('d, 'v) interp \<Rightarrow> (string \<Rightarrow> string) \<Rightarrow> 'd \<Rightarrow> (string \<Rightarrow> 'v) \<Rightarrow> pexpr \<Rightarrow> 'v" where
  "peval I lower d row e =
     (let vs = map (peval I lower d row) (pchildren e) in
      case e of
        EIdentifier i \<Rightarrow> row (column_of lower i)
      | ECompoundIdentifier parts \<Rightarrow> if parts = [] then in_op I e d [] else row (column_of lower (last parts))
      | EQuery _ _ \<Rightarrow> in_query I e d row
      | EFunction name _ \<Rightarrow> in_fun I (object_name_lower lower name) d vs
      | EOther l _ \<Rightarrow> in_other I l d vs
      | EValue v \<Rightarrow> in_value I v
      | _ \<Rightarrow> in_op I (skeleton e) d vs)"
  by auto
termination by (relation "measure (\<lambda>(_, _, _, _, e). size e)") (auto simp: pchildren_size)

declare peval.simps [simp del]


text \<open>
  A construct that gives the same result in two states of the database. Columns, literals and
  queries are not asked: the gate answers for them.
\<close>

definition node_alike :: "('d, 'v) interp \<Rightarrow> (string \<Rightarrow> string) \<Rightarrow> 'd \<Rightarrow> 'd \<Rightarrow> pexpr \<Rightarrow> bool" where
  "node_alike I lower d d' n =
     (case n of
        EIdentifier _ \<Rightarrow> True
      | ECompoundIdentifier parts \<Rightarrow> parts = [] \<longrightarrow> in_op I n d = in_op I n d'
      | EQuery _ _ \<Rightarrow> True
      | EValue _ \<Rightarrow> True
      | EFunction name _ \<Rightarrow> in_fun I (object_name_lower lower name) d = in_fun I (object_name_lower lower name) d'
      | EOther l _ \<Rightarrow> in_other I l d = in_other I l d'
      | _ \<Rightarrow> in_op I (skeleton n) d = in_op I (skeleton n) d')"

definition reads_alike :: "('d, 'v) interp \<Rightarrow> (string \<Rightarrow> string) \<Rightarrow> 'd \<Rightarrow> 'd \<Rightarrow> pexpr \<Rightarrow> bool" where
  "reads_alike I lower d d' e = (\<forall>n \<in> set (pnodes e). node_alike I lower d d' n)"


lemma node_alike_refl [simp]: "node_alike I lower d d n"
  by (simp add: node_alike_def split: pexpr.splits)

lemma reads_alike_refl [simp]: "reads_alike I lower d d e"
  by (simp add: reads_alike_def)




lemma or_else_None [simp]: "or_else a b = None \<longleftrightarrow> a = None \<and> b = None"
  by (simp add: or_else_def split: option.splits)











section \<open>Self-determined predicates are pinned by the key\<close>







section \<open>What the gates let pass\<close>

definition pk_ident :: pexpr where
  "pk_ident = EIdentifier \<lparr>id_value = ''id'', id_quoted = False\<rparr>"

definition picked :: pexpr where
  "picked = EBinaryOp ''='' pk_ident (EFunction [''pick''] [])"

definition sample_parse :: "pexpr \<Rightarrow> string \<Rightarrow> pstatement list option" where
  "sample_parse e sql = Some [PDelete False [0] (Some e)]"

text \<open>
  The state is a number, the day: \<^verbatim>\<open>pick()\<close> and a cast to a date return it, and equality yields one
  or zero.
\<close>

definition counting :: "(nat, nat) interp" where
  "counting = \<lparr>in_value = (\<lambda>_. 0),
     in_op = (\<lambda>e d vs. case vs of [a, b] \<Rightarrow> if a = b then 1 else 0 | [a] \<Rightarrow> (if e = EWrap (CastW ''date'') leaf then d else a) | _ \<Rightarrow> 0),
     in_fun = (\<lambda>_ d _. d), in_other = (\<lambda>_ _ _. 0), in_query = (\<lambda>_ _ _. 0)\<rparr>"

text \<open>
  The gates do not pin predicates that call stable functions: a predicate that compares the
  key with the result of a function the catalog reports as stable passes, although such a function
  may read the database, and then the same row matches in one state and not in another.
\<close>

lemma stable_function_steers_predicate:
  "self_determined_predicate_reason (sample_parse picked) id ''DELETE FROM t WHERE id = pick()'' ''id''
     (\<lambda>_ s. (Stable, s)) () = (None, ())
   \<and> peval counting id 1 (\<lambda>_. 1) picked = 1 \<and> peval counting id 2 (\<lambda>_. 1) picked = 0"
proof -
  have nodes: "pnodes picked = [picked, pk_ident, EFunction [''pick''] []]"
    by (simp add: picked_def pk_ident_def pnodes.simps)
  have names: "function_names_in id picked = [''pick'']"
    by (simp add: function_names_in_def nodes) (simp add: picked_def pk_ident_def map_filter_def object_name_lower_def)
  have gate: "classify_self_determined_expr id ''id'' picked = None"
    by (simp add: picked_def pk_ident_def non_pk_column_def sweep_def pnodes.simps)
  have bare: "bare_name ''id'' = ''id''" "bare_name ''pick'' = ''pick''" by (simp_all add: bare_name_def)
  have "self_determined_predicate_reason (sample_parse picked) id ''DELETE FROM t WHERE id = pick()'' ''id''
     (\<lambda>_ s. (Stable, s)) () = (None, ())"
    by (simp add: self_determined_predicate_reason_def sample_parse_def join_correlation_reason_def predicate_of_def bare gate
        predicate_volatile_reason_def names NONDETERMINISTIC_KEYWORDS_def KNOWN_DETERMINISTIC_SPECIAL_FORMS_def)
  then show ?thesis
    by (simp add: picked_def pk_ident_def peval.simps column_of_def counting_def)
qed

definition dated :: pexpr where
  "dated = EBinaryOp ''='' pk_ident (EWrap (CastW ''int4'') (EWrap (CastW ''date'') (EValue ''today'')))"

text \<open>
  Nor does it pin predicates with a cast that reads the clock: no function is called, so nothing is
  resolved, and a cast is examined only for what is below it.
\<close>

lemma clock_cast_steers_predicate:
  "self_determined_predicate_reason (sample_parse dated) id sql ''id'' volatility_of s = (None, s)
   \<and> peval counting id 1 (\<lambda>_. 1) dated = 1 \<and> peval counting id 2 (\<lambda>_. 1) dated = 0"
proof -
  have names: "function_names_in id dated = []"
    by (simp add: function_names_in_def dated_def pk_ident_def pnodes.simps map_filter_def)
  have gate: "classify_self_determined_expr id ''id'' dated = None"
    by (simp add: dated_def pk_ident_def non_pk_column_def)
  have "predicate_volatile_reason (sample_parse dated) id sql volatility_of s = (None, s)"
    by (simp add: predicate_volatile_reason_def sample_parse_def predicate_of_def names)
  then have "self_determined_predicate_reason (sample_parse dated) id sql ''id'' volatility_of s = (None, s)"
    by (simp add: self_determined_predicate_reason_def sample_parse_def join_correlation_reason_def predicate_of_def
        bare_name_def gate)
  then show ?thesis
    by (simp add: dated_def pk_ident_def peval.simps column_of_def counting_def leaf_def)
qed





end
