(* ===== verification/Policy_Risk.thy ===== *)
theory Policy_Risk
  imports Tighten_Order
begin

text \<open>
  The verdict ladder and the risk-engine seam (\<^verbatim>\<open>crates/policy/src/verdict.rs\<close>,
  \<^verbatim>\<open>crates/policy/src/risk.rs\<close>). A confidence is the bit pattern of its \<^verbatim>\<open>f64\<close>: it is carried and
  never computed with. The captured intent is carried too, so it is a type parameter of the input.
\<close>

section \<open>Verdicts\<close>

datatype verdict = Allow | Escalate | Hold | Block

primrec verdict_rank :: "verdict \<Rightarrow> nat" where
  "verdict_rank Allow = 0"
| "verdict_rank Escalate = 1"
| "verdict_rank Hold = 2"
| "verdict_rank Block = 3"

lemma verdict_rank_inj [simp]: "verdict_rank a = verdict_rank b \<longleftrightarrow> a = b"
  by (cases a; cases b) auto

instantiation verdict :: linorder
begin

definition less_eq_verdict :: "verdict \<Rightarrow> verdict \<Rightarrow> bool" where
  "less_eq_verdict a b = (verdict_rank a \<le> verdict_rank b)"

definition less_verdict :: "verdict \<Rightarrow> verdict \<Rightarrow> bool" where
  "less_verdict a b = (verdict_rank a < verdict_rank b)"

instance
  by standard (auto simp: less_eq_verdict_def less_verdict_def)

end

definition FLOOR_DEFAULT :: verdict where
  "FLOOR_DEFAULT = Allow"

definition tighter :: "verdict \<Rightarrow> verdict \<Rightarrow> verdict" where
  "tighter a b = max a b"

definition is_at_least_as_tight_as :: "verdict \<Rightarrow> verdict \<Rightarrow> bool" where
  "is_at_least_as_tight_as a floor = (floor \<le> a)"

interpretation verdict: tighten_order tighter is_at_least_as_tight_as
  by unfold_locales (auto simp: tighter_def is_at_least_as_tight_as_def)

section \<open>Risk engines\<close>

record measured_stats =
  ms_rows_affected :: "u64 option"
  ms_bytes :: "u64 option"
  ms_estimated_cost :: "u64 option"
  ms_wal_bytes :: "u64 option"

record 'i risk_input =
  ri_sql :: string
  ri_schema :: string
  ri_measured_stats :: measured_stats
  ri_intent_tiers :: 'i

datatype risk_reason = EngineReason string | ClampedToFloor verdict verdict

record risk_verdict =
  rv_verdict :: verdict
  rv_reason :: risk_reason
  rv_confidence :: u64

text \<open>\<^verbatim>\<open>1.0\<close> has the bit pattern \<^verbatim>\<open>0x3FF0000000000000\<close>.\<close>

definition risk_allow :: "string \<Rightarrow> risk_verdict" where
  "risk_allow reason = \<lparr>rv_verdict = Allow, rv_reason = EngineReason reason, rv_confidence = 0x3FF0000000000000\<rparr>"

definition clamp_to_floor :: "risk_verdict \<Rightarrow> verdict \<Rightarrow> risk_verdict" where
  "clamp_to_floor rv floor =
     (if floor \<le> rv_verdict rv then rv
      else \<lparr>rv_verdict = floor, rv_reason = ClampedToFloor (rv_verdict rv) floor,
            rv_confidence = rv_confidence rv\<rparr>)"

definition allow_stub_assess :: "'i risk_input \<Rightarrow> risk_verdict" where
  "allow_stub_assess _ =
     risk_allow (''MVP stub: risk engine returns Allow; the deterministic floor enforces safety (SPEC ''
       @ [CHR 0xC2, CHR 0xA7] @ ''11.5)'')"

definition allow_stub_evaluate :: verdict where
  "allow_stub_evaluate = Allow"

section \<open>Correctness\<close>

lemma clamp_verdict: "rv_verdict (clamp_to_floor rv floor) = tighter (rv_verdict rv) floor"
  by (auto simp: clamp_to_floor_def tighter_def max_def)

text \<open>
  Whatever a risk engine returns for whatever input, clamping its verdicts to the floor one
  after another gives the loosest verdict that is at least as tight as the floor and as every
  engine; an engine that was already as tight as the floor is passed through unchanged, with its
  reason.
\<close>

lemma clamped_engines_only_tighten:
  fixes engines :: "('i risk_input \<Rightarrow> risk_verdict) list"
  shows "foldl (\<lambda>v e. rv_verdict (clamp_to_floor (e inp) v)) floor engines
      = Max (insert floor ((\<lambda>e. rv_verdict (e inp)) ` set engines))
    \<and> (\<forall>e. clamp_to_floor (e inp) floor = e inp \<longleftrightarrow> is_at_least_as_tight_as (rv_verdict (e inp)) floor)"
proof (intro conjI allI)
  have step: "foldl (\<lambda>v e. rv_verdict (clamp_to_floor (e inp) v)) l engines
      = foldl tighter l (map (\<lambda>e. rv_verdict (e inp)) engines)" for l
    by (induction engines arbitrary: l) (simp_all add: clamp_verdict verdict.tighten_commute)
  have "foldl tighter l vs = Max (insert l (set vs))" for l vs
  proof (induction vs arbitrary: l)
    case Nil
    then show ?case by simp
  next
    case (Cons v vs)
    have "Max (insert (max l v) (set vs)) = Max (insert l (insert v (set vs)))"
      by (cases "set vs = {}") (simp_all add: max.assoc)
    with Cons show ?case by (simp add: tighter_def)
  qed
  then show "foldl (\<lambda>v e. rv_verdict (clamp_to_floor (e inp) v)) floor engines
      = Max (insert floor ((\<lambda>e. rv_verdict (e inp)) ` set engines))"
    unfolding step by simp
next
  fix e :: "'i risk_input \<Rightarrow> risk_verdict"
  have "clamp_to_floor (e inp) floor = e inp \<Longrightarrow> tighter (rv_verdict (e inp)) floor = rv_verdict (e inp)"
    by (metis clamp_verdict)
  then show "clamp_to_floor (e inp) floor = e inp \<longleftrightarrow> is_at_least_as_tight_as (rv_verdict (e inp)) floor"
    by (auto simp: is_at_least_as_tight_as_def clamp_to_floor_def tighter_def max_def split: if_splits)
qed

end
