(* ===== verification/Audit_Chain.thy ===== *)
theory Audit_Chain
  imports Base_Prelude
begin

text \<open>
  The tamper-evident audit log (\<^verbatim>\<open>crates/audit/src/record.rs\<close>, \<^verbatim>\<open>chain.rs\<close>, \<^verbatim>\<open>sink.rs\<close>): sealed
  records, the chain that links them, its verification, and the sinks that hold it. The JSON
  serializer (\<open>canonical\<close>), SHA-256 and the hex encoder are parameters; the captured intent is
  carried unread, so it is a type parameter.
\<close>

section \<open>Records\<close>

definition GENESIS_PREV_HASH :: string where
  "GENESIS_PREV_HASH = replicate 64 CHR ''0''"

datatype decision = DecisionAllow | DecisionBlock | DecisionReject

definition is_rejecting :: "decision \<Rightarrow> bool" where
  "is_rejecting d = (d \<noteq> DecisionAllow)"

record audit_principal =
  ap_role :: string
  ap_session_id :: "string option"
  ap_principal :: "string option"

record write_safety_refs =
  ws_dry_run_id :: "string option"
  ws_blast_radius_ref :: "string option"

definition write_safety_is_empty :: "write_safety_refs \<Rightarrow> bool" where
  "write_safety_is_empty w = (ws_dry_run_id w = None \<and> ws_blast_radius_ref w = None)"

record 'i audit_payload =
  au_seq :: u64
  au_statement_text :: string
  au_decision :: decision
  au_reason_code :: string
  au_reason :: "string option"
  au_principal :: audit_principal
  au_intent :: 'i
  au_write_safety :: write_safety_refs
  au_timestamp_unix_millis :: u64
  au_prev_hash :: string

text \<open>The three third-party functions the hash of a record is made of.\<close>

record 'i hasher =
  hs_canonical :: "'i audit_payload \<Rightarrow> bytes"
  hs_sha256 :: "bytes \<Rightarrow> bytes"
  hs_hex_encode :: "bytes \<Rightarrow> string"

definition hash_input :: "'i hasher \<Rightarrow> 'i audit_payload \<Rightarrow> bytes" where
  "hash_input h p = as_bytes (au_prev_hash p) @ hs_canonical h p"

definition compute_hash :: "'i hasher \<Rightarrow> 'i audit_payload \<Rightarrow> string" where
  "compute_hash h p = hs_hex_encode h (hs_sha256 h (hash_input h p))"

record 'i audit_record =
  ar_payload :: "'i audit_payload"
  ar_record_hash :: string

definition seal :: "'i hasher \<Rightarrow> 'i audit_payload \<Rightarrow> 'i audit_record" where
  "seal h p = \<lparr>ar_payload = p, ar_record_hash = compute_hash h p\<rparr>"

definition hash_is_intact :: "'i hasher \<Rightarrow> 'i audit_record \<Rightarrow> bool" where
  "hash_is_intact h r = (compute_hash h (ar_payload r) = ar_record_hash r)"

section \<open>Verification\<close>

datatype chain_break =
    BadGenesis nat string
  | HashMismatch nat u64 string string
  | BrokenLink nat u64 string string
  | SeqGap nat u64 u64

fun verify_from ::
  "'i hasher \<Rightarrow> 'i audit_record option \<Rightarrow> nat \<Rightarrow> 'i audit_record list \<Rightarrow> chain_break + unit" where
  "verify_from h prev index [] = Inr ()"
| "verify_from h prev index (rec # rest) =
     (let p = ar_payload rec; recomputed = compute_hash h p in
      if recomputed \<noteq> ar_record_hash rec
      then Inl (HashMismatch index (au_seq p) (ar_record_hash rec) recomputed)
      else rbind
        (case prev of
           None \<Rightarrow>
             if au_prev_hash p \<noteq> GENESIS_PREV_HASH then Inl (BadGenesis index (au_prev_hash p)) else Inr ()
         | Some previous \<Rightarrow>
             let expected_seq = au_seq (ar_payload previous) + 1 in
             if au_seq p \<noteq> expected_seq then Inl (SeqGap index expected_seq (au_seq p))
             else if au_prev_hash p \<noteq> ar_record_hash previous
             then Inl (BrokenLink index (au_seq p) (au_prev_hash p) (ar_record_hash previous))
             else Inr ())
        (\<lambda>_. verify_from h (Some rec) (index + 1) rest))"

definition verify_chain :: "'i hasher \<Rightarrow> 'i audit_record list \<Rightarrow> chain_break + unit" where
  "verify_chain h records = verify_from h None 0 records"

section \<open>The chain\<close>

record 'i audit_chain = ac_records :: "'i audit_record list"

record 'i new_entry =
  ne_statement_text :: string
  ne_decision :: decision
  ne_reason_code :: string
  ne_reason :: "string option"
  ne_principal :: audit_principal
  ne_intent :: 'i
  ne_write_safety :: write_safety_refs

definition chain_new :: "'i audit_chain" where
  "chain_new = \<lparr>ac_records = []\<rparr>"

definition head_hash :: "'i audit_chain \<Rightarrow> string" where
  "head_hash c = (if ac_records c = [] then GENESIS_PREV_HASH else ar_record_hash (last (ac_records c)))"

definition next_seq :: "'i audit_chain \<Rightarrow> u64" where
  "next_seq c = word_of_nat (length (ac_records c))"

definition chain_append :: "'i hasher \<Rightarrow> 'i new_entry \<Rightarrow> u64 \<Rightarrow> 'i audit_chain \<Rightarrow> 'i audit_record \<times> 'i audit_chain" where
  "chain_append h e timestamp_ms c =
     (let payload = \<lparr>au_seq = next_seq c, au_statement_text = ne_statement_text e, au_decision = ne_decision e,
            au_reason_code = ne_reason_code e, au_reason = ne_reason e, au_principal = ne_principal e,
            au_intent = ne_intent e, au_write_safety = ne_write_safety e,
            au_timestamp_unix_millis = timestamp_ms, au_prev_hash = head_hash c\<rparr>;
          rec = seal h payload
      in (rec, c\<lparr>ac_records := ac_records c @ [rec]\<rparr>))"

definition chain_verify :: "'i hasher \<Rightarrow> 'i audit_chain \<Rightarrow> chain_break + unit" where
  "chain_verify h c = verify_chain h (ac_records c)"

section \<open>Sinks\<close>

datatype sink_error = SinkBackend string | SinkIntegrity chain_break

record 'i in_memory_sink = ims_chain :: "'i audit_chain"

definition in_memory_sink_new :: "'i in_memory_sink" where
  "in_memory_sink_new = \<lparr>ims_chain = chain_new\<rparr>"

definition in_memory_append ::
  "'i hasher \<Rightarrow> 'i new_entry \<Rightarrow> u64 \<Rightarrow> ('i in_memory_sink, sink_error, 'i audit_record) eff" where
  "in_memory_append h e ts s =
     (case chain_append h e ts (ims_chain s) of (rec, c) \<Rightarrow> (Inr rec, s\<lparr>ims_chain := c\<rparr>))"

definition in_memory_load_chain :: "'i in_memory_sink \<Rightarrow> sink_error + 'i audit_record list" where
  "in_memory_load_chain s = Inr (ac_records (ims_chain s))"

text \<open>A sink's \<^verbatim>\<open>verify\<close> is the default method of the trait.\<close>

definition sink_verify ::
  "'i hasher \<Rightarrow> ('s \<Rightarrow> sink_error + 'i audit_record list) \<Rightarrow> 's \<Rightarrow> sink_error + unit" where
  "sink_verify h load s =
     rbind (load s) (\<lambda>records. case verify_chain h records of Inl b \<Rightarrow> Inl (SinkIntegrity b) | Inr _ \<Rightarrow> Inr ())"

text \<open>The shared sink: a mutex around another sink; a poisoned mutex is an error on every call.\<close>

record 's shared_sink =
  ss_inner :: 's
  ss_poisoned :: bool

definition shared_append ::
  "('e \<Rightarrow> u64 \<Rightarrow> ('s, sink_error, 'r) eff) \<Rightarrow> 'e \<Rightarrow> u64 \<Rightarrow> ('s shared_sink, sink_error, 'r) eff" where
  "shared_append app e ts s =
     (if ss_poisoned s then (Inl (SinkBackend ''shared audit sink mutex poisoned''), s)
      else case app e ts (ss_inner s) of (r, inner) \<Rightarrow> (r, s\<lparr>ss_inner := inner\<rparr>))"

definition shared_load_chain ::
  "('s \<Rightarrow> sink_error + 'a) \<Rightarrow> 's shared_sink \<Rightarrow> sink_error + 'a" where
  "shared_load_chain load s =
     (if ss_poisoned s then Inl (SinkBackend ''shared audit sink mutex poisoned'') else load (ss_inner s))"

section \<open>Correctness\<close>

fun linked_to :: "'i audit_record option \<Rightarrow> 'i audit_record \<Rightarrow> bool" where
  "linked_to None r = (au_prev_hash (ar_payload r) = GENESIS_PREV_HASH)"
| "linked_to (Some p) r =
     (au_seq (ar_payload r) = au_seq (ar_payload p) + 1 \<and> au_prev_hash (ar_payload r) = ar_record_hash p)"

fun linked :: "'i hasher \<Rightarrow> 'i audit_record option \<Rightarrow> 'i audit_record list \<Rightarrow> bool" where
  "linked h prev [] = True"
| "linked h prev (r # rs) = (hash_is_intact h r \<and> linked_to prev r \<and> linked h (Some r) rs)"

lemma verify_from_ok_iff: "verify_from h prev i rs = Inr () \<longleftrightarrow> linked h prev rs"
  by (induction h prev i rs rule: verify_from.induct)
    (auto simp: hash_is_intact_def rbind_Inr_iff split: option.splits)

definition last_record :: "'i audit_record option \<Rightarrow> 'i audit_record list \<Rightarrow> 'i audit_record option" where
  "last_record prev rs = (if rs = [] then prev else Some (last rs))"

lemma linked_snoc: "linked h prev (rs @ [r]) \<longleftrightarrow> linked h prev rs \<and> hash_is_intact h r \<and> linked_to (last_record prev rs) r"
  by (induction rs arbitrary: prev) (auto simp: last_record_def)

lemma verify_chain_snoc:
  "verify_chain h (rs @ [r]) = Inr () \<longleftrightarrow>
     verify_chain h rs = Inr () \<and> hash_is_intact h r \<and> linked_to (last_record None rs) r"
  by (simp add: verify_chain_def verify_from_ok_iff linked_snoc)

text \<open>
  What tamper evidence rests on, for the payloads at hand: SHA-256 in hex does not collide on their
  hash inputs, serialization is injective on them, and a digest is 64 characters and not all zeros.
\<close>

definition hasher_sound :: "'i hasher \<Rightarrow> 'i audit_payload set \<Rightarrow> bool" where
  "hasher_sound h ps =
     (inj_on (\<lambda>b. hs_hex_encode h (hs_sha256 h b)) (hash_input h ` ps) \<and> inj_on (hs_canonical h) ps
      \<and> (\<forall>p \<in> ps. length (compute_hash h p) = 64 \<and> compute_hash h p \<noteq> GENESIS_PREV_HASH))"

lemma hasher_sound_mono: "hasher_sound h ps \<Longrightarrow> qs \<subseteq> ps \<Longrightarrow> hasher_sound h qs"
  unfolding hasher_sound_def by (meson image_mono inj_on_subset subsetD)

lemma linked_prev_length:
  assumes "hasher_sound h ps" and "linked_to prev r"
    and "\<forall>p. prev = Some p \<longrightarrow> hash_is_intact h p \<and> ar_payload p \<in> ps"
  shows "length (au_prev_hash (ar_payload r)) = 64"
  using assms by (cases prev) (auto simp: GENESIS_PREV_HASH_def hasher_sound_def hash_is_intact_def)

lemma same_hash_same_record:
  assumes sound: "hasher_sound h ps" and "ar_payload a \<in> ps" "ar_payload b \<in> ps"
    and "hash_is_intact h a" "hash_is_intact h b" and "ar_record_hash a = ar_record_hash b"
    and "length (au_prev_hash (ar_payload a)) = 64" "length (au_prev_hash (ar_payload b)) = 64"
  shows "a = b"
proof -
  have "hs_hex_encode h (hs_sha256 h (hash_input h (ar_payload a))) = hs_hex_encode h (hs_sha256 h (hash_input h (ar_payload b)))"
    using assms(4-6) by (simp add: hash_is_intact_def compute_hash_def)
  then have "hash_input h (ar_payload a) = hash_input h (ar_payload b)"
    using sound assms(2,3) unfolding hasher_sound_def by (blast dest: inj_onD)
  then have "hs_canonical h (ar_payload a) = hs_canonical h (ar_payload b)"
    using assms(7,8) by (simp add: hash_input_def append_same_prefix_length)
  then have "ar_payload a = ar_payload b"
    using sound assms(2,3) unfolding hasher_sound_def by (blast dest: inj_onD)
  with assms(6) show ?thesis by simp
qed

lemma linked_intact: "linked h prev rs \<Longrightarrow> r \<in> set rs \<Longrightarrow> hash_is_intact h r"
  by (induction rs arbitrary: prev) auto

lemma chain_fixed_by_head:
  assumes "verify_chain h xs = Inr ()" and "verify_chain h ys = Inr ()"
    and "hasher_sound h (ar_payload ` (set xs \<union> set ys))"
    and "xs \<noteq> []" and "ys \<noteq> []" and "ar_record_hash (last xs) = ar_record_hash (last ys)"
  shows "xs = ys"
  using assms
proof (induction xs arbitrary: ys rule: rev_induct)
  case Nil
  then show ?case by simp
next
  case (snoc a xs)
  from snoc.prems(5) obtain ys' b where ys: "ys = ys' @ [b]" by (cases ys rule: rev_cases) auto
  let ?ps = "ar_payload ` (set (xs @ [a]) \<union> set ys)"
  note sound = snoc.prems(3)
  have xs: "verify_chain h xs = Inr ()" "hash_is_intact h a" "linked_to (last_record None xs) a"
    and ys': "verify_chain h ys' = Inr ()" "hash_is_intact h b" "linked_to (last_record None ys') b"
    using snoc.prems(1,2) by (simp_all add: ys verify_chain_snoc)
  have last_xs: "\<forall>p. last_record None xs = Some p \<longrightarrow> hash_is_intact h p \<and> ar_payload p \<in> ?ps"
    using xs(1) linked_intact [of h None xs]
    by (auto simp: last_record_def verify_chain_def verify_from_ok_iff)
  have last_ys: "\<forall>p. last_record None ys' = Some p \<longrightarrow> hash_is_intact h p \<and> ar_payload p \<in> ?ps"
    using ys'(1) linked_intact [of h None ys']
    by (auto simp: ys last_record_def verify_chain_def verify_from_ok_iff)
  have ab: "a = b"
    using same_hash_same_record [OF sound _ _ xs(2) ys'(2) _ linked_prev_length [OF sound xs(3) last_xs]
        linked_prev_length [OF sound ys'(3) last_ys]] snoc.prems(6) by (simp add: ys)
  have genesis_iff: "au_prev_hash (ar_payload r) = GENESIS_PREV_HASH \<longleftrightarrow> rs = []"
    if lk: "linked_to (last_record None rs) r"
      and ok: "\<forall>p. last_record None rs = Some p \<longrightarrow> hash_is_intact h p \<and> ar_payload p \<in> ?ps" for rs r
  proof (cases "rs = []")
    case True
    with lk show ?thesis by (simp add: last_record_def)
  next
    case False
    then have "ar_record_hash (last rs) \<noteq> GENESIS_PREV_HASH"
      using sound ok by (auto simp: hasher_sound_def hash_is_intact_def last_record_def)
    with False lk show ?thesis by (simp add: last_record_def)
  qed
  have empty_iff: "xs = [] \<longleftrightarrow> ys' = []"
    using genesis_iff [OF xs(3) last_xs] genesis_iff [OF ys'(3) last_ys] by (simp add: ab)
  show ?case
  proof (cases "xs = []")
    case True
    with empty_iff show ?thesis by (simp add: ys ab)
  next
    case False
    moreover have "hasher_sound h (ar_payload ` (set xs \<union> set ys'))"
      using sound by (rule hasher_sound_mono) (auto simp: ys)
    ultimately have "xs = ys'"
      using snoc.IH [OF xs(1) ys'(1)] empty_iff xs(3) ys'(3) ab by (simp add: last_record_def)
    then show ?thesis by (simp add: ys ab)
  qed
qed

text \<open>
  C23: tampering is evident: any other non-empty sequence of records than the verified one, whether
  edited, shortened, extended, reordered or rebuilt, fails the verification or ends in a different
  head hash.
\<close>

theorem tampering_breaks_chain_or_moves_head:
  assumes "verify_chain h xs = Inr ()" and "xs \<noteq> []" and "ys \<noteq> []" and "ys \<noteq> xs"
    and "hasher_sound h (ar_payload ` (set xs \<union> set ys))"
  shows "(\<exists>b. verify_chain h ys = Inl b) \<or> ar_record_hash (last ys) \<noteq> ar_record_hash (last xs)"
  using chain_fixed_by_head [OF assms(1) _ assms(5,2,3)] assms(4)
  by (cases "verify_chain h ys") auto

definition sample_hasher :: "unit hasher" where
  "sample_hasher = \<lparr>hs_canonical = (\<lambda>p. u64_be (au_timestamp_unix_millis p)), hs_sha256 = drop 64,
     hs_hex_encode = (\<lambda>b. str_of_bytes b @ replicate 56 CHR ''1'')\<rparr>"

definition sample_entry :: "unit new_entry" where
  "sample_entry = \<lparr>ne_statement_text = ''SELECT 1'', ne_decision = DecisionAllow, ne_reason_code = ''ok'',
     ne_reason = None, ne_principal = \<lparr>ap_role = ''app'', ap_session_id = None, ap_principal = None\<rparr>,
     ne_intent = (), ne_write_safety = \<lparr>ws_dry_run_id = None, ws_blast_radius_ref = None\<rparr>\<rparr>"

definition sample_log :: "u64 \<Rightarrow> unit audit_record list" where
  "sample_log ts = ac_records (snd (chain_append sample_hasher sample_entry ts chain_new))"

lemma sample_sound: "hasher_sound sample_hasher (ar_payload ` (set (sample_log 1) \<union> set (sample_log 2)))"
proof -
  define sp where "sp ts = ar_payload (hd (sample_log ts))" for ts
  have ps: "ar_payload ` (set (sample_log 1) \<union> set (sample_log 2)) = {sp 1, sp 2}"
    by (simp add: sp_def sample_log_def chain_append_def chain_new_def insert_commute)
  have ts: "au_timestamp_unix_millis (sp t) = t" and prev: "au_prev_hash (sp t) = GENESIS_PREV_HASH" for t
    by (simp_all add: sp_def sample_log_def chain_append_def chain_new_def seal_def head_hash_def)
  have input: "hash_input sample_hasher (sp t) = as_bytes GENESIS_PREV_HASH @ u64_be t" for t
    by (simp add: hash_input_def prev sample_hasher_def ts)
  have "length (as_bytes GENESIS_PREV_HASH) = 64" by (simp add: GENESIS_PREV_HASH_def)
  then have hash: "compute_hash sample_hasher (sp t) = str_of_bytes (u64_be t) @ replicate 56 CHR ''1''" for t
    by (simp add: compute_hash_def input) (simp add: sample_hasher_def)
  have "last (compute_hash sample_hasher (sp t)) \<noteq> last GENESIS_PREV_HASH" for t
    by (simp add: hash GENESIS_PREV_HASH_def)
  then have genesis: "compute_hash sample_hasher (sp t) \<noteq> GENESIS_PREV_HASH" for t by metis
  have len: "length (compute_hash sample_hasher (sp t)) = 64" for t
    by (simp add: hash str_of_bytes_def)
  have "compute_hash sample_hasher (sp 1) \<noteq> compute_hash sample_hasher (sp 2)"
    by (simp add: hash)
  then have "inj_on (\<lambda>b. hs_hex_encode sample_hasher (hs_sha256 sample_hasher b)) (hash_input sample_hasher ` {sp 1, sp 2})"
    by (auto simp: inj_on_def compute_hash_def)
  moreover have "inj_on (hs_canonical sample_hasher) {sp 1, sp 2}"
    by (simp add: inj_on_def sample_hasher_def ts)
  ultimately show ?thesis by (simp add: hasher_sound_def ps len genesis)
qed

theorem tampering_breaks_chain_or_moves_head_witness:
  "verify_chain sample_hasher (sample_log 2) = Inr ()
    \<and> ar_record_hash (last (sample_log 2)) \<noteq> ar_record_hash (last (sample_log 1))"
proof -
  have ok: "verify_chain sample_hasher (sample_log t) = Inr ()" for t
    by (simp add: sample_log_def chain_append_def chain_new_def seal_def verify_chain_def head_hash_def)
  have ne: "sample_log 1 \<noteq> []" "sample_log 2 \<noteq> []" "sample_log 2 \<noteq> sample_log 1"
    by (simp_all add: sample_log_def chain_append_def chain_new_def seal_def)
  from tampering_breaks_chain_or_moves_head [OF ok ne] sample_sound ok [of 2] show ?thesis by simp
qed

text \<open>A chain the log itself grew: verified, and numbered from zero.\<close>

definition chain_wf :: "'i hasher \<Rightarrow> 'i audit_chain \<Rightarrow> bool" where
  "chain_wf h c =
     (chain_verify h c = Inr ()
      \<and> (\<forall>i < length (ac_records c). au_seq (ar_payload (ac_records c ! i)) = word_of_nat i))"

lemma chain_wf_new: "chain_wf h chain_new"
  by (simp add: chain_wf_def chain_new_def chain_verify_def verify_chain_def)

lemma chain_wf_append:
  assumes "chain_wf h c"
  shows "chain_wf h (snd (chain_append h e ts c))"
proof -
  let ?r = "fst (chain_append h e ts c)"
  have recs: "ac_records (snd (chain_append h e ts c)) = ac_records c @ [?r]"
    by (simp add: chain_append_def)
  have fields: "au_seq (ar_payload ?r) = word_of_nat (length (ac_records c))"
    "au_prev_hash (ar_payload ?r) = head_hash c" "hash_is_intact h ?r"
    by (simp_all add: chain_append_def seal_def hash_is_intact_def next_seq_def)
  have "linked_to (last_record None (ac_records c)) ?r"
  proof (cases "ac_records c = []")
    case True
    then show ?thesis by (simp add: last_record_def fields head_hash_def)
  next
    case False
    then obtain n where n: "length (ac_records c) = Suc n" by (cases "ac_records c") auto
    have "au_seq (ar_payload (last (ac_records c))) = word_of_nat n"
      using assms False n by (simp add: chain_wf_def last_conv_nth)
    with False n show ?thesis by (simp add: last_record_def fields head_hash_def)
  qed
  with assms fields show ?thesis
    by (simp add: chain_wf_def chain_verify_def recs verify_chain_snoc nth_append less_Suc_eq)
qed

lemma chain_append_records: "chain_append h e ts c = (r, c') \<Longrightarrow> ac_records c' = ac_records c @ [r]"
  by (auto simp: chain_append_def)

text \<open>A run of appends through a sink, each on the state the one before left.\<close>

fun append_all ::
  "('i new_entry \<Rightarrow> u64 \<Rightarrow> ('s, sink_error, 'i audit_record) eff) \<Rightarrow> ('i new_entry \<times> u64) list \<Rightarrow> 's \<Rightarrow> 's" where
  "append_all sink_append [] s = s"
| "append_all sink_append ((e, ts) # rest) s = append_all sink_append rest (snd (sink_append e ts s))"

text \<open>
  What a client of a sink relies on: an append that succeeds extends the stored chain as
  \<open>chain_append\<close> does and returns the sealed record; one that fails leaves the chain as it was.
\<close>

locale audit_sink =
  fixes h :: "'i hasher"
    and sink_append :: "'i new_entry \<Rightarrow> u64 \<Rightarrow> ('s, sink_error, 'i audit_record) eff"
    and stored :: "'s \<Rightarrow> 'i audit_chain"
  assumes append_ok: "sink_append e ts s = (Inr r, s') \<Longrightarrow> chain_append h e ts (stored s) = (r, stored s')"
    and append_fails: "sink_append e ts s = (Inl x, s') \<Longrightarrow> stored s' = stored s"
begin

lemma append_keeps_wf: "chain_wf h (stored s) \<Longrightarrow> chain_wf h (stored (snd (sink_append e ts s)))"
proof (cases "sink_append e ts s")
  case (Pair q s')
  assume wf: "chain_wf h (stored s)"
  show ?thesis
  proof (cases q)
    case (Inl x)
    with Pair append_fails wf show ?thesis by simp
  next
    case (Inr r)
    with Pair have "chain_append h e ts (stored s) = (r, stored s')" using append_ok by simp
    with chain_wf_append [OF wf, of e ts] Pair show ?thesis by simp
  qed
qed

lemma append_all_keeps_wf: "chain_wf h (stored s) \<Longrightarrow> chain_wf h (stored (append_all sink_append es s))"
  by (induction es arbitrary: s) (auto simp: append_keeps_wf)

lemma append_extends:
  "\<exists>rs. ac_records (stored (append_all sink_append es s)) = ac_records (stored s) @ rs"
proof (induction es arbitrary: s)
  case Nil
  then show ?case by simp
next
  case (Cons et rest)
  obtain e ts where et: "et = (e, ts)" by (cases et)
  obtain q s' where run: "sink_append e ts s = (q, s')" by (metis prod.collapse)
  have "\<exists>rs. ac_records (stored s') = ac_records (stored s) @ rs"
  proof (cases q)
    case (Inl x)
    with append_fails [of e ts s x s'] run show ?thesis by simp
  next
    case (Inr r)
    with append_ok [of e ts s r s'] run have "chain_append h e ts (stored s) = (r, stored s')" by simp
    then show ?thesis by (blast dest: chain_append_records)
  qed
  with Cons [of s'] run et show ?case by auto
qed

end

interpretation mem_sink: audit_sink h "in_memory_append h" ims_chain
  by unfold_locales (auto simp: in_memory_append_def split: prod.splits)

interpretation shared_sink: audit_sink h "shared_append (in_memory_append h)" "\<lambda>s. ims_chain (ss_inner s)"
  by unfold_locales (auto simp: shared_append_def in_memory_append_def split: prod.splits if_splits)

text \<open>
  An audit log grown through the shared sink, by any number of appends, whether or not its mutex
  is poisoned, always verifies, is numbered from zero without a gap, and never loses or changes a
  record it held.
\<close>

lemma shared_log_always_verifies:
  assumes "chain_wf h (ims_chain (ss_inner s))"
  shows "chain_wf h (ims_chain (ss_inner (append_all (shared_append (in_memory_append h)) es s)))
    \<and> (\<exists>rs. ac_records (ims_chain (ss_inner (append_all (shared_append (in_memory_append h)) es s)))
          = ac_records (ims_chain (ss_inner s)) @ rs)"
  using shared_sink.append_all_keeps_wf [OF assms] shared_sink.append_extends by blast

lemma shared_log_always_verifies_sample:
  "chain_wf sample_hasher (ims_chain (ss_inner (append_all (shared_append (in_memory_append sample_hasher))
     [(sample_entry, 1), (sample_entry, 2)] \<lparr>ss_inner = in_memory_sink_new, ss_poisoned = False\<rparr>)))"
proof -
  have "chain_wf sample_hasher (ims_chain (ss_inner \<lparr>ss_inner = in_memory_sink_new, ss_poisoned = False\<rparr>))"
    by (simp add: in_memory_sink_new_def chain_wf_new)
  then show ?thesis by (rule shared_log_always_verifies [THEN conjunct1])
qed

end
