(* ===== verification/Audit_Anchor.thy ===== *)
theory Audit_Anchor
  imports Audit_Chain Prefix_Code
begin

text \<open>
  Head signing and the write-once anchor (\<^verbatim>\<open>crates/audit/src/kms.rs\<close>, \<^verbatim>\<open>anchor.rs\<close>). HMAC-SHA256,
  the hex codec, the secret store and the anchor file are parameters; a \<^verbatim>\<open>WormAnchor\<close> is its entries,
  its verifier and its path, over a state of the file system.
\<close>

section \<open>Signing\<close>

definition OPERATOR_PRINCIPAL :: string where
  "OPERATOR_PRINCIPAL = ''pgb_agent''"

datatype 'x kms_error = OperatorPrincipalDenied string | KmsSecret 'x

record head_signature =
  hg_key_id :: string
  hg_signature :: string

definition head_signing_input :: "string \<Rightarrow> u64 \<Rightarrow> u64 \<Rightarrow> bytes" where
  "head_signing_input hd_hash seq timestamp_unix_millis =
     (let v = as_bytes ''pgb-audit-anchor:v1'' @ [0];
          v = v @ u64_be (word_of_nat (length (as_bytes hd_hash)));
          v = v @ as_bytes hd_hash;
          v = v @ u64_be seq
      in v @ u64_be timestamp_unix_millis)"

record local_kms =
  lk_key_id :: string
  lk_key :: bytes

definition from_secret_store :: "(string \<Rightarrow> 'x + bytes) \<Rightarrow> string \<Rightarrow> 'x kms_error + local_kms" where
  "from_secret_store get key_id =
     (case get key_id of Inl e \<Rightarrow> Inl (KmsSecret e) | Inr key \<Rightarrow> Inr \<lparr>lk_key_id = key_id, lk_key = key\<rparr>)"

definition for_principal :: "(string \<Rightarrow> 'x + bytes) \<Rightarrow> string \<Rightarrow> string \<Rightarrow> 'x kms_error + local_kms" where
  "for_principal get key_id who =
     (if who = OPERATOR_PRINCIPAL then Inl (OperatorPrincipalDenied who)
      else from_secret_store get key_id)"

definition sign_head ::
  "(bytes \<Rightarrow> bytes \<Rightarrow> bytes) \<Rightarrow> (bytes \<Rightarrow> string) \<Rightarrow> local_kms \<Rightarrow> string \<Rightarrow> u64 \<Rightarrow> u64 \<Rightarrow> head_signature" where
  "sign_head hmac hex_encode k hd_hash seq ts =
     \<lparr>hg_key_id = lk_key_id k, hg_signature = hex_encode (hmac (lk_key k) (head_signing_input hd_hash seq ts))\<rparr>"

definition verify_head ::
  "(bytes \<Rightarrow> bytes \<Rightarrow> bytes) \<Rightarrow> (string \<Rightarrow> bytes option) \<Rightarrow> local_kms \<Rightarrow> string \<Rightarrow> u64 \<Rightarrow> u64 \<Rightarrow> head_signature \<Rightarrow> bool" where
  "verify_head hmac hex_decode k hd_hash seq ts sig =
     (if hg_key_id sig \<noteq> lk_key_id k then False
      else case hex_decode (hg_signature sig) of
        None \<Rightarrow> False
      | Some raw \<Rightarrow> raw = hmac (lk_key k) (head_signing_input hd_hash seq ts))"

section \<open>The anchor\<close>

record anchor_entry =
  ae_head_hash :: string
  ae_seq :: u64
  ae_timestamp_unix_millis :: u64
  ae_signature :: head_signature

record anchored =
  an_seq :: u64
  an_head_hash :: string

datatype anchor_error = NoAnchor | AnchorBadSignature u64 | NoVerifier

datatype anchor_verification = Verified | HeadMismatch string string u64

definition head_of :: "'i audit_record list \<Rightarrow> string \<times> u64 \<times> u64" where
  "head_of records =
     (if records = [] then (GENESIS_PREV_HASH, 0, 0)
      else let r = last records
           in (ar_record_hash r, au_seq (ar_payload r), au_timestamp_unix_millis (ar_payload r)))"

record worm_anchor =
  wa_entries :: "anchor_entry list"
  wa_verifier :: "local_kms option"
  wa_file_path :: "string option"

definition worm_new :: worm_anchor where
  "worm_new = \<lparr>wa_entries = [], wa_verifier = None, wa_file_path = None\<rparr>"

definition latest :: "worm_anchor \<Rightarrow> anchor_entry option" where
  "latest w = (if wa_entries w = [] then None else Some (last (wa_entries w)))"

text \<open>\<open>append_line\<close> opens the file in append mode and writes one entry as a line of JSON.\<close>

definition worm_append ::
  "(string \<Rightarrow> anchor_entry \<Rightarrow> ('f, 'w, unit) eff) \<Rightarrow> anchor_entry \<Rightarrow> worm_anchor
    \<Rightarrow> ('f, 'w, worm_anchor) eff" where
  "worm_append append_line entry w =
     ebind (case wa_file_path w of None \<Rightarrow> eret () | Some path \<Rightarrow> append_line path entry) (\<lambda>_.
     eret (w\<lparr>wa_entries := wa_entries w @ [entry]\<rparr>))"

record anchorer =
  an_signer :: local_kms
  an_interval_millis :: u64
  an_last_anchor_at :: "u64 option"

definition anchorer_new :: "local_kms \<Rightarrow> u64 \<Rightarrow> anchorer" where
  "anchorer_new signer interval_millis =
     \<lparr>an_signer = signer, an_interval_millis = interval_millis, an_last_anchor_at = None\<rparr>"

definition maybe_anchor_records ::
  "(bytes \<Rightarrow> bytes \<Rightarrow> bytes) \<Rightarrow> (bytes \<Rightarrow> string) \<Rightarrow> (string \<Rightarrow> anchor_entry \<Rightarrow> ('f, 'w, unit) eff)
    \<Rightarrow> 'i audit_record list \<Rightarrow> u64 \<Rightarrow> anchorer \<times> worm_anchor
    \<Rightarrow> ('f, 'w, anchored option \<times> anchorer \<times> worm_anchor) eff" where
  "maybe_anchor_records hmac hex_encode append_line records now_monotonic_millis = (\<lambda>(a, w).
     let due = (case an_last_anchor_at a of
                  None \<Rightarrow> True
                | Some prev \<Rightarrow> sat_sub now_monotonic_millis prev \<ge> an_interval_millis a)
     in if \<not> due then eret (None, a, w)
        else case head_of records of (hd_hash, seq, ts) \<Rightarrow>
          let entry = \<lparr>ae_head_hash = hd_hash, ae_seq = seq, ae_timestamp_unix_millis = ts,
                ae_signature = sign_head hmac hex_encode (an_signer a) hd_hash seq ts\<rparr>
          in ebind (worm_append append_line entry w) (\<lambda>w'.
             eret (Some \<lparr>an_seq = seq, an_head_hash = hd_hash\<rparr>,
                   a\<lparr>an_last_anchor_at := Some now_monotonic_millis\<rparr>,
                   w'\<lparr>wa_verifier := Some (an_signer a)\<rparr>)))"

definition verify_records_against_anchor_with ::
  "(bytes \<Rightarrow> bytes \<Rightarrow> bytes) \<Rightarrow> (string \<Rightarrow> bytes option) \<Rightarrow> 'i audit_record list \<Rightarrow> worm_anchor \<Rightarrow> local_kms
    \<Rightarrow> anchor_error + anchor_verification" where
  "verify_records_against_anchor_with hmac hex_decode records w verifier =
     (case latest w of
        None \<Rightarrow> Inl NoAnchor
      | Some anchor \<Rightarrow>
          if \<not> verify_head hmac hex_decode verifier (ae_head_hash anchor) (ae_seq anchor)
              (ae_timestamp_unix_millis anchor) (ae_signature anchor)
          then Inl (AnchorBadSignature (ae_seq anchor))
          else let actual_head = fst (head_of records)
               in if actual_head = ae_head_hash anchor then Inr Verified
                  else Inr (HeadMismatch (ae_head_hash anchor) actual_head (ae_seq anchor)))"

definition verify_records_against_anchor ::
  "(bytes \<Rightarrow> bytes \<Rightarrow> bytes) \<Rightarrow> (string \<Rightarrow> bytes option) \<Rightarrow> 'i audit_record list \<Rightarrow> worm_anchor
    \<Rightarrow> anchor_error + anchor_verification" where
  "verify_records_against_anchor hmac hex_decode records w =
     (case wa_verifier w of
        None \<Rightarrow> Inl NoVerifier
      | Some v \<Rightarrow> verify_records_against_anchor_with hmac hex_decode records w v)"

section \<open>Correctness\<close>

lemma head_signing_input_eq:
  "head_signing_input hh sq ts =
     (as_bytes ''pgb-audit-anchor:v1'' @ [0]) @ blob_be64 (as_bytes hh) @ u64_be sq @ u64_be ts"
  by (simp add: head_signing_input_def blob_be64_def)

lemma head_signing_input_inj:
  assumes "length h1 < 2 ^ 64" and "length h2 < 2 ^ 64"
  shows "head_signing_input h1 s1 t1 = head_signing_input h2 s2 t2 \<longleftrightarrow> h1 = h2 \<and> s1 = s2 \<and> t1 = t2"
  using blob64.enc_append_iff [of "as_bytes h1" "as_bytes h2"] assms
  by (simp add: head_signing_input_eq append_same_prefix_length)

text \<open>
  A signature vouches for one head: a signature made for a head, sequence number and time is
  accepted for a claimed head, number and time, under the same key, exactly when the claim is the
  one that was signed, provided the MAC does not collide on the two inputs and the hex codec
  round-trips.
\<close>

lemma signature_vouches_for_one_head:
  assumes "\<And>b. hex_decode (hex_encode b) = Some b"
    and "inj_on (hmac (lk_key k)) {head_signing_input h1 s1 t1, head_signing_input h2 s2 t2}"
    and "length h1 < 2 ^ 64" and "length h2 < 2 ^ 64"
  shows "verify_head hmac hex_decode k h2 s2 t2 (sign_head hmac hex_encode k h1 s1 t1)
    \<longleftrightarrow> h2 = h1 \<and> s2 = s1 \<and> t2 = t1"
proof -
  have "verify_head hmac hex_decode k h2 s2 t2 (sign_head hmac hex_encode k h1 s1 t1)
      \<longleftrightarrow> head_signing_input h1 s1 t1 = head_signing_input h2 s2 t2"
    using assms(2) by (auto simp: verify_head_def sign_head_def assms(1) dest: inj_onD)
  also have "\<dots> \<longleftrightarrow> h2 = h1 \<and> s2 = s1 \<and> t2 = t1"
    using head_signing_input_inj [OF assms(3,4)] by auto
  finally show ?thesis .
qed

lemma signature_vouches_for_one_head_sample:
  "\<not> verify_head (\<lambda>_ b. b) (\<lambda>s. Some (as_bytes s)) \<lparr>lk_key_id = ''k'', lk_key = [1]\<rparr> ''bb'' 7 9
     (sign_head (\<lambda>_ b. b) str_of_bytes \<lparr>lk_key_id = ''k'', lk_key = [1]\<rparr> ''aa'' 7 9)"
  by (subst signature_vouches_for_one_head) simp_all

lemma anchor_entry_latest:
  assumes "maybe_anchor_records hmac hex_encode append_line xs now (a, w) fs = (Inr (Some x, a', w'), fs')"
  shows "latest w' = Some \<lparr>ae_head_hash = fst (head_of xs), ae_seq = fst (snd (head_of xs)),
      ae_timestamp_unix_millis = snd (snd (head_of xs)),
      ae_signature = sign_head hmac hex_encode (an_signer a) (fst (head_of xs)) (fst (snd (head_of xs))) (snd (snd (head_of xs)))\<rparr>
    \<and> wa_verifier w' = Some (an_signer a)"
  using assms
  by (cases "head_of xs")
    (auto simp: maybe_anchor_records_def worm_append_def ebind_def latest_def
      split: if_splits option.splits sum.splits prod.splits)

text \<open>
  The anchor pins the whole log: after an anchor of a verified, non-empty log was published, a
  verified non-empty log checks out against it exactly when it is the anchored log, record for
  record; any other verified log is reported as a head mismatch.
\<close>

lemma anchor_pins_the_log:
  assumes pub: "maybe_anchor_records hmac hex_encode append_line xs now (a, w) fs = (Inr (Some x, a', w'), fs')"
    and hex: "\<And>b. hex_decode (hex_encode b) = Some b"
    and xs: "verify_chain h xs = Inr ()" "xs \<noteq> []" and ys: "verify_chain h ys = Inr ()" "ys \<noteq> []"
    and sound: "hasher_sound h (ar_payload ` (set xs \<union> set ys))"
  shows "verify_records_against_anchor hmac hex_decode ys w' =
    Inr (if ys = xs then Verified
         else HeadMismatch (ar_record_hash (last xs)) (ar_record_hash (last ys)) (au_seq (ar_payload (last xs))))"
proof -
  note lat = anchor_entry_latest [OF pub]
  have "verify_head hmac hex_decode k hh sq ts (sign_head hmac hex_encode k hh sq ts)" for k hh sq ts
    by (simp add: verify_head_def sign_head_def hex)
  moreover have "ar_record_hash (last ys) = ar_record_hash (last xs) \<longleftrightarrow> ys = xs"
    using chain_fixed_by_head [OF xs(1) ys(1) sound xs(2) ys(2)] by auto
  ultimately show ?thesis
    using lat xs(2) ys(2)
    by (simp add: verify_records_against_anchor_def verify_records_against_anchor_with_def head_of_def)
qed

lemma sample_anchor:
  "\<exists>x a' w'. maybe_anchor_records (\<lambda>_ b. b) str_of_bytes (\<lambda>_ _. eret ()) (sample_log 1) 0
     (anchorer_new \<lparr>lk_key_id = ''k'', lk_key = [1]\<rparr> 1000, worm_new) ()
   = (Inr (Some x, a', w') :: unit + anchored option \<times> anchorer \<times> worm_anchor, ())"
  by (cases "head_of (sample_log 1)")
    (simp add: maybe_anchor_records_def anchorer_new_def worm_new_def worm_append_def ebind_def)

lemma anchor_pins_the_log_sample:
  "\<exists>w'. verify_records_against_anchor (\<lambda>_ b. b) (\<lambda>s. Some (as_bytes s)) (sample_log 2) w'
     = Inr (HeadMismatch (ar_record_hash (last (sample_log 1))) (ar_record_hash (last (sample_log 2))) 0)"
proof -
  obtain x a' w' where pub: "maybe_anchor_records (\<lambda>_ b. b) str_of_bytes (\<lambda>_ _. eret ()) (sample_log 1) 0
      (anchorer_new \<lparr>lk_key_id = ''k'', lk_key = [1]\<rparr> 1000, worm_new) ()
    = (Inr (Some x, a', w') :: unit + anchored option \<times> anchorer \<times> worm_anchor, ())"
    using sample_anchor by blast
  have log: "verify_chain sample_hasher (sample_log t) = Inr ()" "sample_log t \<noteq> []"
    "au_seq (ar_payload (last (sample_log t))) = 0" for t
    by (simp_all add: sample_log_def chain_append_def chain_new_def seal_def verify_chain_def head_hash_def next_seq_def)
  have "sample_log 2 \<noteq> sample_log 1"
    by (simp add: sample_log_def chain_append_def chain_new_def seal_def)
  then show ?thesis
    using anchor_pins_the_log [OF pub _ log(1,2) log(1,2) sample_sound, of "\<lambda>s. Some (as_bytes s)"] log(3) by auto
qed

end
