(* ===== verification/Wire_Buf.thy ===== *)
theory Wire_Buf
  imports Prefix_Code
begin

text \<open>
  Byte-level reading and writing of the PostgreSQL protocol and its framing
  (\<^verbatim>\<open>crates/pgwire/src/buf.rs\<close>, \<^verbatim>\<open>codec.rs\<close>, \<^verbatim>\<open>detector.rs\<close>, \<^verbatim>\<open>error.rs\<close>). A reader is a method over the
  bytes that remain; a writer returns the bytes it puts, and writing is concatenation. A stream is
  the bytes still to arrive before the end of file.
\<close>

section \<open>Errors\<close>

datatype protocol_error =
    UnexpectedEof
  | InvalidLength i32
  | Malformed string
  | UnterminatedCString
  | InvalidUtf8
  | UnknownTag u8

type_synonym 'a reader = "(bytes, protocol_error, 'a) eff"

section \<open>Readers\<close>

definition of_be_bytes :: "bytes \<Rightarrow> nat" where
  "of_be_bytes bs = of_le_bytes (rev bs)"

definition get_bytes :: "nat \<Rightarrow> bytes reader" where
  "get_bytes n r = (if length r < n then (Inl (Malformed ''unexpected end of message''), r) else (Inr (take n r), drop n r))"

definition get_u8 :: "u8 reader" where
  "get_u8 = ebind (get_bytes 1) (\<lambda>bs. eret (hd bs))"

definition get_i16 :: "i16 reader" where
  "get_i16 = ebind (get_bytes 2) (\<lambda>bs. eret (word_of_nat (of_be_bytes bs)))"

definition get_i32 :: "i32 reader" where
  "get_i32 = ebind (get_bytes 4) (\<lambda>bs. eret (word_of_nat (of_be_bytes bs)))"

definition rest :: "bytes reader" where
  "rest r = (Inr r, [])"

definition get_cstr_bytes :: "bytes reader" where
  "get_cstr_bytes r =
     (if 0 \<in> set r then (Inr (takeWhile (\<lambda>b. b \<noteq> 0) r), tl (dropWhile (\<lambda>b. b \<noteq> 0) r))
      else (Inl UnterminatedCString, r))"

definition get_cstr :: "string reader" where
  "get_cstr = ebind get_cstr_bytes (\<lambda>bs. case from_utf8 bs of None \<Rightarrow> efail InvalidUtf8 | Some s \<Rightarrow> eret s)"

text \<open>A loop that runs a reader a fixed number of times.\<close>

primrec get_n :: "nat \<Rightarrow> 'a reader \<Rightarrow> 'a list reader" where
  "get_n 0 p = eret []"
| "get_n (Suc n) p = ebind p (\<lambda>x. ebind (get_n n p) (\<lambda>xs. eret (x # xs)))"

text \<open>A count of type \<^verbatim>\<open>i16\<close>, refused when negative, then that many items.\<close>

definition get_counted :: "string \<Rightarrow> 'a reader \<Rightarrow> 'a list reader" where
  "get_counted what p = ebind get_i16 (\<lambda>n. if sint n < 0 then efail (Malformed what) else get_n (unat n) p)"

text \<open>A length of type \<^verbatim>\<open>i32\<close>, negative for none, then that many bytes.\<close>

definition get_opt_bytes :: "bytes option reader" where
  "get_opt_bytes = ebind get_i32 (\<lambda>len.
     if sint len < 0 then eret None else ebind (get_bytes (unat len)) (\<lambda>bs. eret (Some bs)))"

section \<open>Writers\<close>

definition put_cstr :: "string \<Rightarrow> bytes" where
  "put_cstr s = as_bytes s @ [0]"

definition put_counted :: "('a \<Rightarrow> bytes) \<Rightarrow> 'a list \<Rightarrow> bytes" where
  "put_counted enc xs = i16_be (word_of_nat (length xs)) @ concat (map enc xs)"

definition put_opt_bytes :: "bytes option \<Rightarrow> bytes" where
  "put_opt_bytes v = (case v of None \<Rightarrow> i32_be (- 1) | Some bs \<Rightarrow> i32_be (word_of_nat (length bs)) @ bs)"

section \<open>Framing\<close>

definition MAX_FRAME_LEN :: nat where
  "MAX_FRAME_LEN = 0x40000000"

record raw_frame =
  rf_tag :: u8
  rf_body :: bytes

text \<open>\<^verbatim>\<open>read_exact\<close> on a stream that ends early.\<close>

definition read_exact :: "nat \<Rightarrow> bytes reader" where
  "read_exact n r = (if length r < n then (Inl UnexpectedEof, []) else (Inr (take n r), drop n r))"

definition read_i32 :: "i32 reader" where
  "read_i32 = ebind (read_exact 4) (\<lambda>bs. eret (word_of_nat (of_be_bytes bs)))"

definition checked_body_len :: "i32 \<Rightarrow> protocol_error + nat" where
  "checked_body_len len =
     (if \<not> (4 \<le> sint len \<and> sint len \<le> int MAX_FRAME_LEN) then Inl (InvalidLength len)
      else Inr (nat (sint len - 4)))"

definition read_startup_body :: "bytes reader" where
  "read_startup_body = ebind read_i32 (\<lambda>len. ebind (elift (checked_body_len len)) read_exact)"

definition read_tagged_frame :: "raw_frame option reader" where
  "read_tagged_frame stream =
     (case stream of
        [] \<Rightarrow> (Inr None, [])
      | tag # r \<Rightarrow>
          ebind read_i32 (\<lambda>len. ebind (elift (checked_body_len len)) (\<lambda>body_len.
          ebind (read_exact body_len) (\<lambda>body. eret (Some \<lparr>rf_tag = tag, rf_body = body\<rparr>)))) r)"

definition frame_tagged :: "u8 \<Rightarrow> bytes \<Rightarrow> bytes" where
  "frame_tagged tag body = tag # i32_be (word_of_nat (4 + length body)) @ body"

definition frame_untagged :: "bytes \<Rightarrow> bytes" where
  "frame_untagged body = i32_be (word_of_nat (4 + length body)) @ body"

section \<open>The detector\<close>

datatype reject_reason = SimpleQuery | RejectCopy

definition ascii :: "char \<Rightarrow> u8" where
  "ascii c = word_of_nat (of_char c)"

definition classify_frontend_tag :: "u8 \<Rightarrow> reject_reason + unit" where
  "classify_frontend_tag tag =
     (if tag = ascii CHR ''Q'' then Inl SimpleQuery
      else if tag = ascii CHR ''d'' \<or> tag = ascii CHR ''c'' \<or> tag = ascii CHR ''f'' then Inl RejectCopy
      else Inr ())"

definition classify_frontend_frame :: "raw_frame \<Rightarrow> reject_reason + unit" where
  "classify_frontend_frame f = classify_frontend_tag (rf_tag f)"

definition backend_starts_copy :: "raw_frame \<Rightarrow> bool" where
  "backend_starts_copy f = (rf_tag f \<in> {ascii CHR ''G'', ascii CHR ''H'', ascii CHR ''W''})"

section \<open>Codecs\<close>

text \<open>
  The contract of a field of a message: reading back what was written returns the value and leaves
  exactly what followed it. Such an encoding delimits itself.
\<close>

locale codec =
  fixes enc :: "'a \<Rightarrow> bytes"
    and dec :: "'a reader"
    and wf :: "'a \<Rightarrow> bool"
  assumes dec_enc: "wf x \<Longrightarrow> dec (enc x @ r) = (Inr x, r)"
begin

lemma dec_enc_end: "wf x \<Longrightarrow> dec (enc x) = (Inr x, [])"
  using dec_enc [of x "[]"] by simp

lemma get_n_enc:
  "\<forall>x \<in> set xs. wf x \<Longrightarrow> get_n (length xs) dec (concat (map enc xs) @ r) = (Inr xs, r)"
  by (induction xs) (simp_all add: ebind_def dec_enc)

lemma bind_enc: "wf x \<Longrightarrow> ebind dec f (enc x @ r) = f x r"
  by (simp add: ebind_def dec_enc)

end

sublocale codec \<subseteq> prefix_code enc wf
proof
  fix x y r s
  assume "wf x" "wf y" "enc x @ r = enc y @ s"
  then have "(Inr x :: protocol_error + 'a, r) = (Inr y, s)" by (metis dec_enc)
  then show "x = y \<and> r = s" by simp
qed

lemma of_be_bytes_rev: "of_be_bytes (rev (le_bytes k n)) = n mod 256 ^ k"
  by (simp add: of_be_bytes_def of_le_bytes_le_bytes)

lemma get_bytes_append: "get_bytes (length bs) (bs @ r) = (Inr bs, r)"
  by (simp add: get_bytes_def)

interpretation u8: codec "\<lambda>b. [b]" get_u8 "\<lambda>_. True"
  by unfold_locales (simp add: get_u8_def ebind_def get_bytes_def)

interpretation i16: codec i16_be get_i16 "\<lambda>_. True"
proof
  fix x :: i16 and r
  have "of_be_bytes (i16_be x) = unat x"
    using int_bytes_bounds(3) [of x] by (simp add: i16_be_def of_be_bytes_rev)
  then show "get_i16 (i16_be x @ r) = (Inr x, r)"
    using get_bytes_append [of "i16_be x" r] by (simp add: get_i16_def ebind_def)
qed

interpretation i32: codec i32_be get_i32 "\<lambda>_. True"
proof
  fix x :: i32 and r
  have "of_be_bytes (i32_be x) = unat x"
    using int_bytes_bounds(1) [of x] by (simp add: i32_be_def of_be_bytes_rev)
  then show "get_i32 (i32_be x @ r) = (Inr x, r)"
    using get_bytes_append [of "i32_be x" r] by (simp add: get_i32_def ebind_def)
qed

definition cstr_ok :: "string \<Rightarrow> bool" where
  "cstr_ok s = (is_str s \<and> 0 \<notin> set (as_bytes s))"

lemma get_cstr_bytes_append: "0 \<notin> set bs \<Longrightarrow> get_cstr_bytes (bs @ 0 # r) = (Inr bs, r)"
  by (simp add: get_cstr_bytes_def takeWhile_append dropWhile_append)

interpretation cstr: codec put_cstr get_cstr cstr_ok
  by unfold_locales
    (simp add: get_cstr_def ebind_def put_cstr_def cstr_ok_def get_cstr_bytes_append)

lemma sint_small:
  assumes "unat (w :: 'a::len word) < 2 ^ (LENGTH('a) - Suc 0)"
  shows "sint w = int (unat w)"
proof -
  have "signed_take_bit (LENGTH('a) - Suc 0) (uint w) = uint w"
  proof (rule signed_take_bit_int_eq_self)
    show "- (2 ^ (LENGTH('a) - Suc 0)) \<le> uint w"
      by (rule order_trans [of _ 0]) simp_all
    have "int (unat w) < int (2 ^ (LENGTH('a) - Suc 0))" using assms by (simp only: of_nat_less_iff)
    then show "uint w < 2 ^ (LENGTH('a) - Suc 0)" by simp
  qed
  then show ?thesis by (simp add: sint_uint)
qed

lemma count_i16:
  assumes "n < 2 ^ 15"
  shows "unat (word_of_nat n :: i16) = n" and "\<not> sint (word_of_nat n :: i16) < 0"
proof -
  show u: "unat (word_of_nat n :: i16) = n" using assms by (simp add: unat_of_nat)
  show "\<not> sint (word_of_nat n :: i16) < 0"
    using sint_small [of "word_of_nat n :: i16"] assms by (simp add: u)
qed

lemma len_i32:
  assumes "n < 2 ^ 31"
  shows "unat (word_of_nat n :: i32) = n" and "sint (word_of_nat n :: i32) = int n"
proof -
  show u: "unat (word_of_nat n :: i32) = n" using assms by (simp add: unat_of_nat)
  show "sint (word_of_nat n :: i32) = int n"
    using sint_small [of "word_of_nat n :: i32"] assms by (simp add: u)
qed

context codec
begin

lemma counted_enc:
  assumes "\<forall>x \<in> set xs. wf x" and "length xs < 2 ^ 15"
  shows "get_counted what dec (put_counted enc xs @ r) = (Inr xs, r)"
  using get_n_enc [OF assms(1)] count_i16 [OF assms(2)]
  by (simp add: get_counted_def put_counted_def i16.bind_enc)

end

interpretation opt_bytes: codec put_opt_bytes get_opt_bytes
  "\<lambda>v. case v of None \<Rightarrow> True | Some bs \<Rightarrow> length bs < 2 ^ 31"
proof
  fix v :: "bytes option" and r
  assume "case v of None \<Rightarrow> True | Some bs \<Rightarrow> length bs < 2 ^ 31"
  then show "get_opt_bytes (put_opt_bytes v @ r) = (Inr v, r)"
    by (cases v) (simp_all add: get_opt_bytes_def put_opt_bytes_def i32.dec_enc len_i32 ebind_def get_bytes_append)
qed

section \<open>Frames round trip\<close>

lemma read_exact_append: "read_exact (length bs) (bs @ r) = (Inr bs, r)"
  by (simp add: read_exact_def)

lemma read_i32_append: "read_i32 (i32_be w @ r) = (Inr w, r)"
proof -
  have "of_be_bytes (i32_be w) = unat w"
    using int_bytes_bounds(1) [of w] by (simp add: i32_be_def of_be_bytes_rev)
  then show ?thesis
    using read_exact_append [of "i32_be w" r] by (simp add: read_i32_def ebind_def)
qed

lemma checked_body_len_of_nat:
  "4 + n \<le> MAX_FRAME_LEN \<Longrightarrow> checked_body_len (word_of_nat (4 + n)) = Inr n"
  using len_i32(2) [of "4 + n"] by (simp add: checked_body_len_def MAX_FRAME_LEN_def)

lemma read_frame_tagged:
  assumes "4 + length body \<le> MAX_FRAME_LEN"
  shows "read_tagged_frame (frame_tagged tag body @ r) = (Inr (Some \<lparr>rf_tag = tag, rf_body = body\<rparr>), r)"
  using read_i32_append [of "word_of_nat (4 + length body)" "body @ r"] checked_body_len_of_nat [OF assms]
  by (simp add: read_tagged_frame_def frame_tagged_def ebind_def read_exact_append)

lemma read_frame_untagged:
  assumes "4 + length body \<le> MAX_FRAME_LEN"
  shows "read_startup_body (frame_untagged body @ r) = (Inr body, r)"
  using read_i32_append [of "word_of_nat (4 + length body)" "body @ r"] checked_body_len_of_nat [OF assms]
  by (simp add: read_startup_body_def frame_untagged_def ebind_def read_exact_append)

text \<open>
  No frame makes the reader allocate or wait for more than the ceiling: on any stream, a frame
  is read only when its announced length is between 4 and the ceiling and its body is exactly the
  announced bytes; any other announcement is an error before the body is read.
\<close>

lemma frame_length_is_bounded:
  "case read_tagged_frame (tag # i32_be len @ stream) of
     (Inr (Some f), r) \<Rightarrow> rf_tag f = tag \<and> 4 \<le> sint len \<and> sint len \<le> int MAX_FRAME_LEN
       \<and> int (length (rf_body f)) = sint len - 4 \<and> rf_body f @ r = stream
   | (Inr None, _) \<Rightarrow> False
   | (Inl e, r) \<Rightarrow> (e = InvalidLength len \<and> r = stream \<and> \<not> (4 \<le> sint len \<and> sint len \<le> int MAX_FRAME_LEN))
       \<or> (e = UnexpectedEof \<and> int (length stream) < sint len - 4)"
  using read_i32_append [of len stream]
  by (auto simp: read_tagged_frame_def ebind_def checked_body_len_def read_exact_def split: if_splits)

end
