(* ===== verification/Wire_Frontend.thy ===== *)
theory Wire_Frontend
  imports Wire_Buf
begin

text \<open>
  Messages a client sends (\<^verbatim>\<open>crates/pgwire/src/frontend.rs\<close> and the client side of \<^verbatim>\<open>scram.rs\<close>):
  their encoders, their decoders and the round trips.
\<close>

section \<open>Startup\<close>

definition PROTOCOL_VERSION_3 :: i32 where
  "PROTOCOL_VERSION_3 = 196608"

definition SSL_REQUEST_CODE :: i32 where
  "SSL_REQUEST_CODE = 80877103"

definition CANCEL_REQUEST_CODE :: i32 where
  "CANCEL_REQUEST_CODE = 80877102"

record startup_message =
  su_protocol_version :: i32
  su_parameters :: "(string \<times> string) list"

definition startup_body :: "startup_message \<Rightarrow> bytes" where
  "startup_body m =
     i32_be (su_protocol_version m)
     @ concat (map (\<lambda>(k, v). put_cstr k @ put_cstr v) (su_parameters m)) @ [0]"

definition startup_encode :: "startup_message \<Rightarrow> bytes" where
  "startup_encode m = frame_untagged (startup_body m)"

lemma get_cstr_shrinks: "get_cstr bs = (Inr s, r) \<Longrightarrow> length r < length bs"
proof -
  assume "get_cstr bs = (Inr s, r)"
  then have "0 \<in> set bs" and r: "r = tl (dropWhile (\<lambda>b. b \<noteq> 0) bs)"
    by (auto simp: get_cstr_def get_cstr_bytes_def ebind_def split: if_splits option.splits)
  then have "dropWhile (\<lambda>b. b \<noteq> 0) bs \<noteq> []" by (simp add: dropWhile_eq_Nil_conv)
  then show ?thesis
    using length_dropWhile_le [of "\<lambda>b. b \<noteq> 0" bs] by (cases "dropWhile (\<lambda>b. b \<noteq> 0) bs") (auto simp: r)
qed

text \<open>The parameter loop ends at an empty key; it fails when the bytes run out first.\<close>

function get_parameters :: "(string \<times> string) list \<Rightarrow> (string \<times> string) list reader" where
  "get_parameters acc bs =
     (if bs = [] then (Inl (Malformed ''StartupMessage: missing list terminator''), bs)
      else case get_cstr bs of
        (Inl e, r) \<Rightarrow> (Inl e, r)
      | (Inr key, r) \<Rightarrow>
          if key = [] then (Inr acc, r)
          else case get_cstr r of
            (Inl e, r') \<Rightarrow> (Inl e, r')
          | (Inr val, r') \<Rightarrow> get_parameters (acc @ [(key, val)]) r')"
  by pat_completeness auto
termination
  by (relation "measure (\<lambda>(_, bs). length bs)") (auto dest!: get_cstr_shrinks [OF sym])

declare get_parameters.simps [simp del]

definition startup_decode_body :: "startup_message reader" where
  "startup_decode_body = ebind get_i32 (\<lambda>protocol_version. ebind (get_parameters []) (\<lambda>parameters.
     eret \<lparr>su_protocol_version = protocol_version, su_parameters = parameters\<rparr>))"

definition ssl_request_encode :: bytes where
  "ssl_request_encode = i32_be 8 @ i32_be SSL_REQUEST_CODE"

definition ssl_request_decode_body :: "unit reader" where
  "ssl_request_decode_body = ebind get_i32 (\<lambda>code.
     if code \<noteq> SSL_REQUEST_CODE then efail (Malformed ''SSLRequest: bad magic code'') else eret ())"

section \<open>Messages\<close>

datatype target_kind = Statement | Portal

fun target_tag :: "target_kind \<Rightarrow> u8" where
  "target_tag Statement = ascii CHR ''S''"
| "target_tag Portal = ascii CHR ''P''"

definition target_from_tag :: "u8 \<Rightarrow> protocol_error + target_kind" where
  "target_from_tag b =
     (if b = ascii CHR ''S'' then Inr Statement
      else if b = ascii CHR ''P'' then Inr Portal
      else Inl (Malformed ''bad Describe/Close target kind''))"

record sasl_initial_response =
  si_mechanism :: string
  si_initial_response :: "bytes option"

definition sasl_initial_encode_body :: "sasl_initial_response \<Rightarrow> bytes" where
  "sasl_initial_encode_body m = put_cstr (si_mechanism m) @ put_opt_bytes (si_initial_response m)"

definition sasl_initial_decode_body :: "sasl_initial_response reader" where
  "sasl_initial_decode_body = ebind get_cstr (\<lambda>mechanism. ebind get_opt_bytes (\<lambda>initial_response.
     eret \<lparr>si_mechanism = mechanism, si_initial_response = initial_response\<rparr>))"

text \<open>\<open>SaslResponse\<close> carries its data; it decodes as \<open>rest\<close>.\<close>

datatype frontend_message =
    Query string
  | Parse string string "i32 list"
  | Bind string string bytes
  | Describe target_kind string
  | Execute string i32
  | Sync
  | Flush
  | Close target_kind string
  | Terminate
  | SaslInitialResponse sasl_initial_response
  | SaslResponse bytes
  | PasswordMessage string
  | FrontCopyData bytes
  | FrontCopyDone
  | FrontCopyFail string

fun frontend_tag :: "frontend_message \<Rightarrow> u8" where
  "frontend_tag (Query _) = ascii CHR ''Q''"
| "frontend_tag (Parse _ _ _) = ascii CHR ''P''"
| "frontend_tag (Bind _ _ _) = ascii CHR ''B''"
| "frontend_tag (Describe _ _) = ascii CHR ''D''"
| "frontend_tag (Execute _ _) = ascii CHR ''E''"
| "frontend_tag Sync = ascii CHR ''S''"
| "frontend_tag Flush = ascii CHR ''H''"
| "frontend_tag (Close _ _) = ascii CHR ''C''"
| "frontend_tag Terminate = ascii CHR ''X''"
| "frontend_tag (SaslInitialResponse _) = ascii CHR ''p''"
| "frontend_tag (SaslResponse _) = ascii CHR ''p''"
| "frontend_tag (PasswordMessage _) = ascii CHR ''p''"
| "frontend_tag (FrontCopyData _) = ascii CHR ''d''"
| "frontend_tag FrontCopyDone = ascii CHR ''c''"
| "frontend_tag (FrontCopyFail _) = ascii CHR ''f''"

fun frontend_body :: "frontend_message \<Rightarrow> bytes" where
  "frontend_body (Query sql) = put_cstr sql"
| "frontend_body (Parse statement sql param_types) =
     put_cstr statement @ put_cstr sql @ put_counted i32_be param_types"
| "frontend_body (Bind portal statement tail) = put_cstr portal @ put_cstr statement @ tail"
| "frontend_body (Describe kind name) = [target_tag kind] @ put_cstr name"
| "frontend_body (Execute portal max_rows) = put_cstr portal @ i32_be max_rows"
| "frontend_body Sync = []"
| "frontend_body Flush = []"
| "frontend_body (Close kind name) = [target_tag kind] @ put_cstr name"
| "frontend_body Terminate = []"
| "frontend_body (SaslInitialResponse m) = sasl_initial_encode_body m"
| "frontend_body (SaslResponse data) = data"
| "frontend_body (PasswordMessage password) = put_cstr password"
| "frontend_body (FrontCopyData data) = data"
| "frontend_body FrontCopyDone = []"
| "frontend_body (FrontCopyFail message) = put_cstr message"

definition frontend_encode :: "frontend_message \<Rightarrow> bytes" where
  "frontend_encode m = frame_tagged (frontend_tag m) (frontend_body m)"

definition get_target :: "(target_kind \<Rightarrow> string \<Rightarrow> frontend_message) \<Rightarrow> frontend_message reader" where
  "get_target mk = ebind get_u8 (\<lambda>b. ebind (elift (target_from_tag b)) (\<lambda>kind.
     ebind get_cstr (\<lambda>name. eret (mk kind name))))"

definition frontend_reader :: "u8 \<Rightarrow> frontend_message reader" where
  "frontend_reader tag =
     (if tag = ascii CHR ''Q'' then ebind get_cstr (\<lambda>sql. eret (Query sql))
      else if tag = ascii CHR ''P'' then
        ebind get_cstr (\<lambda>statement. ebind get_cstr (\<lambda>sql.
        ebind (get_counted ''Parse: negative param count'' get_i32) (\<lambda>param_types.
        eret (Parse statement sql param_types))))
      else if tag = ascii CHR ''B'' then
        ebind get_cstr (\<lambda>portal. ebind get_cstr (\<lambda>statement. ebind rest (\<lambda>tail. eret (Bind portal statement tail))))
      else if tag = ascii CHR ''D'' then get_target Describe
      else if tag = ascii CHR ''E'' then
        ebind get_cstr (\<lambda>portal. ebind get_i32 (\<lambda>max_rows. eret (Execute portal max_rows)))
      else if tag = ascii CHR ''S'' then eret Sync
      else if tag = ascii CHR ''H'' then eret Flush
      else if tag = ascii CHR ''C'' then get_target Close
      else if tag = ascii CHR ''X'' then eret Terminate
      else if tag = ascii CHR ''p'' then ebind get_cstr (\<lambda>password. eret (PasswordMessage password))
      else if tag = ascii CHR ''d'' then ebind rest (\<lambda>data. eret (FrontCopyData data))
      else if tag = ascii CHR ''c'' then eret FrontCopyDone
      else if tag = ascii CHR ''f'' then ebind get_cstr (\<lambda>message. eret (FrontCopyFail message))
      else efail (UnknownTag tag))"

definition frontend_decode :: "u8 \<Rightarrow> bytes \<Rightarrow> protocol_error + frontend_message" where
  "frontend_decode tag body = fst (frontend_reader tag body)"

section \<open>Round trips\<close>

text \<open>
  A message the wire can carry: protocol strings are valid UTF-8 without a NUL, and a count fits the
  signed 16-bit field it is written to. The \<^verbatim>\<open>p\<close> tag is shared, so only a password decodes from it.
\<close>

fun frontend_ok :: "frontend_message \<Rightarrow> bool" where
  "frontend_ok (Query sql) = cstr_ok sql"
| "frontend_ok (Parse statement sql param_types) =
     (cstr_ok statement \<and> cstr_ok sql \<and> length param_types < 2 ^ 15)"
| "frontend_ok (Bind portal statement _) = (cstr_ok portal \<and> cstr_ok statement)"
| "frontend_ok (Describe _ name) = cstr_ok name"
| "frontend_ok (Execute portal _) = cstr_ok portal"
| "frontend_ok (Close _ name) = cstr_ok name"
| "frontend_ok (SaslInitialResponse _) = False"
| "frontend_ok (SaslResponse _) = False"
| "frontend_ok (PasswordMessage password) = cstr_ok password"
| "frontend_ok (FrontCopyFail message) = cstr_ok message"
| "frontend_ok _ = True"

lemmas codec_simps = u8.dec_enc i16.dec_enc i32.dec_enc cstr.dec_enc opt_bytes.dec_enc
  u8.dec_enc_end i16.dec_enc_end i32.dec_enc_end cstr.dec_enc_end opt_bytes.dec_enc_end

lemma get_u8_Cons [simp]: "get_u8 (b # r) = (Inr b, r)"
  using u8.dec_enc [of b r] by simp

lemma target_round_trip [simp]: "target_from_tag (target_tag k) = Inr k"
  by (cases k) (simp_all add: target_from_tag_def ascii_def)

lemma i32_counted_end:
  "length xs < 2 ^ 15 \<Longrightarrow> get_counted what get_i32 (put_counted i32_be xs) = (Inr xs, [])"
  using i32.counted_enc [of xs what "[]"] by simp

lemma ascii_eq_iff [simp]: "ascii a = ascii b \<longleftrightarrow> a = b"
proof -
  have "unat (ascii c) = of_char c" for c by (simp add: ascii_def unat_of_nat)
  then show ?thesis by (metis of_char_eq_iff)
qed

lemma frontend_decode_body: "frontend_ok m \<Longrightarrow> frontend_decode (frontend_tag m) (frontend_body m) = Inr m"
  by (cases m) (simp_all add: frontend_decode_def frontend_reader_def ebind_def codec_simps i32_counted_end
      rest_def get_target_def)

fun rejected_message :: "frontend_message \<Rightarrow> bool" where
  "rejected_message (Query _) = True"
| "rejected_message (FrontCopyData _) = True"
| "rejected_message FrontCopyDone = True"
| "rejected_message (FrontCopyFail _) = True"
| "rejected_message _ = False"

text \<open>
  C34: every client message the wire can carry survives the wire: its frame is read back from any
  stream it heads, leaving the rest of the stream, and decodes to the same message; the detector
  rejects its frame exactly when it is a simple query or a COPY message.
\<close>

theorem frontend_round_trip:
  assumes "frontend_ok m" and "4 + length (frontend_body m) \<le> MAX_FRAME_LEN"
  shows "read_tagged_frame (frontend_encode m @ r)
      = (Inr (Some \<lparr>rf_tag = frontend_tag m, rf_body = frontend_body m\<rparr>), r)
    \<and> frontend_decode (frontend_tag m) (frontend_body m) = Inr m
    \<and> (is_ok (classify_frontend_frame \<lparr>rf_tag = frontend_tag m, rf_body = frontend_body m\<rparr>)
        \<longleftrightarrow> \<not> rejected_message m)"
proof (intro conjI)
  show "read_tagged_frame (frontend_encode m @ r)
      = (Inr (Some \<lparr>rf_tag = frontend_tag m, rf_body = frontend_body m\<rparr>), r)"
    unfolding frontend_encode_def by (rule read_frame_tagged [OF assms(2)])
  show "frontend_decode (frontend_tag m) (frontend_body m) = Inr m"
    by (rule frontend_decode_body [OF assms(1)])
  show "is_ok (classify_frontend_frame \<lparr>rf_tag = frontend_tag m, rf_body = frontend_body m\<rparr>)
      \<longleftrightarrow> \<not> rejected_message m"
    by (cases m) (simp_all add: classify_frontend_frame_def classify_frontend_tag_def)
qed

theorem frontend_round_trip_witness:
  "frontend_decode (ascii CHR ''P'') (frontend_body (Parse ''s'' ''SELECT $1'' [23]))
     = Inr (Parse ''s'' ''SELECT $1'' [23])"
proof -
  have "frontend_ok (Parse ''s'' ''SELECT $1'' [23])"
    by (simp add: cstr_ok_def is_str_def as_bytes_def)
  then show ?thesis
    using frontend_round_trip [of "Parse ''s'' ''SELECT $1'' [23]"]
    by (simp add: MAX_FRAME_LEN_def put_cstr_def put_counted_def)
qed

definition startup_ok :: "startup_message \<Rightarrow> bool" where
  "startup_ok m = (\<forall>(k, v) \<in> set (su_parameters m). k \<noteq> [] \<and> cstr_ok k \<and> cstr_ok v)"

lemma put_cstr_not_Nil [simp]: "put_cstr s \<noteq> []"
  by (simp add: put_cstr_def)

lemma get_parameters_enc:
  assumes "\<forall>(k, v) \<in> set ps. k \<noteq> [] \<and> cstr_ok k \<and> cstr_ok v"
  shows "get_parameters acc (concat (map (\<lambda>(k, v). put_cstr k @ put_cstr v) ps) @ 0 # r) = (Inr (acc @ ps), r)"
  using assms
proof (induction ps arbitrary: acc)
  case Nil
  have "get_cstr (0 # r) = (Inr [], r)"
    using cstr.dec_enc [of "[]" r] by (simp add: put_cstr_def cstr_ok_def is_str_def as_bytes_def)
  then show ?case by (subst get_parameters.simps) simp
next
  case (Cons p ps)
  obtain k v where p: "p = (k, v)" by (cases p)
  with Cons show ?case
    by (subst get_parameters.simps) (simp add: codec_simps)
qed

text \<open>
  A startup message survives the wire: read back from any stream it heads, its body decodes to
  the same version and the same parameters in the same order.
\<close>

lemma startup_round_trip:
  assumes "startup_ok m" and "4 + length (startup_body m) \<le> MAX_FRAME_LEN"
  shows "read_startup_body (startup_encode m @ r) = (Inr (startup_body m), r)
    \<and> fst (startup_decode_body (startup_body m)) = Inr m"
proof
  show "read_startup_body (startup_encode m @ r) = (Inr (startup_body m), r)"
    unfolding startup_encode_def by (rule read_frame_untagged [OF assms(2)])
  have "get_parameters [] (concat (map (\<lambda>(k, v). put_cstr k @ put_cstr v) (su_parameters m)) @ [0])
      = (Inr (su_parameters m), [])"
    using get_parameters_enc [of "su_parameters m" "[]" "[]"] assms(1) by (simp add: startup_ok_def)
  then show "fst (startup_decode_body (startup_body m)) = Inr m"
    by (simp add: startup_decode_body_def startup_body_def ebind_def codec_simps)
qed

lemma startup_round_trip_sample:
  "fst (startup_decode_body (startup_body
     \<lparr>su_protocol_version = PROTOCOL_VERSION_3, su_parameters = [(''user'', ''app''), (''database'', ''db'')]\<rparr>))
   = Inr \<lparr>su_protocol_version = PROTOCOL_VERSION_3, su_parameters = [(''user'', ''app''), (''database'', ''db'')]\<rparr>"
  using startup_round_trip [of "\<lparr>su_protocol_version = PROTOCOL_VERSION_3,
      su_parameters = [(''user'', ''app''), (''database'', ''db'')]\<rparr>"]
  by (simp add: startup_ok_def cstr_ok_def is_str_def as_bytes_def startup_body_def put_cstr_def MAX_FRAME_LEN_def)

end
