(* ===== verification/Wire_Backend.thy ===== *)
theory Wire_Backend
  imports Wire_Frontend
begin

text \<open>
  Messages the server sends (\<^verbatim>\<open>crates/pgwire/src/backend.rs\<close> and the server side of \<^verbatim>\<open>scram.rs\<close>):
  their encoders, their decoders and the round trips.
\<close>

section \<open>Data\<close>

datatype transaction_status = Idle | InTransaction | Failed

fun status_tag :: "transaction_status \<Rightarrow> u8" where
  "status_tag Idle = ascii CHR ''I''"
| "status_tag InTransaction = ascii CHR ''T''"
| "status_tag Failed = ascii CHR ''E''"

definition status_from_tag :: "u8 \<Rightarrow> protocol_error + transaction_status" where
  "status_from_tag b =
     (if b = ascii CHR ''I'' then Inr Idle
      else if b = ascii CHR ''T'' then Inr InTransaction
      else if b = ascii CHR ''E'' then Inr Failed
      else Inl (Malformed ''ReadyForQuery: bad status''))"

record field_description =
  fd_name :: string
  fd_table_oid :: i32
  fd_column_attr :: i16
  fd_type_oid :: i32
  fd_type_size :: i16
  fd_type_modifier :: i32
  fd_format :: i16

datatype backend_message =
    AuthenticationOk
  | AuthenticationCleartextPassword
  | AuthenticationMd5Password bytes
  | AuthenticationSasl "string list"
  | AuthenticationSaslContinue bytes
  | AuthenticationSaslFinal bytes
  | ParameterStatus string string
  | BackendKeyData i32 i32
  | ReadyForQuery transaction_status
  | ErrorResponse "(u8 \<times> string) list"
  | NoticeResponse "(u8 \<times> string) list"
  | RowDescription "field_description list"
  | DataRow "bytes option list"
  | CommandComplete string
  | PortalSuspended
  | ParseComplete
  | BindComplete
  | CloseComplete
  | NoData
  | EmptyQueryResponse
  | CopyInResponse u8 "i16 list"
  | CopyOutResponse u8 "i16 list"
  | BackCopyData bytes
  | BackCopyDone

definition AUTH_OK :: i32 where
  "AUTH_OK = 0"

definition AUTH_CLEARTEXT_PASSWORD :: i32 where
  "AUTH_CLEARTEXT_PASSWORD = 3"

definition AUTH_MD5_PASSWORD :: i32 where
  "AUTH_MD5_PASSWORD = 5"

definition AUTH_SASL :: i32 where
  "AUTH_SASL = 10"

definition AUTH_SASL_CONTINUE :: i32 where
  "AUTH_SASL_CONTINUE = 11"

definition AUTH_SASL_FINAL :: i32 where
  "AUTH_SASL_FINAL = 12"

section \<open>Encoding\<close>

fun backend_tag :: "backend_message \<Rightarrow> u8" where
  "backend_tag (ParameterStatus _ _) = ascii CHR ''S''"
| "backend_tag (BackendKeyData _ _) = ascii CHR ''K''"
| "backend_tag (ReadyForQuery _) = ascii CHR ''Z''"
| "backend_tag (ErrorResponse _) = ascii CHR ''E''"
| "backend_tag (NoticeResponse _) = ascii CHR ''N''"
| "backend_tag (RowDescription _) = ascii CHR ''T''"
| "backend_tag (DataRow _) = ascii CHR ''D''"
| "backend_tag (CommandComplete _) = ascii CHR ''C''"
| "backend_tag PortalSuspended = ascii CHR ''s''"
| "backend_tag ParseComplete = ascii CHR ''1''"
| "backend_tag BindComplete = ascii CHR ''2''"
| "backend_tag CloseComplete = ascii CHR ''3''"
| "backend_tag NoData = ascii CHR ''n''"
| "backend_tag EmptyQueryResponse = ascii CHR ''I''"
| "backend_tag (CopyInResponse _ _) = ascii CHR ''G''"
| "backend_tag (CopyOutResponse _ _) = ascii CHR ''H''"
| "backend_tag (BackCopyData _) = ascii CHR ''d''"
| "backend_tag BackCopyDone = ascii CHR ''c''"
| "backend_tag _ = ascii CHR ''R''"

definition put_diagnostics :: "(u8 \<times> string) list \<Rightarrow> bytes" where
  "put_diagnostics flds = concat (map (\<lambda>(code, val). [code] @ put_cstr val) flds) @ [0]"

definition put_field :: "field_description \<Rightarrow> bytes" where
  "put_field f =
     put_cstr (fd_name f) @ i32_be (fd_table_oid f) @ i16_be (fd_column_attr f) @ i32_be (fd_type_oid f)
     @ i16_be (fd_type_size f) @ i32_be (fd_type_modifier f) @ i16_be (fd_format f)"

definition put_mechanisms :: "string list \<Rightarrow> bytes" where
  "put_mechanisms ms = concat (map put_cstr ms) @ [0]"

fun backend_body :: "backend_message \<Rightarrow> bytes" where
  "backend_body AuthenticationOk = i32_be AUTH_OK"
| "backend_body AuthenticationCleartextPassword = i32_be AUTH_CLEARTEXT_PASSWORD"
| "backend_body (AuthenticationMd5Password salt) = i32_be AUTH_MD5_PASSWORD @ salt"
| "backend_body (AuthenticationSasl ms) = i32_be AUTH_SASL @ put_mechanisms ms"
| "backend_body (AuthenticationSaslContinue data) = i32_be AUTH_SASL_CONTINUE @ data"
| "backend_body (AuthenticationSaslFinal data) = i32_be AUTH_SASL_FINAL @ data"
| "backend_body (ParameterStatus name val) = put_cstr name @ put_cstr val"
| "backend_body (BackendKeyData process_id secret_key) = i32_be process_id @ i32_be secret_key"
| "backend_body (ReadyForQuery status) = [status_tag status]"
| "backend_body (ErrorResponse flds) = put_diagnostics flds"
| "backend_body (NoticeResponse flds) = put_diagnostics flds"
| "backend_body (RowDescription flds) = put_counted put_field flds"
| "backend_body (DataRow columns) = put_counted put_opt_bytes columns"
| "backend_body (CommandComplete tag) = put_cstr tag"
| "backend_body (CopyInResponse fmt column_formats) = [fmt] @ put_counted i16_be column_formats"
| "backend_body (CopyOutResponse fmt column_formats) = [fmt] @ put_counted i16_be column_formats"
| "backend_body (BackCopyData data) = data"
| "backend_body _ = []"

definition backend_encode :: "backend_message \<Rightarrow> bytes" where
  "backend_encode m = frame_tagged (backend_tag m) (backend_body m)"

section \<open>Decoding\<close>

function get_mechanisms :: "string list \<Rightarrow> string list reader" where
  "get_mechanisms acc bs =
     (if bs = [] then (Inl (Malformed ''AuthenticationSASL: missing list terminator''), bs)
      else case get_cstr bs of
        (Inl e, r) \<Rightarrow> (Inl e, r)
      | (Inr m, r) \<Rightarrow> if m = [] then (Inr acc, r) else get_mechanisms (acc @ [m]) r)"
  by pat_completeness auto
termination
  by (relation "measure (\<lambda>(_, bs). length bs)") (auto dest!: get_cstr_shrinks [OF sym])

declare get_mechanisms.simps [simp del]

lemma get_u8_shrinks: "get_u8 bs = (Inr b, r) \<Longrightarrow> length r < length bs"
  by (cases bs) (auto simp: get_u8_def get_bytes_def ebind_def)

function decode_diagnostics :: "(u8 \<times> string) list \<Rightarrow> (u8 \<times> string) list reader" where
  "decode_diagnostics acc bs =
     (case get_u8 bs of
        (Inl e, r) \<Rightarrow> (Inl e, r)
      | (Inr code, r) \<Rightarrow>
          if code = 0 then (Inr acc, r)
          else case get_cstr r of
            (Inl e, r') \<Rightarrow> (Inl e, r')
          | (Inr val, r') \<Rightarrow> decode_diagnostics (acc @ [(code, val)]) r')"
  by pat_completeness auto
termination
  by (relation "measure (\<lambda>(_, bs). length bs)") (auto dest!: get_cstr_shrinks [OF sym] get_u8_shrinks [OF sym])

declare decode_diagnostics.simps [simp del]

definition get_field :: "field_description reader" where
  "get_field =
     ebind get_cstr (\<lambda>name. ebind get_i32 (\<lambda>table_oid. ebind get_i16 (\<lambda>column_attr. ebind get_i32 (\<lambda>type_oid.
     ebind get_i16 (\<lambda>type_size. ebind get_i32 (\<lambda>type_modifier. ebind get_i16 (\<lambda>fmt.
     eret \<lparr>fd_name = name, fd_table_oid = table_oid, fd_column_attr = column_attr, fd_type_oid = type_oid,
           fd_type_size = type_size, fd_type_modifier = type_modifier, fd_format = fmt\<rparr>)))))))"

definition decode_authentication :: "backend_message reader" where
  "decode_authentication = ebind get_i32 (\<lambda>kind.
     if kind = AUTH_OK then eret AuthenticationOk
     else if kind = AUTH_CLEARTEXT_PASSWORD then eret AuthenticationCleartextPassword
     else if kind = AUTH_MD5_PASSWORD then ebind (get_bytes 4) (\<lambda>salt. eret (AuthenticationMd5Password salt))
     else if kind = AUTH_SASL then ebind (get_mechanisms []) (\<lambda>ms. eret (AuthenticationSasl ms))
     else if kind = AUTH_SASL_CONTINUE then ebind rest (\<lambda>data. eret (AuthenticationSaslContinue data))
     else if kind = AUTH_SASL_FINAL then ebind rest (\<lambda>data. eret (AuthenticationSaslFinal data))
     else efail (Malformed ''Authentication: unsupported type''))"

definition decode_copy_response :: "(u8 \<times> i16 list) reader" where
  "decode_copy_response = ebind get_u8 (\<lambda>fmt.
     ebind (get_counted ''Copy*Response: negative count'' get_i16) (\<lambda>column_formats. eret (fmt, column_formats)))"

definition backend_reader :: "u8 \<Rightarrow> backend_message reader" where
  "backend_reader tag =
     (if tag = ascii CHR ''R'' then decode_authentication
      else if tag = ascii CHR ''S'' then ebind get_cstr (\<lambda>name. ebind get_cstr (\<lambda>val. eret (ParameterStatus name val)))
      else if tag = ascii CHR ''K'' then ebind get_i32 (\<lambda>pid. ebind get_i32 (\<lambda>key. eret (BackendKeyData pid key)))
      else if tag = ascii CHR ''Z'' then
        ebind get_u8 (\<lambda>b. ebind (elift (status_from_tag b)) (\<lambda>status. eret (ReadyForQuery status)))
      else if tag = ascii CHR ''E'' then ebind (decode_diagnostics []) (\<lambda>flds. eret (ErrorResponse flds))
      else if tag = ascii CHR ''N'' then ebind (decode_diagnostics []) (\<lambda>flds. eret (NoticeResponse flds))
      else if tag = ascii CHR ''T'' then
        ebind (get_counted ''RowDescription: negative count'' get_field) (\<lambda>flds. eret (RowDescription flds))
      else if tag = ascii CHR ''D'' then
        ebind (get_counted ''DataRow: negative count'' get_opt_bytes) (\<lambda>columns. eret (DataRow columns))
      else if tag = ascii CHR ''C'' then ebind get_cstr (\<lambda>t. eret (CommandComplete t))
      else if tag = ascii CHR ''s'' then eret PortalSuspended
      else if tag = ascii CHR ''1'' then eret ParseComplete
      else if tag = ascii CHR ''2'' then eret BindComplete
      else if tag = ascii CHR ''3'' then eret CloseComplete
      else if tag = ascii CHR ''n'' then eret NoData
      else if tag = ascii CHR ''I'' then eret EmptyQueryResponse
      else if tag = ascii CHR ''G'' then
        ebind decode_copy_response (\<lambda>(fmt, column_formats). eret (CopyInResponse fmt column_formats))
      else if tag = ascii CHR ''H'' then
        ebind decode_copy_response (\<lambda>(fmt, column_formats). eret (CopyOutResponse fmt column_formats))
      else if tag = ascii CHR ''d'' then ebind rest (\<lambda>data. eret (BackCopyData data))
      else if tag = ascii CHR ''c'' then eret BackCopyDone
      else efail (UnknownTag tag))"

definition backend_decode :: "u8 \<Rightarrow> bytes \<Rightarrow> protocol_error + backend_message" where
  "backend_decode tag body = fst (backend_reader tag body)"

section \<open>Round trips\<close>

interpretation field: codec put_field get_field "\<lambda>f. cstr_ok (fd_name f)"
  by unfold_locales (simp add: put_field_def get_field_def ebind_def codec_simps)

lemma get_mechanisms_enc:
  assumes "\<forall>m \<in> set ms. m \<noteq> [] \<and> cstr_ok m"
  shows "get_mechanisms acc (put_mechanisms ms) = (Inr (acc @ ms), [])"
  using assms
proof (induction ms arbitrary: acc)
  case Nil
  have "get_cstr [0] = (Inr [], [])"
    using cstr.dec_enc [of "[]" "[]"] by (simp add: put_cstr_def cstr_ok_def is_str_def as_bytes_def)
  then show ?case by (subst get_mechanisms.simps) (simp add: put_mechanisms_def)
next
  case (Cons m ms)
  then show ?case
    by (subst get_mechanisms.simps) (simp add: put_mechanisms_def codec_simps)
qed

lemma decode_diagnostics_enc:
  assumes "\<forall>(c, v) \<in> set fs. c \<noteq> 0 \<and> cstr_ok v"
  shows "decode_diagnostics acc (put_diagnostics fs) = (Inr (acc @ fs), [])"
  using assms
proof (induction fs arbitrary: acc)
  case Nil
  then show ?case by (subst decode_diagnostics.simps) (simp add: put_diagnostics_def)
next
  case (Cons f fs)
  then show ?case
    by (cases f) (subst decode_diagnostics.simps, simp add: put_diagnostics_def codec_simps)
qed

text \<open>A server message the wire can carry.\<close>

fun backend_ok :: "backend_message \<Rightarrow> bool" where
  "backend_ok (AuthenticationMd5Password salt) = (length salt = 4)"
| "backend_ok (AuthenticationSasl ms) = (\<forall>m \<in> set ms. m \<noteq> [] \<and> cstr_ok m)"
| "backend_ok (ParameterStatus name val) = (cstr_ok name \<and> cstr_ok val)"
| "backend_ok (ErrorResponse flds) = (\<forall>(c, v) \<in> set flds. c \<noteq> 0 \<and> cstr_ok v)"
| "backend_ok (NoticeResponse flds) = (\<forall>(c, v) \<in> set flds. c \<noteq> 0 \<and> cstr_ok v)"
| "backend_ok (RowDescription flds) = (length flds < 2 ^ 15 \<and> (\<forall>f \<in> set flds. cstr_ok (fd_name f)))"
| "backend_ok (DataRow columns) = (length columns < 2 ^ 15
     \<and> (\<forall>v \<in> set columns. case v of None \<Rightarrow> True | Some bs \<Rightarrow> length bs < 2 ^ 31))"
| "backend_ok (CommandComplete tag) = cstr_ok tag"
| "backend_ok (CopyInResponse _ fs) = (length fs < 2 ^ 15)"
| "backend_ok (CopyOutResponse _ fs) = (length fs < 2 ^ 15)"
| "backend_ok _ = True"

lemma auth_codes [simp]:
  "AUTH_CLEARTEXT_PASSWORD \<noteq> AUTH_OK" "AUTH_MD5_PASSWORD \<noteq> AUTH_OK" "AUTH_SASL \<noteq> AUTH_OK"
  "AUTH_SASL_CONTINUE \<noteq> AUTH_OK" "AUTH_SASL_FINAL \<noteq> AUTH_OK"
  "AUTH_MD5_PASSWORD \<noteq> AUTH_CLEARTEXT_PASSWORD" "AUTH_SASL \<noteq> AUTH_CLEARTEXT_PASSWORD"
  "AUTH_SASL_CONTINUE \<noteq> AUTH_CLEARTEXT_PASSWORD" "AUTH_SASL_FINAL \<noteq> AUTH_CLEARTEXT_PASSWORD"
  "AUTH_SASL \<noteq> AUTH_MD5_PASSWORD" "AUTH_SASL_CONTINUE \<noteq> AUTH_MD5_PASSWORD" "AUTH_SASL_FINAL \<noteq> AUTH_MD5_PASSWORD"
  "AUTH_SASL_CONTINUE \<noteq> AUTH_SASL" "AUTH_SASL_FINAL \<noteq> AUTH_SASL" "AUTH_SASL_FINAL \<noteq> AUTH_SASL_CONTINUE"
  by (simp_all add: AUTH_OK_def AUTH_CLEARTEXT_PASSWORD_def AUTH_MD5_PASSWORD_def AUTH_SASL_def
      AUTH_SASL_CONTINUE_def AUTH_SASL_FINAL_def)

lemma status_round_trip [simp]: "status_from_tag (status_tag s) = Inr s"
  by (cases s) (simp_all add: status_from_tag_def)

lemma get_salt: "length bs = 4 \<Longrightarrow> get_bytes 4 bs = (Inr bs, [])"
  by (simp add: get_bytes_def)

lemma backend_decode_body: "backend_ok m \<Longrightarrow> backend_decode (backend_tag m) (backend_body m) = Inr m"
  using field.counted_enc [where r = "[]"] opt_bytes.counted_enc [where r = "[]"] i16.counted_enc [where r = "[]"]
    get_mechanisms_enc [where acc = "[]"] decode_diagnostics_enc [where acc = "[]"]
    get_salt
  by (cases m)
    (simp_all add: backend_decode_def backend_reader_def ebind_def codec_simps rest_def decode_authentication_def
      decode_copy_response_def)

text \<open>
  Every server message the wire can carry survives the wire: its frame is read back from any
  stream it heads, leaving the rest of the stream, and decodes to the same message; it is taken for
  the start of a COPY exactly when it is one of the COPY responses.
\<close>

lemma backend_round_trip:
  assumes "backend_ok m" and "4 + length (backend_body m) \<le> MAX_FRAME_LEN"
  shows "read_tagged_frame (backend_encode m @ r)
      = (Inr (Some \<lparr>rf_tag = backend_tag m, rf_body = backend_body m\<rparr>), r)
    \<and> backend_decode (backend_tag m) (backend_body m) = Inr m
    \<and> (backend_starts_copy \<lparr>rf_tag = backend_tag m, rf_body = backend_body m\<rparr>
        \<longleftrightarrow> (\<exists>fmt cols. m = CopyInResponse fmt cols \<or> m = CopyOutResponse fmt cols))"
proof (intro conjI)
  show "read_tagged_frame (backend_encode m @ r)
      = (Inr (Some \<lparr>rf_tag = backend_tag m, rf_body = backend_body m\<rparr>), r)"
    unfolding backend_encode_def by (rule read_frame_tagged [OF assms(2)])
  show "backend_decode (backend_tag m) (backend_body m) = Inr m"
    by (rule backend_decode_body [OF assms(1)])
  show "backend_starts_copy \<lparr>rf_tag = backend_tag m, rf_body = backend_body m\<rparr>
      \<longleftrightarrow> (\<exists>fmt cols. m = CopyInResponse fmt cols \<or> m = CopyOutResponse fmt cols)"
    by (cases m) (simp_all add: backend_starts_copy_def)
qed

lemma backend_round_trip_sample:
  "backend_decode (ascii CHR ''D'') (backend_body (DataRow [None, Some [1, 2, 3]])) = Inr (DataRow [None, Some [1, 2, 3]])"
  using backend_round_trip [of "DataRow [None, Some [1, 2, 3]]"]
  by (simp add: MAX_FRAME_LEN_def put_counted_def put_opt_bytes_def)

end
