(* ===== verification/Wire_Classifier.thy ===== *)
theory Wire_Classifier
  imports Wire_Buf
begin

text \<open>
  The fail-closed read-only classifier (\<^verbatim>\<open>crates/pgwire/src/classifier.rs\<close>). The parser and its
  expression visitor belong to a library: the statement tree is the part of it the classifier looks
  at, and the visitor is an argument that yields the expression nodes of a statement.
\<close>

section \<open>The statement tree\<close>

text \<open>A name is its parts; a part that is not an identifier is \<^term>\<open>None\<close>.\<close>

type_synonym object_name = "string option list"

datatype data_type =
    DtCustom object_name
  | DtArray "data_type option"
  | DtNullable data_type
  | DtLowCardinality data_type
  | DtMap data_type data_type
  | DtStruct
  | DtUnion
  | DtTuple
  | DtNested
  | DtNamedTable
  | DtBuiltin

datatype binary_operator = BinBuiltin | BinPGCustom | BinCustom

datatype expr_node =
    ExFunction object_name
  | ExBinaryOp binary_operator
  | ExUnaryOp
  | ExCast data_type
  | ExConvert "data_type option"
  | ExTypedString data_type
  | ExOther

text \<open>
  A select is whether it has an \<^verbatim>\<open>INTO\<close>, its \<^verbatim>\<open>FROM\<close> items, and the queries nested in its
  expressions (scalar subqueries, \<^verbatim>\<open>IN\<close>, \<^verbatim>\<open>EXISTS\<close>).
\<close>

datatype sq_query = SqQuery (sq_ctes: "sq_query list") (sq_locks: nat) (sq_body: sq_set_expr)
and sq_set_expr =
    SeSelect bool "sq_joins list" "sq_query list"
  | SeQuery sq_query
  | SeSetOperation sq_set_expr sq_set_expr
  | SeValues
  | SeTable
  | SeInsert
  | SeUpdate
  | SeDelete
  | SeMerge
and sq_joins = SqJoins sq_factor "sq_factor list"
and sq_factor =
    TfTable object_name bool
  | TfFunction object_name
  | TfTableFunction
  | TfDerived sq_query
  | TfNestedJoin sq_joins
  | TfOther

datatype sq_statement =
    StQuery sq_query
  | StExplain bool "string list option" sq_statement
  | StExplainTable
  | StCopy
  | StInsert
  | StUpdate
  | StDelete
  | StTruncate
  | StMerge
  | StCreateTable
  | StCreateView
  | StCreateSchema
  | StCreateIndex
  | StAlterTable
  | StDrop
  | StOther

section \<open>Structural read-only test\<close>

fun query_is_read_only :: "sq_query \<Rightarrow> bool"
and set_expr_is_read_only :: "sq_set_expr \<Rightarrow> bool"
and joins_are_read_only :: "sq_joins \<Rightarrow> bool"
and table_factor_is_read_only :: "sq_factor \<Rightarrow> bool" where
  "query_is_read_only (SqQuery ctes locks body) =
     (if locks \<noteq> 0 then False
      else if \<not> list_all query_is_read_only ctes then False
      else set_expr_is_read_only body)"
| "set_expr_is_read_only (SeSelect into from nested) = (if into then False else list_all joins_are_read_only from)"
| "set_expr_is_read_only (SeQuery q) = query_is_read_only q"
| "set_expr_is_read_only (SeSetOperation left right) =
     (set_expr_is_read_only left \<and> set_expr_is_read_only right)"
| "set_expr_is_read_only SeValues = True"
| "set_expr_is_read_only SeTable = True"
| "set_expr_is_read_only SeInsert = False"
| "set_expr_is_read_only SeUpdate = False"
| "set_expr_is_read_only SeDelete = False"
| "set_expr_is_read_only SeMerge = False"
| "joins_are_read_only (SqJoins relation joins) =
     (table_factor_is_read_only relation \<and> list_all table_factor_is_read_only joins)"
| "table_factor_is_read_only (TfDerived q) = query_is_read_only q"
| "table_factor_is_read_only (TfNestedJoin twj) = joins_are_read_only twj"
| "table_factor_is_read_only (TfTable _ _) = True"
| "table_factor_is_read_only (TfFunction _) = True"
| "table_factor_is_read_only TfTableFunction = True"
| "table_factor_is_read_only TfOther = True"

section \<open>Function allow-list\<close>

definition ascii_lower :: "char \<Rightarrow> char" where
  "ascii_lower c = (if 65 \<le> (of_char c :: nat) \<and> (of_char c :: nat) \<le> 90 then char_of (of_char c + 32 :: nat) else c)"

definition eq_ignore_ascii_case :: "string \<Rightarrow> string \<Rightarrow> bool" where
  "eq_ignore_ascii_case a b = (map ascii_lower a = map ascii_lower b)"

definition READ_SAFE_FUNCTIONS :: "string list" where
  "READ_SAFE_FUNCTIONS =
     [
      ''count'', ''sum'', ''avg'', ''min'', ''max'', ''array_agg'', ''string_agg'', ''jsonb_agg'',
      ''json_agg'', ''jsonb_object_agg'', ''json_object_agg'', ''bool_and'', ''bool_or'', ''every'',
      ''bit_and'', ''bit_or'', ''stddev'', ''stddev_pop'', ''stddev_samp'', ''variance'',
      ''var_pop'', ''var_samp'', ''corr'', ''covar_pop'', ''covar_samp'', ''mode'',
      ''percentile_cont'', ''percentile_disc'', ''row_number'', ''rank'', ''dense_rank'',
      ''percent_rank'', ''cume_dist'', ''ntile'', ''lag'', ''lead'', ''first_value'',
      ''last_value'', ''nth_value'', ''abs'', ''ceil'', ''ceiling'', ''floor'', ''round'',
      ''trunc'', ''sign'', ''sqrt'', ''cbrt'', ''power'', ''pow'', ''exp'', ''ln'', ''log'',
      ''log10'', ''mod'', ''div'', ''gcd'', ''lcm'', ''pi'', ''degrees'', ''radians'', ''sin'',
      ''cos'', ''tan'', ''asin'', ''acos'', ''atan'', ''atan2'', ''sinh'', ''cosh'', ''tanh'',
      ''width_bucket'', ''lower'', ''upper'', ''initcap'', ''length'', ''char_length'',
      ''character_length'', ''bit_length'', ''octet_length'', ''substr'', ''substring'', ''left'',
      ''right'', ''trim'', ''btrim'', ''ltrim'', ''rtrim'', ''lpad'', ''rpad'', ''concat'',
      ''concat_ws'', ''replace'', ''translate'', ''reverse'', ''repeat'', ''split_part'',
      ''strpos'', ''position'', ''starts_with'', ''format'', ''to_hex'', ''ascii'', ''chr'',
      ''md5'', ''encode'', ''decode'', ''regexp_replace'', ''regexp_match'', ''regexp_matches'',
      ''regexp_split_to_array'', ''regexp_split_to_table'', ''regexp_count'', ''regexp_instr'',
      ''regexp_substr'', ''like'', ''similar_to'', ''coalesce'', ''nullif'', ''greatest'',
      ''least'', ''num_nonnulls'', ''num_nulls'', ''cast'', ''to_char'', ''to_number'', ''to_date'',
      ''to_timestamp'', ''now'', ''statement_timestamp'', ''transaction_timestamp'',
      ''clock_timestamp'', ''timeofday'', ''current_timestamp'', ''current_date'', ''current_time'',
      ''localtime'', ''localtimestamp'', ''date_trunc'', ''date_part'', ''date_bin'', ''extract'',
      ''age'', ''make_date'', ''make_time'', ''make_timestamp'', ''make_timestamptz'',
      ''make_interval'', ''justify_days'', ''justify_hours'', ''justify_interval'', ''isfinite'',
      ''to_json'', ''to_jsonb'', ''json_build_object'', ''jsonb_build_object'',
      ''json_build_array'', ''jsonb_build_array'', ''json_object'', ''jsonb_object'',
      ''json_array_length'', ''jsonb_array_length'', ''json_extract_path'', ''jsonb_extract_path'',
      ''json_extract_path_text'', ''jsonb_extract_path_text'', ''json_typeof'', ''jsonb_typeof'',
      ''json_strip_nulls'', ''jsonb_strip_nulls'', ''jsonb_pretty'', ''json_array_elements'',
      ''jsonb_array_elements'', ''json_array_elements_text'', ''jsonb_array_elements_text'',
      ''json_each'', ''jsonb_each'', ''json_each_text'', ''jsonb_each_text'', ''json_object_keys'',
      ''jsonb_object_keys'', ''jsonb_path_query'', ''jsonb_path_query_array'',
      ''jsonb_path_query_first'', ''jsonb_path_exists'', ''jsonb_path_match'', ''row_to_json'',
      ''json_populate_record'', ''jsonb_populate_record'', ''json_to_record'', ''jsonb_to_record'',
      ''json_to_recordset'', ''jsonb_to_recordset'', ''array_length'', ''array_dims'',
      ''array_ndims'', ''array_upper'', ''array_lower'', ''cardinality'', ''array_position'',
      ''array_positions'', ''array_to_string'', ''string_to_array'', ''array_append'',
      ''array_prepend'', ''array_cat'', ''array_remove'', ''array_replace'', ''unnest'',
      ''generate_series'', ''generate_subscripts'', ''current_setting'', ''pg_typeof'',
      ''format_type'', ''current_database'', ''current_schema'', ''current_catalog'',
      ''current_user'', ''session_user'', ''user'', ''version'', ''pg_backend_pid'', ''row''
     ]"

definition function_name_is_read_safe :: "object_name \<Rightarrow> bool" where
  "function_name_is_read_safe nm =
     (if length nm \<noteq> 1 then False
      else case nm ! 0 of
        None \<Rightarrow> False
      | Some ident \<Rightarrow> list_ex (\<lambda>allowed. eq_ignore_ascii_case ident allowed) READ_SAFE_FUNCTIONS)"

fun binary_operator_is_read_safe :: "binary_operator \<Rightarrow> bool" where
  "binary_operator_is_read_safe BinPGCustom = False"
| "binary_operator_is_read_safe BinCustom = False"
| "binary_operator_is_read_safe BinBuiltin = True"

fun cast_target_type_is_read_safe :: "data_type \<Rightarrow> bool" where
  "cast_target_type_is_read_safe (DtCustom nm) = (length nm = 1)"
| "cast_target_type_is_read_safe (DtArray None) = True"
| "cast_target_type_is_read_safe (DtArray (Some inner)) = cast_target_type_is_read_safe inner"
| "cast_target_type_is_read_safe (DtNullable inner) = cast_target_type_is_read_safe inner"
| "cast_target_type_is_read_safe (DtLowCardinality inner) = cast_target_type_is_read_safe inner"
| "cast_target_type_is_read_safe (DtMap k v) =
     (cast_target_type_is_read_safe k \<and> cast_target_type_is_read_safe v)"
| "cast_target_type_is_read_safe DtStruct = False"
| "cast_target_type_is_read_safe DtUnion = False"
| "cast_target_type_is_read_safe DtTuple = False"
| "cast_target_type_is_read_safe DtNested = False"
| "cast_target_type_is_read_safe DtNamedTable = False"
| "cast_target_type_is_read_safe DtBuiltin = True"

fun expr_is_read_safe :: "expr_node \<Rightarrow> bool" where
  "expr_is_read_safe (ExFunction nm) = function_name_is_read_safe nm"
| "expr_is_read_safe (ExBinaryOp op) = binary_operator_is_read_safe op"
| "expr_is_read_safe ExUnaryOp = True"
| "expr_is_read_safe (ExCast dt) = cast_target_type_is_read_safe dt"
| "expr_is_read_safe (ExConvert (Some dt)) = cast_target_type_is_read_safe dt"
| "expr_is_read_safe (ExConvert None) = True"
| "expr_is_read_safe (ExTypedString dt) = cast_target_type_is_read_safe dt"
| "expr_is_read_safe ExOther = True"

fun query_table_functions_all_read_safe :: "sq_query \<Rightarrow> bool"
and set_expr_table_functions_all_read_safe :: "sq_set_expr \<Rightarrow> bool"
and joins_functions_all_read_safe :: "sq_joins \<Rightarrow> bool"
and table_factor_functions_all_read_safe :: "sq_factor \<Rightarrow> bool" where
  "query_table_functions_all_read_safe (SqQuery ctes locks body) =
     (if \<not> list_all query_table_functions_all_read_safe ctes then False
      else set_expr_table_functions_all_read_safe body)"
| "set_expr_table_functions_all_read_safe (SeSelect into from nested) = list_all joins_functions_all_read_safe from"
| "set_expr_table_functions_all_read_safe (SeQuery q) = query_table_functions_all_read_safe q"
| "set_expr_table_functions_all_read_safe (SeSetOperation left right) =
     (set_expr_table_functions_all_read_safe left \<and> set_expr_table_functions_all_read_safe right)"
| "set_expr_table_functions_all_read_safe _ = True"
| "joins_functions_all_read_safe (SqJoins relation joins) =
     (table_factor_functions_all_read_safe relation \<and> list_all table_factor_functions_all_read_safe joins)"
| "table_factor_functions_all_read_safe (TfTable nm has_args) =
     (if has_args then function_name_is_read_safe nm else True)"
| "table_factor_functions_all_read_safe (TfFunction nm) = function_name_is_read_safe nm"
| "table_factor_functions_all_read_safe TfTableFunction = False"
| "table_factor_functions_all_read_safe (TfDerived q) = query_table_functions_all_read_safe q"
| "table_factor_functions_all_read_safe (TfNestedJoin twj) = joins_functions_all_read_safe twj"
| "table_factor_functions_all_read_safe TfOther = True"

fun statement_table_functions_all_read_safe :: "sq_statement \<Rightarrow> bool" where
  "statement_table_functions_all_read_safe (StQuery q) = query_table_functions_all_read_safe q"
| "statement_table_functions_all_read_safe (StExplain _ _ inner) =
     statement_table_functions_all_read_safe inner"
| "statement_table_functions_all_read_safe _ = True"

definition statement_functions_all_read_safe :: "(sq_statement \<Rightarrow> expr_node list) \<Rightarrow> sq_statement \<Rightarrow> bool" where
  "statement_functions_all_read_safe visit_expressions stmt =
     (if \<not> list_all expr_is_read_safe (visit_expressions stmt) then False
      else statement_table_functions_all_read_safe stmt)"

section \<open>Classification\<close>

definition EXPLAIN_PLAN_ONLY_OPTIONS :: "string list" where
  "EXPLAIN_PLAN_ONLY_OPTIONS =
     [''FORMAT'', ''VERBOSE'', ''COSTS'', ''SETTINGS'', ''GENERIC_PLAN'', ''SUMMARY'', ''MEMORY'', ''BUFFERS'']"

definition explain_options_plan_only :: "string list option \<Rightarrow> bool" where
  "explain_options_plan_only options =
     (case options of
        None \<Rightarrow> True
      | Some opts \<Rightarrow> list_all (\<lambda>opt. list_ex (\<lambda>allowed. eq_ignore_ascii_case opt allowed) EXPLAIN_PLAN_ONLY_OPTIONS) opts)"

fun is_read_statement :: "(sq_statement \<Rightarrow> expr_node list) \<Rightarrow> sq_statement \<Rightarrow> bool" where
  "is_read_statement visit (StQuery q) =
     (if \<not> statement_functions_all_read_safe visit (StQuery q) then False else query_is_read_only q)"
| "is_read_statement visit (StExplain analyze options inner) =
     (if \<not> statement_functions_all_read_safe visit (StExplain analyze options inner) then False
      else \<not> analyze \<and> explain_options_plan_only options \<and> is_read_statement visit inner)"
| "is_read_statement visit _ = False"

datatype classification = ClassRead | ClassNotRead

datatype not_read_reason = ParseError | EmptyInput | MultipleStatements | NotAReadStatement

text \<open>\<open>parse_sql\<close> is the library's parser, \<open>visit\<close> its expression visitor.\<close>

definition classify_with_reason ::
  "(string \<Rightarrow> sq_statement list option) \<Rightarrow> (sq_statement \<Rightarrow> expr_node list) \<Rightarrow> string
    \<Rightarrow> classification \<times> not_read_reason option" where
  "classify_with_reason parse_sql visit sql =
     (case parse_sql sql of
        None \<Rightarrow> (ClassNotRead, Some ParseError)
      | Some [] \<Rightarrow> (ClassNotRead, Some EmptyInput)
      | Some [stmt] \<Rightarrow>
          if is_read_statement visit stmt then (ClassRead, None) else (ClassNotRead, Some NotAReadStatement)
      | Some _ \<Rightarrow> (ClassNotRead, Some MultipleStatements))"

definition classify_sql ::
  "(string \<Rightarrow> sq_statement list option) \<Rightarrow> (sq_statement \<Rightarrow> expr_node list) \<Rightarrow> string \<Rightarrow> classification" where
  "classify_sql parse_sql visit sql = fst (classify_with_reason parse_sql visit sql)"

definition is_explain :: "(string \<Rightarrow> sq_statement list option) \<Rightarrow> string \<Rightarrow> bool" where
  "is_explain parse_sql sql =
     (case parse_sql sql of
        Some [StExplain _ _ _] \<Rightarrow> True
      | Some [StExplainTable] \<Rightarrow> True
      | _ \<Rightarrow> False)"

section \<open>Correctness\<close>

text \<open>The nodes of a statement tree and their children along \<^verbatim>\<open>WITH\<close>, \<^verbatim>\<open>FROM\<close> and set operations.\<close>

datatype sq_node = NQuery sq_query | NBody sq_set_expr | NJoins sq_joins | NFactor sq_factor

inductive sq_child :: "sq_node \<Rightarrow> sq_node \<Rightarrow> bool" where
  "c \<in> set ctes \<Longrightarrow> sq_child (NQuery (SqQuery ctes locks body)) (NQuery c)"
| "sq_child (NQuery (SqQuery ctes locks body)) (NBody body)"
| "j \<in> set from \<Longrightarrow> sq_child (NBody (SeSelect into from nested)) (NJoins j)"
| "sq_child (NBody (SeQuery q)) (NQuery q)"
| "sq_child (NBody (SeSetOperation left right)) (NBody left)"
| "sq_child (NBody (SeSetOperation left right)) (NBody right)"
| "f = r \<or> f \<in> set fs \<Longrightarrow> sq_child (NJoins (SqJoins r fs)) (NFactor f)"
| "sq_child (NFactor (TfDerived q)) (NQuery q)"
| "sq_child (NFactor (TfNestedJoin j)) (NJoins j)"

inductive_simps sq_child_simps [simp]:
  "sq_child (NQuery (SqQuery ctes locks body)) n"
  "sq_child (NBody (SeSelect into from nested)) n"
  "sq_child (NBody (SeQuery q)) n"
  "sq_child (NBody (SeSetOperation left right)) n"
  "sq_child (NBody SeValues) n"
  "sq_child (NBody SeTable) n"
  "sq_child (NBody SeInsert) n"
  "sq_child (NBody SeUpdate) n"
  "sq_child (NBody SeDelete) n"
  "sq_child (NBody SeMerge) n"
  "sq_child (NJoins (SqJoins r fs)) n"
  "sq_child (NFactor (TfTable nm has_args)) n"
  "sq_child (NFactor (TfFunction nm)) n"
  "sq_child (NFactor TfTableFunction) n"
  "sq_child (NFactor (TfDerived q)) n"
  "sq_child (NFactor (TfNestedJoin j)) n"
  "sq_child (NFactor TfOther) n"

text \<open>What is safe at a node, whatever is below it.\<close>

fun sq_node_safe :: "sq_node \<Rightarrow> bool" where
  "sq_node_safe (NQuery (SqQuery _ locks _)) = (locks = 0)"
| "sq_node_safe (NBody (SeSelect into _ _)) = (\<not> into)"
| "sq_node_safe (NBody b) = (b \<notin> {SeInsert, SeUpdate, SeDelete, SeMerge})"
| "sq_node_safe (NJoins _) = True"
| "sq_node_safe (NFactor (TfTable nm True)) = function_name_is_read_safe nm"
| "sq_node_safe (NFactor (TfFunction nm)) = function_name_is_read_safe nm"
| "sq_node_safe (NFactor TfTableFunction) = False"
| "sq_node_safe (NFactor _) = True"

fun sq_accepted :: "sq_node \<Rightarrow> bool" where
  "sq_accepted (NQuery q) = (query_is_read_only q \<and> query_table_functions_all_read_safe q)"
| "sq_accepted (NBody b) = (set_expr_is_read_only b \<and> set_expr_table_functions_all_read_safe b)"
| "sq_accepted (NJoins j) = (joins_are_read_only j \<and> joins_functions_all_read_safe j)"
| "sq_accepted (NFactor f) = (table_factor_is_read_only f \<and> table_factor_functions_all_read_safe f)"

fun sq_node_size :: "sq_node \<Rightarrow> nat" where
  "sq_node_size (NQuery q) = size q"
| "sq_node_size (NBody b) = size b"
| "sq_node_size (NJoins j) = size j"
| "sq_node_size (NFactor f) = size f"

lemma size_in_list: "x \<in> set xs \<Longrightarrow> size x \<le> size_list size xs"
  using size_list_estimation' [of x xs "size x" size] by simp

lemma sq_child_size: "sq_child n m \<Longrightarrow> sq_node_size m < sq_node_size n"
  by (induction rule: sq_child.induct) (auto dest!: size_in_list)

lemma sq_accepted_step: "sq_accepted n \<longleftrightarrow> sq_node_safe n \<and> (\<forall>m. sq_child n m \<longrightarrow> sq_accepted m)"
proof (cases n)
  case (NQuery q)
  then show ?thesis by (cases q) (auto simp: list_all_iff)
next
  case (NBody b)
  then show ?thesis by (cases b) (auto simp: list_all_iff)
next
  case (NJoins j)
  then show ?thesis by (cases j) (auto simp: list_all_iff)
next
  case (NFactor f)
  then show ?thesis by (cases f) (auto split: if_splits)
qed

definition sq_nodes :: "sq_query \<Rightarrow> sq_node set" where
  "sq_nodes q = {n. sq_child\<^sup>*\<^sup>* (NQuery q) n}"

lemma sq_accepted_iff: "sq_accepted n \<longleftrightarrow> (\<forall>m. sq_child\<^sup>*\<^sup>* n m \<longrightarrow> sq_node_safe m)"
proof
  assume "sq_accepted n"
  have "sq_accepted m" if "sq_child\<^sup>*\<^sup>* n m" for m
    using that by (induction rule: rtranclp_induct) (use \<open>sq_accepted n\<close> sq_accepted_step in blast)+
  then show "\<forall>m. sq_child\<^sup>*\<^sup>* n m \<longrightarrow> sq_node_safe m" by (meson sq_accepted_step)
next
  show "\<forall>m. sq_child\<^sup>*\<^sup>* n m \<longrightarrow> sq_node_safe m \<Longrightarrow> sq_accepted n"
  proof (induction n rule: measure_induct_rule [of sq_node_size])
    case (less n)
    then show ?case
      by (subst sq_accepted_step) (meson converse_rtranclp_into_rtranclp rtranclp.rtrancl_refl sq_child_size)
  qed
qed

text \<open>A statement whose execution only plans, or runs, the query \<open>q\<close>, by safe expressions and options.\<close>

inductive read_plan :: "(sq_statement \<Rightarrow> expr_node list) \<Rightarrow> sq_statement \<Rightarrow> sq_query \<Rightarrow> bool" for visit where
  run: "list_all expr_is_read_safe (visit (StQuery q)) \<Longrightarrow> read_plan visit (StQuery q) q"
| plan: "read_plan visit inner q \<Longrightarrow> list_all expr_is_read_safe (visit (StExplain False opts inner))
    \<Longrightarrow> explain_options_plan_only opts \<Longrightarrow> read_plan visit (StExplain False opts inner) q"

inductive_cases read_plan_queryE: "read_plan visit (StQuery q) q'"
inductive_cases read_plan_explainE: "read_plan visit (StExplain an opts inner) q"
inductive_cases read_plan_anyE: "read_plan visit stmt q"

lemma is_read_statement_iff:
  "is_read_statement visit stmt \<longleftrightarrow> (\<exists>q. read_plan visit stmt q \<and> sq_accepted (NQuery q))"
proof (induction visit stmt rule: is_read_statement.induct)
  case (1 visit q)
  then show ?case
    by (auto simp: statement_functions_all_read_safe_def intro: read_plan.run elim!: read_plan_queryE)
next
  case (2 visit analyze options inner)
  have "statement_table_functions_all_read_safe s" if "read_plan visit s q" "query_table_functions_all_read_safe q" for s q
    using that by induction simp_all
  note tables = this
  show ?case
  proof
    assume "is_read_statement visit (StExplain analyze options inner)"
    then show "\<exists>q. read_plan visit (StExplain analyze options inner) q \<and> sq_accepted (NQuery q)"
      using 2 by (auto simp: statement_functions_all_read_safe_def split: if_splits intro: read_plan.plan)
  next
    assume "\<exists>q. read_plan visit (StExplain analyze options inner) q \<and> sq_accepted (NQuery q)"
    then obtain q where q: "read_plan visit inner q" "sq_accepted (NQuery q)" "\<not> analyze"
      "list_all expr_is_read_safe (visit (StExplain analyze options inner))" "explain_options_plan_only options"
      by (auto elim!: read_plan_explainE)
    moreover have "statement_table_functions_all_read_safe inner" using tables q by simp
    ultimately show "is_read_statement visit (StExplain analyze options inner)"
      using 2 by (auto simp: statement_functions_all_read_safe_def)
  qed
qed (auto elim: read_plan_anyE)

text \<open>
  C36: the floor gate lets a statement through as a read exactly when the parser found one statement,
  it is a query or a plan-only explanation of one, every expression node the visitor yields is safe,
  and every node of the query's \<^verbatim>\<open>WITH\<close>, \<^verbatim>\<open>FROM\<close> and set-operation tree takes no lock, writes nothing and
  calls only allow-listed table functions.
\<close>

theorem classified_read_iff:
  "classify_sql parse_sql visit sql = ClassRead \<longleftrightarrow>
     (\<exists>stmt q. parse_sql sql = Some [stmt] \<and> read_plan visit stmt q \<and> sq_nodes q \<subseteq> Collect sq_node_safe)"
proof -
  have "sq_nodes q \<subseteq> Collect sq_node_safe \<longleftrightarrow> sq_accepted (NQuery q)" for q
    by (auto simp: sq_nodes_def sq_accepted_iff)
  then show ?thesis
    by (auto simp: classify_sql_def classify_with_reason_def is_read_statement_iff
        split: option.splits list.splits if_splits)
qed

text \<open>A scalar subquery as a tree: \<^verbatim>\<open>SELECT (SELECT 1 FROM lo_import('f') FOR UPDATE)\<close>.\<close>

definition nested_writer :: sq_query where
  "nested_writer = SqQuery [] 1 (SeSelect False [SqJoins (TfTable [Some ''lo_import''] True) []] [])"

definition around_nested_writer :: sq_statement where
  "around_nested_writer = StQuery (SqQuery [] 0 (SeSelect False [] [nested_writer]))"

text \<open>
  The structural sweeps do not enter the queries nested in expressions: a scalar subquery that
  locks rows and calls a function off the allow-list in its \<^verbatim>\<open>FROM\<close> is rejected as a statement of its
  own, while the statement around it, whose visited expressions are the subquery and its literals,
  is classified as a read.
\<close>

lemma expression_subquery_not_swept:
  "classify_sql (\<lambda>_. Some [around_nested_writer]) (\<lambda>_. [ExOther, ExOther]) sql = ClassRead
   \<and> classify_sql (\<lambda>_. Some [StQuery nested_writer]) (\<lambda>_. [ExOther]) sql = ClassNotRead
   \<and> \<not> query_is_read_only nested_writer \<and> \<not> query_table_functions_all_read_safe nested_writer"
proof -
  have "\<not> function_name_is_read_safe [Some ''lo_import'']"
    by (simp add: function_name_is_read_safe_def READ_SAFE_FUNCTIONS_def eq_ignore_ascii_case_def ascii_lower_def)
  then show ?thesis
    by (simp add: classify_sql_def classify_with_reason_def around_nested_writer_def nested_writer_def
        statement_functions_all_read_safe_def)
qed

end
