(* ===== verification/Proxy_Meter.thy ===== *)
theory Proxy_Meter
  imports Policy_Config Core_Session
begin

text \<open>
  The two read meters of the proxy: the single-shot cutoff (\<^verbatim>\<open>crates/proxy/src/budget.rs\<close>) and the
  cumulative tumbling window (\<^verbatim>\<open>crates/proxy/src/window.rs\<close>), with the contract they share as a
  locale: a charge is taken in full and stays under the cap, or is refused and changes nothing.
\<close>

section \<open>The single-shot cutoff\<close>

datatype cap = CapBytes | CapRows

fun cap_code :: "cap \<Rightarrow> string" where
  "cap_code CapBytes = ''byte_budget_exceeded''"
| "cap_code CapRows = ''row_budget_exceeded''"

datatype budget_outcome =
    BudgetWithin u64 u64
  | BudgetExceeded cap u64 u64

record budget =
  bg_max_bytes :: u64
  bg_max_rows :: u64
  bg_used_bytes :: u64
  bg_used_rows :: u64

definition budget_new :: "u64 \<Rightarrow> u64 \<Rightarrow> budget" where
  "budget_new mb mr = \<lparr>bg_max_bytes = mb, bg_max_rows = mr, bg_used_bytes = 0, bg_used_rows = 0\<rparr>"

definition budget_for_role :: "role_budget \<Rightarrow> budget" where
  "budget_for_role b =
     \<lparr>bg_max_bytes = rb_max_bytes b, bg_max_rows = rb_max_rows b, bg_used_bytes = 0, bg_used_rows = 0\<rparr>"

definition charge_row :: "u64 \<Rightarrow> budget \<Rightarrow> budget_outcome \<times> budget" where
  "charge_row row_bytes b =
     (let next_rows = sat_add (bg_used_rows b) 1 in
      if next_rows > bg_max_rows b then (BudgetExceeded CapRows (bg_used_bytes b) (bg_used_rows b), b)
      else
      let next_bytes = sat_add (bg_used_bytes b) row_bytes in
      if next_bytes > bg_max_bytes b then (BudgetExceeded CapBytes (bg_used_bytes b) (bg_used_rows b), b)
      else (BudgetWithin next_bytes next_rows, b\<lparr>bg_used_rows := next_rows, bg_used_bytes := next_bytes\<rparr>))"

section \<open>The cumulative window\<close>

datatype window_cap = WindowBytes | WindowRows

fun window_cap_code :: "window_cap \<Rightarrow> string" where
  "window_cap_code WindowBytes = ''window_byte_budget_exceeded''"
| "window_cap_code WindowRows = ''window_row_budget_exceeded''"

datatype window_outcome =
    WindowWithin u64 u64
  | WindowExceeded window_cap u64 u64

record window_meter =
  wm_max_bytes :: u64
  wm_max_rows :: u64
  wm_window_ms :: u64
  wm_anchor_ms :: "u64 option"
  wm_used_bytes :: u64
  wm_used_rows :: u64

definition for_window :: "window_budget \<Rightarrow> window_meter" where
  "for_window b =
     \<lparr>wm_max_bytes = wb_max_bytes b, wm_max_rows = wb_max_rows b,
      wm_window_ms = sat_mul (wb_window_secs b) 1000, wm_anchor_ms = None,
      wm_used_bytes = 0, wm_used_rows = 0\<rparr>"

definition roll :: "u64 \<Rightarrow> window_meter \<Rightarrow> window_meter" where
  "roll now_ms m =
     (case wm_anchor_ms m of
        None \<Rightarrow> m\<lparr>wm_anchor_ms := Some now_ms, wm_used_bytes := 0, wm_used_rows := 0\<rparr>
      | Some anchor \<Rightarrow>
          if sat_sub now_ms anchor \<ge> wm_window_ms m
          then m\<lparr>wm_anchor_ms := Some now_ms, wm_used_bytes := 0, wm_used_rows := 0\<rparr>
          else m)"

definition window_charge :: "u64 \<Rightarrow> u64 \<Rightarrow> clock \<Rightarrow> window_meter \<Rightarrow> window_outcome \<times> window_meter" where
  "window_charge nbytes nrows clk m0 =
     (let now = monotonic_millis clk;
          m = roll now m0;
          next_rows = sat_add (wm_used_rows m) nrows in
      if next_rows > wm_max_rows m then (WindowExceeded WindowRows (wm_used_bytes m) (wm_used_rows m), m)
      else
      let next_bytes = sat_add (wm_used_bytes m) nbytes in
      if next_bytes > wm_max_bytes m then (WindowExceeded WindowBytes (wm_used_bytes m) (wm_used_rows m), m)
      else (WindowWithin next_bytes next_rows, m\<lparr>wm_used_rows := next_rows, wm_used_bytes := next_bytes\<rparr>))"

section \<open>The contract of a meter\<close>

fun budget_within :: "budget_outcome \<Rightarrow> bool" where
  "budget_within (BudgetWithin _ _) = True"
| "budget_within (BudgetExceeded _ _ _) = False"

fun window_within :: "window_outcome \<Rightarrow> bool" where
  "window_within (WindowWithin _ _) = True"
| "window_within (WindowExceeded _ _ _) = False"

text \<open>
  A run of charges, each on the meter the one before left: which were accepted, and the last meter.
\<close>

fun charge_all :: "('c \<Rightarrow> 'm \<Rightarrow> bool \<times> 'm) \<Rightarrow> 'c list \<Rightarrow> 'm \<Rightarrow> 'c list \<times> 'm" where
  "charge_all chg [] m = ([], m)"
| "charge_all chg (c # cs) m =
     (case chg c m of (ok, m') \<Rightarrow> case charge_all chg cs m' of (acc, m'') \<Rightarrow>
        (if ok then c # acc else acc, m''))"

lemma charge_all_Cons:
  "fst (charge_all chg (c # cs) m) =
     (if fst (chg c m) then [c] else []) @ fst (charge_all chg cs (snd (chg c m)))"
  "snd (charge_all chg (c # cs) m) = snd (charge_all chg cs (snd (chg c m)))"
  by (auto split: prod.splits)

lemma charge_all_subset: "set (fst (charge_all chg cs m)) \<subseteq> set cs"
  by (induction cs arbitrary: m) (auto simp: charge_all_Cons simp del: charge_all.simps(2) split: if_splits)

text \<open>
  \<open>cost\<close> is what a charge adds in one dimension, \<open>used\<close> what the meter counts in it, \<open>limit\<close> its
  cap, and \<open>resets\<close> says whether the charge starts a new period.
\<close>

locale meter =
  fixes chg :: "'c \<Rightarrow> 'm \<Rightarrow> bool \<times> 'm"
    and valid :: "'m \<Rightarrow> bool"
    and resets :: "'c \<Rightarrow> 'm \<Rightarrow> bool"
    and cost :: "'c \<Rightarrow> nat"
    and used :: "'m \<Rightarrow> nat"
    and limit :: "'m \<Rightarrow> nat"
  assumes charge_valid: "valid m \<Longrightarrow> valid (snd (chg c m))"
    and charge_limit: "limit (snd (chg c m)) = limit m"
    and charge_used: "valid m \<Longrightarrow>
      used (snd (chg c m)) = (if resets c m then 0 else used m) + (if fst (chg c m) then cost c else 0)"
    and valid_used: "valid m \<Longrightarrow> used m \<le> limit m"
begin

text \<open>A meter that never starts a new period accepts at most its limit over its whole life.\<close>

lemma accepted_total:
  assumes "valid m" and "\<And>c m'. \<not> resets c m'"
  shows "used m + (\<Sum>c \<leftarrow> fst (charge_all chg cs m). cost c) \<le> limit m"
  using assms(1)
proof (induction cs arbitrary: m)
  case Nil
  then show ?case by (simp add: valid_used)
next
  case (Cons c cs)
  from Cons.IH [OF charge_valid [OF Cons.prems, of c]] charge_used [OF Cons.prems, of c] assms(2) show ?case
    by (simp add: charge_all_Cons charge_limit add.assoc del: charge_all.simps(2) split: if_splits)
qed

end

text \<open>A meter whose periods are tumbling windows: the charge that opens one anchors it.\<close>

locale windowed_meter = meter +
  fixes time :: "'a \<Rightarrow> nat"
    and anchor :: "'b \<Rightarrow> nat option"
    and width :: "'b \<Rightarrow> nat"
  assumes resets_iff: "resets c m \<longleftrightarrow> (case anchor m of None \<Rightarrow> True | Some a \<Rightarrow> width m \<le> time c - a)"
    and charge_anchor: "anchor (snd (chg c m)) = (if resets c m then Some (time c) else anchor m)"
    and charge_width: "width (snd (chg c m)) = width m"
begin

abbreviation accepted_before :: "nat \<Rightarrow> 'a list \<Rightarrow> 'b \<Rightarrow> nat" where
  "accepted_before e cs m \<equiv> (\<Sum>c \<leftarrow> filter (\<lambda>c. time c < e) (fst (charge_all chg cs m)). cost c)"

lemma none_before:
  assumes "\<And>c. c \<in> set cs \<Longrightarrow> e \<le> time c"
  shows "accepted_before e cs m = 0"
proof -
  have "filter (\<lambda>c. time c < e) (fst (charge_all chg cs m)) = []"
    using assms charge_all_subset [of chg cs m] by (auto simp: filter_empty_conv not_less)
  then show ?thesis by simp
qed

lemma window_total:
  assumes "valid m" and "anchor m = Some a" and "e \<le> a + width m"
    and "sorted (map time cs)" and "\<And>c. c \<in> set cs \<Longrightarrow> a \<le> time c"
  shows "used m + accepted_before e cs m \<le> limit m"
  using assms
proof (induction cs arbitrary: m)
  case Nil
  then show ?case by (simp add: valid_used)
next
  case (Cons c cs)
  show ?case
  proof (cases "time c < e")
    case True
    moreover have "a \<le> time c" using Cons.prems(5) by simp
    ultimately have keep: "\<not> resets c m" using Cons.prems(2,3) by (simp add: resets_iff)
    have "used (snd (chg c m)) + accepted_before e cs (snd (chg c m)) \<le> limit m"
      using Cons.IH [of "snd (chg c m)"] Cons.prems keep charge_valid
      by (simp add: charge_limit charge_anchor charge_width)
    with charge_used [OF Cons.prems(1), of c] keep True show ?thesis
      by (simp add: charge_all_Cons del: charge_all.simps(2) split: if_splits)
  next
    case False
    with Cons.prems have "accepted_before e (c # cs) m = 0" by (intro none_before) auto
    with valid_used [OF Cons.prems(1)] show ?thesis by linarith
  qed
qed

lemma two_windows_from:
  assumes "valid m" and "e \<le> b + width m" and "sorted (map time cs)"
    and "\<And>c. c \<in> set cs \<Longrightarrow> b \<le> time c"
  shows "used m + accepted_before e cs m \<le> 2 * limit m"
  using assms
proof (induction cs arbitrary: m)
  case Nil
  with valid_used [OF Nil(1)] show ?case by simp
next
  case (Cons c cs)
  let ?m = "snd (chg c m)"
  show ?case
  proof (cases "time c < e")
    case True
    have "(if resets c m then used m else 0) + (used ?m + accepted_before e cs ?m) \<le> 2 * limit m"
    proof (cases "resets c m")
      case True
      with window_total [of ?m "time c" e cs] Cons.prems charge_valid [OF Cons.prems(1), of c]
        valid_used [OF Cons.prems(1)]
      show ?thesis by (force simp: charge_limit charge_anchor charge_width)
    next
      case False
      with Cons.IH [of ?m] Cons.prems charge_valid show ?thesis
        by (simp add: charge_limit charge_width)
    qed
    with charge_used [OF Cons.prems(1), of c] True show ?thesis
      by (simp add: charge_all_Cons del: charge_all.simps(2) split: if_splits)
  next
    case False
    with Cons.prems have "accepted_before e (c # cs) m = 0" by (intro none_before) auto
    with valid_used [OF Cons.prems(1)] show ?thesis by linarith
  qed
qed

text \<open>Whatever the charges, no interval as wide as the window sees more than twice the limit.\<close>

lemma interval_total:
  assumes "valid m" and "sorted (map time cs)"
  shows "(\<Sum>c \<leftarrow> filter (\<lambda>c. b \<le> time c \<and> time c < b + width m) (fst (charge_all chg cs m)). cost c)
    \<le> 2 * limit m"
  using assms
proof (induction cs arbitrary: m)
  case Nil
  then show ?case by simp
next
  case (Cons c cs)
  show ?case
  proof (cases "b \<le> time c")
    case True
    then have ge: "b \<le> time d" if "d \<in> set (c # cs)" for d using Cons.prems(2) that by auto
    then have "filter (\<lambda>c. b \<le> time c \<and> time c < b + width m) (fst (charge_all chg (c # cs) m))
        = filter (\<lambda>c. time c < b + width m) (fst (charge_all chg (c # cs) m))"
      using charge_all_subset [of chg "c # cs" m] by (intro filter_cong) auto
    with two_windows_from [of m "b + width m" b "c # cs"] Cons.prems ge show ?thesis by simp
  next
    case False
    with Cons.IH [of "snd (chg c m)"] Cons.prems charge_valid show ?thesis
      by (simp add: charge_all_Cons charge_limit charge_width del: charge_all.simps(2))
  qed
qed

end

section \<open>The meters keep the contract\<close>

text \<open>
  A cap of all ones is no cap: the saturating total can never pass it. The contract is stated for
  meters whose caps are below it.
\<close>

definition budget_valid :: "budget \<Rightarrow> bool" where
  "budget_valid b =
     (bg_used_bytes b \<le> bg_max_bytes b \<and> bg_used_rows b \<le> bg_max_rows b
      \<and> bg_max_bytes b \<noteq> - 1 \<and> bg_max_rows b \<noteq> - 1)"

definition budget_chg :: "u64 \<Rightarrow> budget \<Rightarrow> bool \<times> budget" where
  "budget_chg row_bytes b = map_prod budget_within id (charge_row row_bytes b)"

definition window_valid :: "window_meter \<Rightarrow> bool" where
  "window_valid m =
     (wm_used_bytes m \<le> wm_max_bytes m \<and> wm_used_rows m \<le> wm_max_rows m
      \<and> wm_max_bytes m \<noteq> - 1 \<and> wm_max_rows m \<noteq> - 1)"

text \<open>A charge of the window: bytes, rows and the clock it is made at.\<close>

definition window_chg :: "u64 \<times> u64 \<times> clock \<Rightarrow> window_meter \<Rightarrow> bool \<times> window_meter" where
  "window_chg c m = (case c of (nbytes, nrows, clk) \<Rightarrow>
     map_prod window_within id (window_charge nbytes nrows clk m))"

definition window_resets :: "u64 \<times> u64 \<times> clock \<Rightarrow> window_meter \<Rightarrow> bool" where
  "window_resets c m =
     (case wm_anchor_ms m of None \<Rightarrow> True
      | Some a \<Rightarrow> wm_window_ms m \<le> sat_sub (monotonic_millis (snd (snd c))) a)"

lemma sat_add_exact:
  assumes "sat_add a b \<le> c" and "c \<noteq> (- 1 :: 'a::len word)"
  shows "unat (sat_add a b) = unat a + unat b"
proof -
  have "unat c < 2 ^ LENGTH('a) - 1"
    using assms(2) unat_le_max [of c] unat_max_word [where 'a = 'a] by (metis le_neq_implies_less word_unat_eq_iff)
  with assms(1) show ?thesis by (auto simp: word_le_nat_alt sat_simps min_def split: if_splits)
qed

lemma roll_simps:
  "roll (monotonic_millis (snd (snd c))) m =
     (if window_resets c m
      then m\<lparr>wm_anchor_ms := Some (monotonic_millis (snd (snd c))), wm_used_bytes := 0, wm_used_rows := 0\<rparr>
      else m)"
  by (simp add: roll_def window_resets_def split: option.splits)

lemma window_chg_eq:
  "window_chg c m0 =
     (let m = roll (monotonic_millis (snd (snd c))) m0;
          nr = sat_add (wm_used_rows m) (fst (snd c)); nb = sat_add (wm_used_bytes m) (fst c) in
      if nr \<le> wm_max_rows m \<and> nb \<le> wm_max_bytes m
      then (True, m\<lparr>wm_used_rows := nr, wm_used_bytes := nb\<rparr>) else (False, m))"
  by (cases c) (auto simp: window_chg_def window_charge_def Let_def not_less)

lemma budget_chg_eq:
  "budget_chg n b =
     (let nr = sat_add (bg_used_rows b) 1; nb = sat_add (bg_used_bytes b) n in
      if nr \<le> bg_max_rows b \<and> nb \<le> bg_max_bytes b
      then (True, b\<lparr>bg_used_rows := nr, bg_used_bytes := nb\<rparr>) else (False, b))"
  by (auto simp: budget_chg_def charge_row_def Let_def not_less)

interpretation bytes_budget: meter budget_chg budget_valid "\<lambda>_ _. False" unat
    "\<lambda>b. unat (bg_used_bytes b)" "\<lambda>b. unat (bg_max_bytes b)"
  by unfold_locales
    (auto simp: budget_chg_eq budget_valid_def Let_def word_le_nat_alt [symmetric] dest: sat_add_exact)

interpretation rows_budget: meter budget_chg budget_valid "\<lambda>_ _. False" "\<lambda>_. 1"
    "\<lambda>b. unat (bg_used_rows b)" "\<lambda>b. unat (bg_max_rows b)"
  by unfold_locales
    (auto simp: budget_chg_eq budget_valid_def Let_def word_le_nat_alt [symmetric] dest: sat_add_exact)

interpretation bytes_window: windowed_meter window_chg window_valid window_resets "\<lambda>c. unat (fst c)"
    "\<lambda>m. unat (wm_used_bytes m)" "\<lambda>m. unat (wm_max_bytes m)"
    "\<lambda>c. unat (monotonic_millis (snd (snd c)))" "\<lambda>m. map_option unat (wm_anchor_ms m)"
    "\<lambda>m. unat (wm_window_ms m)"
  by unfold_locales
    (auto simp: window_chg_eq roll_simps window_valid_def Let_def word_le_nat_alt [symmetric] dest: sat_add_exact,
     auto simp: window_resets_def word_le_nat_alt sat_simps split: option.splits)

interpretation rows_window: windowed_meter window_chg window_valid window_resets "\<lambda>c. unat (fst (snd c))"
    "\<lambda>m. unat (wm_used_rows m)" "\<lambda>m. unat (wm_max_rows m)"
    "\<lambda>c. unat (monotonic_millis (snd (snd c)))" "\<lambda>m. map_option unat (wm_anchor_ms m)"
    "\<lambda>m. unat (wm_window_ms m)"
  by unfold_locales
    (auto simp: window_chg_eq roll_simps window_valid_def Let_def word_le_nat_alt [symmetric] dest: sat_add_exact,
     auto simp: window_resets_def word_le_nat_alt sat_simps split: option.splits)

definition charge_time :: "u64 \<times> u64 \<times> clock \<Rightarrow> nat" where
  "charge_time c = unat (monotonic_millis (snd (snd c)))"

text \<open>The charges a fresh window meter accepts, of those made between \<open>lo\<close> and \<open>hi\<close>.\<close>

definition accepted_between ::
  "nat \<Rightarrow> nat \<Rightarrow> (u64 \<times> u64 \<times> clock) list \<Rightarrow> window_budget \<Rightarrow> (u64 \<times> u64 \<times> clock) list" where
  "accepted_between lo hi charges b =
     filter (\<lambda>c. lo \<le> charge_time c \<and> charge_time c < hi) (fst (charge_all window_chg charges (for_window b)))"

lemma sum_list_filter_mono:
  fixes f :: "'a \<Rightarrow> nat"
  assumes "\<And>x. P x \<Longrightarrow> Q x"
  shows "(\<Sum>x \<leftarrow> filter P xs. f x) \<le> (\<Sum>x \<leftarrow> filter Q xs. f x)"
  by (induction xs) (auto dest: assms intro: trans_le_add2)

lemma accepted_between_bound:
  assumes "sorted (map charge_time charges)" and "wb_max_bytes b \<noteq> - 1" and "wb_max_rows b \<noteq> - 1"
    and w: "hi \<le> lo + unat (wm_window_ms (for_window b))"
  shows "(\<Sum>c \<leftarrow> accepted_between lo hi charges b. unat (fst c)) \<le> 2 * unat (wb_max_bytes b)
    \<and> (\<Sum>c \<leftarrow> accepted_between lo hi charges b. unat (fst (snd c))) \<le> 2 * unat (wb_max_rows b)"
proof -
  let ?w = "lo + unat (wm_window_ms (for_window b))"
  have v: "window_valid (for_window b)" using assms(2,3) by (simp add: window_valid_def for_window_def)
  have t: "(\<lambda>c. unat (monotonic_millis (snd (snd c)))) = charge_time" by (simp add: charge_time_def fun_eq_iff)
  have mono: "(\<Sum>c \<leftarrow> accepted_between lo hi charges b. f c) \<le> (\<Sum>c \<leftarrow> accepted_between lo ?w charges b. f c)"
    for f :: "_ \<Rightarrow> nat"
    unfolding accepted_between_def by (rule sum_list_filter_mono) (use w in auto)
  from bytes_window.interval_total [OF v assms(1) [folded t], of lo]
    rows_window.interval_total [OF v assms(1) [folded t], of lo]
    mono [of "\<lambda>c. unat (fst c)"] mono [of "\<lambda>c. unat (fst (snd c))"]
  show ?thesis by (simp add: accepted_between_def charge_time_def) (simp add: for_window_def)
qed

text \<open>
  Bounded disclosure over time: whatever rows a session's reads charge and whenever, no interval
  as long as the window sees more than twice the window's byte cap or twice its row cap accepted,
  as long as the monotonic clock does not run backwards; twice, because the window tumbles.
\<close>

lemma window_bounds_every_interval:
  assumes "sorted (map charge_time charges)" and "wb_max_bytes b \<noteq> - 1" and "wb_max_rows b \<noteq> - 1"
    and "hi \<le> lo + unat (wb_window_secs b) * 1000" and "unat (wb_window_secs b) * 1000 < 2 ^ 64"
  shows "(\<Sum>c \<leftarrow> accepted_between lo hi charges b. unat (fst c)) \<le> 2 * unat (wb_max_bytes b)
    \<and> (\<Sum>c \<leftarrow> accepted_between lo hi charges b. unat (fst (snd c))) \<le> 2 * unat (wb_max_rows b)"
  using assms(4,5) by (intro accepted_between_bound assms(1-3)) (simp add: for_window_def sat_simps)

definition sample_charges :: "(u64 \<times> u64 \<times> clock) list" where
  "sample_charges =
     [(0, 1, clock_starting_at 0), (100, 1, clock_starting_at 500), (1, 1, clock_starting_at 600),
      (100, 1, clock_starting_at 1000)]"

lemma window_bounds_every_interval_sample:
  "map fst (accepted_between 500 1500 sample_charges \<lparr>wb_window_secs = 1, wb_max_bytes = 100, wb_max_rows = 9\<rparr>)
     = [100, 100]
   \<and> (\<Sum>c \<leftarrow> accepted_between 500 1500 sample_charges \<lparr>wb_window_secs = 1, wb_max_bytes = 100, wb_max_rows = 9\<rparr>.
        unat (fst c)) \<le> 2 * 100"
proof -
  let ?b = "\<lparr>wb_window_secs = 1, wb_max_bytes = 100, wb_max_rows = 9\<rparr> :: window_budget"
  have "sorted (map charge_time sample_charges)"
    by (simp add: sample_charges_def charge_time_def clock_starting_at_def)
  from window_bounds_every_interval [OF this, of ?b 1500 500]
  have "(\<Sum>c \<leftarrow> accepted_between 500 1500 sample_charges ?b. unat (fst c)) \<le> 2 * 100" by simp
  moreover have "map fst (accepted_between 500 1500 sample_charges ?b) = [100, 100]"
    by (simp add: accepted_between_def sample_charges_def charge_time_def clock_starting_at_def for_window_def
        window_chg_eq roll_def sat_add_def sat_sub_def sat_mul_def)
  ultimately show ?thesis by simp
qed

end
