(* ===== verification/Proxy_Gate.thy ===== *)
theory Proxy_Gate
  imports Wire_Frontend Wire_Classifier Policy_Config
begin

text \<open>
  The two statement gates of the read proxy: the frame gate (\<^verbatim>\<open>crates/proxy/src/enforce.rs\<close>), which
  lets only the extended protocol and only single reads pass, and the plan-cost gate
  (\<^verbatim>\<open>crates/proxy/src/explain.rs\<close>), which reads the planner's estimate off a plan line.
\<close>

unbundle bit_operations_syntax

section \<open>The frame gate\<close>

text \<open>The user-facing texts of the gate, one constructor each.\<close>

datatype gate_message =
    MsgSimpleQueryNotPermitted
  | MsgCopyNotPermitted
  | MsgStackedStatements
  | MsgUnparseable
  | MsgEmptyStatement
  | MsgReadOnly

datatype reject_kind = RejSimpleQuery | RejCopy

datatype gate_decision =
    GateAllow "string option"
  | GateReject reject_kind string gate_message
  | GateBlock string string gate_message

fun not_read_message :: "not_read_reason option \<Rightarrow> string \<times> gate_message" where
  "not_read_message (Some MultipleStatements) = (''stacked_statement'', MsgStackedStatements)"
| "not_read_message (Some ParseError) = (''parse_failed'', MsgUnparseable)"
| "not_read_message (Some EmptyInput) = (''empty_statement'', MsgEmptyStatement)"
| "not_read_message (Some NotAReadStatement) = (''write_on_readonly'', MsgReadOnly)"
| "not_read_message None = (''write_on_readonly'', MsgReadOnly)"

text \<open>\<open>classify_fn\<close> is \<^term>\<open>classify_with_reason\<close> at the parser and visitor in use.\<close>

definition gate_sql ::
  "(string \<Rightarrow> classification \<times> not_read_reason option) \<Rightarrow> string \<Rightarrow> gate_decision" where
  "gate_sql classify_fn sql =
     (case classify_fn sql of
        (ClassRead, _) \<Rightarrow> GateAllow (Some sql)
      | (ClassNotRead, reason) \<Rightarrow>
          case not_read_message reason of (code, message) \<Rightarrow> GateBlock sql code message)"

definition gate ::
  "(string \<Rightarrow> classification \<times> not_read_reason option) \<Rightarrow> frontend_message \<Rightarrow> gate_decision" where
  "gate classify_fn msg =
     (case classify_frontend_tag (frontend_tag msg) of
        Inl SimpleQuery \<Rightarrow> GateReject RejSimpleQuery ''simple_query_rejected'' MsgSimpleQueryNotPermitted
      | Inl RejectCopy \<Rightarrow> GateReject RejCopy ''copy_rejected'' MsgCopyNotPermitted
      | Inr _ \<Rightarrow>
          case msg of
            Parse _ sql _ \<Rightarrow> gate_sql classify_fn sql
          | _ \<Rightarrow> GateAllow None)"

lemma gate_allow_sql:
  "gate classify_fn msg = GateAllow (Some sql) \<longleftrightarrow>
     (\<exists>name types. msg = Parse name sql types) \<and> fst (classify_fn sql) = ClassRead"
  by (cases msg) (auto simp: gate_def gate_sql_def classify_frontend_tag_def ascii_def
      split: prod.splits classification.splits)

lemma gate_allow_none:
  "gate classify_fn msg = GateAllow None \<longleftrightarrow>
     (\<forall>name sql types. msg \<noteq> Parse name sql types) \<and> (\<forall>sql. msg \<noteq> Query sql)
     \<and> msg \<noteq> FrontCopyDone \<and> (\<forall>data. msg \<noteq> FrontCopyData data) \<and> (\<forall>m. msg \<noteq> FrontCopyFail m)"
  by (cases msg) (auto simp: gate_def gate_sql_def classify_frontend_tag_def ascii_def
      split: prod.splits classification.splits)

section \<open>Floating-point comparison\<close>

text \<open>
  A \<^verbatim>\<open>f64\<close> is its bit pattern. \<open>f64_gt\<close> is \<^verbatim>\<open>>\<close> on bit patterns: false on a NaN, sign and magnitude
  otherwise, with the two zeros equal.
\<close>

definition f64_is_nan :: "u64 \<Rightarrow> bool" where
  "f64_is_nan x = (0x7FF0000000000000 < x AND 0x7FFFFFFFFFFFFFFF)"

definition f64_key :: "u64 \<Rightarrow> int" where
  "f64_key x =
     (if x < 0x8000000000000000 then int (unat x) else - int (unat (x AND 0x7FFFFFFFFFFFFFFF)))"

definition f64_gt :: "u64 \<Rightarrow> u64 \<Rightarrow> bool" where
  "f64_gt a b = (\<not> f64_is_nan a \<and> \<not> f64_is_nan b \<and> f64_key a > f64_key b)"

section \<open>The plan-cost gate\<close>

record explain_ceiling =
  ec_max_cost :: u64
  ec_max_rows :: u64

definition ceiling_for_role :: "role_budget \<Rightarrow> explain_ceiling" where
  "ceiling_for_role b = \<lparr>ec_max_cost = rb_max_plan_cost b, ec_max_rows = rb_max_plan_rows b\<rparr>"

record plan_estimate =
  pe_total_cost :: u64
  pe_rows :: u64

datatype estimate_dim = DimCost | DimRows

fun dim_code :: "estimate_dim \<Rightarrow> string" where
  "dim_code DimCost = ''explain_cost_exceeded''"
| "dim_code DimRows = ''explain_rows_exceeded''"

definition EXPLAIN_FAIL_CLOSED_CODE :: string where
  "EXPLAIN_FAIL_CLOSED_CODE = ''explain_failed''"

datatype fail_reason = FailUnparsedLine string | FailBackend string | FailNoPlanRow

datatype estimate_decision =
    EstimateWithin plan_estimate
  | EstimateExceeded estimate_dim plan_estimate
  | FailClosed fail_reason

definition decide :: "explain_ceiling \<Rightarrow> plan_estimate \<Rightarrow> estimate_decision" where
  "decide c estimate =
     (if f64_gt (pe_total_cost estimate) (ec_max_cost c) then EstimateExceeded DimCost estimate
      else if pe_rows estimate > ec_max_rows c then EstimateExceeded DimRows estimate
      else EstimateWithin estimate)"

definition explain_wrap :: "string \<Rightarrow> string" where
  "explain_wrap sql = ''EXPLAIN '' @ sql"

text \<open>The text after the first occurrence of a pattern (\<^verbatim>\<open>str::find\<close> and the slice behind it).\<close>

fun after_first :: "string \<Rightarrow> string \<Rightarrow> string option" where
  "after_first pat [] = (if pat = [] then Some [] else None)"
| "after_first pat (c # cs) =
     (if take (length pat) (c # cs) = pat then Some (drop (length pat) (c # cs)) else after_first pat cs)"

text \<open>The part between the first and the second occurrence of two dots (\<^verbatim>\<open>split("..").nth(1)\<close>).\<close>

fun split_dots :: "nat list \<Rightarrow> nat list list" where
  "split_dots [] = [[]]"
| "split_dots (c # cs) =
     (if c = 46 \<and> take 1 cs = [46] then [] # split_dots (tl cs)
      else case split_dots cs of p # ps \<Rightarrow> (c # p) # ps | [] \<Rightarrow> [[c]])"

definition nth_part :: "nat \<Rightarrow> 'a list \<Rightarrow> 'a option" where
  "nth_part n xs = (if n < length xs then Some (xs ! n) else None)"

text \<open>\<open>parse_f64\<close> is the decimal conversion of the standard library, on the characters of a token.\<close>

definition parse_total_cost :: "(nat list \<Rightarrow> u64 option) \<Rightarrow> string \<Rightarrow> u64 option" where
  "parse_total_cost parse_f64 line =
     Option.bind (after_first ''cost='' line) (\<lambda>after.
       let token = takeWhile (\<lambda>c. \<not> is_whitespace c \<and> c \<noteq> 0x29) (chars after) in
       Option.bind (nth_part 1 (split_dots token)) parse_f64)"

definition parse_plan_rows :: "string \<Rightarrow> u64 option" where
  "parse_plan_rows line =
     Option.bind (after_first ''rows='' line) (\<lambda>after.
       let token = takeWhile (\<lambda>c. 48 \<le> (of_char c :: nat) \<and> (of_char c :: nat) \<le> 57) after in
       if token = [] then None
       else Option.bind (parse_digits token) (\<lambda>n. if n < 2 ^ 64 then Some (word_of_nat n) else None))"

definition parse_plan_estimate :: "(nat list \<Rightarrow> u64 option) \<Rightarrow> string \<Rightarrow> plan_estimate option" where
  "parse_plan_estimate parse_f64 line =
     Option.bind (parse_total_cost parse_f64 line) (\<lambda>total_cost.
     Option.bind (parse_plan_rows line) (\<lambda>rows.
     Some \<lparr>pe_total_cost = total_cost, pe_rows = rows\<rparr>))"

text \<open>
  Slicing a string at a byte index that is not a character boundary panics; a panic is \<^term>\<open>None\<close>.
\<close>

definition is_char_boundary :: "string \<Rightarrow> nat \<Rightarrow> bool" where
  "is_char_boundary s i = (i = length s \<or> i < length s \<and> \<not> cont_byte (as_bytes s ! i))"

definition truncate :: "string \<Rightarrow> nat \<Rightarrow> string option" where
  "truncate s m =
     (if length s \<le> m then Some s
      else if is_char_boundary s m then Some (take m s @ [CHR 0xE2, CHR 0x80, CHR 0xA6])
      else None)"

definition decide_plan_line ::
  "(nat list \<Rightarrow> u64 option) \<Rightarrow> explain_ceiling \<Rightarrow> string \<Rightarrow> estimate_decision option" where
  "decide_plan_line parse_f64 c plan_line =
     (case parse_plan_estimate parse_f64 plan_line of
        Some estimate \<Rightarrow> Some (decide c estimate)
      | None \<Rightarrow> map_option (\<lambda>s. FailClosed (FailUnparsedLine s)) (truncate plan_line 200))"

section \<open>Correctness\<close>

lemma after_first_here: "take (length pat) s = pat \<Longrightarrow> after_first pat s = Some (drop (length pat) s)"
  by (cases s) auto

lemma chars_ascii_append:
  assumes "list_all (\<lambda>c. (of_char c :: nat) \<le> 0x7F) pre"
  shows "chars (pre @ s) = map of_char pre @ chars s"
  using assms
proof (induction pre)
  case Nil
  then show ?case by simp
next
  case (Cons c cs)
  then have "word_of_nat (of_char c) \<le> (0x7F :: u8)" "unat (word_of_nat (of_char c) :: u8) = of_char c"
    by (simp_all add: word_le_nat_alt unat_of_nat)
  with Cons show ?case by (simp add: chars_def as_bytes_def)
qed

text \<open>
  The plan-cost gate believes the first estimate in the line: a table alias spelled like one comes
  before the planner's own numbers, so a line that starts with such an alias is within every ceiling
  that admits one row, whatever the planner's estimate behind it says.
\<close>

lemma alias_steers_plan_gate:
  assumes "parse_f64 [48] = Some 0" and "0 < ec_max_rows c" and "\<not> f64_gt 0 (ec_max_cost c)"
  shows "decide_plan_line parse_f64 c
      (''Seq Scan on big '' @ CHR 0x22 # ''cost=0..0 rows=1'' @ CHR 0x22 # planner_estimate)
    = Some (EstimateWithin \<lparr>pe_total_cost = 0, pe_rows = 1\<rparr>)"
proof -
  let ?line = "''Seq Scan on big '' @ CHR 0x22 # ''cost=0..0 rows=1'' @ CHR 0x22 # planner_estimate"
  have cost: "after_first ''cost='' ?line = Some (''0..0 rows=1'' @ CHR 0x22 # planner_estimate)"
    by simp
  have tok: "takeWhile (\<lambda>c. \<not> is_whitespace c \<and> c \<noteq> 0x29) (chars (''0..0 rows=1'' @ CHR 0x22 # planner_estimate))
      = [48, 46, 46, 48]"
    by (subst chars_ascii_append) (simp_all add: is_whitespace_def)
  have "parse_total_cost parse_f64 ?line = Some 0"
    unfolding parse_total_cost_def cost Option.bind.bind_lunit Let_def tok
    using assms(1) by (simp add: nth_part_def)
  moreover have "parse_plan_rows ?line = Some 1"
    by (simp add: parse_plan_rows_def parse_digits_def)
  moreover have "\<not> ec_max_rows c < 1" using assms(2) by (simp add: word_gt_0 word_less_1)
  ultimately show ?thesis
    using assms(3) by (simp add: decide_plan_line_def parse_plan_estimate_def decide_def)
qed

lemma alias_steers_plan_gate_sample:
  "decide_plan_line (\<lambda>cs. if cs = [48] then Some 0 else None)
     \<lparr>ec_max_cost = 0x4059000000000000, ec_max_rows = 100\<rparr>
     (''Seq Scan on big '' @ CHR 0x22 # ''cost=0..0 rows=1'' @ CHR 0x22
        # ''  (cost=0.00..99999999.00 rows=99999999 width=8)'')
   = Some (EstimateWithin \<lparr>pe_total_cost = 0, pe_rows = 1\<rparr>)"
  by (rule alias_steers_plan_gate) (simp_all add: f64_gt_def f64_is_nan_def f64_key_def)

end
