(* ===== verification/Fuel_Effect.thy ===== *)
theory Fuel_Effect
  imports Base_Prelude
begin

text \<open>
  Effects with loops that may not end: a program is a state-passing function whose result is absent
  while it is still running when its fuel is spent. A small Hoare logic speaks about every stopping
  point: its invariant holds when the program returns, fails or is still running, its postcondition
  when it returns.
\<close>

type_synonym ('s, 'e, 'a) prog = "'s \<Rightarrow> ('e + 'a) option \<times> 's"

definition pret :: "'a \<Rightarrow> ('s, 'e, 'a) prog" where
  "pret x s = (Some (Inr x), s)"

definition pfail :: "'e \<Rightarrow> ('s, 'e, 'a) prog" where
  "pfail e s = (Some (Inl e), s)"

definition prunning :: "('s, 'e, 'a) prog" where
  "prunning s = (None, s)"

definition plift :: "('s, 'e, 'a) eff \<Rightarrow> ('s, 'e, 'a) prog" where
  "plift m s = (case m s of (r, s') \<Rightarrow> (Some r, s'))"

definition pbind :: "('s, 'e, 'a) prog \<Rightarrow> ('a \<Rightarrow> ('s, 'e, 'b) prog) \<Rightarrow> ('s, 'e, 'b) prog" where
  "pbind m f s =
     (case m s of
        (None, s') \<Rightarrow> (None, s')
      | (Some (Inl e), s') \<Rightarrow> (Some (Inl e), s')
      | (Some (Inr x), s') \<Rightarrow> f x s')"

lemma prog_simps [simp]:
  "pret x s = (Some (Inr x), s)" "pfail e s = (Some (Inl e), s)" "prunning s = (None, s)"
  by (simp_all add: pret_def pfail_def prunning_def)

lemma pbind_simps [simp]:
  "m s = (None, s') \<Longrightarrow> pbind m f s = (None, s')"
  "m s = (Some (Inl e), s') \<Longrightarrow> pbind m f s = (Some (Inl e), s')"
  "m s = (Some (Inr x), s') \<Longrightarrow> pbind m f s = f x s'"
  by (simp_all add: pbind_def)

lemma plift_simp [simp]: "m s = (r, s') \<Longrightarrow> plift m s = (Some r, s')"
  by (simp add: plift_def)

section \<open>Hoare logic\<close>

definition hoare ::
  "('s \<Rightarrow> bool) \<Rightarrow> ('s, 'e, 'a) prog \<Rightarrow> ('s \<Rightarrow> bool) \<Rightarrow> ('a \<Rightarrow> 's \<Rightarrow> bool) \<Rightarrow> bool" where
  "hoare P m I Q =
     (\<forall>s. P s \<longrightarrow> (case m s of (r, s') \<Rightarrow> I s' \<and> (\<forall>x. r = Some (Inr x) \<longrightarrow> Q x s')))"

named_theorems hoare_intros "rules that take a program apart"

lemma hoareI:
  "(\<And>s r s'. P s \<Longrightarrow> m s = (r, s') \<Longrightarrow> I s' \<and> (\<forall>x. r = Some (Inr x) \<longrightarrow> Q x s')) \<Longrightarrow> hoare P m I Q"
  by (auto simp: hoare_def split: prod.split)

lemma hoareD:
  "hoare P m I Q \<Longrightarrow> P s \<Longrightarrow> m s = (r, s') \<Longrightarrow> I s' \<and> (\<forall>x. r = Some (Inr x) \<longrightarrow> Q x s')"
  unfolding hoare_def by (drule spec [of _ s]) simp

lemma hoare_ret [hoare_intros]: "(\<And>s. P s \<Longrightarrow> I s \<and> Q x s) \<Longrightarrow> hoare P (pret x) I Q"
  by (simp add: hoare_def)

lemma hoare_fail [hoare_intros]: "(\<And>s. P s \<Longrightarrow> I s) \<Longrightarrow> hoare P (pfail e) I Q"
  by (simp add: hoare_def)

lemma hoare_running [hoare_intros]: "(\<And>s. P s \<Longrightarrow> I s) \<Longrightarrow> hoare P prunning I Q"
  by (simp add: hoare_def)

lemma hoare_bind:
  assumes "hoare P m I R" and "\<And>x. hoare (R x) (f x) I Q"
  shows "hoare P (pbind m f) I Q"
proof (rule hoareI)
  fix s r s' assume "P s" and run: "pbind m f s = (r, s')"
  obtain q s1 where m: "m s = (q, s1)" by fastforce
  note h = hoareD [OF assms(1) \<open>P s\<close> m]
  show "I s' \<and> (\<forall>x. r = Some (Inr x) \<longrightarrow> Q x s')"
  proof (cases "\<exists>x. q = Some (Inr x)")
    case True
    then obtain x where q: "q = Some (Inr x)" by blast
    with h run m hoareD [OF assms(2) [of x], of s1 r s'] show ?thesis by simp
  next
    case False
    then have "s' = s1 \<and> (\<forall>x. r \<noteq> Some (Inr x))"
      using run m by (auto simp: pbind_def split: option.splits sum.splits)
    with h show ?thesis by blast
  qed
qed

lemma hoare_weaken:
  "hoare P m I Q \<Longrightarrow> (\<And>s. P' s \<Longrightarrow> P s) \<Longrightarrow> (\<And>s. I s \<Longrightarrow> I' s) \<Longrightarrow> (\<And>x s. Q x s \<Longrightarrow> Q' x s)
    \<Longrightarrow> hoare P' m I' Q'"
  by (fastforce simp: hoare_def split: prod.splits)

lemma hoare_pre: "hoare P m I Q \<Longrightarrow> (\<And>s. P' s \<Longrightarrow> P s) \<Longrightarrow> hoare P' m I Q"
  by (simp add: hoare_def)

lemma hoare_if [hoare_intros]:
  "(b \<Longrightarrow> hoare P m I Q) \<Longrightarrow> (\<not> b \<Longrightarrow> hoare P m' I Q) \<Longrightarrow> hoare P (if b then m else m') I Q"
  by simp

end
