(* ===== verification/Proxy_Scram.thy ===== *)
theory Proxy_Scram
  imports Base_Prelude
begin

text \<open>
  The server side of SCRAM-SHA-256 (\<^verbatim>\<open>crates/proxy/src/auth.rs\<close>): the verifier derived from the
  agent's password and the two-step handshake, next to the client that RFC 5802 describes. The hash,
  the MAC, the key derivation and the base64 codec are a record of functions.
\<close>

unbundle bit_operations_syntax

section \<open>Primitives and state\<close>

record scram_crypto =
  cr_sha256 :: "bytes \<Rightarrow> bytes"
  cr_hmac :: "bytes \<Rightarrow> bytes \<Rightarrow> bytes"
  cr_hi :: "bytes \<Rightarrow> bytes \<Rightarrow> u32 \<Rightarrow> bytes"
  cr_b64_encode :: "bytes \<Rightarrow> string"
  cr_b64_decode :: "string \<Rightarrow> bytes option"

definition ITERATIONS :: u32 where
  "ITERATIONS = 4096"

definition SALT_LEN :: nat where
  "SALT_LEN = 16"

definition SERVER_NONCE_LEN :: nat where
  "SERVER_NONCE_LEN = 18"

datatype scram_error =
    ScramMalformed string
  | UnsupportedMechanism
  | NonceMismatch
  | BadProof
  | ScramBase64

record scram_verifier =
  sv_salt :: bytes
  sv_iterations :: u32
  sv_stored_key :: bytes
  sv_server_key :: bytes

definition from_password_with_salt :: "scram_crypto \<Rightarrow> string \<Rightarrow> bytes \<Rightarrow> u32 \<Rightarrow> scram_verifier" where
  "from_password_with_salt cr password salt iterations =
     (let salted = cr_hi cr (as_bytes password) salt iterations;
          client_key = cr_hmac cr salted (as_bytes ''Client Key'');
          stored_key = cr_sha256 cr client_key;
          server_key = cr_hmac cr salted (as_bytes ''Server Key'') in
      \<lparr>sv_salt = salt, sv_iterations = iterations, sv_stored_key = stored_key, sv_server_key = server_key\<rparr>)"

text \<open>\<open>salt\<close> and \<open>nonce_bytes\<close> are what the random generator yields.\<close>

definition from_password :: "scram_crypto \<Rightarrow> string \<Rightarrow> bytes \<Rightarrow> scram_verifier" where
  "from_password cr password salt = from_password_with_salt cr password salt ITERATIONS"

record scram_server =
  ss_verifier :: scram_verifier
  ss_server_nonce :: string
  ss_client_first_bare :: "string option"
  ss_server_first :: "string option"
  ss_full_nonce :: "string option"

definition with_server_nonce :: "scram_verifier \<Rightarrow> string \<Rightarrow> scram_server" where
  "with_server_nonce verifier server_nonce =
     \<lparr>ss_verifier = verifier, ss_server_nonce = server_nonce,
      ss_client_first_bare = None, ss_server_first = None, ss_full_nonce = None\<rparr>"

definition scram_server_new :: "scram_crypto \<Rightarrow> scram_verifier \<Rightarrow> bytes \<Rightarrow> scram_server" where
  "scram_server_new cr verifier nonce_bytes = with_server_nonce verifier (cr_b64_encode cr nonce_bytes)"

section \<open>The handshake\<close>

text \<open>What follows the second comma; \<open>commas\<close> counts those already seen.\<close>

fun after_second_comma :: "nat \<Rightarrow> string \<Rightarrow> string option" where
  "after_second_comma commas [] = None"
| "after_second_comma commas (b # rest) =
     (if b = CHR '','' then
        if commas + 1 = 2 then Some rest else after_second_comma (commas + 1) rest
      else after_second_comma commas rest)"

definition strip_gs2_header :: "string \<Rightarrow> scram_error + string" where
  "strip_gs2_header client_first =
     (case after_second_comma 0 client_first of
        None \<Rightarrow> Inl (ScramMalformed ''missing gs2 header'')
      | Some bare \<Rightarrow> Inr bare)"

definition scram_field :: "string \<Rightarrow> char \<Rightarrow> string option" where
  "scram_field msg key =
     (let pre = [key, CHR ''=''] in
      map_option (drop (length pre)) (find (\<lambda>part. take (length pre) part = pre) (split_on CHR '','' msg)))"

definition ok_or :: "'e \<Rightarrow> 'a option \<Rightarrow> 'e + 'a" where
  "ok_or e x = (case x of None \<Rightarrow> Inl e | Some v \<Rightarrow> Inr v)"

definition handle_client_first ::
  "scram_crypto \<Rightarrow> scram_server \<Rightarrow> string \<Rightarrow> (scram_error + string) \<times> scram_server" where
  "handle_client_first cr srv client_first =
     (case rbind (strip_gs2_header client_first) (\<lambda>bare.
             rbind (ok_or (ScramMalformed ''missing r='') (scram_field bare CHR ''r'')) (\<lambda>client_nonce.
             Inr (bare, client_nonce))) of
        Inl e \<Rightarrow> (Inl e, srv)
      | Inr (bare, client_nonce) \<Rightarrow>
          let full_nonce = client_nonce @ ss_server_nonce srv;
              server_first = ''r='' @ full_nonce @ '',s='' @ cr_b64_encode cr (sv_salt (ss_verifier srv))
                @ '',i='' @ decimal (unat (sv_iterations (ss_verifier srv))) in
          (Inr server_first,
           srv\<lparr>ss_client_first_bare := Some bare, ss_server_first := Some server_first,
               ss_full_nonce := Some full_nonce\<rparr>))"

definition handle_client_final :: "scram_crypto \<Rightarrow> scram_server \<Rightarrow> string \<Rightarrow> scram_error + string" where
  "handle_client_final cr srv client_final =
     rbind (ok_or (ScramMalformed ''client-final before client-first'') (ss_client_first_bare srv)) (\<lambda>client_first_bare.
     rbind (ok_or (ScramMalformed ''no server-first'') (ss_server_first srv)) (\<lambda>server_first.
     rbind (ok_or (ScramMalformed ''no nonce'') (ss_full_nonce srv)) (\<lambda>expected_nonce.
     rbind (ok_or (ScramMalformed ''missing c='') (scram_field client_final CHR ''c'')) (\<lambda>channel_binding.
     rbind (ok_or (ScramMalformed ''missing r='') (scram_field client_final CHR ''r'')) (\<lambda>final_nonce.
     rbind (ok_or (ScramMalformed ''missing p='') (scram_field client_final CHR ''p'')) (\<lambda>proof_b64.
     if final_nonce \<noteq> expected_nonce then Inl NonceMismatch
     else
       let client_final_without_proof = ''c='' @ channel_binding @ '',r='' @ final_nonce;
           auth_message = client_first_bare @ '','' @ server_first @ '','' @ client_final_without_proof;
           client_signature = cr_hmac cr (sv_stored_key (ss_verifier srv)) (as_bytes auth_message) in
       rbind (ok_or ScramBase64 (cr_b64_decode cr proof_b64)) (\<lambda>pf.
       if length pf \<noteq> 32 then Inl BadProof
       else
         let client_key = map2 (XOR) pf client_signature;
             recomputed_stored = cr_sha256 cr client_key in
         if recomputed_stored \<noteq> sv_stored_key (ss_verifier srv) then Inl BadProof
         else
           let server_signature = cr_hmac cr (sv_server_key (ss_verifier srv)) (as_bytes auth_message) in
           Inr (''v='' @ cr_b64_encode cr server_signature))))))))"

section \<open>The client of the RFC\<close>

text \<open>
  The proof RFC 5802 prescribes: \<open>ClientKey XOR HMAC(H(ClientKey), AuthMessage)\<close>, where the
  authentication message joins the bare first message, the server's challenge and the final message
  without its proof.
\<close>

definition auth_message :: "string \<Rightarrow> string \<Rightarrow> string \<Rightarrow> string \<Rightarrow> string" where
  "auth_message bare server_first channel_binding nonce =
     bare @ '','' @ server_first @ '',c='' @ channel_binding @ '',r='' @ nonce"

definition client_key :: "scram_crypto \<Rightarrow> string \<Rightarrow> bytes \<Rightarrow> u32 \<Rightarrow> bytes" where
  "client_key cr password salt iterations =
     cr_hmac cr (cr_hi cr (as_bytes password) salt iterations) (as_bytes ''Client Key'')"

definition rfc_proof :: "scram_crypto \<Rightarrow> string \<Rightarrow> bytes \<Rightarrow> u32 \<Rightarrow> string \<Rightarrow> bytes" where
  "rfc_proof cr password salt iterations message =
     (let key = client_key cr password salt iterations in
      map2 (XOR) key (cr_hmac cr (cr_sha256 cr key) (as_bytes message)))"

text \<open>
  What the documentation of the primitives promises: digests and MACs of 32 bytes, and a base64
  codec that inverts and whose alphabet has no comma.
\<close>

definition crypto_ok :: "scram_crypto \<Rightarrow> bool" where
  "crypto_ok cr =
     ((\<forall>k m. length (cr_hmac cr k m) = 32) \<and> (\<forall>b. cr_b64_decode cr (cr_b64_encode cr b) = Some b)
      \<and> (\<forall>b. CHR '','' \<notin> set (cr_b64_encode cr b)))"

lemma map2_xor_cancel:
  fixes a b k :: bytes
  assumes "length a = length k" and "length b = length k"
  shows "map2 (XOR) a k = b \<longleftrightarrow> a = map2 (XOR) b k"
proof -
  have inv: "map2 (XOR) (map2 (XOR) xs ys) ys = xs" if "length xs = length ys" for xs ys :: bytes
    using that by (induction xs ys rule: list_induct2) (simp_all add: xor.assoc)
  show ?thesis using inv [OF assms(1)] inv [OF assms(2)] by metis
qed

lemma ok_or_Inr [simp]: "ok_or e x = Inr v \<longleftrightarrow> x = Some v"
  by (cases x) (simp_all add: ok_or_def)

lemma ok_or_Some [simp]: "ok_or e (Some v) = Inr v"
  by (simp add: ok_or_def)

lemma first_step:
  "handle_client_first cr srv cfirst = (Inr sfirst, srv') \<longleftrightarrow>
     (\<exists>bare nonce. strip_gs2_header cfirst = Inr bare \<and> scram_field bare CHR ''r'' = Some nonce
       \<and> sfirst = ''r='' @ nonce @ ss_server_nonce srv @ '',s='' @ cr_b64_encode cr (sv_salt (ss_verifier srv))
           @ '',i='' @ decimal (unat (sv_iterations (ss_verifier srv)))
       \<and> srv' = srv\<lparr>ss_client_first_bare := Some bare, ss_server_first := Some sfirst,
           ss_full_nonce := Some (nonce @ ss_server_nonce srv)\<rparr>)"
  by (cases "strip_gs2_header cfirst"; cases "scram_field (projr (strip_gs2_header cfirst)) CHR ''r''")
    (auto simp: handle_client_first_def ok_or_def)

lemma final_step:
  assumes "ss_client_first_bare srv = Some bare" and "ss_server_first srv = Some sfirst"
    and "ss_full_nonce srv = Some nonce"
  shows "handle_client_final cr srv cfinal = Inr reply \<longleftrightarrow>
    (\<exists>cb p pf. scram_field cfinal CHR ''c'' = Some cb \<and> scram_field cfinal CHR ''r'' = Some nonce
      \<and> scram_field cfinal CHR ''p'' = Some p \<and> cr_b64_decode cr p = Some pf \<and> length pf = 32
      \<and> cr_sha256 cr (map2 (XOR) pf (cr_hmac cr (sv_stored_key (ss_verifier srv))
          (as_bytes (auth_message bare sfirst cb nonce)))) = sv_stored_key (ss_verifier srv)
      \<and> reply = ''v='' @ cr_b64_encode cr (cr_hmac cr (sv_server_key (ss_verifier srv))
          (as_bytes (auth_message bare sfirst cb nonce))))"
  using assms by (auto simp: handle_client_final_def rbind_Inr_iff auth_message_def)

text \<open>
  C18: the agent gets in exactly with the proof of RFC 5802: after a challenge derived from the
  configured password, a final message is accepted if and only if it echoes the joint nonce of this
  handshake and its proof is the one computed from that password, salt and iteration count over the
  messages exchanged, as long as no other key has the hash of the client key.
\<close>

theorem scram_accepts_exactly_rfc_proof:
  assumes "crypto_ok cr"
    and "\<forall>k. length k = 32 \<longrightarrow> cr_sha256 cr k = cr_sha256 cr (client_key cr password salt iterations)
      \<longrightarrow> k = client_key cr password salt iterations"
    and "handle_client_first cr (with_server_nonce (from_password_with_salt cr password salt iterations) server_nonce)
      cfirst = (Inr sfirst, srv)"
  shows "is_ok (handle_client_final cr srv cfinal) \<longleftrightarrow>
    (\<exists>bare nonce cb p. strip_gs2_header cfirst = Inr bare \<and> scram_field bare CHR ''r'' = Some nonce
      \<and> scram_field cfinal CHR ''c'' = Some cb \<and> scram_field cfinal CHR ''r'' = Some (nonce @ server_nonce)
      \<and> scram_field cfinal CHR ''p'' = Some p
      \<and> cr_b64_decode cr p
        = Some (rfc_proof cr password salt iterations (auth_message bare sfirst cb (nonce @ server_nonce))))"
proof -
  let ?key = "client_key cr password salt iterations"
  obtain bare nonce where first: "strip_gs2_header cfirst = Inr bare" "scram_field bare CHR ''r'' = Some nonce"
    "ss_client_first_bare srv = Some bare" "ss_server_first srv = Some sfirst"
    "ss_full_nonce srv = Some (nonce @ server_nonce)"
    and stored: "sv_stored_key (ss_verifier srv) = cr_sha256 cr ?key"
    using assms(3) by (auto simp: first_step with_server_nonce_def from_password_with_salt_def client_key_def)
  have len: "length (cr_hmac cr k m) = 32" "length ?key = 32" for k m
    using assms(1) by (simp_all add: crypto_ok_def client_key_def)
  have pf: "length pf = 32 \<and> cr_sha256 cr (map2 (XOR) pf (cr_hmac cr (cr_sha256 cr ?key) (as_bytes m))) = cr_sha256 cr ?key
      \<longleftrightarrow> pf = rfc_proof cr password salt iterations m" (is "?l \<longleftrightarrow> ?r") for pf m
  proof -
    let ?sig = "cr_hmac cr (cr_sha256 cr ?key) (as_bytes m)"
    have r: "rfc_proof cr password salt iterations m = map2 (XOR) ?key ?sig"
      by (simp add: rfc_proof_def client_key_def)
    have "?l \<longleftrightarrow> length pf = 32 \<and> map2 (XOR) pf ?sig = ?key"
      using assms(2) len by (auto simp del: split_paired_All)
    also have "\<dots> \<longleftrightarrow> length pf = 32 \<and> pf = map2 (XOR) ?key ?sig"
      using map2_xor_cancel [of pf ?sig ?key] len by auto
    also have "\<dots> \<longleftrightarrow> ?r" using len by (auto simp: r)
    finally show ?thesis .
  qed
  show ?thesis
    unfolding is_ok_iff final_step [OF first(3-5)] stored using first(1,2) pf [THEN iffD1] pf [THEN iffD2, OF refl] by auto
qed

section \<open>The client of the RFC gets in\<close>

text \<open>
  The final message of the client: it reads the nonce, the salt and the iteration count off the
  challenge and proves its password over them, as the client in the tests of the source does.
\<close>

definition rfc_client_final ::
  "scram_crypto \<Rightarrow> string \<Rightarrow> string \<Rightarrow> string \<Rightarrow> string \<Rightarrow> (string \<times> string) option" where
  "rfc_client_final cr password bare channel_binding server_first =
     (case (scram_field server_first CHR ''r'', scram_field server_first CHR ''s'', scram_field server_first CHR ''i'') of
        (Some nonce, Some s, Some i) \<Rightarrow>
          (case (cr_b64_decode cr s, parse_digits i) of
             (Some salt, Some iters) \<Rightarrow>
               let message = auth_message bare server_first channel_binding nonce;
                   salted = cr_hi cr (as_bytes password) salt (word_of_nat iters) in
               Some (''c='' @ channel_binding @ '',r='' @ nonce @ '',p=''
                       @ cr_b64_encode cr (rfc_proof cr password salt (word_of_nat iters) message),
                     ''v='' @ cr_b64_encode cr (cr_hmac cr (cr_hmac cr salted (as_bytes ''Server Key'')) (as_bytes message)))
           | _ \<Rightarrow> None)
      | _ \<Rightarrow> None)"

lemma after_second_comma_gs2:
  assumes "CHR '','' \<notin> set flag" and "CHR '','' \<notin> set authz"
  shows "strip_gs2_header (flag @ CHR '','' # authz @ CHR '','' # bare) = Inr bare"
proof -
  have "after_second_comma 1 (authz @ CHR '','' # bare) = Some bare" using assms(2) by (induction authz) auto
  then have "after_second_comma 0 (flag @ CHR '','' # authz @ CHR '','' # bare) = Some bare"
    using assms(1) by (induction flag) auto
  then show ?thesis by (simp add: strip_gs2_header_def)
qed

lemma scram_field_here:
  "CHR '','' \<notin> set v \<Longrightarrow> key \<noteq> CHR '','' \<Longrightarrow> scram_field (key # CHR ''='' # v) key = Some v"
  "CHR '','' \<notin> set v \<Longrightarrow> key \<noteq> CHR '','' \<Longrightarrow> scram_field (key # CHR ''='' # v @ CHR '','' # rest) key = Some v"
  using split_on_none [of "CHR '',''" "key # CHR ''='' # v"] split_on_append [of "CHR '',''" "key # CHR ''='' # v" rest]
  by (auto simp: scram_field_def simp del: split_on.simps)

lemma scram_field_later:
  assumes "CHR '','' \<notin> set v" and "k \<noteq> CHR '',''" and "k \<noteq> key"
  shows "scram_field (k # CHR ''='' # v @ CHR '','' # rest) key = scram_field rest key"
  using split_on_append [of "CHR '',''" "k # CHR ''='' # v" rest] assms
  by (auto simp: scram_field_def simp del: split_on.simps)

lemmas scram_fields =
  scram_field_here scram_field_later
  scram_field_here(2) [of "v @ w" for v w, simplified] scram_field_later [of "v @ w" for v w, simplified]

lemma decimal_no_comma [simp]: "CHR '','' \<notin> set (decimal n)"
  using decimal_digits [of "CHR '',''" n] by auto

text \<open>
  The right password always authenticates, both ways: whatever the user name, the random salt
  and the nonces are, the client of RFC 5802 that knows the password answers the challenge with a
  message the server accepts, and the server's reply is the signature that client expects.
\<close>

lemma rfc_client_authenticates:
  assumes cr: "crypto_ok cr" and gs2: "CHR '','' \<notin> set flag" "CHR '','' \<notin> set authz"
    and names: "CHR '','' \<notin> set user" "CHR '','' \<notin> set nonce" "CHR '','' \<notin> set cb"
  shows "\<exists>sfirst srv cfinal reply.
    handle_client_first cr (scram_server_new cr (from_password cr password salt) nonce_bytes)
      (flag @ '','' @ authz @ '',n='' @ user @ '',r='' @ nonce) = (Inr sfirst, srv)
    \<and> rfc_client_final cr password (''n='' @ user @ '',r='' @ nonce) cb sfirst = Some (cfinal, reply)
    \<and> handle_client_final cr srv cfinal = Inr reply"
proof -
  let ?bare = "''n='' @ user @ '',r='' @ nonce"
  let ?srv = "scram_server_new cr (from_password cr password salt) nonce_bytes"
  let ?full = "nonce @ cr_b64_encode cr nonce_bytes"
  let ?sfirst = "''r='' @ ?full @ '',s='' @ cr_b64_encode cr salt @ '',i='' @ decimal (unat ITERATIONS)"
  let ?srv' = "?srv\<lparr>ss_client_first_bare := Some ?bare, ss_server_first := Some ?sfirst, ss_full_nonce := Some ?full\<rparr>"
  let ?msg = "auth_message ?bare ?sfirst cb ?full"
  let ?proof = "rfc_proof cr password salt ITERATIONS ?msg"
  let ?reply = "''v='' @ cr_b64_encode cr (cr_hmac cr (cr_hmac cr (cr_hi cr (as_bytes password) salt ITERATIONS)
      (as_bytes ''Server Key'')) (as_bytes ?msg))"
  let ?cfinal = "''c='' @ cb @ '',r='' @ ?full @ '',p='' @ cr_b64_encode cr ?proof"
  have b64: "CHR '','' \<notin> set (cr_b64_encode cr b)" "cr_b64_decode cr (cr_b64_encode cr b) = Some b" for b
    using cr by (simp_all add: crypto_ok_def)
  have srv: "ss_verifier ?srv = from_password_with_salt cr password salt ITERATIONS"
    "ss_server_nonce ?srv = cr_b64_encode cr nonce_bytes"
    by (simp_all add: scram_server_new_def with_server_nonce_def from_password_def)
  have verifier: "sv_salt (ss_verifier ?srv) = salt" "sv_iterations (ss_verifier ?srv) = ITERATIONS"
    "sv_stored_key (ss_verifier ?srv) = cr_sha256 cr (client_key cr password salt ITERATIONS)"
    "sv_server_key (ss_verifier ?srv) = cr_hmac cr (cr_hi cr (as_bytes password) salt ITERATIONS) (as_bytes ''Server Key'')"
    by (simp_all add: srv from_password_with_salt_def client_key_def)
  have "scram_field ?bare CHR ''r'' = Some nonce"
    using names by (simp add: scram_fields)
  then have first: "handle_client_first cr ?srv (flag @ '','' @ authz @ '',n='' @ user @ '',r='' @ nonce) = (Inr ?sfirst, ?srv')"
    using after_second_comma_gs2 [OF gs2, of ?bare] by (simp add: first_step srv(2) verifier)
  have client: "rfc_client_final cr password ?bare cb ?sfirst = Some (?cfinal, ?reply)"
    using names b64 by (simp add: rfc_client_final_def scram_fields)
  have len: "length (cr_hmac cr k m) = 32" "length (client_key cr password salt ITERATIONS) = 32" for k m
    using cr by (simp_all add: crypto_ok_def client_key_def)
  have "handle_client_final cr ?srv' ?cfinal = Inr ?reply"
    using names b64 len
    by (subst final_step [of _ ?bare ?sfirst ?full])
      (simp_all add: scram_fields verifier rfc_proof_def xor.assoc map2_xor_cancel [THEN iffD2, OF _ _ refl])
  with first client show ?thesis by blast
qed

section \<open>Sample primitives\<close>

definition sample_hex_encode :: "bytes \<Rightarrow> string" where
  "sample_hex_encode bs = concat (map (\<lambda>b. [char_of (65 + unat b div 16), char_of (65 + unat b mod 16)]) bs)"

fun sample_hex_decode :: "string \<Rightarrow> bytes option" where
  "sample_hex_decode [] = Some []"
| "sample_hex_decode (a # b # r) =
     map_option (\<lambda>bs. word_of_nat ((of_char a - 65) * 16 + (of_char b - 65)) # bs) (sample_hex_decode r)"
| "sample_hex_decode [_] = None"

definition sample_crypto :: scram_crypto where
  "sample_crypto =
     \<lparr>cr_sha256 = id, cr_hmac = (\<lambda>k m. take 32 (m @ k @ replicate 32 0)), cr_hi = (\<lambda>p s i. p @ s),
      cr_b64_encode = sample_hex_encode, cr_b64_decode = sample_hex_decode\<rparr>"

lemma hex_decode_sample: "sample_hex_decode (sample_hex_encode bs) = Some bs"
proof (induction bs)
  case (Cons b bs)
  have "unat b < 256" using unsigned_less [where w = b and 'a = nat] by simp
  then have "(of_char (char_of (65 + unat b div 16) :: char) - 65) * 16 + (of_char (char_of (65 + unat b mod 16) :: char) - 65) = unat b"
    by simp
  with Cons show ?case by (simp add: sample_hex_encode_def)
qed (simp add: sample_hex_encode_def)

lemma sample_hex_encode_no_comma: "CHR '','' \<notin> set (sample_hex_encode bs)"
proof -
  have "CHR '','' \<noteq> char_of (65 + unat b div 16)" "CHR '','' \<noteq> char_of (65 + unat b mod 16)" for b :: u8
  proof -
    have "unat b < 256" using unsigned_less [where w = b and 'a = nat] by simp
    then have "of_char CHR '','' \<noteq> (of_char (char_of (65 + unat b div 16) :: char) :: nat)"
      "of_char CHR '','' \<noteq> (of_char (char_of (65 + unat b mod 16) :: char) :: nat)" by simp_all
    then show "CHR '','' \<noteq> char_of (65 + unat b div 16)" "CHR '','' \<noteq> char_of (65 + unat b mod 16)" by metis+
  qed
  then show ?thesis by (auto simp: sample_hex_encode_def)
qed

lemma sample_crypto_ok: "crypto_ok sample_crypto"
  by (auto simp: crypto_ok_def sample_crypto_def hex_decode_sample sample_hex_encode_no_comma min_def)

theorem scram_accepts_exactly_rfc_proof_witness:
  "\<exists>sfirst srv cfinal. handle_client_first sample_crypto
      (with_server_nonce (from_password_with_salt sample_crypto ''pw'' [1] 4096) ''XYZ'') ''n,,n=u,r=abc'' = (Inr sfirst, srv)
    \<and> cfinal = ''c=biws,r=abcXYZ,p='' @ sample_hex_encode (rfc_proof sample_crypto ''pw'' [1] 4096
        (auth_message ''n=u,r=abc'' sfirst ''biws'' ''abcXYZ''))
    \<and> is_ok (handle_client_final sample_crypto srv cfinal)"
proof -
  obtain sfirst srv where first: "handle_client_first sample_crypto
      (with_server_nonce (from_password_with_salt sample_crypto ''pw'' [1] 4096) ''XYZ'') ''n,,n=u,r=abc'' = (Inr sfirst, srv)"
    by (auto simp: first_step strip_gs2_header_def scram_field_def)
  let ?cfinal = "''c=biws,r=abcXYZ,p='' @ sample_hex_encode (rfc_proof sample_crypto ''pw'' [1] 4096
      (auth_message ''n=u,r=abc'' sfirst ''biws'' ''abcXYZ''))"
  have pre: "\<forall>k. length k = 32 \<longrightarrow> cr_sha256 sample_crypto k = cr_sha256 sample_crypto (client_key sample_crypto ''pw'' [1] 4096)
      \<longrightarrow> k = client_key sample_crypto ''pw'' [1] 4096"
    by (simp add: sample_crypto_def)
  have f: "strip_gs2_header ''n,,n=u,r=abc'' = Inr ''n=u,r=abc''" "scram_field ''n=u,r=abc'' CHR ''r'' = Some ''abc''"
    by (simp_all add: strip_gs2_header_def scram_field_def)
  have g: "scram_field ?cfinal CHR ''c'' = Some ''biws''" "scram_field ?cfinal CHR ''r'' = Some ''abcXYZ''"
    "scram_field ?cfinal CHR ''p'' = Some (sample_hex_encode (rfc_proof sample_crypto ''pw'' [1] 4096
      (auth_message ''n=u,r=abc'' sfirst ''biws'' ''abcXYZ'')))"
    using scram_fields(1,2) [of "''biws''" "CHR ''c''"] scram_fields(1,2) [of "''abcXYZ''" "CHR ''r''"]
      scram_fields(3) [of "''biws''" "CHR ''c''"] scram_fields(3) [of "''abcXYZ''" "CHR ''r''"]
      scram_fields(1) [OF sample_hex_encode_no_comma]
    by simp_all
  have "is_ok (handle_client_final sample_crypto srv ?cfinal)"
    unfolding scram_accepts_exactly_rfc_proof [OF sample_crypto_ok pre first]
    using f g hex_decode_sample by (simp add: sample_crypto_def)
  with first show ?thesis by blast
qed

lemma rfc_client_authenticates_sample:
  "\<exists>sfirst srv cfinal reply.
    handle_client_first sample_crypto
      (scram_server_new sample_crypto (from_password sample_crypto ''pw'' [1, 2]) [3]) ''n,,n=anyone,r=abc'' = (Inr sfirst, srv)
    \<and> rfc_client_final sample_crypto ''pw'' ''n=anyone,r=abc'' ''biws'' sfirst = Some (cfinal, reply)
    \<and> handle_client_final sample_crypto srv cfinal = Inr reply"
  using rfc_client_authenticates [OF sample_crypto_ok, of "''n''" "[]" "''anyone''" "''abc''" "''biws''" "''pw''" "[1, 2]" "[3]"]
  by simp

end
