(* ===== verification/Proxy_Session.thy ===== *)
theory Proxy_Session
  imports Proxy_Gate Proxy_Meter Proxy_Scram Wire_Backend Audit_Chain Fuel_Effect
begin

text \<open>
  The enforced query loop of one agent connection (\<^verbatim>\<open>crates/proxy/src/session.rs\<close>) with the audit
  recorder (\<^verbatim>\<open>crates/proxy/src/recorder.rs\<close>): frames from the agent are gated, allowed ones go to
  the backend, and the backend's answer is relayed under both meters. The sockets, the audit sink
  and the clock are a record of operations on an arbitrary environment, and the loops carry fuel,
  which counts iterations.
\<close>

section \<open>Messages and errors\<close>

text \<open>The formatted texts the loop produces, one constructor each, with the values they show.\<close>

datatype proxy_message =
    GateText gate_message
  | MalformedFrameText
  | DecodeErrorText protocol_error
  | PlanExceededText estimate_dim plan_estimate explain_ceiling
  | PlanFailText fail_reason
  | CutoffText cap u64 u64
  | WindowCutoffText window_cap u64 u64

datatype backend_failure =
    ClosedDuringExplain
  | ClosedMidResult
  | CopyCutOff proxy_message
  | WindowKilled proxy_message
  | ClosedDuringStartup
  | ClosedMidCommand
  | BackendAuthUnsupported
  | StartupRejected string
  | BackendError string

datatype session_error =
    IoError
  | ProtocolFailure protocol_error
  | AuthFailure scram_error
  | Handshake string
  | AuditFailure string
  | BackendFailure backend_failure
  | Panicked

datatype agent_write = Forwarded raw_frame | SentToAgent backend_message

datatype backend_write = Relayed raw_frame | SentToBackend frontend_message | SentStartup startup_message

text \<open>The bytes of a write: a frame is re-encoded with its tag and length, a message is encoded.\<close>

definition forward_frame :: "raw_frame \<Rightarrow> bytes" where
  "forward_frame f = rf_tag f # i32_be (word_of_nat (4 + length (rf_body f))) @ rf_body f"

fun agent_bytes :: "agent_write \<Rightarrow> bytes" where
  "agent_bytes (Forwarded f) = forward_frame f"
| "agent_bytes (SentToAgent m) = backend_encode m"

fun backend_bytes :: "backend_write \<Rightarrow> bytes" where
  "backend_bytes (Relayed f) = forward_frame f"
| "backend_bytes (SentToBackend m) = frontend_encode m"
| "backend_bytes (SentStartup m) = startup_encode m"

record ('i, 's) proxy_io =
  io_read_agent :: "('s, session_error, raw_frame option) eff"
  io_write_agent :: "agent_write \<Rightarrow> ('s, session_error, unit) eff"
  io_read_backend :: "('s, session_error, raw_frame option) eff"
  io_write_backend :: "backend_write \<Rightarrow> ('s, session_error, unit) eff"
  io_shutdown_backend :: "'s \<Rightarrow> 's"
  io_append :: "'i new_entry \<Rightarrow> u64 \<Rightarrow> ('s, string, unit) eff"
  io_clock :: "'s \<Rightarrow> clock \<times> 's"

text \<open>
  What a connection is served with: the role and session it audits, the role's budget, the
  classifier, the SQL parser, the decimal conversion, the intent tiers of a statement, and the
  rendering of the texts.
\<close>

record 'i session_cfg =
  sc_role :: string
  sc_session_id :: string
  sc_budget :: role_budget
  sc_classify :: "string \<Rightarrow> classification \<times> not_read_reason option"
  sc_is_explain :: "string \<Rightarrow> bool"
  sc_parse_f64 :: "nat list \<Rightarrow> u64 option"
  sc_intent :: "string \<Rightarrow> string \<Rightarrow> 'i"
  sc_render :: "proxy_message \<Rightarrow> string"

section \<open>The recorder\<close>

definition decision_entry ::
  "'i session_cfg \<Rightarrow> string \<Rightarrow> decision \<Rightarrow> string \<Rightarrow> string option \<Rightarrow> 'i new_entry" where
  "decision_entry cfg statement_text decision reason_code reason =
     \<lparr>ne_statement_text = statement_text, ne_decision = decision,
      ne_reason_code = reason_code, ne_reason = reason,
      ne_principal = \<lparr>ap_role = sc_role cfg, ap_session_id = Some (sc_session_id cfg), ap_principal = None\<rparr>,
      ne_intent = sc_intent cfg (sc_role cfg) statement_text,
      ne_write_safety = \<lparr>ws_dry_run_id = None, ws_blast_radius_ref = None\<rparr>\<rparr>"

definition record_decision ::
  "('i, 's) proxy_io \<Rightarrow> 'i session_cfg \<Rightarrow> string \<Rightarrow> decision \<Rightarrow> string \<Rightarrow> string option
    \<Rightarrow> ('s, session_error, unit) prog" where
  "record_decision io cfg statement_text decision reason_code reason s =
     (case io_clock io s of (clk, s1) \<Rightarrow>
      case io_append io (decision_entry cfg statement_text decision reason_code reason) (now_unix_millis clk) s1 of
        (Inl e, s2) \<Rightarrow> (Some (Inl (AuditFailure e)), s2)
      | (Inr _, s2) \<Rightarrow> (Some (Inr ()), s2))"

definition record_allow :: "('i, 's) proxy_io \<Rightarrow> 'i session_cfg \<Rightarrow> string \<Rightarrow> ('s, session_error, unit) prog" where
  "record_allow io cfg sql = record_decision io cfg sql DecisionAllow ''ok'' None"

definition record_block ::
  "('i, 's) proxy_io \<Rightarrow> 'i session_cfg \<Rightarrow> string \<Rightarrow> string \<Rightarrow> string option \<Rightarrow> ('s, session_error, unit) prog" where
  "record_block io cfg sql code reason = record_decision io cfg sql DecisionBlock code reason"

definition record_reject ::
  "('i, 's) proxy_io \<Rightarrow> 'i session_cfg \<Rightarrow> string \<Rightarrow> string \<Rightarrow> string option \<Rightarrow> ('s, session_error, unit) prog" where
  "record_reject io cfg sql code reason = record_decision io cfg sql DecisionReject code reason"

section \<open>Errors to the agent\<close>

definition error_response :: "string \<Rightarrow> string \<Rightarrow> backend_message" where
  "error_response code message =
     ErrorResponse [(ascii CHR ''S'', ''ERROR''), (ascii CHR ''V'', ''ERROR''),
       (ascii CHR ''C'', code), (ascii CHR ''M'', message)]"

definition send_error_then_ready ::
  "('i, 's) proxy_io \<Rightarrow> string \<Rightarrow> string \<Rightarrow> ('s, session_error, unit) prog" where
  "send_error_then_ready io code message =
     pbind (plift (io_write_agent io (SentToAgent (error_response code message)))) (\<lambda>_.
     plift (io_write_agent io (SentToAgent (ReadyForQuery Idle))))"

definition diag :: "(u8 \<times> string) list \<Rightarrow> string" where
  "diag flds =
     (let get = (\<lambda>k. case find (\<lambda>(c, _). c = k) flds of None \<Rightarrow> ''?'' | Some (_, v) \<Rightarrow> v) in
      get (ascii CHR ''M'') @ '' ('' @ get (ascii CHR ''C'') @ '')'')"

section \<open>The plan-cost pre-flight\<close>

text \<open>
  \<^verbatim>\<open>String::from_utf8_lossy\<close>: every maximal invalid piece becomes the replacement character.
\<close>

definition replacement :: bytes where
  "replacement = [0xEF, 0xBF, 0xBD]"

fun lossy :: "bytes \<Rightarrow> bytes" where
  "lossy [] = []"
| "lossy (a # r) =
     (if a \<le> 0x7F then a # lossy r
      else if 0xC2 \<le> a \<and> a \<le> 0xDF then
        (case r of
           b # r' \<Rightarrow> if cont_byte b then a # b # lossy r' else replacement @ lossy r
         | [] \<Rightarrow> replacement)
      else if 0xE0 \<le> a \<and> a \<le> 0xEF then
        (case r of
           b # r' \<Rightarrow>
             if cont_byte b \<and> (a = 0xE0 \<longrightarrow> 0xA0 \<le> b) \<and> (a = 0xED \<longrightarrow> b \<le> 0x9F) then
               (case r' of
                  c # r'' \<Rightarrow> if cont_byte c then a # b # c # lossy r'' else replacement @ lossy r'
                | [] \<Rightarrow> replacement)
             else replacement @ lossy r
         | [] \<Rightarrow> replacement)
      else if 0xF0 \<le> a \<and> a \<le> 0xF4 then
        (case r of
           b # r' \<Rightarrow>
             if cont_byte b \<and> (a = 0xF0 \<longrightarrow> 0x90 \<le> b) \<and> (a = 0xF4 \<longrightarrow> b \<le> 0x8F) then
               (case r' of
                  c # r'' \<Rightarrow>
                    if cont_byte c then
                      (case r'' of
                         d # r3 \<Rightarrow>
                           if cont_byte d then a # b # c # d # lossy r3 else replacement @ lossy r''
                       | [] \<Rightarrow> replacement)
                    else replacement @ lossy r'
                | [] \<Rightarrow> replacement)
             else replacement @ lossy r
         | [] \<Rightarrow> replacement)
      else replacement @ lossy r)"

definition send_extended_unit :: "('i, 's) proxy_io \<Rightarrow> string \<Rightarrow> ('s, session_error, unit) prog" where
  "send_extended_unit io sql =
     pbind (plift (io_write_backend io (SentToBackend (Parse [] sql [])))) (\<lambda>_.
     pbind (plift (io_write_backend io (SentToBackend (Bind [] [] [0, 0, 0, 0, 0, 0])))) (\<lambda>_.
     pbind (plift (io_write_backend io (SentToBackend (Execute [] 0)))) (\<lambda>_.
     plift (io_write_backend io (SentToBackend Sync)))))"

fun explain_loop ::
  "nat \<Rightarrow> ('i, 's) proxy_io \<Rightarrow> string option \<Rightarrow> string option
    \<Rightarrow> ('s, session_error, string + string option) prog" where
  "explain_loop 0 io first_line explain_error = prunning"
| "explain_loop (Suc n) io first_line explain_error =
     pbind (plift (io_read_backend io)) (\<lambda>fr.
       case fr of
         None \<Rightarrow> pfail (BackendFailure ClosedDuringExplain)
       | Some frame \<Rightarrow>
           if rf_tag frame = ascii CHR ''D'' \<and> first_line = None \<and> explain_error = None then
             explain_loop n io
               (case backend_decode (ascii CHR ''D'') (rf_body frame) of
                  Inr (DataRow (Some col # _)) \<Rightarrow> Some (str_of_bytes (lossy col))
                | _ \<Rightarrow> first_line)
               explain_error
           else if rf_tag frame = ascii CHR ''E'' then
             explain_loop n io first_line
               (case backend_decode (ascii CHR ''E'') (rf_body frame) of
                  Inr (ErrorResponse flds) \<Rightarrow> Some (diag flds)
                | _ \<Rightarrow> explain_error)
           else if rf_tag frame = ascii CHR ''Z'' then
             pret (case explain_error of Some err \<Rightarrow> Inl err | None \<Rightarrow> Inr first_line)
           else explain_loop n io first_line explain_error)"

definition run_explain_on_backend ::
  "nat \<Rightarrow> ('i, 's) proxy_io \<Rightarrow> string \<Rightarrow> ('s, session_error, string + string option) prog" where
  "run_explain_on_backend n io sql =
     pbind (send_extended_unit io (explain_wrap sql)) (\<lambda>_. explain_loop n io None None)"

record pending_error =
  pd_code :: string
  pd_message :: string

definition explain_preflight ::
  "nat \<Rightarrow> ('i, 's) proxy_io \<Rightarrow> 'i session_cfg \<Rightarrow> string \<Rightarrow> ('s, session_error, pending_error option) prog" where
  "explain_preflight n io cfg sql =
     (let ceil = ceiling_for_role (sc_budget cfg) in
      if sc_is_explain cfg sql then pret None
      else pbind (run_explain_on_backend n io sql) (\<lambda>res.
        case (case res of
                Inl reason \<Rightarrow> Some (FailClosed (FailBackend reason))
              | Inr None \<Rightarrow> Some (FailClosed FailNoPlanRow)
              | Inr (Some line) \<Rightarrow> decide_plan_line (sc_parse_f64 cfg) ceil line) of
          None \<Rightarrow> pfail Panicked
        | Some (EstimateWithin _) \<Rightarrow> pret None
        | Some (EstimateExceeded dim estimate) \<Rightarrow>
            let message = sc_render cfg (PlanExceededText dim estimate ceil) in
            pbind (record_block io cfg sql (dim_code dim) (Some message)) (\<lambda>_.
            pret (Some \<lparr>pd_code = ''53400'', pd_message = message\<rparr>))
        | Some (FailClosed reason) \<Rightarrow>
            let message = sc_render cfg (PlanFailText reason) in
            pbind (record_block io cfg sql EXPLAIN_FAIL_CLOSED_CODE (Some message)) (\<lambda>_.
            pret (Some \<lparr>pd_code = ''42501'', pd_message = message\<rparr>))))"

section \<open>The metered relay\<close>

record relay_state =
  rs_budget :: budget
  rs_cut_off :: bool
  rs_in_copy :: bool
  rs_window :: window_meter

datatype relay_flow = RelayContinue relay_state | RelayDone window_meter

definition forward_to_agent ::
  "('i, 's) proxy_io \<Rightarrow> raw_frame \<Rightarrow> relay_flow \<Rightarrow> ('s, session_error, relay_flow) prog" where
  "forward_to_agent io frame next =
     pbind (plift (io_write_agent io (Forwarded frame))) (\<lambda>_. pret next)"

definition shutdown_and_fail ::
  "('i, 's) proxy_io \<Rightarrow> backend_failure \<Rightarrow> ('s, session_error, relay_flow) prog" where
  "shutdown_and_fail io why s = (Some (Inl (BackendFailure why)), io_shutdown_backend io s)"

text \<open>The cumulative window, charged at the clock reading \<open>clk\<close> once the single-shot charge is taken.\<close>

definition relay_window ::
  "('i, 's) proxy_io \<Rightarrow> 'i session_cfg \<Rightarrow> raw_frame \<Rightarrow> relay_state \<Rightarrow> clock \<Rightarrow> ('s, session_error, relay_flow) prog" where
  "relay_window io cfg frame rs clk =
     (case window_charge (word_of_nat (length (rf_body frame))) 1 clk (rs_window rs) of
        (WindowWithin _ _, w) \<Rightarrow> forward_to_agent io frame (RelayContinue (rs\<lparr>rs_window := w\<rparr>))
      | (WindowExceeded which used_b used_r, w) \<Rightarrow>
          let message = WindowCutoffText which used_b used_r;
              text = sc_render cfg message in
          pbind (record_block io cfg ''<result stream>'' (window_cap_code which) (Some text)) (\<lambda>_.
          pbind (plift (io_write_agent io (SentToAgent (error_response ''53400'' text)))) (\<lambda>_.
          shutdown_and_fail io (WindowKilled message))))"

definition relay_payload ::
  "('i, 's) proxy_io \<Rightarrow> 'i session_cfg \<Rightarrow> raw_frame \<Rightarrow> relay_state \<Rightarrow> ('s, session_error, relay_flow) prog" where
  "relay_payload io cfg frame rs =
     (case charge_row (word_of_nat (length (rf_body frame))) (rs_budget rs) of
        (BudgetExceeded which used_b used_r, b) \<Rightarrow>
          let rs' = rs\<lparr>rs_budget := b, rs_cut_off := True\<rparr>;
              message = CutoffText which used_b used_r;
              text = sc_render cfg message in
          pbind (record_block io cfg ''<result stream>'' (cap_code which) (Some text)) (\<lambda>_.
          pbind (plift (io_write_agent io (SentToAgent (error_response ''53400'' text)))) (\<lambda>_.
          if rs_in_copy rs then shutdown_and_fail io (CopyCutOff message)
          else pret (RelayContinue rs')))
      | (BudgetWithin _ _, b) \<Rightarrow>
          (\<lambda>s. case io_clock io s of (clk, s1) \<Rightarrow> relay_window io cfg frame (rs\<lparr>rs_budget := b\<rparr>) clk s1))"

definition relay_frame ::
  "('i, 's) proxy_io \<Rightarrow> 'i session_cfg \<Rightarrow> raw_frame \<Rightarrow> relay_state \<Rightarrow> ('s, session_error, relay_flow) prog" where
  "relay_frame io cfg frame rs =
     (if backend_starts_copy frame then
        let rs' = rs\<lparr>rs_in_copy := True\<rparr> in
        if \<not> rs_cut_off rs then forward_to_agent io frame (RelayContinue rs') else pret (RelayContinue rs')
      else if rf_tag frame = ascii CHR ''Z'' then forward_to_agent io frame (RelayDone (rs_window rs))
      else if rf_tag frame = ascii CHR ''c'' \<and> rs_in_copy rs then
        let rs' = rs\<lparr>rs_in_copy := False\<rparr> in
        if \<not> rs_cut_off rs then forward_to_agent io frame (RelayContinue rs') else pret (RelayContinue rs')
      else if rf_tag frame \<in> {ascii CHR ''D'', ascii CHR ''d''} \<and> \<not> rs_cut_off rs then
        relay_payload io cfg frame rs
      else if rf_tag frame \<in> {ascii CHR ''D'', ascii CHR ''d'', ascii CHR ''C''} \<and> rs_cut_off rs then
        pret (RelayContinue rs)
      else forward_to_agent io frame (RelayContinue rs))"

fun relay_loop ::
  "nat \<Rightarrow> ('i, 's) proxy_io \<Rightarrow> 'i session_cfg \<Rightarrow> relay_state \<Rightarrow> ('s, session_error, window_meter) prog" where
  "relay_loop 0 io cfg rs = prunning"
| "relay_loop (Suc n) io cfg rs =
     pbind (plift (io_read_backend io)) (\<lambda>fr.
       case fr of
         None \<Rightarrow> pfail (BackendFailure ClosedMidResult)
       | Some frame \<Rightarrow>
           pbind (relay_frame io cfg frame rs) (\<lambda>flow.
             case flow of RelayDone w \<Rightarrow> pret w | RelayContinue rs' \<Rightarrow> relay_loop n io cfg rs'))"

definition relay_until_ready ::
  "nat \<Rightarrow> ('i, 's) proxy_io \<Rightarrow> 'i session_cfg \<Rightarrow> window_meter \<Rightarrow> ('s, session_error, window_meter) prog" where
  "relay_until_ready n io cfg w =
     relay_loop n io cfg
       \<lparr>rs_budget = budget_for_role (sc_budget cfg), rs_cut_off = False, rs_in_copy = False, rs_window = w\<rparr>"

section \<open>The query loop\<close>

record query_state =
  qs_window :: window_meter
  qs_pending :: "pending_error option"

definition query_allowed ::
  "nat \<Rightarrow> ('i, 's) proxy_io \<Rightarrow> 'i session_cfg \<Rightarrow> raw_frame \<Rightarrow> frontend_message \<Rightarrow> query_state
    \<Rightarrow> ('s, session_error, query_state option) prog" where
  "query_allowed n io cfg frame msg st =
     pbind (plift (io_write_backend io (Relayed frame))) (\<lambda>_.
       if msg = Sync
       then pbind (relay_until_ready n io cfg (qs_window st)) (\<lambda>w. pret (Some (st\<lparr>qs_window := w\<rparr>)))
       else pret (Some st))"

definition query_message ::
  "nat \<Rightarrow> ('i, 's) proxy_io \<Rightarrow> 'i session_cfg \<Rightarrow> raw_frame \<Rightarrow> frontend_message \<Rightarrow> query_state
    \<Rightarrow> ('s, session_error, query_state option) prog" where
  "query_message n io cfg frame msg st =
     (case gate (sc_classify cfg) msg of
        GateAllow None \<Rightarrow> query_allowed n io cfg frame msg st
      | GateAllow (Some sql) \<Rightarrow>
          pbind (explain_preflight n io cfg sql) (\<lambda>pe.
            case pe of
              Some p \<Rightarrow> pret (Some (st\<lparr>qs_pending := Some p\<rparr>))
            | None \<Rightarrow> pbind (record_allow io cfg sql) (\<lambda>_. query_allowed n io cfg frame msg st))
      | GateBlock sql code message \<Rightarrow>
          let text = sc_render cfg (GateText message) in
          pbind (record_block io cfg sql code (Some text)) (\<lambda>_.
          pret (Some (st\<lparr>qs_pending := Some \<lparr>pd_code = ''42501'', pd_message = text\<rparr>\<rparr>)))
      | GateReject _ code message \<Rightarrow>
          let text = sc_render cfg (GateText message);
              stmt = (case msg of Query sql \<Rightarrow> sql
                      | _ \<Rightarrow> ''<'' @ [char_of (unat (rf_tag frame))] @ '' frame>'') in
          pbind (record_reject io cfg stmt code (Some text)) (\<lambda>_.
          case msg of
            Query _ \<Rightarrow> pbind (send_error_then_ready io ''0A000'' text) (\<lambda>_. pret (Some st))
          | _ \<Rightarrow> pret (Some (st\<lparr>qs_pending := Some \<lparr>pd_code = ''0A000'', pd_message = text\<rparr>\<rparr>))))"

definition query_frame ::
  "nat \<Rightarrow> ('i, 's) proxy_io \<Rightarrow> 'i session_cfg \<Rightarrow> raw_frame \<Rightarrow> query_state
    \<Rightarrow> ('s, session_error, query_state option) prog" where
  "query_frame n io cfg frame st =
     (case frontend_decode (rf_tag frame) (rf_body frame) of
        Inl e \<Rightarrow>
          if qs_pending st = None then
            pbind (record_reject io cfg ''<undecodable frame>'' ''malformed_frame''
                     (Some (sc_render cfg (DecodeErrorText e)))) (\<lambda>_.
            pret (Some (st\<lparr>qs_pending :=
              Some \<lparr>pd_code = ''08P01'', pd_message = sc_render cfg MalformedFrameText\<rparr>\<rparr>)))
          else pret (Some st)
      | Inr msg \<Rightarrow>
          if msg = Terminate then pret None
          else case qs_pending st of
            Some err \<Rightarrow>
              if msg = Sync
              then pbind (send_error_then_ready io (pd_code err) (pd_message err)) (\<lambda>_.
                pret (Some (st\<lparr>qs_pending := None\<rparr>)))
              else pret (Some st)
          | None \<Rightarrow> query_message n io cfg frame msg st)"

fun query_loop ::
  "nat \<Rightarrow> ('i, 's) proxy_io \<Rightarrow> 'i session_cfg \<Rightarrow> query_state \<Rightarrow> ('s, session_error, unit) prog" where
  "query_loop 0 io cfg st = prunning"
| "query_loop (Suc n) io cfg st =
     pbind (plift (io_read_agent io)) (\<lambda>fr.
       case fr of
         None \<Rightarrow> pret ()
       | Some frame \<Rightarrow>
           pbind (query_frame n io cfg frame st) (\<lambda>next.
             case next of None \<Rightarrow> pret () | Some st' \<Rightarrow> query_loop n io cfg st'))"

definition query_session ::
  "nat \<Rightarrow> ('i, 's) proxy_io \<Rightarrow> 'i session_cfg \<Rightarrow> ('s, session_error, unit) prog" where
  "query_session n io cfg =
     query_loop n io cfg \<lparr>qs_window = for_window (rb_per_window (sc_budget cfg)), qs_pending = None\<rparr>"

end
