(* ===== verification/Proxy_Session_Safety.thy ===== *)
theory Proxy_Session_Safety
  imports Proxy_Session "HOL-Library.Sublist"
begin

text \<open>
  What an agent connection can do, whatever the agent, the backend, the sink and the clock do: the
  operations of the environment are recorded, newest first, and the query loop is shown to forward
  only gated frames to the backend and only metered rows to the agent.
\<close>

section \<open>Recorded runs\<close>

datatype 'i proxy_event =
    EvToAgent agent_write
  | EvToBackend backend_write
  | EvFromBackend raw_frame
  | EvClock clock
  | EvAudit "'i new_entry" bool
  | EvShutdown

definition traced_io :: "('i, 's) proxy_io \<Rightarrow> ('i, 's \<times> 'i proxy_event list) proxy_io" where
  "traced_io io =
     \<lparr>io_read_agent = (\<lambda>(s, tr). case io_read_agent io s of (r, s') \<Rightarrow> (r, s', tr)),
      io_write_agent = (\<lambda>w (s, tr). case io_write_agent io w s of (r, s') \<Rightarrow> (r, s', EvToAgent w # tr)),
      io_read_backend = (\<lambda>(s, tr). case io_read_backend io s of (r, s') \<Rightarrow>
        (r, s', case r of Inr (Some f) \<Rightarrow> EvFromBackend f # tr | _ \<Rightarrow> tr)),
      io_write_backend = (\<lambda>w (s, tr). case io_write_backend io w s of (r, s') \<Rightarrow> (r, s', EvToBackend w # tr)),
      io_shutdown_backend = (\<lambda>(s, tr). (io_shutdown_backend io s, EvShutdown # tr)),
      io_append = (\<lambda>e ts (s, tr). case io_append io e ts s of (r, s') \<Rightarrow> (r, s', EvAudit e (is_ok r) # tr)),
      io_clock = (\<lambda>(s, tr). case io_clock io s of (clk, s') \<Rightarrow> (clk, s', EvClock clk # tr))\<rparr>"

text \<open>Triples about the trace alone.\<close>

definition traced_hoare ::
  "('t \<Rightarrow> bool) \<Rightarrow> ('s \<times> 't, 'e, 'a) prog \<Rightarrow> ('t \<Rightarrow> bool) \<Rightarrow> ('a \<Rightarrow> 't \<Rightarrow> bool) \<Rightarrow> bool" where
  "traced_hoare P m I Q = hoare (\<lambda>s. P (snd s)) m (\<lambda>s. I (snd s)) (\<lambda>x s. Q x (snd s))"

lemmas traced_bind = hoare_bind [where I = "\<lambda>s. I (snd s)" and P = "\<lambda>s. P (snd s)"
    and R = "\<lambda>x s. R x (snd s)" and Q = "\<lambda>x s. Q x (snd s)" for I P R Q, folded traced_hoare_def]

lemma traced_pre: "traced_hoare P m I Q \<Longrightarrow> (\<And>tr. P' tr \<Longrightarrow> P tr) \<Longrightarrow> traced_hoare P' m I Q"
  unfolding traced_hoare_def by (erule hoare_pre) simp

lemma traced_weaken:
  "traced_hoare P m I Q \<Longrightarrow> (\<And>tr. P' tr \<Longrightarrow> P tr) \<Longrightarrow> (\<And>tr. I tr \<Longrightarrow> I' tr)
    \<Longrightarrow> (\<And>x tr. Q x tr \<Longrightarrow> Q' x tr) \<Longrightarrow> traced_hoare P' m I' Q'"
  unfolding traced_hoare_def by (erule hoare_weaken) simp_all

lemma traced_ret: "(\<And>tr. P tr \<Longrightarrow> I tr \<and> Q x tr) \<Longrightarrow> traced_hoare P (pret x) I Q"
  by (simp add: traced_hoare_def hoare_def)

lemma traced_fail: "(\<And>tr. P tr \<Longrightarrow> I tr) \<Longrightarrow> traced_hoare P (pfail e) I Q"
  by (simp add: traced_hoare_def hoare_def)

lemma traced_running: "(\<And>tr. P tr \<Longrightarrow> I tr) \<Longrightarrow> traced_hoare P prunning I Q"
  by (simp add: traced_hoare_def hoare_def)

lemma traced_write_agent:
  "(\<And>tr. P tr \<Longrightarrow> I (EvToAgent w # tr) \<and> Q (EvToAgent w # tr))
    \<Longrightarrow> traced_hoare P (plift (io_write_agent (traced_io io) w)) I (\<lambda>_. Q)"
  by (auto simp: traced_hoare_def hoare_def plift_def traced_io_def split: prod.splits)

lemma traced_write_backend:
  "(\<And>tr. P tr \<Longrightarrow> I (EvToBackend w # tr) \<and> Q (EvToBackend w # tr))
    \<Longrightarrow> traced_hoare P (plift (io_write_backend (traced_io io) w)) I (\<lambda>_. Q)"
  by (auto simp: traced_hoare_def hoare_def plift_def traced_io_def split: prod.splits)

lemma traced_read_backend:
  "(\<And>tr f. P tr \<Longrightarrow> I tr \<and> I (EvFromBackend f # tr) \<and> Q (EvFromBackend f # tr) \<and> Q tr)
    \<Longrightarrow> traced_hoare P (plift (io_read_backend (traced_io io))) I (\<lambda>_. Q)"
  by (auto simp: traced_hoare_def hoare_def plift_def traced_io_def split: prod.splits sum.splits option.splits)

lemma traced_read_agent:
  "(\<And>tr. P tr \<Longrightarrow> I tr \<and> Q tr) \<Longrightarrow> traced_hoare P (plift (io_read_agent (traced_io io))) I (\<lambda>_. Q)"
  by (auto simp: traced_hoare_def hoare_def plift_def traced_io_def split: prod.splits)

section \<open>Steps that only add events of a kind\<close>

definition emits :: "'i proxy_event set \<Rightarrow> ('s \<times> 'i proxy_event list, 'e, 'a) prog \<Rightarrow> bool" where
  "emits N m = (\<forall>s tr. case m (s, tr) of (r, s', tr') \<Rightarrow> \<exists>new. tr' = new @ tr \<and> set new \<subseteq> N)"

named_theorems emits_intros "programs that add only events of a kind"

lemma emitsD: "emits N m \<Longrightarrow> m (s, tr) = (r, s', tr') \<Longrightarrow> \<exists>new. tr' = new @ tr \<and> set new \<subseteq> N"
  unfolding emits_def by (drule spec [of _ s], drule spec [of _ tr]) simp

lemma emits_basic [emits_intros]: "emits N (pret x)" "emits N (pfail e)" "emits N prunning"
  by (simp_all add: emits_def)

lemma emits_bind [emits_intros]:
  assumes "emits N m" and "\<And>x. emits N (f x)"
  shows "emits N (pbind m f)"
  unfolding emits_def
proof (intro allI)
  fix s tr
  obtain q s1 tr1 where m: "m (s, tr) = (q, s1, tr1)" by (metis prod.collapse)
  obtain new where new: "tr1 = new @ tr" "set new \<subseteq> N" using emitsD [OF assms(1) m] by blast
  show "case pbind m f (s, tr) of (r, s', tr') \<Rightarrow> \<exists>new. tr' = new @ tr \<and> set new \<subseteq> N"
  proof (cases "\<exists>x. q = Some (Inr x)")
    case True
    then obtain x where q: "q = Some (Inr x)" by blast
    obtain r s' tr' where fx: "f x (s1, tr1) = (r, s', tr')" by (metis prod.collapse)
    obtain new' where "tr' = new' @ tr1" "set new' \<subseteq> N" using emitsD [OF assms(2) fx] by blast
    with new m q fx show ?thesis by (auto intro: exI [of _ "new' @ new"])
  next
    case False
    with m new show ?thesis by (auto simp: pbind_def split: option.splits sum.splits)
  qed
qed

lemma emits_if [emits_intros]: "emits N m \<Longrightarrow> emits N m' \<Longrightarrow> emits N (if b then m else m')"
  by simp

lemma emits_option [emits_intros]:
  "emits N m \<Longrightarrow> (\<And>x. emits N (f x)) \<Longrightarrow> emits N (case q of None \<Rightarrow> m | Some x \<Rightarrow> f x)"
  by (cases q) simp_all

lemma emits_write_agent: "EvToAgent w \<in> N \<Longrightarrow> emits N (plift (io_write_agent (traced_io io) w))"
  by (auto simp: emits_def plift_def traced_io_def split: prod.splits)

lemma emits_write_backend: "EvToBackend w \<in> N \<Longrightarrow> emits N (plift (io_write_backend (traced_io io) w))"
  by (auto simp: emits_def plift_def traced_io_def split: prod.splits)

lemma emits_read_backend: "range EvFromBackend \<subseteq> N \<Longrightarrow> emits N (plift (io_read_backend (traced_io io)))"
  by (force simp: emits_def plift_def traced_io_def split: prod.splits sum.splits option.splits)

lemma emits_record:
  "range EvClock \<subseteq> N \<Longrightarrow> {EvAudit e ok |e ok. True} \<subseteq> N
    \<Longrightarrow> emits N (record_decision (traced_io io) cfg stmt d code reason)"
  by (force simp: emits_def record_decision_def traced_io_def Let_def split: prod.splits sum.splits)

text \<open>An assertion that events of a kind do not disturb is kept by programs that add only those.\<close>

lemma emits_keeps:
  assumes "emits N m" and "\<And>ev tr. ev \<in> N \<Longrightarrow> J tr \<Longrightarrow> J (ev # tr)"
  shows "traced_hoare J m J (\<lambda>_. J)"
proof -
  have "J (new @ tr)" if "J tr" "set new \<subseteq> N" for new tr
    using that(2) by (induction new) (auto simp: that(1) assms(2))
  then show ?thesis
    by (fastforce simp: traced_hoare_def hoare_def dest: emitsD [OF assms(1)] split: prod.splits)
qed

text \<open>The events that carry neither an agent frame to the backend nor a backend frame to the agent.\<close>

definition quiet :: "'i proxy_event set" where
  "quiet = {ev. (\<forall>f. ev \<noteq> EvToAgent (Forwarded f)) \<and> (\<forall>f. ev \<noteq> EvToBackend (Relayed f))}"

lemma quiet_simps [simp]:
  "EvToAgent (SentToAgent m) \<in> quiet" "EvToBackend (SentToBackend b) \<in> quiet"
  "range EvFromBackend \<subseteq> quiet" "range EvClock \<subseteq> quiet" "{EvAudit e ok |e ok. True} \<subseteq> quiet"
  "EvShutdown \<in> quiet" "EvClock clk \<in> quiet" "EvFromBackend f \<in> quiet" "EvAudit e ok \<in> quiet"
  by (auto simp: quiet_def)

lemmas quiet_ops [emits_intros] =
  emits_write_agent [OF quiet_simps(1)] emits_write_backend [OF quiet_simps(2)]
  emits_read_backend [OF quiet_simps(3)] emits_record [OF quiet_simps(4,5)]

lemma quiet_error [emits_intros]: "emits quiet (send_error_then_ready (traced_io io) code message)"
  unfolding send_error_then_ready_def by (intro emits_intros)

lemma quiet_records [emits_intros]:
  "emits quiet (record_allow (traced_io io) cfg sql)"
  "emits quiet (record_block (traced_io io) cfg sql code reason)"
  "emits quiet (record_reject (traced_io io) cfg sql code reason)"
  unfolding record_allow_def record_block_def record_reject_def by (intro emits_intros)+

lemma quiet_explain_loop [emits_intros]: "emits quiet (explain_loop n (traced_io io) fl ee)"
  by (induction n arbitrary: fl ee) (auto intro!: emits_intros)

lemma quiet_preflight [emits_intros]: "emits quiet (explain_preflight n (traced_io io) cfg sql)"
  unfolding explain_preflight_def run_explain_on_backend_def send_extended_unit_def Let_def
  by (intro emits_intros) (auto intro!: emits_intros split: estimate_decision.splits)

lemma emits_mono: "emits N m \<Longrightarrow> N \<subseteq> M \<Longrightarrow> emits M m"
  by (fastforce simp: emits_def split: prod.splits)

lemma emits_clock:
  assumes "range EvClock \<subseteq> N" and "\<And>clk. emits N (f clk)"
  shows "emits N (\<lambda>s. case io_clock (traced_io io) s of (clk, s1) \<Rightarrow> f clk s1)"
  unfolding emits_def
proof (intro allI)
  fix s tr
  obtain clk s1 where c: "io_clock io s = (clk, s1)" by fastforce
  obtain r s' tr' where f: "f clk (s1, EvClock clk # tr) = (r, s', tr')" by (metis prod.collapse)
  obtain new where "tr' = new @ EvClock clk # tr" "set new \<subseteq> N" using emitsD [OF assms(2) f] by blast
  with assms(1) c f show
    "case (case io_clock (traced_io io) (s, tr) of (clk, s1) \<Rightarrow> f clk s1) of
       (r, s', tr') \<Rightarrow> \<exists>new. tr' = new @ tr \<and> set new \<subseteq> N"
    by (auto simp: traced_io_def intro!: exI [of _ "new @ [EvClock clk]"])
qed

lemma traced_clock:
  assumes "\<And>clk. traced_hoare (\<lambda>tr. \<exists>tr0. tr = EvClock clk # tr0 \<and> P tr0) (f clk) I Q"
  shows "traced_hoare P (\<lambda>s. case io_clock (traced_io io) s of (clk, s1) \<Rightarrow> f clk s1) I Q"
  unfolding traced_hoare_def
proof (rule hoareI)
  fix s r s'
  assume "P (snd s)" and run: "(case io_clock (traced_io io) s of (clk, s1) \<Rightarrow> f clk s1) = (r, s')"
  obtain clk s1 where c: "io_clock io (fst s) = (clk, s1)" by fastforce
  with run have "f clk (s1, EvClock clk # snd s) = (r, s')" by (auto simp: traced_io_def split: prod.splits)
  from hoareD [OF assms [of clk, unfolded traced_hoare_def], OF _ this] \<open>P (snd s)\<close>
  show "I (snd s') \<and> (\<forall>x. r = Some (Inr x) \<longrightarrow> Q x (snd s'))" by simp
qed

lemma quiet_shutdown [emits_intros]: "emits quiet (shutdown_and_fail (traced_io io) why)"
  by (auto simp: emits_def shutdown_and_fail_def traced_io_def)

section \<open>A scripted environment\<close>

text \<open>Peers that send given frames, a sink that takes every record and a clock that stands still.\<close>

record script =
  sx_agent :: "raw_frame list"
  sx_backend :: "raw_frame list"
  sx_clock :: clock

definition script_io :: "(unit, script) proxy_io" where
  "script_io =
     \<lparr>io_read_agent = (\<lambda>s. case sx_agent s of [] \<Rightarrow> (Inr None, s) | f # fs \<Rightarrow> (Inr (Some f), s\<lparr>sx_agent := fs\<rparr>)),
      io_write_agent = (\<lambda>w s. (Inr (), s)),
      io_read_backend = (\<lambda>s. case sx_backend s of [] \<Rightarrow> (Inr None, s) | f # fs \<Rightarrow> (Inr (Some f), s\<lparr>sx_backend := fs\<rparr>)),
      io_write_backend = (\<lambda>w s. (Inr (), s)),
      io_shutdown_backend = (\<lambda>s. s),
      io_append = (\<lambda>e ts s. (Inr (), s)),
      io_clock = (\<lambda>s. (sx_clock s, s))\<rparr>"

definition sample_role_budget :: role_budget where
  "sample_role_budget =
     \<lparr>rb_max_bytes = 5, rb_max_rows = 10, rb_max_plan_cost = 0x4059000000000000, rb_max_plan_rows = 100,
      rb_per_window = \<lparr>wb_window_secs = 1, wb_max_bytes = 8, wb_max_rows = 20\<rparr>\<rparr>"

definition sample_cfg :: "unit session_cfg" where
  "sample_cfg =
     \<lparr>sc_role = ''agent'', sc_session_id = ''s1'', sc_budget = sample_role_budget,
      sc_classify = (\<lambda>_. (ClassRead, None)), sc_is_explain = (\<lambda>_. True), sc_parse_f64 = (\<lambda>_. None),
      sc_intent = (\<lambda>_ _. ()), sc_render = (\<lambda>_. [])\<rparr>"

definition msg_frame :: "frontend_message \<Rightarrow> raw_frame" where
  "msg_frame m = \<lparr>rf_tag = frontend_tag m, rf_body = frontend_body m\<rparr>"

definition row_frame :: "nat \<Rightarrow> raw_frame" where
  "row_frame n = \<lparr>rf_tag = ascii CHR ''D'', rf_body = replicate n 0\<rparr>"

definition ready_frame :: raw_frame where
  "ready_frame = \<lparr>rf_tag = ascii CHR ''Z'', rf_body = [ascii CHR ''I'']\<rparr>"

lemma decode_msg_frame: "frontend_ok m \<Longrightarrow> frontend_decode (rf_tag (msg_frame m)) (rf_body (msg_frame m)) = Inr m"
  by (simp add: msg_frame_def frontend_decode_body)

lemma script_ops [simp]:
  "plift (io_write_agent (traced_io script_io) w) (s, tr) = (Some (Inr ()), s, EvToAgent w # tr)"
  "plift (io_write_backend (traced_io script_io) v) (s, tr) = (Some (Inr ()), s, EvToBackend v # tr)"
  "io_clock (traced_io script_io) (s, tr) = (sx_clock s, s, EvClock (sx_clock s) # tr)"
  by (simp_all add: plift_def traced_io_def script_io_def)

lemma script_reads:
  "sx_agent s = f # fs \<Longrightarrow>
     plift (io_read_agent (traced_io script_io)) (s, tr) = (Some (Inr (Some f)), s\<lparr>sx_agent := fs\<rparr>, tr)"
  "sx_agent s = [] \<Longrightarrow> plift (io_read_agent (traced_io script_io)) (s, tr) = (Some (Inr None), s, tr)"
  "sx_backend s = f # fs \<Longrightarrow>
     plift (io_read_backend (traced_io script_io)) (s, tr)
     = (Some (Inr (Some f)), s\<lparr>sx_backend := fs\<rparr>, EvFromBackend f # tr)"
  by (simp_all add: plift_def traced_io_def script_io_def)

lemma script_record [simp]:
  "record_decision (traced_io script_io) cfg stmt d code reason (s, tr)
     = (Some (Inr ()), s, EvAudit (decision_entry cfg stmt d code reason) True # EvClock (sx_clock s) # tr)"
  by (simp add: record_decision_def traced_io_def script_io_def)

lemma forward_to_agent_script [simp]:
  "forward_to_agent (traced_io script_io) f flow (s, tr) = (Some (Inr flow), s, EvToAgent (Forwarded f) # tr)"
  by (simp add: forward_to_agent_def)

section \<open>Only gated frames reach the backend\<close>

definition no_relay :: "'i proxy_event set" where
  "no_relay = {ev. \<forall>f. ev \<noteq> EvToBackend (Relayed f)}"

lemma quiet_no_relay: "quiet \<subseteq> no_relay"
  by (auto simp: quiet_def no_relay_def)

lemma emits_relay_loop: "emits no_relay (relay_loop n (traced_io io) cfg rs)"
proof -
  note q = emits_mono [OF _ quiet_no_relay]
  have fwd: "emits no_relay (forward_to_agent (traced_io io) frame flow)" for frame flow
    unfolding forward_to_agent_def
    by (intro emits_bind emits_write_agent emits_basic) (simp add: no_relay_def)
  have clk: "range EvClock \<subseteq> no_relay" by (auto simp: no_relay_def)
  have payload: "emits no_relay (relay_payload (traced_io io) cfg frame rs)" for frame rs
    unfolding relay_payload_def relay_window_def Let_def
    by (auto split: prod.split budget_outcome.split window_outcome.split
        intro!: emits_clock [OF clk] emits_bind fwd q [OF quiet_records(2)] q [OF quiet_ops(1)]
          q [OF quiet_shutdown] emits_basic)
  have "emits no_relay (relay_frame (traced_io io) cfg frame rs)" for frame rs
    unfolding relay_frame_def Let_def by (auto intro!: fwd payload emits_basic)
  then show ?thesis
    by (induction n arbitrary: rs)
      (auto intro!: emits_intros q [OF quiet_ops(3)] split: relay_flow.splits)
qed

text \<open>
  A frame may be relayed right after \<open>tr\<close>: it is no termination, the gate allows its message, and a
  statement it carries was recorded as allowed as the last thing before.
\<close>

definition frame_gated :: "'i session_cfg \<Rightarrow> raw_frame \<Rightarrow> 'i proxy_event list \<Rightarrow> bool" where
  "frame_gated cfg f tr =
     (\<exists>msg. frontend_decode (rf_tag f) (rf_body f) = Inr msg \<and> msg \<noteq> Terminate
        \<and> (gate (sc_classify cfg) msg = GateAllow None
           \<or> (\<exists>sql e rest. gate (sc_classify cfg) msg = GateAllow (Some sql) \<and> tr = EvAudit e True # rest
                \<and> ne_statement_text e = sql \<and> ne_decision e = DecisionAllow)))"

fun gated :: "'i session_cfg \<Rightarrow> 'i proxy_event list \<Rightarrow> bool" where
  "gated cfg [] = True"
| "gated cfg (ev # tr) =
     ((case ev of EvToBackend (Relayed f) \<Rightarrow> frame_gated cfg f tr | _ \<Rightarrow> True) \<and> gated cfg tr)"

lemma gated_cons: "ev \<in> no_relay \<Longrightarrow> gated cfg tr \<Longrightarrow> gated cfg (ev # tr)"
  by (auto simp: no_relay_def split: proxy_event.splits backend_write.splits)

lemma gated_quiet:
  assumes "emits quiet m"
  shows "traced_hoare (gated cfg) m (gated cfg) (\<lambda>_. gated cfg)"
  using emits_keeps [OF emits_mono [OF assms quiet_no_relay], of "gated cfg"] gated_cons by blast

lemma gated_append: "gated cfg (later @ tr) \<Longrightarrow> gated cfg tr"
  by (induction later) simp_all

lemma gated_allowed:
  "traced_hoare (\<lambda>tr. gated cfg tr \<and> frame_gated cfg frame tr)
     (query_allowed n (traced_io io) cfg frame msg st) (gated cfg) (\<lambda>_. gated cfg)"
proof -
  have relay: "traced_hoare (gated cfg) (relay_until_ready n (traced_io io) cfg w) (gated cfg) (\<lambda>_. gated cfg)" for w
    unfolding relay_until_ready_def using emits_keeps [OF emits_relay_loop, of "gated cfg"] gated_cons by blast
  show ?thesis
    unfolding query_allowed_def
    by (rule traced_bind [OF traced_write_backend [where Q = "gated cfg"]])
      (auto intro!: traced_bind [OF relay] traced_ret)
qed

lemma gated_record_allow:
  "traced_hoare (gated cfg) (record_allow (traced_io io) cfg sql) (gated cfg)
     (\<lambda>_ tr. gated cfg tr
        \<and> (\<exists>e rest. tr = EvAudit e True # rest \<and> ne_statement_text e = sql \<and> ne_decision e = DecisionAllow))"
  by (auto simp: traced_hoare_def hoare_def record_allow_def record_decision_def decision_entry_def traced_io_def
      split: prod.splits sum.splits)

lemma gated_query_frame:
  "traced_hoare (gated cfg) (query_frame n (traced_io io) cfg frame st) (gated cfg) (\<lambda>_. gated cfg)"
proof -
  note q = gated_quiet [of _ cfg]
  have msg: "traced_hoare (gated cfg) (query_message n (traced_io io) cfg frame msg st) (gated cfg) (\<lambda>_. gated cfg)"
    if "frontend_decode (rf_tag frame) (rf_body frame) = Inr msg" "msg \<noteq> Terminate" for msg
  proof (cases "gate (sc_classify cfg) msg")
    case (GateAllow sql)
    show ?thesis
    proof (cases sql)
      case None
      with GateAllow that show ?thesis
        by (simp add: query_message_def)
          (rule traced_pre [OF gated_allowed], simp add: frame_gated_def)
    next
      case (Some stmt)
      have "traced_hoare (gated cfg)
          (pbind (record_allow (traced_io io) cfg stmt) (\<lambda>_. query_allowed n (traced_io io) cfg frame msg st))
          (gated cfg) (\<lambda>_. gated cfg)"
        by (rule traced_bind [OF gated_record_allow], rule traced_pre [OF gated_allowed])
          (use GateAllow Some that in \<open>auto simp: frame_gated_def\<close>)
      with GateAllow Some show ?thesis
        by (simp add: query_message_def)
          (rule traced_bind [OF q [OF quiet_preflight]], auto intro!: traced_ret split: option.splits)
    qed
  next
    case (GateReject kind code message)
    then show ?thesis
      by (auto simp: query_message_def Let_def intro!: q emits_intros split: frontend_message.splits)
  next
    case (GateBlock sql code message)
    then show ?thesis by (auto simp: query_message_def Let_def intro!: q emits_intros)
  qed
  show ?thesis
  proof (cases "frontend_decode (rf_tag frame) (rf_body frame)")
    case (Inl e)
    then show ?thesis by (auto simp: query_frame_def intro!: q emits_intros)
  next
    case (Inr m)
    show ?thesis
    proof (cases "m \<noteq> Terminate \<and> qs_pending st = None")
      case True
      with Inr msg [OF Inr] show ?thesis by (auto simp: query_frame_def)
    next
      case False
      with Inr show ?thesis by (auto simp: query_frame_def intro!: q emits_intros split: option.splits)
    qed
  qed
qed

lemma gated_query_loop:
  "traced_hoare (gated cfg) (query_loop n (traced_io io) cfg st) (gated cfg) (\<lambda>_. gated cfg)"
proof (induction n arbitrary: st)
  case 0
  show ?case unfolding query_loop.simps by (rule traced_running)
next
  case (Suc n)
  show ?case
    by (auto intro!: traced_bind [OF traced_read_agent [where Q = "gated cfg"]] traced_bind [OF gated_query_frame]
        traced_ret Suc split: option.splits)
qed

lemma frontend_decode_tag: "frontend_decode tag body = Inr msg \<Longrightarrow> frontend_tag msg = tag"
  by (auto simp: frontend_decode_def frontend_reader_def get_target_def ebind_def eret_def efail_def
      split: if_splits prod.splits sum.splits)

text \<open>
  The tag \<^verbatim>\<open>p\<close> of the authentication phase passes the gate: a password frame an agent sends after
  its authentication is relayed.
\<close>

lemma password_frame_passes_gate: "gate classify_fn (PasswordMessage pw) = GateAllow None"
  by (simp add: gate_allow_none)

text \<open>
  C15: nothing ungated reaches the backend: whatever the agent sends and the environment does, a frame
  relayed to the backend, at any point of a connection's life, is one of the extended protocol
  (\<^verbatim>\<open>Parse\<close>, \<^verbatim>\<open>Bind\<close>, \<^verbatim>\<open>Describe\<close>, \<^verbatim>\<open>Execute\<close>, \<^verbatim>\<open>Sync\<close>, \<^verbatim>\<open>Flush\<close>, \<^verbatim>\<open>Close\<close>) or a password frame, by
  its tag, so no simple query, no copy frame and no termination; it decodes; and a statement it
  prepares was classified as a read and recorded as allowed on the audit sink immediately before.
\<close>

theorem only_gated_frames_reach_backend:
  assumes "query_session n (traced_io io) cfg (s, []) = (r, s', later @ EvToBackend (Relayed f) # earlier)"
  shows "rf_tag f \<in> ascii ` set ''PBDESHCp''
    \<and> (\<exists>msg. frontend_decode (rf_tag f) (rf_body f) = Inr msg
      \<and> (rf_tag f = ascii CHR ''P'' \<longrightarrow> (\<exists>name sql types e rest. msg = Parse name sql types
          \<and> fst (sc_classify cfg sql) = ClassRead
          \<and> earlier = EvAudit e True # rest \<and> ne_statement_text e = sql \<and> ne_decision e = DecisionAllow)))"
proof -
  have "gated cfg (later @ EvToBackend (Relayed f) # earlier)"
    using hoareD [OF gated_query_loop [unfolded traced_hoare_def] _ assms [unfolded query_session_def]] by simp
  then have "frame_gated cfg f earlier" by (auto dest: gated_append)
  then obtain msg where msg: "frontend_decode (rf_tag f) (rf_body f) = Inr msg" "msg \<noteq> Terminate"
    and allowed: "gate (sc_classify cfg) msg = GateAllow None
      \<or> (\<exists>sql e rest. gate (sc_classify cfg) msg = GateAllow (Some sql) \<and> earlier = EvAudit e True # rest
          \<and> ne_statement_text e = sql \<and> ne_decision e = DecisionAllow)"
    unfolding frame_gated_def by blast
  have "frontend_tag msg \<in> ascii ` set ''PBDESHCp''"
    using allowed msg(2) by (cases msg) (auto simp: gate_allow_none gate_allow_sql)
  moreover have "\<exists>name sql types e rest. msg = Parse name sql types \<and> fst (sc_classify cfg sql) = ClassRead
      \<and> earlier = EvAudit e True # rest \<and> ne_statement_text e = sql \<and> ne_decision e = DecisionAllow"
    if "frontend_tag msg = ascii CHR ''P''"
    using allowed that by (cases msg) (auto simp: gate_allow_none gate_allow_sql)
  ultimately show ?thesis using msg(1) frontend_decode_tag [OF msg(1)] by auto
qed

section \<open>Only metered rows reach the agent\<close>

definition metered :: "raw_frame \<Rightarrow> bool" where
  "metered f = (rf_tag f \<in> {ascii CHR ''D'', ascii CHR ''d''})"

fun last_clock :: "'i proxy_event list \<Rightarrow> clock" where
  "last_clock [] = clock_starting_at 0"
| "last_clock (ev # tr) = (case ev of EvClock clk \<Rightarrow> clk | _ \<Rightarrow> last_clock tr)"

fun clocks :: "'i proxy_event list \<Rightarrow> clock list" where
  "clocks [] = []"
| "clocks (ev # tr) = (case ev of EvClock clk \<Rightarrow> clk # clocks tr | _ \<Rightarrow> clocks tr)"

text \<open>The rows written to the agent, newest first: bytes, one row each, and the last clock reading.\<close>

fun payloads :: "'i proxy_event list \<Rightarrow> (u64 \<times> u64 \<times> clock) list" where
  "payloads [] = []"
| "payloads (ev # tr) =
     (case ev of
        EvToAgent (Forwarded f) \<Rightarrow>
          if metered f then (word_of_nat (length (rf_body f)), 1, last_clock tr) # payloads tr else payloads tr
      | _ \<Rightarrow> payloads tr)"

definition calm :: "'i proxy_event set" where
  "calm = {ev. \<forall>f. metered f \<longrightarrow> ev \<noteq> EvToAgent (Forwarded f)}"

lemma quiet_calm: "quiet \<subseteq> calm"
  by (auto simp: quiet_def calm_def)

lemma payloads_calm: "ev \<in> calm \<Longrightarrow> payloads (ev # tr) = payloads tr"
  by (auto simp: calm_def split: proxy_event.splits agent_write.splits)

text \<open>
  What an assertion about the meters has to satisfy to hold throughout a relay: events that carry no
  row do not disturb it, and it survives a row that both meters take.
\<close>

locale relay_invariant =
  fixes K :: "budget \<Rightarrow> window_meter \<Rightarrow> 'i proxy_event list \<Rightarrow> bool"
  assumes K_calm: "ev \<in> calm \<Longrightarrow> K b w tr \<Longrightarrow> K b w (ev # tr)"
    and K_row: "K b w tr \<Longrightarrow> charge_row (word_of_nat (length (rf_body f))) b = (BudgetWithin nb nr, b')
      \<Longrightarrow> window_charge (word_of_nat (length (rf_body f))) 1 clk w = (WindowWithin mb mr, w') \<Longrightarrow> metered f
      \<Longrightarrow> K b' w' (EvToAgent (Forwarded f) # EvClock clk # tr)"
begin

abbreviation K_any :: "'i proxy_event list \<Rightarrow> bool" where
  "K_any tr \<equiv> \<exists>b w. K b w tr"

abbreviation K_flow :: "relay_flow \<Rightarrow> 'i proxy_event list \<Rightarrow> bool" where
  "K_flow flow tr \<equiv> (case flow of
     RelayContinue rs \<Rightarrow> K (rs_budget rs) (rs_window rs) tr | RelayDone w \<Rightarrow> \<exists>b. K b w tr)"

lemma K_quiet:
  assumes "emits quiet m"
  shows "traced_hoare (K b w) m K_any (\<lambda>_. K b w)"
  by (rule traced_weaken [OF emits_keeps [OF emits_mono [OF assms quiet_calm]]]) (auto intro: K_calm)

lemma K_forward_calm:
  assumes "\<not> metered f" and "\<And>tr. K b w tr \<Longrightarrow> K_flow flow tr"
  shows "traced_hoare (K b w) (forward_to_agent (traced_io io) f flow) K_any K_flow"
  unfolding forward_to_agent_def
proof (rule traced_bind [OF traced_write_agent [where Q = "K b w"]])
  fix tr assume "K b w tr"
  with K_calm [of "EvToAgent (Forwarded f)" b w tr] assms(1)
  show "K_any (EvToAgent (Forwarded f) # tr) \<and> K b w (EvToAgent (Forwarded f) # tr)"
    by (auto simp: calm_def)
qed (auto intro!: traced_ret assms(2))

lemma K_shutdown: "traced_hoare (K b w) (shutdown_and_fail (traced_io io) why) K_any Q"
  using K_calm [of EvShutdown b w]
  by (auto simp: traced_hoare_def hoare_def shutdown_and_fail_def traced_io_def calm_def split: prod.splits)

lemma K_cut_off:
  assumes "traced_hoare (K b w) m K_any Q"
  shows "traced_hoare (K b w)
    (pbind (record_block (traced_io io) cfg stmt code reason) (\<lambda>_.
     pbind (plift (io_write_agent (traced_io io) (SentToAgent msg))) (\<lambda>_. m))) K_any Q"
  by (intro traced_bind [OF K_quiet [OF quiet_records(2)]] traced_bind [OF K_quiet [OF quiet_ops(1)]] assms)

lemma K_row_forward:
  assumes "charge_row (word_of_nat (length (rf_body f))) b = (BudgetWithin nb nr, b')" and "metered f"
  shows "traced_hoare (\<lambda>tr. \<exists>tr0. tr = EvClock clk # tr0 \<and> K b (rs_window rs) tr0)
    (relay_window (traced_io io) cfg f (rs\<lparr>rs_budget := b'\<rparr>) clk) K_any K_flow"
proof (cases "window_charge (word_of_nat (length (rf_body f))) 1 clk (rs_window rs)")
  case (Pair out w')
  have kept: "K b (rs_window rs) (EvClock clk # tr0)" if "K b (rs_window rs) tr0" for tr0
    by (rule K_calm [OF _ that]) (simp add: calm_def)
  show ?thesis
  proof (cases out)
    case (WindowWithin mb mr)
    have step: "K b' w' (EvToAgent (Forwarded f) # tr)"
      if "\<exists>tr0. tr = EvClock clk # tr0 \<and> K b (rs_window rs) tr0" for tr
      using that K_row [OF _ assms(1) _ assms(2)] Pair WindowWithin by auto
    with Pair WindowWithin show ?thesis
      unfolding relay_window_def forward_to_agent_def
      by (auto intro!: traced_bind [OF traced_write_agent [where Q = "K b' w'"]] traced_ret)
  next
    case (WindowExceeded which ub ur)
    have "traced_hoare (K b (rs_window rs)) (relay_window (traced_io io) cfg f (rs\<lparr>rs_budget := b'\<rparr>) clk) K_any K_flow"
      using Pair WindowExceeded by (auto simp: relay_window_def Let_def intro!: K_cut_off K_shutdown)
    then show ?thesis by (rule traced_pre) (auto intro: kept)
  qed
qed

lemma K_relay_frame:
  "traced_hoare (K (rs_budget rs) (rs_window rs)) (relay_frame (traced_io io) cfg f rs) K_any K_flow"
proof (cases "metered f \<and> \<not> rs_cut_off rs")
  case True
  then have frame: "relay_frame (traced_io io) cfg f rs = relay_payload (traced_io io) cfg f rs"
    by (auto simp: relay_frame_def metered_def backend_starts_copy_def ascii_def)
  obtain out b' where c: "charge_row (word_of_nat (length (rf_body f))) (rs_budget rs) = (out, b')" by fastforce
  show ?thesis
  proof (cases out)
    case (BudgetWithin nb nr)
    show ?thesis
      unfolding frame relay_payload_def c BudgetWithin
      using True by (auto intro!: traced_clock K_row_forward c [unfolded BudgetWithin])
  next
    case (BudgetExceeded which ub ur)
    then have "b' = rs_budget rs" using c by (auto simp: charge_row_def Let_def split: if_splits)
    then show ?thesis
      unfolding frame relay_payload_def c BudgetExceeded Let_def
      by (auto intro!: K_cut_off traced_ret K_shutdown)
  qed
next
  case False
  then show ?thesis
    unfolding relay_frame_def Let_def
    by (auto simp: metered_def intro!: K_forward_calm traced_ret)
qed

lemma K_relay_loop:
  "traced_hoare (K (rs_budget rs) (rs_window rs)) (relay_loop n (traced_io io) cfg rs) K_any (\<lambda>w tr. \<exists>b. K b w tr)"
proof (induction n arbitrary: rs)
  case 0
  show ?case unfolding relay_loop.simps by (rule traced_running) blast
next
  case (Suc n)
  have body: "traced_hoare (K_flow flow)
      (case flow of RelayDone w \<Rightarrow> pret w | RelayContinue rs' \<Rightarrow> relay_loop n (traced_io io) cfg rs')
      K_any (\<lambda>w tr. \<exists>b. K b w tr)" for flow
    by (cases flow) (auto intro!: traced_ret Suc)
  show ?case
    unfolding relay_loop.simps
  proof (rule traced_bind [OF K_quiet [OF quiet_ops(3)]])
    fix fr
    show "traced_hoare (K (rs_budget rs) (rs_window rs))
        (case fr of None \<Rightarrow> pfail (BackendFailure ClosedMidResult)
         | Some frame \<Rightarrow> pbind (relay_frame (traced_io io) cfg frame rs)
             (\<lambda>flow. case flow of RelayDone w \<Rightarrow> pret w | RelayContinue rs' \<Rightarrow> relay_loop n (traced_io io) cfg rs'))
        K_any (\<lambda>w tr. \<exists>b. K b w tr)"
      by (cases fr) (auto intro!: traced_fail traced_bind [OF K_relay_frame body])
  qed
qed

end

text \<open>The rows of one relay, above those of \<open>base\<close>, are what the single-shot meter counts.\<close>

definition budget_inv ::
  "role_budget \<Rightarrow> (u64 \<times> u64 \<times> clock) list \<Rightarrow> budget \<Rightarrow> 'i proxy_event list \<Rightarrow> bool" where
  "budget_inv role base b tr =
     (budget_valid b \<and> bg_max_bytes b = rb_max_bytes role \<and> bg_max_rows b = rb_max_rows role
      \<and> (\<exists>new. payloads tr = new @ base \<and> unat (bg_used_bytes b) = (\<Sum>c \<leftarrow> new. unat (fst c))
           \<and> unat (bg_used_rows b) = length new))"

text \<open>The rows of a whole connection are the charges a fresh window meter accepts.\<close>

definition window_inv :: "window_budget \<Rightarrow> window_meter \<Rightarrow> 'i proxy_event list \<Rightarrow> bool" where
  "window_inv wb w tr =
     (\<exists>charges. charge_all window_chg charges (for_window wb) = (rev (payloads tr), w)
        \<and> subseq (map (\<lambda>c. snd (snd c)) charges) (rev (clocks tr)))"

lemma charge_row_chg: "charge_row n b = (BudgetWithin nb nr, b') \<Longrightarrow> budget_chg n b = (True, b')"
  by (simp add: budget_chg_def)

lemma window_charge_chg:
  "window_charge n 1 clk w = (WindowWithin mb mr, w') \<Longrightarrow> window_chg (n, 1, clk) w = (True, w')"
  by (simp add: window_chg_def)

lemma charge_all_append:
  "charge_all chg (cs @ ds) m =
     (fst (charge_all chg cs m) @ fst (charge_all chg ds (snd (charge_all chg cs m))),
      snd (charge_all chg ds (snd (charge_all chg cs m))))"
  by (induction cs arbitrary: m) (auto split: prod.splits)

lemma clocks_cons: "\<exists>new. clocks (ev # tr) = new @ clocks tr"
  by (cases ev) simp_all

interpretation relay_budget: relay_invariant "\<lambda>b w. budget_inv role base b"
proof unfold_locales
  fix ev :: "'a proxy_event" and b and w :: window_meter and tr :: "'a proxy_event list"
  assume "ev \<in> calm" "budget_inv role base b tr"
  then show "budget_inv role base b (ev # tr)" by (simp add: budget_inv_def payloads_calm del: payloads.simps(2))
next
  fix b and w w' :: window_meter and tr :: "'a proxy_event list" and f nb nr b' clk mb mr
  assume inv: "budget_inv role base b tr"
    and c: "charge_row (word_of_nat (length (rf_body f))) b = (BudgetWithin nb nr, b')" and m: "metered f"
  note chg = charge_row_chg [OF c]
  have v: "budget_valid b" using inv by (simp add: budget_inv_def)
  show "budget_inv role base b' (EvToAgent (Forwarded f) # EvClock clk # tr)"
    using inv m bytes_budget.charge_valid [OF v, of "word_of_nat (length (rf_body f))"]
      bytes_budget.charge_used [OF v, of "word_of_nat (length (rf_body f))"]
      rows_budget.charge_used [OF v, of "word_of_nat (length (rf_body f))"]
      bytes_budget.charge_limit [of "word_of_nat (length (rf_body f))" b]
      rows_budget.charge_limit [of "word_of_nat (length (rf_body f))" b]
    by (auto simp: chg budget_inv_def intro: unsigned_word_eqI)
qed

interpretation relay_win: relay_invariant "\<lambda>b w. window_inv wb w"
proof unfold_locales
  fix ev :: "'a proxy_event" and b :: budget and w and tr :: "'a proxy_event list"
  assume "ev \<in> calm" and inv: "window_inv wb w tr"
  moreover obtain new where "clocks (ev # tr) = new @ clocks tr" using clocks_cons by blast
  ultimately show "window_inv wb w (ev # tr)"
    using payloads_calm [of ev tr] by (force simp: window_inv_def intro: list_emb_prefix)
next
  fix b b' :: budget and w w' and tr :: "'a proxy_event list" and f nb nr clk mb mr
  assume inv: "window_inv wb w tr"
    and c: "window_charge (word_of_nat (length (rf_body f))) 1 clk w = (WindowWithin mb mr, w')" and m: "metered f"
  let ?c = "(word_of_nat (length (rf_body f)), 1, clk) :: u64 \<times> u64 \<times> clock"
  obtain charges where ch: "charge_all window_chg charges (for_window wb) = (rev (payloads tr), w)"
    "subseq (map (\<lambda>c. snd (snd c)) charges) (rev (clocks tr))"
    using inv by (auto simp: window_inv_def)
  have "charge_all window_chg (charges @ [?c]) (for_window wb) = (rev (payloads tr) @ [?c], w')"
    using window_charge_chg [OF c] by (simp add: charge_all_append ch)
  moreover have "subseq (map (\<lambda>c. snd (snd c)) (charges @ [?c])) (rev (clocks tr) @ [clk])"
    using ch(2) by (simp add: list_emb_append_mono)
  ultimately show "window_inv wb w' (EvToAgent (Forwarded f) # EvClock clk # tr)"
    using m by (auto simp: window_inv_def intro!: exI [of _ "charges @ [?c]"])
qed

lemma budget_bound:
  assumes "budget_inv role base b tr"
  shows "\<exists>new. payloads tr = new @ base \<and> (\<Sum>c \<leftarrow> new. unat (fst c)) \<le> unat (rb_max_bytes role)
    \<and> length new \<le> unat (rb_max_rows role)"
  using assms by (auto simp: budget_inv_def budget_valid_def word_le_nat_alt)

text \<open>
  C20: the single-shot cutoff holds on every bulk path: whatever the backend streams as the answer to
  one pipeline, and at whatever point the relay is observed, the data rows and copy data written to
  the agent since its start are within the role's byte cap and row cap.
\<close>

theorem relay_within_single_shot_cap:
  assumes "relay_until_ready n (traced_io io) cfg w (s, tr0) = (r, s', tr)"
    and "rb_max_bytes (sc_budget cfg) \<noteq> - 1" and "rb_max_rows (sc_budget cfg) \<noteq> - 1"
  shows "\<exists>new. payloads tr = new @ payloads tr0
    \<and> (\<Sum>c \<leftarrow> new. unat (fst c)) \<le> unat (rb_max_bytes (sc_budget cfg))
    \<and> length new \<le> unat (rb_max_rows (sc_budget cfg))"
proof -
  have "budget_inv (sc_budget cfg) (payloads tr0) (budget_for_role (sc_budget cfg)) tr0"
    using assms(2,3) by (simp add: budget_inv_def budget_valid_def budget_for_role_def)
  with hoareD [OF relay_budget.K_relay_loop [unfolded traced_hoare_def] _
      assms(1) [unfolded relay_until_ready_def], of "sc_budget cfg" "payloads tr0"]
  obtain b where "budget_inv (sc_budget cfg) (payloads tr0) b tr" by auto
  then show ?thesis by (rule budget_bound)
qed

lemma window_calm: "ev \<in> calm \<Longrightarrow> window_inv wb w tr \<Longrightarrow> window_inv wb w (ev # tr)"
  by (rule relay_win.K_calm)

lemma window_quiet:
  assumes "emits quiet m"
  shows "traced_hoare (window_inv wb w) m (\<lambda>tr. \<exists>w. window_inv wb w tr) (\<lambda>_. window_inv wb w)"
  by (rule traced_weaken [OF relay_win.K_quiet [OF assms]]) auto

text \<open>The window a query step leaves is the one its rows were charged to.\<close>

fun window_next :: "window_budget \<Rightarrow> query_state option \<Rightarrow> 'i proxy_event list \<Rightarrow> bool" where
  "window_next wb None tr = (\<exists>w. window_inv wb w tr)"
| "window_next wb (Some st) tr = window_inv wb (qs_window st) tr"

lemma window_allowed:
  "traced_hoare (window_inv wb (qs_window st)) (query_allowed n (traced_io io) cfg frame msg st)
     (\<lambda>tr. \<exists>w. window_inv wb w tr) (window_next wb)"
proof -
  have sent: "traced_hoare (window_inv wb (qs_window st)) (plift (io_write_backend (traced_io io) (Relayed frame)))
      (\<lambda>tr. \<exists>w. window_inv wb w tr) (\<lambda>_. window_inv wb (qs_window st))"
    by (rule traced_weaken [OF emits_keeps [OF emits_write_backend [where N = calm]]])
      (auto intro: window_calm, simp add: calm_def)
  have relay: "traced_hoare (window_inv wb (qs_window st)) (relay_until_ready n (traced_io io) cfg (qs_window st))
      (\<lambda>tr. \<exists>w. window_inv wb w tr) (\<lambda>w. window_inv wb w)"
    unfolding relay_until_ready_def
    by (rule traced_weaken [OF relay_win.K_relay_loop]) auto
  show ?thesis
    unfolding query_allowed_def
    by (rule traced_bind [OF sent]) (auto intro!: traced_bind [OF relay] traced_ret)
qed

lemma window_query_frame:
  "traced_hoare (window_inv wb (qs_window st)) (query_frame n (traced_io io) cfg frame st)
     (\<lambda>tr. \<exists>w. window_inv wb w tr) (window_next wb)"
proof -
  note q = traced_bind [OF window_quiet]
  have msg: "traced_hoare (window_inv wb (qs_window st)) (query_message n (traced_io io) cfg frame msg st)
      (\<lambda>tr. \<exists>w. window_inv wb w tr) (window_next wb)" for msg
    unfolding query_message_def Let_def
    by (auto intro!: q emits_intros window_allowed traced_ret
        split: gate_decision.split option.split frontend_message.split)
  show ?thesis
    unfolding query_frame_def
    by (auto intro!: msg q emits_intros traced_ret split: sum.split option.split)
qed

lemma window_query_loop:
  "traced_hoare (window_inv wb (qs_window st)) (query_loop n (traced_io io) cfg st)
     (\<lambda>tr. \<exists>w. window_inv wb w tr) (\<lambda>_ tr. \<exists>w. window_inv wb w tr)"
proof (induction n arbitrary: st)
  case 0
  show ?case unfolding query_loop.simps by (rule traced_running) blast
next
  case (Suc n)
  have rest: "traced_hoare (window_next wb nxt)
      (case nxt of None \<Rightarrow> pret () | Some st' \<Rightarrow> query_loop n (traced_io io) cfg st')
      (\<lambda>tr. \<exists>w. window_inv wb w tr) (\<lambda>_ tr. \<exists>w. window_inv wb w tr)" for nxt
    by (cases nxt) (auto intro!: traced_ret traced_pre [OF Suc])
  show ?case
    unfolding query_loop.simps
    by (rule traced_bind [OF traced_read_agent [where Q = "window_inv wb (qs_window st)"]])
      (auto intro!: traced_ret traced_bind [OF window_query_frame rest] split: option.split)
qed

lemma sorted_subseq: "subseq xs ys \<Longrightarrow> sorted (map f ys) \<Longrightarrow> sorted (map f xs)"
  by (induction rule: list_emb.induct) (auto dest: list_emb_set)

lemma payloads_one_row: "c \<in> set (payloads tr) \<Longrightarrow> fst (snd c) = 1"
  by (induction tr) (auto split: proxy_event.splits agent_write.splits if_splits)

text \<open>The rows written to the agent between two times, oldest first.\<close>

definition disclosed :: "nat \<Rightarrow> nat \<Rightarrow> 'i proxy_event list \<Rightarrow> (u64 \<times> u64 \<times> clock) list" where
  "disclosed lo hi tr = filter (\<lambda>c. lo \<le> charge_time c \<and> charge_time c < hi) (rev (payloads tr))"

text \<open>
  C21: slow-drip disclosure is bounded over a whole connection: in every interval as long as the
  role's window the rows written to the agent, over all its statements, are at most twice the
  window's byte cap and twice its row cap, however the agent spreads its reads, as long as the clock
  readings do not go backwards.
\<close>

theorem session_disclosure_bounded:
  fixes tr :: "'i proxy_event list"
  assumes "query_session n (traced_io io) cfg (s, []) = (r, s', tr)"
    and "sorted (map (\<lambda>c. unat (monotonic_millis c)) (rev (clocks tr)))"
    and "wb_max_bytes (rb_per_window (sc_budget cfg)) \<noteq> - 1"
    and "wb_max_rows (rb_per_window (sc_budget cfg)) \<noteq> - 1"
    and "hi \<le> lo + unat (wm_window_ms (for_window (rb_per_window (sc_budget cfg))))"
  shows "(\<Sum>c \<leftarrow> disclosed lo hi tr. unat (fst c)) \<le> 2 * unat (wb_max_bytes (rb_per_window (sc_budget cfg)))
    \<and> length (disclosed lo hi tr) \<le> 2 * unat (wb_max_rows (rb_per_window (sc_budget cfg)))"
proof -
  let ?wb = "rb_per_window (sc_budget cfg)"
  have "window_inv ?wb (for_window ?wb) ([] :: 'i proxy_event list)"
    by (auto simp: window_inv_def intro!: exI [of _ "[]"])
  with hoareD [OF window_query_loop [unfolded traced_hoare_def] _ assms(1) [unfolded query_session_def], of ?wb]
  obtain w where "window_inv ?wb w tr" by auto
  then obtain charges where ch: "charge_all window_chg charges (for_window ?wb) = (rev (payloads tr), w)"
    and sub: "subseq (map (\<lambda>c. snd (snd c)) charges) (rev (clocks tr))" by (auto simp: window_inv_def)
  have "sorted (map charge_time charges)"
    using sorted_subseq [OF sub assms(2)] by (simp add: charge_time_def [abs_def] comp_def)
  note bound = accepted_between_bound [OF this assms(3,4,5)]
  have dis: "accepted_between lo hi charges ?wb = disclosed lo hi tr"
    by (simp add: accepted_between_def disclosed_def ch)
  have "map (\<lambda>c. unat (fst (snd c))) (disclosed lo hi tr) = map (\<lambda>_. 1) (disclosed lo hi tr)"
    by (auto simp: disclosed_def dest!: payloads_one_row)
  then have "(\<Sum>c \<leftarrow> disclosed lo hi tr. unat (fst (snd c))) = length (disclosed lo hi tr)"
    by (simp only: sum_list_triv map_replicate_const [symmetric] mult_1_right of_nat_id)
  with bound show ?thesis unfolding dis by simp
qed

section \<open>An answer within the caps is relayed whole\<close>

fun forwards :: "'i proxy_event list \<Rightarrow> raw_frame list" where
  "forwards [] = []"
| "forwards (ev # tr) = (case ev of EvToAgent (Forwarded f) \<Rightarrow> f # forwards tr | _ \<Rightarrow> forwards tr)"

text \<open>
  An environment that delivers: \<open>pending\<close> are the backend frames still to be read; a read takes the
  first of them, forwarding to the agent succeeds, and neither a write nor a look at the clock, which
  may move as it likes, loses one.
\<close>

definition delivers :: "('i, 's) proxy_io \<Rightarrow> ('s \<Rightarrow> raw_frame list) \<Rightarrow> bool" where
  "delivers io pending =
     ((\<forall>s f fs. pending s = f # fs \<longrightarrow> (\<exists>s'. io_read_backend io s = (Inr (Some f), s') \<and> pending s' = fs))
      \<and> (\<forall>s f. \<exists>s'. io_write_agent io (Forwarded f) s = (Inr (), s') \<and> pending s' = pending s)
      \<and> (\<forall>s. pending (snd (io_clock io s)) = pending s))"

abbreviation payload_bytes :: "raw_frame list \<Rightarrow> nat" where
  "payload_bytes fs \<equiv> (\<Sum>f \<leftarrow> filter metered fs. length (rf_body f))"

abbreviation payload_rows :: "raw_frame list \<Rightarrow> nat" where
  "payload_rows fs \<equiv> length (filter metered fs)"

text \<open>A window meter with room for so many bytes and rows, whenever they are charged.\<close>

definition window_room :: "window_meter \<Rightarrow> nat \<Rightarrow> nat \<Rightarrow> bool" where
  "window_room w nbytes nrows = (unat (wm_used_bytes w) + nbytes \<le> unat (wm_max_bytes w)
     \<and> unat (wm_used_rows w) + nrows \<le> unat (wm_max_rows w))"

definition window_after :: "window_meter \<Rightarrow> nat \<Rightarrow> nat \<Rightarrow> window_meter \<Rightarrow> bool" where
  "window_after w nbytes nrows w' = (unat (wm_used_bytes w') \<le> unat (wm_used_bytes w) + nbytes
     \<and> unat (wm_used_rows w') \<le> unat (wm_used_rows w) + nrows
     \<and> wm_max_bytes w' = wm_max_bytes w \<and> wm_max_rows w' = wm_max_rows w)"

definition fits :: "relay_state \<Rightarrow> raw_frame list \<Rightarrow> bool" where
  "fits rs fs =
     (unat (bg_used_bytes (rs_budget rs)) + payload_bytes fs \<le> unat (bg_max_bytes (rs_budget rs))
      \<and> unat (bg_used_rows (rs_budget rs)) + payload_rows fs \<le> unat (bg_max_rows (rs_budget rs))
      \<and> window_room (rs_window rs) (payload_bytes fs) (payload_rows fs))"

lemma unat_fit_add:
  assumes "unat a + n \<le> unat (c :: u64)"
  shows "unat (sat_add a (word_of_nat n)) = unat a + n" and "sat_add a (word_of_nat n) \<le> c"
proof -
  have "unat (word_of_nat n :: u64) = n" using assms unsigned_less [where w = c and 'a = nat] by (simp add: unat_of_nat)
  then show u: "unat (sat_add a (word_of_nat n)) = unat a + n"
    using assms unsigned_less [where w = c and 'a = nat] by (simp add: sat_simps)
  show "sat_add a (word_of_nat n) \<le> c" using assms by (simp add: word_le_nat_alt u)
qed

lemma charge_row_fit:
  assumes "unat (bg_used_bytes b) + n \<le> unat (bg_max_bytes b)" and "unat (bg_used_rows b) + 1 \<le> unat (bg_max_rows b)"
  shows "\<exists>nb nr b'. charge_row (word_of_nat n) b = (BudgetWithin nb nr, b')
    \<and> unat (bg_used_bytes b') = unat (bg_used_bytes b) + n \<and> unat (bg_used_rows b') = unat (bg_used_rows b) + 1
    \<and> bg_max_bytes b' = bg_max_bytes b \<and> bg_max_rows b' = bg_max_rows b"
  using unat_fit_add [OF assms(1)] unat_fit_add [OF assms(2)]
  by (simp add: charge_row_def Let_def not_less)

lemma roll_fit:
  "unat (wm_used_bytes (roll t w)) \<le> unat (wm_used_bytes w)" "unat (wm_used_rows (roll t w)) \<le> unat (wm_used_rows w)"
  "wm_max_bytes (roll t w) = wm_max_bytes w" "wm_max_rows (roll t w) = wm_max_rows w"
  by (auto simp: roll_def split: option.splits)

lemma window_charge_fit:
  assumes "window_room w (n + m) (1 + k)"
  shows "\<exists>nb nr w'. window_charge (word_of_nat n) 1 clk w = (WindowWithin nb nr, w')
    \<and> window_room w' m k \<and> window_after w n 1 w'"
proof -
  let ?r = "roll (monotonic_millis clk) w"
  let ?w' = "?r\<lparr>wm_used_rows := sat_add (wm_used_rows ?r) 1, wm_used_bytes := sat_add (wm_used_bytes ?r) (word_of_nat n)\<rparr>"
  note r = roll_fit [of "monotonic_millis clk" w]
  have room: "unat (wm_used_bytes ?r) + n \<le> unat (wm_max_bytes ?r)" "unat (wm_used_rows ?r) + 1 \<le> unat (wm_max_rows ?r)"
    using assms r by (simp_all add: window_room_def)
  note u = unat_fit_add [OF room(1)] unat_fit_add [OF room(2)]
  have "window_room ?w' m k" "window_after w n 1 ?w'"
    using assms r u(1,3) by (simp_all add: window_room_def window_after_def)
  with u(2,4) show ?thesis by (simp add: window_charge_def Let_def not_less)
qed

lemma delivers_steps:
  assumes "delivers io pending"
  shows "pending s = f # fs \<Longrightarrow> \<exists>s'. pending s' = fs
      \<and> plift (io_read_backend (traced_io io)) (s, tr) = (Some (Inr (Some f)), s', EvFromBackend f # tr)"
    and "\<exists>s'. pending s' = pending s
      \<and> forward_to_agent (traced_io io) f flow (s, tr) = (Some (Inr flow), s', EvToAgent (Forwarded f) # tr)"
    and "\<exists>clk s'. pending s' = pending s \<and> io_clock (traced_io io) (s, tr) = (clk, s', EvClock clk # tr)"
proof -
  show "\<exists>s'. pending s' = fs
      \<and> plift (io_read_backend (traced_io io)) (s, tr) = (Some (Inr (Some f)), s', EvFromBackend f # tr)"
    if head: "pending s = f # fs"
  proof -
    obtain s' where "io_read_backend io s = (Inr (Some f), s')" "pending s' = fs"
      using assms head unfolding delivers_def by blast
    then show ?thesis by (simp add: plift_def traced_io_def)
  qed
  obtain s' where "io_write_agent io (Forwarded f) s = (Inr (), s')" "pending s' = pending s"
    using assms unfolding delivers_def by blast
  then show "\<exists>s'. pending s' = pending s
      \<and> forward_to_agent (traced_io io) f flow (s, tr) = (Some (Inr flow), s', EvToAgent (Forwarded f) # tr)"
    by (simp add: forward_to_agent_def pbind_def pret_def plift_def traced_io_def)
  have "pending (snd (io_clock io s)) = pending s" using assms by (simp add: delivers_def)
  then show "\<exists>clk s'. pending s' = pending s \<and> io_clock (traced_io io) (s, tr) = (clk, s', EvClock clk # tr)"
    by (cases "io_clock io s") (auto simp: traced_io_def)
qed

lemma relay_frame_fits:
  assumes io: "delivers io pending"
    and "\<not> rs_cut_off rs" and "fits rs (f # fs)" and "rf_tag f \<noteq> ascii CHR ''Z''"
  shows "\<exists>rs' s' tr'. relay_frame (traced_io io) cfg f rs (s, tr) = (Some (Inr (RelayContinue rs')), s', tr')
    \<and> \<not> rs_cut_off rs' \<and> fits rs' fs \<and> pending s' = pending s \<and> forwards tr' = f # forwards tr
    \<and> window_after (rs_window rs) (payload_bytes [f]) (payload_rows [f]) (rs_window rs')"
proof (cases "metered f")
  case True
  then have frame: "relay_frame (traced_io io) cfg f rs = relay_payload (traced_io io) cfg f rs"
    using assms(2) by (auto simp: relay_frame_def metered_def backend_starts_copy_def ascii_def)
  note fit = assms(3) [unfolded fits_def] True
  obtain nb nr b' where b: "charge_row (word_of_nat (length (rf_body f))) (rs_budget rs) = (BudgetWithin nb nr, b')"
    "unat (bg_used_bytes b') = unat (bg_used_bytes (rs_budget rs)) + length (rf_body f)"
    "unat (bg_used_rows b') = unat (bg_used_rows (rs_budget rs)) + 1"
    "bg_max_bytes b' = bg_max_bytes (rs_budget rs)" "bg_max_rows b' = bg_max_rows (rs_budget rs)"
    using charge_row_fit [of "rs_budget rs" "length (rf_body f)"] fit by auto
  obtain clk s1 where clk: "pending s1 = pending s" "io_clock (traced_io io) (s, tr) = (clk, s1, EvClock clk # tr)"
    using delivers_steps(3) [OF io] by blast
  obtain mb mr w' where w: "window_charge (word_of_nat (length (rf_body f))) 1 clk (rs_window rs) = (WindowWithin mb mr, w')"
    "window_room w' (payload_bytes fs) (payload_rows fs)" "window_after (rs_window rs) (length (rf_body f)) 1 w'"
    using window_charge_fit [of "rs_window rs" "length (rf_body f)" "payload_bytes fs" "payload_rows fs" clk] fit by auto
  let ?rs = "rs\<lparr>rs_budget := b', rs_window := w'\<rparr>"
  obtain s2 where s2: "pending s2 = pending s1" "forward_to_agent (traced_io io) f (RelayContinue ?rs) (s1, EvClock clk # tr)
      = (Some (Inr (RelayContinue ?rs)), s2, EvToAgent (Forwarded f) # EvClock clk # tr)"
    using delivers_steps(2) [OF io] by blast
  have "relay_frame (traced_io io) cfg f rs (s, tr)
      = (Some (Inr (RelayContinue ?rs)), s2, EvToAgent (Forwarded f) # EvClock clk # tr)"
    by (simp add: frame relay_payload_def b(1) clk relay_window_def w(1) s2(2))
  moreover have "fits ?rs fs" using fit b(2-5) w(2) by (simp add: fits_def)
  ultimately show ?thesis using assms(2) True clk(1) s2(1) w(3) by simp
next
  case False
  have same: "fits (rs\<lparr>rs_in_copy := c\<rparr>) fs" "fits rs fs" for c
    using assms(3) False by (simp_all add: fits_def)
  have "\<exists>rs'. relay_frame (traced_io io) cfg f rs = forward_to_agent (traced_io io) f (RelayContinue rs')
      \<and> \<not> rs_cut_off rs' \<and> fits rs' fs \<and> rs_window rs' = rs_window rs"
    using False assms(2,4) same by (auto simp: relay_frame_def Let_def metered_def)
  then obtain rs' where rs': "relay_frame (traced_io io) cfg f rs = forward_to_agent (traced_io io) f (RelayContinue rs')"
    "\<not> rs_cut_off rs'" "fits rs' fs" "rs_window rs' = rs_window rs" by blast
  obtain s' where "pending s' = pending s" "forward_to_agent (traced_io io) f (RelayContinue rs') (s, tr)
      = (Some (Inr (RelayContinue rs')), s', EvToAgent (Forwarded f) # tr)"
    using delivers_steps(2) [OF io] by blast
  with rs' False show ?thesis by (simp add: window_after_def)
qed

lemma relay_loop_fits:
  assumes io: "delivers io pending" and z: "rf_tag z = ascii CHR ''Z''"
    and "pending s = fs @ z # unread" and "\<forall>f \<in> set fs. rf_tag f \<noteq> ascii CHR ''Z''"
    and "\<not> rs_cut_off rs" and "fits rs fs" and "length fs < n"
  shows "\<exists>w s' tr'. relay_loop n (traced_io io) cfg rs (s, tr) = (Some (Inr w), s', tr')
    \<and> pending s' = unread \<and> forwards tr' = z # rev fs @ forwards tr
    \<and> window_after (rs_window rs) (payload_bytes fs) (payload_rows fs) w"
  using assms(3-7)
proof (induction fs arbitrary: rs s tr n)
  case Nil
  then obtain m where n: "n = Suc m" by (cases n) auto
  obtain s1 where s1: "pending s1 = unread"
    "plift (io_read_backend (traced_io io)) (s, tr) = (Some (Inr (Some z)), s1, EvFromBackend z # tr)"
    using delivers_steps(1) [OF io, of s z unread tr] Nil.prems(1) by auto
  have "relay_frame (traced_io io) cfg z rs = forward_to_agent (traced_io io) z (RelayDone (rs_window rs))"
    using z by (simp add: relay_frame_def backend_starts_copy_def ascii_def)
  moreover obtain s2 where "pending s2 = pending s1"
    "forward_to_agent (traced_io io) z (RelayDone (rs_window rs)) (s1, EvFromBackend z # tr)
      = (Some (Inr (RelayDone (rs_window rs))), s2, EvToAgent (Forwarded z) # EvFromBackend z # tr)"
    using delivers_steps(2) [OF io] by blast
  ultimately show ?case using s1 by (simp add: n pbind_def pret_def window_after_def)
next
  case (Cons f fs)
  then obtain m where n: "n = Suc m" and m: "length fs < m" by (cases n) auto
  obtain s1 where s1: "pending s1 = fs @ z # unread"
    "plift (io_read_backend (traced_io io)) (s, tr) = (Some (Inr (Some f)), s1, EvFromBackend f # tr)"
    using delivers_steps(1) [OF io, of s f "fs @ z # unread" tr] Cons.prems(1) by auto
  obtain rs' s2 tr2 where step: "relay_frame (traced_io io) cfg f rs (s1, EvFromBackend f # tr)
      = (Some (Inr (RelayContinue rs')), s2, tr2)"
    and next': "\<not> rs_cut_off rs'" "fits rs' fs" "pending s2 = pending s1" "forwards tr2 = f # forwards tr"
      "window_after (rs_window rs) (payload_bytes [f]) (payload_rows [f]) (rs_window rs')"
    using relay_frame_fits [OF io, of rs f fs cfg s1 "EvFromBackend f # tr"] Cons.prems by auto
  from Cons.IH [of s2 rs' m tr2] Cons.prems(2) next' s1(1) m obtain w s' tr' where
    rest: "relay_loop m (traced_io io) cfg rs' (s2, tr2) = (Some (Inr w), s', tr')" "pending s' = unread"
      "forwards tr' = z # rev fs @ forwards tr2"
      "window_after (rs_window rs') (payload_bytes fs) (payload_rows fs) w" by auto
  have "window_after (rs_window rs) (payload_bytes (f # fs)) (payload_rows (f # fs)) w"
    using rest(4) next'(5) by (auto simp: window_after_def split: if_splits)
  with rest(1-3) next'(4) s1(2) step show ?case by (simp add: n pbind_def)
qed

text \<open>
  C22: the proxy does not stall and does not tamper: in an environment whose reads deliver the frames
  of the backend and whose writes to the agent succeed, whatever its clock does, an answer that ends
  with the ready frame, fits the role's single-shot caps and fits what the cumulative window still
  has room for is relayed frame by frame, in order and unchanged, up to its ready frame and no
  further; the relay returns within one unit of fuel per frame, and the window is charged at most
  the rows and bytes of the answer.
\<close>

theorem answer_within_caps_is_relayed:
  assumes io: "delivers io pending"
    and answer: "pending s = fs @ z # unread" "rf_tag z = ascii CHR ''Z''"
      "\<forall>f \<in> set fs. rf_tag f \<noteq> ascii CHR ''Z''"
    and single_shot: "payload_bytes fs \<le> unat (rb_max_bytes (sc_budget cfg))"
      "payload_rows fs \<le> unat (rb_max_rows (sc_budget cfg))"
    and cumulative: "window_room w (payload_bytes fs) (payload_rows fs)"
    and fuel: "length fs < n"
  shows "\<exists>w' s' tr. relay_until_ready n (traced_io io) cfg w (s, []) = (Some (Inr w'), s', tr)
    \<and> pending s' = unread \<and> rev (forwards tr) = fs @ [z]
    \<and> window_after w (payload_bytes fs) (payload_rows fs) w'"
proof -
  let ?rs = "\<lparr>rs_budget = budget_for_role (sc_budget cfg), rs_cut_off = False, rs_in_copy = False, rs_window = w\<rparr>"
  have "fits ?rs fs" using single_shot cumulative by (simp add: fits_def budget_for_role_def)
  then obtain w' s' tr where "relay_loop n (traced_io io) cfg ?rs (s, []) = (Some (Inr w'), s', tr)"
    "pending s' = unread" "forwards tr = z # rev fs" "window_after w (payload_bytes fs) (payload_rows fs) w'"
    using relay_loop_fits [OF io answer(2,1,3) _ _ fuel, of ?rs cfg "[]"] by auto
  then show ?thesis by (auto simp: relay_until_ready_def)
qed

text \<open>A fresh window of a valid policy has room for every answer within the single-shot caps.\<close>

lemma fresh_window_room:
  assumes "budget_ok b" and "nbytes \<le> unat (rb_max_bytes b)" and "nrows \<le> unat (rb_max_rows b)"
  shows "window_room (for_window (rb_per_window b)) nbytes nrows"
  using assms by (simp add: window_room_def for_window_def budget_ok_def word_le_nat_alt)

section \<open>A sample connection\<close>

definition sample_script :: script where
  "sample_script =
     \<lparr>sx_agent = [msg_frame (Parse [] ''SELECT 1'' []), msg_frame Sync],
      sx_backend = [row_frame 3, ready_frame], sx_clock = clock_starting_at 7\<rparr>"

definition sample_trace :: "unit proxy_event list" where
  "sample_trace =
     [EvToAgent (Forwarded ready_frame), EvFromBackend ready_frame, EvToAgent (Forwarded (row_frame 3)),
      EvClock (clock_starting_at 7), EvFromBackend (row_frame 3)]"

definition sample_window :: window_meter where
  "sample_window = for_window (rb_per_window sample_role_budget)"

lemmas frame_tags = row_frame_def ready_frame_def metered_def

lemma sample_relay:
  assumes "sx_backend s = [row_frame 3, ready_frame]" and "sx_clock s = clock_starting_at 7"
  shows "\<exists>w. relay_until_ready (Suc (Suc n)) (traced_io script_io) sample_cfg sample_window (s, tr)
    = (Some (Inr w), s\<lparr>sx_backend := []\<rparr>, sample_trace @ tr)"
proof -
  have charge: "charge_row 3 (budget_for_role sample_role_budget)
      = (BudgetWithin 3 1, \<lparr>bg_max_bytes = 5, bg_max_rows = 10, bg_used_bytes = 3, bg_used_rows = 1\<rparr>)"
    by (simp add: charge_row_def budget_for_role_def sample_role_budget_def sat_add_def Let_def)
  have window: "\<exists>w. window_charge 3 1 (clock_starting_at 7) sample_window = (WindowWithin 3 1, w)"
    by (simp add: window_charge_def sample_window_def for_window_def sample_role_budget_def roll_def sat_add_def Let_def)
  then obtain w where w: "window_charge 3 1 (clock_starting_at 7) sample_window = (WindowWithin 3 1, w)" by blast
  have cfg: "sc_budget sample_cfg = sample_role_budget" by (simp add: sample_cfg_def)
  let ?rs = "\<lparr>rs_budget = budget_for_role sample_role_budget, rs_cut_off = False, rs_in_copy = False,
      rs_window = sample_window\<rparr>"
  have row: "relay_frame (traced_io script_io) sample_cfg (row_frame 3) ?rs (s\<lparr>sx_backend := x\<rparr>, tr)
      = (Some (Inr (RelayContinue (?rs\<lparr>rs_budget := snd (charge_row 3 (budget_for_role sample_role_budget)),
          rs_window := w\<rparr>))), s\<lparr>sx_backend := x\<rparr>,
         EvToAgent (Forwarded (row_frame 3)) # EvClock (clock_starting_at 7) # tr)" for x tr
    using assms(2) by (simp add: relay_frame_def backend_starts_copy_def frame_tags relay_payload_def charge relay_window_def w)
  have ready: "relay_frame (traced_io script_io) sample_cfg ready_frame rs (s, tr)
      = (Some (Inr (RelayDone (rs_window rs))), s, EvToAgent (Forwarded ready_frame) # tr)" for rs s tr
    by (simp add: relay_frame_def backend_starts_copy_def frame_tags)
  show ?thesis
    unfolding relay_until_ready_def cfg
    using assms(1) by (simp add: script_reads row ready sample_trace_def)
qed

lemma sample_session:
  "query_session 5 (traced_io script_io) sample_cfg (sample_script, [])
     = (Some (Inr ()), sample_script\<lparr>sx_agent := [], sx_backend := []\<rparr>,
        sample_trace @ [EvToBackend (Relayed (msg_frame Sync)),
          EvToBackend (Relayed (msg_frame (Parse [] ''SELECT 1'' []))),
          EvAudit (decision_entry sample_cfg ''SELECT 1'' DecisionAllow ''ok'' None) True, EvClock (clock_starting_at 7)])"
proof -
  have ok: "frontend_ok (Parse [] ''SELECT 1'' [])" "frontend_ok Sync"
    by (simp_all add: cstr_ok_def is_str_def as_bytes_def)
  note dec = decode_msg_frame [OF ok(1)] decode_msg_frame [OF ok(2)]
  have gates: "gate (sc_classify sample_cfg) (Parse [] ''SELECT 1'' []) = GateAllow (Some ''SELECT 1'')"
    "gate (sc_classify sample_cfg) Sync = GateAllow None"
    by (simp_all add: gate_allow_sql gate_allow_none sample_cfg_def)
  have explain: "explain_preflight n io sample_cfg sql s = (Some (Inr None), s)" for n io sql s
    by (simp add: explain_preflight_def sample_cfg_def)
  let ?p = "msg_frame (Parse [] ''SELECT 1'' [])"
  let ?st = "\<lparr>qs_window = sample_window, qs_pending = None\<rparr>"
  let ?s1 = "sample_script\<lparr>sx_agent := [msg_frame Sync]\<rparr>"
  let ?t1 = "[EvToBackend (Relayed ?p), EvAudit (decision_entry sample_cfg ''SELECT 1'' DecisionAllow ''ok'' None) True,
      EvClock (clock_starting_at 7)]"
  have parse: "query_frame n (traced_io script_io) sample_cfg ?p ?st (?s1, []) = (Some (Inr (Some ?st)), ?s1, ?t1)" for n
    by (simp add: query_frame_def dec query_message_def gates explain query_allowed_def record_allow_def sample_script_def)
  obtain w where w: "relay_until_ready (Suc (Suc 1)) (traced_io script_io) sample_cfg sample_window
      (sample_script\<lparr>sx_agent := []\<rparr>, EvToBackend (Relayed (msg_frame Sync)) # ?t1)
     = (Some (Inr w), sample_script\<lparr>sx_agent := [], sx_backend := []\<rparr>,
        sample_trace @ EvToBackend (Relayed (msg_frame Sync)) # ?t1)"
    using sample_relay [of "sample_script\<lparr>sx_agent := []\<rparr>" 1 "EvToBackend (Relayed (msg_frame Sync)) # ?t1"]
    by (auto simp: sample_script_def)
  have sync: "query_frame (Suc (Suc 1)) (traced_io script_io) sample_cfg (msg_frame Sync) ?st
      (sample_script\<lparr>sx_agent := []\<rparr>, ?t1)
     = (Some (Inr (Some (?st\<lparr>qs_window := w\<rparr>))), sample_script\<lparr>sx_agent := [], sx_backend := []\<rparr>,
        sample_trace @ EvToBackend (Relayed (msg_frame Sync)) # ?t1)"
    by (simp add: query_frame_def dec query_message_def gates query_allowed_def w [unfolded One_nat_def])
  have read: "plift (io_read_agent (traced_io script_io)) (sample_script, []) = (Some (Inr (Some ?p)), ?s1, [])"
    "plift (io_read_agent (traced_io script_io)) (?s1, tr) = (Some (Inr (Some (msg_frame Sync))), sample_script\<lparr>sx_agent := []\<rparr>, tr)"
    "plift (io_read_agent (traced_io script_io)) (sample_script\<lparr>sx_agent := [], sx_backend := []\<rparr>, tr)
      = (Some (Inr None), sample_script\<lparr>sx_agent := [], sx_backend := []\<rparr>, tr)" for tr
    by (simp_all add: script_reads sample_script_def)
  have five: "(5 :: nat) = Suc (Suc (Suc (Suc 1)))" by simp
  have win: "for_window (rb_per_window (sc_budget sample_cfg)) = sample_window"
    by (simp add: sample_window_def sample_cfg_def)
  show ?thesis
    unfolding query_session_def five win
    by (simp add: read parse sync [unfolded One_nat_def])
qed

theorem only_gated_frames_reach_backend_witness:
  "\<exists>e rest. [EvAudit (decision_entry sample_cfg ''SELECT 1'' DecisionAllow ''ok'' None) True, EvClock (clock_starting_at 7)]
      = EvAudit e True # rest
    \<and> ne_statement_text e = ''SELECT 1'' \<and> ne_decision e = DecisionAllow \<and> fst (sc_classify sample_cfg ''SELECT 1'') = ClassRead"
proof -
  let ?f = "msg_frame (Parse [] ''SELECT 1'' [])"
  have run: "query_session 5 (traced_io script_io) sample_cfg (sample_script, [])
     = (Some (Inr ()), sample_script\<lparr>sx_agent := [], sx_backend := []\<rparr>,
        (sample_trace @ [EvToBackend (Relayed (msg_frame Sync))]) @ EvToBackend (Relayed ?f)
        # [EvAudit (decision_entry sample_cfg ''SELECT 1'' DecisionAllow ''ok'' None) True, EvClock (clock_starting_at 7)])"
    by (simp add: sample_session)
  have "frontend_ok (Parse [] ''SELECT 1'' [])" by (simp add: cstr_ok_def is_str_def as_bytes_def)
  note dec = decode_msg_frame [OF this]
  have "rf_tag ?f = ascii CHR ''P''" by (simp add: msg_frame_def)
  with only_gated_frames_reach_backend [OF run] dec show ?thesis by auto
qed

theorem relay_within_single_shot_cap_witness:
  "\<exists>new. payloads sample_trace = new
    \<and> (\<Sum>c \<leftarrow> new. unat (fst c)) \<le> unat (rb_max_bytes (sc_budget sample_cfg))
    \<and> length new \<le> unat (rb_max_rows (sc_budget sample_cfg))"
proof -
  obtain w where run: "relay_until_ready (Suc (Suc 0)) (traced_io script_io) sample_cfg sample_window (sample_script, [])
    = (Some (Inr w), sample_script\<lparr>sx_backend := []\<rparr>, sample_trace)"
    using sample_relay [of sample_script 0 "[]"] by (auto simp: sample_script_def)
  have "rb_max_bytes (sc_budget sample_cfg) \<noteq> - 1" "rb_max_rows (sc_budget sample_cfg) \<noteq> - 1"
    by (simp_all add: sample_cfg_def sample_role_budget_def)
  from relay_within_single_shot_cap [OF run this] show ?thesis by simp
qed

definition sample_life :: "unit proxy_event list" where
  "sample_life =
     sample_trace @ [EvToBackend (Relayed (msg_frame Sync)),
       EvToBackend (Relayed (msg_frame (Parse [] ''SELECT 1'' []))),
       EvAudit (decision_entry sample_cfg ''SELECT 1'' DecisionAllow ''ok'' None) True, EvClock (clock_starting_at 7)]"

theorem session_disclosure_bounded_witness:
  "disclosed 0 1000 sample_life = [(3, 1, clock_starting_at 7)]
   \<and> (\<Sum>c \<leftarrow> disclosed 0 1000 sample_life. unat (fst c)) \<le> 2 * unat (8 :: u64)
   \<and> length (disclosed 0 1000 sample_life) \<le> 2 * unat (20 :: u64)"
proof -
  have run: "query_session 5 (traced_io script_io) sample_cfg (sample_script, [])
     = (Some (Inr ()), sample_script\<lparr>sx_agent := [], sx_backend := []\<rparr>, sample_life)"
    by (simp add: sample_session sample_life_def)
  have wb: "rb_per_window (sc_budget sample_cfg) = \<lparr>wb_window_secs = 1, wb_max_bytes = 8, wb_max_rows = 20\<rparr>"
    by (simp add: sample_cfg_def sample_role_budget_def)
  have clk: "sorted (map (\<lambda>c. unat (monotonic_millis c)) (rev (clocks sample_life)))"
    by (simp add: sample_life_def sample_trace_def)
  have win: "unat (wm_window_ms (for_window \<lparr>wb_window_secs = 1, wb_max_bytes = 8, wb_max_rows = 20\<rparr>)) = 1000"
    by (simp add: for_window_def sat_simps)
  have "disclosed 0 1000 sample_life = [(3, 1, clock_starting_at 7)]"
    by (simp add: disclosed_def sample_life_def sample_trace_def frame_tags charge_time_def clock_starting_at_def ascii_def)
  moreover from session_disclosure_bounded [OF run clk, of 1000 0] have
    "(\<Sum>c \<leftarrow> disclosed 0 1000 sample_life. unat (fst c)) \<le> 2 * unat (8 :: u64)
      \<and> length (disclosed 0 1000 sample_life) \<le> 2 * unat (20 :: u64)"
    unfolding wb win by simp
  ultimately show ?thesis by blast
qed

text \<open>The scripted peers with a clock that moves at every look, and a window an earlier answer was charged to.\<close>

definition ticking_io :: "(unit, script) proxy_io" where
  "ticking_io = script_io\<lparr>io_clock := \<lambda>s. (sx_clock s, s\<lparr>sx_clock := clock_starting_at (monotonic_millis (sx_clock s) + 400)\<rparr>)\<rparr>"

definition used_window :: window_meter where
  "used_window = sample_window\<lparr>wm_anchor_ms := Some 5, wm_used_bytes := 2, wm_used_rows := 1\<rparr>"

theorem answer_within_caps_is_relayed_witness:
  "\<exists>w s' tr. relay_until_ready 4 (traced_io ticking_io) sample_cfg used_window
        (sample_script\<lparr>sx_backend := [row_frame 3, row_frame 2, ready_frame, row_frame 9]\<rparr>, []) = (Some (Inr w), s', tr)
    \<and> sx_backend s' = [row_frame 9] \<and> rev (forwards tr) = [row_frame 3, row_frame 2, ready_frame]
    \<and> unat (wm_used_bytes w) \<le> 7"
proof -
  let ?s = "sample_script\<lparr>sx_backend := [row_frame 3, row_frame 2, ready_frame, row_frame 9]\<rparr>"
  let ?fs = "[row_frame 3, row_frame 2]"
  have io: "delivers ticking_io sx_backend" by (simp add: delivers_def ticking_io_def script_io_def)
  have sums: "payload_bytes ?fs = 5" "payload_rows ?fs = 2" by (simp_all add: frame_tags)
  have answer: "sx_backend ?s = ?fs @ ready_frame # [row_frame 9]" "rf_tag ready_frame = ascii CHR ''Z''"
    "\<forall>f \<in> set ?fs. rf_tag f \<noteq> ascii CHR ''Z''" by (simp_all add: frame_tags)
  have caps: "payload_bytes ?fs \<le> unat (rb_max_bytes (sc_budget sample_cfg))"
    "payload_rows ?fs \<le> unat (rb_max_rows (sc_budget sample_cfg))"
    unfolding sums by (simp_all add: sample_cfg_def sample_role_budget_def)
  have room: "window_room used_window (payload_bytes ?fs) (payload_rows ?fs)"
    unfolding sums by (simp add: window_room_def used_window_def sample_window_def for_window_def sample_role_budget_def)
  have "length ?fs < 4" by simp
  from answer_within_caps_is_relayed [OF io answer caps room this] obtain w s' tr where
    "relay_until_ready 4 (traced_io ticking_io) sample_cfg used_window (?s, []) = (Some (Inr w), s', tr)"
    "sx_backend s' = [row_frame 9]" "rev (forwards tr) = ?fs @ [ready_frame]" "window_after used_window 5 2 w"
    unfolding sums by blast
  moreover have "unat (wm_used_bytes used_window) = 2" by (simp add: used_window_def)
  ultimately show ?thesis by (auto simp: window_after_def)
qed

end
