(* ===== verification/Proxy_Serve.thy ===== *)
theory Proxy_Serve
  imports Proxy_Session_Safety
begin

text \<open>
  The life of one agent connection (\<^verbatim>\<open>crates/proxy/src/session.rs\<close>, \<^verbatim>\<open>config.rs\<close>): TLS
  negotiation, the startup message, SCRAM authentication, the backend session with its pinned
  settings, and then the query loop of \<open>Proxy_Session\<close>. The sockets, the TLS acceptor and the random
  generator are a record of operations on an arbitrary environment.
\<close>

section \<open>Configuration\<close>

record backend_target =
  bt_host :: string
  bt_port :: "16 word"
  bt_database :: string
  bt_role :: string
  bt_password :: string

record tls_config =
  tc_cert_pem :: string
  tc_key_pem :: string

record proxy_config =
  px_listen :: string
  px_tls :: "tls_config option"
  px_require_tls :: bool
  px_backend :: backend_target
  px_agent_user :: string
  px_agent_password :: string
  px_policy_role :: string
  px_budget :: role_budget
  px_statement_timeout_ms :: u64
  px_search_path :: string

datatype config_error = UnknownRole string | TlsRequiredButUnconfigured

definition DEFAULT_SEARCH_PATH :: string where
  "DEFAULT_SEARCH_PATH = ''pg_catalog, \"public\"''"

definition budget_for :: "policy_config \<Rightarrow> string \<Rightarrow> config_error + role_budget" where
  "budget_for policy role =
     (case bt_get (pc_roles policy) role of
        Some r \<Rightarrow> Inr (rp_budget r)
      | None \<Rightarrow> Inl (UnknownRole role))"

definition resolve_require_tls :: "bool \<Rightarrow> bool option \<Rightarrow> bool" where
  "resolve_require_tls tls_present explicit_override =
     (case explicit_override of Some b \<Rightarrow> b | None \<Rightarrow> tls_present)"

definition validate_tls :: "proxy_config \<Rightarrow> config_error + unit" where
  "validate_tls cfg =
     (if px_require_tls cfg \<and> px_tls cfg = None then Inl TlsRequiredButUnconfigured else Inr ())"

section \<open>The environment of a connection\<close>

datatype agent_stream = PlainStream | TlsStream

text \<open>
  \<open>cn_peek\<close> shows up to eight bytes without consuming them, \<open>cn_write_raw\<close> writes to the bare TCP
  stream, \<open>cn_accept_tls\<close> upgrades it, and \<open>cn_session\<close> is the framed connection over a stream.
\<close>

record ('i, 's) conn_io =
  cn_peek :: "('s, session_error, bytes) eff"
  cn_read_exact :: "nat \<Rightarrow> ('s, session_error, unit) eff"
  cn_write_raw :: "bytes \<Rightarrow> ('s, session_error, unit) eff"
  cn_accept_tls :: "('s, session_error, unit) eff"
  cn_read_startup :: "agent_stream \<Rightarrow> ('s, session_error, bytes) eff"
  cn_random :: "nat \<Rightarrow> 's \<Rightarrow> bytes \<times> 's"
  cn_connect :: "string \<Rightarrow> 16 word \<Rightarrow> ('s, session_error, unit) eff"
  cn_session :: "agent_stream \<Rightarrow> ('i, 's) proxy_io"

definition fatal_response :: "string \<Rightarrow> string \<Rightarrow> backend_message" where
  "fatal_response code message =
     ErrorResponse [(ascii CHR ''S'', ''FATAL''), (ascii CHR ''V'', ''FATAL''),
       (ascii CHR ''C'', code), (ascii CHR ''M'', message)]"

definition send_fatal :: "('i, 's) proxy_io \<Rightarrow> string \<Rightarrow> string \<Rightarrow> ('s, session_error, unit) prog" where
  "send_fatal io code message = plift (io_write_agent io (SentToAgent (fatal_response code message)))"

section \<open>TLS negotiation\<close>

fun peek_exact :: "nat \<Rightarrow> ('i, 's) conn_io \<Rightarrow> ('s, session_error, bytes) prog" where
  "peek_exact 0 cn = prunning"
| "peek_exact (Suc n) cn =
     pbind (plift (cn_peek cn)) (\<lambda>buf.
       if length buf \<ge> 8 then pret (take 8 buf)
       else if buf = [] then pfail (Handshake ''connection closed during startup'')
       else peek_exact n cn)"

definition is_ssl_request :: "bytes \<Rightarrow> bool" where
  "is_ssl_request head =
     (is_ok (fst (ssl_request_decode_body (take 4 (drop 4 head)))) \<and> fst (get_i32 (take 4 head)) = Inr 8)"

definition refused_direct_startup :: string where
  "refused_direct_startup =
     ''TLS is required on the agent endpoint; connect with sslmode=require (a direct cleartext StartupMessage is refused)''"

definition startup_and_tls ::
  "nat \<Rightarrow> ('i, 's) conn_io \<Rightarrow> bool \<Rightarrow> bool \<Rightarrow> ('s, session_error, agent_stream \<times> bool) prog" where
  "startup_and_tls n cn tls require_tls =
     pbind (peek_exact n cn) (\<lambda>head.
       if is_ssl_request head then
         pbind (plift (cn_read_exact cn 8)) (\<lambda>_.
         if tls then
           pbind (plift (cn_write_raw cn (as_bytes ''S''))) (\<lambda>_.
           pbind (plift (cn_accept_tls cn)) (\<lambda>_.
           pret (TlsStream, True)))
         else if require_tls then
           pbind (plift (cn_write_raw cn (as_bytes ''N''))) (\<lambda>_.
           pfail (Handshake ''require_tls: no TLS acceptor configured; refusing plaintext''))
         else
           pbind (plift (cn_write_raw cn (as_bytes ''N''))) (\<lambda>_.
           pret (PlainStream, False)))
       else if require_tls then
         pbind (plift (cn_write_raw cn (backend_encode (fatal_response ''08P01'' refused_direct_startup)))) (\<lambda>_.
         pfail (Handshake ''require_tls: rejected direct plaintext StartupMessage''))
       else pret (PlainStream, False))"

section \<open>Authentication\<close>

definition prandom :: "('i, 's) conn_io \<Rightarrow> nat \<Rightarrow> ('s, session_error, bytes) prog" where
  "prandom cn k s = (case cn_random cn k s of (bs, s') \<Rightarrow> (Some (Inr bs), s'))"

text \<open>A password frame of the agent, or the handshake error for what came instead.\<close>

definition read_sasl_frame :: "('i, 's) proxy_io \<Rightarrow> string \<Rightarrow> string \<Rightarrow> ('s, session_error, bytes) prog" where
  "read_sasl_frame io eof unexpected =
     pbind (plift (io_read_agent io)) (\<lambda>fr.
       case fr of
         None \<Rightarrow> pfail (Handshake eof)
       | Some frame \<Rightarrow>
           if rf_tag frame \<noteq> ascii CHR ''p'' then pfail (Handshake unexpected) else pret (rf_body frame))"

definition from_result :: "('e \<Rightarrow> session_error) \<Rightarrow> 'e + 'a \<Rightarrow> ('s, session_error, 'a) prog" where
  "from_result err r = (case r of Inl e \<Rightarrow> pfail (err e) | Inr x \<Rightarrow> pret x)"

definition authenticate_agent ::
  "scram_crypto \<Rightarrow> ('i, 's) conn_io \<Rightarrow> agent_stream \<Rightarrow> proxy_config \<Rightarrow> ('s, session_error, unit) prog" where
  "authenticate_agent cr cn stream cfg =
     (let io = cn_session cn stream in
      pbind (plift (io_write_agent io (SentToAgent (AuthenticationSasl [''SCRAM-SHA-256''])))) (\<lambda>_.
      pbind (read_sasl_frame io ''eof before SASLInitialResponse'' (''expected SASLInitialResponse 'p'' @ [CHR 0x27])) (\<lambda>body.
      pbind (from_result ProtocolFailure (fst (sasl_initial_decode_body body))) (\<lambda>initial.
      if si_mechanism initial \<noteq> ''SCRAM-SHA-256'' then
        pbind (send_fatal io ''28000'' ''unsupported SASL mechanism'') (\<lambda>_.
        pfail (AuthFailure UnsupportedMechanism))
      else
        pbind (from_result id (ok_or (Handshake ''empty SASL initial response'') (si_initial_response initial))) (\<lambda>data.
        pbind (from_result id (ok_or (Handshake ''non-utf8 client-first'') (from_utf8 data))) (\<lambda>client_first.
        pbind (prandom cn SALT_LEN) (\<lambda>salt.
        pbind (prandom cn SERVER_NONCE_LEN) (\<lambda>nonce_bytes.
        let verifier = from_password cr (px_agent_password cfg) salt;
            step = handle_client_first cr (scram_server_new cr verifier nonce_bytes) client_first;
            server = snd step in
        pbind (from_result AuthFailure (fst step)) (\<lambda>server_first.
        pbind (plift (io_write_agent io (SentToAgent (AuthenticationSaslContinue (as_bytes server_first))))) (\<lambda>_.
        pbind (read_sasl_frame io ''eof before SASLResponse'' (''expected SASLResponse 'p'' @ [CHR 0x27])) (\<lambda>body.
        pbind (from_result id (ok_or (Handshake ''non-utf8 client-final'') (from_utf8 body))) (\<lambda>client_final.
        case handle_client_final cr server client_final of
          Inl e \<Rightarrow>
            pbind (send_fatal io ''28P01'' ''password authentication failed'') (\<lambda>_. pfail (AuthFailure e))
        | Inr server_final \<Rightarrow>
            plift (io_write_agent io (SentToAgent (AuthenticationSaslFinal (as_bytes server_final))))))))))))))))"

definition finish_agent_startup :: "('i, 's) proxy_io \<Rightarrow> string \<Rightarrow> ('s, session_error, unit) prog" where
  "finish_agent_startup io backend_server_version =
     (let raw = (if backend_server_version = [] then ''unknown'' else backend_server_version);
          send = (\<lambda>m. plift (io_write_agent io (SentToAgent m))) in
      pbind (send AuthenticationOk) (\<lambda>_.
      pbind (send (ParameterStatus ''server_version'' (raw @ '' (pg_brakes proxy)''))) (\<lambda>_.
      pbind (send (ParameterStatus ''client_encoding'' ''UTF8'')) (\<lambda>_.
      pbind (send (ParameterStatus ''DateStyle'' ''ISO, MDY'')) (\<lambda>_.
      pbind (send (ParameterStatus ''standard_conforming_strings'' ''on'')) (\<lambda>_.
      pbind (send (BackendKeyData 0 0)) (\<lambda>_.
      send (ReadyForQuery Idle))))))))"

section \<open>The backend session\<close>

text \<open>The next message of the backend, decoded.\<close>

definition read_backend_message :: "('i, 's) proxy_io \<Rightarrow> backend_failure \<Rightarrow> ('s, session_error, backend_message) prog" where
  "read_backend_message io closed =
     pbind (plift (io_read_backend io)) (\<lambda>fr.
       case fr of
         None \<Rightarrow> pfail (BackendFailure closed)
       | Some frame \<Rightarrow> from_result ProtocolFailure (backend_decode (rf_tag frame) (rf_body frame)))"

fun wait_for_ready ::
  "nat \<Rightarrow> ('i, 's) proxy_io \<Rightarrow> backend_target \<Rightarrow> string \<Rightarrow> ('s, session_error, string) prog" where
  "wait_for_ready 0 io target server_version = prunning"
| "wait_for_ready (Suc n) io target server_version =
     pbind (read_backend_message io ClosedDuringStartup) (\<lambda>msg.
       case msg of
         AuthenticationOk \<Rightarrow> wait_for_ready n io target server_version
       | AuthenticationCleartextPassword \<Rightarrow>
           pbind (plift (io_write_backend io (SentToBackend (PasswordMessage (bt_password target))))) (\<lambda>_.
           wait_for_ready n io target server_version)
       | AuthenticationMd5Password _ \<Rightarrow> pfail (BackendFailure BackendAuthUnsupported)
       | AuthenticationSasl _ \<Rightarrow> pfail (BackendFailure BackendAuthUnsupported)
       | ErrorResponse flds \<Rightarrow> pfail (BackendFailure (StartupRejected (diag flds)))
       | ParameterStatus name val \<Rightarrow>
           wait_for_ready n io target (if name = ''server_version'' then val else server_version)
       | ReadyForQuery _ \<Rightarrow> pret server_version
       | _ \<Rightarrow> wait_for_ready n io target server_version)"

fun drain_to_ready :: "nat \<Rightarrow> ('i, 's) proxy_io \<Rightarrow> ('s, session_error, unit) prog" where
  "drain_to_ready 0 io = prunning"
| "drain_to_ready (Suc n) io =
     pbind (read_backend_message io ClosedMidCommand) (\<lambda>msg.
       case msg of
         ErrorResponse flds \<Rightarrow> pfail (BackendFailure (BackendError (diag flds)))
       | ReadyForQuery _ \<Rightarrow> pret ()
       | _ \<Rightarrow> drain_to_ready n io)"

definition inject_statement_timeout :: "nat \<Rightarrow> ('i, 's) proxy_io \<Rightarrow> u64 \<Rightarrow> ('s, session_error, unit) prog" where
  "inject_statement_timeout n io timeout_ms =
     pbind (send_extended_unit io (''SET statement_timeout = '' @ decimal (unat timeout_ms))) (\<lambda>_.
     drain_to_ready n io)"

definition inject_search_path :: "nat \<Rightarrow> ('i, 's) proxy_io \<Rightarrow> string \<Rightarrow> ('s, session_error, unit) prog" where
  "inject_search_path n io search_path =
     pbind (send_extended_unit io (''SET search_path = '' @ search_path)) (\<lambda>_. drain_to_ready n io)"

definition wall_startup :: "backend_target \<Rightarrow> startup_message" where
  "wall_startup target =
     \<lparr>su_protocol_version = PROTOCOL_VERSION_3,
      su_parameters = [(''user'', bt_role target), (''database'', bt_database target),
        (''application_name'', ''pgb_proxy'')]\<rparr>"

definition connect_backend ::
  "nat \<Rightarrow> ('i, 's) conn_io \<Rightarrow> ('i, 's) proxy_io \<Rightarrow> backend_target \<Rightarrow> u64 \<Rightarrow> string \<Rightarrow> ('s, session_error, string) prog" where
  "connect_backend n cn io target statement_timeout_ms search_path =
     pbind (plift (cn_connect cn (bt_host target) (bt_port target))) (\<lambda>_.
     pbind (plift (io_write_backend io (SentStartup (wall_startup target)))) (\<lambda>_.
     pbind (wait_for_ready n io target []) (\<lambda>server_version.
     pbind (if search_path \<noteq> [] then inject_search_path n io search_path else pret ()) (\<lambda>_.
     pbind (if statement_timeout_ms > 0 then inject_statement_timeout n io statement_timeout_ms else pret ()) (\<lambda>_.
     pret server_version)))))"

section \<open>Serving a connection\<close>

definition not_encrypted_message :: string where
  "not_encrypted_message =
     ''TLS is required on the agent endpoint; this connection is not encrypted '' @ [CHR 0xE2, CHR 0x80, CHR 0x94]
       @ '' refusing (no cleartext downgrade)''"

text \<open>Everything before the query loop; the stream it returns is the one the loop runs on.\<close>

definition open_session ::
  "nat \<Rightarrow> scram_crypto \<Rightarrow> ('i, 's) conn_io \<Rightarrow> proxy_config \<Rightarrow> bool \<Rightarrow> ('s, session_error, agent_stream) prog" where
  "open_session n cr cn cfg tls =
     pbind (startup_and_tls n cn tls (px_require_tls cfg)) (\<lambda>(stream, encrypted).
     let io = cn_session cn stream in
     if px_require_tls cfg \<and> \<not> encrypted then
       pbind (send_fatal io ''08P01'' not_encrypted_message) (\<lambda>_.
       pfail (Handshake ''require_tls: refused unencrypted session''))
     else
       pbind (plift (cn_read_startup cn stream)) (\<lambda>body.
       pbind (from_result ProtocolFailure (fst (startup_decode_body body))) (\<lambda>startup.
       if su_protocol_version startup \<noteq> PROTOCOL_VERSION_3 then
         pbind (send_fatal io ''0A000'' ''unsupported protocol version'') (\<lambda>_.
         pfail (Handshake ''unsupported protocol version''))
       else
         pbind (authenticate_agent cr cn stream cfg) (\<lambda>_.
         pbind (connect_backend n cn io (px_backend cfg) (px_statement_timeout_ms cfg) (px_search_path cfg)) (\<lambda>server_version.
         pbind (finish_agent_startup io server_version) (\<lambda>_.
         pret stream))))))"

definition serve_connection ::
  "nat \<Rightarrow> scram_crypto \<Rightarrow> ('i, 's) conn_io \<Rightarrow> proxy_config \<Rightarrow> bool \<Rightarrow> 'i session_cfg \<Rightarrow> ('s, session_error, unit) prog" where
  "serve_connection n cr cn cfg tls scfg =
     pbind (open_session n cr cn cfg tls) (\<lambda>stream.
     query_session n (cn_session cn stream) (scfg\<lparr>sc_budget := px_budget cfg\<rparr>))"

section \<open>No cleartext when TLS is required\<close>

lemma pbind_cong:
  assumes "m = m'" and "\<And>s x s'. m' s = (Some (Inr x), s') \<Longrightarrow> f x s' = g x s'"
  shows "pbind m f = pbind m' g"
  using assms by (auto simp: pbind_def fun_eq_iff split: option.splits sum.splits prod.splits)

lemma pbind_Inr:
  "pbind m f s = (Some (Inr y), s'') \<longleftrightarrow> (\<exists>x s'. m s = (Some (Inr x), s') \<and> f x s' = (Some (Inr y), s''))"
  by (auto simp: pbind_def split: option.splits sum.splits prod.splits)

lemma startup_is_encrypted:
  "startup_and_tls n cn tls True s = (Some (Inr (stream, encrypted)), s') \<Longrightarrow> stream = TlsStream \<and> encrypted"
  by (auto simp: startup_and_tls_def pbind_Inr split: if_splits)

lemma peek_exact_cong: "cn_peek cn' = cn_peek cn \<Longrightarrow> peek_exact n cn' = peek_exact n cn"
  by (induction n) (simp_all cong: if_cong)

text \<open>
  C19: with TLS required nothing of a session ever crosses the bare connection: replacing the
  cleartext session, the reader of its startup message, and every raw write other than the one-byte
  answers and the refusal changes nothing about how a connection is served.
\<close>

theorem required_tls_never_in_clear:
  assumes "px_require_tls cfg"
    and "sess TlsStream = cn_session cn TlsStream" and "rs TlsStream = cn_read_startup cn TlsStream"
    and "\<forall>w \<in> {as_bytes ''S'', as_bytes ''N'', backend_encode (fatal_response ''08P01'' refused_direct_startup)}.
      wr w = cn_write_raw cn w"
  shows "serve_connection n cr (cn\<lparr>cn_write_raw := wr, cn_read_startup := rs, cn_session := sess\<rparr>) cfg tls scfg
    = serve_connection n cr cn cfg tls scfg"
proof -
  let ?cn = "cn\<lparr>cn_write_raw := wr, cn_read_startup := rs, cn_session := sess\<rparr>"
  have start: "startup_and_tls n ?cn tls True = startup_and_tls n cn tls True"
    using assms(4) peek_exact_cong [of ?cn cn n] by (simp add: startup_and_tls_def cong: if_cong)
  have auth: "authenticate_agent cr ?cn TlsStream cfg = authenticate_agent cr cn TlsStream cfg"
    using assms(2) by (simp add: authenticate_agent_def prandom_def [abs_def] cong: if_cong)
  have conn: "connect_backend n ?cn io target timeout path = connect_backend n cn io target timeout path"
    for io target timeout path by (simp add: connect_backend_def)
  have opened: "open_session n cr ?cn cfg tls = open_session n cr cn cfg tls"
    unfolding open_session_def
    by (rule pbind_cong) (use assms(1-3) in \<open>auto simp: start auth conn dest!: startup_is_encrypted cong: if_cong\<close>)
  have tls: "open_session n cr cn cfg tls s = (Some (Inr stream), s') \<Longrightarrow> stream = TlsStream" for s s' stream
    using assms(1) by (auto simp: open_session_def pbind_Inr dest!: startup_is_encrypted split: if_splits)
  show ?thesis
    unfolding serve_connection_def
    by (rule pbind_cong [OF opened]) (use assms(2) in \<open>auto dest!: tls\<close>)
qed

section \<open>What the backend sees before any frame of the agent\<close>

definition traced_op :: "('s, 'e, 'a) eff \<Rightarrow> ('s \<times> 't, 'e, 'a) eff" where
  "traced_op m = (\<lambda>(s, tr). case m s of (r, s') \<Rightarrow> (r, s', tr))"

definition traced_conn :: "('i, 's) conn_io \<Rightarrow> ('i, 's \<times> 'i proxy_event list) conn_io" where
  "traced_conn cn =
     \<lparr>cn_peek = traced_op (cn_peek cn), cn_read_exact = (\<lambda>k. traced_op (cn_read_exact cn k)),
      cn_write_raw = (\<lambda>w. traced_op (cn_write_raw cn w)), cn_accept_tls = traced_op (cn_accept_tls cn),
      cn_read_startup = (\<lambda>st. traced_op (cn_read_startup cn st)),
      cn_random = (\<lambda>k (s, tr). case cn_random cn k s of (bs, s') \<Rightarrow> (bs, s', tr)),
      cn_connect = (\<lambda>h p. traced_op (cn_connect cn h p)), cn_session = (\<lambda>st. traced_io (cn_session cn st))\<rparr>"

text \<open>The writes to the backend, oldest first.\<close>

fun inbox :: "'i proxy_event list \<Rightarrow> backend_write list" where
  "inbox [] = []"
| "inbox (ev # tr) = inbox tr @ (case ev of EvToBackend w \<Rightarrow> [w] | _ \<Rightarrow> [])"

definition extended_unit :: "string \<Rightarrow> backend_write list" where
  "extended_unit sql = map SentToBackend [Parse [] sql [], Bind [] [] [0, 0, 0, 0, 0, 0], Execute [] 0, Sync]"

text \<open>The settings the proxy pins, in order.\<close>

definition pins :: "proxy_config \<Rightarrow> backend_write list" where
  "pins cfg =
     (if px_search_path cfg \<noteq> [] then extended_unit (''SET search_path = '' @ px_search_path cfg) else [])
     @ (if px_statement_timeout_ms cfg > 0
        then extended_unit (''SET statement_timeout = '' @ decimal (unat (px_statement_timeout_ms cfg))) else [])"

text \<open>A reply to a proof that the server of this password accepted was sent to the agent.\<close>

definition authentic :: "scram_crypto \<Rightarrow> proxy_config \<Rightarrow> 'i proxy_event list \<Rightarrow> bool" where
  "authentic cr cfg tr =
     (\<exists>salt nonce_bytes cfirst sfirst server cfinal reply.
        handle_client_first cr (scram_server_new cr (from_password cr (px_agent_password cfg) salt) nonce_bytes) cfirst
          = (Inr sfirst, server)
        \<and> handle_client_final cr server cfinal = Inr reply
        \<and> EvToAgent (SentToAgent (AuthenticationSaslFinal (as_bytes reply))) \<in> set tr)"

definition started :: "scram_crypto \<Rightarrow> proxy_config \<Rightarrow> 'i proxy_event list \<Rightarrow> bool" where
  "started cr cfg tr =
     (\<exists>after before. tr = after @ EvToBackend (SentStartup (wall_startup (px_backend cfg))) # before
        \<and> inbox before = [] \<and> authentic cr cfg before)"

definition pinned :: "proxy_config \<Rightarrow> 'i proxy_event list \<Rightarrow> bool" where
  "pinned cfg tr =
     (\<exists>replies later. inbox tr = SentStartup (wall_startup (px_backend cfg)) # replies @ pins cfg @ later
        \<and> set replies \<subseteq> {SentToBackend (PasswordMessage (bt_password (px_backend cfg)))})"

lemma inbox_append: "inbox (xs @ ys) = inbox ys @ inbox xs"
  by (induction xs) simp_all

lemma started_append: "started cr cfg tr \<Longrightarrow> started cr cfg (new @ tr)"
  unfolding started_def by (metis append_assoc)

lemma started_Cons: "started cr cfg tr \<Longrightarrow> started cr cfg (ev # tr)"
  using started_append [of cr cfg tr "[ev]"] by simp

lemma pinned_append: "pinned cfg tr \<Longrightarrow> pinned cfg (new @ tr)"
  by (fastforce simp: pinned_def inbox_append)

lemma traced_conn_session [simp]: "cn_session (traced_conn cn) st = traced_io (cn_session cn st)"
  by (simp add: traced_conn_def)

lemma emits_conn [emits_intros]:
  "emits N (plift (cn_peek (traced_conn cn)))" "emits N (plift (cn_read_exact (traced_conn cn) k))"
  "emits N (plift (cn_write_raw (traced_conn cn) w))" "emits N (plift (cn_accept_tls (traced_conn cn)))"
  "emits N (plift (cn_read_startup (traced_conn cn) st))" "emits N (prandom (traced_conn cn) k)"
  "emits N (plift (cn_connect (traced_conn cn) h p))"
  by (auto simp: emits_def plift_def prandom_def traced_conn_def traced_op_def split: prod.splits)

lemma emits_read_agent [emits_intros]: "emits N (plift (io_read_agent (traced_io io)))"
  by (auto simp: emits_def plift_def traced_io_def split: prod.splits)

lemma emits_from_result [emits_intros]: "emits N (from_result err r)"
  by (cases r) (simp_all add: from_result_def emits_basic)

lemma emits_startup: "emits N (startup_and_tls n (traced_conn cn) tls require_tls)"
proof -
  have "emits N (peek_exact n (traced_conn cn))"
  proof (induction n)
    case 0
    show ?case unfolding peek_exact.simps by (rule emits_basic)
  next
    case (Suc n)
    then show ?case by (auto intro!: emits_intros)
  qed
  then show ?thesis unfolding startup_and_tls_def by (auto intro!: emits_intros)
qed

lemma emits_sasl_frame [emits_intros]: "emits N (read_sasl_frame (traced_io io) eof unexpected)"
  unfolding read_sasl_frame_def by (intro emits_intros)

text \<open>Triples whose postcondition is all that matters.\<close>

abbreviation post_hoare ::
  "('t \<Rightarrow> bool) \<Rightarrow> ('s \<times> 't, 'e, 'a) prog \<Rightarrow> ('a \<Rightarrow> 't \<Rightarrow> bool) \<Rightarrow> bool" where
  "post_hoare P m Q \<equiv> traced_hoare P m (\<lambda>_. True) Q"

lemma post_emits:
  assumes "emits N m" and "\<And>ev tr. ev \<in> N \<Longrightarrow> J tr \<Longrightarrow> J (ev # tr)"
  shows "post_hoare J m (\<lambda>_. J)"
  by (rule traced_weaken [OF emits_keeps [where J = J]]) (use assms in auto)

lemma post_same: "emits {} m \<Longrightarrow> post_hoare J m (\<lambda>_. J)"
  by (rule post_emits) auto

lemma post_if:
  "(b \<Longrightarrow> post_hoare P m Q) \<Longrightarrow> (\<not> b \<Longrightarrow> post_hoare P m' Q) \<Longrightarrow> post_hoare P (if b then m else m') Q"
  by simp

lemma post_ex: "(\<And>x. post_hoare (P x) m Q) \<Longrightarrow> post_hoare (\<lambda>tr. \<exists>x. P x tr) m Q"
  by (fastforce simp: traced_hoare_def hoare_def split: prod.splits)

lemma post_fail: "post_hoare P (pfail e) Q"
  by (simp add: traced_hoare_def hoare_def)

lemma post_failing: "post_hoare P (pbind m (\<lambda>_. pfail e)) Q"
  by (auto simp: traced_hoare_def hoare_def pbind_def split: prod.split option.split sum.split)

lemma post_auth:
  "post_hoare (\<lambda>tr. inbox tr = []) (authenticate_agent cr (traced_conn cn) stream cfg)
     (\<lambda>_ tr. inbox tr = [] \<and> authentic cr cfg tr)"
proof -
  let ?io = "traced_io (cn_session cn stream)"
  let ?J = "\<lambda>tr :: 'a proxy_event list. inbox tr = []"
  have send: "post_hoare ?J (plift (io_write_agent ?io w)) (\<lambda>_. ?J)" for w
    by (rule post_emits [OF emits_write_agent [where N = "{EvToAgent w}"]]) auto
  have last: "post_hoare ?J (plift (io_write_agent ?io (SentToAgent (AuthenticationSaslFinal (as_bytes reply)))))
      (\<lambda>_ tr. inbox tr = [] \<and> authentic cr cfg tr)"
    if "handle_client_first cr (scram_server_new cr (from_password cr (px_agent_password cfg) salt) nonce_bytes) cfirst
          = (Inr sfirst, server)" "handle_client_final cr server cfinal = Inr reply"
    for salt nonce_bytes cfirst sfirst server cfinal reply
    by (rule traced_write_agent) (use that in \<open>fastforce simp: authentic_def\<close>)
  note same = traced_bind [OF post_same [where J = ?J]]
  have finish: "post_hoare ?J
      (pbind (from_result AuthFailure (fst step)) (\<lambda>server_first.
        pbind (plift (io_write_agent ?io (SentToAgent (AuthenticationSaslContinue (as_bytes server_first))))) (\<lambda>_.
        pbind (read_sasl_frame ?io eof unexpected) (\<lambda>body.
        pbind (from_result id (ok_or nonutf (from_utf8 body))) (\<lambda>client_final.
        case handle_client_final cr (snd step) client_final of
          Inl e \<Rightarrow> pbind (send_fatal ?io code message) (\<lambda>_. pfail (AuthFailure e))
        | Inr server_final \<Rightarrow>
            plift (io_write_agent ?io (SentToAgent (AuthenticationSaslFinal (as_bytes server_final)))))))))
      (\<lambda>_ tr. inbox tr = [] \<and> authentic cr cfg tr)"
    if "step = handle_client_first cr (scram_server_new cr (from_password cr (px_agent_password cfg) salt) nonce_bytes) cfirst"
    for step salt nonce_bytes cfirst eof unexpected nonutf code message
  proof (cases step)
    case (Pair r server)
    show ?thesis
    proof (cases r)
      case (Inl e)
      with Pair show ?thesis by (simp add: from_result_def post_failing post_fail traced_hoare_def hoare_def pbind_def)
    next
      case (Inr sfirst)
      have "post_hoare ?J (case handle_client_final cr server cfinal of
          Inl e \<Rightarrow> pbind (send_fatal ?io code message) (\<lambda>_. pfail (AuthFailure e))
        | Inr reply \<Rightarrow> plift (io_write_agent ?io (SentToAgent (AuthenticationSaslFinal (as_bytes reply)))))
        (\<lambda>_ tr. inbox tr = [] \<and> authentic cr cfg tr)" for cfinal
        by (cases "handle_client_final cr server cfinal")
          (auto intro: post_failing last [OF that [symmetric, unfolded Pair Inr]])
      then show ?thesis
        unfolding Pair Inr snd_conv fst_conv
        by (intro same emits_intros traced_bind [OF send])
    qed
  qed
  show ?thesis
    unfolding authenticate_agent_def Let_def traced_conn_session
    by (intro traced_bind [OF send] same emits_intros post_if post_failing finish) (rule refl)
qed

lemma post_unit:
  assumes "\<And>tr new. J tr \<Longrightarrow> J (new @ tr)"
  shows "post_hoare (\<lambda>tr. J tr \<and> inbox tr = xs) (send_extended_unit (traced_io io) sql)
    (\<lambda>_ tr. J tr \<and> inbox tr = xs @ extended_unit sql)"
proof -
  have step: "J (ev # tr)" if "J tr" for ev tr using assms [OF that, of "[ev]"] by simp
  have write_one: "post_hoare (\<lambda>tr. J tr \<and> inbox tr = ys) (plift (io_write_backend (traced_io io) w))
      (\<lambda>_ tr. J tr \<and> inbox tr = ys @ [w])" for ys w
    by (rule traced_write_backend) (simp add: step)
  show ?thesis
    unfolding send_extended_unit_def extended_unit_def
    by (rule traced_bind [OF write_one], rule traced_bind [OF write_one], rule traced_bind [OF write_one],
        rule traced_weaken [OF write_one]) auto
qed

lemma emits_backend_message: "range EvFromBackend \<subseteq> N \<Longrightarrow> emits N (read_backend_message (traced_io io) closed)"
  unfolding read_backend_message_def
  by (intro emits_bind emits_read_backend emits_option emits_basic emits_from_result)

lemma emits_drain: "emits (range EvFromBackend) (drain_to_ready n (traced_io io))"
proof (induction n)
  case 0
  show ?case unfolding drain_to_ready.simps by (rule emits_basic)
next
  case (Suc n)
  then show ?case
    by (auto intro!: emits_bind emits_backend_message emits_basic split: backend_message.split)
qed

lemma emits_wait:
  "emits (insert (EvToBackend (SentToBackend (PasswordMessage (bt_password target)))) (range EvFromBackend))
     (wait_for_ready n (traced_io io) target v)"
proof (induction n arbitrary: v)
  case 0
  show ?case unfolding wait_for_ready.simps by (rule emits_basic)
next
  case (Suc n)
  then show ?case
    by (auto intro!: emits_bind emits_backend_message emits_basic emits_write_backend split: backend_message.split)
qed

lemma post_connect:
  "post_hoare (\<lambda>tr. inbox tr = [] \<and> authentic cr cfg tr)
     (connect_backend n (traced_conn cn) (traced_io io) (px_backend cfg) (px_statement_timeout_ms cfg) (px_search_path cfg))
     (\<lambda>_ tr. started cr cfg tr \<and> pinned cfg tr)"
proof -
  let ?start = "SentStartup (wall_startup (px_backend cfg))"
  let ?pw = "SentToBackend (PasswordMessage (bt_password (px_backend cfg)))"
  let ?S = "\<lambda>xs tr. started cr cfg tr \<and> inbox tr = xs"
  have from_backend: "post_hoare (?S xs) m (\<lambda>_. ?S xs)" if "emits (range EvFromBackend) m" for xs and m :: "('b \<times> 'a proxy_event list, 'd, 'e) prog"
    by (rule post_emits [OF that]) (auto intro: started_Cons)
  have start: "post_hoare (\<lambda>tr. inbox tr = [] \<and> authentic cr cfg tr) (plift (io_write_backend (traced_io io) ?start))
      (\<lambda>_. ?S [?start])"
    by (rule traced_write_backend) (auto simp: started_def)
  have reply: "\<exists>replies. set replies \<subseteq> {?pw} \<and> ?S (?start # replies) (ev # tr)"
    if ev: "ev \<in> insert (EvToBackend ?pw) (range EvFromBackend)"
      and before: "\<exists>replies. set replies \<subseteq> {?pw} \<and> ?S (?start # replies) tr" for ev tr
  proof -
    obtain replies where r: "set replies \<subseteq> {?pw}" "started cr cfg tr" "inbox tr = ?start # replies" using before by blast
    then show ?thesis
      using ev by (auto simp: started_Cons intro: exI [of _ "replies @ [?pw]"] exI [of _ replies])
  qed
  have wait: "post_hoare (?S [?start]) (wait_for_ready n (traced_io io) (px_backend cfg) [])
      (\<lambda>_ tr. \<exists>replies. set replies \<subseteq> {?pw} \<and> ?S (?start # replies) tr)"
    by (rule traced_pre [OF post_emits [OF emits_wait, where J = "\<lambda>tr. \<exists>replies. set replies \<subseteq> {?pw} \<and> ?S (?start # replies) tr"]])
      (use reply in auto)
  have inject: "post_hoare (?S xs) (pbind (send_extended_unit (traced_io io) sql) (\<lambda>_. drain_to_ready n (traced_io io)))
      (\<lambda>_. ?S (xs @ extended_unit sql))" for xs sql
    by (rule traced_bind [OF post_unit from_backend]) (auto intro: started_append emits_drain)
  have pin: "post_hoare (\<lambda>tr. set replies \<subseteq> {?pw} \<and> ?S (?start # replies) tr)
      (pbind (if px_search_path cfg \<noteq> [] then inject_search_path n (traced_io io) (px_search_path cfg) else pret ()) (\<lambda>_.
       pbind (if px_statement_timeout_ms cfg > 0
              then inject_statement_timeout n (traced_io io) (px_statement_timeout_ms cfg) else pret ()) (\<lambda>_.
       pret v))) (\<lambda>_ tr. started cr cfg tr \<and> pinned cfg tr)" for replies v
  proof (cases "set replies \<subseteq> {?pw}")
    case True
    let ?path = "if px_search_path cfg \<noteq> [] then extended_unit (''SET search_path = '' @ px_search_path cfg) else []"
    have path: "post_hoare (?S (?start # replies))
        (if px_search_path cfg \<noteq> [] then inject_search_path n (traced_io io) (px_search_path cfg) else pret ())
        (\<lambda>_. ?S (?start # replies @ ?path))"
      using inject [of "?start # replies"] by (auto simp: inject_search_path_def intro!: traced_ret)
    have timeout: "post_hoare (?S (?start # replies @ ?path))
        (if px_statement_timeout_ms cfg > 0
         then inject_statement_timeout n (traced_io io) (px_statement_timeout_ms cfg) else pret ())
        (\<lambda>_. ?S (?start # replies @ pins cfg))"
      using inject [of "?start # replies @ ?path"]
      by (auto simp: inject_statement_timeout_def pins_def intro!: traced_ret)
    have "pinned cfg tr" if "inbox tr = ?start # replies @ pins cfg" for tr :: "'a proxy_event list"
      unfolding pinned_def using that True by (intro exI [of _ replies] exI [of _ "[]"]) simp
    then show ?thesis
      by (intro traced_bind [OF traced_pre [OF path] traced_bind [OF timeout]] traced_ret) auto
  qed (simp add: traced_hoare_def hoare_def)
  show ?thesis
    unfolding connect_backend_def
    by (intro traced_bind [OF post_same] emits_conn traced_bind [OF start] traced_bind [OF wait] post_ex pin)
qed

lemma post_open:
  "post_hoare (\<lambda>tr. inbox tr = []) (open_session n cr (traced_conn cn) cfg tls)
     (\<lambda>_ tr. started cr cfg tr \<and> pinned cfg tr)"
proof -
  note same = traced_bind [OF post_same]
  have finish: "post_hoare (\<lambda>tr. started cr cfg tr \<and> pinned cfg tr)
      (pbind (finish_agent_startup (traced_io io) v) (\<lambda>_. pret stream))
      (\<lambda>_ tr. started cr cfg tr \<and> pinned cfg tr)" for io :: "('a, 'b) proxy_io" and v stream
  proof (rule traced_bind [OF post_emits traced_ret])
    show "emits UNIV (finish_agent_startup (traced_io io) v)"
      unfolding finish_agent_startup_def Let_def by (intro emits_bind emits_write_agent UNIV_I)
  qed (auto intro: started_Cons pinned_append [of _ _ "[_]", simplified])
  show ?thesis
    unfolding open_session_def Let_def traced_conn_session split_def
    by (intro same emits_startup emits_conn emits_from_result post_if post_failing
        traced_bind [OF post_auth] traced_bind [OF post_connect] finish)
qed

lemma emits_open: "emits no_relay (open_session n cr (traced_conn cn) cfg tls)"
proof -
  have agent: "emits no_relay (plift (io_write_agent (traced_io io) (SentToAgent m)))" for io :: "('a, 'b) proxy_io" and m
    by (rule emits_write_agent) (simp add: no_relay_def)
  have backend: "emits no_relay (plift (io_write_backend (traced_io io) (SentToBackend m)))"
    "emits no_relay (plift (io_write_backend (traced_io io) (SentStartup u)))" for io :: "('a, 'b) proxy_io" and m u
    by (rule emits_write_backend, simp add: no_relay_def)+
  have drain: "emits no_relay (drain_to_ready n (traced_io io))" for io :: "('a, 'b) proxy_io"
    by (rule emits_mono [OF emits_drain]) (auto simp: no_relay_def)
  have wait: "emits no_relay (wait_for_ready n (traced_io io) target v)" for io :: "('a, 'b) proxy_io" and target v
    by (rule emits_mono [OF emits_wait]) (auto simp: no_relay_def)
  have unit: "emits no_relay (send_extended_unit (traced_io io) sql)" for io :: "('a, 'b) proxy_io" and sql
    unfolding send_extended_unit_def by (intro emits_intros backend)
  have auth: "emits no_relay (authenticate_agent cr (traced_conn cn) stream cfg)" for stream
    unfolding authenticate_agent_def Let_def traced_conn_session send_fatal_def
    by (intro emits_intros agent) (auto intro!: emits_intros agent split: sum.split)
  have connect: "emits no_relay (connect_backend n (traced_conn cn) (traced_io io) target timeout path)"
    for io :: "('a, 'b) proxy_io" and target timeout path
    unfolding connect_backend_def inject_search_path_def inject_statement_timeout_def
    by (intro emits_intros backend wait unit drain)
  show ?thesis
    unfolding open_session_def finish_agent_startup_def send_fatal_def Let_def traced_conn_session split_def
    by (intro emits_intros emits_startup agent auth connect)
qed

lemma emits_query_loop: "emits UNIV (query_loop n (traced_io io) cfg st)"
proof -
  have relay: "emits UNIV (relay_until_ready n (traced_io io) cfg w)" for n w
    unfolding relay_until_ready_def by (rule emits_mono [OF emits_relay_loop]) simp
  have allowed: "emits UNIV (query_allowed n (traced_io io) cfg frame msg st)" for n frame msg st
    unfolding query_allowed_def by (intro emits_intros emits_write_backend relay UNIV_I)
  note q = emits_mono [OF _ subset_UNIV]
  have "emits UNIV (query_message n (traced_io io) cfg frame msg st)" for n frame msg st
    unfolding query_message_def Let_def
    by (auto intro!: emits_bind q [OF quiet_preflight] q [OF quiet_records(1)] q [OF quiet_records(2)]
        q [OF quiet_records(3)] q [OF quiet_error] emits_basic allowed
        split: gate_decision.split option.split frontend_message.split)
  then have frame: "emits UNIV (query_frame n (traced_io io) cfg frame st)" for n frame st
    unfolding query_frame_def
    by (auto intro!: emits_bind q [OF quiet_records(3)] q [OF quiet_error] emits_basic
        split: sum.split option.split)
  show ?thesis
  proof (induction n arbitrary: st)
    case 0
    show ?case unfolding query_loop.simps by (rule emits_basic)
  next
    case (Suc n)
    then show ?case by (auto intro!: emits_intros frame split: option.splits)
  qed
qed

text \<open>
  C17: an agent's frame meets only a session that is authenticated, walled and pinned: whatever the
  peers do, before the first frame of the agent is relayed to the backend the agent proved the
  configured password, only then the backend session was opened as the configured role, and the
  first statements on it set the search path and the statement timeout; and the frame itself passed
  the gate.
\<close>

theorem agent_frames_meet_pinned_session:
  assumes "serve_connection n cr (traced_conn cn) cfg tls scfg (s, [])
    = (r, s', later @ EvToBackend (Relayed f) # earlier)"
  shows "started cr cfg earlier \<and> pinned cfg earlier
    \<and> frame_gated (scfg\<lparr>sc_budget := px_budget cfg\<rparr>) f earlier"
proof -
  let ?scfg = "scfg\<lparr>sc_budget := px_budget cfg\<rparr>"
  obtain q s1 tr1 where o: "open_session n cr (traced_conn cn) cfg tls (s, []) = (q, s1, tr1)" by (metis prod.collapse)
  have tr1: "set tr1 \<subseteq> no_relay" using emitsD [OF emits_open o] by auto
  have no: "q = Some (Inr stream)" if "\<And>stream. q \<noteq> Some (Inr stream)" for stream
  proof -
    have "tr1 = later @ EvToBackend (Relayed f) # earlier"
      using assms o that by (auto simp: serve_connection_def pbind_def split: option.splits sum.splits)
    with tr1 show ?thesis by (auto simp: no_relay_def)
  qed
  then obtain stream where q: "q = Some (Inr stream)" by metis
  have ready: "started cr cfg tr1 \<and> pinned cfg tr1"
    using hoareD [OF post_open [unfolded traced_hoare_def] _ o] q by auto
  have run: "query_session n (traced_io (cn_session cn stream)) ?scfg (s1, tr1) = (r, s', later @ EvToBackend (Relayed f) # earlier)"
    using assms o q by (simp add: serve_connection_def)
  have gated1: "gated ?scfg tr1" using tr1 by (induction tr1) (auto simp del: gated.simps(2) intro: gated_cons)
  have "gated ?scfg (later @ EvToBackend (Relayed f) # earlier)"
    using hoareD [OF gated_query_loop [unfolded traced_hoare_def] _ run [unfolded query_session_def]] gated1 by simp
  then have "frame_gated ?scfg f earlier" by (auto dest: gated_append)
  obtain new where "later @ EvToBackend (Relayed f) # earlier = new @ tr1"
    using emitsD [OF emits_query_loop run [unfolded query_session_def]] by blast
  then have "\<exists>new'. earlier = new' @ tr1"
    using tr1 by (auto simp: append_eq_append_conv2 Cons_eq_append_conv no_relay_def)
  then show ?thesis using ready \<open>frame_gated ?scfg f earlier\<close> started_append pinned_append by blast
qed

section \<open>A sample connection\<close>

definition sample_startup :: startup_message where
  "sample_startup = \<lparr>su_protocol_version = PROTOCOL_VERSION_3, su_parameters = []\<rparr>"

definition script_conn :: "(unit, script) conn_io" where
  "script_conn =
     \<lparr>cn_peek = (\<lambda>s. (Inr (replicate 8 0), s)), cn_read_exact = (\<lambda>k s. (Inr (), s)),
      cn_write_raw = (\<lambda>w s. (Inr (), s)), cn_accept_tls = (\<lambda>s. (Inr (), s)),
      cn_read_startup = (\<lambda>st s. (Inr (startup_body sample_startup), s)),
      cn_random = (\<lambda>k s. (replicate k 0, s)), cn_connect = (\<lambda>h p s. (Inr (), s)), cn_session = (\<lambda>_. script_io)\<rparr>"

definition constant_crypto :: scram_crypto where
  "constant_crypto =
     \<lparr>cr_sha256 = (\<lambda>_. replicate 32 0), cr_hmac = (\<lambda>k m. replicate 32 0), cr_hi = (\<lambda>p s i. p),
      cr_b64_encode = (\<lambda>_. ''x''), cr_b64_decode = (\<lambda>_. Some (replicate 32 0))\<rparr>"

definition sample_proxy :: "bool \<Rightarrow> proxy_config" where
  "sample_proxy require_tls =
     \<lparr>px_listen = [], px_tls = None, px_require_tls = require_tls,
      px_backend = \<lparr>bt_host = ''db'', bt_port = 5433, bt_database = ''app'', bt_role = ''wall'', bt_password = ''pw''\<rparr>,
      px_agent_user = ''agent'', px_agent_password = ''secret'', px_policy_role = ''analytics'',
      px_budget = sample_role_budget, px_statement_timeout_ms = 0, px_search_path = ''pg_catalog''\<rparr>"

definition sasl_frames :: "raw_frame list" where
  "sasl_frames =
     [\<lparr>rf_tag = ascii CHR ''p'', rf_body = sasl_initial_encode_body
        \<lparr>si_mechanism = ''SCRAM-SHA-256'', si_initial_response = Some (as_bytes ''n,,n=u,r=abc'')\<rparr>\<rparr>,
      \<lparr>rf_tag = ascii CHR ''p'', rf_body = as_bytes ''c=biws,r=abcx,p=x''\<rparr>]"

definition sample_conn_script :: script where
  "sample_conn_script =
     \<lparr>sx_agent = sasl_frames @ [msg_frame Sync], sx_backend = [ready_frame, ready_frame, ready_frame],
      sx_clock = clock_starting_at 7\<rparr>"

theorem required_tls_never_in_clear_witness:
  "serve_connection 5 constant_crypto
     (script_conn\<lparr>cn_write_raw := cn_write_raw script_conn, cn_read_startup := cn_read_startup script_conn,
        cn_session := (\<lambda>st. case st of TlsStream \<Rightarrow> script_io
          | PlainStream \<Rightarrow> script_io\<lparr>io_read_agent := (\<lambda>s. (Inl IoError, s))\<rparr>)\<rparr>)
     (sample_proxy True) True sample_cfg
   = serve_connection 5 constant_crypto script_conn (sample_proxy True) True sample_cfg"
  by (rule required_tls_never_in_clear) (simp_all add: sample_proxy_def script_conn_def)

lemma conn_ops [simp]:
  "plift (cn_peek (traced_conn script_conn)) (s, tr) = (Some (Inr (replicate 8 0)), s, tr)"
  "plift (cn_read_startup (traced_conn script_conn) st) (s, tr) = (Some (Inr (startup_body sample_startup)), s, tr)"
  "prandom (traced_conn script_conn) k (s, tr) = (Some (Inr (replicate k 0)), s, tr)"
  "plift (cn_connect (traced_conn script_conn) h p) (s, tr) = (Some (Inr ()), s, tr)"
  "cn_session script_conn st = script_io"
  by (simp_all add: plift_def prandom_def traced_conn_def traced_op_def script_conn_def)

lemma from_result_Inr [simp]: "from_result err (Inr x) = pret x"
  by (simp add: from_result_def)

lemma ready_decodes: "backend_decode (rf_tag ready_frame) (rf_body ready_frame) = Inr (ReadyForQuery Idle)"
  using backend_decode_body [of "ReadyForQuery Idle"] by (simp add: ready_frame_def)

lemma read_ready:
  "sx_backend s = ready_frame # fs \<Longrightarrow>
     read_backend_message (traced_io script_io) closed (s, tr)
     = (Some (Inr (ReadyForQuery Idle)), s\<lparr>sx_backend := fs\<rparr>, EvFromBackend ready_frame # tr)"
  by (simp add: read_backend_message_def script_reads ready_decodes)

lemma sample_startup_decodes: "fst (startup_decode_body (startup_body sample_startup)) = Inr sample_startup"
  using get_parameters_enc [of "[]" "[]" "[]"]
  by (simp add: startup_decode_body_def startup_body_def sample_startup_def ebind_def codec_simps)

lemma sample_initial_decodes:
  "fst (sasl_initial_decode_body (sasl_initial_encode_body
     \<lparr>si_mechanism = ''SCRAM-SHA-256'', si_initial_response = Some (as_bytes ''n,,n=u,r=abc'')\<rparr>))
   = Inr \<lparr>si_mechanism = ''SCRAM-SHA-256'', si_initial_response = Some (as_bytes ''n,,n=u,r=abc'')\<rparr>"
proof -
  have "cstr_ok ''SCRAM-SHA-256''" by (simp add: cstr_ok_def is_str_def as_bytes_def)
  then show ?thesis
    by (simp add: sasl_initial_decode_body_def sasl_initial_encode_body_def ebind_def codec_simps)
qed

definition sample_server :: scram_server where
  "sample_server = snd (handle_client_first constant_crypto
     (scram_server_new constant_crypto (from_password constant_crypto ''secret'' (replicate SALT_LEN 0))
        (replicate SERVER_NONCE_LEN 0)) ''n,,n=u,r=abc'')"

lemma sample_first:
  "handle_client_first constant_crypto
     (scram_server_new constant_crypto (from_password constant_crypto ''secret'' (replicate SALT_LEN 0))
        (replicate SERVER_NONCE_LEN 0)) ''n,,n=u,r=abc''
   = (Inr (''r=abcx,s=x,i='' @ decimal 4096), sample_server)"
  by (simp add: sample_server_def handle_client_first_def strip_gs2_header_def scram_field_def scram_server_new_def
      with_server_nonce_def from_password_def from_password_with_salt_def constant_crypto_def ITERATIONS_def)

lemma sample_final: "handle_client_final constant_crypto sample_server ''c=biws,r=abcx,p=x'' = Inr ''v=x''"
  by (simp add: sample_server_def handle_client_first_def handle_client_final_def strip_gs2_header_def scram_field_def scram_server_new_def
      with_server_nonce_def from_password_def from_password_with_salt_def constant_crypto_def ITERATIONS_def)

lemma sample_auth:
  "\<exists>tr. authenticate_agent constant_crypto (traced_conn script_conn) st (sample_proxy False) (sample_conn_script, [])
     = (Some (Inr ()), sample_conn_script\<lparr>sx_agent := [msg_frame Sync]\<rparr>, tr)"
proof -
  have utf: "from_utf8 (as_bytes ''n,,n=u,r=abc'') = Some ''n,,n=u,r=abc''"
    "from_utf8 (as_bytes ''c=biws,r=abcx,p=x'') = Some ''c=biws,r=abcx,p=x''"
    by (rule from_utf8_as_bytes, simp add: is_str_def as_bytes_def)+
  have pw: "px_agent_password (sample_proxy False) = ''secret''" by (simp add: sample_proxy_def)
  show ?thesis
    unfolding authenticate_agent_def Let_def traced_conn_session conn_ops pw
    by (simp add: read_sasl_frame_def script_reads sample_conn_script_def sasl_frames_def sample_initial_decodes utf
        sample_first sample_final)
qed

lemma sample_open:
  "\<exists>tr. open_session (Suc (Suc (Suc 0))) constant_crypto (traced_conn script_conn) (sample_proxy False) False (sample_conn_script, [])
     = (Some (Inr PlainStream), sample_conn_script\<lparr>sx_agent := [msg_frame Sync], sx_backend := [ready_frame]\<rparr>, tr)"
proof -
  obtain tr1 where auth: "authenticate_agent constant_crypto (traced_conn script_conn) PlainStream (sample_proxy False) (sample_conn_script, [])
     = (Some (Inr ()), sample_conn_script\<lparr>sx_agent := [msg_frame Sync]\<rparr>, tr1)" using sample_auth by blast
  have "i32_be 0 = replicate 4 0" by code_simp
  then have "get_i32 (replicate 4 0) = (Inr 0, [])" using i32.dec_enc_end [of 0] by simp
  then have not_ssl: "\<not> is_ssl_request (replicate 8 0)"
    by (simp add: is_ssl_request_def)
  have start: "startup_and_tls (Suc (Suc (Suc 0))) (traced_conn script_conn) False False (sample_conn_script, [])
      = (Some (Inr (PlainStream, False)), sample_conn_script, [])"
    using not_ssl by (simp add: startup_and_tls_def)
  have connect: "\<exists>tr. connect_backend (Suc (Suc (Suc 0))) (traced_conn script_conn) (traced_io script_io) (px_backend (sample_proxy False)) 0 ''pg_catalog''
        (sample_conn_script\<lparr>sx_agent := [msg_frame Sync]\<rparr>, tr1)
      = (Some (Inr []), sample_conn_script\<lparr>sx_agent := [msg_frame Sync], sx_backend := [ready_frame]\<rparr>, tr)"
    by (simp add: connect_backend_def read_ready sample_conn_script_def inject_search_path_def send_extended_unit_def)
  have cfg: "px_require_tls (sample_proxy False) = False" "px_statement_timeout_ms (sample_proxy False) = 0"
    "px_search_path (sample_proxy False) = ''pg_catalog''" by (simp_all add: sample_proxy_def)
  show ?thesis
    using connect
    by (auto simp: open_session_def start cfg sample_startup_decodes auth finish_agent_startup_def)
      (simp_all add: sample_startup_def)
qed

theorem agent_frames_meet_pinned_session_witness:
  "\<exists>earlier. started constant_crypto (sample_proxy False) earlier \<and> pinned (sample_proxy False) earlier
    \<and> frame_gated (sample_cfg\<lparr>sc_budget := sample_role_budget\<rparr>) (msg_frame Sync) earlier"
proof -
  let ?s = "sample_conn_script\<lparr>sx_agent := [msg_frame Sync], sx_backend := [ready_frame]\<rparr>"
  let ?cfg = "sample_cfg\<lparr>sc_budget := sample_role_budget\<rparr>"
  obtain tr where opened: "open_session (Suc (Suc (Suc 0))) constant_crypto (traced_conn script_conn) (sample_proxy False) False (sample_conn_script, [])
     = (Some (Inr PlainStream), ?s, tr)" using sample_open by blast
  have dec: "frontend_decode (rf_tag (msg_frame Sync)) (rf_body (msg_frame Sync)) = Inr Sync"
    by (rule decode_msg_frame) simp
  have gate: "gate classify_fn Sync = GateAllow None" for classify_fn by (simp add: gate_allow_none)
  have ready: "relay_frame (traced_io script_io) cfg ready_frame rs (s, tr)
      = (Some (Inr (RelayDone (rs_window rs))), s, EvToAgent (Forwarded ready_frame) # tr)" for cfg rs s tr
    by (simp add: relay_frame_def backend_starts_copy_def frame_tags)
  have cfg: "px_budget (sample_proxy False) = sample_role_budget" by (simp add: sample_proxy_def)
  have "\<exists>r s' later. query_session (Suc (Suc (Suc 0))) (traced_io script_io) ?cfg (?s, tr)
      = (r, s', later @ EvToBackend (Relayed (msg_frame Sync)) # tr)"
    by (simp add: query_session_def script_reads query_frame_def dec query_message_def gate query_allowed_def
        relay_until_ready_def ready)
  then obtain r s' later where "serve_connection (Suc (Suc (Suc 0))) constant_crypto (traced_conn script_conn) (sample_proxy False) False sample_cfg
        (sample_conn_script, []) = (r, s', later @ EvToBackend (Relayed (msg_frame Sync)) # tr)"
    by (auto simp: serve_connection_def opened cfg)
  from agent_frames_meet_pinned_session [OF this] show ?thesis unfolding cfg by blast
qed

end
