(* ===== verification/Warden.thy ===== *)
theory Warden
  imports Audit_Chain Policy_Config Core_Session Fuel_Effect
begin

text \<open>
  The watchdog (\<^verbatim>\<open>crates/warden/src\<close>): thresholds and their gates, the assessment of one
  observation, the circuit breaker, the tick that terminates runaways and trips the breaker, and the
  audit records it leaves. The activity source, the killer and the audit sink are operations on an
  arbitrary environment.
\<close>

section \<open>Observations\<close>

definition PROXY_APP_NAME :: string where
  "PROXY_APP_NAME = ''pgb_proxy''"

definition AGENT_ROLE :: string where
  "AGENT_ROLE = ''pgb_agent''"

record backend_row =
  bk_pid :: i32
  bk_usename :: string
  bk_application_name :: string
  bk_state :: string
  bk_query_runtime_millis :: u64
  bk_query :: string

definition is_agent_tagged :: "backend_row \<Rightarrow> bool" where
  "is_agent_tagged b = (bk_usename b = AGENT_ROLE \<or> bk_application_name b = PROXY_APP_NAME)"

record replication_slot =
  sl_slot_name :: string
  sl_slot_type :: string
  sl_active :: bool
  sl_retained_wal_bytes :: u64

record observation =
  ob_backends :: "backend_row list"
  ob_slots :: "replication_slot list"
  ob_replication_lag_bytes :: u64

definition tag_is_strippable_for :: "string \<Rightarrow> bool" where
  "tag_is_strippable_for role = (role \<noteq> AGENT_ROLE)"

section \<open>Thresholds\<close>

record warden_thresholds =
  wt_poll_interval_millis :: u64
  wt_max_query_runtime_millis :: u64
  wt_slot_retained_wal_alarm_bytes :: u64
  wt_breaker_lag_trip_bytes :: u64
  wt_breaker_runaway_trip_count :: u32
  wt_breaker_cooldown_millis :: u64

definition thresholds_default :: warden_thresholds where
  "thresholds_default =
     \<lparr>wt_poll_interval_millis = 2000, wt_max_query_runtime_millis = 60000,
      wt_slot_retained_wal_alarm_bytes = 64 * 1024 * 1024, wt_breaker_lag_trip_bytes = 128 * 1024 * 1024,
      wt_breaker_runaway_trip_count = 3, wt_breaker_cooldown_millis = 30000\<rparr>"

datatype threshold_invalid =
    PollZero | PollTooLong u64 | RuntimeZero | SlotAlarmZero | LagTripZero | RunawayTripZero | CooldownZero

datatype 'p threshold_error = ThresholdParse 'p | ThresholdInvalid threshold_invalid

definition thresholds_validate :: "warden_thresholds \<Rightarrow> threshold_invalid + unit" where
  "thresholds_validate t =
     (if wt_poll_interval_millis t = 0 then Inl PollZero
      else if wt_poll_interval_millis t > 3600000 then Inl (PollTooLong (wt_poll_interval_millis t))
      else if wt_max_query_runtime_millis t = 0 then Inl RuntimeZero
      else if wt_slot_retained_wal_alarm_bytes t = 0 then Inl SlotAlarmZero
      else if wt_breaker_lag_trip_bytes t = 0 then Inl LagTripZero
      else if wt_breaker_runaway_trip_count t = 0 then Inl RunawayTripZero
      else if wt_breaker_cooldown_millis t = 0 then Inl CooldownZero
      else Inr ())"

text \<open>\<open>parse\<close> is the YAML deserializer; it yields the warden section, when the document has one.\<close>

definition from_policy_yaml ::
  "(string \<Rightarrow> 'p + warden_thresholds option) \<Rightarrow> string \<Rightarrow> 'p threshold_error + warden_thresholds" where
  "from_policy_yaml parse yaml =
     (case parse yaml of
        Inl e \<Rightarrow> Inl (ThresholdParse e)
      | Inr warden \<Rightarrow>
          let t = (case warden of None \<Rightarrow> thresholds_default | Some t \<Rightarrow> t) in
          (case thresholds_validate t of Inl e \<Rightarrow> Inl (ThresholdInvalid e) | Inr _ \<Rightarrow> Inr t))"

datatype ('i, 'p) policy_load_error = CannotRead string 'i | InvalidPolicy string "'p threshold_error"

definition load_thresholds_fail_closed ::
  "(string \<Rightarrow> 'i + string) \<Rightarrow> (string \<Rightarrow> 'p + warden_thresholds option) \<Rightarrow> string
     \<Rightarrow> ('i, 'p) policy_load_error + warden_thresholds" where
  "load_thresholds_fail_closed read_to_string parse path =
     (case read_to_string path of
        Inl e \<Rightarrow> Inl (CannotRead path e)
      | Inr yaml \<Rightarrow> (case from_policy_yaml parse yaml of Inl e \<Rightarrow> Inl (InvalidPolicy path e) | Inr t \<Rightarrow> Inr t))"

section \<open>The circuit breaker\<close>

datatype warden_principal = WardenPrincipal | AgentPrincipal | OperatorPrincipal

text \<open>The sealed credential, which only the warden mints; its principal is always the warden.\<close>

datatype warden_credential = Sealed

definition credential_principal :: "warden_credential \<Rightarrow> warden_principal" where
  "credential_principal c = WardenPrincipal"

datatype breaker_state = Closed | Open u64 | HalfOpen

datatype trip_reason =
    ReplicationLag u64 u64
  | RunawayVolume u32 u32
  | SlotWalCeiling string u64 u64

datatype forgery_rejected = ForgeryRejected warden_principal

record circuit_breaker =
  cb_state :: breaker_state
  cb_cooldown_millis :: u64
  cb_last_trip_reason :: "trip_reason option"

definition breaker_new :: "u64 \<Rightarrow> circuit_breaker" where
  "breaker_new cooldown = \<lparr>cb_state = Closed, cb_cooldown_millis = cooldown, cb_last_trip_reason = None\<rparr>"

definition is_open :: "breaker_state \<Rightarrow> bool" where
  "is_open st = (case st of Open _ \<Rightarrow> True | _ \<Rightarrow> False)"

definition allows_traffic :: "circuit_breaker \<Rightarrow> bool" where
  "allows_traffic b = (\<not> is_open (cb_state b))"

definition breaker_trip ::
  "warden_credential \<Rightarrow> trip_reason \<Rightarrow> clock \<Rightarrow> (circuit_breaker, forgery_rejected, unit) eff" where
  "breaker_trip who reason clk b =
     (if credential_principal who \<noteq> WardenPrincipal then (Inl (ForgeryRejected (credential_principal who)), b)
      else
        let b = b\<lparr>cb_last_trip_reason := Some reason\<rparr> in
        (Inr (), if \<not> is_open (cb_state b) then b\<lparr>cb_state := Open (monotonic_millis clk)\<rparr> else b))"

definition trip_unauthenticated :: "warden_principal \<Rightarrow> (circuit_breaker, forgery_rejected, unit) eff" where
  "trip_unauthenticated who b = (Inl (ForgeryRejected who), b)"

definition breaker_tick :: "clock \<Rightarrow> circuit_breaker \<Rightarrow> circuit_breaker" where
  "breaker_tick clk b =
     (case cb_state b of
        Open opened_at \<Rightarrow>
          if sat_sub (monotonic_millis clk) opened_at \<ge> cb_cooldown_millis b then b\<lparr>cb_state := HalfOpen\<rparr> else b
      | _ \<Rightarrow> b)"

definition record_probe_success :: "warden_credential \<Rightarrow> (circuit_breaker, forgery_rejected, unit) eff" where
  "record_probe_success who b =
     (if credential_principal who \<noteq> WardenPrincipal then (Inl (ForgeryRejected (credential_principal who)), b)
      else (Inr (), if cb_state b = HalfOpen then b\<lparr>cb_state := Closed, cb_last_trip_reason := None\<rparr> else b))"

definition record_probe_failure :: "warden_credential \<Rightarrow> clock \<Rightarrow> (circuit_breaker, forgery_rejected, unit) eff" where
  "record_probe_failure who clk b =
     (if credential_principal who \<noteq> WardenPrincipal then (Inl (ForgeryRejected (credential_principal who)), b)
      else (Inr (), if cb_state b = HalfOpen then b\<lparr>cb_state := Open (monotonic_millis clk)\<rparr> else b))"

section \<open>The assessment\<close>

record assessment =
  as_to_terminate :: "i32 list"
  as_spared_non_agent :: "i32 list"
  as_slot_alarms :: "(string \<times> u64) list"
  as_trip :: "trip_reason option"

definition is_runaway :: "backend_row \<Rightarrow> u64 \<Rightarrow> bool" where
  "is_runaway b max_runtime = (bk_state b = ''active'' \<and> bk_query_runtime_millis b > max_runtime)"

definition is_slot_over_ceiling :: "replication_slot \<Rightarrow> u64 \<Rightarrow> bool" where
  "is_slot_over_ceiling s ceil = (sl_retained_wal_bytes s > ceil)"

fun assess_backends :: "u64 \<Rightarrow> backend_row list \<Rightarrow> i32 list \<Rightarrow> i32 list \<Rightarrow> u32 \<Rightarrow> i32 list \<times> i32 list \<times> u32" where
  "assess_backends max_runtime [] kill spared runaways = (kill, spared, runaways)"
| "assess_backends max_runtime (b # bs) kill spared runaways =
     (if \<not> is_runaway b max_runtime then assess_backends max_runtime bs kill spared runaways
      else if is_agent_tagged b then assess_backends max_runtime bs (kill @ [bk_pid b]) spared (runaways + 1)
      else assess_backends max_runtime bs kill (spared @ [bk_pid b]) runaways)"

definition assess :: "observation \<Rightarrow> warden_thresholds \<Rightarrow> assessment" where
  "assess obs t =
     (case assess_backends (wt_max_query_runtime_millis t) (ob_backends obs) [] [] 0 of
        (to_terminate, spared, runaways) \<Rightarrow>
          let alarms = map (\<lambda>s. (sl_slot_name s, sl_retained_wal_bytes s))
                         (filter (\<lambda>s. is_slot_over_ceiling s (wt_slot_retained_wal_alarm_bytes t)) (ob_slots obs));
              trip =
                (if ob_replication_lag_bytes obs > wt_breaker_lag_trip_bytes t
                 then Some (ReplicationLag (ob_replication_lag_bytes obs) (wt_breaker_lag_trip_bytes t))
                 else case alarms of
                   (name, bs) # _ \<Rightarrow> Some (SlotWalCeiling name bs (wt_slot_retained_wal_alarm_bytes t))
                 | [] \<Rightarrow>
                     if runaways \<ge> wt_breaker_runaway_trip_count t
                     then Some (RunawayVolume runaways (wt_breaker_runaway_trip_count t))
                     else None)
          in \<lparr>as_to_terminate = to_terminate, as_spared_non_agent = spared, as_slot_alarms = alarms, as_trip = trip\<rparr>)"

section \<open>The loop\<close>

record ('i, 's) warden_io =
  wi_observe :: "'s \<Rightarrow> observation \<times> 's"
  wi_terminate :: "i32 \<Rightarrow> 's \<Rightarrow> 's"
  wi_append :: "'i new_entry \<Rightarrow> u64 \<Rightarrow> ('s, string, unit) eff"
  wi_clock :: "'s \<Rightarrow> clock \<times> 's"

record warden_loop =
  wl_thresholds :: warden_thresholds
  wl_breaker :: circuit_breaker
  wl_credential :: warden_credential

definition warden_loop_new :: "warden_thresholds \<Rightarrow> warden_loop" where
  "warden_loop_new t =
     \<lparr>wl_thresholds = t, wl_breaker = breaker_new (wt_breaker_cooldown_millis t), wl_credential = Sealed\<rparr>"

record tick_outcome =
  to_terminated_pids :: "i32 list"
  to_spared_non_agent_pids :: "i32 list"
  to_slot_alarms :: "(string \<times> u64) list"
  to_breaker_open :: bool

text \<open>The breaker reads the clock only while it is open, and once more when it trips.\<close>

definition tick_breaker :: "('i, 's) warden_io \<Rightarrow> circuit_breaker \<Rightarrow> 's \<Rightarrow> circuit_breaker \<times> 's" where
  "tick_breaker io b s =
     (if is_open (cb_state b) then (case wi_clock io s of (clk, s') \<Rightarrow> (breaker_tick clk b, s')) else (b, s))"

definition trip_breaker ::
  "('i, 's) warden_io \<Rightarrow> warden_credential \<Rightarrow> trip_reason option \<Rightarrow> circuit_breaker \<Rightarrow> 's \<Rightarrow> circuit_breaker \<times> 's" where
  "trip_breaker io who trip b s =
     (case trip of
        None \<Rightarrow> (b, s)
      | Some reason \<Rightarrow>
          if is_open (cb_state b) then (snd (breaker_trip who reason (clock_starting_at 0) b), s)
          else case wi_clock io s of (clk, s') \<Rightarrow> (snd (breaker_trip who reason clk b), s'))"

definition warden_tick :: "('i, 's) warden_io \<Rightarrow> warden_loop \<times> 's \<Rightarrow> tick_outcome \<times> warden_loop \<times> 's" where
  "warden_tick io = (\<lambda>(w, s).
     case tick_breaker io (wl_breaker w) s of (b1, s1) \<Rightarrow>
     case wi_observe io s1 of (obs, s2) \<Rightarrow>
     let a = assess obs (wl_thresholds w);
         s3 = foldl (\<lambda>s pid. wi_terminate io pid s) s2 (as_to_terminate a) in
     case trip_breaker io (wl_credential w) (as_trip a) b1 s3 of (b2, s4) \<Rightarrow>
     (\<lparr>to_terminated_pids = as_to_terminate a, to_spared_non_agent_pids = as_spared_non_agent a,
       to_slot_alarms = as_slot_alarms a, to_breaker_open = \<not> allows_traffic b2\<rparr>,
      w\<lparr>wl_breaker := b2\<rparr>, s4))"

section \<open>Audit records\<close>

definition WARDEN_AUDIT_ROLE :: string where
  "WARDEN_AUDIT_ROLE = ''pgb_agent''"

definition REASON_WARDEN_TERMINATE :: string where
  "REASON_WARDEN_TERMINATE = ''WARDEN_TERMINATE''"

definition REASON_BREAKER_TRIP :: string where
  "REASON_BREAKER_TRIP = ''BREAKER_TRIP''"

definition REASON_SLOT_ALARM :: string where
  "REASON_SLOT_ALARM = ''SLOT_ALARM''"

definition signed_decimal :: "i32 \<Rightarrow> string" where
  "signed_decimal n = (if sint n < 0 then CHR ''-'' # decimal (nat (- sint n)) else decimal (nat (sint n)))"

definition warden_entry :: "'i \<Rightarrow> string \<Rightarrow> string \<Rightarrow> string \<Rightarrow> string option \<Rightarrow> 'i new_entry" where
  "warden_entry no_intent session_id statement_text reason_code reason =
     \<lparr>ne_statement_text = statement_text, ne_decision = DecisionBlock, ne_reason_code = reason_code,
      ne_reason = reason,
      ne_principal = \<lparr>ap_role = WARDEN_AUDIT_ROLE, ap_session_id = Some session_id, ap_principal = Some ''pgb_warden''\<rparr>,
      ne_intent = no_intent, ne_write_safety = \<lparr>ws_dry_run_id = None, ws_blast_radius_ref = None\<rparr>\<rparr>"

definition audit_entries_for :: "'i \<Rightarrow> tick_outcome \<Rightarrow> string \<Rightarrow> 'i new_entry list" where
  "audit_entries_for no_intent outcome session_id =
     map (\<lambda>pid. warden_entry no_intent session_id (''pg_terminate_backend('' @ signed_decimal pid @ '')'')
            REASON_WARDEN_TERMINATE
            (Some (''warden terminated agent-tagged runaway backend pid='' @ signed_decimal pid)))
       (to_terminated_pids outcome)
     @ map (\<lambda>(slot_name, retained). warden_entry no_intent session_id
              (''replication slot `'' @ slot_name @ ''` retained_wal_bytes='' @ decimal (unat retained))
              REASON_SLOT_ALARM
              (Some (''warden slot/WAL alarm: slot `'' @ slot_name @ ''` retaining '' @ decimal (unat retained)
                 @ '' bytes over ceiling'')))
         (to_slot_alarms outcome)
     @ (if to_breaker_open outcome
        then [warden_entry no_intent session_id ''circuit breaker OPEN'' REASON_BREAKER_TRIP
                (Some ''warden authenticated circuit breaker tripped/open'')]
        else [])"

definition action_count :: "tick_outcome \<Rightarrow> nat" where
  "action_count outcome =
     length (to_terminated_pids outcome) + length (to_slot_alarms outcome) + (if to_breaker_open outcome then 1 else 0)"

fun append_entries :: "('i, 's) warden_io \<Rightarrow> 'i new_entry list \<Rightarrow> u64 \<Rightarrow> ('s, string, unit) eff" where
  "append_entries io [] ts s = (Inr (), s)"
| "append_entries io (e # es) ts s =
     (case wi_append io e ts s of
        (Inl err, s') \<Rightarrow> (Inl err, s')
      | (Inr _, s') \<Rightarrow> append_entries io es ts s')"

definition tick_and_audit ::
  "('i, 's) warden_io \<Rightarrow> 'i \<Rightarrow> string \<Rightarrow> (warden_loop \<times> 's, string, tick_outcome) eff" where
  "tick_and_audit io no_intent session_id = (\<lambda>(w, s).
     case warden_tick io (w, s) of (outcome, w', s1) \<Rightarrow>
     case wi_clock io s1 of (clk', s2) \<Rightarrow>
     case append_entries io (audit_entries_for no_intent outcome session_id) (now_unix_millis clk') s2 of
       (Inl e, s3) \<Rightarrow> (Inl e, w', s3)
     | (Inr _, s3) \<Rightarrow> (Inr outcome, w', s3))"

text \<open>The loop of the process; it ends only with an audit failure. The sleep between ticks is left out.\<close>

fun run_loop :: "nat \<Rightarrow> ('i, 's) warden_io \<Rightarrow> 'i \<Rightarrow> string \<Rightarrow> (warden_loop \<times> 's, string, unit) prog" where
  "run_loop 0 io no_intent session_id = prunning"
| "run_loop (Suc n) io no_intent session_id =
     pbind (plift (tick_and_audit io no_intent session_id)) (\<lambda>_. run_loop n io no_intent session_id)"

section \<open>Settings\<close>

record warden_settings =
  ws_host :: string
  ws_port :: string
  ws_backend_db :: string
  ws_audit_db :: string
  ws_admin_role :: string
  ws_admin_password :: string
  ws_writer_role :: string
  ws_writer_password :: string

datatype settings_error = SettingsTarget target_resolution_error | SettingsMissing string

definition env_or :: "(string \<Rightarrow> string option) \<Rightarrow> string \<Rightarrow> string \<Rightarrow> string" where
  "env_or getenv key dflt = (case getenv key of None \<Rightarrow> dflt | Some v \<Rightarrow> v)"

definition env_required :: "(string \<Rightarrow> string option) \<Rightarrow> string \<Rightarrow> settings_error + string" where
  "env_required getenv key = (case getenv key of None \<Rightarrow> Inl (SettingsMissing key) | Some v \<Rightarrow> Inr v)"

definition settings_resolve ::
  "dsn_target option \<Rightarrow> (string \<Rightarrow> string option) \<Rightarrow> settings_error + warden_settings" where
  "settings_resolve policy_primary getenv =
     (case resolve
        \<lparr>tr_policy_target = policy_primary, tr_host_override = getenv ''PGB_BACKEND_HOST'',
         tr_port_override = getenv ''PGB_BACKEND_PORT'', tr_db_override = getenv ''PGB_BACKEND_DB'',
         tr_role_override = None, tr_default_database = ''postgres'', tr_default_role = ''postgres'',
         tr_host_env_key = ''PGB_BACKEND_HOST'', tr_port_env_key = ''PGB_BACKEND_PORT'',
         tr_policy_hint = ''policy.yaml `primary:` (the BYO primary target the warden watches, SPEC '' @ [CHR 0xC2, CHR 0xA7] @ ''0.5)''\<rparr> of
        Inl e \<Rightarrow> Inl (SettingsTarget e)
      | Inr target \<Rightarrow>
          rbind (env_required getenv ''PGB_WARDEN_ADMIN_PASSWORD'') (\<lambda>admin_password.
          rbind (env_required getenv ''PGB_AUDIT_WRITER_PASSWORD'') (\<lambda>writer_password.
          Inr \<lparr>ws_host = rt_host target, ws_port = decimal (unat (rt_port target)), ws_backend_db = rt_database target,
               ws_audit_db = env_or getenv ''PGB_AUDIT_DB'' ''postgres'',
               ws_admin_role = env_or getenv ''PGB_WARDEN_ADMIN_ROLE'' ''postgres'', ws_admin_password = admin_password,
               ws_writer_role = env_or getenv ''PGB_AUDIT_WRITER_ROLE'' ''pgb_audit_writer'',
               ws_writer_password = writer_password\<rparr>)))"

definition kv_dsn :: "string \<Rightarrow> string \<Rightarrow> string \<Rightarrow> string \<Rightarrow> string \<Rightarrow> string" where
  "kv_dsn host port db user password =
     ''host='' @ host @ '' port='' @ port @ '' dbname='' @ db @ '' user='' @ user @ '' password='' @ password"

definition observe_dsn :: "warden_settings \<Rightarrow> string" where
  "observe_dsn w = kv_dsn (ws_host w) (ws_port w) (ws_backend_db w) (ws_admin_role w) (ws_admin_password w)"

definition writer_dsn :: "warden_settings \<Rightarrow> string" where
  "writer_dsn w = kv_dsn (ws_host w) (ws_port w) (ws_audit_db w) (ws_writer_role w) (ws_writer_password w)"

section \<open>The activity source\<close>

definition WARDEN_ADMIN_APP_NAME :: string where
  "WARDEN_ADMIN_APP_NAME = ''pgb_warden_admin''"

definition contains :: "string \<Rightarrow> string \<Rightarrow> bool" where
  "contains pat s = (\<exists>i \<in> set [0..<Suc (length s)]. take (length pat) (drop i s) = pat)"

definition with_warden_admin_app_name :: "string \<Rightarrow> string" where
  "with_warden_admin_app_name dsn =
     (if contains ''application_name='' dsn then dsn else dsn @ '' application_name='' @ WARDEN_ADMIN_APP_NAME)"

text \<open>
  A row of \<^verbatim>\<open>pg_stat_activity\<close>, absent columns being null. The query keeps the client backends
  other than its own whose application name is not the warden's; a null name compares as unknown
  and is left out.
\<close>

record activity_row =
  pa_pid :: i32
  pa_usename :: "string option"
  pa_application_name :: "string option"
  pa_state :: "string option"
  pa_runtime_ms :: "i64 option"
  pa_query :: "string option"
  pa_backend_type :: string

record slot_row =
  ps_slot_name :: string
  ps_slot_type :: string
  ps_active :: "bool option"
  ps_retained :: "i64 option"

definition null_or :: "'a \<Rightarrow> 'a option \<Rightarrow> 'a" where
  "null_or d x = (case x of None \<Rightarrow> d | Some v \<Rightarrow> v)"

definition selected :: "i32 \<Rightarrow> activity_row \<Rightarrow> bool" where
  "selected own_pid r =
     (pa_pid r \<noteq> own_pid \<and> pa_backend_type r = ''client backend''
      \<and> (case pa_application_name r of None \<Rightarrow> False | Some n \<Rightarrow> n \<noteq> WARDEN_ADMIN_APP_NAME))"

definition clamp_i64 :: "i64 \<Rightarrow> u64" where
  "clamp_i64 x = (if sint x < 0 then 0 else x)"

text \<open>A failed query counts as no rows (\<^verbatim>\<open>unwrap_or_default\<close>), which is the empty list here.\<close>

definition pg_observe :: "i32 \<Rightarrow> activity_row list \<Rightarrow> slot_row list \<Rightarrow> observation" where
  "pg_observe own_pid rows slots =
     \<lparr>ob_backends = map (\<lambda>r. \<lparr>bk_pid = pa_pid r, bk_usename = null_or [] (pa_usename r),
          bk_application_name = null_or [] (pa_application_name r), bk_state = null_or [] (pa_state r),
          bk_query_runtime_millis = clamp_i64 (null_or 0 (pa_runtime_ms r)), bk_query = null_or [] (pa_query r)\<rparr>)
        (filter (selected own_pid) rows),
      ob_slots = map (\<lambda>r. \<lparr>sl_slot_name = ps_slot_name r, sl_slot_type = ps_slot_type r,
          sl_active = null_or False (ps_active r), sl_retained_wal_bytes = clamp_i64 (null_or 0 (ps_retained r))\<rparr>) slots,
      ob_replication_lag_bytes = 0\<rparr>"

section \<open>Recorded runs\<close>

datatype 'i warden_event = WObserve observation | WTerminate i32 | WAppend "'i new_entry" bool

text \<open>The operations of the environment, oldest first.\<close>

definition traced_warden :: "('i, 's) warden_io \<Rightarrow> ('i, 's \<times> 'i warden_event list) warden_io" where
  "traced_warden io =
     \<lparr>wi_observe = (\<lambda>(s, tr). case wi_observe io s of (obs, s') \<Rightarrow> (obs, s', tr @ [WObserve obs])),
      wi_terminate = (\<lambda>pid (s, tr). (wi_terminate io pid s, tr @ [WTerminate pid])),
      wi_append = (\<lambda>e ts (s, tr). case wi_append io e ts s of (r, s') \<Rightarrow> (r, s', tr @ [WAppend e (is_ok r)])),
      wi_clock = (\<lambda>(s, tr). case wi_clock io s of (clk, s') \<Rightarrow> (clk, s', tr))\<rparr>"

definition observations :: "'i warden_event list \<Rightarrow> observation list" where
  "observations tr = List.map_filter (\<lambda>ev. case ev of WObserve obs \<Rightarrow> Some obs | _ \<Rightarrow> None) tr"

definition terminations :: "'i warden_event list \<Rightarrow> i32 list" where
  "terminations tr = List.map_filter (\<lambda>ev. case ev of WTerminate pid \<Rightarrow> Some pid | _ \<Rightarrow> None) tr"

definition recorded :: "'i warden_event list \<Rightarrow> 'i new_entry list" where
  "recorded tr = List.map_filter (\<lambda>ev. case ev of WAppend e True \<Rightarrow> Some e | _ \<Rightarrow> None) tr"

lemma event_lists [simp]:
  "observations [] = []" "terminations [] = []" "recorded [] = []"
  "observations (tr @ tr') = observations tr @ observations tr'"
  "terminations (tr @ tr') = terminations tr @ terminations tr'"
  "recorded (tr @ tr') = recorded tr @ recorded tr'"
  "observations [ev] = (case ev of WObserve obs \<Rightarrow> [obs] | _ \<Rightarrow> [])"
  "terminations [ev] = (case ev of WTerminate pid \<Rightarrow> [pid] | _ \<Rightarrow> [])"
  "recorded [ev] = (case ev of WAppend e ok \<Rightarrow> if ok then [e] else [] | _ \<Rightarrow> [])"
  by (auto simp: observations_def terminations_def recorded_def map_filter_def split: warden_event.splits)

text \<open>The backends an observation condemns: tagged as the agent's, active and over the ceiling.\<close>

definition condemned :: "warden_thresholds \<Rightarrow> observation \<Rightarrow> i32 list" where
  "condemned t obs =
     map bk_pid (filter (\<lambda>b. is_agent_tagged b \<and> is_runaway b (wt_max_query_runtime_millis t)) (ob_backends obs))"

lemma assess_backends_lists:
  "assess_backends m bs kill spared k =
     (kill @ map bk_pid (filter (\<lambda>b. is_agent_tagged b \<and> is_runaway b m) bs),
      spared @ map bk_pid (filter (\<lambda>b. \<not> is_agent_tagged b \<and> is_runaway b m) bs),
      k + word_of_nat (length (filter (\<lambda>b. is_agent_tagged b \<and> is_runaway b m) bs)))"
  by (induction bs arbitrary: kill spared k) (auto simp: algebra_simps)

lemma assess_condemns: "as_to_terminate (assess obs t) = condemned t obs"
  by (simp add: assess_def condemned_def assess_backends_lists)

lemma terminate_all_events:
  "foldl (\<lambda>s pid. wi_terminate (traced_warden io) pid s) (s, tr) pids
     = (foldl (\<lambda>s pid. wi_terminate io pid s) s pids, tr @ map WTerminate pids)"
  by (induction pids arbitrary: s tr) (auto simp: traced_warden_def)

lemma traced_breaker:
  "\<exists>s'. tick_breaker (traced_warden io) b (s, tr) = (fst (tick_breaker io b s), s', tr)"
  "\<exists>b' s'. trip_breaker (traced_warden io) who trip b (s, tr) = (b', s', tr)"
  by (auto simp: tick_breaker_def trip_breaker_def traced_warden_def split: prod.splits option.splits)

lemma warden_tick_events:
  assumes "warden_tick (traced_warden io) (w, s, tr) = (outcome, w', s', tr')"
  obtains obs where "tr' = tr @ [WObserve obs] @ map WTerminate (condemned (wl_thresholds w) obs)"
    and "to_terminated_pids outcome = condemned (wl_thresholds w) obs"
    and "wl_thresholds w' = wl_thresholds w" and "to_breaker_open outcome = is_open (cb_state (wl_breaker w'))"
proof -
  obtain b1 s1 where b1: "tick_breaker (traced_warden io) (wl_breaker w) (s, tr) = (b1, s1, tr)"
    using traced_breaker(1) by metis
  obtain obs s2 where obs: "wi_observe io s1 = (obs, s2)" by fastforce
  let ?s3 = "foldl (\<lambda>s pid. wi_terminate io pid s) s2 (condemned (wl_thresholds w) obs)"
  let ?tr3 = "tr @ [WObserve obs] @ map WTerminate (condemned (wl_thresholds w) obs)"
  obtain b2 s4 where b2: "trip_breaker (traced_warden io) (wl_credential w) (as_trip (assess obs (wl_thresholds w))) b1 (?s3, ?tr3)
      = (b2, s4, ?tr3)" using traced_breaker(2) by metis
  have o: "wi_observe (traced_warden io) (s1, tr) = (obs, s2, tr @ [WObserve obs])" by (simp add: traced_warden_def obs)
  have "tr' = ?tr3 \<and> to_terminated_pids outcome = condemned (wl_thresholds w) obs \<and> w' = w\<lparr>wl_breaker := b2\<rparr>
      \<and> to_breaker_open outcome = is_open (cb_state b2)"
    using assms b2 by (auto simp: warden_tick_def b1 o assess_condemns terminate_all_events allows_traffic_def)
  with that show ?thesis by auto
qed

lemma append_entries_events:
  "append_entries (traced_warden io) es ts (s, tr) = (r, s', tr') \<Longrightarrow>
     \<exists>new. tr' = tr @ new \<and> observations new = [] \<and> terminations new = [] \<and> (r = Inr () \<longrightarrow> recorded new = es)"
proof (induction es arbitrary: s tr)
  case (Cons e es)
  obtain q s1 where a: "wi_append io e ts s = (q, s1)" by fastforce
  show ?case
  proof (cases q)
    case (Inl err)
    with Cons.prems a show ?thesis by (auto simp: traced_warden_def intro!: exI [of _ "[WAppend e False]"])
  next
    case (Inr u)
    with Cons.prems a have "append_entries (traced_warden io) es ts (s1, tr @ [WAppend e True]) = (r, s', tr')"
      by (simp add: traced_warden_def)
    from Cons.IH [OF this] obtain new where "tr' = (tr @ [WAppend e True]) @ new" "observations new = []"
      "terminations new = []" "r = Inr () \<longrightarrow> recorded new = es" by blast
    then show ?thesis by (intro exI [of _ "WAppend e True # new"]) (use event_lists(4-6) [of "[WAppend e True]" new] in auto)
  qed
qed auto

text \<open>The statements of the records that report a termination.\<close>

definition termination_records :: "'i new_entry list \<Rightarrow> string list" where
  "termination_records es = map ne_statement_text (filter (\<lambda>e. ne_reason_code e = REASON_WARDEN_TERMINATE) es)"

lemma termination_records_append [simp]:
  "termination_records (xs @ ys) = termination_records xs @ termination_records ys" "termination_records [] = []"
  by (simp_all add: termination_records_def)

lemma audit_entries_terminations:
  "termination_records (audit_entries_for ni outcome sid)
     = map (\<lambda>pid. ''pg_terminate_backend('' @ signed_decimal pid @ '')'') (to_terminated_pids outcome)"
proof -
  have "filter (\<lambda>e. ne_reason_code e = REASON_WARDEN_TERMINATE) (map f xs) = []"
    if "\<And>x. ne_reason_code (f x) = REASON_SLOT_ALARM" for f :: "_ \<Rightarrow> 'a new_entry" and xs :: "(string \<times> u64) list"
    using that by (auto simp: filter_empty_conv REASON_WARDEN_TERMINATE_def REASON_SLOT_ALARM_def)
  then show ?thesis
    by (simp add: termination_records_def audit_entries_for_def comp_def split_def)
      (simp add: warden_entry_def comp_def REASON_WARDEN_TERMINATE_def REASON_SLOT_ALARM_def REASON_BREAKER_TRIP_def filter_empty_conv)
qed

section \<open>What the watchdog does\<close>

text \<open>The statement of the record a termination leaves.\<close>

definition terminate_call :: "i32 \<Rightarrow> string" where
  "terminate_call pid = ''pg_terminate_backend('' @ signed_decimal pid @ '')''"

lemma tick_and_audit_events:
  assumes run: "tick_and_audit (traced_warden io) ni sid (w, s, tr) = (r, w', s', tr')"
  obtains obs new where "tr' = tr @ new" and "observations new = [obs]"
    and "terminations new = condemned (wl_thresholds w) obs"
    and "wl_thresholds w' = wl_thresholds w"
    and "\<And>outcome. r = Inr outcome \<Longrightarrow> termination_records (recorded new) = map terminate_call (terminations new)"
proof -
  obtain outcome w1 s1 tr1 where tick: "warden_tick (traced_warden io) (w, s, tr) = (outcome, w1, s1, tr1)"
    by (metis surj_pair)
  from warden_tick_events [OF tick] obtain obs where
    obs: "tr1 = tr @ [WObserve obs] @ map WTerminate (condemned (wl_thresholds w) obs)"
      "to_terminated_pids outcome = condemned (wl_thresholds w) obs" "wl_thresholds w1 = wl_thresholds w" by metis
  obtain clk' s2 where "wi_clock io s1 = (clk', s2)" by fastforce
  then have clk: "wi_clock (traced_warden io) (s1, tr1) = (clk', s2, tr1)" by (simp add: traced_warden_def)
  let ?es = "audit_entries_for ni outcome sid"
  obtain q s3 tr3 where app: "append_entries (traced_warden io) ?es (now_unix_millis clk') (s2, tr1) = (q, s3, tr3)"
    by (metis surj_pair)
  from append_entries_events [OF app] obtain new where
    new: "tr3 = tr1 @ new" "observations new = []" "terminations new = []" "q = Inr () \<longrightarrow> recorded new = ?es" by blast
  have kills: "observations (map WTerminate ps) = []" "terminations (map WTerminate ps) = ps"
    "recorded (map WTerminate ps) = []" for ps
    by (simp_all add: observations_def terminations_def recorded_def map_filter_def comp_def)
  have end_state: "w' = w1" "tr' = tr3" "(\<exists>x. r = Inr x) \<longrightarrow> q = Inr ()"
    using run by (auto simp: tick_and_audit_def tick clk app split: sum.splits)
  show ?thesis
  proof (rule that [of "[WObserve obs] @ map WTerminate (condemned (wl_thresholds w) obs) @ new" obs])
    show "termination_records (recorded ([WObserve obs] @ map WTerminate (condemned (wl_thresholds w) obs) @ new))
        = map terminate_call (terminations ([WObserve obs] @ map WTerminate (condemned (wl_thresholds w) obs) @ new))"
      if "r = Inr x" for x
      unfolding event_lists kills using that new end_state
      by (simp add: audit_entries_terminations obs terminate_call_def)
  qed (use obs new end_state in \<open>simp_all add: kills del: append.simps\<close>)
qed

lemma run_loop_events:
  "run_loop n (traced_warden io) ni sid (w, s, tr) = (r, w', s', tr') \<Longrightarrow>
     \<exists>new. tr' = tr @ new \<and> terminations new = concat (map (condemned (wl_thresholds w)) (observations new))
       \<and> (r = None \<longrightarrow> length (observations new) = n
            \<and> termination_records (recorded new) = map terminate_call (terminations new))"
proof (induction n arbitrary: w s tr)
  case 0
  then show ?case by (auto intro: exI [of _ "[]"])
next
  case (Suc n)
  obtain q w1 s1 tr1 where tick: "tick_and_audit (traced_warden io) ni sid (w, s, tr) = (q, w1, s1, tr1)"
    by (metis surj_pair)
  from tick_and_audit_events [OF tick] obtain obs new where
    new: "tr1 = tr @ new" "observations new = [obs]" "terminations new = condemned (wl_thresholds w) obs"
      "wl_thresholds w1 = wl_thresholds w"
      "\<And>outcome. q = Inr outcome \<Longrightarrow> termination_records (recorded new) = map terminate_call (terminations new)"
    by metis
  show ?case
  proof (cases q)
    case (Inl e)
    with Suc.prems tick have "tr' = tr @ new" "r \<noteq> None" using new(1) by (auto simp: pbind_def plift_def)
    with new(2,3) show ?thesis by (intro exI [of _ new]) auto
  next
    case (Inr outcome)
    with Suc.prems tick have "run_loop n (traced_warden io) ni sid (w1, s1, tr1) = (r, w', s', tr')"
      by (simp add: pbind_def plift_def)
    from Suc.IH [OF this] obtain more where
      more: "tr' = tr1 @ more" "terminations more = concat (map (condemned (wl_thresholds w)) (observations more))"
        "r = None \<longrightarrow> length (observations more) = n \<and> termination_records (recorded more) = map terminate_call (terminations more)"
      unfolding new(4) by blast
    then show ?thesis using new(1,2,3) new(5) [OF Inr] by (intro exI [of _ "new @ more"]) auto
  qed
qed

text \<open>
  C37: whatever the database shows, however many rounds the watchdog runs: the backends it terminates
  are, round by round and in the order observed, exactly those that were tagged as the agent's,
  active, and running longer than the ceiling; and as long as the loop is running, each of these
  terminations, in order, has its record on the audit log, with one observation a round.
\<close>

theorem warden_terminates_agent_runaways_on_record:
  assumes "run_loop n (traced_warden io) no_intent session_id (warden_loop_new t, s, []) = (r, w', s', tr)"
  shows "terminations tr = concat (map (condemned t) (observations tr))
    \<and> (r = None \<longrightarrow> length (observations tr) = n
          \<and> termination_records (recorded tr) = map terminate_call (terminations tr))"
  using run_loop_events [OF assms] by (auto simp: warden_loop_new_def)

definition sample_backends :: "backend_row list" where
  "sample_backends =
     [\<lparr>bk_pid = 7, bk_usename = ''pgb_agent'', bk_application_name = ''psql'', bk_state = ''active'',
       bk_query_runtime_millis = 60001, bk_query = []\<rparr>,
      \<lparr>bk_pid = 8, bk_usename = ''app'', bk_application_name = ''web'', bk_state = ''active'',
       bk_query_runtime_millis = 90000, bk_query = []\<rparr>,
      \<lparr>bk_pid = 9, bk_usename = ''pgb_agent'', bk_application_name = ''pgb_proxy'', bk_state = ''active'',
       bk_query_runtime_millis = 60000, bk_query = []\<rparr>]"

definition sample_io :: "(unit, i32 list) warden_io" where
  "sample_io =
     \<lparr>wi_observe = (\<lambda>s. (\<lparr>ob_backends = sample_backends, ob_slots = [], ob_replication_lag_bytes = 0\<rparr>, s)),
      wi_terminate = (\<lambda>pid s. s @ [pid]), wi_append = (\<lambda>e ts s. (Inr (), s)),
      wi_clock = (\<lambda>s. (clock_starting_at 0, s))\<rparr>"

definition sample_run :: "(string + unit) option \<times> warden_loop \<times> i32 list \<times> unit warden_event list" where
  "sample_run = run_loop (Suc 0) (traced_warden sample_io) () ''s1'' (warden_loop_new thresholds_default, [], [])"

theorem warden_terminates_agent_runaways_on_record_witness:
  "fst sample_run = None \<and> terminations (snd (snd (snd sample_run))) = [7]
   \<and> termination_records (recorded (snd (snd (snd sample_run)))) = [''pg_terminate_backend(7)'']"
proof -
  obtain r w' s' tr where run: "sample_run = (r, w', s', tr)" by (metis surj_pair)
  note step = warden_terminates_agent_runaways_on_record [OF run [unfolded sample_run_def]]
  have "fst sample_run = None" by code_simp
  moreover have "observations (snd (snd (snd sample_run)))
      = [\<lparr>ob_backends = sample_backends, ob_slots = [], ob_replication_lag_bytes = 0\<rparr>]" by code_simp
  moreover have "condemned thresholds_default \<lparr>ob_backends = sample_backends, ob_slots = [], ob_replication_lag_bytes = 0\<rparr> = [7]"
    by code_simp
  moreover have "terminate_call 7 = ''pg_terminate_backend(7)''" by code_simp
  ultimately show ?thesis using step by (simp add: run)
qed

section \<open>The breaker as a state machine\<close>

datatype breaker_op =
    Trip trip_reason clock | TripForged warden_principal | Tick clock | ProbeSuccess | ProbeFailure clock

fun breaker_exec :: "breaker_op \<Rightarrow> circuit_breaker \<Rightarrow> circuit_breaker" where
  "breaker_exec (Trip reason clk) b = snd (breaker_trip Sealed reason clk b)"
| "breaker_exec (TripForged who) b = snd (trip_unauthenticated who b)"
| "breaker_exec (Tick clk) b = breaker_tick clk b"
| "breaker_exec ProbeSuccess b = snd (record_probe_success Sealed b)"
| "breaker_exec (ProbeFailure clk) b = snd (record_probe_failure Sealed clk b)"

lemmas breaker_defs =
  breaker_trip_def trip_unauthenticated_def breaker_tick_def record_probe_success_def record_probe_failure_def
  credential_principal_def is_open_def

lemma breaker_stays_open:
  "cb_state b = Open t \<Longrightarrow> (\<And>clk. op = Tick clk \<Longrightarrow> unat (monotonic_millis clk) - unat t < unat (cb_cooldown_millis b)) \<Longrightarrow>
     cb_state (breaker_exec op b) = Open t \<and> cb_cooldown_millis (breaker_exec op b) = cb_cooldown_millis b"
  by (cases op) (auto simp: breaker_defs Let_def sat_sub_def word_le_nat_alt unat_sub_if' word_less_nat_alt split: if_splits)

text \<open>
  A breaker that opened at a reading stays open since that reading, and sheds traffic, through
  any sequence of trips, forged trips, probe reports and ticks, as long as every tick reads a time
  before the end of the cooldown; a tick at or after the end lets traffic through half-open.
\<close>

lemma breaker_sheds_for_cooldown:
  assumes "cb_state b = Open t"
    and "\<And>clk. Tick clk \<in> set ops \<Longrightarrow> unat (monotonic_millis clk) - unat t < unat (cb_cooldown_millis b)"
    and "unat (monotonic_millis late) - unat t \<ge> unat (cb_cooldown_millis b)"
  shows "cb_state (fold breaker_exec ops b) = Open t \<and> \<not> allows_traffic (fold breaker_exec ops b)
    \<and> cb_state (breaker_exec (Tick late) (fold breaker_exec ops b)) = HalfOpen"
proof -
  have "cb_state (fold breaker_exec ops b) = Open t \<and> cb_cooldown_millis (fold breaker_exec ops b) = cb_cooldown_millis b"
    using assms(1,2)
  proof (induction ops arbitrary: b)
    case (Cons op ops)
    from breaker_stays_open [OF Cons.prems(1), of op] Cons.prems(2)
    have "cb_state (breaker_exec op b) = Open t" "cb_cooldown_millis (breaker_exec op b) = cb_cooldown_millis b" by auto
    with Cons.IH [of "breaker_exec op b"] Cons.prems(2) show ?case by simp
  qed simp
  with assms(3) show ?thesis
    by (auto simp: breaker_defs allows_traffic_def sat_sub_def word_le_nat_alt unat_sub_if' split: if_splits)
qed

definition sample_tripped :: circuit_breaker where
  "sample_tripped = breaker_exec (Trip (RunawayVolume 5 3) (clock_starting_at 1000)) (breaker_new 5000)"

definition sample_ops :: "breaker_op list" where
  "sample_ops =
     [Tick (clock_starting_at 5999), ProbeSuccess, TripForged AgentPrincipal,
      Trip (ReplicationLag 9 8) (clock_starting_at 5999), Tick (clock_starting_at 5999)]"

lemma breaker_sheds_for_cooldown_sample:
  "cb_state (fold breaker_exec sample_ops sample_tripped) = Open 1000
   \<and> \<not> allows_traffic (fold breaker_exec sample_ops sample_tripped)
   \<and> cb_state (breaker_exec (Tick (clock_starting_at 6000)) (fold breaker_exec sample_ops sample_tripped)) = HalfOpen"
proof (rule breaker_sheds_for_cooldown)
  show "cb_state sample_tripped = Open 1000" by code_simp
  show "unat (monotonic_millis clk) - unat (1000 :: u64) < unat (cb_cooldown_millis sample_tripped)"
    if "Tick clk \<in> set sample_ops" for clk
  proof -
    have "clk = clock_starting_at 5999" using that by (auto simp: sample_ops_def)
    moreover have "unat (monotonic_millis (clock_starting_at 5999)) - unat (1000 :: u64) < unat (cb_cooldown_millis sample_tripped)"
      by code_simp
    ultimately show ?thesis by simp
  qed
  show "unat (monotonic_millis (clock_starting_at 6000)) - unat (1000 :: u64) \<ge> unat (cb_cooldown_millis sample_tripped)"
    by code_simp
qed

section \<open>The backends the watchdog does not see\<close>

lemma overdue_agent_is_condemned:
  assumes "pa_usename r = Some AGENT_ROLE" "pa_state r = Some ''active''" "selected own r"
    and "pa_runtime_ms r = Some ms" "0 \<le> sint ms" "wt_max_query_runtime_millis t < ms"
  shows "pa_pid r \<in> set (condemned t (pg_observe own (rows @ r # rows') slots))"
  using assms by (simp add: pg_observe_def condemned_def is_agent_tagged_def is_runaway_def null_or_def clamp_i64_def)

text \<open>
  A backend that sets its application name to the watchdog's own is never observed: whatever its
  role, state and running time, the rows of the server with it and without it give the same
  observation, so the watchdog condemns the same backends; the agent's role does not help.
\<close>

lemma renamed_agent_escapes_warden:
  "pg_observe own (rows @ r\<lparr>pa_usename := Some AGENT_ROLE, pa_application_name := Some WARDEN_ADMIN_APP_NAME\<rparr> # rows') slots
     = pg_observe own (rows @ rows') slots
   \<and> as_to_terminate (assess (pg_observe own
         [r\<lparr>pa_usename := Some AGENT_ROLE, pa_application_name := Some WARDEN_ADMIN_APP_NAME\<rparr>] slots) t) = []"
  by (simp add: pg_observe_def selected_def assess_condemns condemned_def)

end
