(* ===== verification/Policy_Intent.thy ===== *)
theory Policy_Intent
  imports Policy_Config
begin

text \<open>
  Intent capture (\<^verbatim>\<open>crates/policy/src/intent.rs\<close>): the tiers logged with a decision, the class of a
  statement, and the annotation a block comment may carry. A rate is the bit pattern of its \<^verbatim>\<open>f64\<close>.
\<close>

section \<open>Strings\<close>

text \<open>\<^verbatim>\<open>str::find\<close>: the byte offset of the first occurrence.\<close>

fun find_sub :: "string \<Rightarrow> string \<Rightarrow> nat option" where
  "find_sub pat [] = (if pat = [] then Some 0 else None)"
| "find_sub pat (c # s) = (if take (length pat) (c # s) = pat then Some 0 else map_option Suc (find_sub pat s))"

lemma find_sub_bound: "find_sub pat s = Some i \<Longrightarrow> i + length pat \<le> length s"
  by (induction s arbitrary: i) (auto split: if_splits dest!: arg_cong [where f = length])

text \<open>The characters of a string, each with its own bytes.\<close>

definition char_len :: "char \<Rightarrow> nat" where
  "char_len c = (let b = of_char c :: nat in if b \<le> 0x7F then 1 else if b \<le> 0xDF then 2 else if b \<le> 0xEF then 3 else 4)"

function utf8_chunks :: "string \<Rightarrow> string list" where
  "utf8_chunks [] = []"
| "utf8_chunks (c # s) = (c # take (char_len c - 1) s) # utf8_chunks (drop (char_len c - 1) s)"
  by pat_completeness auto
termination by (relation "measure length") auto

definition chunk_white :: "string \<Rightarrow> bool" where
  "chunk_white ch = (case chars ch of [c] \<Rightarrow> is_whitespace c | _ \<Rightarrow> False)"

definition trim_start :: "string \<Rightarrow> string" where
  "trim_start s = concat (dropWhile chunk_white (utf8_chunks s))"

definition trim_end :: "string \<Rightarrow> string" where
  "trim_end s = concat (rev (dropWhile chunk_white (rev (utf8_chunks s))))"

definition trim :: "string \<Rightarrow> string" where
  "trim s = trim_end (trim_start s)"

definition trim_separators :: "string \<Rightarrow> string" where
  "trim_separators s = rev (dropWhile (\<lambda>c. c = CHR '','' \<or> c = CHR '';'') (rev s))"

definition is_ascii_alphabetic :: "char \<Rightarrow> bool" where
  "is_ascii_alphabetic c = (let b = of_char c :: nat in 65 \<le> b \<and> b \<le> 90 \<or> 97 \<le> b \<and> b \<le> 122)"

definition to_ascii_uppercase :: "string \<Rightarrow> string" where
  "to_ascii_uppercase = map (\<lambda>c. let b = of_char c :: nat in if 97 \<le> b \<and> b \<le> 122 then char_of (b - 32) else c)"

definition to_ascii_lowercase :: "string \<Rightarrow> string" where
  "to_ascii_lowercase = map (\<lambda>c. let b = of_char c :: nat in if 65 \<le> b \<and> b \<le> 90 then char_of (b + 32) else c)"

lemma length_concat_dropWhile: "length (concat (dropWhile P xss)) \<le> length (concat xss)"
  by (induction xss) auto

lemma concat_utf8_chunks [simp]: "concat (utf8_chunks s) = s"
  by (induction s rule: utf8_chunks.induct) auto

lemma utf8_chunks_ascii: "\<forall>c \<in> set s. (of_char c :: nat) \<le> 0x7F \<Longrightarrow> utf8_chunks s = map (\<lambda>c. [c]) s"
proof (induction s)
  case (Cons c s)
  then have "char_len c = 1" by (simp add: char_len_def)
  with Cons show ?case by simp
qed simp

lemma trim_start_length: "length (trim_start s) \<le> length s"
  unfolding trim_start_def by (rule order_trans [OF length_concat_dropWhile]) simp

section \<open>Tiers\<close>

record tier_t0 =
  t0_role :: string
  t0_purpose :: "string option"

record intent_annotation =
  ia_intent :: "string option"
  ia_ticket :: "string option"
  ia_actor :: "string option"

definition annotation_default :: intent_annotation where
  "annotation_default = \<lparr>ia_intent = None, ia_ticket = None, ia_actor = None\<rparr>"

definition annotation_is_empty :: "intent_annotation \<Rightarrow> bool" where
  "annotation_is_empty a = (ia_intent a = None \<and> ia_ticket a = None \<and> ia_actor a = None)"

record tier_t1 =
  t1_statement_text :: string
  t1_statement_class :: "string option"
  t1_application_name :: "string option"
  t1_gucs :: "(string, string) btree"
  t1_annotation :: intent_annotation

record observed_step =
  os_class :: string
  os_tables :: "string list"
  os_at_monotonic_millis :: u64

record tier_t2 =
  t2_query_sequence :: "observed_step list"
  t2_reads_before_write :: bool
  t2_rate_per_min :: "u64 option"
  t2_tables :: "string list"

record intent_tiers =
  it_t0 :: tier_t0
  it_t1 :: tier_t1
  it_t2 :: tier_t2

definition tier_t2_default :: tier_t2 where
  "tier_t2_default = \<lparr>t2_query_sequence = [], t2_reads_before_write = False, t2_rate_per_min = None, t2_tables = []\<rparr>"

definition intent_default :: intent_tiers where
  "intent_default =
     \<lparr>it_t0 = \<lparr>t0_role = [], t0_purpose = None\<rparr>,
      it_t1 = \<lparr>t1_statement_text = [], t1_statement_class = None, t1_application_name = None, t1_gucs = [],
        t1_annotation = annotation_default\<rparr>,
      it_t2 = tier_t2_default\<rparr>"

section \<open>The statement class\<close>

function strip_comments_loop :: "string \<Rightarrow> string" where
  "strip_comments_loop rest =
     (if take 2 rest = ''/*'' then
        let after_open = drop 2 rest in
        (case find_sub ''*/'' after_open of
           Some end' \<Rightarrow> strip_comments_loop (trim_start (drop (end' + 2) after_open))
         | None \<Rightarrow> [])
      else rest)"
  by pat_completeness auto
termination
proof (relation "measure length", simp)
  fix rest :: string and after end'
  assume "take 2 rest = ''/*''" "after = drop 2 rest" "find_sub ''*/'' after = Some end'"
  moreover have "length (trim_start (drop (end' + 2) after)) \<le> length after - (end' + 2)"
    using trim_start_length [of "drop (end' + 2) after"] by simp
  ultimately show "(trim_start (drop (end' + 2) after), rest) \<in> measure length"
    using find_sub_bound [of "''*/''" after end'] by (cases rest) auto
qed

definition strip_leading_comments :: "string \<Rightarrow> string" where
  "strip_leading_comments sql = strip_comments_loop (trim_start sql)"

definition statement_class :: "string \<Rightarrow> string option" where
  "statement_class sql =
     (let trimmed = trim_start (strip_leading_comments sql); word = takeWhile is_ascii_alphabetic trimmed in
      if word = [] then None else Some (to_ascii_uppercase word))"

section \<open>The annotation\<close>

datatype annotation_key = KeyIntent | KeyTicket | KeyActor

fun key_name :: "annotation_key \<Rightarrow> string" where
  "key_name KeyIntent = ''intent''"
| "key_name KeyTicket = ''ticket''"
| "key_name KeyActor = ''actor''"

definition ANNOTATION_KEYS :: "annotation_key list" where
  "ANNOTATION_KEYS = [KeyIntent, KeyTicket, KeyActor]"

text \<open>The offsets of a pattern that is not empty, each search starting behind the last hit.\<close>

function occurrences :: "string \<Rightarrow> string \<Rightarrow> nat \<Rightarrow> nat list" where
  "occurrences pat s from =
     (case find_sub pat (drop from s) of
        None \<Rightarrow> []
      | Some rel \<Rightarrow> if pat = [] then [] else (from + rel) # occurrences pat s (from + rel + length pat))"
  by pat_completeness auto
termination
  by (relation "measure (\<lambda>(pat, s, from). length s - from)")
    (auto dest!: find_sub_bound simp flip: length_greater_0_conv)

definition key_hits :: "string \<Rightarrow> (nat \<times> annotation_key \<times> nat) list" where
  "key_hits lower =
     concat (map (\<lambda>key. let pat = key_name key @ '':'' in map (\<lambda>pos. (pos, key, pos + length pat)) (occurrences pat lower 0))
       ANNOTATION_KEYS)"

fun set_field :: "annotation_key \<Rightarrow> string \<Rightarrow> intent_annotation \<Rightarrow> intent_annotation" where
  "set_field KeyIntent v out = (if ia_intent out = None then out\<lparr>ia_intent := Some v\<rparr> else out)"
| "set_field KeyTicket v out = (if ia_ticket out = None then out\<lparr>ia_ticket := Some v\<rparr> else out)"
| "set_field KeyActor v out = (if ia_actor out = None then out\<lparr>ia_actor := Some v\<rparr> else out)"

definition field_value :: "string \<Rightarrow> string" where
  "field_value s = trim (trim_separators (trim s))"

fun annotate :: "string \<Rightarrow> (nat \<times> annotation_key \<times> nat) list \<Rightarrow> intent_annotation \<Rightarrow> intent_annotation" where
  "annotate body [] out = out"
| "annotate body ((pos, key, value_start) # hits) out =
     (let value_end = (case hits of (next_pos, _, _) # _ \<Rightarrow> next_pos | [] \<Rightarrow> length body) in
      if value_start > value_end then annotate body hits out
      else
        let value = field_value (take (value_end - value_start) (drop value_start body)) in
        if value = [] then annotate body hits out
        else annotate body hits (set_field key value out))"

definition parse_annotation_body :: "string \<Rightarrow> intent_annotation" where
  "parse_annotation_body body =
     annotate body (sort_key (\<lambda>(pos, _, _). pos) (key_hits (to_ascii_lowercase body))) annotation_default"

function parse_intent_annotation :: "string \<Rightarrow> intent_annotation" where
  "parse_intent_annotation haystack =
     (case find_sub ''/*'' haystack of
        None \<Rightarrow> annotation_default
      | Some op \<Rightarrow>
          let after_open = drop (op + 2) haystack in
          (case find_sub ''*/'' after_open of
             None \<Rightarrow> annotation_default
           | Some cl \<Rightarrow>
               let parsed = parse_annotation_body (take cl after_open) in
               if \<not> annotation_is_empty parsed then parsed
               else parse_intent_annotation (drop (cl + 2) after_open)))"
  by pat_completeness auto
termination
  by (relation "measure length") (auto dest!: find_sub_bound)

definition from_statement :: "string \<Rightarrow> string \<Rightarrow> string option \<Rightarrow> intent_tiers" where
  "from_statement role statement_text application_name =
     \<lparr>it_t0 = \<lparr>t0_role = role, t0_purpose = None\<rparr>,
      it_t1 = \<lparr>t1_statement_text = statement_text, t1_statement_class = statement_class statement_text,
        t1_application_name = application_name, t1_gucs = [],
        t1_annotation = parse_intent_annotation statement_text\<rparr>,
      it_t2 = tier_t2_default\<rparr>"

declare strip_comments_loop.simps [simp del] occurrences.simps [simp del] parse_intent_annotation.simps [simp del]

section \<open>A comment does not change what a statement is\<close>

lemma find_comment_end:
  "find_sub ''*/'' c = None \<Longrightarrow> find_sub ''*/'' (c @ ''*/'' @ sql) = Some (length c)"
proof (induction c)
  case (Cons x c)
  then show ?case by (cases c) (auto split: if_splits)
qed simp

lemma trim_start_comment: "trim_start (''/*'' @ s) = ''/*'' @ s"
proof -
  have "utf8_chunks (''/*'' @ s) = ''/'' # utf8_chunks (''*'' @ s)" by (simp add: char_len_def)
  moreover have "\<not> chunk_white ''/''" by (simp add: chunk_white_def chars_def as_bytes_def is_whitespace_def)
  ultimately show ?thesis
    using concat_utf8_chunks [of "''*'' @ s"] by (simp add: trim_start_def del: concat_utf8_chunks)
qed

text \<open>
  A leading comment does not change the class of a statement: whatever text an agent puts into
  it, an annotation or another statement's keyword, the class recorded for the statement is the
  class of the statement without the comment.
\<close>

lemma comment_keeps_statement_class:
  assumes "find_sub ''*/'' c = None"
  shows "statement_class (''/*'' @ c @ ''*/'' @ sql) = statement_class sql"
proof -
  have "strip_leading_comments (''/*'' @ c @ ''*/'' @ sql) = strip_comments_loop (''/*'' @ c @ ''*/'' @ sql)"
    unfolding strip_leading_comments_def by (simp only: trim_start_comment)
  also have "\<dots> = strip_leading_comments sql"
    using find_comment_end [OF assms, of sql] by (subst strip_comments_loop.simps) (simp add: strip_leading_comments_def)
  finally show ?thesis by (simp add: statement_class_def)
qed

lemma comment_keeps_statement_class_sample:
  "statement_class ''/* SELECT intent: read */delete from t'' = Some ''DELETE''"
proof -
  have plain: "utf8_chunks ''delete from t'' = map (\<lambda>c. [c]) ''delete from t''" by (rule utf8_chunks_ascii) simp
  have "\<not> chunk_white ''d''" by (simp add: chunk_white_def chars_def as_bytes_def is_whitespace_def)
  with plain have trim: "trim_start ''delete from t'' = ''delete from t''" by (simp add: trim_start_def)
  have "statement_class ''delete from t'' = Some ''DELETE''"
    by (simp add: statement_class_def strip_leading_comments_def trim strip_comments_loop.simps is_ascii_alphabetic_def
        to_ascii_uppercase_def char_of_def bit_numeral_simps bit_0 bit_1_iff bit_Suc)
  with comment_keeps_statement_class [of "'' SELECT intent: read ''" "''delete from t''"] show ?thesis by simp
qed

end
