(* ===== verification/Cli_Approval.thy ===== *)
theory Cli_Approval
  imports Policy_Grant Policy_Intent Audit_Chain Core_Inverse
begin

text \<open>
  The approval flow (\<^verbatim>\<open>crates/cli/src/principal.rs\<close>, \<^verbatim>\<open>refuse.rs\<close>, \<^verbatim>\<open>request.rs\<close>, the payload of
  \<^verbatim>\<open>webhook.rs\<close>, \<^verbatim>\<open>flow.rs\<close> and \<^verbatim>\<open>verify.rs\<close>): who may approve, the gate for irreversible operations,
  the store of pending requests, and the three steps of the flow with the records they leave. The
  signature scheme, SHA-256 and hex are parameters; the audit sink and the webhook are operations on
  an arbitrary environment, and the wording of a free-text reason is a parameter too.
\<close>

section \<open>Principals\<close>

datatype principal_kind = Requester | Approver

record principal =
  pn_id :: string
  pn_kind :: principal_kind

definition principal_requester :: "string \<Rightarrow> principal" where
  "principal_requester i = \<lparr>pn_id = i, pn_kind = Requester\<rparr>"

definition principal_approver :: "string \<Rightarrow> principal" where
  "principal_approver i = \<lparr>pn_id = i, pn_kind = Approver\<rparr>"

definition can_approve :: "principal \<Rightarrow> bool" where
  "can_approve p = (pn_kind p = Approver)"

datatype authority_error = NotAnApprover string | SelfApproval string

definition authorize :: "principal \<Rightarrow> string \<Rightarrow> authority_error + unit" where
  "authorize approver requester_id =
     (if \<not> can_approve approver then Inl (NotAnApprover (pn_id approver))
      else if pn_id approver = requester_id then Inl (SelfApproval (pn_id approver))
      else Inr ())"

section \<open>The gate for irreversible operations\<close>

datatype elevation_eligibility = Eligible certified_action | Refused refused_op

definition is_eligible :: "elevation_eligibility \<Rightarrow> bool" where
  "is_eligible e = (case e of Eligible _ \<Rightarrow> True | Refused _ \<Rightarrow> False)"

definition gate_for_elevation :: "operation \<Rightarrow> elevation_eligibility" where
  "gate_for_elevation op = (case certify op of Inr action \<Rightarrow> Eligible action | Inl refused \<Rightarrow> Refused refused)"

section \<open>Requests\<close>

record request_proposal =
  rp_proposal_id :: string
  rp_statement_text :: string
  rp_normalized_params :: "string list"
  rp_role :: string
  rp_session_id :: string
  rp_dry_run_lsn :: string
  rp_cap :: write_cap

definition to_binding :: "request_proposal \<Rightarrow> string \<Rightarrow> u64 \<Rightarrow> grant_binding" where
  "to_binding p nonce expiry =
     \<lparr>gb_statement_text = rp_statement_text p, gb_normalized_params = rp_normalized_params p, gb_role = rp_role p,
      gb_session_id = rp_session_id p, gb_proposal_id = rp_proposal_id p, gb_dry_run_lsn = rp_dry_run_lsn p,
      gb_cap = rp_cap p, gb_nonce = nonce, gb_expiry_unix_millis = expiry\<rparr>"

definition with_cap :: "write_cap \<Rightarrow> request_proposal \<Rightarrow> request_proposal" where
  "with_cap cap p = p\<lparr>rp_cap := cap\<rparr>"

datatype request_status = Pending | Approved | Denied

record approval_request =
  aq_id :: string
  aq_proposal :: request_proposal
  aq_requester_id :: string
  aq_created_unix_millis :: u64
  aq_ttl_millis :: u64
  aq_status :: request_status

definition expires_at :: "approval_request \<Rightarrow> u64" where
  "expires_at r = sat_add (aq_created_unix_millis r) (aq_ttl_millis r)"

definition request_is_expired :: "approval_request \<Rightarrow> u64 \<Rightarrow> bool" where
  "request_is_expired r now = (now \<ge> expires_at r)"

record approval_required =
  ar_code :: string
  ar_request_id :: string
  ar_expires_at_unix_millis :: u64
  ar_remedy :: string

definition APPROVAL_REQUIRED_CODE :: string where
  "APPROVAL_REQUIRED_CODE = ''APPROVAL_REQUIRED''"

datatype request_error = DuplicateId string | UnknownId string | NotPending string | RequestExpired string u64 u64

record approval_store = st_requests :: "(string, approval_request) btree"

definition store_new :: approval_store where
  "store_new = \<lparr>st_requests = []\<rparr>"

definition store_request_elevation ::
  "string \<Rightarrow> request_proposal \<Rightarrow> string \<Rightarrow> u64 \<Rightarrow> clock \<Rightarrow> (approval_store, request_error, approval_required) eff" where
  "store_request_elevation i p requester_id ttl clk st =
     (if bt_contains (st_requests st) i then (Inl (DuplicateId i), st)
      else
        let now = now_unix_millis clk;
            request = \<lparr>aq_id = i, aq_proposal = p, aq_requester_id = requester_id, aq_created_unix_millis = now,
              aq_ttl_millis = ttl, aq_status = Pending\<rparr>;
            contract = \<lparr>ar_code = APPROVAL_REQUIRED_CODE, ar_request_id = i,
              ar_expires_at_unix_millis = expires_at request,
              ar_remedy = ''blocked: a human must approve. run `pgb-cli approve '' @ i
                @ ''` before the request expires, then retry apply''\<rparr>
        in (Inr contract, st\<lparr>st_requests := bt_insert i request (st_requests st)\<rparr>))"

definition store_get :: "string \<Rightarrow> approval_store \<Rightarrow> approval_request option" where
  "store_get i st = bt_get (st_requests st) i"

definition pending_for_approval :: "string \<Rightarrow> clock \<Rightarrow> approval_store \<Rightarrow> request_error + approval_request" where
  "pending_for_approval i clk st =
     (case bt_get (st_requests st) i of
        None \<Rightarrow> Inl (UnknownId i)
      | Some request \<Rightarrow>
          if aq_status request \<noteq> Pending then Inl (NotPending i)
          else
            let now = now_unix_millis clk in
            if request_is_expired request now then Inl (RequestExpired i (expires_at request) now)
            else Inr request)"

definition store_resolve :: "string \<Rightarrow> request_status \<Rightarrow> (approval_store, request_error, unit) eff" where
  "store_resolve i status st =
     (case bt_get (st_requests st) i of
        None \<Rightarrow> (Inl (UnknownId i), st)
      | Some request \<Rightarrow>
          if aq_status request \<noteq> Pending then (Inl (NotPending i), st)
          else (Inr (), st\<lparr>st_requests := bt_insert i (request\<lparr>aq_status := status\<rparr>) (st_requests st)\<rparr>))"

section \<open>The webhook\<close>

record webhook_payload =
  wp_event :: string
  wp_request_id :: string
  wp_requester_id :: string
  wp_proposal :: request_proposal
  wp_expires_at_unix_millis :: u64

definition WEBHOOK_EVENT :: string where
  "WEBHOOK_EVENT = ''approval_required''"

definition payload_from_request :: "approval_request \<Rightarrow> webhook_payload" where
  "payload_from_request r =
     \<lparr>wp_event = WEBHOOK_EVENT, wp_request_id = aq_id r, wp_requester_id = aq_requester_id r,
      wp_proposal = aq_proposal r, wp_expires_at_unix_millis = expires_at r\<rparr>"

datatype webhook_error = InvalidUrl string | WebhookTransport string | WebhookStatus "16 word"

section \<open>The flow\<close>

text \<open>The signature scheme: a signing key has a verifying key, signs, and a verifying key verifies.\<close>

record ('k, 'sk) grant_crypto =
  gc_sha256 :: "bytes \<Rightarrow> bytes"
  gc_hex_encode :: "bytes \<Rightarrow> string"
  gc_hex_decode :: "string \<Rightarrow> bytes option"
  gc_verify_strict :: "'k \<Rightarrow> bytes \<Rightarrow> bytes \<Rightarrow> bool"
  gc_sign :: "'sk \<Rightarrow> bytes \<Rightarrow> bytes"
  gc_verifying_key :: "'sk \<Rightarrow> 'k"

datatype flow_reason =
    ReasonRefused refused_op
  | ReasonOpened string u64
  | ReasonAuthority authority_error
  | ReasonSigned string string write_cap string
  | ReasonVerified
  | ReasonGrant grant_error

record 's flow_env =
  fe_append :: "intent_tiers new_entry \<Rightarrow> u64 \<Rightarrow> ('s, sink_error, intent_tiers audit_record) eff"
  fe_send :: "webhook_payload \<Rightarrow> 's \<Rightarrow> (webhook_error + unit) \<times> 's"
  fe_display :: "flow_reason \<Rightarrow> string"

record ('k, 'n) approval_flow =
  fl_store :: approval_store
  fl_verifying_key :: 'k
  fl_nonces :: 'n

definition flow_new :: "'k \<Rightarrow> 'n \<Rightarrow> ('k, 'n) approval_flow" where
  "flow_new vk nonces = \<lparr>fl_store = store_new, fl_verifying_key = vk, fl_nonces = nonces\<rparr>"

text \<open>The outcome of the append is not looked at.\<close>

definition audit_step ::
  "'s flow_env \<Rightarrow> string \<Rightarrow> decision \<Rightarrow> string \<Rightarrow> flow_reason option \<Rightarrow> string \<Rightarrow> string option \<Rightarrow> string option
    \<Rightarrow> string option \<Rightarrow> clock \<Rightarrow> 's \<Rightarrow> 's" where
  "audit_step env statement_text dec reason_code reason role session_id who proposal_id clk s =
     snd (fe_append env
       \<lparr>ne_statement_text = statement_text, ne_decision = dec, ne_reason_code = reason_code,
        ne_reason = map_option (fe_display env) reason,
        ne_principal = \<lparr>ap_role = role, ap_session_id = session_id, ap_principal = who\<rparr>,
        ne_intent = intent_default,
        ne_write_safety = \<lparr>ws_dry_run_id = proposal_id, ws_blast_radius_ref = None\<rparr>\<rparr>
       (now_unix_millis clk) s)"

record elevation_outcome =
  eo_contract :: approval_required
  eo_webhook :: "webhook_error + unit"

datatype elevation_error = ElevationRefused refused_op | ElevationRequest request_error

datatype approve_error = ApproveAuthority authority_error | ApproveRequest request_error

definition flow_request_elevation ::
  "'s flow_env \<Rightarrow> string \<Rightarrow> request_proposal \<Rightarrow> string \<Rightarrow> operation \<Rightarrow> u64 \<Rightarrow> clock
    \<Rightarrow> (('k, 'n) approval_flow \<times> 's, elevation_error, elevation_outcome) eff" where
  "flow_request_elevation env i p requester_id op ttl clk = (\<lambda>(flow, s).
     case gate_for_elevation op of
       Refused refused \<Rightarrow>
         (Inl (ElevationRefused refused), flow,
          audit_step env (rp_statement_text p) DecisionReject ''structural_op_refused'' (Some (ReasonRefused refused))
            (rp_role p) (Some (rp_session_id p)) (Some requester_id) (Some (rp_proposal_id p)) clk s)
     | Eligible _ \<Rightarrow>
       (case store_request_elevation i p requester_id ttl clk (fl_store flow) of
          (Inl e, store) \<Rightarrow> (Inl (ElevationRequest e), flow\<lparr>fl_store := store\<rparr>, s)
        | (Inr contract, store) \<Rightarrow>
            let flow = flow\<lparr>fl_store := store\<rparr>;
                s1 = audit_step env (rp_statement_text p) DecisionBlock ''approval_required'' (Some (ReasonOpened i ttl))
                  (rp_role p) (Some (rp_session_id p)) (Some requester_id) (Some (rp_proposal_id p)) clk s
            in (case store_get i store of
                  None \<Rightarrow> (Inl (ElevationRequest (UnknownId i)), flow, s1)
                | Some request \<Rightarrow>
                    (case fe_send env (payload_from_request request) s1 of
                       (webhook, s2) \<Rightarrow> (Inr \<lparr>eo_contract = contract, eo_webhook = webhook\<rparr>, flow, s2)))))"

definition flow_approve ::
  "('k, 'sk) grant_crypto \<Rightarrow> 's flow_env \<Rightarrow> string \<Rightarrow> principal \<Rightarrow> 'sk \<Rightarrow> string \<Rightarrow> u64 \<Rightarrow> clock
    \<Rightarrow> (('k, 'n) approval_flow \<times> 's, approve_error, grant_token) eff" where
  "flow_approve cr env i approver signing_key nonce grant_ttl clk = (\<lambda>(flow, s).
     case pending_for_approval i clk (fl_store flow) of
       Inl e \<Rightarrow> (Inl (ApproveRequest e), flow, s)
     | Inr request \<Rightarrow>
     let p = aq_proposal request in
     (case authorize approver (aq_requester_id request) of
        Inl err \<Rightarrow>
          (Inl (ApproveAuthority err), flow,
           audit_step env (rp_statement_text p) DecisionReject ''self_approval_refused'' (Some (ReasonAuthority err))
             (rp_role p) (Some (rp_session_id p)) (Some (pn_id approver)) (Some (rp_proposal_id p)) clk s)
      | Inr _ \<Rightarrow>
        let expiry = sat_add (now_unix_millis clk) grant_ttl;
            binding = to_binding p nonce expiry;
            grant = grant_sign (gc_sha256 cr) (gc_hex_encode cr) (gc_sign cr signing_key) binding
        in (case store_resolve i Approved (fl_store flow) of
              (Inl e, store) \<Rightarrow> (Inl (ApproveRequest e), flow\<lparr>fl_store := store\<rparr>, s)
            | (Inr _, store) \<Rightarrow>
                (Inr grant, flow\<lparr>fl_store := store\<rparr>,
                 audit_step env (rp_statement_text p) DecisionAllow ''grant_signed''
                   (Some (ReasonSigned (pn_id approver) i (gb_cap binding)
                     (binding_hash_hex (gc_sha256 cr) (gc_hex_encode cr) binding)))
                   (rp_role p) (Some (rp_session_id p)) (Some (pn_id approver)) (Some (rp_proposal_id p)) clk s))))"

definition verify_at_apply ::
  "('k, 'sk) grant_crypto \<Rightarrow> 's flow_env \<Rightarrow> (string \<Rightarrow> 'n \<Rightarrow> bool \<times> 'n) \<Rightarrow> grant_token \<Rightarrow> grant_binding \<Rightarrow> clock
    \<Rightarrow> (('k, 'n) approval_flow \<times> 's, grant_error, unit) eff" where
  "verify_at_apply cr env consume grant live clk = (\<lambda>(flow, s).
     case verify_for_apply (gc_sha256 cr) (gc_hex_decode cr) (gc_verify_strict cr (fl_verifying_key flow)) consume grant live
       clk (fl_nonces flow) of
       (result, nonces) \<Rightarrow>
         let (dec, code, reason) =
               (case result of
                  Inr _ \<Rightarrow> (DecisionAllow, ''grant_verified'', ReasonVerified)
                | Inl e \<Rightarrow> (DecisionReject, ''grant_rejected'', ReasonGrant e))
         in (result, flow\<lparr>fl_nonces := nonces\<rparr>,
             audit_step env (gb_statement_text live) dec code (Some reason) (gb_role live) (Some (gb_session_id live)) None
               (Some (gb_proposal_id live)) clk s))"

section \<open>The chain summary\<close>

record chain_summary =
  cs_len :: nat
  cs_head :: string
  cs_reason_code_counts :: "(string, nat) btree"

definition verify_meta_chain :: "'i hasher \<Rightarrow> 'i audit_record list \<Rightarrow> chain_break + chain_summary" where
  "verify_meta_chain h records =
     rbind (verify_chain h records) (\<lambda>_.
     Inr \<lparr>cs_len = length records,
          cs_head = (if records = [] then GENESIS_PREV_HASH else ar_record_hash (last records)),
          cs_reason_code_counts =
            foldl (\<lambda>m r. let code = au_reason_code (ar_payload r) in
                bt_insert code ((case bt_get m code of None \<Rightarrow> 0 | Some n \<Rightarrow> n) + 1) m) [] records\<rparr>)"

text \<open>
  An approval does not depend on the audit log: with a log that refuses every entry, the answer,
  the signed grant in it and the flow's new state are those of a working log. A refused entry for a
  signed grant is therefore not reported to anybody.
\<close>

lemma approval_ignores_the_log:
  "fst (flow_approve cr (env\<lparr>fe_append := \<lambda>_ _. efail err\<rparr>) i approver sk nonce ttl clk (flow, s))
     = fst (flow_approve cr env i approver sk nonce ttl clk (flow, s))
   \<and> fst (snd (flow_approve cr (env\<lparr>fe_append := \<lambda>_ _. efail err\<rparr>) i approver sk nonce ttl clk (flow, s)))
     = fst (snd (flow_approve cr env i approver sk nonce ttl clk (flow, s)))
   \<and> snd (snd (flow_approve cr (env\<lparr>fe_append := \<lambda>_ _. efail err\<rparr>) i approver sk nonce ttl clk (flow, s))) = s"
  by (simp add: flow_approve_def audit_step_def Let_def efail_def split: sum.split prod.split)

end
