(* ===== verification/Applyd_Service.thy ===== *)
theory Applyd_Service
  imports Cli_Approval Orch_Apply_Grant
begin

text \<open>
  The apply daemon (\<^verbatim>\<open>crates/applyd/src/protocol.rs\<close>, \<^verbatim>\<open>service.rs\<close> and the dispatch of \<^verbatim>\<open>main.rs\<close>):
  the error vocabulary, the service that keeps proposals, dry runs, approval requests and grants, and
  the dispatch of decoded calls onto it. The JSON codec, the SQL parser and the predicate gates, the
  floating-point headroom and the connections are parameters. A message is a constructor carrying
  the values it is formatted from; its wording is a parameter.
\<close>

section \<open>The error vocabulary\<close>

definition APP_ERROR_CODE :: int where
  "APP_ERROR_CODE = - 32000"

datatype error_code =
    ProposalNotFound | VolatileCode | PkLessCode | NotRehearsableCode | ApprovalRequiredCode | GrantRejected
  | ConfirmMismatch | BlastDrift | AuditFailed

fun code_as_str :: "error_code \<Rightarrow> string" where
  "code_as_str ProposalNotFound = ''PROPOSAL_NOT_FOUND''"
| "code_as_str VolatileCode = ''VOLATILE''"
| "code_as_str PkLessCode = ''PK_LESS''"
| "code_as_str NotRehearsableCode = ''NOT_REHEARSABLE''"
| "code_as_str ApprovalRequiredCode = ''APPROVAL_REQUIRED''"
| "code_as_str GrantRejected = ''GRANT_REJECTED''"
| "code_as_str ConfirmMismatch = ''CONFIRM_MISMATCH''"
| "code_as_str BlastDrift = ''BLAST_DRIFT''"
| "code_as_str AuditFailed = ''AUDIT_FAILED''"

fun code_remedy :: "error_code \<Rightarrow> string \<times> bool" where
  "code_remedy ProposalNotFound = (''call propose again to mint a fresh proposal, then dry_run'', False)"
| "code_remedy VolatileCode = (''rewrite the predicate without volatile/non-deterministic functions'', False)"
| "code_remedy PkLessCode =
     (''the target has no primary key; pg_brakes cannot key the affected set (no ctid fallback)'', False)"
| "code_remedy NotRehearsableCode = (''only single-statement UPDATE/DELETE are certified writes'', False)"
| "code_remedy ApprovalRequiredCode =
     (''open an approval ticket via request_elevation, await the operator approve, then retry apply'', True)"
| "code_remedy GrantRejected =
     (''the grant did not verify (tamper/replay/expiry); request a fresh elevation + approve'', False)"
| "code_remedy ConfirmMismatch = (''re-run dry_run and confirm the exact reported affected row count'', True)"
| "code_remedy BlastDrift =
     (''the data drifted since dry_run; re-run dry_run and re-approve before applying'', False)"
| "code_remedy AuditFailed =
     (''the audit chain append failed; the deterministic write may have committed but ''
      @ ''is not certified auditable '' @ [CHR 0xE2, CHR 0x80, CHR 0x94]
      @ '' inspect the _meta chain and the daemon logs'', False)"

record block_data =
  bd_code :: string
  bd_remedy :: string
  bd_retryable :: bool

datatype ('v, 'r) service_message =
    MsgProposalNotFound
  | MsgDryRun "('v, 'r) dry_run_error"
  | MsgNoChecksum string
  | MsgElevateBeforeDryRun
  | MsgApplyBeforeDryRun
  | MsgConfirmRows u64 u64
  | MsgConfirmToken
  | MsgNoGrant
  | MsgForeignKey
  | MsgBadKey
  | MsgNoRequest
  | MsgElevation elevation_error
  | MsgApprove approve_error
  | MsgGranted "'r granted_apply_error"
  | MsgCommitUnaudited sink_error
  | MsgBlockUnaudited string sink_error
  | MsgRefusalUnaudited string sink_error
  | MsgMalformedLine string
  | MsgVersion string
  | MsgNoMethod string
  | MsgInvalidParams string

record ('v, 'r) rpc_error =
  re_code :: int
  re_message :: "('v, 'r) service_message"
  re_data :: block_data

definition code_error :: "error_code \<Rightarrow> ('v, 'r) service_message \<Rightarrow> ('v, 'r) rpc_error" where
  "code_error c msg =
     (case code_remedy c of (remedy, retryable) \<Rightarrow>
       \<lparr>re_code = APP_ERROR_CODE, re_message = msg,
        re_data = \<lparr>bd_code = code_as_str c, bd_remedy = remedy, bd_retryable = retryable\<rparr>\<rparr>)"

definition proposal_not_found :: "('v, 'r) rpc_error" where
  "proposal_not_found = code_error ProposalNotFound MsgProposalNotFound"

fun dry_run_error_to_rpc :: "('v, 'r) dry_run_error \<Rightarrow> ('v, 'r) rpc_error" where
  "dry_run_error_to_rpc (Volatile r) = code_error VolatileCode (MsgDryRun (Volatile r))"
| "dry_run_error_to_rpc (PkLess rel) = code_error PkLessCode (MsgDryRun (PkLess rel))"
| "dry_run_error_to_rpc (NotRehearsable m) = code_error NotRehearsableCode (MsgDryRun (NotRehearsable m))"
| "dry_run_error_to_rpc (NotSelfDetermined r) = code_error NotRehearsableCode (MsgDryRun (NotSelfDetermined r))"
| "dry_run_error_to_rpc (Expired i) = code_error ProposalNotFound (MsgDryRun (Expired i))"
| "dry_run_error_to_rpc (DryBackend m) = code_error NotRehearsableCode (MsgDryRun (DryBackend m))"

fun granted_apply_error_to_rpc :: "'r granted_apply_error \<Rightarrow> ('v, 'r) rpc_error" where
  "granted_apply_error_to_rpc (GrantFailed e) = code_error GrantRejected (MsgGranted (GrantFailed e))"
| "granted_apply_error_to_rpc (ApplyFailed e) = code_error BlastDrift (MsgGranted (ApplyFailed e))"
| "granted_apply_error_to_rpc (Inconsistent m) = code_error GrantRejected (MsgGranted (Inconsistent m))"
| "granted_apply_error_to_rpc (NotSelfDeterminedApply r) = code_error GrantRejected (MsgGranted (NotSelfDeterminedApply r))"

fun elevation_error_to_rpc :: "elevation_error \<Rightarrow> ('v, 'r) rpc_error" where
  "elevation_error_to_rpc (ElevationRefused r) = code_error NotRehearsableCode (MsgElevation (ElevationRefused r))"
| "elevation_error_to_rpc (ElevationRequest r) = code_error ProposalNotFound (MsgElevation (ElevationRequest r))"

fun approve_error_to_rpc :: "approve_error \<Rightarrow> ('v, 'r) rpc_error" where
  "approve_error_to_rpc (ApproveAuthority a) = code_error GrantRejected (MsgApprove (ApproveAuthority a))"
| "approve_error_to_rpc (ApproveRequest r) = code_error ProposalNotFound (MsgApprove (ApproveRequest r))"

section \<open>The service\<close>

definition DEFAULT_REQUEST_TTL_MILLIS :: u64 where
  "DEFAULT_REQUEST_TTL_MILLIS = 30 * 60 * 1000"

definition DEFAULT_WAL_FLOOR_BYTES :: u64 where
  "DEFAULT_WAL_FLOOR_BYTES = 64 * 1024"

record dry_run_state =
  ds_blast_radius :: blast_radius
  ds_total_rows :: u64
  ds_confirm_token :: string

record proposal_record =
  pq_proposal :: proposal
  pq_role :: string
  pq_session_id :: string
  pq_kind :: write_kind
  pq_relation :: string
  pq_dry_run :: "dry_run_state option"

text \<open>The process-wide sequence of proposals is part of the state.\<close>

record ('k, 'n) service =
  sv_flow :: "('k, 'n) approval_flow"
  sv_apply_nonces :: 'n
  sv_verifying_key :: 'k
  sv_policy :: policy_config
  sv_proposals :: "(string, proposal_record) btree"
  sv_grants :: "(string, grant_token) btree"
  sv_request_to_proposal :: "(string, string) btree"
  sv_next_request :: u64
  sv_seq :: u64

text \<open>
  What the service takes from outside: the parser and the predicate gates, the two headroom
  additions (10 percent for rows, three times for WAL), the sink and webhook, and the wording.
\<close>

record ('v, 'r, 'h, 's) service_env =
  se_parse_sql :: "string \<Rightarrow> string + sql_statement list"
  se_volatile :: "string \<Rightarrow> (string \<Rightarrow> 'h \<Rightarrow> volatility \<times> 'h) \<Rightarrow> 'h \<Rightarrow> 'v option \<times> 'h"
  se_self_determined :: "string \<Rightarrow> string \<Rightarrow> (string \<Rightarrow> 'h \<Rightarrow> volatility \<times> 'h) \<Rightarrow> 'h \<Rightarrow> 'r option \<times> 'h"
  se_structural :: "string \<Rightarrow> string \<Rightarrow> 'r option"
  se_selection :: "string \<Rightarrow> string option option"
  se_row_headroom :: "u64 \<Rightarrow> u64 option"
  se_wal_headroom :: "u64 \<Rightarrow> u64 option"
  se_flow_env :: "'s flow_env"
  se_wording :: "('v, 'r) service_message \<Rightarrow> string"

definition service_new :: "'k \<Rightarrow> 'n \<Rightarrow> 'n \<Rightarrow> policy_config \<Rightarrow> u64 \<Rightarrow> ('k, 'n) service" where
  "service_new vk flow_nonces apply_nonces policy seq =
     \<lparr>sv_flow = flow_new vk flow_nonces, sv_apply_nonces = apply_nonces, sv_verifying_key = vk, sv_policy = policy,
      sv_proposals = [], sv_grants = [], sv_request_to_proposal = [], sv_next_request = 0, sv_seq = seq\<rparr>"

definition audit_decision ::
  "('v, 'r, 'h, 's) service_env \<Rightarrow> string \<Rightarrow> string \<Rightarrow> string \<Rightarrow> string option \<Rightarrow> decision \<Rightarrow> string \<Rightarrow> string option
    \<Rightarrow> clock \<Rightarrow> ('s, sink_error, unit) eff" where
  "audit_decision env statement_text role session_id proposal_id dec reason_code reason clk s =
     (case fe_append (se_flow_env env)
        \<lparr>ne_statement_text = statement_text, ne_decision = dec, ne_reason_code = reason_code, ne_reason = reason,
         ne_principal = \<lparr>ap_role = role, ap_session_id = Some session_id, ap_principal = None\<rparr>,
         ne_intent = from_statement role statement_text (Some ''applyd''),
         ne_write_safety = \<lparr>ws_dry_run_id = proposal_id, ws_blast_radius_ref = None\<rparr>\<rparr>
        (now_unix_millis clk) s of
        (Inl e, s') \<Rightarrow> (Inl e, s')
      | (Inr _, s') \<Rightarrow> (Inr (), s'))"

definition audit_apply ::
  "('v, 'r, 'h, 's) service_env \<Rightarrow> live_request \<Rightarrow> decision \<Rightarrow> string \<Rightarrow> string option \<Rightarrow> clock
    \<Rightarrow> ('s, sink_error, unit) eff" where
  "audit_apply env live dec reason_code reason clk =
     audit_decision env (lr_statement_text live) (lr_role live) (lr_session_id live) (Some (lr_proposal_id live))
       dec reason_code reason clk"

definition audit_refusal_then ::
  "('v, 'r, 'h, 's) service_env \<Rightarrow> string \<Rightarrow> string \<Rightarrow> string \<Rightarrow> ('v, 'r) rpc_error \<Rightarrow> clock \<Rightarrow> 's
    \<Rightarrow> ('v, 'r) rpc_error \<times> 's" where
  "audit_refusal_then env statement_text role session_id refusal clk s =
     (let reason_code = bd_code (re_data refusal); reason = Some (se_wording env (re_message refusal)) in
      case audit_decision env statement_text role session_id None DecisionBlock reason_code reason clk s of
        (Inr _, s') \<Rightarrow> (refusal, s')
      | (Inl e, s') \<Rightarrow> (code_error AuditFailed (MsgRefusalUnaudited reason_code e), s'))"

record propose_result =
  ppr_proposal_id :: string
  ppr_ttl_millis :: u64

definition service_propose ::
  "('v, 'r, 'h, 's) service_env \<Rightarrow> string \<Rightarrow> u64 option \<Rightarrow> string \<Rightarrow> string \<Rightarrow> clock
    \<Rightarrow> (('k, 'n) service \<times> 's, ('v, 'r) rpc_error, propose_result) eff" where
  "service_propose env sql expected_rows role session_id clk = (\<lambda>(svc, s).
     case classify (se_parse_sql env) sql of
       Inl e \<Rightarrow>
         (case audit_refusal_then env sql role session_id (dry_run_error_to_rpc e) clk s of (err, s') \<Rightarrow> (Inl err, svc, s'))
     | Inr (kind, relation) \<Rightarrow>
         (case propose sql expected_rows clk (sv_seq svc) of (p, seq) \<Rightarrow>
           (Inr \<lparr>ppr_proposal_id = pr_id p, ppr_ttl_millis = pr_ttl_millis p\<rparr>,
            svc\<lparr>sv_seq := seq,
                sv_proposals := bt_insert (pr_id p)
                  \<lparr>pq_proposal = p, pq_role = role, pq_session_id = session_id, pq_kind = kind, pq_relation = relation,
                   pq_dry_run = None\<rparr> (sv_proposals svc)\<rparr>, s)))"

text \<open>A proposal that is stored and has not outlived its time.\<close>

definition live_record :: "string \<Rightarrow> clock \<Rightarrow> ('k, 'n) service \<Rightarrow> proposal_record option" where
  "live_record pid clk svc =
     (case bt_get (sv_proposals svc) pid of
        None \<Rightarrow> None
      | Some r \<Rightarrow> if proposal_is_expired (pq_proposal r) clk then None else Some r)"

record dry_run_result =
  drr_total_rows :: u64
  drr_pk_set_checksum :: string
  drr_reversible :: bool
  drr_confirm_token :: string

definition service_dry_run ::
  "('v, 'r, 'h, 's) service_env \<Rightarrow> string \<Rightarrow> 'h rehearsal \<Rightarrow> clock
    \<Rightarrow> (('k, 'n) service \<times> 's \<times> 'h, ('v, 'r) rpc_error, dry_run_result) eff" where
  "service_dry_run env pid rh clk = (\<lambda>(svc, s, h).
     case live_record pid clk svc of
       None \<Rightarrow> (Inl proposal_not_found, svc, s, h)
     | Some rec \<Rightarrow>
     let p = pq_proposal rec; relation = pq_relation rec;
         refuse = (\<lambda>refusal s. audit_refusal_then env (pr_statement p) (pq_role rec) (pq_session_id rec) refusal clk s)
     in (case dry_run (se_parse_sql env) (se_volatile env) (se_self_determined env) p rh clk h of
           (Inl e, h') \<Rightarrow> (case refuse (dry_run_error_to_rpc e) s of (err, s') \<Rightarrow> (Inl err, svc, s', h'))
         | (Inr br, h') \<Rightarrow>
             (case bt_get (pk_set_checksum (br_affected br)) relation of
                None \<Rightarrow>
                  (case refuse (code_error PkLessCode (MsgNoChecksum relation)) s of (err, s') \<Rightarrow> (Inl err, svc, s', h'))
              | Some checksum \<Rightarrow>
                  let total = total_rows (br_affected br);
                      token = ''ct-'' @ pid @ ''-'' @ decimal (unat total)
                  in (Inr \<lparr>drr_total_rows = total, drr_pk_set_checksum = checksum, drr_reversible = br_reversible br,
                           drr_confirm_token = token\<rparr>,
                      svc\<lparr>sv_proposals := bt_insert pid
                        (rec\<lparr>pq_dry_run := Some \<lparr>ds_blast_radius = br, ds_total_rows = total,
                           ds_confirm_token = token\<rparr>\<rparr>) (sv_proposals svc)\<rparr>, s, h'))))"

definition binding_proposal ::
  "('v, 'r, 'h, 's) service_env \<Rightarrow> proposal_record \<Rightarrow> dry_run_state \<Rightarrow> request_proposal" where
  "binding_proposal env rec dry =
     (let rows_cap = max_rows (suggested_cap (se_row_headroom env) (ds_blast_radius dry));
          wal_cap = max (max_wal_bytes (suggested_cap (se_wal_headroom env) (ds_blast_radius dry))) DEFAULT_WAL_FLOOR_BYTES
      in \<lparr>rp_proposal_id = pr_id (pq_proposal rec), rp_statement_text = pr_statement (pq_proposal rec),
          rp_normalized_params = [], rp_role = pq_role rec, rp_session_id = pq_session_id rec,
          rp_dry_run_lsn = br_clone_lsn (ds_blast_radius dry),
          rp_cap = \<lparr>max_rows = rows_cap, max_wal_bytes = wal_cap\<rparr>\<rparr>)"

definition operation_for :: "proposal_record \<Rightarrow> dry_run_state \<Rightarrow> operation" where
  "operation_for rec dry =
     (let has_preimage = br_reversible (ds_blast_radius dry) in
      case pq_kind rec of Update \<Rightarrow> OpUpdate has_preimage True | Delete \<Rightarrow> OpDelete has_preimage True)"

text \<open>\<^verbatim>\<open>{:08x}\<close>: lower-case hex, padded with zeros to eight digits.\<close>

fun hex_digits :: "nat \<Rightarrow> string" where
  "hex_digits n = (if n < 16 then [hex_digit n] else hex_digits (n div 16) @ [hex_digit (n mod 16)])"

declare hex_digits.simps [simp del]

definition hex08 :: "u64 \<Rightarrow> string" where
  "hex08 n = (let ds = hex_digits (unat n) in replicate (8 - length ds) CHR ''0'' @ ds)"

record request_elevation_result =
  rer_request_id :: string
  rer_ttl_millis :: u64
  rer_cap_max_rows :: u64
  rer_cap_max_wal_bytes :: u64
  rer_side_effecting_triggers :: "string list"

definition service_request_elevation ::
  "('v, 'r, 'h, 's) service_env \<Rightarrow> string \<Rightarrow> string \<Rightarrow> clock
    \<Rightarrow> (('k, 'n) service \<times> 's, ('v, 'r) rpc_error, request_elevation_result) eff" where
  "service_request_elevation env pid reason clk = (\<lambda>(svc, s).
     case live_record pid clk svc of
       None \<Rightarrow> (Inl proposal_not_found, svc, s)
     | Some rec \<Rightarrow>
     (case pq_dry_run rec of
        None \<Rightarrow> (Inl (code_error ConfirmMismatch MsgElevateBeforeDryRun), svc, s)
      | Some dry \<Rightarrow>
        let rp = binding_proposal env rec dry; cap = rp_cap rp;
            triggers = map tf_name (filter (\<lambda>t. tf_rows t > 0) (br_triggers_fired (ds_blast_radius dry)));
            svc = svc\<lparr>sv_next_request := sv_next_request svc + 1\<rparr>;
            rid = ''req-'' @ hex08 (sv_next_request svc)
        in (case flow_request_elevation (se_flow_env env) rid rp (pq_session_id rec) (operation_for rec dry)
              DEFAULT_REQUEST_TTL_MILLIS clk (sv_flow svc, s) of
              (Inl e, flow, s') \<Rightarrow> (Inl (elevation_error_to_rpc e), svc\<lparr>sv_flow := flow\<rparr>, s')
            | (Inr outcome, flow, s') \<Rightarrow>
                (Inr \<lparr>rer_request_id = rid,
                   rer_ttl_millis = sat_sub (ar_expires_at_unix_millis (eo_contract outcome)) (now_unix_millis clk),
                   rer_cap_max_rows = max_rows cap, rer_cap_max_wal_bytes = max_wal_bytes cap,
                   rer_side_effecting_triggers = triggers\<rparr>,
                 svc\<lparr>sv_flow := flow, sv_request_to_proposal := bt_insert rid pid (sv_request_to_proposal svc)\<rparr>, s'))))"

record approve_result =
  apr_request_id :: string
  apr_nonce :: string

definition service_approve ::
  "('k, 'sk) grant_crypto \<Rightarrow> ('v, 'r, 'h, 's) service_env \<Rightarrow> string \<Rightarrow> string \<Rightarrow> 'sk \<Rightarrow> string \<Rightarrow> u64 \<Rightarrow> clock
    \<Rightarrow> (('k, 'n) service \<times> 's, ('v, 'r) rpc_error, approve_result) eff" where
  "service_approve cr env rid approver_id signing_key nonce grant_ttl clk = (\<lambda>(svc, s).
     if gc_verifying_key cr signing_key \<noteq> sv_verifying_key svc then (Inl (code_error GrantRejected MsgForeignKey), svc, s)
     else case bt_get (sv_request_to_proposal svc) rid of
       None \<Rightarrow> (Inl (code_error ProposalNotFound MsgNoRequest), svc, s)
     | Some pid \<Rightarrow>
     (case flow_approve cr (se_flow_env env) rid (principal_approver approver_id) signing_key nonce grant_ttl clk
         (sv_flow svc, s) of
        (Inl e, flow, s') \<Rightarrow> (Inl (approve_error_to_rpc e), svc\<lparr>sv_flow := flow\<rparr>, s')
      | (Inr grant, flow, s') \<Rightarrow>
          (Inr \<lparr>apr_request_id = rid, apr_nonce = nonce\<rparr>,
           svc\<lparr>sv_flow := flow, sv_grants := bt_insert pid grant (sv_grants svc)\<rparr>, s')))"

section \<open>The apply\<close>

definition bt_remove :: "'k \<Rightarrow> ('k, 'v) btree \<Rightarrow> ('k, 'v) btree" where
  "bt_remove k m = filter (\<lambda>(k', _). k' \<noteq> k) m"

record apply_result =
  alr_applied :: bool
  alr_rows_written :: u64
  alr_reversible :: bool

text \<open>The request the floor verifies is made from the stored record only.\<close>

definition live_of :: "string \<Rightarrow> proposal_record \<Rightarrow> live_request" where
  "live_of pid rec =
     \<lparr>lr_statement_text = pr_statement (pq_proposal rec), lr_normalized_params = [], lr_role = pq_role rec,
      lr_session_id = pq_session_id rec, lr_proposal_id = pid\<rparr>"

definition apply_returning_inverse ::
  "('k, 'sk) grant_crypto \<Rightarrow> ('v, 'r, 'h, 's) service_env \<Rightarrow> (string \<Rightarrow> 'n \<Rightarrow> bool \<times> 'n) \<Rightarrow> string \<Rightarrow> u64 \<Rightarrow> string option
    \<Rightarrow> 'c apply_conn \<Rightarrow> (string \<Rightarrow> 'c \<Rightarrow> 'c) \<Rightarrow> clock
    \<Rightarrow> (('k, 'n) service \<times> 's \<times> 'c, ('v, 'r) rpc_error, apply_result \<times> inverse_plan) eff" where
  "apply_returning_inverse cr env consume pid confirm_rows confirm_token conn pause_point clk = (\<lambda>(svc, s, c).
     case live_record pid clk svc of
       None \<Rightarrow> (Inl proposal_not_found, svc, s, c)
     | Some rec \<Rightarrow>
     (case pq_dry_run rec of
        None \<Rightarrow> (Inl (code_error ConfirmMismatch MsgApplyBeforeDryRun), svc, s, c)
      | Some dry \<Rightarrow>
        if confirm_rows \<noteq> ds_total_rows dry
        then (Inl (code_error ConfirmMismatch (MsgConfirmRows confirm_rows (ds_total_rows dry))), svc, s, c)
        else if confirm_token \<noteq> None \<and> confirm_token \<noteq> Some (ds_confirm_token dry)
        then (Inl (code_error ConfirmMismatch MsgConfirmToken), svc, s, c)
        else case bt_get (sv_grants svc) pid of
          None \<Rightarrow> (Inl (code_error ApprovalRequiredCode MsgNoGrant), svc, s, c)
        | Some grant \<Rightarrow>
          let live = live_of pid rec in
          (case guarded_apply_with_grant (gc_sha256 cr) (gc_hex_encode cr) (gc_hex_decode cr)
              (gc_verify_strict cr (sv_verifying_key svc)) (se_structural env) consume (sv_policy svc) grant live
              (pq_kind rec) (pq_relation rec) (ds_blast_radius dry) conn pause_point clk (sv_apply_nonces svc, c) of
             (Inr (applied, _), nonces, c') \<Rightarrow>
               let svc = svc\<lparr>sv_apply_nonces := nonces, sv_proposals := bt_remove pid (sv_proposals svc),
                     sv_grants := bt_remove pid (sv_grants svc)\<rparr>;
                   reversible = (ip_kind (aw_inverse applied) = PreimageUpsert \<or> ip_rows (aw_inverse applied) \<noteq> [])
               in (case audit_apply env live DecisionAllow ''apply_committed''
                     (Some (decimal (unat (aw_rows_written applied)) @ '' rows committed (reversible)'')) clk s of
                     (Inl e, s') \<Rightarrow> (Inl (code_error AuditFailed (MsgCommitUnaudited e)), svc, s', c')
                   | (Inr _, s') \<Rightarrow>
                       (Inr (\<lparr>alr_applied = True, alr_rows_written = aw_rows_written applied, alr_reversible = reversible\<rparr>,
                          aw_inverse applied), svc, s', c'))
           | (Inl e, nonces, c') \<Rightarrow>
               let svc = svc\<lparr>sv_apply_nonces := nonces\<rparr>; rpc = granted_apply_error_to_rpc e in
               (case audit_apply env live DecisionBlock (bd_code (re_data rpc)) (Some (se_wording env (re_message rpc))) clk s of
                  (Inl ae, s') \<Rightarrow>
                    (Inl (code_error AuditFailed (MsgBlockUnaudited (bd_code (re_data rpc)) ae)), svc, s', c')
                | (Inr _, s') \<Rightarrow> (Inl rpc, svc, s', c')))))"

definition service_apply ::
  "('k, 'sk) grant_crypto \<Rightarrow> ('v, 'r, 'h, 's) service_env \<Rightarrow> (string \<Rightarrow> 'n \<Rightarrow> bool \<times> 'n) \<Rightarrow> string \<Rightarrow> u64 \<Rightarrow> string option
    \<Rightarrow> 'c apply_conn \<Rightarrow> (string \<Rightarrow> 'c \<Rightarrow> 'c) \<Rightarrow> clock
    \<Rightarrow> (('k, 'n) service \<times> 's \<times> 'c, ('v, 'r) rpc_error, apply_result) eff" where
  "service_apply cr env consume pid confirm_rows confirm_token conn pause_point clk st =
     (case apply_returning_inverse cr env consume pid confirm_rows confirm_token conn pause_point clk st of
        (Inl e, st') \<Rightarrow> (Inl e, st')
      | (Inr (res, _), st') \<Rightarrow> (Inr res, st'))"

definition audit_records :: "('s \<Rightarrow> sink_error + intent_tiers audit_record list) \<Rightarrow> nat \<Rightarrow> 's \<Rightarrow> intent_tiers audit_record list" where
  "audit_records load limit s =
     (let all = (case load s of Inl _ \<Rightarrow> [] | Inr rs \<Rightarrow> rs) in drop (length all - limit) all)"

text \<open>
  The predicate of a statement: \<open>se_selection\<close> is what the parser finds, absent when it fails, and
  the rendered expression when the statement has one.
\<close>

definition extract_where :: "('v, 'r, 'h, 's) service_env \<Rightarrow> string \<Rightarrow> string" where
  "extract_where env statement =
     (case se_selection env statement of
        None \<Rightarrow> ''true'' | Some None \<Rightarrow> ''true'' | Some (Some expr) \<Rightarrow> expr)"

definition apply_sql_for ::
  "('v, 'r, 'h, 's) service_env \<Rightarrow> string \<Rightarrow> clock \<Rightarrow> ('k, 'n) service \<Rightarrow> (string \<times> string) option" where
  "apply_sql_for env pid clk svc =
     (case live_record pid clk svc of
        None \<Rightarrow> None
      | Some rec \<Rightarrow> let statement = pr_statement (pq_proposal rec) in Some (statement, extract_where env statement))"

section \<open>Dispatch\<close>

text \<open>A call whose parameters decoded; its method and parameter names are those of the protocol.\<close>

datatype daemon_call =
    Propose string "u64 option" string string
  | DryRun string
  | RequestElevation string string
  | Approve string string string string u64
  | Apply string u64 "string option"
  | GetAudit "u64 option"

datatype rpc_method = MPropose | MDryRun | MRequestElevation | MApprove | MApply | MGetAudit

definition method_parse :: "string \<Rightarrow> rpc_method option" where
  "method_parse name =
     (if name = ''propose'' then Some MPropose
      else if name = ''dry_run'' then Some MDryRun
      else if name = ''request_elevation'' then Some MRequestElevation
      else if name = ''approve'' then Some MApprove
      else if name = ''apply'' then Some MApply
      else if name = ''get_audit'' then Some MGetAudit
      else None)"

datatype daemon_result =
    ProposeResult propose_result
  | DryRunResult dry_run_result
  | RequestElevationResult request_elevation_result
  | ApproveResult approve_result
  | ApplyResult apply_result
  | GetAuditResult "(u64 \<times> decision \<times> string) list"

definition parse_signing_key :: "('k, 'sk) grant_crypto \<Rightarrow> (bytes \<Rightarrow> 'sk) \<Rightarrow> string \<Rightarrow> 'sk option" where
  "parse_signing_key cr from_bytes hex_str =
     (case gc_hex_decode cr (trim hex_str) of
        None \<Rightarrow> None
      | Some bs \<Rightarrow> if length bs = 32 then Some (from_bytes bs) else None)"

definition to_response :: "('a \<Rightarrow> daemon_result) \<Rightarrow> ('v, 'r) rpc_error + 'a \<Rightarrow> ('v, 'r) rpc_error + daemon_result" where
  "to_response f r = (case r of Inl e \<Rightarrow> Inl e | Inr x \<Rightarrow> Inr (f x))"

text \<open>
  The dispatch of one call under the lock. \<open>conn_of\<close> makes the state of the apply connection from the
  two texts it runs, the forward statement and the predicate, and the resident client; \<open>client_of\<close>
  gives the client back.
\<close>

fun dispatch ::
  "('k, 'sk) grant_crypto \<Rightarrow> (bytes \<Rightarrow> 'sk) \<Rightarrow> ('v, 'r, 'h, 's) service_env \<Rightarrow> ('s \<Rightarrow> sink_error + intent_tiers audit_record list)
    \<Rightarrow> 'h rehearsal \<Rightarrow> 'd apply_conn \<Rightarrow> (string \<Rightarrow> 'd \<Rightarrow> 'd) \<Rightarrow> (string \<Rightarrow> string \<Rightarrow> 'c \<Rightarrow> 'd) \<Rightarrow> ('d \<Rightarrow> 'c) \<Rightarrow> daemon_call \<Rightarrow> clock
    \<Rightarrow> (('k, in_memory_nonce_store) service \<times> 's \<times> 'h \<times> 'c, ('v, 'r) rpc_error, daemon_result) eff" where
  "dispatch cr from_bytes env load rh conn pause_point conn_of client_of (Propose sql expected role session_id) clk (svc, s, h, c) =
     (case service_propose env sql expected role session_id clk (svc, s) of
        (r, svc', s') \<Rightarrow> (to_response ProposeResult r, svc', s', h, c))"
| "dispatch cr from_bytes env load rh conn pause_point conn_of client_of (DryRun pid) clk (svc, s, h, c) =
     (case service_dry_run env pid rh clk (svc, s, h) of
        (r, svc', s', h') \<Rightarrow> (to_response DryRunResult r, svc', s', h', c))"
| "dispatch cr from_bytes env load rh conn pause_point conn_of client_of (RequestElevation pid reason) clk (svc, s, h, c) =
     (case service_request_elevation env pid reason clk (svc, s) of
        (r, svc', s') \<Rightarrow> (to_response RequestElevationResult r, svc', s', h, c))"
| "dispatch cr from_bytes env load rh conn pause_point conn_of client_of (Approve rid approver key nonce ttl) clk (svc, s, h, c) =
     (case parse_signing_key cr from_bytes key of
        None \<Rightarrow> (Inl (code_error GrantRejected MsgBadKey), svc, s, h, c)
      | Some sk \<Rightarrow>
          (case service_approve cr env rid approver sk nonce ttl clk (svc, s) of
             (r, svc', s') \<Rightarrow> (to_response ApproveResult r, svc', s', h, c)))"
| "dispatch cr from_bytes env load rh conn pause_point conn_of client_of (Apply pid rows token) clk (svc, s, h, c) =
     (case apply_sql_for env pid clk svc of
        None \<Rightarrow> (Inl proposal_not_found, svc, s, h, c)
      | Some (forward_sql, where_sql) \<Rightarrow>
          (case service_apply cr env in_memory_consume pid rows token conn pause_point clk
              (svc, s, conn_of forward_sql where_sql c) of
             (r, svc', s', d) \<Rightarrow> (to_response ApplyResult r, svc', s', h, client_of d)))"
| "dispatch cr from_bytes env load rh conn pause_point conn_of client_of (GetAudit limit) clk (svc, s, h, c) =
     (let n = min (case limit of None \<Rightarrow> 50 | Some n \<Rightarrow> n) 1000 in
      (Inr (GetAuditResult (map (\<lambda>r. (au_seq (ar_payload r), au_decision (ar_payload r), au_reason_code (ar_payload r)))
         (audit_records load (unat n) s))), svc, s, h, c))"

text \<open>The daemon's own dispatch: the barrier does nothing.\<close>

definition daemon_dispatch ::
  "('k, 'sk) grant_crypto \<Rightarrow> (bytes \<Rightarrow> 'sk) \<Rightarrow> ('v, 'r, 'h, 's) service_env \<Rightarrow> ('s \<Rightarrow> sink_error + intent_tiers audit_record list)
    \<Rightarrow> 'h rehearsal \<Rightarrow> (string \<times> string \<times> 'c) apply_conn \<Rightarrow> daemon_call \<Rightarrow> clock
    \<Rightarrow> (('k, in_memory_nonce_store) service \<times> 's \<times> 'h \<times> 'c, ('v, 'r) rpc_error, daemon_result) eff" where
  "daemon_dispatch cr from_bytes env load rh conn =
     dispatch cr from_bytes env load rh conn (\<lambda>_ d. d) (\<lambda>forward_sql where_sql c. (forward_sql, where_sql, c))
       (\<lambda>(_, _, c). c)"

end
