(* ===== verification/Applyd_Safety.thy ===== *)
theory Applyd_Safety
  imports Applyd_Service
begin

text \<open>
  Runs of the apply daemon. The calls of any number of agents and operators reach the service one
  after another, under its lock; between two calls the database, the log and the rest of the world
  may change in any way. A run is the list of calls with their clock readings, their answers and
  what was done on the apply connection.
\<close>

section \<open>Runs\<close>

type_synonym ('v, 'r) daemon_event = "daemon_call \<times> clock \<times> (('v, 'r) rpc_error + daemon_result) \<times> conn_call list"

text \<open>The dispatch with the calls on the apply connection recorded.\<close>

definition traced_dispatch ::
  "('k, 'sk) grant_crypto \<Rightarrow> (bytes \<Rightarrow> 'sk) \<Rightarrow> ('v, 'r, 'h, 's) service_env \<Rightarrow> ('s \<Rightarrow> sink_error + intent_tiers audit_record list)
    \<Rightarrow> 'h rehearsal \<Rightarrow> (string \<times> string \<times> 'c) apply_conn \<Rightarrow> daemon_call \<Rightarrow> clock
    \<Rightarrow> (('k, in_memory_nonce_store) service \<times> 's \<times> 'h \<times> 'c \<times> conn_call list, ('v, 'r) rpc_error, daemon_result) eff" where
  "traced_dispatch cr from_bytes env load rh conn =
     dispatch cr from_bytes env load rh (traced conn) (traced_pause (\<lambda>_ d. d))
       (\<lambda>forward_sql where_sql (c, tr). ((forward_sql, where_sql, c), tr)) (\<lambda>((_, _, c), tr). (c, tr))"

inductive daemon_run ::
  "('k, 'sk) grant_crypto \<Rightarrow> (bytes \<Rightarrow> 'sk) \<Rightarrow> ('v, 'r, 'h, 's) service_env \<Rightarrow> ('s \<Rightarrow> sink_error + intent_tiers audit_record list)
    \<Rightarrow> 'h rehearsal \<Rightarrow> (string \<times> string \<times> 'c) apply_conn \<Rightarrow> 'k
    \<Rightarrow> ('v, 'r) daemon_event list \<Rightarrow> ('k, in_memory_nonce_store) service \<Rightarrow> bool"
  for cr from_bytes env load rh conn vk where
  start: "daemon_run cr from_bytes env load rh conn vk [] (service_new vk flow_nonces in_memory_new policy seq)"
| call: "daemon_run cr from_bytes env load rh conn vk evs svc \<Longrightarrow>
    traced_dispatch cr from_bytes env load rh conn call clk (svc, s, h, c, []) = (r, svc', s', h', c', tr) \<Longrightarrow>
    daemon_run cr from_bytes env load rh conn vk (evs @ [(call, clk, r, tr)]) svc'"

text \<open>What the answers of a run say: who proposed what, which request was opened with which cap, who approved.\<close>

definition proposed :: "('v, 'r) daemon_event list \<Rightarrow> string \<Rightarrow> string \<Rightarrow> string \<Rightarrow> string \<Rightarrow> clock \<Rightarrow> bool" where
  "proposed evs pid sql role session_id clk =
     (\<exists>expected res tr. (Propose sql expected role session_id, clk, Inr (ProposeResult res), tr) \<in> set evs
        \<and> ppr_proposal_id res = pid)"

definition elevated :: "('v, 'r) daemon_event list \<Rightarrow> string \<Rightarrow> string \<Rightarrow> write_cap \<Rightarrow> bool" where
  "elevated evs rid pid cap =
     (\<exists>reason clk res tr. (RequestElevation pid reason, clk, Inr (RequestElevationResult res), tr) \<in> set evs
        \<and> rer_request_id res = rid \<and> rer_cap_max_rows res = max_rows cap \<and> rer_cap_max_wal_bytes res = max_wal_bytes cap)"

definition approved ::
  "('k, 'sk) grant_crypto \<Rightarrow> (bytes \<Rightarrow> 'sk) \<Rightarrow> 'k \<Rightarrow> ('v, 'r) daemon_event list \<Rightarrow> string \<Rightarrow> string \<Rightarrow> string \<Rightarrow> u64 \<Rightarrow> bool" where
  "approved cr from_bytes vk evs rid approver nonce expiry =
     (\<exists>key sk ttl clk res tr. (Approve rid approver key nonce ttl, clk, Inr (ApproveResult res), tr) \<in> set evs
        \<and> parse_signing_key cr from_bytes key = Some sk \<and> gc_verifying_key cr sk = vk
        \<and> expiry = sat_add (now_unix_millis clk) ttl)"

definition committed :: "('v, 'r) daemon_event \<Rightarrow> bool" where
  "committed ev = (case ev of (_, _, _, tr) \<Rightarrow> list_ex (\<lambda>c. case c of CallCommit _ \<Rightarrow> True | _ \<Rightarrow> False) tr)"

lemma committed_iff: "committed (call, clk, r, tr) \<longleftrightarrow> (\<exists>c. CallCommit c \<in> set tr)"
proof -
  have "(case c of CallCommit _ \<Rightarrow> True | _ \<Rightarrow> False) \<longleftrightarrow> (\<exists>x. c = CallCommit x)" for c by (cases c) simp_all
  then show ?thesis by (auto simp: committed_def list_ex_iff)
qed

definition approval :: "('v, 'r) daemon_event \<Rightarrow> string option" where
  "approval ev = (case ev of (Approve _ _ _ nonce _, _, Inr (ApproveResult _), _) \<Rightarrow> Some nonce | _ \<Rightarrow> None)"

lemma run_factsI:
  "(Propose sql expected role session_id, clk, Inr (ProposeResult res), tr) \<in> set evs \<Longrightarrow>
     proposed evs (ppr_proposal_id res) sql role session_id clk"
  "(RequestElevation pid reason, clk, Inr (RequestElevationResult eres), tr) \<in> set evs \<Longrightarrow>
     rer_cap_max_rows eres = max_rows cap \<Longrightarrow> rer_cap_max_wal_bytes eres = max_wal_bytes cap \<Longrightarrow>
     elevated evs (rer_request_id eres) pid cap"
  "(Approve rid approver key nonce ttl, clk, Inr (ApproveResult ares), tr) \<in> set evs \<Longrightarrow>
     parse_signing_key cr from_bytes key = Some sk \<Longrightarrow> gc_verifying_key cr sk = vk \<Longrightarrow>
     approved cr from_bytes vk evs rid approver nonce (sat_add (now_unix_millis clk) ttl)"
  unfolding proposed_def elevated_def approved_def by blast+

lemma run_facts_mono:
  assumes "set evs \<subseteq> set evs'"
  shows "proposed evs pid sql role session_id clk \<Longrightarrow> proposed evs' pid sql role session_id clk"
    and "elevated evs rid pid cap \<Longrightarrow> elevated evs' rid pid cap"
    and "approved cr from_bytes vk evs rid approver nonce expiry \<Longrightarrow> approved cr from_bytes vk evs' rid approver nonce expiry"
  using assms unfolding proposed_def elevated_def approved_def by blast+

section \<open>The invariant\<close>

text \<open>A stored proposal is one that was proposed, by the stored session, at its creation time.\<close>

definition record_ok :: "('v, 'r) daemon_event list \<Rightarrow> string \<Rightarrow> proposal_record \<Rightarrow> bool" where
  "record_ok evs pid rec =
     (pr_ttl_millis (pq_proposal rec) = DEFAULT_TTL_MILLIS
      \<and> (\<exists>clk. proposed evs pid (pr_statement (pq_proposal rec)) (pq_role rec) (pq_session_id rec) clk
          \<and> pr_created_monotonic_millis (pq_proposal rec) = monotonic_millis clk))"

text \<open>A held grant was signed with the configured key, by someone else than its session, for a request on its proposal.\<close>

definition grant_ok ::
  "('k, 'sk) grant_crypto \<Rightarrow> (bytes \<Rightarrow> 'sk) \<Rightarrow> 'k \<Rightarrow> ('v, 'r) daemon_event list \<Rightarrow> string \<Rightarrow> grant_binding \<Rightarrow> bool" where
  "grant_ok cr from_bytes vk evs pid b =
     (\<exists>rid approver. elevated evs rid pid (gb_cap b)
        \<and> approved cr from_bytes vk evs rid approver (gb_nonce b) (gb_expiry_unix_millis b)
        \<and> approver \<noteq> gb_session_id b)"

abbreviation requests :: "('k, 'n) service \<Rightarrow> (string, approval_request) btree" where
  "requests svc \<equiv> st_requests (fl_store (sv_flow svc))"

definition maps_wf :: "('k, 'n) service \<Rightarrow> bool" where
  "maps_wf svc = (bt_wf (sv_proposals svc) \<and> bt_wf (sv_grants svc) \<and> bt_wf (sv_request_to_proposal svc) \<and> bt_wf (requests svc))"

definition daemon_inv ::
  "('k, 'sk) grant_crypto \<Rightarrow> (bytes \<Rightarrow> 'sk) \<Rightarrow> 'k \<Rightarrow> ('v, 'r) daemon_event list \<Rightarrow> ('k, in_memory_nonce_store) service \<Rightarrow> bool" where
  "daemon_inv cr from_bytes vk evs svc =
     (sv_verifying_key svc = vk \<and> maps_wf svc
      \<and> (\<forall>pid rec. bt_get (sv_proposals svc) pid = Some rec \<longrightarrow> record_ok evs pid rec)
      \<and> (\<forall>rid req. bt_get (requests svc) rid = Some req \<longrightarrow> aq_requester_id req = rp_session_id (aq_proposal req))
      \<and> (\<forall>rid pid. bt_get (sv_request_to_proposal svc) rid = Some pid \<longrightarrow>
           (\<exists>req. bt_get (requests svc) rid = Some req \<and> elevated evs rid pid (rp_cap (aq_proposal req))))
      \<and> (\<forall>pid grant. bt_get (sv_grants svc) pid = Some grant \<longrightarrow> grant_ok cr from_bytes vk evs pid (gt_binding grant)))"

definition nonces_ok :: "('v, 'r) daemon_event list \<Rightarrow> ('k, in_memory_nonce_store) service \<Rightarrow> bool" where
  "nonces_ok evs svc =
     (ins_used (sv_apply_nonces svc) \<subseteq> set (List.map_filter approval evs)
      \<and> length (filter committed evs) \<le> card (ins_used (sv_apply_nonces svc)))"

lemma record_ok_mono: "record_ok evs pid rec \<Longrightarrow> set evs \<subseteq> set evs' \<Longrightarrow> record_ok evs' pid rec"
  using run_facts_mono(1) [of evs evs'] unfolding record_ok_def by fast

lemma grant_ok_mono: "grant_ok cr from_bytes vk evs pid b \<Longrightarrow> set evs \<subseteq> set evs' \<Longrightarrow> grant_ok cr from_bytes vk evs' pid b"
  using run_facts_mono(2,3) [of evs evs'] unfolding grant_ok_def by fast

lemma daemon_inv_mono:
  assumes inv: "daemon_inv cr from_bytes vk evs svc" and sub: "set evs \<subseteq> set evs'"
  shows "daemon_inv cr from_bytes vk evs' svc"
proof -
  have "record_ok evs pid rec \<Longrightarrow> record_ok evs' pid rec" "elevated evs rid pid cap \<Longrightarrow> elevated evs' rid pid cap"
    "grant_ok cr from_bytes vk evs pid b \<Longrightarrow> grant_ok cr from_bytes vk evs' pid b" for pid rec rid cap b
    by (fact record_ok_mono [OF _ sub] run_facts_mono(2) [OF sub] grant_ok_mono [OF _ sub])+
  with inv show ?thesis unfolding daemon_inv_def by blast
qed

lemma daemon_inv_snoc: "daemon_inv cr from_bytes vk evs svc \<Longrightarrow> daemon_inv cr from_bytes vk (evs @ [ev]) svc"
  by (erule daemon_inv_mono) auto

lemma daemon_inv_new: "daemon_inv cr from_bytes vk [] (service_new vk fn an policy seq)"
  by (simp add: daemon_inv_def maps_wf_def service_new_def flow_new_def store_new_def)

section \<open>The calls keep the invariant\<close>

lemma propose_keeps:
  fixes env :: "('v, 'r, 'h, 's) service_env"
  assumes inv: "daemon_inv cr from_bytes vk evs svc"
    and run: "service_propose env sql expected role session_id clk (svc, s) = (r, svc', s')"
  shows "daemon_inv cr from_bytes vk (evs @ [(Propose sql expected role session_id, clk, to_response ProposeResult r, tr)]) svc'
    \<and> sv_apply_nonces svc' = sv_apply_nonces svc"
proof (cases "classify (se_parse_sql env) sql :: ('v, 'r) dry_run_error + write_kind \<times> string")
  case (Inl e)
  with run have "svc' = svc" by (auto simp: service_propose_def split: prod.splits)
  with daemon_inv_snoc [OF inv] show ?thesis by simp
next
  case (Inr kr)
  obtain kind rel where kr: "kr = (kind, rel)" by (cases kr)
  obtain p seq where p: "propose sql expected clk (sv_seq svc) = (p, seq)" by fastforce
  let ?evs = "evs @ [(Propose sql expected role session_id, clk, to_response ProposeResult r, tr)]"
  let ?rec = "\<lparr>pq_proposal = p, pq_role = role, pq_session_id = session_id, pq_kind = kind, pq_relation = rel, pq_dry_run = None\<rparr>"
  from run Inr kr p have r: "r = Inr \<lparr>ppr_proposal_id = pr_id p, ppr_ttl_millis = pr_ttl_millis p\<rparr>"
    and svc': "svc' = svc\<lparr>sv_seq := seq, sv_proposals := bt_insert (pr_id p) ?rec (sv_proposals svc)\<rparr>"
    by (auto simp: service_propose_def)
  from p have f: "pr_statement p = sql" "pr_ttl_millis p = DEFAULT_TTL_MILLIS" "pr_created_monotonic_millis p = monotonic_millis clk"
    by (auto simp: propose_def propose_with_ttl_def)
  have "proposed ?evs (pr_id p) sql role session_id clk"
    using run_factsI(1) [of sql expected role session_id clk "projr r" tr ?evs] by (simp add: r to_response_def)
  then have "record_ok ?evs (pr_id p) ?rec" using f by (auto simp: record_ok_def)
  with daemon_inv_snoc [OF inv, of "(Propose sql expected role session_id, clk, to_response ProposeResult r, tr)"] show ?thesis
    by (auto simp: daemon_inv_def svc' maps_wf_def bt_get_insert bt_wf_insert)
qed

lemma live_record_stored: "live_record pid clk svc = Some rec \<Longrightarrow> bt_get (sv_proposals svc) pid = Some rec"
  by (auto simp: live_record_def split: option.splits if_splits)

lemma dry_run_keeps:
  assumes inv: "daemon_inv cr from_bytes vk evs svc"
    and run: "service_dry_run env pid rh clk (svc, s, h) = (r, svc', s', h')"
  shows "daemon_inv cr from_bytes vk (evs @ [ev]) svc' \<and> sv_apply_nonces svc' = sv_apply_nonces svc"
proof -
  from run consider "svc' = svc"
    | rec dry where "live_record pid clk svc = Some rec"
        "svc' = svc\<lparr>sv_proposals := bt_insert pid (rec\<lparr>pq_dry_run := dry\<rparr>) (sv_proposals svc)\<rparr>"
    by (auto simp: service_dry_run_def Let_def split: option.splits prod.splits sum.splits)
  then show ?thesis
  proof cases
    case 1
    with daemon_inv_snoc [OF inv] show ?thesis by simp
  next
    case 2
    note inv' = daemon_inv_snoc [OF inv, of ev]
    then have "record_ok (evs @ [ev]) pid rec" using live_record_stored [OF 2(1)] by (auto simp: daemon_inv_def)
    then have "record_ok (evs @ [ev]) pid (rec\<lparr>pq_dry_run := dry\<rparr>)" by (simp add: record_ok_def)
    with inv' show ?thesis by (auto simp: daemon_inv_def 2(2) maps_wf_def bt_get_insert bt_wf_insert)
  qed
qed

text \<open>A request that is opened is stored as pending under a new identifier, with the session as its requester.\<close>

lemma flow_request_elevation_cases:
  assumes run: "flow_request_elevation env rid rp who op ttl clk (flow, s) = (r, flow', s')"
    and wf: "bt_wf (st_requests (fl_store flow))"
  obtains (refused) e where "r = Inl e" and "flow' = flow"
  | (opened) outcome req where "r = Inr outcome" and "bt_get (st_requests (fl_store flow)) rid = None"
      and "aq_proposal req = rp" and "aq_requester_id req = who" and "aq_status req = Pending"
      and "flow' = flow\<lparr>fl_store := (fl_store flow)\<lparr>st_requests := bt_insert rid req (st_requests (fl_store flow))\<rparr>\<rparr>"
proof (cases "gate_for_elevation op")
  case (Refused why)
  with run that(1) show thesis by (auto simp: flow_request_elevation_def)
next
  case (Eligible act)
  show thesis
  proof (cases "bt_get (st_requests (fl_store flow)) rid")
    case (Some req)
    with run Eligible that(1) show thesis
      by (auto simp: flow_request_elevation_def store_request_elevation_def bt_contains_def)
  next
    case None
    let ?req = "\<lparr>aq_id = rid, aq_proposal = rp, aq_requester_id = who, aq_created_unix_millis = now_unix_millis clk,
      aq_ttl_millis = ttl, aq_status = Pending\<rparr>"
    from run Eligible None wf that(2) [of _ ?req] show thesis
      by (auto simp: flow_request_elevation_def store_request_elevation_def bt_contains_def Let_def store_get_def bt_get_insert
          split: prod.splits)
  qed
qed

lemma request_elevation_keeps:
  assumes inv: "daemon_inv cr from_bytes vk evs svc"
    and run: "service_request_elevation env pid reason clk (svc, s) = (r, svc', s')"
  shows "daemon_inv cr from_bytes vk
      (evs @ [(RequestElevation pid reason, clk, to_response RequestElevationResult r, tr)]) svc'
    \<and> sv_apply_nonces svc' = sv_apply_nonces svc"
proof (cases "\<exists>rec dry. live_record pid clk svc = Some rec \<and> pq_dry_run rec = Some dry")
  case False
  with run have "svc' = svc" by (auto simp: service_request_elevation_def split: option.splits)
  with daemon_inv_snoc [OF inv] show ?thesis by simp
next
  case True
  then obtain rec dry where rec: "live_record pid clk svc = Some rec" "pq_dry_run rec = Some dry" by blast
  let ?evs = "evs @ [(RequestElevation pid reason, clk, to_response RequestElevationResult r, tr)]"
  let ?rp = "binding_proposal env rec dry"
  let ?rid = "''req-'' @ hex08 (sv_next_request svc + 1)"
  note inv' = daemon_inv_snoc [OF inv, of "(RequestElevation pid reason, clk, to_response RequestElevationResult r, tr)"]
  obtain q flow' s1 where flow: "flow_request_elevation (se_flow_env env) ?rid ?rp (pq_session_id rec) (operation_for rec dry)
      DEFAULT_REQUEST_TTL_MILLIS clk (sv_flow svc, s) = (q, flow', s1)" by (metis surj_pair)
  have wf: "bt_wf (requests svc)" using inv by (simp add: daemon_inv_def maps_wf_def)
  have who: "rp_session_id ?rp = pq_session_id rec" by (simp add: binding_proposal_def Let_def)
  from flow wf show ?thesis
  proof (cases rule: flow_request_elevation_cases)
    case (refused e)
    with run rec flow have "svc' = svc\<lparr>sv_next_request := sv_next_request svc + 1, sv_flow := sv_flow svc\<rparr>"
      by (auto simp: service_request_elevation_def)
    with inv' show ?thesis by (simp add: daemon_inv_def maps_wf_def)
  next
    case (opened outcome req)
    from run rec flow opened(1) obtain res where r: "r = Inr res" "rer_request_id res = ?rid"
        "rer_cap_max_rows res = max_rows (rp_cap ?rp)" "rer_cap_max_wal_bytes res = max_wal_bytes (rp_cap ?rp)"
      and svc': "svc' = svc\<lparr>sv_next_request := sv_next_request svc + 1, sv_flow := flow',
          sv_request_to_proposal := bt_insert ?rid pid (sv_request_to_proposal svc)\<rparr>"
      by (auto simp: service_request_elevation_def Let_def)
    have "elevated ?evs ?rid pid (rp_cap (aq_proposal req))"
      using run_factsI(2) [of pid reason clk res tr ?evs "rp_cap ?rp"] r by (simp add: to_response_def opened(3))
    with inv' wf opened(2-5) who show ?thesis
      by (fastforce simp: daemon_inv_def maps_wf_def svc' opened(6) bt_get_insert bt_wf_insert)
  qed
qed

text \<open>A grant is signed for a pending request, by an approver other than its requester.\<close>

lemma flow_approve_cases:
  assumes run: "flow_approve cr env rid (principal_approver who) sk nonce ttl clk (flow, s) = (r, flow', s')"
  obtains (failed) e where "r = Inl e" and "flow' = flow"
  | (signed) req where "bt_get (st_requests (fl_store flow)) rid = Some req" and "who \<noteq> aq_requester_id req"
      and "aq_status req = Pending" and "now_unix_millis clk < expires_at req"
      and "r = Inr (grant_sign (gc_sha256 cr) (gc_hex_encode cr) (gc_sign cr sk)
        (to_binding (aq_proposal req) nonce (sat_add (now_unix_millis clk) ttl)))"
      and "flow' = flow\<lparr>fl_store := (fl_store flow)\<lparr>st_requests :=
        bt_insert rid (req\<lparr>aq_status := Approved\<rparr>) (st_requests (fl_store flow))\<rparr>\<rparr>"
proof (cases "pending_for_approval rid clk (fl_store flow)")
  case (Inl e)
  with run that(1) show thesis by (auto simp: flow_approve_def)
next
  case (Inr req)
  then have req: "bt_get (st_requests (fl_store flow)) rid = Some req" "aq_status req = Pending"
    "now_unix_millis clk < expires_at req"
    by (auto simp: pending_for_approval_def Let_def request_is_expired_def split: option.splits if_splits)
  show thesis
  proof (cases "authorize (principal_approver who) (aq_requester_id req)")
    case (Inl e)
    with run Inr that(1) show thesis by (auto simp: flow_approve_def Let_def)
  next
    case Inr': (Inr u)
    then have "who \<noteq> aq_requester_id req"
      by (auto simp: authorize_def principal_approver_def split: if_splits)
    with run Inr Inr' req that(2) [of req] show thesis
      by (auto simp: flow_approve_def Let_def store_resolve_def)
  qed
qed

lemma approve_keeps:
  assumes inv: "daemon_inv cr from_bytes vk evs svc"
    and key: "parse_signing_key cr from_bytes key = Some sk"
    and run: "service_approve cr env rid approver sk nonce ttl clk (svc, s) = (r, svc', s')"
  shows "daemon_inv cr from_bytes vk (evs @ [(Approve rid approver key nonce ttl, clk, to_response ApproveResult r, tr)]) svc'
    \<and> sv_apply_nonces svc' = sv_apply_nonces svc"
proof (cases "gc_verifying_key cr sk = vk \<and> bt_get (sv_request_to_proposal svc) rid \<noteq> None")
  case False
  with run inv have "svc' = svc" by (auto simp: service_approve_def daemon_inv_def split: if_splits option.splits)
  with daemon_inv_snoc [OF inv] show ?thesis by simp
next
  case True
  then obtain pid where vk: "gc_verifying_key cr sk = vk" and pid: "bt_get (sv_request_to_proposal svc) rid = Some pid" by blast
  let ?evs = "evs @ [(Approve rid approver key nonce ttl, clk, to_response ApproveResult r, tr)]"
  note inv' = daemon_inv_snoc [OF inv, of "(Approve rid approver key nonce ttl, clk, to_response ApproveResult r, tr)"]
  obtain q flow' s1 where flow: "flow_approve cr (se_flow_env env) rid (principal_approver approver) sk nonce ttl clk
      (sv_flow svc, s) = (q, flow', s1)" by (metis surj_pair)
  have vk': "sv_verifying_key svc = vk" using inv by (simp add: daemon_inv_def)
  from flow show ?thesis
  proof (cases rule: flow_approve_cases)
    case (failed e)
    with run vk vk' pid flow have "svc' = svc\<lparr>sv_flow := sv_flow svc\<rparr>" by (auto simp: service_approve_def)
    with inv' show ?thesis by simp
  next
    case (signed req)
    let ?b = "to_binding (aq_proposal req) nonce (sat_add (now_unix_millis clk) ttl)"
    let ?g = "grant_sign (gc_sha256 cr) (gc_hex_encode cr) (gc_sign cr sk) ?b"
    from run vk vk' pid flow signed(5) have r: "r = Inr \<lparr>apr_request_id = rid, apr_nonce = nonce\<rparr>"
      and svc': "svc' = svc\<lparr>sv_flow := flow', sv_grants := bt_insert pid ?g (sv_grants svc)\<rparr>"
      by (auto simp: service_approve_def)
    from inv' pid obtain req' where "bt_get (requests svc) rid = Some req'" "elevated ?evs rid pid (rp_cap (aq_proposal req'))"
      unfolding daemon_inv_def by blast
    with signed(1) have req: "elevated ?evs rid pid (rp_cap (aq_proposal req))" by simp
    from inv signed(1) have who: "aq_requester_id req = rp_session_id (aq_proposal req)" by (simp add: daemon_inv_def)
    have "approved cr from_bytes vk ?evs rid approver nonce (sat_add (now_unix_millis clk) ttl)"
      by (rule run_factsI(3) [OF _ key vk, where ares = "projr r" and tr = tr]) (simp add: r to_response_def)
    with req who signed(2) have "grant_ok cr from_bytes vk ?evs pid ?b"
      unfolding grant_ok_def by (auto simp: to_binding_def)
    moreover have "gt_binding ?g = ?b" by (simp add: grant_sign_def)
    moreover have wf: "bt_wf (requests svc)" using inv by (simp add: daemon_inv_def maps_wf_def)
    moreover have "\<exists>req'. bt_get (bt_insert rid (req\<lparr>aq_status := Approved\<rparr>) (requests svc)) rid' = Some req'
        \<and> elevated ?evs rid' pid' (rp_cap (aq_proposal req'))" if "bt_get (sv_request_to_proposal svc) rid' = Some pid'" for rid' pid'
    proof -
      from inv' that obtain req' where "bt_get (requests svc) rid' = Some req'" "elevated ?evs rid' pid' (rp_cap (aq_proposal req'))"
        unfolding daemon_inv_def by blast
      with signed(1) show ?thesis by (cases "rid' = rid") (auto simp: bt_get_insert [OF wf])
    qed
    ultimately show ?thesis
      using inv' signed(1) by (simp add: daemon_inv_def maps_wf_def svc' signed(6) bt_get_insert bt_wf_insert)
  qed
qed

section \<open>The apply\<close>

lemma granted_run_nonces:
  assumes "granted_run sha256 hex_encode hex_decode verify_strict structural_reason policy grant live kind rel br
      conn pause_point clk nonces s = (r, nonces', s', tr)"
  shows "ins_used nonces \<subseteq> ins_used nonces' \<and> ins_used nonces' \<subseteq> insert (gb_nonce (gt_binding grant)) (ins_used nonces)"
proof -
  obtain v n1 where v: "verify_for_apply sha256 hex_decode verify_strict in_memory_consume grant
      (live_binding grant live br) clk nonces = (v, n1)" by (metis prod.collapse)
  from assms v have "nonces' = nonces \<or> nonces' = n1"
    by (auto simp: granted_run_def guarded_apply_with_grant_def split: option.splits sum.splits prod.splits)
  moreover have "ins_used nonces \<subseteq> ins_used n1 \<and> ins_used n1 \<subseteq> insert (gb_nonce (gt_binding grant)) (ins_used nonces)"
    using mem_nonce.verify_cases [OF v] by (auto split: sum.splits)
  ultimately show ?thesis by auto
qed

lemma granted_run_commit:
  assumes run: "granted_run sha256 hex_encode hex_decode verify_strict structural_reason policy grant live kind rel br
      conn pause_point clk nonces s = (r, nonces', s', tr)"
    and commit: "CallCommit c \<in> set tr"
  shows "binding_hash sha256 (live_binding grant live br) = binding_hash sha256 (gt_binding grant)"
    and "now_unix_millis clk < gb_expiry_unix_millis (gt_binding grant)"
    and "gb_nonce (gt_binding grant) \<notin> ins_used nonces" and "gb_nonce (gt_binding grant) \<in> ins_used nonces'"
    and "\<exists>predicted fw deltas wal. CallDeltas (Inr deltas) \<in> set tr \<and> CallWal (Inr wal) \<in> set tr
        \<and> guards_hold kind rel predicted (gb_cap (gt_binding grant)) fw deltas wal"
proof -
  have "binding_hash sha256 (live_binding grant live br) = binding_hash sha256 (gt_binding grant)
    \<and> now_unix_millis clk < gb_expiry_unix_millis (gt_binding grant)
    \<and> gb_nonce (gt_binding grant) \<notin> ins_used nonces \<and> gb_nonce (gt_binding grant) \<in> ins_used nonces'
    \<and> (\<exists>predicted fw deltas wal. CallDeltas (Inr deltas) \<in> set tr \<and> CallWal (Inr wal) \<in> set tr
        \<and> guards_hold kind rel predicted (gb_cap (gt_binding grant)) fw deltas wal)"
    using run
  proof (cases rule: granted_run_cases)
    case (stopped pk e)
    with commit show ?thesis by simp
  next
    case (applied pk q s1 calls)
    have "\<exists>predicted fw deltas wal. CallDeltas (Inr deltas) \<in> set calls \<and> CallWal (Inr wal) \<in> set calls
        \<and> guards_hold kind rel predicted (gb_cap (gt_binding grant)) fw deltas wal"
      using apply_run_protocolD [OF applied(4)] commit applied(1) by cases (auto elim!: fence_calls.cases)
    with mem_nonce.verify_cases [OF applied(3)] applied(1) show ?thesis by auto
  qed
  then show "binding_hash sha256 (live_binding grant live br) = binding_hash sha256 (gt_binding grant)"
    "now_unix_millis clk < gb_expiry_unix_millis (gt_binding grant)"
    "gb_nonce (gt_binding grant) \<notin> ins_used nonces" "gb_nonce (gt_binding grant) \<in> ins_used nonces'"
    "\<exists>predicted fw deltas wal. CallDeltas (Inr deltas) \<in> set tr \<and> CallWal (Inr wal) \<in> set tr
        \<and> guards_hold kind rel predicted (gb_cap (gt_binding grant)) fw deltas wal" by auto
qed

text \<open>An apply touches the connection only through a granted run on the stored record and grant.\<close>

lemma apply_runs:
  assumes ok: "live_record pid clk svc = Some rec" "pq_dry_run rec = Some dry" "bt_get (sv_grants svc) pid = Some grant"
      "rows = ds_total_rows dry" "token = None \<or> token = Some (ds_confirm_token dry)"
    and g: "granted_run (gc_sha256 cr) (gc_hex_encode cr) (gc_hex_decode cr) (gc_verify_strict cr (sv_verifying_key svc))
      (se_structural env) (sv_policy svc) grant (live_of pid rec) (pq_kind rec) (pq_relation rec) (ds_blast_radius dry)
      conn pp clk (sv_apply_nonces svc) d = (q, nonces', d1, tr1)"
    and run: "apply_returning_inverse cr env in_memory_consume pid rows token (traced conn) (traced_pause pp) clk
      (svc, s, d, []) = (r, svc', s', d', tr)"
  shows "d' = d1 \<and> tr = tr1 \<and> (svc' = svc\<lparr>sv_apply_nonces := nonces'\<rparr>
        \<or> svc' = svc\<lparr>sv_apply_nonces := nonces', sv_proposals := bt_remove pid (sv_proposals svc),
            sv_grants := bt_remove pid (sv_grants svc)\<rparr>)"
  using run ok g
  by (cases q) (auto simp: apply_returning_inverse_def granted_run_def Let_def split: prod.splits sum.splits)

lemma apply_cases:
  assumes run: "apply_returning_inverse cr env in_memory_consume pid rows token (traced conn) (traced_pause pp) clk
      (svc, s, d, []) = (r, svc', s', d', tr)"
  obtains (refused) "tr = []" and "svc' = svc"
  | (ran) rec dry grant q nonces' where "live_record pid clk svc = Some rec" and "pq_dry_run rec = Some dry"
      and "bt_get (sv_grants svc) pid = Some grant"
      and "granted_run (gc_sha256 cr) (gc_hex_encode cr) (gc_hex_decode cr) (gc_verify_strict cr (sv_verifying_key svc))
        (se_structural env) (sv_policy svc) grant (live_of pid rec) (pq_kind rec) (pq_relation rec) (ds_blast_radius dry)
        conn pp clk (sv_apply_nonces svc) d = (q, nonces', d', tr)"
      and "svc' = svc\<lparr>sv_apply_nonces := nonces'\<rparr>
        \<or> svc' = svc\<lparr>sv_apply_nonces := nonces', sv_proposals := bt_remove pid (sv_proposals svc),
            sv_grants := bt_remove pid (sv_grants svc)\<rparr>"
proof (cases "\<exists>rec dry grant. live_record pid clk svc = Some rec \<and> pq_dry_run rec = Some dry
    \<and> bt_get (sv_grants svc) pid = Some grant \<and> rows = ds_total_rows dry
    \<and> (token = None \<or> token = Some (ds_confirm_token dry))")
  case False
  with run have "tr = [] \<and> svc' = svc"
    by (auto simp: apply_returning_inverse_def split: option.splits if_splits)
  with refused show thesis by blast
next
  case True
  then obtain rec dry grant where ok: "live_record pid clk svc = Some rec" "pq_dry_run rec = Some dry"
    "bt_get (sv_grants svc) pid = Some grant" "rows = ds_total_rows dry" "token = None \<or> token = Some (ds_confirm_token dry)"
    by blast
  obtain q nonces' d1 tr1 where g: "granted_run (gc_sha256 cr) (gc_hex_encode cr) (gc_hex_decode cr)
      (gc_verify_strict cr (sv_verifying_key svc)) (se_structural env) (sv_policy svc) grant (live_of pid rec) (pq_kind rec)
      (pq_relation rec) (ds_blast_radius dry) conn pp clk (sv_apply_nonces svc) d = (q, nonces', d1, tr1)"
    by (metis surj_pair)
  from apply_runs [OF ok g run] ran [OF ok(1-3)] g show thesis by blast
qed

lemma bt_get_remove: "bt_get (bt_remove k m) j = (if j = k then None else bt_get m j)"
  unfolding bt_remove_def by (induction m) auto

lemma bt_wf_remove: "bt_wf m \<Longrightarrow> bt_wf (bt_remove k m)"
  unfolding bt_remove_def bt_wf_def by (induction m) (auto simp: image_iff)

lemma apply_keeps:
  assumes inv: "daemon_inv cr from_bytes vk evs svc"
    and run: "apply_returning_inverse cr env in_memory_consume pid rows token (traced conn) (traced_pause pp) clk
      (svc, s, d, []) = (r, svc', s', d', tr)"
  shows "daemon_inv cr from_bytes vk (evs @ [ev]) svc'"
  using run
proof (cases rule: apply_cases)
  case refused
  with daemon_inv_snoc [OF inv] show ?thesis by simp
next
  case (ran rec dry grant q nonces')
  with daemon_inv_snoc [OF inv, of ev] show ?thesis
    by (auto simp: daemon_inv_def maps_wf_def bt_get_remove bt_wf_remove split: if_splits)
qed

section \<open>What a run shows\<close>

text \<open>The binding the daemon makes from a stored proposal and the terms of a grant.\<close>

definition stored_binding :: "string \<Rightarrow> string \<Rightarrow> string \<Rightarrow> string \<Rightarrow> string \<Rightarrow> grant_binding \<Rightarrow> grant_binding" where
  "stored_binding sql role session_id pid lsn b =
     \<lparr>gb_statement_text = sql, gb_normalized_params = [], gb_role = role, gb_session_id = session_id,
      gb_proposal_id = pid, gb_dry_run_lsn = lsn, gb_cap = gb_cap b, gb_nonce = gb_nonce b,
      gb_expiry_unix_millis = gb_expiry_unix_millis b\<rparr>"

lemma live_binding_stored:
  "live_binding grant (live_of pid rec) br
     = stored_binding (pr_statement (pq_proposal rec)) (pq_role rec) (pq_session_id rec) pid (br_clone_lsn br) (gt_binding grant)"
  by (simp add: live_binding_def live_of_def stored_binding_def)

text \<open>The calls a granted run makes on a connection that was made for a statement.\<close>

definition ran_for ::
  "('k, 'sk) grant_crypto \<Rightarrow> ('v, 'r, 'h, 's) service_env \<Rightarrow> (string \<times> string \<times> 'c) apply_conn \<Rightarrow> string \<Rightarrow> grant_binding \<Rightarrow> clock
    \<Rightarrow> conn_call list \<Rightarrow> bool" where
  "ran_for cr env conn sql b clk tr =
     (\<exists>vk policy grant live kind rel br nonces c q nonces' d.
        granted_run (gc_sha256 cr) (gc_hex_encode cr) (gc_hex_decode cr) (gc_verify_strict cr vk) (se_structural env) policy
          grant live kind rel br conn (\<lambda>_ d. d) clk nonces (sql, extract_where env sql, c) = (q, nonces', d, tr)
        \<and> lr_statement_text live = sql \<and> gt_binding grant = b)"

definition commit_backed ::
  "('k, 'sk) grant_crypto \<Rightarrow> (bytes \<Rightarrow> 'sk) \<Rightarrow> ('v, 'r, 'h, 's) service_env \<Rightarrow> (string \<times> string \<times> 'c) apply_conn \<Rightarrow> 'k
    \<Rightarrow> ('v, 'r) daemon_event list \<Rightarrow> ('v, 'r) daemon_event \<Rightarrow> bool" where
  "commit_backed cr from_bytes env conn vk before ev =
     (case ev of (call, clk, _, tr) \<Rightarrow>
       \<exists>pid rows token sql role session_id clk0 lsn b.
         call = Apply pid rows token \<and> proposed before pid sql role session_id clk0
         \<and> sat_sub (monotonic_millis clk) (monotonic_millis clk0) < DEFAULT_TTL_MILLIS
         \<and> grant_ok cr from_bytes vk before pid b \<and> now_unix_millis clk < gb_expiry_unix_millis b
         \<and> binding_hash (gc_sha256 cr) (stored_binding sql role session_id pid lsn b) = binding_hash (gc_sha256 cr) b
         \<and> ran_for cr env conn sql b clk tr
         \<and> (\<exists>kind rel predicted fw deltas wal. CallDeltas (Inr deltas) \<in> set tr \<and> CallWal (Inr wal) \<in> set tr
              \<and> guards_hold kind rel predicted (gb_cap b) fw deltas wal))"

lemma apply_commit_backed:
  assumes inv: "daemon_inv cr from_bytes vk evs svc"
    and sql: "apply_sql_for env pid clk svc = Some (sql, whr)"
    and run: "apply_returning_inverse cr env in_memory_consume pid rows token (traced conn) (traced_pause (\<lambda>_ d. d)) clk
      (svc, s, (sql, whr, c), []) = (r, svc', s', d', tr)"
    and commit: "CallCommit x \<in> set tr"
  shows "commit_backed cr from_bytes env conn vk evs (Apply pid rows token, clk, a, tr)"
  using run
proof (cases rule: apply_cases)
  case refused
  with commit show ?thesis by simp
next
  case (ran rec dry grant q nonces')
  let ?b = "gt_binding grant"
  from sql ran(1) have st: "sql = pr_statement (pq_proposal rec)" "whr = extract_where env sql"
    by (auto simp: apply_sql_for_def Let_def)
  from inv live_record_stored [OF ran(1)] have rec: "record_ok evs pid rec" unfolding daemon_inv_def by blast
  from inv ran(3) have grant: "grant_ok cr from_bytes vk evs pid ?b" unfolding daemon_inv_def by blast
  from ran(1) have fresh: "\<not> proposal_is_expired (pq_proposal rec) clk"
    by (auto simp: live_record_def split: option.splits if_splits)
  note c = granted_run_commit [OF ran(4) commit]
  have "ran_for cr env conn sql ?b clk tr"
    unfolding ran_for_def using ran(4) st by (fastforce simp: live_of_def)
  moreover from rec obtain clk0 where "proposed evs pid sql (pq_role rec) (pq_session_id rec) clk0"
      "sat_sub (monotonic_millis clk) (monotonic_millis clk0) < DEFAULT_TTL_MILLIS"
    using fresh by (auto simp: record_ok_def st(1) proposal_is_expired_def Let_def not_le)
  moreover note grant c(2) c(1) [unfolded live_binding_stored, folded st(1)] c(5)
  ultimately show ?thesis unfolding commit_backed_def by blast
qed

lemma to_response_Inr: "to_response f r = Inr x \<longleftrightarrow> (\<exists>y. r = Inr y \<and> x = f y)"
  by (auto simp: to_response_def split: sum.splits)

lemma apply_step:
  assumes "dispatch cr from_bytes env load rh (traced conn) (traced_pause (\<lambda>_ d. d))
      (\<lambda>forward_sql where_sql (c, tr). ((forward_sql, where_sql, c), tr)) (\<lambda>((_, _, c), tr). (c, tr))
      (Apply pid rows token) clk (svc, s, h, c, []) = (r, svc', s', h', c', tr)"
  obtains (none) "svc' = svc" and "tr = []"
  | (some) sql whr q s1 d where "apply_sql_for env pid clk svc = Some (sql, whr)"
      and "apply_returning_inverse cr env in_memory_consume pid rows token (traced conn) (traced_pause (\<lambda>_ d. d)) clk
        (svc, s, (sql, whr, c), []) = (q, svc', s1, d, tr)"
proof (cases "apply_sql_for env pid clk svc")
  case None
  with assms none show thesis by simp
next
  case (Some p)
  obtain sql whr where p: "p = (sql, whr)" by (cases p)
  obtain q svc1 s1 d tr1 where a: "apply_returning_inverse cr env in_memory_consume pid rows token (traced conn)
      (traced_pause (\<lambda>_ d. d)) clk (svc, s, (sql, whr, c), []) = (q, svc1, s1, d, tr1)" by (metis surj_pair)
  from assms Some p a have "svc1 = svc' \<and> tr1 = tr"
    by (cases q) (auto simp: service_apply_def split: prod.splits)
  with some Some p a show thesis by blast
qed

lemma dispatch_keeps:
  assumes inv: "daemon_inv cr from_bytes vk evs svc"
    and run: "traced_dispatch cr from_bytes env load rh conn call clk (svc, s, h, c, []) = (r, svc', s', h', c', tr)"
  shows "daemon_inv cr from_bytes vk (evs @ [(call, clk, r, tr)]) svc'
    \<and> (\<forall>x. CallCommit x \<in> set tr \<longrightarrow> commit_backed cr from_bytes env conn vk evs (call, clk, r, tr))
    \<and> ((\<forall>pid rows token. call \<noteq> Apply pid rows token) \<longrightarrow> tr = [] \<and> sv_apply_nonces svc' = sv_apply_nonces svc)"
proof (cases call)
  case (Propose sql ex role sess)
  with run obtain q where q: "service_propose env sql ex role sess clk (svc, s) = (q, svc', s')"
    "r = to_response ProposeResult q" "tr = []"
    by (auto simp: traced_dispatch_def split: prod.splits)
  from propose_keeps [OF inv q(1)] q Propose show ?thesis by simp
next
  case (DryRun pid)
  with run obtain q where q: "service_dry_run env pid rh clk (svc, s, h) = (q, svc', s', h')" "tr = []"
    by (auto simp: traced_dispatch_def split: prod.splits)
  from dry_run_keeps [OF inv q(1)] q show ?thesis by simp
next
  case (RequestElevation pid reason)
  with run obtain q where q: "service_request_elevation env pid reason clk (svc, s) = (q, svc', s')"
    "r = to_response RequestElevationResult q" "tr = []"
    by (auto simp: traced_dispatch_def split: prod.splits)
  from request_elevation_keeps [OF inv q(1)] q RequestElevation show ?thesis by simp
next
  case (Approve rid approver key nonce ttl)
  show ?thesis
  proof (cases "parse_signing_key cr from_bytes key")
    case None
    with run Approve have "svc' = svc" "tr = []" by (auto simp: traced_dispatch_def)
    with daemon_inv_snoc [OF inv] show ?thesis by simp
  next
    case (Some sk)
    with run Approve obtain q where q: "service_approve cr env rid approver sk nonce ttl clk (svc, s) = (q, svc', s')"
      "r = to_response ApproveResult q" "tr = []"
      by (auto simp: traced_dispatch_def split: prod.splits)
    from approve_keeps [OF inv Some q(1)] q Approve show ?thesis by simp
  qed
next
  case (Apply pid rows token)
  from run [unfolded Apply traced_dispatch_def] show ?thesis
  proof (cases rule: apply_step)
    case none
    with daemon_inv_snoc [OF inv] show ?thesis by simp
  next
    case (some sql whr q s1 d)
    with apply_keeps [OF inv some(2)] apply_commit_backed [OF inv some] Apply show ?thesis by auto
  qed
next
  case (GetAudit limit)
  with run have "svc' = svc" "tr = []" by (auto simp: traced_dispatch_def Let_def)
  with daemon_inv_snoc [OF inv] show ?thesis by simp
qed

lemma daemon_run_inv: "daemon_run cr from_bytes env load rh conn vk evs svc \<Longrightarrow> daemon_inv cr from_bytes vk evs svc"
proof (induction rule: daemon_run.induct)
  case (call evs svc ca clk s h c r svc' s' h' c' tr)
  from dispatch_keeps [OF call.IH call.hyps(2)] show ?case by blast
qed (rule daemon_inv_new)

lemma daemon_run_backed:
  "daemon_run cr from_bytes env load rh conn vk evs svc \<Longrightarrow> evs = before @ ev # after \<Longrightarrow> committed ev \<Longrightarrow>
     commit_backed cr from_bytes env conn vk before ev"
proof (induction arbitrary: before after rule: daemon_run.induct)
  case (start flow_nonces policy seq)
  then show ?case by simp
next
  case (call evs svc ca clk s h c r svc' s' h' c' tr)
  from call.prems(1) consider after' where "evs = before @ ev # after'" | "before = evs" "ev = (ca, clk, r, tr)"
    by (cases after rule: rev_cases) auto
  then show ?case
  proof cases
    case 1
    with call.IH call.prems(2) show ?thesis by blast
  next
    case 2
    with dispatch_keeps [OF daemon_run_inv [OF call.hyps(1)] call.hyps(2)] call.prems(2) show ?thesis
      by (auto simp: committed_iff)
  qed
qed


lemma dispatch_nonces:
  assumes inv: "daemon_inv cr from_bytes vk evs svc" and nonces: "nonces_ok evs svc"
    and run: "traced_dispatch cr from_bytes env load rh conn call clk (svc, s, h, c, []) = (r, svc', s', h', c', tr)"
  shows "nonces_ok (evs @ [(call, clk, r, tr)]) svc'"
proof (cases "\<exists>pid rows token. call = Apply pid rows token")
  case False
  with dispatch_keeps [OF inv run] have "tr = []" "sv_apply_nonces svc' = sv_apply_nonces svc" by blast+
  with nonces show ?thesis by (auto simp: nonces_ok_def committed_iff map_filter_def)
next
  case True
  then obtain pid rows token where call: "call = Apply pid rows token" by blast
  have app: "List.map_filter approval (evs @ [(call, clk, r, tr)]) = List.map_filter approval evs"
    by (simp add: map_filter_def approval_def call)
  from run [unfolded call traced_dispatch_def] show ?thesis
  proof (cases rule: apply_step)
    case none
    with nonces app show ?thesis by (simp add: nonces_ok_def committed_iff)
  next
    case (some sql whr q s1 d)
    from some(2) show ?thesis
    proof (cases rule: apply_cases)
      case refused
      with nonces app show ?thesis by (simp add: nonces_ok_def committed_iff)
    next
      case (ran rec dry grant q nonces')
      let ?used = "ins_used (sv_apply_nonces svc)" and ?n = "gb_nonce (gt_binding grant)"
      have used': "sv_apply_nonces svc' = nonces'" using ran(5) by auto
      note mono = granted_run_nonces [OF ran(4)]
      from inv ran(3) have "grant_ok cr from_bytes vk evs pid (gt_binding grant)" unfolding daemon_inv_def by blast
      then have n: "?n \<in> set (List.map_filter approval evs)"
        by (force simp: grant_ok_def approved_def map_filter_def approval_def)
      from nonces have fin: "finite ?used" by (auto simp: nonces_ok_def intro: finite_subset)
      have "length (filter committed [(call, clk, r, tr)]) + card ?used \<le> card (ins_used nonces')"
      proof (cases "\<exists>x. CallCommit x \<in> set tr")
        case True
        then obtain x where "CallCommit x \<in> set tr" ..
        from granted_run_commit(3,4) [OF ran(4) this] mono have "ins_used nonces' = insert ?n ?used" "?n \<notin> ?used" by blast+
        with fin show ?thesis by (simp add: committed_iff True)
      next
        case False
        with mono fin show ?thesis by (auto simp: committed_iff intro!: card_mono intro: finite_subset)
      qed
      with nonces n mono show ?thesis unfolding nonces_ok_def app used' by auto
    qed
  qed
qed

lemma daemon_run_nonces: "daemon_run cr from_bytes env load rh conn vk evs svc \<Longrightarrow> nonces_ok evs svc"
proof (induction rule: daemon_run.induct)
  case (start flow_nonces policy seq)
  show ?case by (simp add: nonces_ok_def service_new_def in_memory_new_def)
next
  case (call evs svc ca clk s h c r svc' s' h' c' tr)
  from dispatch_nonces [OF daemon_run_inv [OF call.hyps(1)] call.IH call.hyps(2)] show ?case .
qed

text \<open>
  C2: whatever calls agents and operators send to the daemon, in any order and with any world around
  it, a commit on the apply connection belongs to an apply call whose statement was proposed before,
  by the stored role and session, not longer ago than its time to live; the run was made on a
  connection for that statement; someone other than the session signed a grant with the configured
  key, for a request on that proposal that showed its cap, not expired; the hash of what was signed
  is the hash of what the daemon stored, so the two are equal unless SHA-256 collides on them; and
  the transaction's own measurements are within the guards under the signed cap.
\<close>

theorem daemon_commits_what_was_approved:
  assumes "daemon_run cr from_bytes env load rh conn vk evs svc"
    and "evs = before @ (call, clk, r, tr) # after" and "CallCommit x \<in> set tr"
  shows "\<exists>pid rows token sql role session_id clk0 rid approver lsn b.
    call = Apply pid rows token \<and> proposed before pid sql role session_id clk0
    \<and> sat_sub (monotonic_millis clk) (monotonic_millis clk0) < DEFAULT_TTL_MILLIS
    \<and> ran_for cr env conn sql b clk tr
    \<and> elevated before rid pid (gb_cap b)
    \<and> approved cr from_bytes vk before rid approver (gb_nonce b) (gb_expiry_unix_millis b)
    \<and> approver \<noteq> gb_session_id b \<and> now_unix_millis clk < gb_expiry_unix_millis b
    \<and> binding_hash (gc_sha256 cr) (stored_binding sql role session_id pid lsn b) = binding_hash (gc_sha256 cr) b
    \<and> (inj_on (gc_sha256 cr) {binding_preimage (stored_binding sql role session_id pid lsn b), binding_preimage b}
        \<and> binding_wf b \<and> binding_wf (stored_binding sql role session_id pid lsn b)
       \<longrightarrow> b = stored_binding sql role session_id pid lsn b)
    \<and> (\<exists>kind rel predicted fw deltas wal. CallDeltas (Inr deltas) \<in> set tr \<and> CallWal (Inr wal) \<in> set tr
        \<and> guards_hold kind rel predicted (gb_cap b) fw deltas wal)"
proof -
  have same: "b = b'" if "binding_hash sha256 b' = binding_hash sha256 b"
      "inj_on sha256 {binding_preimage b', binding_preimage b}" "binding_wf b" "binding_wf b'" for sha256 b b'
    using inj_onD [OF that(2), of "binding_preimage b'" "binding_preimage b"] that(1) binding_preimage_inj [OF that(4,3)]
    by (simp add: binding_hash_def)
  have "committed (call, clk, r, tr)" using assms(3) by (auto simp: committed_iff)
  from daemon_run_backed [OF assms(1,2) this] show ?thesis
    unfolding commit_backed_def grant_ok_def prod.case using same by blast
qed

text \<open>
  C9: over any run of the daemon there are at most as many apply calls that commit as there are
  different nonces that operators approved.
\<close>

theorem daemon_commits_at_most_approvals:
  assumes "daemon_run cr from_bytes env load rh conn vk evs svc"
  shows "length (filter committed evs) \<le> card (set (List.map_filter approval evs))"
proof -
  from daemon_run_nonces [OF assms] have "length (filter committed evs) \<le> card (ins_used (sv_apply_nonces svc))"
    and "ins_used (sv_apply_nonces svc) \<subseteq> set (List.map_filter approval evs)" by (simp_all add: nonces_ok_def)
  with card_mono [of "set (List.map_filter approval evs)"] show ?thesis by (meson List.finite_set order_trans)
qed

section \<open>A run that commits\<close>

definition sample_cr :: "(unit, unit) grant_crypto" where
  "sample_cr =
     \<lparr>gc_sha256 = id, gc_hex_encode = str_of_bytes, gc_hex_decode = (\<lambda>s. Some (as_bytes s)),
      gc_verify_strict = (\<lambda>_ msg sig. sig = sample_sign msg), gc_sign = (\<lambda>_. sample_sign), gc_verifying_key = (\<lambda>_. ())\<rparr>"

definition daemon_measurement :: measurement where
  "daemon_measurement =
     \<lparr>m_target = \<lparr>at_relation = ''public.t'', at_checksum = Some \<lparr>pkc_hex = ''aa''\<rparr>, at_rows = 1\<rparr>, m_cascades = [],
      m_full_effect = [], m_triggers_fired = [], m_locks = [], m_duration_ms = 5, m_wal_bytes = 10,
      m_constraint_violations = [], m_clone_lsn = ''0/1'', m_staleness_lsn_bytes = 0\<rparr>"

definition daemon_rehearsal :: "unit rehearsal" where
  "daemon_rehearsal = sample_rehearsal\<lparr>rh_rehearse := \<lambda>_ _ _. eret daemon_measurement\<rparr>"

definition daemon_conn :: "(string \<times> string \<times> unit) apply_conn" where
  "daemon_conn =
     \<lparr>ac_create_restore_point = (\<lambda>_. eret ''0/0''), ac_begin = (\<lambda>_. eret ()), ac_xact_wal_bytes = eret 15,
      ac_self_determined_pk_column = (\<lambda>_ s. (None, s)), ac_apply_forward = (\<lambda>_ _ _. eret (sample_forward [[PkInt 1]])),
      ac_xact_tuple_deltas = eret [\<lparr>rc_relation = ''public.t'', rc_ins = 0, rc_upd = 1, rc_del = 0\<rparr>],
      ac_commit = eret (), ac_rollback = eret ()\<rparr>"

definition daemon_env :: "(unit, unit, unit, unit) service_env" where
  "daemon_env =
     \<lparr>se_parse_sql = (\<lambda>_. Inr [SqlUpdate (TableName [''t''])]), se_volatile = (\<lambda>_ _ h. (None, h)),
      se_self_determined = (\<lambda>_ _ _ h. (None, h)), se_structural = (\<lambda>_ _. None), se_selection = (\<lambda>_. Some None),
      se_row_headroom = (\<lambda>n. Some 1), se_wal_headroom = (\<lambda>n. Some 100),
      se_flow_env = \<lparr>fe_append = (\<lambda>_ _. efail (SinkBackend [])), fe_send = (\<lambda>_ s. (Inr (), s)), fe_display = (\<lambda>_. [])\<rparr>,
      se_wording = (\<lambda>_. [])\<rparr>"

definition sample_key :: string where
  "sample_key = replicate 32 CHR ''a''"

type_synonym sample_daemon = "(unit, in_memory_nonce_store) service"

definition sample_dispatch ::
  "daemon_call \<Rightarrow> sample_daemon \<Rightarrow> ((unit, unit) rpc_error + daemon_result) \<times> sample_daemon \<times> unit \<times> unit \<times> unit \<times> conn_call list" where
  "sample_dispatch call svc =
     traced_dispatch sample_cr (\<lambda>_. ()) daemon_env (\<lambda>_. Inr []) daemon_rehearsal daemon_conn call (clock_starting_at 10)
       (svc, (), (), (), [])"

definition sample_start :: sample_daemon where
  "sample_start = service_new () in_memory_new in_memory_new sample_policy 0"

definition sample_pid :: string where
  "sample_pid = make_id ''U'' None 10 0"

definition sample_rid :: string where
  "sample_rid = ''req-'' @ hex08 1"

definition sample_proposal :: proposal where
  "sample_proposal =
     \<lparr>pr_id = sample_pid, pr_statement = ''U'', pr_expected_rows = None, pr_created_unix_millis = 10,
      pr_created_monotonic_millis = 10, pr_ttl_millis = DEFAULT_TTL_MILLIS\<rparr>"

definition sample_record :: "dry_run_state option \<Rightarrow> proposal_record" where
  "sample_record dry =
     \<lparr>pq_proposal = sample_proposal, pq_role = ''app'', pq_session_id = ''s1'', pq_kind = Update,
      pq_relation = ''public.t'', pq_dry_run = dry\<rparr>"

definition daemon_br :: blast_radius where
  "daemon_br = projr (assemble sample_proposal Update daemon_measurement :: (unit, unit) dry_run_error + blast_radius)"

definition sample_dry :: dry_run_state where
  "sample_dry = \<lparr>ds_blast_radius = daemon_br, ds_total_rows = 1, ds_confirm_token = ''ct-'' @ sample_pid @ ''-'' @ decimal (Suc 0)\<rparr>"

definition sample_request :: "request_status \<Rightarrow> approval_request" where
  "sample_request status =
     \<lparr>aq_id = sample_rid, aq_proposal = binding_proposal daemon_env (sample_record (Some sample_dry)) sample_dry,
      aq_requester_id = ''s1'', aq_created_unix_millis = 10, aq_ttl_millis = DEFAULT_REQUEST_TTL_MILLIS, aq_status = status\<rparr>"

definition daemon_grant :: grant_token where
  "daemon_grant = grant_sign id str_of_bytes sample_sign (to_binding (aq_proposal (sample_request Pending)) ''n'' 1010)"

text \<open>The service after the proposal, and after the request with its requests and grants.\<close>

definition sample_proposed :: "dry_run_state option \<Rightarrow> sample_daemon" where
  "sample_proposed dry = sample_start\<lparr>sv_seq := 1, sv_proposals := [(sample_pid, sample_record dry)]\<rparr>"

definition sample_requested :: "request_status \<Rightarrow> (string, grant_token) btree \<Rightarrow> sample_daemon" where
  "sample_requested status grants =
     (sample_proposed (Some sample_dry))\<lparr>sv_next_request := 1, sv_request_to_proposal := [(sample_rid, sample_pid)],
       sv_flow := (sv_flow sample_start)\<lparr>fl_store := \<lparr>st_requests = [(sample_rid, sample_request status)]\<rparr>\<rparr>,
       sv_grants := grants\<rparr>"

lemmas sample_service_defs =
  sample_start_def sample_proposed_def sample_requested_def sample_record_def service_new_def flow_new_def store_new_def

lemma sample_clock [simp]: "now_unix_millis (clock_starting_at 10) = 10" "monotonic_millis (clock_starting_at 10) = 10"
  by (simp_all add: clock_starting_at_def)

lemma sample_live [simp]: "\<not> proposal_is_expired sample_proposal (clock_starting_at 10)"
  by (simp add: proposal_is_expired_def sample_proposal_def sat_sub_def DEFAULT_TTL_MILLIS_def)

lemma sample_propose_call:
  "sample_dispatch (Propose ''U'' None ''app'' ''s1'') sample_start =
     (Inr (ProposeResult \<lparr>ppr_proposal_id = sample_pid, ppr_ttl_millis = DEFAULT_TTL_MILLIS\<rparr>), sample_proposed None, (), (), (), [])"
  by (simp add: sample_service_defs sample_dispatch_def traced_dispatch_def service_propose_def classify_def daemon_env_def
      propose_def propose_with_ttl_def to_response_def sample_pid_def sample_proposal_def)

lemma daemon_br_fields [simp]:
  "br_proposal_id daemon_br = sample_pid" "br_clone_lsn daemon_br = ''0/1''"
  "pk_set_checksum (br_affected daemon_br) = [(''public.t'', ''sha256:aa'')]" "total_rows (br_affected daemon_br) = 1"
  "br_reversible daemon_br" "br_triggers_fired daemon_br = []" "br_wal_bytes daemon_br = 10"
  "effect_by_table (br_affected daemon_br) = [(''public.t'', op_counts_new 0 1 0)]"
  "cascade_by_table (br_affected daemon_br) = []" "br_duration_ms daemon_br = 5" "br_inverse_kind daemon_br = PreimageUpsert"
  "br_predicate_volatile daemon_br = False" "by_table (br_affected daemon_br) = [(''public.t'', 1)]"
  by (simp_all add: daemon_br_def assemble_def daemon_measurement_def sample_proposal_def as_prefixed_def assemble_effect_def
      inverse_for_update_def)

lemma sample_dry_run:
  "dry_run (se_parse_sql daemon_env) (se_volatile daemon_env) (se_self_determined daemon_env) sample_proposal daemon_rehearsal
     (clock_starting_at 10) () = (Inr daemon_br, ())"
  using sample_live by (simp add: dry_run_def daemon_env_def classify_def daemon_rehearsal_def sample_rehearsal_def daemon_br_def
      assemble_def daemon_measurement_def sample_proposal_def)

lemma sample_dry_run_call:
  "\<exists>r. sample_dispatch (DryRun sample_pid) (sample_proposed None) = (r, sample_proposed (Some sample_dry), (), (), (), [])"
  using sample_dry_run by (simp add: sample_dispatch_def traced_dispatch_def service_dry_run_def live_record_def sample_record_def
      sample_proposed_def sample_dry_def Let_def)

lemma sample_request_call:
  "\<exists>r. sample_dispatch (RequestElevation sample_pid []) (sample_proposed (Some sample_dry))
     = (r, sample_requested Pending [], (), (), (), [])"
  by (simp add: sample_dispatch_def traced_dispatch_def service_request_elevation_def live_record_def Let_def sample_service_defs
      sample_dry_def operation_for_def sample_request_def sample_rid_def flow_request_elevation_def gate_for_elevation_def
      store_request_elevation_def store_get_def bt_contains_def daemon_env_def audit_step_def split: prod.splits)

lemma sample_key_plain: "trim sample_key = sample_key"
proof -
  have white: "\<not> chunk_white [CHR ''a'']" by (simp add: chunk_white_def chars_def as_bytes_def is_whitespace_def)
  have chunks: "utf8_chunks (replicate n CHR ''a'') = replicate n [CHR ''a'']" for n
    using utf8_chunks_ascii [of "replicate n CHR ''a''"] by simp
  have join: "concat (replicate n [x]) = replicate n x" for n and x :: char by (induction n) auto
  from white show ?thesis by (simp add: trim_def trim_start_def trim_end_def sample_key_def chunks join)
qed

lemma sample_approve_call:
  "\<exists>r. sample_dispatch (Approve sample_rid ''ann'' sample_key ''n'' 1000) (sample_requested Pending [])
     = (r, sample_requested Approved [(sample_pid, daemon_grant)], (), (), (), [])"
  by (simp add: sample_dispatch_def traced_dispatch_def parse_signing_key_def sample_cr_def daemon_grant_def service_approve_def
      sample_service_defs flow_approve_def pending_for_approval_def request_is_expired_def expires_at_def sample_request_def
      authorize_def can_approve_def principal_approver_def Let_def store_resolve_def sat_add_def DEFAULT_REQUEST_TTL_MILLIS_def
      daemon_env_def sample_key_plain audit_step_def) (simp add: sample_key_def)

lemma daemon_grant_fields:
  "gt_binding daemon_grant = to_binding (aq_proposal (sample_request Pending)) ''n'' 1010"
  "gt_signature_hex daemon_grant = str_of_bytes (replicate 64 7)"
  "gb_cap (gt_binding daemon_grant) = \<lparr>max_rows = 2, max_wal_bytes = 65536\<rparr>"
  "live_binding daemon_grant (live_of sample_pid (sample_record (Some sample_dry))) daemon_br = gt_binding daemon_grant"
  by (simp_all add: daemon_grant_def grant_sign_def sample_sign_def to_binding_def sample_request_def binding_proposal_def Let_def
      sample_dry_def suggested_cap_def with_headroom_def daemon_env_def predicted_total_tuples_def op_counts_new_def
      op_counts_total_def sat_add_def DEFAULT_WAL_FLOOR_BYTES_def live_binding_def live_of_def sample_record_def sample_proposal_def)

lemma daemon_grant_verifies:
  "verify_for_apply id (\<lambda>s. Some (as_bytes s)) (\<lambda>msg sig. sig = sample_sign msg) in_memory_consume
     daemon_grant (gt_binding daemon_grant) (clock_starting_at 10) in_memory_new = (Inr (), \<lparr>ins_used = {''n''}\<rparr>)"
  by (simp add: verify_for_apply_def ebind_def verify_signature_def sample_sign_def in_memory_consume_def in_memory_new_def
      daemon_grant_fields(1,2)) (simp add: to_binding_def)

lemma daemon_grant_consistent:
  "grant_consistency daemon_grant (live_of sample_pid (sample_record (Some sample_dry))) ''public.t'' daemon_br = None"
  by (simp add: grant_consistency_def daemon_grant_fields(3) live_of_def bt_contains_def predicted_total_tuples_def
      op_counts_new_def op_counts_total_def sat_add_def)

lemma sample_apply_commits:
  "\<exists>q s tr. granted_run id str_of_bytes (\<lambda>s. Some (as_bytes s)) (\<lambda>msg sig. sig = sample_sign msg) (\<lambda>_ _. None :: unit option) sample_policy
      daemon_grant (live_of sample_pid (sample_record (Some sample_dry))) Update ''public.t'' daemon_br daemon_conn (\<lambda>_ d. d)
      (clock_starting_at 10) in_memory_new (''U'', ''true'', ()) = (q, \<lparr>ins_used = {''n''}\<rparr>, s, tr) \<and> CallCommit (Inr ()) \<in> set tr"
proof -
  have "lr_proposal_id (live_of sample_pid r) = sample_pid" for r by (simp add: live_of_def)
  with daemon_grant_consistent daemon_grant_verifies daemon_grant_fields(3,4) daemon_br_fields show ?thesis
    by (simp add: granted_run_def guarded_apply_with_grant_def daemon_conn_def) (simp add: sample_defs sat_add_def from_policy_def)
qed

lemma sample_apply_call:
  "\<exists>r svc' tr. sample_dispatch (Apply sample_pid 1 None) (sample_requested Approved [(sample_pid, daemon_grant)])
     = (r, svc', (), (), (), tr) \<and> CallCommit (Inr ()) \<in> set tr"
proof -
  let ?svc = "sample_requested Approved [(sample_pid, daemon_grant)]"
  have live: "live_record sample_pid (clock_starting_at 10) ?svc = Some (sample_record (Some sample_dry))"
    by (simp add: live_record_def sample_service_defs)
  then have sql: "apply_sql_for daemon_env sample_pid (clock_starting_at 10) ?svc = Some (''U'', ''true'')"
    by (simp add: apply_sql_for_def extract_where_def daemon_env_def sample_record_def sample_proposal_def)
  obtain q svc' s' d' tr where run: "apply_returning_inverse sample_cr daemon_env in_memory_consume sample_pid 1 None
      (traced daemon_conn) (traced_pause (\<lambda>_ d. d)) (clock_starting_at 10) (?svc, (), (''U'', ''true'', ()), [])
      = (q, svc', s', d', tr)" by (metis surj_pair)
  from sample_apply_commits obtain q1 s1 tr1 where g: "granted_run id str_of_bytes (\<lambda>s. Some (as_bytes s))
      (\<lambda>msg sig. sig = sample_sign msg) (\<lambda>_ _. None :: unit option) sample_policy daemon_grant (live_of sample_pid (sample_record (Some sample_dry)))
      Update ''public.t'' daemon_br daemon_conn (\<lambda>_ d. d) (clock_starting_at 10) in_memory_new (''U'', ''true'', ())
      = (q1, \<lparr>ins_used = {''n''}\<rparr>, s1, tr1)" and commit: "CallCommit (Inr ()) \<in> set tr1" by blast
  have "tr = tr1"
    using apply_runs [OF live _ _ _ _ _ run, of sample_dry daemon_grant q1 "\<lparr>ins_used = {''n''}\<rparr>" s1 tr1] g
    by (simp add: sample_service_defs sample_cr_def daemon_env_def sample_dry_def)
  with commit run sql show ?thesis
    by (cases q) (auto simp: sample_dispatch_def traced_dispatch_def service_apply_def split: prod.splits)
qed

abbreviation sample_daemon_run :: "(unit, unit) daemon_event list \<Rightarrow> sample_daemon \<Rightarrow> bool" where
  "sample_daemon_run \<equiv> daemon_run sample_cr (\<lambda>_. ()) daemon_env (\<lambda>_. Inr []) daemon_rehearsal daemon_conn ()"

lemma sample_call:
  "sample_daemon_run evs svc \<Longrightarrow> sample_dispatch call svc = (r, svc', s', h', c', tr) \<Longrightarrow>
     sample_daemon_run (evs @ [(call, clock_starting_at 10, r, tr)]) svc'"
  unfolding sample_dispatch_def by (rule daemon_run.call)

lemma sample_run_commits_once:
  obtains before r svc' tr where
    "sample_daemon_run (before @ [(Apply sample_pid 1 None, clock_starting_at 10, r, tr)]) svc'" and "CallCommit (Inr ()) \<in> set tr"
proof -
  have "sample_daemon_run [] sample_start" unfolding sample_start_def by (rule daemon_run.start)
  note run = sample_call [OF this sample_propose_call]
  from sample_dry_run_call obtain r2 where "sample_dispatch (DryRun sample_pid) (sample_proposed None)
      = (r2, sample_proposed (Some sample_dry), (), (), (), [])" ..
  note run = sample_call [OF run this]
  from sample_request_call obtain r3 where "sample_dispatch (RequestElevation sample_pid []) (sample_proposed (Some sample_dry))
     = (r3, sample_requested Pending [], (), (), (), [])" ..
  note run = sample_call [OF run this]
  from sample_approve_call obtain r4 where "sample_dispatch (Approve sample_rid ''ann'' sample_key ''n'' 1000)
      (sample_requested Pending []) = (r4, sample_requested Approved [(sample_pid, daemon_grant)], (), (), (), [])" ..
  note run = sample_call [OF run this]
  from sample_apply_call obtain r5 svc' tr where step: "sample_dispatch (Apply sample_pid 1 None)
      (sample_requested Approved [(sample_pid, daemon_grant)]) = (r5, svc', (), (), (), tr)" and "CallCommit (Inr ()) \<in> set tr" by blast
  with that sample_call [OF run step] show thesis by blast
qed

theorem daemon_commits_what_was_approved_witness:
  "\<exists>before tr sql role session_id clk0 rid approver b.
    CallCommit (Inr ()) \<in> set tr \<and> proposed (before :: (unit, unit) daemon_event list) sample_pid sql role session_id clk0
    \<and> ran_for sample_cr daemon_env daemon_conn sql b (clock_starting_at 10) tr \<and> elevated before rid sample_pid (gb_cap b)
    \<and> approved sample_cr (\<lambda>_. ()) () before rid approver (gb_nonce b) (gb_expiry_unix_millis b) \<and> approver \<noteq> gb_session_id b"
proof -
  obtain before r svc' tr where run: "sample_daemon_run (before @ [(Apply sample_pid 1 None, clock_starting_at 10, r, tr)]) svc'"
    and commit: "CallCommit (Inr ()) \<in> set tr" by (rule sample_run_commits_once)
  from daemon_commits_what_was_approved [OF run refl commit] commit show ?thesis by blast
qed

theorem daemon_commits_at_most_approvals_witness:
  "\<exists>evs svc. sample_daemon_run evs svc \<and> filter committed evs \<noteq> [] \<and> set (List.map_filter approval evs) \<noteq> {}"
proof -
  obtain before r svc' tr where run: "sample_daemon_run (before @ [(Apply sample_pid 1 None, clock_starting_at 10, r, tr)]) svc'"
      (is "sample_daemon_run ?evs _") and commit: "CallCommit (Inr ()) \<in> set tr" by (rule sample_run_commits_once)
  from commit have "filter committed ?evs \<noteq> []" by (auto simp: committed_iff)
  moreover from this daemon_commits_at_most_approvals [OF run] have "set (List.map_filter approval ?evs) \<noteq> {}"
    by (metis List.finite_set card_eq_0_iff le_zero_eq length_0_conv)
  ultimately show ?thesis using run by blast
qed

section \<open>What the log shows of an apply\<close>

text \<open>An entry for a stored proposal was written to the log.\<close>

definition entry_written ::
  "('v, 'r, 'h, 's) service_env \<Rightarrow> string \<Rightarrow> proposal_record \<Rightarrow> decision \<Rightarrow> string \<Rightarrow> clock \<Rightarrow> 's \<Rightarrow> 's \<Rightarrow> bool" where
  "entry_written env pid rec dec code clk s s' =
     (\<exists>e a. fe_append (se_flow_env env) e (now_unix_millis clk) s = (Inr a, s')
        \<and> ne_statement_text e = pr_statement (pq_proposal rec) \<and> ne_decision e = dec \<and> ne_reason_code e = code
        \<and> ne_principal e = \<lparr>ap_role = pq_role rec, ap_session_id = Some (pq_session_id rec), ap_principal = None\<rparr>
        \<and> ws_dry_run_id (ne_write_safety e) = Some pid)"

lemma audit_apply_written:
  "audit_apply env (live_of pid rec) dec code reason clk s = (Inr u, s') \<Longrightarrow> entry_written env pid rec dec code clk s s'"
  by (auto simp: audit_apply_def audit_decision_def live_of_def entry_written_def split: prod.splits sum.splits)

text \<open>
  C10: an apply never changes the database silently: when it answers with success, an entry that
  allows exactly the stored statement, role and session was written to the log; when it answers with
  an error, either neither the log nor the connection was touched, or an entry that blocks them with
  the code of the answer was written, or the code of the answer is that the log could not be written.
\<close>

theorem apply_answers_are_on_record:
  assumes "service_apply cr env consume pid rows token conn pause_point clk (svc, s, c) = (r, svc', s', c')"
  shows "case r of
      Inr res \<Rightarrow> \<exists>rec. live_record pid clk svc = Some rec
        \<and> entry_written env pid rec DecisionAllow ''apply_committed'' clk s s'
    | Inl e \<Rightarrow> s' = s \<and> c' = c \<and> svc' = svc
        \<or> (\<exists>rec. live_record pid clk svc = Some rec \<and> entry_written env pid rec DecisionBlock (bd_code (re_data e)) clk s s')
        \<or> bd_code (re_data e) = ''AUDIT_FAILED''"
proof -
  obtain q where inner: "apply_returning_inverse cr env consume pid rows token conn pause_point clk (svc, s, c) = (q, svc', s', c')"
    and r: "r = (case q of Inl e \<Rightarrow> Inl e | Inr p \<Rightarrow> Inr (fst p))"
    using assms by (auto simp: service_apply_def split: prod.splits sum.splits)
  note written = audit_apply_written [of env pid _ _ _ _ clk s]
  from inner r show ?thesis
    by (auto simp: apply_returning_inverse_def Let_def code_error_def split: option.splits if_splits prod.splits sum.splits
        dest!: written)
qed

text \<open>A daemon whose log is the in-memory sink, and the call that commits.\<close>

definition logging_hasher :: "intent_tiers hasher" where
  "logging_hasher = \<lparr>hs_canonical = (\<lambda>_. []), hs_sha256 = id, hs_hex_encode = str_of_bytes\<rparr>"

definition logging_env :: "(unit, unit, unit, intent_tiers in_memory_sink) service_env" where
  "logging_env =
     \<lparr>se_parse_sql = se_parse_sql daemon_env, se_volatile = se_volatile daemon_env,
      se_self_determined = se_self_determined daemon_env, se_structural = se_structural daemon_env,
      se_selection = se_selection daemon_env, se_row_headroom = se_row_headroom daemon_env, se_wal_headroom = se_wal_headroom daemon_env,
      se_flow_env = \<lparr>fe_append = in_memory_append logging_hasher, fe_send = (\<lambda>_ s. (Inr (), s)), fe_display = (\<lambda>_. [])\<rparr>,
      se_wording = se_wording daemon_env\<rparr>"

lemma sample_guarded_apply:
  "\<exists>a n c. guarded_apply_with_grant id str_of_bytes (\<lambda>s. Some (as_bytes s)) (\<lambda>msg sig. sig = sample_sign msg) (\<lambda>_ _. None :: unit option)
      in_memory_consume sample_policy daemon_grant (live_of sample_pid (sample_record (Some sample_dry))) Update ''public.t'' daemon_br
      daemon_conn (\<lambda>_ d. d) (clock_starting_at 10) (in_memory_new, ''U'', ''true'', ()) = (Inr a, n, c)"
proof -
  have "lr_proposal_id (live_of sample_pid r) = sample_pid" for r by (simp add: live_of_def)
  with daemon_grant_consistent daemon_grant_verifies daemon_grant_fields(3,4) daemon_br_fields show ?thesis
    by (simp add: guarded_apply_with_grant_def daemon_conn_def) (simp add: sample_defs sat_add_def from_policy_def)
qed

lemma sample_service_apply:
  "\<exists>res svc' s' c'. service_apply sample_cr logging_env in_memory_consume sample_pid 1 None daemon_conn (\<lambda>_ d. d) (clock_starting_at 10)
      (sample_requested Approved [(sample_pid, daemon_grant)], in_memory_sink_new, ''U'', ''true'', ()) = (Inr res, svc', s', c')"
proof -
  have "live_record sample_pid (clock_starting_at 10) (sample_requested Approved [(sample_pid, daemon_grant)]) = Some (sample_record (Some sample_dry))"
    by (simp add: live_record_def sample_service_defs)
  with sample_guarded_apply show ?thesis
    by (auto simp: service_apply_def apply_returning_inverse_def audit_apply_def audit_decision_def in_memory_append_def
        logging_env_def sample_service_defs sample_cr_def daemon_env_def sample_dry_def Let_def split: prod.splits)
qed

theorem apply_answers_are_on_record_witness:
  "\<exists>res svc' s' c'. service_apply sample_cr logging_env in_memory_consume sample_pid 1 None daemon_conn (\<lambda>_ d. d) (clock_starting_at 10)
      (sample_requested Approved [(sample_pid, daemon_grant)], in_memory_sink_new, ''U'', ''true'', ()) = (Inr res, svc', s', c')
    \<and> entry_written logging_env sample_pid (sample_record (Some sample_dry)) DecisionAllow ''apply_committed'' (clock_starting_at 10)
        in_memory_sink_new s'"
proof -
  let ?svc = "sample_requested Approved [(sample_pid, daemon_grant)]"
  have live: "live_record sample_pid (clock_starting_at 10) ?svc = Some (sample_record (Some sample_dry))"
    by (simp add: live_record_def sample_service_defs)
  with sample_service_apply show ?thesis by (fastforce dest: apply_answers_are_on_record)
qed

end
