(* ===== verification/Applyd_Line.thy ===== *)
theory Applyd_Line
  imports Applyd_Service
begin

text \<open>
  The lines of the apply daemon (\<^verbatim>\<open>crates/applyd/src/main.rs\<close>, \<^verbatim>\<open>protocol.rs\<close>): a line becomes a
  request, the request a call of one method, the call an answer, and a connection is served line by
  line. The JSON codec is a parameter: reading a line as a request, and the parameters of a method
  as a call; a decoding that fails carries its message.
\<close>

section \<open>Requests and responses\<close>

definition JSONRPC_VERSION :: string where
  "JSONRPC_VERSION = ''2.0''"

definition INVALID_REQUEST_CODE :: int where
  "INVALID_REQUEST_CODE = - 32600"

definition METHOD_NOT_FOUND_CODE :: int where
  "METHOD_NOT_FOUND_CODE = - 32601"

definition INVALID_PARAMS_CODE :: int where
  "INVALID_PARAMS_CODE = - 32602"

record 'j rpc_request =
  rq_jsonrpc :: string
  rq_id :: 'j
  rq_method :: string
  rq_params :: 'j

record ('j, 'v, 'r) rpc_response =
  rs_jsonrpc :: string
  rs_id :: 'j
  rs_result :: "daemon_result option"
  rs_error :: "('v, 'r) rpc_error option"

definition response_ok :: "'j \<Rightarrow> daemon_result \<Rightarrow> ('j, 'v, 'r) rpc_response" where
  "response_ok i result = \<lparr>rs_jsonrpc = JSONRPC_VERSION, rs_id = i, rs_result = Some result, rs_error = None\<rparr>"

definition response_err :: "'j \<Rightarrow> ('v, 'r) rpc_error \<Rightarrow> ('j, 'v, 'r) rpc_response" where
  "response_err i e = \<lparr>rs_jsonrpc = JSONRPC_VERSION, rs_id = i, rs_result = None, rs_error = Some e\<rparr>"

text \<open>The codec: \<open>js_null\<close> is the value of an absent id, and the decoders read the parameters of each method.\<close>

record 'j rpc_codec =
  js_null :: 'j
  js_request :: "string \<Rightarrow> string + 'j rpc_request"
  js_propose :: "'j \<Rightarrow> string + (string \<times> u64 option \<times> string \<times> string)"
  js_dry_run :: "'j \<Rightarrow> string + string"
  js_elevation :: "'j \<Rightarrow> string + (string \<times> string)"
  js_approve :: "'j \<Rightarrow> string + (string \<times> string \<times> string \<times> string \<times> u64)"
  js_apply :: "'j \<Rightarrow> string + (string \<times> u64 \<times> string option)"
  js_get_audit :: "'j \<Rightarrow> string + u64 option"

definition invalid_request :: "('v, 'r) service_message \<Rightarrow> string \<Rightarrow> ('v, 'r) rpc_error" where
  "invalid_request msg remedy =
     \<lparr>re_code = INVALID_REQUEST_CODE, re_message = msg,
      re_data = \<lparr>bd_code = ''INVALID_REQUEST'', bd_remedy = remedy, bd_retryable = False\<rparr>\<rparr>"

definition method_not_found :: "string \<Rightarrow> ('v, 'r) rpc_error" where
  "method_not_found name =
     \<lparr>re_code = METHOD_NOT_FOUND_CODE, re_message = MsgNoMethod name,
      re_data = \<lparr>bd_code = ''METHOD_NOT_FOUND'',
        bd_remedy = ''call propose/dry_run/request_elevation/approve/apply/get_audit'', bd_retryable = False\<rparr>\<rparr>"

definition invalid_params :: "string \<Rightarrow> ('v, 'r) rpc_error" where
  "invalid_params e =
     \<lparr>re_code = INVALID_PARAMS_CODE, re_message = MsgInvalidParams e,
      re_data = \<lparr>bd_code = ''INVALID_PARAMS'', bd_remedy = ''send the method'' @ [CHR 0x27] @ ''s required params object'', bd_retryable = False\<rparr>\<rparr>"

fun decode_call :: "'j rpc_codec \<Rightarrow> rpc_method \<Rightarrow> 'j \<Rightarrow> string + daemon_call" where
  "decode_call js MPropose p = rbind (js_propose js p) (\<lambda>(sql, expected, role, session_id). Inr (Propose sql expected role session_id))"
| "decode_call js MDryRun p = rbind (js_dry_run js p) (\<lambda>pid. Inr (DryRun pid))"
| "decode_call js MRequestElevation p = rbind (js_elevation js p) (\<lambda>(pid, reason). Inr (RequestElevation pid reason))"
| "decode_call js MApprove p =
     rbind (js_approve js p) (\<lambda>(rid, approver, key, nonce, ttl). Inr (Approve rid approver key nonce ttl))"
| "decode_call js MApply p = rbind (js_apply js p) (\<lambda>(pid, rows, token). Inr (Apply pid rows token))"
| "decode_call js MGetAudit p = rbind (js_get_audit js p) (\<lambda>limit. Inr (GetAudit limit))"

text \<open>One line. \<open>handle\<close> dispatches a decoded call on the daemon's state.\<close>

definition decode_line :: "'j rpc_codec \<Rightarrow> string \<Rightarrow> 'j \<times> (('v, 'r) rpc_error + daemon_call)" where
  "decode_line js line =
     (case js_request js line of
        Inl e \<Rightarrow> (js_null js, Inl (invalid_request (MsgMalformedLine e) ''send one JSON-RPC 2.0 object per line''))
      | Inr req \<Rightarrow>
          (rq_id req,
           if rq_jsonrpc req \<noteq> JSONRPC_VERSION then Inl (invalid_request (MsgVersion (rq_jsonrpc req)) ''set jsonrpc to \"2.0\"'')
           else case method_parse (rq_method req) of
             None \<Rightarrow> Inl (method_not_found (rq_method req))
           | Some m \<Rightarrow> (case decode_call js m (rq_params req) of Inl e \<Rightarrow> Inl (invalid_params e) | Inr call \<Rightarrow> Inr call)))"

definition dispatch_line ::
  "'j rpc_codec \<Rightarrow> (daemon_call \<Rightarrow> ('w, ('v, 'r) rpc_error, daemon_result) eff) \<Rightarrow> string \<Rightarrow> 'w \<Rightarrow> ('j, 'v, 'r) rpc_response \<times> 'w" where
  "dispatch_line js handle line w =
     (case decode_line js line of
        (i, Inl e) \<Rightarrow> (response_err i e, w)
      | (i, Inr call) \<Rightarrow>
          (case handle call w of
             (Inl e, w') \<Rightarrow> (response_err i e, w')
           | (Inr res, w') \<Rightarrow> (response_ok i res, w')))"

section \<open>A connection\<close>

text \<open>
  The lines a connection delivers, each of which may fail to be read. An answer is written before the
  next line is read; a blank line is not answered; an error ends the connection.
\<close>

fun serve_lines ::
  "'j rpc_codec \<Rightarrow> (daemon_call \<Rightarrow> ('w, ('v, 'r) rpc_error, daemon_result) eff) \<Rightarrow> (('j, 'v, 'r) rpc_response \<Rightarrow> ('o, 'io, unit) eff)
    \<Rightarrow> ('io + string) list \<Rightarrow> ('w \<times> 'o, 'io, unit) eff" where
  "serve_lines js handle write [] (w, out) = (Inr (), w, out)"
| "serve_lines js handle write (Inl e # ls) (w, out) = (Inl e, w, out)"
| "serve_lines js handle write (Inr line # ls) (w, out) =
     (if trim line = [] then serve_lines js handle write ls (w, out)
      else case dispatch_line js handle line w of (resp, w') \<Rightarrow>
        (case write resp out of
           (Inl e, out') \<Rightarrow> (Inl e, w', out')
         | (Inr _, out') \<Rightarrow> serve_lines js handle write ls (w', out')))"

section \<open>The protocol of a connection\<close>

text \<open>
  What a method name and its parameters ask for, as the protocol document lists the methods: nothing
  for another name, and the message of a decoding that failed.
\<close>

definition asked :: "'j rpc_codec \<Rightarrow> string \<Rightarrow> 'j \<Rightarrow> (string + daemon_call) option" where
  "asked js name p = map_of
     [(''propose'', map_sum id (\<lambda>(sql, expected, role, session_id). Propose sql expected role session_id) (js_propose js p)),
      (''dry_run'', map_sum id DryRun (js_dry_run js p)),
      (''request_elevation'', map_sum id (\<lambda>(pid, reason). RequestElevation pid reason) (js_elevation js p)),
      (''approve'', map_sum id (\<lambda>(rid, approver, key, nonce, ttl). Approve rid approver key nonce ttl) (js_approve js p)),
      (''apply'', map_sum id (\<lambda>(pid, rows, token). Apply pid rows token) (js_apply js p)),
      (''get_audit'', map_sum id GetAudit (js_get_audit js p))] name"

definition refusal :: "'j \<Rightarrow> int \<Rightarrow> ('j, 'v, 'r) rpc_response \<Rightarrow> bool" where
  "refusal i code resp = (\<exists>e. re_code e = code
     \<and> resp = \<lparr>rs_jsonrpc = ''2.0'', rs_id = i, rs_result = None, rs_error = Some e\<rparr>)"

text \<open>
  One line and its answer, as JSON-RPC has it: a line that is no request, or one of another version,
  an unknown method and parameters that do not decode are refused with their codes and change
  nothing; any other line is one call of the handler, answered with what the handler gave. Every
  answer carries the id of its request, and the null id when there is none.
\<close>

inductive answered ::
  "'j rpc_codec \<Rightarrow> (daemon_call \<Rightarrow> ('w, ('v, 'r) rpc_error, daemon_result) eff)
    \<Rightarrow> string \<Rightarrow> 'w \<Rightarrow> ('j, 'v, 'r) rpc_response \<Rightarrow> 'w \<Rightarrow> bool"
  for js handle where
  malformed: "js_request js line = Inl e \<Longrightarrow> refusal (js_null js) (- 32600) resp \<Longrightarrow> answered js handle line w resp w"
| version: "js_request js line = Inr req \<Longrightarrow> rq_jsonrpc req \<noteq> ''2.0'' \<Longrightarrow> refusal (rq_id req) (- 32600) resp \<Longrightarrow>
    answered js handle line w resp w"
| unknown: "js_request js line = Inr req \<Longrightarrow> rq_jsonrpc req = ''2.0'' \<Longrightarrow> asked js (rq_method req) (rq_params req) = None \<Longrightarrow>
    refusal (rq_id req) (- 32601) resp \<Longrightarrow> answered js handle line w resp w"
| params: "js_request js line = Inr req \<Longrightarrow> rq_jsonrpc req = ''2.0'' \<Longrightarrow> asked js (rq_method req) (rq_params req) = Some (Inl e) \<Longrightarrow>
    refusal (rq_id req) (- 32602) resp \<Longrightarrow> answered js handle line w resp w"
| failed: "js_request js line = Inr req \<Longrightarrow> rq_jsonrpc req = ''2.0'' \<Longrightarrow> asked js (rq_method req) (rq_params req) = Some (Inr call) \<Longrightarrow>
    handle call w = (Inl e, w') \<Longrightarrow>
    answered js handle line w \<lparr>rs_jsonrpc = ''2.0'', rs_id = rq_id req, rs_result = None, rs_error = Some e\<rparr> w'"
| completed: "js_request js line = Inr req \<Longrightarrow> rq_jsonrpc req = ''2.0'' \<Longrightarrow> asked js (rq_method req) (rq_params req) = Some (Inr call) \<Longrightarrow>
    handle call w = (Inr res, w') \<Longrightarrow>
    answered js handle line w \<lparr>rs_jsonrpc = ''2.0'', rs_id = rq_id req, rs_result = Some res, rs_error = None\<rparr> w'"

text \<open>The lines of a connection, their answers in order, and the state before and after.\<close>

inductive conversation ::
  "'j rpc_codec \<Rightarrow> (daemon_call \<Rightarrow> ('w, ('v, 'r) rpc_error, daemon_result) eff)
    \<Rightarrow> string list \<Rightarrow> 'w \<Rightarrow> ('j, 'v, 'r) rpc_response list \<Rightarrow> 'w \<Rightarrow> bool"
  for js handle where
  over: "conversation js handle [] w [] w"
| next_line: "answered js handle line w resp w1 \<Longrightarrow> conversation js handle ls w1 out w' \<Longrightarrow>
    conversation js handle (line # ls) w (resp # out) w'"

section \<open>Every line is answered\<close>

text \<open>The decoder finds the call that is asked for.\<close>

lemma asked_decode:
  "asked js name p = map_option (\<lambda>m. decode_call js m p) (method_parse name)"
  by (auto simp: asked_def method_parse_def rbind_def map_sum_def split: sum.splits)

lemma refusals:
  "refusal i (- 32600) (response_err i (invalid_request msg remedy))"
  "refusal i (- 32601) (response_err i (method_not_found name))"
  "refusal i (- 32602) (response_err i (invalid_params e))"
  by (simp_all add: refusal_def response_err_def JSONRPC_VERSION_def invalid_request_def method_not_found_def
      invalid_params_def INVALID_REQUEST_CODE_def METHOD_NOT_FOUND_CODE_def INVALID_PARAMS_CODE_def)

lemma dispatch_line_answered:
  "case dispatch_line js handle line w of (resp, w') \<Rightarrow> answered js handle line w resp w'"
proof (cases "js_request js line")
  case (Inl e)
  then show ?thesis by (simp add: dispatch_line_def decode_line_def answered.malformed refusals)
next
  case (Inr req)
  note version = answered.version [OF Inr] and unknown = answered.unknown [OF Inr] and params = answered.params [OF Inr]
    and failed = answered.failed [OF Inr] and completed = answered.completed [OF Inr]
  consider "rq_jsonrpc req \<noteq> ''2.0''" | "rq_jsonrpc req = ''2.0''" "method_parse (rq_method req) = None"
    | m e where "rq_jsonrpc req = ''2.0''" "method_parse (rq_method req) = Some m" "decode_call js m (rq_params req) = Inl e"
    | m call where "rq_jsonrpc req = ''2.0''" "method_parse (rq_method req) = Some m" "decode_call js m (rq_params req) = Inr call"
    by (metis option.exhaust sum.exhaust_sel)
  then show ?thesis
  proof cases
    case 1
    then show ?thesis by (simp add: dispatch_line_def decode_line_def Inr JSONRPC_VERSION_def version refusals)
  next
    case 2
    then show ?thesis
      by (simp add: dispatch_line_def decode_line_def Inr JSONRPC_VERSION_def unknown asked_decode refusals)
  next
    case (3 m e)
    then show ?thesis
      by (simp add: dispatch_line_def decode_line_def Inr JSONRPC_VERSION_def params asked_decode refusals)
  next
    case (4 m call)
    then have "asked js (rq_method req) (rq_params req) = Some (Inr call)" by (simp add: asked_decode)
    note ok = failed [OF 4(1) this] completed [OF 4(1) this]
    from 4 show ?thesis
      by (auto simp: dispatch_line_def decode_line_def Inr JSONRPC_VERSION_def response_ok_def response_err_def
          intro: ok split: prod.split sum.split)
  qed
qed

lemma serve_lines_answers:
  "case serve_lines js handle (\<lambda>resp out. (Inr (), out @ [resp])) (map Inr ls @ (case fail of None \<Rightarrow> [] | Some e \<Rightarrow> [Inl e]))
       (w, before) of (r, w', out) \<Rightarrow>
     r = (case fail of None \<Rightarrow> Inr () | Some e \<Rightarrow> Inl e)
     \<and> (\<exists>out'. out = before @ out' \<and> conversation js handle (filter (\<lambda>line. trim line \<noteq> []) ls) w out' w')"
proof (induction ls arbitrary: w before)
  case Nil
  show ?case by (cases fail) (auto intro: conversation.over)
next
  case (Cons line ls)
  show ?case
  proof (cases "trim line = []")
    case True
    with Cons.IH [where w = w and before = before] show ?thesis by simp
  next
    case False
    obtain resp w1 where line: "dispatch_line js handle line w = (resp, w1)" by (cases "dispatch_line js handle line w")
    with dispatch_line_answered [of js handle line w] have "answered js handle line w resp w1" by simp
    with Cons.IH [where w = w1 and before = "before @ [resp]"] False line show ?thesis
      by (fastforce intro: conversation.next_line split: prod.splits)
  qed
qed

text \<open>
  C14: over a connection that delivers any lines and then ends or fails, the lines that are not blank
  and the answers written are a conversation of the protocol: every such line is answered, in order,
  with the id of its own request (null if it is none) and version 2.0; a line that is no request of
  version 2.0, an unknown method and parameters that do not decode get the codes -32600, -32601 and
  -32602 and change nothing; every other line is handed to the handler as the call its method and
  parameters ask for, once, and answered with the handler's result or error; and the daemon ends in
  the state these calls left. The connection ends as its input did. The writes succeed.
\<close>

theorem daemon_answers_each_line:
  "case serve_lines js handle (\<lambda>resp out. (Inr (), out @ [resp])) (map Inr ls @ (case fail of None \<Rightarrow> [] | Some e \<Rightarrow> [Inl e]))
       (w, []) of (r, w', out) \<Rightarrow>
     r = (case fail of None \<Rightarrow> Inr () | Some e \<Rightarrow> Inl e)
     \<and> conversation js handle (filter (\<lambda>line. trim line \<noteq> []) ls) w out w'"
  using serve_lines_answers [where before = "[]" and js = js and handle = handle and ls = ls and w = w and fail = fail]
  by (auto split: prod.splits)

end
