(* ===== verification/Audit_Boot.thy ===== *)
theory Audit_Boot
  imports Audit_Anchor Policy_Intent
begin

text \<open>
  The secret store and the start of the audit log (\<^verbatim>\<open>crates/audit/src/secret.rs\<close>, \<^verbatim>\<open>boot.rs\<close>, and
  \<^verbatim>\<open>WormAnchor::open_file\<close> of \<^verbatim>\<open>anchor.rs\<close>): the key is fetched, the anchor file opened, the log loaded
  and verified against the durable anchor before the owner anchors it again. The state of a booting
  process is its handle, the database behind the sink, and the file system. The database, the file
  system and the JSON codec of an anchor line are parameters.
\<close>

section \<open>Secrets\<close>

definition AUDIT_SIGNING_KEY_ID :: string where
  "AUDIT_SIGNING_KEY_ID = ''audit/signing-key''"

datatype secret_error = SecretNotFound string | SecretAlreadyExists string | SecretRotateMissing string | SecretEmpty string

record local_secret_store = ls_secrets :: "(string, bytes) btree"

definition secret_store_new :: local_secret_store where
  "secret_store_new = \<lparr>ls_secrets = []\<rparr>"

definition secret_len :: "local_secret_store \<Rightarrow> nat" where
  "secret_len st = length (ls_secrets st)"

definition secret_is_empty :: "local_secret_store \<Rightarrow> bool" where
  "secret_is_empty st = (ls_secrets st = [])"

definition secret_get :: "local_secret_store \<Rightarrow> string \<Rightarrow> secret_error + bytes" where
  "secret_get st i = (case bt_get (ls_secrets st) i of None \<Rightarrow> Inl (SecretNotFound i) | Some v \<Rightarrow> Inr v)"

definition secret_put :: "string \<Rightarrow> bytes \<Rightarrow> local_secret_store \<Rightarrow> (secret_error + unit) \<times> local_secret_store" where
  "secret_put i v st =
     (if v = [] then (Inl (SecretEmpty i), st)
      else if bt_contains (ls_secrets st) i then (Inl (SecretAlreadyExists i), st)
      else (Inr (), st\<lparr>ls_secrets := bt_insert i v (ls_secrets st)\<rparr>))"

definition secret_rotate :: "string \<Rightarrow> bytes \<Rightarrow> local_secret_store \<Rightarrow> (secret_error + unit) \<times> local_secret_store" where
  "secret_rotate i v st =
     (if v = [] then (Inl (SecretEmpty i), st)
      else if \<not> bt_contains (ls_secrets st) i then (Inl (SecretRotateMissing i), st)
      else (Inr (), st\<lparr>ls_secrets := bt_insert i v (ls_secrets st)\<rparr>))"

definition secret_contains :: "local_secret_store \<Rightarrow> string \<Rightarrow> bool" where
  "secret_contains st i = is_ok (secret_get st i)"

section \<open>The role of a process\<close>

datatype anchor_role = Owner | Verify

text \<open>The error is the lowercased value that was not recognised.\<close>

definition role_parse :: "string option \<Rightarrow> anchor_role \<Rightarrow> string + anchor_role" where
  "role_parse value dflt =
     (case map_option (\<lambda>v. to_ascii_lowercase (trim v)) value of
        None \<Rightarrow> Inr dflt
      | Some v \<Rightarrow>
          if v = [] then Inr dflt
          else if v = ''owner'' then Inr Owner
          else if v = ''verify'' \<or> v = ''verifier'' \<or> v = ''verify-only'' then Inr Verify
          else Inl v)"

fun is_owner :: "anchor_role \<Rightarrow> bool" where
  "is_owner Owner = True"
| "is_owner Verify = False"

section \<open>The anchor file\<close>

datatype 'io worm_anchor_error = WormIo 'io | WormCorrupt string

text \<open>What opening a file gives: its lines, each of which may fail to be read, that there is none, or an error.\<close>

datatype 'io opened = Opened "('io + string) list" | NotThere | OpenFailed 'io

fun anchor_lines :: "(string \<Rightarrow> string + anchor_entry) \<Rightarrow> ('io + string) list \<Rightarrow> 'io worm_anchor_error + anchor_entry list" where
  "anchor_lines parse [] = Inr []"
| "anchor_lines parse (Inl e # ls) = Inl (WormIo e)"
| "anchor_lines parse (Inr line # ls) =
     (if trim line = [] then anchor_lines parse ls
      else case parse line of
        Inl e \<Rightarrow> Inl (WormCorrupt e)
      | Inr entry \<Rightarrow> rbind (anchor_lines parse ls) (\<lambda>es. Inr (entry # es)))"

text \<open>The file system: opening to read, creating in append mode, and the append of one rendered line.\<close>

record ('f, 'io) file_system =
  fs_open :: "string \<Rightarrow> 'f \<Rightarrow> 'io opened"
  fs_create :: "string \<Rightarrow> ('f, 'io, unit) eff"
  fs_append :: "string \<Rightarrow> string \<Rightarrow> ('f, 'io, unit) eff"

definition open_file ::
  "('f, 'io) file_system \<Rightarrow> (string \<Rightarrow> string + anchor_entry) \<Rightarrow> string \<Rightarrow> ('f, 'io worm_anchor_error, worm_anchor) eff" where
  "open_file fs parse path f =
     (case fs_open fs path f of
        Opened ls \<Rightarrow>
          (rbind (anchor_lines parse ls) (\<lambda>es. Inr \<lparr>wa_entries = es, wa_verifier = None, wa_file_path = Some path\<rparr>), f)
      | NotThere \<Rightarrow>
          (case fs_create fs path f of
             (Inl e, f') \<Rightarrow> (Inl (WormIo e), f')
           | (Inr _, f') \<Rightarrow> (Inr \<lparr>wa_entries = [], wa_verifier = None, wa_file_path = Some path\<rparr>, f'))
      | OpenFailed e \<Rightarrow> (Inl (WormIo e), f))"

definition append_entry ::
  "('f, 'io) file_system \<Rightarrow> (anchor_entry \<Rightarrow> string) \<Rightarrow> string \<Rightarrow> anchor_entry \<Rightarrow> ('f, 'io worm_anchor_error, unit) eff" where
  "append_entry fs render path entry f =
     (case fs_append fs path (render entry) f of (Inl e, f') \<Rightarrow> (Inl (WormIo e), f') | (Inr _, f') \<Rightarrow> (Inr (), f'))"

section \<open>The boot\<close>

datatype 'io boot_error =
    BootConnect string
  | BootKms "secret_error kms_error"
  | BootSink sink_error
  | BootWorm "'io worm_anchor_error"
  | ChainIntegrity chain_break
  | AnchorHeadMismatch string string u64
  | BootAnchor anchor_error

record audit_boot =
  ab_worm :: worm_anchor
  ab_anchorer :: anchorer
  ab_verifier :: local_kms

text \<open>The world of the boot: the hash functions, the sink, the file system and the codec of an anchor line.\<close>

record ('i, 's, 'f, 'io) boot_env =
  be_hasher :: "'i hasher"
  be_hmac :: "bytes \<Rightarrow> bytes \<Rightarrow> bytes"
  be_hex_encode :: "bytes \<Rightarrow> string"
  be_hex_decode :: "string \<Rightarrow> bytes option"
  be_connect :: "string \<Rightarrow> string + 's"
  be_load :: "('s, sink_error, 'i audit_record list) eff"
  be_files :: "('f, 'io) file_system"
  be_render :: "anchor_entry \<Rightarrow> string"
  be_parse :: "string \<Rightarrow> string + anchor_entry"

definition with_sink_and_worm :: "local_kms \<Rightarrow> u64 \<Rightarrow> worm_anchor \<Rightarrow> audit_boot" where
  "with_sink_and_worm signer interval_millis w =
     \<lparr>ab_worm = w, ab_anchorer = anchorer_new signer interval_millis, ab_verifier = signer\<rparr>"

definition with_sink :: "local_kms \<Rightarrow> u64 \<Rightarrow> audit_boot" where
  "with_sink signer interval_millis = with_sink_and_worm signer interval_millis worm_new"

definition boot_connect ::
  "('i, 's, 'f, 'io) boot_env \<Rightarrow> string \<Rightarrow> local_secret_store \<Rightarrow> u64 \<Rightarrow> 'io boot_error + audit_boot \<times> 's" where
  "boot_connect env writer_dsn store interval_millis =
     (case from_secret_store (secret_get store) AUDIT_SIGNING_KEY_ID of
        Inl e \<Rightarrow> Inl (BootKms e)
      | Inr signer \<Rightarrow>
          (case be_connect env writer_dsn of
             Inl e \<Rightarrow> Inl (BootConnect e)
           | Inr s \<Rightarrow> Inr (with_sink_and_worm signer interval_millis worm_new, s)))"

definition connect_with_anchor ::
  "('i, 's, 'f, 'io) boot_env \<Rightarrow> string \<Rightarrow> local_secret_store \<Rightarrow> u64 \<Rightarrow> string
    \<Rightarrow> ('f, 'io boot_error, audit_boot \<times> 's) eff" where
  "connect_with_anchor env writer_dsn store interval_millis anchor_path f =
     (case from_secret_store (secret_get store) AUDIT_SIGNING_KEY_ID of
        Inl e \<Rightarrow> (Inl (BootKms e), f)
      | Inr signer \<Rightarrow>
          (case open_file (be_files env) (be_parse env) anchor_path f of
             (Inl e, f') \<Rightarrow> (Inl (BootWorm e), f')
           | (Inr w, f') \<Rightarrow>
               (case be_connect env writer_dsn of
                  Inl e \<Rightarrow> (Inl (BootConnect e), f')
                | Inr s \<Rightarrow> (Inr (with_sink_and_worm signer interval_millis w, s), f'))))"

definition load_chain :: "('i, 's, 'f, 'io) boot_env \<Rightarrow> (audit_boot \<times> 's \<times> 'f, 'io boot_error, 'i audit_record list) eff" where
  "load_chain env = (\<lambda>(b, s, f).
     case be_load env s of (Inl e, s') \<Rightarrow> (Inl (BootSink e), b, s', f) | (Inr rs, s') \<Rightarrow> (Inr rs, b, s', f))"

definition boot_anchor ::
  "('i, 's, 'f, 'io) boot_env \<Rightarrow> 'i audit_record list \<Rightarrow> u64 \<Rightarrow> (audit_boot \<times> 's \<times> 'f, 'io boot_error, anchored option) eff" where
  "boot_anchor env records now = (\<lambda>(b, s, f).
     case maybe_anchor_records (be_hmac env) (be_hex_encode env) (append_entry (be_files env) (be_render env)) records now
         (ab_anchorer b, ab_worm b) f of
       (Inl e, f') \<Rightarrow> (Inl (BootWorm e), b, s, f')
     | (Inr (x, a, w), f') \<Rightarrow> (Inr x, b\<lparr>ab_anchorer := a, ab_worm := w\<rparr>, s, f'))"

definition boot_maybe_anchor ::
  "('i, 's, 'f, 'io) boot_env \<Rightarrow> u64 \<Rightarrow> (audit_boot \<times> 's \<times> 'f, 'io boot_error, anchored option) eff" where
  "boot_maybe_anchor env now = ebind (load_chain env) (\<lambda>records. boot_anchor env records now)"

definition assert_head_matches_durable_anchor ::
  "('i, 's, 'f, 'io) boot_env \<Rightarrow> 'i audit_record list \<Rightarrow> (audit_boot \<times> 's \<times> 'f, 'io boot_error, unit) eff" where
  "assert_head_matches_durable_anchor env records = (\<lambda>(b, s, f).
     (case verify_records_against_anchor_with (be_hmac env) (be_hex_decode env) records (ab_worm b) (ab_verifier b) of
        Inl e \<Rightarrow> Inl (BootAnchor e)
      | Inr Verified \<Rightarrow> Inr ()
      | Inr (HeadMismatch anchored_head actual_head anchored_seq) \<Rightarrow>
          Inl (AnchorHeadMismatch anchored_head actual_head anchored_seq), b, s, f))"

definition check_integrity ::
  "('i, 's, 'f, 'io) boot_env \<Rightarrow> 'i audit_record list \<Rightarrow> (audit_boot \<times> 's \<times> 'f, 'io boot_error, unit) eff" where
  "check_integrity env records =
     elift (case verify_chain (be_hasher env) records of Inl e \<Rightarrow> Inl (ChainIntegrity e) | Inr _ \<Rightarrow> Inr ())"

definition check_durable_head ::
  "('i, 's, 'f, 'io) boot_env \<Rightarrow> 'i audit_record list \<Rightarrow> (audit_boot \<times> 's \<times> 'f, 'io boot_error, unit) eff" where
  "check_durable_head env records = (\<lambda>(b, s, f).
     if latest (ab_worm b) \<noteq> None then assert_head_matches_durable_anchor env records (b, s, f) else (Inr (), b, s, f))"

definition verify_then_anchor ::
  "('i, 's, 'f, 'io) boot_env \<Rightarrow> u64 \<Rightarrow> (audit_boot \<times> 's \<times> 'f, 'io boot_error, unit) eff" where
  "verify_then_anchor env now =
     ebind (load_chain env) (\<lambda>records.
     ebind (check_integrity env records) (\<lambda>_.
     ebind (check_durable_head env records) (\<lambda>_.
     ebind (boot_anchor env records now) (\<lambda>_. eret ()))))"

definition verify_only :: "('i, 's, 'f, 'io) boot_env \<Rightarrow> (audit_boot \<times> 's \<times> 'f, 'io boot_error, unit) eff" where
  "verify_only env =
     ebind (load_chain env) (\<lambda>records.
     ebind (check_integrity env records) (\<lambda>_. check_durable_head env records))"

fun boot :: "('i, 's, 'f, 'io) boot_env \<Rightarrow> anchor_role \<Rightarrow> u64 \<Rightarrow> (audit_boot \<times> 's \<times> 'f, 'io boot_error, unit) eff" where
  "boot env Owner now = verify_then_anchor env now"
| "boot env Verify now = verify_only env"

definition startup_verify :: "('i, 's, 'f, 'io) boot_env \<Rightarrow> (audit_boot \<times> 's \<times> 'f, 'io boot_error, unit) eff" where
  "startup_verify env =
     ebind (load_chain env) (\<lambda>records.
     ebind (check_integrity env records) (\<lambda>_. assert_head_matches_durable_anchor env records))"

section \<open>The contract of a secret store\<close>

text \<open>
  A store creates a secret once, replaces only what exists, and keeps every other secret; the key a
  capability is derived from is the last one that was put or rotated in.
\<close>

locale secret_store =
  fixes wf :: "'st \<Rightarrow> bool"
    and get :: "'st \<Rightarrow> string \<Rightarrow> secret_error + bytes"
    and put rotate :: "string \<Rightarrow> bytes \<Rightarrow> 'st \<Rightarrow> (secret_error + unit) \<times> 'st"
  assumes put_ok: "wf st \<Longrightarrow> put i v st = (Inr u, st') \<Longrightarrow> \<not> is_ok (get st i) \<and> v \<noteq> [] \<and> get st' = (get st)(i := Inr v) \<and> wf st'"
    and put_fails: "put i v st = (Inl e, st') \<Longrightarrow> (is_ok (get st i) \<or> v = []) \<and> st' = st"
    and rotate_ok: "wf st \<Longrightarrow> rotate i v st = (Inr u, st') \<Longrightarrow> is_ok (get st i) \<and> v \<noteq> [] \<and> get st' = (get st)(i := Inr v) \<and> wf st'"
    and rotate_fails: "rotate i v st = (Inl e, st') \<Longrightarrow> (\<not> is_ok (get st i) \<or> v = []) \<and> st' = st"
begin

lemma signer_uses_rotated_key:
  assumes "wf st" and "rotate i v st = (Inr u, st')"
  shows "from_secret_store (get st') i = Inr \<lparr>lk_key_id = i, lk_key = v\<rparr>"
  using rotate_ok [OF assms] by (simp add: from_secret_store_def)

lemma put_then_rotate:
  assumes "wf st" and "put i v st = (Inr u, st1)" and "w \<noteq> []"
  shows "is_ok (fst (rotate i w st1))"
  using put_ok [OF assms(1,2)] rotate_fails [of i w st1] assms(3)
  by (cases "rotate i w st1"; cases "fst (rotate i w st1)") auto

end

lemma secret_get_insert:
  "bt_wf (ls_secrets st) \<Longrightarrow>
     secret_get (st\<lparr>ls_secrets := bt_insert i v (ls_secrets st)\<rparr>) = (secret_get st)(i := Inr v)"
  by (rule ext) (simp add: secret_get_def bt_get_insert)

lemma secret_get_ok: "is_ok (secret_get st i) \<longleftrightarrow> bt_contains (ls_secrets st) i"
  by (simp add: secret_get_def bt_contains_def split: option.split)

interpretation local_store: secret_store "\<lambda>st. bt_wf (ls_secrets st)" secret_get secret_put secret_rotate
  by unfold_locales
    (auto simp: secret_put_def secret_rotate_def secret_get_ok secret_get_insert bt_wf_insert split: if_splits)

section \<open>What the anchor file holds\<close>

definition file_holds :: "('i, 's, 'f, 'io) boot_env \<Rightarrow> string \<Rightarrow> 'f \<Rightarrow> anchor_entry list \<Rightarrow> bool" where
  "file_holds env path f es = (\<exists>ls. fs_open (be_files env) path f = Opened ls \<and> anchor_lines (be_parse env) ls = Inr es)"

text \<open>
  The documented behaviour of the file and of the codec: a file that was created is empty, an append
  that succeeds adds one line behind the others, and a rendered entry is a line that reads back.
\<close>

definition durable :: "('i, 's, 'f, 'io) boot_env \<Rightarrow> string \<Rightarrow> bool" where
  "durable env path =
     ((\<forall>f f'. fs_open (be_files env) path f = NotThere \<and> fs_create (be_files env) path f = (Inr (), f')
         \<longrightarrow> fs_open (be_files env) path f' = Opened [])
      \<and> (\<forall>f f' line ls. fs_open (be_files env) path f = Opened ls \<and> fs_append (be_files env) path line f = (Inr (), f')
         \<longrightarrow> fs_open (be_files env) path f' = Opened (ls @ [Inr line]))
      \<and> (\<forall>e. be_parse env (be_render env e) = Inr e \<and> trim (be_render env e) \<noteq> []))"

lemma durable_created:
  "durable env path \<Longrightarrow> fs_open (be_files env) path f = NotThere \<Longrightarrow> fs_create (be_files env) path f = (Inr (), f') \<Longrightarrow>
     fs_open (be_files env) path f' = Opened []"
  unfolding durable_def by blast

lemma durable_appended:
  "durable env path \<Longrightarrow> fs_open (be_files env) path f = Opened ls \<Longrightarrow> fs_append (be_files env) path line f = (Inr (), f') \<Longrightarrow>
     fs_open (be_files env) path f' = Opened (ls @ [Inr line])"
  unfolding durable_def by blast

lemma durable_codec:
  "durable env path \<Longrightarrow> be_parse env (be_render env e) = Inr e \<and> trim (be_render env e) \<noteq> []"
  unfolding durable_def by blast

lemma anchor_lines_snoc:
  "anchor_lines parse ls = Inr es \<Longrightarrow> parse line = Inr e \<Longrightarrow> trim line \<noteq> [] \<Longrightarrow>
     anchor_lines parse (ls @ [Inr line]) = Inr (es @ [e])"
  by (induction parse ls arbitrary: es rule: anchor_lines.induct)
    (auto simp: rbind_Inr_iff split: if_splits sum.splits)

lemma append_entry_holds:
  assumes "durable env path" and "file_holds env path f es"
    and "append_entry (be_files env) (be_render env) path e f = (Inr u, f')"
  shows "file_holds env path f' (es @ [e])"
proof -
  from assms(2) obtain ls where ls: "fs_open (be_files env) path f = Opened ls" "anchor_lines (be_parse env) ls = Inr es"
    by (auto simp: file_holds_def)
  from assms(3) have "fs_append (be_files env) path (be_render env e) f = (Inr (), f')"
    by (auto simp: append_entry_def split: prod.splits sum.splits)
  note opened = durable_appended [OF assms(1) ls(1) this]
  from durable_codec [OF assms(1), of e] anchor_lines_snoc [OF ls(2)]
  have "anchor_lines (be_parse env) (ls @ [Inr (be_render env e)]) = Inr (es @ [e])" by blast
  with opened show ?thesis unfolding file_holds_def by blast
qed

lemma open_file_holds:
  assumes "durable env path" and "open_file (be_files env) (be_parse env) path f = (Inr w, f')"
  shows "wa_file_path w = Some path \<and> file_holds env path f' (wa_entries w)"
  using assms(2) durable_created [OF assms(1), of f f']
  by (auto simp: open_file_def file_holds_def rbind_Inr_iff split: opened.splits prod.splits sum.splits)

lemma holds_open_file:
  "file_holds env path f es \<Longrightarrow>
     open_file (be_files env) (be_parse env) path f = (Inr \<lparr>wa_entries = es, wa_verifier = None, wa_file_path = Some path\<rparr>, f)"
  by (auto simp: file_holds_def open_file_def)

text \<open>The entry a signer publishes for a log, and that it is the last entry of the file.\<close>

definition entry_for :: "('i, 's, 'f, 'io) boot_env \<Rightarrow> local_kms \<Rightarrow> 'i audit_record list \<Rightarrow> anchor_entry" where
  "entry_for env k xs =
     (case head_of xs of (hd_hash, seq, ts) \<Rightarrow>
        \<lparr>ae_head_hash = hd_hash, ae_seq = seq, ae_timestamp_unix_millis = ts,
         ae_signature = sign_head (be_hmac env) (be_hex_encode env) k hd_hash seq ts\<rparr>)"

definition pinned :: "('i, 's, 'f, 'io) boot_env \<Rightarrow> string \<Rightarrow> local_kms \<Rightarrow> 'f \<Rightarrow> 'i audit_record list \<Rightarrow> bool" where
  "pinned env path k f xs = (\<exists>es. file_holds env path f (es @ [entry_for env k xs]))"

lemma boot_anchor_pins:
  assumes "durable env path" and "boot_anchor env xs now (b, s, f) = (Inr (Some x), b', s', f')"
    and "wa_file_path (ab_worm b) = Some path" and "file_holds env path f (wa_entries (ab_worm b))"
  shows "pinned env path (an_signer (ab_anchorer b)) f' xs"
proof -
  obtain hh sq ts where head: "head_of xs = (hh, sq, ts)" by (cases "head_of xs")
  from assms(2,3) head have "append_entry (be_files env) (be_render env) path (entry_for env (an_signer (ab_anchorer b)) xs) f = (Inr (), f')"
    by (auto simp: boot_anchor_def maybe_anchor_records_def worm_append_def entry_for_def ebind_def Let_def
        split: if_splits prod.splits sum.splits)
  from append_entry_holds [OF assms(1,4) this] show ?thesis by (auto simp: pinned_def)
qed

lemma fresh_anchor_publishes:
  assumes "boot_anchor env xs now (b, s, f) = (Inr x, b', s', f')" and "an_last_anchor_at (ab_anchorer b) = None"
  shows "x \<noteq> None"
  using assms
  by (cases "head_of xs") (auto simp: boot_anchor_def maybe_anchor_records_def worm_append_def ebind_def Let_def
      split: if_splits prod.splits sum.splits option.splits)

section \<open>The next process\<close>

lemma connect_sees_pin:
  assumes "pinned env path k f xs" and "from_secret_store (secret_get store) AUDIT_SIGNING_KEY_ID = Inr k"
    and "connect_with_anchor env dsn store interval path f = (Inr (b, s), f')"
  shows "latest (ab_worm b) = Some (entry_for env k xs)" and "ab_verifier b = k" and "f' = f"
  using assms
  by (auto simp: pinned_def connect_with_anchor_def holds_open_file with_sink_and_worm_def latest_def
      split: sum.splits)

lemma entry_for_verifies:
  assumes "\<And>bs. be_hex_decode env (be_hex_encode env bs) = Some bs"
  shows "verify_head (be_hmac env) (be_hex_decode env) k (ae_head_hash (entry_for env k xs)) (ae_seq (entry_for env k xs))
    (ae_timestamp_unix_millis (entry_for env k xs)) (ae_signature (entry_for env k xs))"
  by (cases "head_of xs") (simp add: entry_for_def verify_head_def sign_head_def assms)

text \<open>What a start on a pinned log answers: the verdict of the chain, then of the pinned head.\<close>

definition boot_verdict :: "'i hasher \<Rightarrow> 'i audit_record list \<Rightarrow> 'i audit_record list \<Rightarrow> 'io boot_error + unit" where
  "boot_verdict h xs ys =
     (case verify_chain h ys of
        Inl e \<Rightarrow> Inl (ChainIntegrity e)
      | Inr _ \<Rightarrow>
          if fst (head_of ys) = fst (head_of xs) then Inr ()
          else Inl (AnchorHeadMismatch (fst (head_of xs)) (fst (head_of ys)) (fst (snd (head_of xs)))))"

lemma check_durable_pinned:
  assumes "latest (ab_worm b) = Some (entry_for env (ab_verifier b) xs)"
    and "\<And>bs. be_hex_decode env (be_hex_encode env bs) = Some bs"
  shows "check_durable_head env ys (b, s, f) =
     (if fst (head_of ys) = fst (head_of xs) then Inr ()
      else Inl (AnchorHeadMismatch (fst (head_of xs)) (fst (head_of ys)) (fst (snd (head_of xs)))), b, s, f)"
proof -
  have "ae_head_hash (entry_for env k xs) = fst (head_of xs)" "ae_seq (entry_for env k xs) = fst (snd (head_of xs))" for k
    by (simp_all add: entry_for_def split: prod.split)
  with assms(1) entry_for_verifies [OF assms(2), of "ab_verifier b" xs] show ?thesis
    by (simp add: check_durable_head_def assert_head_matches_durable_anchor_def verify_records_against_anchor_with_def)
qed

lemma next_boot:
  assumes "pinned env path k f xs" and "from_secret_store (secret_get store) AUDIT_SIGNING_KEY_ID = Inr k"
    and "connect_with_anchor env dsn store interval path f = (Inr (b, s), f')" and "be_load env s = (Inr ys, s')"
    and hex: "\<And>bs. be_hex_decode env (be_hex_encode env bs) = Some bs"
  shows "fst (boot env Verify now (b, s, f')) = boot_verdict (be_hasher env) xs ys"
    and "boot_verdict (be_hasher env) xs ys = Inl e \<Longrightarrow> boot env Owner now (b, s, f') = (Inl e, b, s', f)"
proof -
  note pin = connect_sees_pin [OF assms(1-3)]
  from pin(1,2) have "latest (ab_worm b) = Some (entry_for env (ab_verifier b) xs)" by simp
  note durable = check_durable_pinned [OF this hex]
  from assms(4) show "fst (boot env Verify now (b, s, f')) = boot_verdict (be_hasher env) xs ys"
    by (simp add: verify_only_def load_chain_def ebind_def check_integrity_def boot_verdict_def durable elift_def split: sum.split)
  assume "boot_verdict (be_hasher env) xs ys = Inl e"
  with assms(4) pin(3) show "boot env Owner now (b, s, f') = (Inl e, b, s', f)"
    by (auto simp: verify_then_anchor_def load_chain_def ebind_def check_integrity_def boot_verdict_def durable elift_def
        split: sum.splits if_splits)
qed

lemma same_head_iff:
  assumes "verify_chain h xs = Inr ()" and "verify_chain h ys = Inr ()" and sound: "hasher_sound h (ar_payload ` (set xs \<union> set ys))"
  shows "fst (head_of ys) = fst (head_of xs) \<longleftrightarrow> ys = xs"
proof -
  have genesis: "ar_record_hash (last zs) \<noteq> GENESIS_PREV_HASH"
    if "zs \<noteq> []" "verify_chain h zs = Inr ()" "set zs \<subseteq> set xs \<union> set ys" for zs
  proof -
    from that have "hash_is_intact h (last zs)"
      by (auto simp: verify_chain_def verify_from_ok_iff intro: linked_intact)
    moreover from that have "last zs \<in> set xs \<union> set ys" using last_in_set [OF that(1)] by blast
    ultimately show ?thesis using sound unfolding hasher_sound_def hash_is_intact_def by (metis image_eqI)
  qed
  show ?thesis
  proof (cases "xs = [] \<or> ys = []")
    case True
    with genesis [OF _ assms(1)] genesis [OF _ assms(2)] show ?thesis by (auto simp: head_of_def)
  next
    case False
    then show ?thesis using chain_fixed_by_head [OF assms] by (auto simp: head_of_def)
  qed
qed

text \<open>An owner that started: its log verified, its file ends with the entry for it, and its handle agrees with the file.\<close>

definition handle_ok :: "('i, 's, 'f, 'io) boot_env \<Rightarrow> string \<Rightarrow> local_kms \<Rightarrow> audit_boot \<Rightarrow> 'f \<Rightarrow> bool" where
  "handle_ok env path k b f =
     (wa_file_path (ab_worm b) = Some path \<and> file_holds env path f (wa_entries (ab_worm b)) \<and> an_signer (ab_anchorer b) = k)"

lemma connect_handle_ok:
  assumes "durable env path" and "connect_with_anchor env dsn store interval path f = (Inr (b, s), f')"
  shows "\<exists>k. from_secret_store (secret_get store) AUDIT_SIGNING_KEY_ID = Inr k \<and> handle_ok env path k b f'
    \<and> an_last_anchor_at (ab_anchorer b) = None"
  using assms(2) open_file_holds [OF assms(1), of f]
  by (auto simp: connect_with_anchor_def handle_ok_def with_sink_and_worm_def anchorer_new_def split: sum.splits prod.splits)

lemma boot_anchor_handle_ok:
  assumes "durable env path" and "handle_ok env path k b f" and "boot_anchor env xs now (b, s, f) = (Inr x, b', s', f')"
  shows "handle_ok env path k b' f'"
proof (cases x)
  case None
  with assms(2,3) show ?thesis
    by (cases "head_of xs") (auto simp: handle_ok_def boot_anchor_def maybe_anchor_records_def worm_append_def ebind_def Let_def
        split: if_splits prod.splits sum.splits)
next
  case (Some y)
  obtain hh sq ts where head: "head_of xs = (hh, sq, ts)" by (cases "head_of xs")
  from assms(2,3) Some head have app: "append_entry (be_files env) (be_render env) path (entry_for env k xs) f = (Inr (), f')"
    and b': "wa_file_path (ab_worm b') = Some path" "an_signer (ab_anchorer b') = k"
      "wa_entries (ab_worm b') = wa_entries (ab_worm b) @ [entry_for env k xs]"
    by (auto simp: handle_ok_def boot_anchor_def maybe_anchor_records_def worm_append_def entry_for_def ebind_def Let_def
        split: if_splits prod.splits sum.splits)
  from assms(2) have "file_holds env path f (wa_entries (ab_worm b))" by (simp add: handle_ok_def)
  from append_entry_holds [OF assms(1) this app] b' show ?thesis by (simp add: handle_ok_def)
qed

lemma owner_started:
  assumes "durable env path" and "handle_ok env path k b f" and fresh: "an_last_anchor_at (ab_anchorer b) = None"
    and "be_load env s = (Inr xs, s')" and "boot env Owner now (b, s, f) = (Inr u, b', s'', f')"
  shows "verify_chain (be_hasher env) xs = Inr ()" and "pinned env path k f' xs" and "handle_ok env path k b' f'"
proof -
  from assms(4,5) obtain x s1 where anchor: "boot_anchor env xs now (b, s1, f) = (Inr x, b', s'', f')"
    and ok: "verify_chain (be_hasher env) xs = Inr ()"
    by (auto simp: verify_then_anchor_def load_chain_def check_integrity_def check_durable_head_def
        assert_head_matches_durable_anchor_def ebind_def elift_def split: prod.splits sum.splits if_splits)
  from ok show "verify_chain (be_hasher env) xs = Inr ()" .
  from fresh_anchor_publishes [OF anchor fresh] obtain y where "x = Some y" by blast
  with boot_anchor_pins [OF assms(1)] anchor assms(2) show "pinned env path k f' xs" by (auto simp: handle_ok_def)
  from boot_anchor_handle_ok [OF assms(1,2) anchor] show "handle_ok env path k b' f'" .
qed

text \<open>
  C25: after an owner of the anchor started on a log, the next process that opens the same anchor file
  with the same key starts on exactly that log, record for record. Any other log is refused, as a
  broken chain or as a head mismatch, and an owner that refuses leaves the anchor file as it was.
\<close>

theorem next_start_accepts_only_pinned_log:
  fixes env :: "('i, 's, 'f, 'io) boot_env"
  assumes durable: "durable env path" and hex: "\<And>bs. be_hex_decode env (be_hex_encode env bs) = Some bs"
    and first: "connect_with_anchor env dsn store interval path f0 = (Inr (b0, s0), f1)" "be_load env s0 = (Inr xs, s0')"
      "boot env Owner now (b0, s0, f1) = (Inr u, b1, s1, f2)"
    and nxt: "connect_with_anchor env dsn' store interval' path f2 = (Inr (b2, s2), f3)" "be_load env s2 = (Inr ys, s2')"
    and sound: "hasher_sound (be_hasher env) (ar_payload ` (set xs \<union> set ys))"
  shows "(fst (boot env Verify now' (b2, s2, f3)) = Inr () \<longleftrightarrow> ys = xs)
    \<and> (ys = xs \<or> (\<exists>e. boot env Owner now' (b2, s2, f3) = (Inl e, b2, s2', f3)))"
proof -
  from connect_handle_ok [OF durable first(1)] obtain k
    where key: "from_secret_store (secret_get store) AUDIT_SIGNING_KEY_ID = Inr k" and handle: "handle_ok env path k b0 f1"
      and fresh: "an_last_anchor_at (ab_anchorer b0) = None" by blast
  note started = owner_started [OF durable handle fresh first(2,3)]
  note verdict = next_boot [OF started(2) key nxt(1,2) hex]
  have same: "(boot_verdict (be_hasher env) xs ys :: 'io boot_error + unit) = Inr () \<longleftrightarrow> ys = xs"
    using started(1) same_head_iff [OF started(1) _ sound] by (auto simp: boot_verdict_def split: sum.splits)
  have "f3 = f2" using connect_sees_pin(3) [OF started(2) key nxt(1)] .
  with same verdict show ?thesis by (cases "boot_verdict (be_hasher env) xs ys :: 'io boot_error + unit") (auto simp del: boot.simps)
qed

text \<open>
  A log that only grew is refused like a forged one: when a record was appended after the last
  anchor, the next process does not start in either role, and reports a head mismatch, although the
  log verifies and extends the anchored one.
\<close>

lemma grown_log_is_refused:
  assumes durable: "durable env path" and hex: "\<And>bs. be_hex_decode env (be_hex_encode env bs) = Some bs"
    and first: "connect_with_anchor env dsn store interval path f0 = (Inr (b0, s0), f1)" "be_load env s0 = (Inr xs, s0')"
      "boot env Owner now (b0, s0, f1) = (Inr u, b1, s1, f2)"
    and nxt: "connect_with_anchor env dsn' store interval' path f2 = (Inr (b2, s2), f3)" "be_load env s2 = (Inr (xs @ [r]), s2')"
    and grown: "verify_chain (be_hasher env) (xs @ [r]) = Inr ()"
    and sound: "hasher_sound (be_hasher env) (ar_payload ` set (xs @ [r]))"
  shows "fst (boot env role now' (b2, s2, f3)) = Inl (AnchorHeadMismatch (fst (head_of xs)) (ar_record_hash r) (fst (snd (head_of xs))))"
proof -
  from connect_handle_ok [OF durable first(1)] obtain k
    where key: "from_secret_store (secret_get store) AUDIT_SIGNING_KEY_ID = Inr k" and handle: "handle_ok env path k b0 f1"
      and fresh: "an_last_anchor_at (ab_anchorer b0) = None" by blast
  note started = owner_started [OF durable handle fresh first(2,3)]
  from sound have "hasher_sound (be_hasher env) (ar_payload ` (set xs \<union> set (xs @ [r])))"
    by (rule hasher_sound_mono) auto
  from same_head_iff [OF started(1) grown this] grown
  have verdict: "boot_verdict (be_hasher env) xs (xs @ [r])
      = Inl (AnchorHeadMismatch (fst (head_of xs)) (ar_record_hash r) (fst (snd (head_of xs))))"
    by (simp add: boot_verdict_def head_of_def)
  note next_boot [OF started(2) key nxt(1,2) hex]
  with verdict show ?thesis by (cases role) (simp_all del: boot.simps)
qed

text \<open>
  The running owner re-anchors whatever log it finds: after a due tick over any log that verifies,
  related to the anchored one or not, the next process starts on that log. A rewrite while the owner
  runs is therefore adopted at the next tick; the check against the anchor is made at starts only.
\<close>

lemma tick_adopts_any_log:
  assumes durable: "durable env path" and hex: "\<And>bs. be_hex_decode env (be_hex_encode env bs) = Some bs"
    and first: "connect_with_anchor env dsn store interval path f0 = (Inr (b0, s0), f1)" "be_load env s0 = (Inr xs, s0')"
      "boot env Owner now (b0, s0, f1) = (Inr u, b1, s1, f2)"
    and tick: "be_load env s = (Inr ys, s')" "boot_maybe_anchor env now' (b1, s, f2) = (Inr (Some x), b2, s2, f3)"
    and nxt: "connect_with_anchor env dsn' store interval' path f3 = (Inr (b4, s4), f4)" "be_load env s4 = (Inr ys, s4')"
    and log: "verify_chain (be_hasher env) ys = Inr ()"
  shows "fst (boot env Verify now'' (b4, s4, f4)) = Inr ()"
proof -
  from connect_handle_ok [OF durable first(1)] obtain k
    where key: "from_secret_store (secret_get store) AUDIT_SIGNING_KEY_ID = Inr k" and handle: "handle_ok env path k b0 f1"
      and fresh: "an_last_anchor_at (ab_anchorer b0) = None" by blast
  note running = owner_started(3) [OF durable handle fresh first(2,3)]
  from tick have "boot_anchor env ys now' (b1, s', f2) = (Inr (Some x), b2, s2, f3)"
    by (simp add: boot_maybe_anchor_def load_chain_def ebind_def)
  from boot_anchor_pins [OF durable this] running have "pinned env path k f3 ys" by (auto simp: handle_ok_def)
  from next_boot(1) [OF this key nxt(1,2) hex] log show ?thesis by (simp add: boot_verdict_def)
qed

section \<open>Two starts over one file\<close>

text \<open>One anchor file in memory, and a line codec that escapes every character of a field.\<close>

definition escape :: "string \<Rightarrow> string" where
  "escape s = concat (map (\<lambda>c. [CHR ''.'', c]) s) @ ''|''"

fun unescape :: "string \<Rightarrow> string \<times> string" where
  "unescape (d # c # r) = (if d = CHR ''.'' then (case unescape r of (s, t) \<Rightarrow> (c # s, t)) else ([], c # r))"
| "unescape s = ([], [])"

lemma unescape_escape [simp]: "unescape (escape s @ t) = (s, t)"
  by (induction s) (cases t; simp add: escape_def)+

definition sample_render :: "anchor_entry \<Rightarrow> string" where
  "sample_render e =
     escape (ae_head_hash e) @ escape (decimal (unat (ae_seq e))) @ escape (decimal (unat (ae_timestamp_unix_millis e)))
     @ escape (hg_key_id (ae_signature e)) @ escape (hg_signature (ae_signature e))"

definition sample_parse :: "string \<Rightarrow> string + anchor_entry" where
  "sample_parse l =
     (case unescape l of (hh, l) \<Rightarrow> case unescape l of (sq, l) \<Rightarrow> case unescape l of (ts, l) \<Rightarrow>
      case unescape l of (k, l) \<Rightarrow> case unescape l of (sg, _) \<Rightarrow>
      Inr \<lparr>ae_head_hash = hh, ae_seq = word_of_nat (the (parse_digits sq)),
           ae_timestamp_unix_millis = word_of_nat (the (parse_digits ts)),
           ae_signature = \<lparr>hg_key_id = k, hg_signature = sg\<rparr>\<rparr>)"

lemma sample_codec: "sample_parse (sample_render e) = Inr e"
proof -
  have last: "unescape (escape s) = (s, [])" for s using unescape_escape [of s "[]"] by simp
  show ?thesis by (simp add: sample_parse_def sample_render_def last)
qed

lemma trim_start_keeps: "c = CHR ''.'' \<or> c = CHR ''|'' \<Longrightarrow> trim (c # s) \<noteq> []"
proof -
  assume c: "c = CHR ''.'' \<or> c = CHR ''|''"
  then have "char_len c = 1" and white: "\<not> chunk_white [c]"
    by (auto simp: char_len_def chunk_white_def chars_def as_bytes_def is_whitespace_def)
  then have chunks: "utf8_chunks (c # s) = [c] # utf8_chunks s" by simp
  with white have "trim_start (c # s) = c # s" by (simp add: trim_start_def del: utf8_chunks.simps)
  moreover from white have "concat (rev (dropWhile chunk_white (rev (utf8_chunks s) @ [[c]]))) \<noteq> []"
    by (auto simp: dropWhile_append dropWhile_eq_Nil_conv)
  ultimately show ?thesis by (simp add: trim_def trim_end_def chunks del: utf8_chunks.simps)
qed

lemma sample_line_not_blank: "trim (sample_render e) \<noteq> []"
proof -
  obtain c r where "sample_render e = c # r" and "c = CHR ''.'' \<or> c = CHR ''|''"
    by (cases "ae_head_hash e") (auto simp: sample_render_def escape_def)
  then show ?thesis using trim_start_keeps by simp
qed

definition sample_files :: "(string list option, unit) file_system" where
  "sample_files =
     \<lparr>fs_open = (\<lambda>_ f. case f of None \<Rightarrow> NotThere | Some ls \<Rightarrow> Opened (map Inr ls)),
      fs_create = (\<lambda>_ f. (Inr (), Some [])),
      fs_append = (\<lambda>_ l f. case f of None \<Rightarrow> (Inl (), f) | Some ls \<Rightarrow> (Inr (), Some (ls @ [l])))\<rparr>"

text \<open>The database holds a log; the connection string selects which one.\<close>

definition sample_env :: "(string \<Rightarrow> unit audit_record list) \<Rightarrow> (unit, unit audit_record list, string list option, unit) boot_env" where
  "sample_env db =
     \<lparr>be_hasher = sample_hasher, be_hmac = (\<lambda>_ b. b), be_hex_encode = str_of_bytes, be_hex_decode = (\<lambda>s. Some (as_bytes s)),
      be_connect = (\<lambda>dsn. Inr (db dsn)), be_load = (\<lambda>s. (Inr s, s)), be_files = sample_files,
      be_render = sample_render, be_parse = sample_parse\<rparr>"

lemma sample_durable: "durable (sample_env db) path"
  by (auto simp: durable_def sample_env_def sample_files_def sample_codec sample_line_not_blank split: option.splits)

lemma sample_hex: "be_hex_decode (sample_env db) (be_hex_encode (sample_env db) bs) = Some bs"
  by (simp add: sample_env_def)

definition sample_store :: local_secret_store where
  "sample_store = snd (secret_put AUDIT_SIGNING_KEY_ID [1] secret_store_new)"

abbreviation sample_logs :: "string \<Rightarrow> unit audit_record list" where
  "sample_logs dsn \<equiv> (if dsn = ''a'' then [] else if dsn = ''b'' then sample_log 1 else sample_log 2)"

lemma sample_secret [simp]: "secret_get sample_store AUDIT_SIGNING_KEY_ID = Inr [1]"
  by (simp add: secret_get_def sample_store_def secret_put_def secret_store_new_def bt_contains_def)

lemma sample_connect:
  "connect_with_anchor (sample_env db) dsn sample_store 0 path (Some (map sample_render es)) =
     (Inr (with_sink_and_worm \<lparr>lk_key_id = AUDIT_SIGNING_KEY_ID, lk_key = [1]\<rparr> 0
        \<lparr>wa_entries = es, wa_verifier = None, wa_file_path = Some path\<rparr>, db dsn), Some (map sample_render es))"
proof -
  have "anchor_lines sample_parse (map (Inr \<circ> sample_render) es) = (Inr es :: unit worm_anchor_error + anchor_entry list)"
    by (induction es) (simp_all add: sample_codec sample_line_not_blank)
  then show ?thesis
    by (simp add: connect_with_anchor_def from_secret_store_def open_file_def sample_env_def sample_files_def)
qed

abbreviation sample_boot_env :: "(unit, unit audit_record list, string list option, unit) boot_env" where
  "sample_boot_env \<equiv> sample_env sample_logs"

definition boot_key :: local_kms where
  "boot_key = \<lparr>lk_key_id = AUDIT_SIGNING_KEY_ID, lk_key = [1]\<rparr>"

definition boot_handle :: "anchor_entry list \<Rightarrow> audit_boot" where
  "boot_handle es = with_sink_and_worm boot_key 0 \<lparr>wa_entries = es, wa_verifier = None, wa_file_path = Some ''p''\<rparr>"

lemma sample_connects:
  "connect_with_anchor sample_boot_env dsn sample_store 0 ''p'' (Some (map sample_render es)) =
     (Inr (boot_handle es, sample_logs dsn), Some (map sample_render es))"
  unfolding sample_connect boot_handle_def boot_key_def ..

lemma sample_anchors:
  assumes "an_interval_millis (ab_anchorer b) = 0" and "wa_file_path (ab_worm b) = Some ''p''"
    and "an_signer (ab_anchorer b) = boot_key"
  shows "\<exists>x b'. boot_anchor sample_boot_env xs 0 (b, s, Some ls) =
      (Inr (Some x), b', s, Some (ls @ [sample_render (entry_for sample_boot_env boot_key xs)]))
    \<and> an_interval_millis (ab_anchorer b') = 0 \<and> wa_file_path (ab_worm b') = Some ''p'' \<and> an_signer (ab_anchorer b') = boot_key"
  using assms
  by (cases "head_of xs") (simp add: boot_anchor_def maybe_anchor_records_def worm_append_def entry_for_def ebind_def Let_def
      append_entry_def sample_env_def sample_files_def split: option.split)

lemma sample_first_boot:
  "\<exists>b1. boot sample_boot_env Owner 0 (boot_handle [], [], Some []) =
      (Inr (), b1, [], Some [sample_render (entry_for sample_boot_env boot_key [])])
    \<and> an_interval_millis (ab_anchorer b1) = 0 \<and> wa_file_path (ab_worm b1) = Some ''p'' \<and> an_signer (ab_anchorer b1) = boot_key"
proof -
  have "an_interval_millis (ab_anchorer (boot_handle [])) = 0" "wa_file_path (ab_worm (boot_handle [])) = Some ''p''"
    "an_signer (ab_anchorer (boot_handle [])) = boot_key" "latest (ab_worm (boot_handle [])) = None"
    by (simp_all add: boot_handle_def with_sink_and_worm_def anchorer_new_def latest_def)
  moreover have "verify_chain sample_hasher [] = Inr ()" by (simp add: verify_chain_def)
  ultimately show ?thesis
    using sample_anchors [of "boot_handle []" "[]" "[]" "[]"]
    by (auto simp: verify_then_anchor_def load_chain_def check_integrity_def check_durable_head_def ebind_def elift_def sample_env_def)
qed

lemma sample_log_one: "sample_log t = [] @ [hd (sample_log t)]" and sample_log_ok: "verify_chain sample_hasher (sample_log t) = Inr ()"
  by (simp_all add: sample_log_def chain_append_def chain_new_def seal_def verify_chain_def head_hash_def)

lemma sample_log_sound: "hasher_sound sample_hasher (ar_payload ` (set [] \<union> set (sample_log 1)))"
  by (rule hasher_sound_mono [OF sample_sound]) auto

lemma sample_next_connects:
  "connect_with_anchor sample_boot_env ''b'' sample_store 0 ''p'' (Some [sample_render (entry_for sample_boot_env boot_key [])]) =
     (Inr (boot_handle [entry_for sample_boot_env boot_key []], sample_log 1), Some [sample_render (entry_for sample_boot_env boot_key [])])"
  using sample_connects [of "''b''" "[entry_for sample_boot_env boot_key []]"] by simp

lemma sample_first_connects:
  "connect_with_anchor sample_boot_env ''a'' sample_store 0 ''p'' (Some []) = (Inr (boot_handle [], []), Some [])"
  using sample_connects [of "''a''" "[]"] by simp

theorem next_start_accepts_only_pinned_log_witness:
  "fst (boot sample_boot_env Verify 0 (boot_handle [entry_for sample_boot_env boot_key []], sample_log 1,
     Some [sample_render (entry_for sample_boot_env boot_key [])])) \<noteq> Inr ()"
proof -
  obtain b1 where first: "boot sample_boot_env Owner 0 (boot_handle [], [], Some []) =
      (Inr (), b1, [], Some [sample_render (entry_for sample_boot_env boot_key [])])" using sample_first_boot by blast
  have load: "be_load sample_boot_env s = (Inr s, s)" for s by (simp add: sample_env_def)
  have "hasher_sound (be_hasher sample_boot_env) (ar_payload ` (set [] \<union> set (sample_log 1)))"
    using sample_log_sound by (simp add: sample_env_def)
  from next_start_accepts_only_pinned_log [OF sample_durable sample_hex sample_first_connects load first sample_next_connects load this,
      of 0] sample_log_one [of 1] show ?thesis by (auto simp del: boot.simps)
qed

lemma grown_log_is_refused_sample:
  "\<exists>e. fst (boot sample_boot_env Owner 0 (boot_handle [entry_for sample_boot_env boot_key []], sample_log 1,
     Some [sample_render (entry_for sample_boot_env boot_key [])])) = Inl e"
proof -
  obtain b1 where first: "boot sample_boot_env Owner 0 (boot_handle [], [], Some []) =
      (Inr (), b1, [], Some [sample_render (entry_for sample_boot_env boot_key [])])" using sample_first_boot by blast
  have load: "be_load sample_boot_env s = (Inr s, s)" for s by (simp add: sample_env_def)
  have load': "be_load sample_boot_env (sample_log 1) = (Inr ([] @ [hd (sample_log 1)]), sample_log 1)"
    using load sample_log_one by metis
  have grown: "verify_chain (be_hasher sample_boot_env) ([] @ [hd (sample_log 1)]) = Inr ()"
    unfolding sample_log_one [symmetric] using sample_log_ok by (simp add: sample_env_def)
  have sound: "hasher_sound (be_hasher sample_boot_env) (ar_payload ` set ([] @ [hd (sample_log 1)]))"
    unfolding sample_log_one [symmetric] using sample_log_sound by (simp add: sample_env_def)
  from grown_log_is_refused [OF sample_durable sample_hex sample_first_connects load first sample_next_connects load' grown sound]
  show ?thesis by blast
qed

lemma tick_adopts_any_log_sample:
  "\<exists>es. fst (boot sample_boot_env Verify 0 (boot_handle es, sample_log 1, Some (map sample_render es))) = Inr () \<and> length es = 2"
proof -
  let ?es = "[entry_for sample_boot_env boot_key [], entry_for sample_boot_env boot_key (sample_log 1)]"
  obtain b1 where first: "boot sample_boot_env Owner 0 (boot_handle [], [], Some []) =
      (Inr (), b1, [], Some [sample_render (entry_for sample_boot_env boot_key [])])"
    and b1: "an_interval_millis (ab_anchorer b1) = 0" "wa_file_path (ab_worm b1) = Some ''p''" "an_signer (ab_anchorer b1) = boot_key"
    using sample_first_boot by blast
  have load: "be_load sample_boot_env s = (Inr s, s)" for s by (simp add: sample_env_def)
  from sample_anchors [OF b1, of "sample_log 1" "sample_log 1" "[sample_render (entry_for sample_boot_env boot_key [])]"]
  obtain x b2 where tick: "boot_maybe_anchor sample_boot_env 0 (b1, sample_log 1, Some [sample_render (entry_for sample_boot_env boot_key [])])
      = (Inr (Some x), b2, sample_log 1, Some (map sample_render ?es))"
    by (auto simp: boot_maybe_anchor_def load_chain_def ebind_def load)
  have log: "verify_chain (be_hasher sample_boot_env) (sample_log 1) = Inr ()" using sample_log_ok by (simp add: sample_env_def)
  have nxt: "connect_with_anchor sample_boot_env ''b'' sample_store 0 ''p'' (Some (map sample_render ?es)) =
      (Inr (boot_handle ?es, sample_log 1), Some (map sample_render ?es))" using sample_connects [of "''b''" ?es] by simp
  from tick_adopts_any_log [OF sample_durable sample_hex sample_first_connects load first load tick nxt load log]
  have "fst (boot sample_boot_env Verify 0 (boot_handle ?es, sample_log 1, Some (map sample_render ?es))) = Inr ()" .
  then show ?thesis by (intro exI [of _ ?es]) simp
qed

end
