(* ===== verification/Audit_Pg.thy ===== *)
theory Audit_Pg
  imports Audit_Chain "HOL-Library.Sublist"
begin

text \<open>
  The PostgreSQL sink (\<^verbatim>\<open>crates/audit/src/pg.rs\<close>): the rows of the audit table, the append as a
  transaction in steps (take the advisory lock, read the head, insert, commit), and the load. Several
  processes append through clients of their own; a run interleaves their steps. The canonical JSON
  codec is a parameter. A transaction sees the rows committed before its statement; the advisory lock
  is held from the call that takes it to the end of the transaction.
\<close>

section \<open>Rows\<close>

record pg_row =
  pw_seq :: "64 word"
  pw_prev_hash :: string
  pw_record_hash :: string
  pw_payload :: string

text \<open>\<^verbatim>\<open>ORDER BY seq DESC LIMIT 1\<close>, over \<^verbatim>\<open>bigint\<close> values.\<close>

fun greatest_row :: "pg_row list \<Rightarrow> pg_row option" where
  "greatest_row [] = None"
| "greatest_row (r # rs) =
     (case greatest_row rs of
        None \<Rightarrow> Some r
      | Some m \<Rightarrow> if sint (pw_seq m) < sint (pw_seq r) then Some r else Some m)"

definition head_in_txn :: "pg_row list \<Rightarrow> u64 \<times> string" where
  "head_in_txn rows =
     (case greatest_row rows of
        None \<Rightarrow> (0, GENESIS_PREV_HASH)
      | Some r \<Rightarrow> (pw_seq r + 1, pw_record_hash r))"

definition row_to_record ::
  "(string \<Rightarrow> string + 'i audit_payload) \<Rightarrow> string \<Rightarrow> string \<Rightarrow> sink_error + 'i audit_record" where
  "row_to_record from_str payload_json record_hash =
     (case from_str payload_json of
        Inl e \<Rightarrow> Inl (SinkBackend (''corrupt audit payload json: '' @ e))
      | Inr payload \<Rightarrow> Inr \<lparr>ar_payload = payload, ar_record_hash = record_hash\<rparr>)"

fun rows_to_records :: "(string \<Rightarrow> string + 'i audit_payload) \<Rightarrow> pg_row list \<Rightarrow> sink_error + 'i audit_record list" where
  "rows_to_records from_str [] = Inr []"
| "rows_to_records from_str (r # rs) =
     rbind (row_to_record from_str (pw_payload r) (pw_record_hash r)) (\<lambda>x.
     rbind (rows_to_records from_str rs) (\<lambda>xs. Inr (x # xs)))"

definition load_chain_mut :: "(string \<Rightarrow> string + 'i audit_payload) \<Rightarrow> pg_row list \<Rightarrow> sink_error + 'i audit_record list" where
  "load_chain_mut from_str rows = rows_to_records from_str (sort_key (\<lambda>r. sint (pw_seq r)) rows)"

text \<open>The read through a shared reference is an error on this sink, whatever the table holds.\<close>

definition pg_load_chain :: "pg_row list \<Rightarrow> sink_error + 'i audit_record list" where
  "pg_load_chain rows = Inl (SinkBackend ''PgSink::load_chain needs &mut; call load_chain_mut() / verify_mut()'')"

section \<open>One append\<close>

definition payload_of :: "'i new_entry \<Rightarrow> u64 \<Rightarrow> u64 \<Rightarrow> string \<Rightarrow> 'i audit_payload" where
  "payload_of e timestamp_ms seq prev_hash =
     \<lparr>au_seq = seq, au_statement_text = ne_statement_text e, au_decision = ne_decision e,
      au_reason_code = ne_reason_code e, au_reason = ne_reason e, au_principal = ne_principal e,
      au_intent = ne_intent e, au_write_safety = ne_write_safety e,
      au_timestamp_unix_millis = timestamp_ms, au_prev_hash = prev_hash\<rparr>"

definition row_of :: "string \<Rightarrow> 'i audit_record \<Rightarrow> pg_row" where
  "row_of payload_text rec =
     \<lparr>pw_seq = au_seq (ar_payload rec), pw_prev_hash = au_prev_hash (ar_payload rec),
      pw_record_hash = ar_record_hash rec, pw_payload = payload_text\<rparr>"

text \<open>The constraints of the table: \<^verbatim>\<open>seq\<close> is unique and not negative, \<^verbatim>\<open>record_hash\<close> is unique.\<close>

definition row_admitted :: "pg_row list \<Rightarrow> pg_row \<Rightarrow> bool" where
  "row_admitted rows r =
     (0 \<le> sint (pw_seq r) \<and> list_all (\<lambda>q. pw_seq q \<noteq> pw_seq r \<and> pw_record_hash q \<noteq> pw_record_hash r) rows)"

text \<open>Where the transaction of a process stands.\<close>

datatype 'i appender =
    Idle
  | Locked "'i new_entry" u64
  | HeadRead "'i new_entry" u64 u64 string
  | RowInserted "'i audit_record" pg_row

text \<open>
  The database and its clients: the committed rows, who holds the advisory lock, and the transactions.
  \<open>db_log\<close> is the records whose rows were committed, and \<open>db_acks\<close> those a caller was answered with.
\<close>

record 'i audit_db =
  db_rows :: "pg_row list"
  db_lock :: "nat option"
  db_procs :: "nat \<Rightarrow> 'i appender"
  db_log :: "'i audit_record list"
  db_acks :: "'i audit_record list"

definition db_start :: "'i audit_db" where
  "db_start = \<lparr>db_rows = [], db_lock = None, db_procs = (\<lambda>_. Idle), db_log = [], db_acks = []\<rparr>"

text \<open>The transaction of \<open>p\<close> ends without a commit: the lock it holds is released and its row is dropped.\<close>

definition abort_txn :: "nat \<Rightarrow> 'i audit_db \<Rightarrow> 'i audit_db" where
  "abort_txn p d = d\<lparr>db_lock := (if db_lock d = Some p then None else db_lock d), db_procs := (db_procs d)(p := Idle)\<rparr>"

definition commit_row :: "nat \<Rightarrow> 'i audit_record \<Rightarrow> pg_row \<Rightarrow> 'i audit_db \<Rightarrow> 'i audit_db" where
  "commit_row p rec r d = (abort_txn p d)\<lparr>db_rows := db_rows d @ [r], db_log := db_log d @ [rec]\<rparr>"

text \<open>
  The next step of the append of \<open>p\<close>. \<open>want\<close> is the entry and time of a call that begins now. Nothing
  changes while the lock is taken. A payload that is not UTF-8 or a row the table does not admit ends
  the transaction with an error.
\<close>

definition append_step :: "'i hasher \<Rightarrow> nat \<Rightarrow> 'i new_entry \<times> u64 \<Rightarrow> 'i audit_db \<Rightarrow> 'i audit_db" where
  "append_step h p want d =
     (case db_procs d p of
        Idle \<Rightarrow>
          if db_lock d = None
          then d\<lparr>db_lock := Some p, db_procs := (db_procs d)(p := Locked (fst want) (snd want))\<rparr>
          else d
      | Locked e ts \<Rightarrow>
          (case head_in_txn (db_rows d) of
             (seq, prev_hash) \<Rightarrow> d\<lparr>db_procs := (db_procs d)(p := HeadRead e ts seq prev_hash)\<rparr>)
      | HeadRead e ts seq prev_hash \<Rightarrow>
          let rec = seal h (payload_of e ts seq prev_hash) in
          (case from_utf8 (hs_canonical h (ar_payload rec)) of
             None \<Rightarrow> abort_txn p d
           | Some payload_text \<Rightarrow>
               let r = row_of payload_text rec in
               if row_admitted (db_rows d) r then d\<lparr>db_procs := (db_procs d)(p := RowInserted rec r)\<rparr>
               else abort_txn p d)
      | RowInserted rec r \<Rightarrow>
          (commit_row p rec r d)\<lparr>db_acks := db_acks d @ [rec]\<rparr>)"

text \<open>
  Any interleaving: a process makes its next step, its connection fails and its transaction ends, or
  its commit is done and the answer is lost, which the caller sees as an error.
\<close>

inductive pg_reach :: "'i hasher \<Rightarrow> 'i audit_db \<Rightarrow> bool" for h where
  start: "pg_reach h db_start"
| step: "pg_reach h d \<Longrightarrow> pg_reach h (append_step h p want d)"
| fail: "pg_reach h d \<Longrightarrow> pg_reach h (abort_txn p d)"
| lost: "pg_reach h d \<Longrightarrow> db_procs d p = RowInserted rec r \<Longrightarrow> pg_reach h (commit_row p rec r d)"

section \<open>The invariant\<close>

text \<open>A row stands for a record: its columns are the record's, and its payload the canonical text.\<close>

definition row_for :: "'i hasher \<Rightarrow> pg_row \<Rightarrow> 'i audit_record \<Rightarrow> bool" where
  "row_for h r rec = (\<exists>t. from_utf8 (hs_canonical h (ar_payload rec)) = Some t \<and> r = row_of t rec)"

abbreviation chain_of :: "'i audit_record list \<Rightarrow> 'i audit_chain" where
  "chain_of rs \<equiv> \<lparr>ac_records = rs\<rparr>"

definition log_ok :: "'i hasher \<Rightarrow> pg_row list \<Rightarrow> 'i audit_record list \<Rightarrow> bool" where
  "log_ok h rows log = (chain_wf h (chain_of log) \<and> list_all2 (row_for h) rows log \<and> length log \<le> 2 ^ 63)"

fun proc_ok :: "'i hasher \<Rightarrow> 'i audit_record list \<Rightarrow> 'i appender \<Rightarrow> bool" where
  "proc_ok h log Idle = True"
| "proc_ok h log (Locked e ts) = True"
| "proc_ok h log (HeadRead e ts seq prev_hash) = (seq = next_seq (chain_of log) \<and> prev_hash = head_hash (chain_of log))"
| "proc_ok h log (RowInserted rec r) =
     ((\<exists>e ts. rec = fst (chain_append h e ts (chain_of log))) \<and> row_for h r rec \<and> 0 \<le> sint (pw_seq r))"

definition pg_inv :: "'i hasher \<Rightarrow> 'i audit_db \<Rightarrow> bool" where
  "pg_inv h d =
     (log_ok h (db_rows d) (db_log d) \<and> subseq (db_acks d) (db_log d)
      \<and> (\<forall>p. (db_procs d p \<noteq> Idle) = (db_lock d = Some p)) \<and> (\<forall>p. proc_ok h (db_log d) (db_procs d p)))"

lemma row_seqs:
  assumes "log_ok h rows log" and "i < length log"
  shows "pw_seq (rows ! i) = word_of_nat i" and "length rows = length log"
  using assms by (auto simp: log_ok_def chain_wf_def row_for_def row_of_def list_all2_conv_all_nth)

lemma sint_of_index: "n < 2 ^ 63 \<Longrightarrow> sint (word_of_nat n :: 64 word) = int n"
  by (simp add: signed_of_nat signed_take_bit_int_eq_self)

lemma greatest_row_last:
  "sorted_wrt (\<lambda>a b. sint (pw_seq a) < sint (pw_seq b)) rows \<Longrightarrow> greatest_row rows = (if rows = [] then None else Some (last rows))"
  by (induction rows) (auto split: if_splits dest: bspec [OF _ last_in_set])

lemma rows_sorted:
  assumes "log_ok h rows log"
  shows "sorted_wrt (\<lambda>a b. sint (pw_seq a) < sint (pw_seq b)) rows"
  unfolding sorted_wrt_iff_nth_less
proof (intro allI impI)
  fix i j assume "i < j" "j < length rows"
  moreover from assms have "length rows = length log" "length log \<le> 2 ^ 63"
    by (auto simp: log_ok_def dest: list_all2_lengthD)
  ultimately show "sint (pw_seq (rows ! i)) < sint (pw_seq (rows ! j))"
    using row_seqs(1) [OF assms] by (simp add: sint_of_index)
qed

lemma head_is_chain_head:
  assumes "log_ok h rows log"
  shows "head_in_txn rows = (next_seq (chain_of log), head_hash (chain_of log))"
proof (cases "log = []")
  case True
  with assms show ?thesis by (simp add: log_ok_def head_in_txn_def next_seq_def head_hash_def)
next
  case False
  let ?i = "length log - 1"
  from False assms have len: "length rows = length log" "rows \<noteq> []" by (auto simp: log_ok_def dest: list_all2_lengthD)
  with False have last: "last rows = rows ! ?i" "last log = log ! ?i" by (simp_all add: last_conv_nth)
  from row_seqs(1) [OF assms, of ?i] False have seq: "pw_seq (last rows) + 1 = word_of_nat (length log)"
    by (cases "length log") (simp_all add: last)
  from assms False len have "row_for h (last rows) (last log)" by (auto simp: log_ok_def last list_all2_conv_all_nth)
  then have "pw_record_hash (last rows) = ar_record_hash (last log)" by (auto simp: row_for_def row_of_def)
  with seq False len greatest_row_last [OF rows_sorted [OF assms]] show ?thesis
    by (simp add: head_in_txn_def next_seq_def head_hash_def)
qed

lemma log_ok_append:
  assumes "log_ok h rows log" and "rec = fst (chain_append h e ts (chain_of log))" and "row_for h r rec" and "0 \<le> sint (pw_seq r)"
  shows "log_ok h (rows @ [r]) (log @ [rec])"
proof -
  from assms(1) have wf: "chain_wf h (chain_of log)" by (simp add: log_ok_def)
  have "snd (chain_append h e ts (chain_of log)) = chain_of (log @ [rec])" using assms(2) by (simp add: chain_append_def Let_def)
  with chain_wf_append [OF wf, of e ts] have "chain_wf h (chain_of (log @ [rec]))" by simp
  moreover have "length log \<noteq> 2 ^ 63"
  proof
    assume "length log = 2 ^ 63"
    with assms(2,3) have "pw_seq r = word_of_nat (2 ^ 63)"
      by (auto simp: row_for_def row_of_def chain_append_def Let_def next_seq_def seal_def)
    moreover have "sint (word_of_nat (2 ^ 63) :: 64 word) < 0" by simp
    ultimately show False using assms(4) by simp
  qed
  ultimately show ?thesis using assms(1,3) by (auto simp: log_ok_def intro!: list_all2_appendI)
qed

lemma abort_keeps: "pg_inv h d \<Longrightarrow> pg_inv h (abort_txn p d)"
  by (auto simp: pg_inv_def abort_txn_def)

lemma only_holder_active:
  assumes "pg_inv h d" and "db_procs d p \<noteq> Idle"
  shows "(if q = p then Idle else db_procs d q) = Idle"
  using assms unfolding pg_inv_def by (metis option.inject)

lemma commit_keeps:
  assumes inv: "pg_inv h d" and "db_procs d p = RowInserted rec r"
  shows "pg_inv h (commit_row p rec r d)" and "pg_inv h ((commit_row p rec r d)\<lparr>db_acks := db_acks d @ [rec]\<rparr>)"
proof -
  from assms have active: "db_procs d p \<noteq> Idle" and ok: "proc_ok h (db_log d) (RowInserted rec r)"
    unfolding pg_inv_def by (auto simp del: proc_ok.simps) (metis)
  from ok inv have log: "log_ok h (db_rows d @ [r]) (db_log d @ [rec])" by (auto simp: pg_inv_def intro: log_ok_append)
  from inv active have lock: "db_lock d = Some p" by (simp add: pg_inv_def)
  have idle: "(db_procs d)(p := Idle) = (\<lambda>_. Idle)" using only_holder_active [OF inv active] by (auto simp: fun_eq_iff)
  from inv have "subseq (db_acks d) (db_log d)" by (simp add: pg_inv_def)
  then have "subseq (db_acks d) (db_log d @ [rec])" "subseq (db_acks d @ [rec]) (db_log d @ [rec])"
    by (auto intro: list_emb_append_mono)
  with log lock idle show "pg_inv h (commit_row p rec r d)" "pg_inv h ((commit_row p rec r d)\<lparr>db_acks := db_acks d @ [rec]\<rparr>)"
    by (simp_all add: pg_inv_def commit_row_def abort_txn_def)
qed

lemma step_keeps:
  assumes inv: "pg_inv h d"
  shows "pg_inv h (append_step h p want d)"
proof (cases "db_procs d p")
  case Idle
  with inv show ?thesis by (auto simp: append_step_def pg_inv_def)
next
  case (Locked e ts)
  from inv have "head_in_txn (db_rows d) = (next_seq (chain_of (db_log d)), head_hash (chain_of (db_log d)))"
    unfolding pg_inv_def using head_is_chain_head by blast
  with Locked inv show ?thesis by (auto simp: append_step_def pg_inv_def)
next
  case (HeadRead e ts seq prev)
  with inv have "proc_ok h (db_log d) (HeadRead e ts seq prev)" unfolding pg_inv_def by metis
  then have "seal h (payload_of e ts seq prev) = fst (chain_append h e ts (chain_of (db_log d)))"
    by (simp add: chain_append_def payload_of_def Let_def)
  with HeadRead inv show ?thesis
    by (auto simp: append_step_def Let_def abort_keeps row_admitted_def row_for_def split: option.split)
       (auto simp: pg_inv_def row_for_def)
next
  case (RowInserted rec r)
  with commit_keeps(2) [OF inv RowInserted] show ?thesis by (simp add: append_step_def)
qed

lemma pg_reach_inv: "pg_reach h d \<Longrightarrow> pg_inv h d"
proof (induction rule: pg_reach.induct)
  case start
  show ?case by (simp add: pg_inv_def db_start_def log_ok_def chain_wf_def chain_verify_def verify_chain_def)
qed (auto intro: step_keeps abort_keeps commit_keeps)

section \<open>One chain\<close>

lemma rows_to_records_log:
  assumes "list_all2 (row_for h) rows log"
    and "\<And>rec t. rec \<in> set log \<Longrightarrow> from_utf8 (hs_canonical h (ar_payload rec)) = Some t \<Longrightarrow> from_str t = Inr (ar_payload rec)"
  shows "rows_to_records from_str rows = Inr log"
  using assms
proof (induction rows log rule: list_all2_induct)
  case (Cons r rows rec log)
  then have "rows_to_records from_str rows = Inr log" by auto
  moreover from Cons(1) obtain t where "from_utf8 (hs_canonical h (ar_payload rec)) = Some t" "r = row_of t rec"
    by (auto simp: row_for_def)
  with Cons.prems [of rec t] have "row_to_record from_str (pw_payload r) (pw_record_hash r) = Inr rec"
    by (simp add: row_of_def row_to_record_def)
  ultimately show ?case by simp
qed simp

lemma load_is_log:
  assumes "log_ok h rows log"
    and "\<And>rec t. rec \<in> set log \<Longrightarrow> from_utf8 (hs_canonical h (ar_payload rec)) = Some t \<Longrightarrow> from_str t = Inr (ar_payload rec)"
  shows "load_chain_mut from_str rows = Inr log"
proof -
  have "sorted (map (\<lambda>r. sint (pw_seq r)) rows)"
    using sorted_wrt_mono_rel [OF _ rows_sorted [OF assms(1)], of "\<lambda>a b. sint (pw_seq a) \<le> sint (pw_seq b)"]
    by (simp add: sorted_map)
  then have "sort_key (\<lambda>r. sint (pw_seq r)) rows = rows" by (rule sort_key_id_if_sorted)
  moreover from assms(1) have "list_all2 (row_for h) rows log" by (simp add: log_ok_def)
  moreover from this have "rows_to_records from_str rows = Inr log" by (rule rows_to_records_log) (rule assms(2))
  ultimately show ?thesis by (simp add: load_chain_mut_def)
qed

text \<open>
  C24: however many processes append to the audit table, and however their steps interleave, fail or
  lose their answers, what the table loads is the records in the order of their commits: it verifies,
  it is numbered from zero without a gap, every record a caller was answered with is in it, in
  order, and no number a process is about to insert is taken. The table never outgrows what a signed
  number can order.
\<close>

theorem concurrent_appends_form_one_chain:
  assumes "pg_reach h d"
    and "\<And>rec t. rec \<in> set (db_log d) \<Longrightarrow> from_utf8 (hs_canonical h (ar_payload rec)) = Some t \<Longrightarrow> from_str t = Inr (ar_payload rec)"
  shows "load_chain_mut from_str (db_rows d) = Inr (db_log d) \<and> verify_chain h (db_log d) = Inr ()
    \<and> map (\<lambda>r. au_seq (ar_payload r)) (db_log d) = map word_of_nat [0..<length (db_log d)] \<and> length (db_log d) \<le> 2 ^ 63
    \<and> subseq (db_acks d) (db_log d)
    \<and> (\<forall>p e ts seq prev. db_procs d p = HeadRead e ts seq prev \<longrightarrow> seq \<notin> pw_seq ` set (db_rows d))"
proof -
  from pg_reach_inv [OF assms(1)] have log: "log_ok h (db_rows d) (db_log d)" and acks: "subseq (db_acks d) (db_log d)"
    and procs: "\<And>p. proc_ok h (db_log d) (db_procs d p)" by (auto simp: pg_inv_def)
  from log have wf: "chain_wf h (chain_of (db_log d))" and len: "length (db_log d) \<le> 2 ^ 63" by (simp_all add: log_ok_def)
  from wf have "verify_chain h (db_log d) = Inr ()"
    "map (\<lambda>r. au_seq (ar_payload r)) (db_log d) = map word_of_nat [0..<length (db_log d)]"
    by (auto simp: chain_wf_def chain_verify_def intro: nth_equalityI)
  moreover have "seq \<notin> pw_seq ` set (db_rows d)" if "db_procs d p = HeadRead e ts seq prev" for p e ts seq prev
  proof
    assume "seq \<in> pw_seq ` set (db_rows d)"
    moreover have "length (db_rows d) = length (db_log d)" using log by (auto simp: log_ok_def dest: list_all2_lengthD)
    ultimately obtain i where i: "i < length (db_log d)" "seq = pw_seq (db_rows d ! i)" by (auto simp: in_set_conv_nth)
    from procs [of p] that have "seq = word_of_nat (length (db_log d))" by (simp add: next_seq_def)
    with i row_seqs(1) [OF log i(1)] have "(word_of_nat i :: 64 word) = word_of_nat (length (db_log d))" by simp
    with i(1) len show False by (simp add: word_of_nat_eq_iff take_bit_nat_eq_self)
  qed
  moreover have "load_chain_mut from_str (db_rows d) = Inr (db_log d)" by (rule load_is_log [OF log]) (rule assms(2))
  ultimately show ?thesis using len acks by blast
qed

definition pg_hasher :: "unit hasher" where
  "pg_hasher = \<lparr>hs_canonical = (\<lambda>p. if au_timestamp_unix_millis p = 1 then [97] else [98]), hs_sha256 = id, hs_hex_encode = str_of_bytes\<rparr>"

text \<open>Two processes: the second one waits for the lock until the first has committed.\<close>

definition pg_sample :: "unit audit_db" where
  "pg_sample = foldl (\<lambda>d (p, ts). append_step pg_hasher p (sample_entry, ts) d) db_start
     [(0, 1), (1, 2), (0, 1), (0, 1), (1, 2), (0, 1), (1, 2), (1, 2), (1, 2), (1, 2)]"

lemma pg_sample_reach: "pg_reach pg_hasher pg_sample"
proof -
  have steps: "pg_reach h d \<Longrightarrow> pg_reach h (foldl (\<lambda>d (p, ts). append_step h p (e, ts) d) d xs)" for h d xs and e :: "unit new_entry"
    by (induction xs arbitrary: d) (auto intro: pg_reach.step)
  show ?thesis unfolding pg_sample_def by (rule steps [OF pg_reach.start])
qed

theorem concurrent_appends_form_one_chain_witness:
  "\<exists>from_str (a :: unit audit_record) b. load_chain_mut from_str (db_rows pg_sample) = Inr [a, b] \<and> au_timestamp_unix_millis (ar_payload a) = 1
     \<and> au_timestamp_unix_millis (ar_payload b) = 2"
proof -
  define a where "a = seal pg_hasher (payload_of sample_entry 1 0 GENESIS_PREV_HASH)"
  define b where "b = seal pg_hasher (payload_of sample_entry 2 1 (ar_record_hash a))"
  have time: "au_timestamp_unix_millis (ar_payload a) = 1" "au_timestamp_unix_millis (ar_payload b) = 2"
    by (simp_all add: a_def b_def seal_def payload_of_def)
  have canon: "from_utf8 (hs_canonical pg_hasher (ar_payload a)) = Some (str_of_bytes [97])" "from_utf8 (hs_canonical pg_hasher (ar_payload b)) = Some (str_of_bytes [98])"
    using time by (simp_all add: pg_hasher_def from_utf8_def)
  have "ar_record_hash b \<noteq> ar_record_hash a"
    by (simp add: a_def b_def seal_def compute_hash_def hash_input_def payload_of_def pg_hasher_def str_of_bytes_def)
  then have log: "db_log pg_sample = [a, b]"
    using canon unfolding a_def b_def
    by (simp add: pg_sample_def db_start_def append_step_def head_in_txn_def abort_txn_def commit_row_def row_admitted_def row_of_def
        seal_def payload_of_def Let_def)
  define from_str where "from_str t = (if t = str_of_bytes [97] then Inr (ar_payload a) else Inr (ar_payload b) :: string + unit audit_payload)" for t
  have codec: "from_str t = Inr (ar_payload r)"
    if "r \<in> set (db_log pg_sample)" "from_utf8 (hs_canonical pg_hasher (ar_payload r)) = Some t" for r t
    using that canon by (auto simp: log from_str_def str_of_bytes_def)
  have "load_chain_mut from_str (db_rows pg_sample) = Inr (db_log pg_sample)"
    using concurrent_appends_form_one_chain [where from_str = from_str, OF pg_sample_reach] codec by blast
  with log time show ?thesis by auto
qed

end
