(* ===== verification/Proxy_Threaded_Sink.thy ===== *)
theory Proxy_Threaded_Sink
  imports Audit_Pg
begin

text \<open>
  The sink of the proxy's recorder (\<^verbatim>\<open>crates/proxy/src/threaded_sink.rs\<close>): a thread owns the PostgreSQL
  sink; a call sends a command over a channel and waits for the reply. The caller holds the recorder's
  mutex, so at most one command is under way and the channel is empty between calls. The inner sink is
  a parameter; that the thread dies during a command is the outcome \<open>None\<close>.
\<close>

datatype 'e cmd = CmdAppend 'e u64 | CmdLoadChain

datatype ('r, 'l) reply = AppendReply "sink_error + 'r" | LoadReply "sink_error + 'l"

record 's threaded_sink =
  th_sender :: bool
  th_running :: bool
  th_sink :: 's

text \<open>The sink the thread owns: its append and its load may fail, or end the thread.\<close>

record ('e, 's, 'r, 'l) owned_sink =
  os_append :: "'e \<Rightarrow> u64 \<Rightarrow> 's \<Rightarrow> (sink_error + 'r) option \<times> 's"
  os_load :: "'s \<Rightarrow> (sink_error + 'l) option \<times> 's"

definition gone :: sink_error where
  "gone = SinkBackend ''audit thread is gone''"

definition dropped_reply :: sink_error where
  "dropped_reply = SinkBackend ''audit thread dropped the reply''"

text \<open>The start: the thread could not be made, its connection failed, it died, or it is ready.\<close>

datatype 's thread_start = SpawnFailed string | ConnectFailed string | DiedOnStart string | Ready 's

fun threaded_connect :: "'s thread_start \<Rightarrow> sink_error + 's threaded_sink" where
  "threaded_connect (SpawnFailed e) = Inl (SinkBackend (''spawn audit thread: '' @ e))"
| "threaded_connect (ConnectFailed e) = Inl (SinkBackend e)"
| "threaded_connect (DiedOnStart e) = Inl (SinkBackend (''audit thread died on start: '' @ e))"
| "threaded_connect (Ready s) = Inr \<lparr>th_sender = True, th_running = True, th_sink = s\<rparr>"

text \<open>One turn of the thread's loop: it serves a command and replies, or dies with the reply channel.\<close>

fun thread_turn :: "('e, 's, 'r, 'l) owned_sink \<Rightarrow> 'e cmd \<Rightarrow> 's \<Rightarrow> ('r, 'l) reply option \<times> 's" where
  "thread_turn os (CmdAppend e ts) s = (case os_append os e ts s of (r, s') \<Rightarrow> (map_option AppendReply r, s'))"
| "thread_turn os CmdLoadChain s = (case os_load os s of (r, s') \<Rightarrow> (map_option LoadReply r, s'))"

text \<open>A call: no sender or no receiver is an error; otherwise the command is served and the reply awaited.\<close>

definition thread_call ::
  "('e, 's, 'r, 'l) owned_sink \<Rightarrow> 'e cmd \<Rightarrow> ('s threaded_sink, sink_error, ('r, 'l) reply) eff" where
  "thread_call os c st =
     (if \<not> th_sender st \<or> \<not> th_running st then (Inl gone, st)
      else case thread_turn os c (th_sink st) of
        (None, s) \<Rightarrow> (Inl dropped_reply, st\<lparr>th_running := False, th_sink := s\<rparr>)
      | (Some r, s) \<Rightarrow> (Inr r, st\<lparr>th_sink := s\<rparr>))"

definition threaded_append ::
  "('e, 's, 'r, 'l) owned_sink \<Rightarrow> 'e \<Rightarrow> u64 \<Rightarrow> ('s threaded_sink, sink_error, 'r) eff" where
  "threaded_append os e ts st =
     (case thread_call os (CmdAppend e ts) st of
        (Inl x, st') \<Rightarrow> (Inl x, st')
      | (Inr (AppendReply r), st') \<Rightarrow> (r, st')
      | (Inr (LoadReply r), st') \<Rightarrow> (Inl dropped_reply, st'))"

definition threaded_load_chain ::
  "('e, 's, 'r, 'l) owned_sink \<Rightarrow> ('s threaded_sink, sink_error, 'l) eff" where
  "threaded_load_chain os st =
     (case thread_call os CmdLoadChain st of
        (Inl x, st') \<Rightarrow> (Inl x, st')
      | (Inr (LoadReply r), st') \<Rightarrow> (r, st')
      | (Inr (AppendReply r), st') \<Rightarrow> (Inl dropped_reply, st'))"

text \<open>Dropping the handle closes the channel, which ends the loop of the thread, and joins it.\<close>

definition threaded_drop :: "'s threaded_sink \<Rightarrow> 's threaded_sink" where
  "threaded_drop st = st\<lparr>th_sender := False, th_running := False\<rparr>"

section \<open>The thread is transparent\<close>

text \<open>A sink whose calls always return, owned by the thread.\<close>

definition steady :: "('e \<Rightarrow> u64 \<Rightarrow> ('s, sink_error, 'r) eff) \<Rightarrow> ('s \<Rightarrow> sink_error + 'l) \<Rightarrow> ('e, 's, 'r, 'l) owned_sink" where
  "steady app load = \<lparr>os_append = (\<lambda>e ts s. case app e ts s of (r, s') \<Rightarrow> (Some r, s')), os_load = (\<lambda>s. (Some (load s), s))\<rparr>"

lemma threaded_append_steady:
  "threaded_append (steady app load) e ts st =
     (if th_sender st \<and> th_running st then (case app e ts (th_sink st) of (r, s) \<Rightarrow> (r, st\<lparr>th_sink := s\<rparr>)) else (Inl gone, st))"
  by (auto simp: threaded_append_def thread_call_def steady_def split: prod.split)

lemma threaded_load_steady:
  "threaded_load_chain (steady app load) st =
     (if th_sender st \<and> th_running st then (load (th_sink st), st) else (Inl gone, st))"
  by (auto simp: threaded_load_chain_def thread_call_def steady_def)

interpretation threaded: audit_sink h "threaded_append (steady (in_memory_append h) in_memory_load_chain)" "\<lambda>st. ims_chain (th_sink st)"
  by unfold_locales (auto simp: threaded_append_steady in_memory_append_def split: if_splits prod.splits)

lemma threaded_log_verifies:
  assumes "chain_wf h (ims_chain (th_sink st))"
  shows "chain_wf h (ims_chain (th_sink (append_all (threaded_append (steady (in_memory_append h) in_memory_load_chain)) es st)))"
  using assms by (rule threaded.append_all_keeps_wf)

lemma dropped_sink_refuses: "threaded_append os e ts (threaded_drop st) = (Inl gone, threaded_drop st)"
  by (simp add: threaded_append_def thread_call_def threaded_drop_def)

end
