(* ===== verification/Process_Start.thy ===== *)
theory Process_Start
  imports Audit_Boot Audit_Pg Applyd_Service Proxy_Serve
begin

text \<open>
  The start of the two processes (\<^verbatim>\<open>crates/proxy/src/main.rs\<close>, \<^verbatim>\<open>crates/applyd/src/main.rs\<close>): what they
  read from the environment and the policy, in order, the start of the audit log, and the tick of
  the anchor. The environment, the policy file, the YAML parser, the address parser, TLS material,
  Ed25519 and the connections are parameters (the daemon's two connections by their number); binding and listening follow and are not modelled.
\<close>

section \<open>The environment\<close>

datatype ('p, 'io) start_error =
    EnvMissing string
  | EnvEmpty string
  | EnvNotBool string string
  | BadAddress string
  | BadNumber string
  | PolicyUnreadable 'io
  | BadPolicy "'p policy_error"
  | BadConfig config_error
  | BadTarget target_resolution_error
  | BadRole string
  | BadSecret secret_error
  | AuditConnect "'io boot_error"
  | AuditBootFailed "'io boot_error"
  | RecorderConnect string
  | BackendConnect string
  | PubkeyNotHex
  | PubkeyLength
  | PubkeyInvalid

record ('i, 's, 'f, 'io, 'p) proc_env =
  pe_getenv :: "string \<Rightarrow> string option"
  pe_read_to_string :: "string \<Rightarrow> 'io + string"
  pe_from_yaml :: "string \<Rightarrow> 'p + policy_config"
  pe_is_address :: "string \<Rightarrow> bool"
  pe_audit :: "('i, 's, 'f, 'io) boot_env"

definition env_default :: "('i, 's, 'f, 'io, 'p) proc_env \<Rightarrow> string \<Rightarrow> string \<Rightarrow> string" where
  "env_default env key dflt = (case pe_getenv env key of None \<Rightarrow> dflt | Some v \<Rightarrow> v)"

definition env_secret :: "('i, 's, 'f, 'io, 'p) proc_env \<Rightarrow> string \<Rightarrow> ('p, 'io) start_error + string" where
  "env_secret env key =
     (case pe_getenv env key of
        None \<Rightarrow> Inl (EnvMissing key)
      | Some v \<Rightarrow> if v = [] then Inl (EnvEmpty key) else Inr v)"

definition env_bool :: "('i, 's, 'f, 'io, 'p) proc_env \<Rightarrow> string \<Rightarrow> ('p, 'io) start_error + bool option" where
  "env_bool env key =
     (case pe_getenv env key of
        None \<Rightarrow> Inr None
      | Some v \<Rightarrow>
          let t = to_ascii_lowercase (trim v) in
          if t = ''true'' \<or> t = ''1'' \<or> t = ''yes'' \<or> t = ''on'' then Inr (Some True)
          else if t = ''false'' \<or> t = ''0'' \<or> t = ''no'' \<or> t = ''off'' then Inr (Some False)
          else Inl (EnvNotBool key t))"

text \<open>\<^verbatim>\<open>str::parse::<u64>\<close>: an optional plus sign, then decimal digits, no overflow.\<close>

definition parse_u64 :: "string \<Rightarrow> u64 option" where
  "parse_u64 s =
     (case parse_digits (case s of CHR ''+'' # r \<Rightarrow> r | _ \<Rightarrow> s) of
        None \<Rightarrow> None
      | Some n \<Rightarrow> if n < 2 ^ 64 then Some (word_of_nat n) else None)"

definition env_u64 :: "('i, 's, 'f, 'io, 'p) proc_env \<Rightarrow> string \<Rightarrow> string \<Rightarrow> ('p, 'io) start_error + u64" where
  "env_u64 env key dflt = (case parse_u64 (env_default env key dflt) of None \<Rightarrow> Inl (BadNumber key) | Some n \<Rightarrow> Inr n)"

definition load_policy :: "('i, 's, 'f, 'io, 'p) proc_env \<Rightarrow> ('p, 'io) start_error + policy_config" where
  "load_policy env =
     (case pe_read_to_string env (env_default env ''PGB_POLICY_PATH'' ''crates/policy/policy.example.yaml'') of
        Inl e \<Rightarrow> Inl (PolicyUnreadable e)
      | Inr yaml \<Rightarrow> (case load_from_yaml (pe_from_yaml env) yaml of Inl e \<Rightarrow> Inl (BadPolicy e) | Inr cfg \<Rightarrow> Inr cfg))"

text \<open>Both processes resolve the primary from the same settings; the default role is their own.\<close>

definition resolve_backend_target ::
  "string \<Rightarrow> policy_config \<Rightarrow> ('i, 's, 'f, 'io, 'p) proc_env \<Rightarrow> ('p, 'io) start_error + resolved_target" where
  "resolve_backend_target default_role policy env =
     (case resolve
        \<lparr>tr_policy_target = pc_primary policy, tr_host_override = pe_getenv env ''PGB_BACKEND_HOST'',
         tr_port_override = pe_getenv env ''PGB_BACKEND_PORT'', tr_db_override = pe_getenv env ''PGB_BACKEND_DB'',
         tr_role_override = pe_getenv env ''PGB_BACKEND_ROLE'', tr_default_database = ''postgres'',
         tr_default_role = default_role, tr_host_env_key = ''PGB_BACKEND_HOST'', tr_port_env_key = ''PGB_BACKEND_PORT'',
         tr_policy_hint = ''policy.yaml `primary:` (the BYO primary target, SPEC '' @ [CHR 0xC2, CHR 0xA7] @ ''0.5)''\<rparr> of
        Inl e \<Rightarrow> Inl (BadTarget e)
      | Inr t \<Rightarrow> Inr t)"

section \<open>The proxy\<close>

definition tls_from_env :: "('i, 's, 'f, 'io, 'p) proc_env \<Rightarrow> tls_config option" where
  "tls_from_env env =
     (case (pe_getenv env ''PGB_PROXY_TLS_CERT'', pe_getenv env ''PGB_PROXY_TLS_KEY'') of
        (Some cert, Some key) \<Rightarrow> Some \<lparr>tc_cert_pem = cert, tc_key_pem = key\<rparr>
      | _ \<Rightarrow> None)"

definition proxy_config_from_env :: "('i, 's, 'f, 'io, 'p) proc_env \<Rightarrow> ('p, 'io) start_error + proxy_config" where
  "proxy_config_from_env env =
     (let listen = env_default env ''PGB_PROXY_LISTEN'' ''127.0.0.1:6432'' in
      if \<not> pe_is_address env listen then Inl (BadAddress listen)
      else
      let tls = tls_from_env env in
      rbind (env_bool env ''PGB_PROXY_REQUIRE_TLS'') (\<lambda>explicit.
      let require_tls = resolve_require_tls (tls \<noteq> None) explicit;
          policy_role = env_default env ''PGB_POLICY_ROLE'' ''analytics'' in
      rbind (load_policy env) (\<lambda>policy.
      rbind (case budget_for policy policy_role of Inl e \<Rightarrow> Inl (BadConfig e) | Inr b \<Rightarrow> Inr b) (\<lambda>budget.
      rbind (resolve_backend_target ''pgb_agent'' policy env) (\<lambda>target.
      rbind (env_secret env ''PGB_BACKEND_PASSWORD'') (\<lambda>password.
      rbind (env_secret env ''PGB_AGENT_PASSWORD'') (\<lambda>agent_password.
      rbind (env_u64 env ''PGB_STATEMENT_TIMEOUT_MS'' ''30000'') (\<lambda>timeout.
      let cfg = \<lparr>px_listen = listen, px_tls = tls, px_require_tls = require_tls,
            px_backend = \<lparr>bt_host = rt_host target, bt_port = rt_port target, bt_database = rt_database target,
              bt_role = rt_role target, bt_password = password\<rparr>,
            px_agent_user = env_default env ''PGB_AGENT_USER'' ''pgb_agent'', px_agent_password = agent_password,
            px_policy_role = policy_role, px_budget = budget, px_statement_timeout_ms = timeout,
            px_search_path = env_default env ''PGB_SEARCH_PATH'' DEFAULT_SEARCH_PATH\<rparr> in
      rbind (case validate_tls cfg of Inl e \<Rightarrow> Inl (BadConfig e) | Inr _ \<Rightarrow> Inr ()) (\<lambda>_. Inr cfg)))))))))"

text \<open>Connect and boot: what both processes do with the store, the anchor file and the role.\<close>

definition start_audit ::
  "('i, 's, 'f, 'io, 'p) proc_env \<Rightarrow> string \<Rightarrow> local_secret_store \<Rightarrow> u64 \<Rightarrow> string \<Rightarrow> anchor_role \<Rightarrow> u64
    \<Rightarrow> ('f, ('p, 'io) start_error, audit_boot \<times> 's) eff" where
  "start_audit env meta_dsn store interval anchor_path role now f =
     (case connect_with_anchor (pe_audit env) meta_dsn store interval anchor_path f of
        (Inl e, f1) \<Rightarrow> (Inl (AuditConnect e), f1)
      | (Inr (b, s), f1) \<Rightarrow>
          (case boot (pe_audit env) role now (b, s, f1) of
             (Inl e, b', s', f2) \<Rightarrow> (Inl (AuditBootFailed e), f2)
           | (Inr _, b', s', f2) \<Rightarrow> (Inr (b', s'), f2)))"

definition proxy_start ::
  "('i, 's, 'f, 'io, 'p) proc_env \<Rightarrow> u64 \<Rightarrow> ('f, ('p, 'io) start_error, proxy_config \<times> audit_boot \<times> 's \<times> 's \<times> anchor_role) eff" where
  "proxy_start env now =
     ebind (elift (proxy_config_from_env env)) (\<lambda>cfg.
     ebind (elift (env_secret env ''PGB_META_DSN'')) (\<lambda>meta_dsn.
     ebind (elift (env_secret env ''PGB_AUDIT_SIGNING_KEY'')) (\<lambda>signing_key.
     ebind (elift (env_u64 env ''PGB_ANCHOR_INTERVAL_MS'' ''60000'')) (\<lambda>interval.
     ebind (elift (env_secret env ''PGB_ANCHOR_PATH'')) (\<lambda>anchor_path.
     (case secret_put AUDIT_SIGNING_KEY_ID (as_bytes signing_key) secret_store_new of
        (Inl e, _) \<Rightarrow> efail (BadSecret e)
      | (Inr _, store) \<Rightarrow>
     (case role_parse (pe_getenv env ''PGB_ANCHOR_ROLE'') Owner of
        Inl v \<Rightarrow> efail (BadRole v)
      | Inr role \<Rightarrow>
     ebind (start_audit env meta_dsn store interval anchor_path role now) (\<lambda>(b, s).
     (case be_connect (pe_audit env) meta_dsn of
        Inl e \<Rightarrow> efail (RecorderConnect e)
      | Inr recorder \<Rightarrow> eret (cfg, b, s, recorder, role))))))))))"

text \<open>The background task of the proxy: an owner anchors, any other role does nothing.\<close>

definition anchor_task ::
  "('i, 's, 'f, 'io) boot_env \<Rightarrow> anchor_role \<Rightarrow> u64 \<Rightarrow> (audit_boot \<times> 's \<times> 'f, 'io boot_error, unit) eff" where
  "anchor_task env role now = (if is_owner role then ebind (boot_maybe_anchor env now) (\<lambda>_. eret ()) else eret ())"

section \<open>The apply daemon\<close>

definition parse_pubkey ::
  "(string \<Rightarrow> bytes option) \<Rightarrow> (bytes \<Rightarrow> 'k option) \<Rightarrow> string \<Rightarrow> ('p, 'io) start_error + 'k" where
  "parse_pubkey hex_decode from_bytes hex_str =
     (case hex_decode (trim hex_str) of
        None \<Rightarrow> Inl PubkeyNotHex
      | Some bs \<Rightarrow>
          if length bs \<noteq> 32 then Inl PubkeyLength
          else (case from_bytes bs of None \<Rightarrow> Inl PubkeyInvalid | Some k \<Rightarrow> Inr k))"

definition applyd_backends ::
  "('i, 's, 'f, 'io, 'p) proc_env \<Rightarrow> (nat \<Rightarrow> string \<Rightarrow> string + 'c) \<Rightarrow> policy_config \<Rightarrow> ('p, 'io) start_error + 'c \<times> 'c" where
  "applyd_backends env backend_connect policy =
     rbind (resolve_backend_target ''pgb_applier'' policy env) (\<lambda>target.
     rbind (env_secret env ''PGB_BACKEND_PASSWORD'') (\<lambda>password.
     let dsn = to_credential_less_dsn target @ '' password='' @ password in
     (case backend_connect 0 dsn of
        Inl e \<Rightarrow> Inl (BackendConnect e)
      | Inr apply_client \<Rightarrow>
          (case backend_connect 1 dsn of Inl e \<Rightarrow> Inl (BackendConnect e) | Inr read_client \<Rightarrow> Inr (apply_client, read_client)))))"

text \<open>
  The daemon's start gives the service, the handle of the log and its sink, and the two connections.
  \<open>seq\<close> is the first number of its proposals.
\<close>

definition applyd_start ::
  "('i, 's, 'f, 'io, 'p) proc_env \<Rightarrow> (string \<Rightarrow> bytes option) \<Rightarrow> (bytes \<Rightarrow> 'k option) \<Rightarrow> (nat \<Rightarrow> string \<Rightarrow> string + 'c) \<Rightarrow> u64 \<Rightarrow> u64
    \<Rightarrow> ('f, ('p, 'io) start_error, ('k, in_memory_nonce_store) service \<times> audit_boot \<times> 's \<times> 'c \<times> 'c) eff" where
  "applyd_start env hex_decode from_bytes backend_connect now seq =
     ebind (elift (load_policy env)) (\<lambda>policy.
     ebind (elift (rbind (env_secret env ''PGB_APPROVER_PUBKEY'') (parse_pubkey hex_decode from_bytes))) (\<lambda>verifying_key.
     ebind (elift (env_secret env ''PGB_META_DSN'')) (\<lambda>meta_dsn.
     ebind (elift (env_secret env ''PGB_AUDIT_SIGNING_KEY'')) (\<lambda>signing_key.
     ebind (elift (env_u64 env ''PGB_ANCHOR_INTERVAL_MS'' ''60000'')) (\<lambda>interval.
     ebind (elift (env_secret env ''PGB_ANCHOR_PATH'')) (\<lambda>anchor_path.
     (case role_parse (pe_getenv env ''PGB_ANCHOR_ROLE'') Verify of
        Inl v \<Rightarrow> efail (BadRole v)
      | Inr role \<Rightarrow>
     (case secret_put AUDIT_SIGNING_KEY_ID (as_bytes signing_key) secret_store_new of
        (Inl e, _) \<Rightarrow> efail (BadSecret e)
      | (Inr _, store) \<Rightarrow>
     ebind (start_audit env meta_dsn store interval anchor_path role now) (\<lambda>(b, s).
     ebind (elift (applyd_backends env backend_connect policy)) (\<lambda>(apply_client, read_client).
     eret (service_new verifying_key in_memory_new in_memory_new policy seq, b, s, apply_client, read_client)))))))))))"

section \<open>A process that starts\<close>

lemma ecase_Inr_iff:
  "case_sum (\<lambda>e. efail (E e)) F x s = (Inr z, s') \<longleftrightarrow> (\<exists>y. x = Inr y \<and> F y s = (Inr z, s'))"
  by (cases x) (simp_all add: efail_def)

lemma rcase_Inr_iff: "case_sum (\<lambda>e. Inl (E e)) F x = Inr z \<longleftrightarrow> (\<exists>y. x = Inr y \<and> F y = Inr z)"
  by (cases x) simp_all

lemma ebind_elift_Inr_iff:
  "ebind (elift x) F s = (Inr z, s') \<longleftrightarrow> (\<exists>y. x = Inr y \<and> F y s = (Inr z, s'))"
  by (cases x) (simp_all add: ebind_def elift_def)

lemma env_secret_Inr: "env_secret env key = Inr v \<longleftrightarrow> pe_getenv env key = Some v \<and> v \<noteq> []"
  by (auto simp: env_secret_def split: option.splits)

text \<open>The log a process found at its start: it verifies, and its head is the one of the last anchor, if there is one.\<close>

definition audit_checked ::
  "('i, 's, 'f, 'io) boot_env \<Rightarrow> string \<Rightarrow> local_secret_store \<Rightarrow> u64 \<Rightarrow> string \<Rightarrow> 'f \<Rightarrow> 'i audit_record list \<Rightarrow> bool" where
  "audit_checked env dsn store interval path f records =
     (\<exists>b s f1 s1. connect_with_anchor env dsn store interval path f = (Inr (b, s), f1) \<and> be_load env s = (Inr records, s1)
        \<and> verify_chain (be_hasher env) records = Inr ()
        \<and> (latest (ab_worm b) = None
           \<or> verify_records_against_anchor_with (be_hmac env) (be_hex_decode env) records (ab_worm b) (ab_verifier b) = Inr Verified))"

lemma boot_ok:
  assumes "boot env role now (b, s, f) = (Inr u, b', s', f')"
  shows "\<exists>records s1. be_load env s = (Inr records, s1) \<and> verify_chain (be_hasher env) records = Inr ()
    \<and> (latest (ab_worm b) = None
       \<or> verify_records_against_anchor_with (be_hmac env) (be_hex_decode env) records (ab_worm b) (ab_verifier b) = Inr Verified)"
  using assms
  by (cases role)
    (auto simp: verify_then_anchor_def verify_only_def load_chain_def check_integrity_def check_durable_head_def
      assert_head_matches_durable_anchor_def ebind_def elift_def split: prod.splits sum.splits if_splits anchor_verification.splits)

lemma start_audit_checked:
  assumes "start_audit env dsn store interval path role now f = (Inr (b, s), f')"
  shows "\<exists>records. audit_checked (pe_audit env) dsn store interval path f records"
proof -
  from assms obtain b0 s0 f1 where "connect_with_anchor (pe_audit env) dsn store interval path f = (Inr (b0, s0), f1)"
    and "boot (pe_audit env) role now (b0, s0, f1) = (Inr (), b, s, f')"
    by (auto simp: start_audit_def simp del: boot.simps split: prod.splits sum.splits)
  with boot_ok [OF this(2)] show ?thesis unfolding audit_checked_def by blast
qed

lemma load_policy_ok:
  assumes "load_policy env = Inr policy"
  shows "pc_version policy \<noteq> 0" and "bt_get (pc_roles policy) r = Some rp \<Longrightarrow> budget_ok (rp_budget rp)" and "target_ok (pc_primary policy)"
proof -
  from assms have "\<exists>yaml. load_from_yaml (pe_from_yaml env) yaml = Inr policy"
    by (auto simp: load_policy_def split: sum.splits)
  then show "pc_version policy \<noteq> 0" and "bt_get (pc_roles policy) r = Some rp \<Longrightarrow> budget_ok (rp_budget rp)" and "target_ok (pc_primary policy)"
    by (auto simp: policy_loads_iff_safe list_all_iff dest!: map_of_SomeD)
qed

text \<open>Where a resolved host comes from: the environment, or the primary of the policy.\<close>

lemma resolved_host:
  assumes "resolve_backend_target role policy env = Inr t"
  shows "pe_getenv env ''PGB_BACKEND_HOST'' = Some (rt_host t) \<or> (\<exists>d. pc_primary policy = Some d \<and> dt_host d = rt_host t)"
  using assms
  by (auto simp: resolve_backend_target_def resolve_def or_policy_def rbind_Inr_iff Let_def split: sum.splits option.splits)

text \<open>The store the processes make holds the configured key; the call that puts it cannot fail.\<close>

definition signing_store :: "string \<Rightarrow> local_secret_store" where
  "signing_store key = snd (secret_put AUDIT_SIGNING_KEY_ID (as_bytes key) secret_store_new)"

lemma put_fresh_secret:
  assumes "key \<noteq> []"
  shows "secret_put AUDIT_SIGNING_KEY_ID (as_bytes key) secret_store_new = (Inr (), signing_store key)"
    and "secret_get (signing_store key) AUDIT_SIGNING_KEY_ID = Inr (as_bytes key)"
proof -
  from assms show put: "secret_put AUDIT_SIGNING_KEY_ID (as_bytes key) secret_store_new = (Inr (), signing_store key)"
    by (simp add: signing_store_def secret_put_def secret_store_new_def bt_contains_def as_bytes_def)
  show "secret_get (signing_store key) AUDIT_SIGNING_KEY_ID = Inr (as_bytes key)"
    using local_store.put_ok [OF _ put] by (simp add: secret_store_new_def)
qed

text \<open>
  A proxy that starts has its two passwords, TLS material whenever TLS is required, a budget whose
  caps are positive, from a policy that loaded, and a backend host that somebody configured; and the
  audit log it found verified, under the configured key, against the last durable anchor.
\<close>

lemma proxy_starts_fail_closed:
  assumes "proxy_start env now f = (Inr (cfg, b, s, recorder, role), f')"
  shows "bt_password (px_backend cfg) \<noteq> [] \<and> px_agent_password cfg \<noteq> [] \<and> \<not> (px_require_tls cfg \<and> px_tls cfg = None)
    \<and> budget_ok (px_budget cfg)
    \<and> (\<exists>policy. load_policy env = Inr policy
        \<and> (pe_getenv env ''PGB_BACKEND_HOST'' = Some (bt_host (px_backend cfg))
           \<or> (\<exists>t. pc_primary policy = Some t \<and> dt_host t = bt_host (px_backend cfg))))
    \<and> (\<exists>dsn key path interval store records. pe_getenv env ''PGB_META_DSN'' = Some dsn
        \<and> pe_getenv env ''PGB_AUDIT_SIGNING_KEY'' = Some key \<and> pe_getenv env ''PGB_ANCHOR_PATH'' = Some path
        \<and> secret_get store AUDIT_SIGNING_KEY_ID = Inr (as_bytes key)
        \<and> audit_checked (pe_audit env) dsn store interval path f records)"
proof -
  from assms obtain dsn key interval path f1 where cfg: "proxy_config_from_env env = Inr cfg"
    and env: "env_secret env ''PGB_META_DSN'' = Inr dsn" "env_secret env ''PGB_AUDIT_SIGNING_KEY'' = Inr key"
      "env_secret env ''PGB_ANCHOR_PATH'' = Inr path"
    and audit: "start_audit env dsn (signing_store key) interval path role now f = (Inr (b, s), f1)"
    by (auto simp: proxy_start_def ebind_Inr_iff elift_def env_secret_Inr put_fresh_secret(1) ecase_Inr_iff)
  from cfg obtain policy r t where load: "load_policy env = Inr policy"
    and role: "bt_get (pc_roles policy) (px_policy_role cfg) = Some r" "px_budget cfg = rp_budget r"
    and target: "resolve_backend_target ''pgb_agent'' policy env = Inr t" "bt_host (px_backend cfg) = rt_host t"
    and passwords: "bt_password (px_backend cfg) \<noteq> []" "px_agent_password cfg \<noteq> []"
    and tls: "\<not> (px_require_tls cfg \<and> px_tls cfg = None)"
    by (auto simp: proxy_config_from_env_def rbind_Inr_iff Let_def env_secret_Inr budget_for_def validate_tls_def
        split: if_splits option.splits sum.splits)
  from load_policy_ok(2) [OF load role(1)] role(2) have budget: "budget_ok (px_budget cfg)" by simp
  from start_audit_checked [OF audit] obtain records
    where "audit_checked (pe_audit env) dsn (signing_store key) interval path f records" ..
  with put_fresh_secret(2) [of key] env have log: "\<exists>dsn key path interval store records. pe_getenv env ''PGB_META_DSN'' = Some dsn
      \<and> pe_getenv env ''PGB_AUDIT_SIGNING_KEY'' = Some key \<and> pe_getenv env ''PGB_ANCHOR_PATH'' = Some path
      \<and> secret_get store AUDIT_SIGNING_KEY_ID = Inr (as_bytes key)
      \<and> audit_checked (pe_audit env) dsn store interval path f records"
    unfolding env_secret_Inr by blast
  from resolved_host [OF target(1)] target(2) load have host: "\<exists>policy. load_policy env = Inr policy
      \<and> (pe_getenv env ''PGB_BACKEND_HOST'' = Some (bt_host (px_backend cfg))
         \<or> (\<exists>t. pc_primary policy = Some t \<and> dt_host t = bt_host (px_backend cfg)))" by auto
  from passwords tls budget host log show ?thesis by blast
qed

text \<open>A certificate without its key is ignored: unless TLS is required explicitly, the proxy starts in the clear.\<close>

lemma half_configured_tls_is_clear:
  assumes "proxy_config_from_env env = Inr cfg" and "pe_getenv env ''PGB_PROXY_TLS_KEY'' = None"
    and "pe_getenv env ''PGB_PROXY_REQUIRE_TLS'' = None"
  shows "px_tls cfg = None \<and> \<not> px_require_tls cfg"
  using assms
  by (auto simp: proxy_config_from_env_def tls_from_env_def env_bool_def resolve_require_tls_def rbind_Inr_iff Let_def
      budget_for_def validate_tls_def split: if_splits option.splits sum.splits)

lemma verify_keeps_file:
  assumes "start_audit env dsn store interval path Verify now f = (Inr (b, s), f')"
    and "fs_open (be_files (pe_audit env)) path f \<noteq> NotThere"
  shows "f' = f"
  using assms
  by (auto simp: start_audit_def connect_with_anchor_def open_file_def verify_only_def load_chain_def check_integrity_def
      check_durable_head_def assert_head_matches_durable_anchor_def ebind_def elift_def
      split: prod.splits sum.splits opened.splits if_splits)

text \<open>
  C12: a daemon that starts serves with a policy that loaded, trusts exactly the key of the 32 bytes the
  operator configured, and holds two connections to a target that somebody configured, opened as the
  resolved role with a password; the audit log it found verified against the last durable anchor; and
  in its default role it leaves an anchor file that exists as it was.
\<close>

theorem applyd_starts_fail_closed:
  fixes env :: "('i, 's, 'f, 'io, 'p) proc_env" and from_bytes :: "bytes \<Rightarrow> 'k option"
  assumes "applyd_start env hex_decode from_bytes connect now seq f = (Inr (svc, b, s, apply_client, read_client), f')"
  shows "\<exists>policy vk hex bs target password dsn key path interval records.
    load_policy env = Inr policy \<and> svc = service_new vk in_memory_new in_memory_new policy seq
    \<and> pe_getenv env ''PGB_APPROVER_PUBKEY'' = Some hex \<and> hex_decode (trim hex) = Some bs \<and> length bs = 32 \<and> from_bytes bs = Some vk
    \<and> resolve_backend_target ''pgb_applier'' policy env = Inr target \<and> password \<noteq> []
    \<and> (pe_getenv env ''PGB_BACKEND_HOST'' = Some (rt_host target) \<or> (\<exists>t. pc_primary policy = Some t \<and> dt_host t = rt_host target))
    \<and> connect 0 (to_credential_less_dsn target @ '' password='' @ password) = Inr apply_client
    \<and> connect 1 (to_credential_less_dsn target @ '' password='' @ password) = Inr read_client
    \<and> pe_getenv env ''PGB_META_DSN'' = Some dsn \<and> pe_getenv env ''PGB_AUDIT_SIGNING_KEY'' = Some key
    \<and> pe_getenv env ''PGB_ANCHOR_PATH'' = Some path
    \<and> audit_checked (pe_audit env) dsn (signing_store key) interval path f records
    \<and> (pe_getenv env ''PGB_ANCHOR_ROLE'' = None \<and> fs_open (be_files (pe_audit env)) path f \<noteq> NotThere \<longrightarrow> f' = f)"
proof -
  from assms obtain policy hex vk dsn key interval path role where
    load: "load_policy env = Inr policy"
    and pub: "env_secret env ''PGB_APPROVER_PUBKEY'' = (Inr hex :: ('p, 'io) start_error + string)"
      "parse_pubkey hex_decode from_bytes hex = (Inr vk :: ('p, 'io) start_error + 'k)"
    and env: "pe_getenv env ''PGB_META_DSN'' = Some dsn" "pe_getenv env ''PGB_AUDIT_SIGNING_KEY'' = Some key"
      "pe_getenv env ''PGB_ANCHOR_PATH'' = Some path" and nonempty: "key \<noteq> []"
    and role: "role_parse (pe_getenv env ''PGB_ANCHOR_ROLE'') Verify = Inr role"
    and rest: "(case secret_put AUDIT_SIGNING_KEY_ID (as_bytes key) secret_store_new of
        (Inl e, _) \<Rightarrow> efail (BadSecret e)
      | (Inr _, store) \<Rightarrow>
     ebind (start_audit env dsn store interval path role now) (\<lambda>(b, s).
     ebind (elift (applyd_backends env connect policy)) (\<lambda>(apply_client, read_client).
     eret (service_new vk in_memory_new in_memory_new policy seq, b, s, apply_client, read_client)))) f
      = (Inr (svc, b, s, apply_client, read_client), f')"
    unfolding applyd_start_def ebind_elift_Inr_iff ecase_Inr_iff env_secret_Inr rbind_Inr_iff by blast
  from rest have audit: "start_audit env dsn (signing_store key) interval path role now f = (Inr (b, s), f')"
    and backends: "applyd_backends env connect policy = Inr (apply_client, read_client)"
    and svc: "svc = service_new vk in_memory_new in_memory_new policy seq"
    by (auto simp: ebind_Inr_iff ebind_elift_Inr_iff put_fresh_secret(1) [OF nonempty])
  from backends obtain target password where
    target: "resolve_backend_target ''pgb_applier'' policy env = Inr target" and password: "password \<noteq> []"
    and connect: "connect 0 (to_credential_less_dsn target @ '' password='' @ password) = Inr apply_client"
      "connect 1 (to_credential_less_dsn target @ '' password='' @ password) = Inr read_client"
    unfolding applyd_backends_def rbind_Inr_iff env_secret_Inr Let_def rcase_Inr_iff prod.inject sum.inject by blast
  from pub(2) obtain bs where key: "hex_decode (trim hex) = Some bs" "length bs = 32" "from_bytes bs = Some vk"
    by (auto simp: parse_pubkey_def split: option.splits if_splits)
  from start_audit_checked [OF audit] obtain records
    where log: "audit_checked (pe_audit env) dsn (signing_store key) interval path f records" ..
  have unchanged: "f' = f" if "pe_getenv env ''PGB_ANCHOR_ROLE'' = None" "fs_open (be_files (pe_audit env)) path f \<noteq> NotThere"
  proof -
    from role that(1) have "role = Verify" by (simp add: role_parse_def)
    with audit that(2) show ?thesis by (blast intro: verify_keeps_file)
  qed
  from pub(1) have hex: "pe_getenv env ''PGB_APPROVER_PUBKEY'' = Some hex" by (simp add: env_secret_Inr)
  show ?thesis
    by (rule exI [of _ policy], rule exI [of _ vk], rule exI [of _ hex], rule exI [of _ bs], rule exI [of _ target],
        rule exI [of _ password], rule exI [of _ dsn], rule exI [of _ key], rule exI [of _ path], rule exI [of _ interval],
        rule exI [of _ records], intro conjI impI)
      (use load svc hex key target password resolved_host [OF target] connect env log unchanged in auto)
qed

section \<open>Two starts\<close>

definition start_budget :: role_budget where
  "start_budget = \<lparr>rb_max_bytes = 10, rb_max_rows = 10, rb_max_plan_cost = 1, rb_max_plan_rows = 10,
     rb_per_window = \<lparr>wb_window_secs = 60, wb_max_bytes = 10, wb_max_rows = 10\<rparr>\<rparr>"

definition start_policy :: policy_config where
  "start_policy = \<lparr>pc_version = 1,
     pc_roles = [(''analytics'', \<lparr>rp_select_whitelist = [], rp_budget = start_budget, rp_autonomy = L0\<rparr>)],
     pc_primary = None, pc_replica_dsn = None, pc_replica_target = None,
     pc_clone_provider = ProviderNone, pc_pitr_enabled = False, pc_cli_signing_key_id = None,
     pc_audit_target = None, pc_anchor_endpoint = None\<rparr>"

definition start_env :: "(unit, unit audit_record list, string list option, unit, unit) proc_env" where
  "start_env =
     \<lparr>pe_getenv = map_of [(''PGB_BACKEND_HOST'', ''db''), (''PGB_BACKEND_PORT'', ''6432''), (''PGB_BACKEND_PASSWORD'', ''x''),
        (''PGB_AGENT_PASSWORD'', ''y''), (''PGB_META_DSN'', ''a''), (''PGB_AUDIT_SIGNING_KEY'', [CHR 0x01]),
        (''PGB_ANCHOR_PATH'', ''p''), (''PGB_ANCHOR_INTERVAL_MS'', ''0''), (''PGB_APPROVER_PUBKEY'', ''k'')],
      pe_read_to_string = (\<lambda>_. Inr []), pe_from_yaml = (\<lambda>_. Inr start_policy), pe_is_address = (\<lambda>_. True),
      pe_audit = sample_boot_env\<rparr>"

lemma start_settings:
  "pe_getenv start_env ''PGB_BACKEND_HOST'' = Some ''db''" "pe_getenv start_env ''PGB_BACKEND_PORT'' = Some ''6432''"
  "pe_getenv start_env ''PGB_BACKEND_DB'' = None" "pe_getenv start_env ''PGB_BACKEND_ROLE'' = None"
  "env_secret start_env ''PGB_BACKEND_PASSWORD'' = Inr ''x''" "env_secret start_env ''PGB_AGENT_PASSWORD'' = Inr ''y''"
  "env_secret start_env ''PGB_META_DSN'' = Inr ''a''" "env_secret start_env ''PGB_AUDIT_SIGNING_KEY'' = Inr [CHR 0x01]"
  "env_secret start_env ''PGB_ANCHOR_PATH'' = Inr ''p''" "env_secret start_env ''PGB_APPROVER_PUBKEY'' = Inr ''k''"
  "pe_getenv start_env ''PGB_ANCHOR_ROLE'' = None" "env_bool start_env ''PGB_PROXY_REQUIRE_TLS'' = Inr None"
  "pe_getenv start_env ''PGB_PROXY_TLS_CERT'' = None"
  by (simp_all add: start_env_def env_secret_def env_bool_def)

lemma start_numbers:
  "env_u64 start_env ''PGB_ANCHOR_INTERVAL_MS'' ''60000'' = Inr 0" "\<exists>n. env_u64 start_env ''PGB_STATEMENT_TIMEOUT_MS'' ''30000'' = Inr n"
  by (simp_all add: start_env_def env_u64_def env_default_def parse_u64_def parse_digits_def)

lemma start_loads: "load_policy start_env = Inr start_policy"
proof -
  have "load_from_yaml (pe_from_yaml start_env) [] = Inr start_policy"
    unfolding policy_loads_iff_safe
    by (simp add: start_env_def start_policy_def start_budget_def budget_ok_def f64_finite_pos_def target_ok_def)
  then show ?thesis by (simp add: load_policy_def start_env_def)
qed

lemma start_target: "\<exists>t. resolve_backend_target role start_policy start_env = Inr t \<and> rt_host t = ''db''"
  if "reject_resolved_injection ''role'' role = Inr ()"
  using that
  by (simp add: resolve_backend_target_def start_settings start_policy_def resolve_def or_policy_def resolve_port_def parse_u16_def
      parse_digits_def reject_resolved_injection_def reject_dsn_injection_def chars_def as_bytes_def illegal_dsn_char_def
      is_whitespace_def is_control_def split: sum.split_asm)

lemma start_store: "signing_store [CHR 0x01] = sample_store"
  by (simp add: signing_store_def sample_store_def as_bytes_def)

lemma start_audits:
  "\<exists>b s f'. start_audit start_env ''a'' (signing_store [CHR 0x01]) 0 ''p'' role 0 (Some []) = (Inr (b, s), f')"
proof (cases role)
  case Owner
  with sample_first_boot sample_first_connects show ?thesis
    by (auto simp: start_audit_def start_env_def start_store simp del: boot.simps)
next
  case Verify
  have "latest (ab_worm (boot_handle [])) = None" by (simp add: boot_handle_def with_sink_and_worm_def latest_def)
  then have "boot sample_boot_env Verify 0 (boot_handle [], [], Some []) = (Inr (), boot_handle [], [], Some [])"
    by (simp add: verify_only_def load_chain_def check_integrity_def check_durable_head_def ebind_def elift_def
        sample_env_def verify_chain_def)
  with Verify sample_first_connects show ?thesis
    by (simp add: start_audit_def start_env_def start_store del: boot.simps)
qed

lemma proxy_starts_fail_closed_sample:
  "\<exists>cfg x f'. proxy_start start_env 0 (Some []) = (Inr (cfg, x), f') \<and> bt_host (px_backend cfg) = ''db'' \<and> budget_ok (px_budget cfg)"
proof -
  have role: "reject_resolved_injection ''role'' ''pgb_agent'' = Inr ()"
    by (simp add: reject_resolved_injection_def reject_dsn_injection_def chars_def as_bytes_def illegal_dsn_char_def
        is_whitespace_def is_control_def)
  obtain n where n: "env_u64 start_env ''PGB_STATEMENT_TIMEOUT_MS'' ''30000'' = Inr n" using start_numbers(2) by blast
  obtain t where t: "resolve_backend_target ''pgb_agent'' start_policy start_env = Inr t" "rt_host t = ''db''"
    using start_target [OF role] by blast
  have addr: "pe_is_address start_env a" for a by (simp add: start_env_def)
  have policy_role: "env_default start_env ''PGB_POLICY_ROLE'' ''analytics'' = ''analytics''" by (simp add: start_env_def env_default_def)
  have "\<exists>cfg. proxy_config_from_env start_env = Inr cfg \<and> bt_host (px_backend cfg) = ''db''"
    using n t by (simp add: proxy_config_from_env_def addr start_settings start_loads policy_role Let_def tls_from_env_def
        resolve_require_tls_def validate_tls_def budget_for_def start_policy_def)
  then obtain cfg where cfg: "proxy_config_from_env start_env = Inr cfg" "bt_host (px_backend cfg) = ''db''" by blast
  obtain b s f' where audit: "start_audit start_env ''a'' (signing_store [CHR 0x01]) 0 ''p'' Owner 0 (Some []) = (Inr (b, s), f')"
    using start_audits by blast
  have connect: "be_connect (pe_audit start_env) ''a'' = Inr []" by (simp add: start_env_def sample_env_def)
  have "proxy_start start_env 0 (Some []) = (Inr (cfg, b, s, [], Owner), f')"
    using cfg(1) audit connect
    by (simp add: proxy_start_def start_settings start_numbers role_parse_def put_fresh_secret(1) ebind_def elift_def)
  with proxy_starts_fail_closed [OF this] cfg(2) show ?thesis by blast
qed

theorem applyd_starts_fail_closed_witness:
  "\<exists>svc b s f'. applyd_start start_env (\<lambda>_. Some (replicate 32 0)) (\<lambda>_. Some ()) (\<lambda>n _. Inr n) 0 0 (Some [])
      = (Inr (svc, b, s, 0, 1), f') \<and> sv_policy svc = start_policy \<and> f' = Some []"
proof -
  have role: "reject_resolved_injection ''role'' ''pgb_applier'' = Inr ()"
    by (simp add: reject_resolved_injection_def reject_dsn_injection_def chars_def as_bytes_def illegal_dsn_char_def
        is_whitespace_def is_control_def)
  obtain t where t: "resolve_backend_target ''pgb_applier'' start_policy start_env = Inr t"
    using start_target [OF role] by blast
  obtain b s f' where audit: "start_audit start_env ''a'' (signing_store [CHR 0x01]) 0 ''p'' Verify 0 (Some []) = (Inr (b, s), f')"
    using start_audits by blast
  have key: "parse_pubkey (\<lambda>_. Some (replicate 32 0)) (\<lambda>_. Some ()) ''k'' = (Inr () :: (unit, unit) start_error + unit)"
    by (simp add: parse_pubkey_def)
  have "applyd_backends start_env (\<lambda>n _. Inr n) start_policy = Inr (0, 1)"
    using t by (simp add: applyd_backends_def start_settings)
  with audit have start: "applyd_start start_env (\<lambda>_. Some (replicate 32 0)) (\<lambda>_. Some ()) (\<lambda>n _. Inr n) 0 0 (Some [])
      = (Inr (service_new () in_memory_new in_memory_new start_policy 0, b, s, 0, 1), f')"
    by (simp add: applyd_start_def start_loads start_settings start_numbers role_parse_def put_fresh_secret(1) key ebind_def elift_def)
  have open_file: "fs_open (be_files (pe_audit start_env)) path (Some []) \<noteq> NotThere" for path
    by (simp add: start_env_def sample_env_def sample_files_def)
  from applyd_starts_fail_closed [OF start] start_settings(11) open_file have "f' = Some []" by metis
  with start show ?thesis by (auto simp: service_new_def)
qed

section \<open>Reading the log through the daemon\<close>

text \<open>
  Over the PostgreSQL sink the daemon answers every request for the audit log with an empty list
  and reports success, whatever the log holds: the shared sink forwards the read to the variant that
  the PostgreSQL sink refuses, and the refusal is taken for an empty log.
\<close>

lemma daemon_log_reads_empty:
  "dispatch cr from_bytes env (shared_load_chain pg_load_chain) rh conn pause_point conn_of client_of (GetAudit limit) clk (svc, s, h, c)
     = (Inr (GetAuditResult []), svc, s, h, c)"
  by (simp add: audit_records_def shared_load_chain_def pg_load_chain_def Let_def)

end
