(* ===== verification/Host_Fs.thy ===== *)
theory Host_Fs
  imports Policy_Intent
begin

text \<open>
  The host the clone providers run on: a file system as an association list from paths to nodes, in
  the order a directory listing reports them, and the process table. A path is the list of its
  components, as \<^verbatim>\<open>PathBuf\<close> compares them. Operations that the host refuses are a predicate of the
  state, so that every statement covers every pattern of failures. These are the library calls of
  \<^verbatim>\<open>std::fs\<close> and the commands \<^verbatim>\<open>kill\<close> and \<^verbatim>\<open>ps\<close>; processes appear only through the probes the code makes.
\<close>

section \<open>Paths\<close>

type_synonym path = "string list"

text \<open>
  \<^verbatim>\<open>PathBuf::from\<close>, up to the equality of paths: empty components and inner dots do not count, and an
  absolute path starts with the root component.
\<close>

definition path_from :: "string \<Rightarrow> path" where
  "path_from s =
     (let cs = split_on (CHR ''/'') s in
      (if hd cs = [] \<and> s \<noteq> [] then [''/''] else if hd cs = ''.'' then [''.''] else [])
      @ filter (\<lambda>c. c \<noteq> [] \<and> c \<noteq> ''.'') cs)"

definition is_absolute :: "path \<Rightarrow> bool" where
  "is_absolute p = (p \<noteq> [] \<and> hd p = ''/'')"

definition display :: "path \<Rightarrow> string" where
  "display p =
     (case p of [] \<Rightarrow> []
      | c # cs \<Rightarrow> if c = ''/'' then (if cs = [] then ''/'' else concat (map (\<lambda>d. CHR ''/'' # d) cs))
                 else c @ concat (map (\<lambda>d. CHR ''/'' # d) cs))"

text \<open>\<^verbatim>\<open>Path::extension\<close> of a path whose last component is \<open>n\<close>.\<close>

definition extension :: "string \<Rightarrow> string option" where
  "extension n =
     (let ps = split_on (CHR ''.'') n in
      if length ps < 2 \<or> (length ps = 2 \<and> hd ps = []) then None else Some (last ps))"

definition under :: "path \<Rightarrow> path \<Rightarrow> bool" where
  "under p q = (take (length p) q = p)"

lemma under_refl [simp]: "under p p"
  by (simp add: under_def)

lemma under_append [simp]: "under p (p @ q)"
  by (simp add: under_def)

lemma underD: "under p q \<Longrightarrow> \<exists>r. q = p @ r"
  unfolding under_def by (metis append_take_drop_id)

lemma under_iff: "under p q \<longleftrightarrow> (\<exists>r. q = p @ r)"
  by (auto dest: underD)

lemma under_trans: "under p q \<Longrightarrow> under q r \<Longrightarrow> under p r"
  by (auto simp: under_iff)

lemma under_sibling: "under (p @ [a]) (p @ b # r) \<longleftrightarrow> a = b"
  by (auto simp: under_def)

section \<open>The state of a host\<close>

datatype node = Dir | File bytes

datatype fs_op = Stat | Read | Open | Write | Remove | List | Chmod

text \<open>
  A process: what \<^verbatim>\<open>ps -o lstart=\<close> prints for it (absent when the command fails), whether this user may
  signal it, in how many milliseconds it leaves (absent: not by itself), and how long each signal leaves it.
\<close>

record proc =
  pr_lstart :: "string option"
  pr_foreign :: bool
  pr_exit :: "nat option"
  pr_on :: "string \<Rightarrow> nat option"

record host =
  hs_fs :: "(path \<times> node) list"
  hs_procs :: "u32 \<Rightarrow> proc option"
  hs_kill_runs :: bool
  hs_deny :: "fs_op \<Rightarrow> path \<Rightarrow> bool"
  hs_survive :: "path \<Rightarrow> bool"

datatype io_kind = NotFound | OtherIo

definition node_at :: "host \<Rightarrow> path \<Rightarrow> node option" where
  "node_at h p = map_of (hs_fs h) p"

definition present :: "host \<Rightarrow> path \<Rightarrow> bool" where
  "present h p = (p \<in> fst ` set (hs_fs h))"

definition exists_path :: "host \<Rightarrow> path \<Rightarrow> bool" where
  "exists_path h p = (present h p \<and> \<not> hs_deny h Stat p)"

definition is_dir :: "host \<Rightarrow> path \<Rightarrow> bool" where
  "is_dir h p = (node_at h p = Some Dir \<and> \<not> hs_deny h Stat p)"

definition read_file :: "host \<Rightarrow> path \<Rightarrow> io_kind + bytes" where
  "read_file h p =
     (case node_at h p of
        None \<Rightarrow> Inl NotFound
      | Some Dir \<Rightarrow> Inl OtherIo
      | Some (File bs) \<Rightarrow> if hs_deny h Read p then Inl OtherIo else Inr bs)"

text \<open>The names of the children of a directory, in the order the host lists them.\<close>

definition child_names :: "host \<Rightarrow> path \<Rightarrow> string list" where
  "child_names h p = map (\<lambda>(q, _). last q) (filter (\<lambda>(q, _). q \<noteq> [] \<and> butlast q = p) (hs_fs h))"

definition read_dir :: "host \<Rightarrow> path \<Rightarrow> io_kind + string list" where
  "read_dir h p =
     (case node_at h p of
        None \<Rightarrow> Inl NotFound
      | Some (File _) \<Rightarrow> Inl OtherIo
      | Some Dir \<Rightarrow> if hs_deny h List p then Inl OtherIo else Inr (child_names h p))"

section \<open>Changes\<close>

definition put_node :: "path \<Rightarrow> node \<Rightarrow> host \<Rightarrow> host" where
  "put_node p n h =
     h\<lparr>hs_fs := (if present h p then map (\<lambda>(q, m). if q = p then (q, n) else (q, m)) (hs_fs h)
                else hs_fs h @ [(p, n)])\<rparr>"

definition drop_nodes :: "(path \<Rightarrow> bool) \<Rightarrow> host \<Rightarrow> host" where
  "drop_nodes P h = h\<lparr>hs_fs := filter (\<lambda>(q, _). \<not> P q) (hs_fs h)\<rparr>"

text \<open>
  \<^verbatim>\<open>fs::write\<close> opens and truncates the file, then writes it; a failure of the second step leaves the
  file empty. \<open>write_states\<close> lists the states it goes through.
\<close>

definition write_states :: "path \<Rightarrow> bytes \<Rightarrow> host \<Rightarrow> (io_kind + unit) \<times> host list" where
  "write_states p bs h =
     (if node_at h (butlast p) \<noteq> Some Dir then (Inl NotFound, [])
      else if hs_deny h Open p \<or> node_at h p = Some Dir then (Inl OtherIo, [])
      else if hs_deny h Write p then (Inl OtherIo, [put_node p (File []) h])
      else (Inr (), [put_node p (File []) h, put_node p (File bs) h]))"

definition remove_file :: "path \<Rightarrow> host \<Rightarrow> (io_kind + unit) \<times> host" where
  "remove_file p h =
     (case node_at h p of
        None \<Rightarrow> (Inl NotFound, h)
      | Some Dir \<Rightarrow> (Inl OtherIo, h)
      | Some (File _) \<Rightarrow> if hs_deny h Remove p then (Inl OtherIo, h) else (Inr (), drop_nodes (\<lambda>q. q = p) h))"

text \<open>
  \<^verbatim>\<open>fs::remove_dir_all\<close>: when an entry below cannot be removed, it stays with the directories above it,
  and so does what the removal did not reach.
\<close>

definition rm_stuck :: "path \<Rightarrow> host \<Rightarrow> path list" where
  "rm_stuck p h = filter (\<lambda>q. under p q \<and> (hs_deny h Remove q \<or> hs_survive h q)) (map fst (hs_fs h))"

definition remove_dir_all :: "path \<Rightarrow> host \<Rightarrow> (io_kind + unit) \<times> host" where
  "remove_dir_all p h =
     (if \<not> present h p then (Inl NotFound, h)
      else if node_at h p \<noteq> Some Dir then (Inl OtherIo, h)
      else if \<not> (\<exists>q \<in> fst ` set (hs_fs h). under p q \<and> hs_deny h Remove q)
      then (Inr (), drop_nodes (under p) h)
      else (Inl OtherIo, drop_nodes (\<lambda>q. under p q \<and> \<not> (\<exists>r \<in> set (rm_stuck p h). under q r)) h))"

definition ancestors :: "path \<Rightarrow> path list" where
  "ancestors p = map (\<lambda>k. take k p) [1..<Suc (length p)]"

text \<open>\<^verbatim>\<open>fs::create_dir_all\<close> makes the missing directories of the path, outermost first.\<close>

fun create_dirs :: "path list \<Rightarrow> host \<Rightarrow> (io_kind + unit) \<times> host" where
  "create_dirs [] h = (Inr (), h)"
| "create_dirs (p # ps) h =
     (case node_at h p of
        Some Dir \<Rightarrow> create_dirs ps h
      | Some (File _) \<Rightarrow> (Inl OtherIo, h)
      | None \<Rightarrow> if hs_deny h Open p then (Inl OtherIo, h) else create_dirs ps (put_node p Dir h))"

definition create_dir_all :: "path \<Rightarrow> host \<Rightarrow> (io_kind + unit) \<times> host" where
  "create_dir_all p h = create_dirs (ancestors p) h"

section \<open>Processes\<close>

text \<open>The processes after \<open>ms\<close> milliseconds.\<close>

definition sleep :: "nat \<Rightarrow> host \<Rightarrow> host" where
  "sleep ms h =
     h\<lparr>hs_procs := (\<lambda>pid. case hs_procs h pid of None \<Rightarrow> None
        | Some pr \<Rightarrow> (case pr_exit pr of
             None \<Rightarrow> Some pr
           | Some n \<Rightarrow> if n \<le> ms then None else Some (pr\<lparr>pr_exit := Some (n - ms)\<rparr>)))\<rparr>"

text \<open>A signal that ends a process within \<open>k\<close> milliseconds (\<open>0\<close>: at once), or that it ignores.\<close>

definition leave_within :: "nat option \<Rightarrow> proc \<Rightarrow> proc option" where
  "leave_within k pr =
     (case k of
        None \<Rightarrow> Some pr
      | Some n \<Rightarrow> if n = 0 then None
                 else Some (pr\<lparr>pr_exit := Some (case pr_exit pr of None \<Rightarrow> n | Some m \<Rightarrow> min m n)\<rparr>))"

text \<open>What the command \<^verbatim>\<open>kill\<close> reaches: an existing process that this user may signal.\<close>

definition kill_target :: "host \<Rightarrow> u32 \<Rightarrow> proc option" where
  "kill_target h pid =
     (if hs_kill_runs h then (case hs_procs h pid of None \<Rightarrow> None | Some pr \<Rightarrow> if pr_foreign pr then None else Some pr)
      else None)"

section \<open>A host that only loses files and processes\<close>

text \<open>
  \<open>shrinks h h'\<close>: nothing was created on the way from \<open>h\<close> to \<open>h'\<close>, what is left is unchanged, and a
  process that is left is the one that was there.
\<close>

definition shrinks :: "host \<Rightarrow> host \<Rightarrow> bool" where
  "shrinks h h' =
     ((\<exists>P. hs_fs h' = filter P (hs_fs h))
      \<and> (\<forall>pid pr'. hs_procs h' pid = Some pr' \<longrightarrow>
           (\<exists>pr. hs_procs h pid = Some pr \<and> pr_lstart pr' = pr_lstart pr \<and> pr_foreign pr' = pr_foreign pr \<and> pr_on pr' = pr_on pr))
      \<and> hs_kill_runs h' = hs_kill_runs h \<and> hs_deny h' = hs_deny h \<and> hs_survive h' = hs_survive h)"

text \<open>Every path has one node, the empty path has none, and what lies above a node is a directory.\<close>

definition fs_wf :: "host \<Rightarrow> bool" where
  "fs_wf h =
     (distinct (map fst (hs_fs h)) \<and> [] \<notin> fst ` set (hs_fs h)
      \<and> (\<forall>(q, n) \<in> set (hs_fs h). \<forall>k \<in> {1..<length q}. (take k q, Dir) \<in> set (hs_fs h)))"

named_theorems host_simps "which parts of a host a step leaves alone"

lemma shrinks_refl [simp]: "shrinks h h"
  unfolding shrinks_def by (auto intro: exI [of _ "\<lambda>_. True"])

lemma shrinks_trans:
  assumes "shrinks a b" "shrinks b c"
  shows "shrinks a c"
proof -
  from assms obtain P Q where f: "hs_fs b = filter P (hs_fs a)" "hs_fs c = filter Q (hs_fs b)"
    unfolding shrinks_def by blast
  have "hs_fs c = filter (\<lambda>x. P x \<and> Q x) (hs_fs a)"
    using f by simp
  then have "\<exists>R. hs_fs c = filter R (hs_fs a)" by blast
  moreover have "\<exists>pr. hs_procs a pid = Some pr \<and> pr_lstart pr' = pr_lstart pr \<and> pr_foreign pr' = pr_foreign pr \<and> pr_on pr' = pr_on pr"
    if "hs_procs c pid = Some pr'" for pid pr'
    using that assms unfolding shrinks_def by (metis (no_types))
  ultimately show ?thesis
    using assms unfolding shrinks_def by simp
qed

lemma shrinks_drop_nodes [simp]: "shrinks h (drop_nodes P h)"
  by (auto simp: shrinks_def drop_nodes_def)

lemma shrinks_sleep [simp]: "shrinks h (sleep ms h)"
  by (auto simp: shrinks_def sleep_def split: option.splits if_splits intro!: exI [of _ "\<lambda>_. True"])

lemma shrinks_leave:
  "hs_procs h pid = Some pr \<Longrightarrow> shrinks h (h\<lparr>hs_procs := (hs_procs h)(pid := leave_within k pr)\<rparr>)"
  by (auto simp: shrinks_def leave_within_def split: option.splits if_splits intro!: exI [of _ "\<lambda>_. True"])

lemma shrinks_remove_file [simp]: "remove_file p h = (r, h') \<Longrightarrow> shrinks h h'"
  by (auto simp: remove_file_def split: option.splits node.splits if_splits)

lemma shrinks_remove_dir_all [simp]: "remove_dir_all p h = (r, h') \<Longrightarrow> shrinks h h'"
  by (auto simp: remove_dir_all_def split: if_splits)

lemma shrinks_present: "shrinks h h' \<Longrightarrow> present h' p \<Longrightarrow> present h p"
  by (auto simp: shrinks_def present_def)

lemma shrinks_exists: "shrinks h h' \<Longrightarrow> exists_path h' p \<Longrightarrow> exists_path h p"
  by (auto simp: exists_path_def shrinks_def present_def)

lemma shrinks_deny: "shrinks h h' \<Longrightarrow> hs_deny h' = hs_deny h"
  by (simp add: shrinks_def)

lemma shrinks_distinct: "shrinks h h' \<Longrightarrow> fs_wf h \<Longrightarrow> distinct (map fst (hs_fs h'))"
  by (auto simp: shrinks_def fs_wf_def distinct_map_filter)

lemma node_at_iff: "distinct (map fst (hs_fs h)) \<Longrightarrow> node_at h p = Some n \<longleftrightarrow> (p, n) \<in> set (hs_fs h)"
  by (simp add: node_at_def)

lemma fs_wf_distinct: "fs_wf h \<Longrightarrow> distinct (map fst (hs_fs h))"
  by (simp add: fs_wf_def)

lemma present_node: "present h p \<longleftrightarrow> node_at h p \<noteq> None"
  by (auto simp: present_def node_at_def map_of_eq_None_iff)

lemma shrinks_node_at:
  assumes "shrinks h h'" "fs_wf h" "node_at h' p = Some n"
  shows "node_at h p = Some n"
  using assms shrinks_distinct [OF assms(1,2)] fs_wf_distinct [OF assms(2)] by (auto simp: node_at_iff shrinks_def)

lemma node_at_shrunk:
  assumes "shrinks h h'" "fs_wf h" "present h' p"
  shows "node_at h' p = node_at h p"
  using assms shrinks_node_at [OF assms(1,2)] by (auto simp: present_node)

lemma shrinks_kill_target:
  assumes "shrinks h h'" "kill_target h' pid = Some pr'"
  shows "\<exists>pr. kill_target h pid = Some pr \<and> pr_lstart pr' = pr_lstart pr \<and> pr_on pr' = pr_on pr"
  using assms by (fastforce simp: kill_target_def shrinks_def split: if_splits option.splits)

lemma present_drop_nodes: "present (drop_nodes P h) q \<longleftrightarrow> present h q \<and> \<not> P q"
  by (force simp: present_def drop_nodes_def)

lemma remove_dir_all_outside:
  assumes "remove_dir_all p h = (r, h')" "\<not> under p q"
  shows "present h' q = present h q"
  using assms by (auto simp: remove_dir_all_def present_drop_nodes split: if_splits)

lemma remove_dir_all_Inr: "remove_dir_all p h = (Inr (), h') \<Longrightarrow> under p q \<Longrightarrow> \<not> present h' q"
  by (auto simp: remove_dir_all_def present_drop_nodes split: if_splits)

lemma remove_file_outside:
  assumes "remove_file p h = (r, h')" "p \<noteq> q"
  shows "present h' q = present h q"
  using assms by (auto simp: remove_file_def present_drop_nodes split: option.splits node.splits if_splits)

lemma fs_wf_above:
  assumes "fs_wf h" "present h (p @ q)" "p \<noteq> []" "q \<noteq> []"
  shows "node_at h p = Some Dir"
proof -
  from assms(2) obtain n where "(p @ q, n) \<in> set (hs_fs h)" by (auto simp: present_def)
  moreover have "length p \<in> {1..<length (p @ q)}" using assms(3,4) by (simp add: Suc_le_eq)
  ultimately have "(take (length p) (p @ q), Dir) \<in> set (hs_fs h)"
    using assms(1) unfolding fs_wf_def by blast
  then show ?thesis by (simp add: node_at_iff [OF fs_wf_distinct [OF assms(1)]])
qed

text \<open>Removing nodes keeps the tree when whatever lies below a removed node goes too.\<close>

lemma fs_wf_drop_nodes:
  assumes "fs_wf h" "\<And>p q. P p \<Longrightarrow> under p q \<Longrightarrow> present h q \<Longrightarrow> P q"
  shows "fs_wf (drop_nodes P h)"
proof -
  have "(take k q, Dir) \<in> set (hs_fs (drop_nodes P h))"
    if m: "(q, n) \<in> set (hs_fs (drop_nodes P h))" and k: "k \<in> {1..<length q}" for q n k
  proof -
    have q: "(q, n) \<in> set (hs_fs h)" "\<not> P q" using m by (auto simp: drop_nodes_def)
    have "present h q" using q(1) by (force simp: present_def)
    then have "\<not> P (take k q)" using assms(2) [of "take k q" q] q(2) k by (auto simp: under_def min_def)
    moreover have "(take k q, Dir) \<in> set (hs_fs h)" using assms(1) q(1) k unfolding fs_wf_def by blast
    ultimately show ?thesis by (simp add: drop_nodes_def)
  qed
  then show ?thesis
    using assms(1) by (auto simp: fs_wf_def drop_nodes_def distinct_map_filter)
qed

lemma fs_wf_remove_file:
  assumes "remove_file p h = (r, h')" "fs_wf h"
  shows "fs_wf h'"
proof -
  have "q = p" if "under p q" "present h q" "node_at h p = Some (File bs)" for q bs
  proof -
    from that(1) obtain s where "q = p @ s" by (blast dest: underD)
    moreover have "p \<noteq> []" using that(3) assms(2) by (auto simp: fs_wf_def node_at_def map_of_eq_None_iff [symmetric])
    ultimately show ?thesis using fs_wf_above [OF assms(2), of p s] that by (cases "s = []") auto
  qed
  then show ?thesis
    using assms by (auto simp: remove_file_def split: option.splits node.splits if_splits intro!: fs_wf_drop_nodes)
qed

lemma fs_wf_remove_dir_all:
  assumes "remove_dir_all p h = (r, h')" "fs_wf h"
  shows "fs_wf h'"
proof -
  have "fs_wf (drop_nodes (under p) h)"
    using assms(2) by (rule fs_wf_drop_nodes) (blast intro: under_trans)
  moreover have "fs_wf (drop_nodes (\<lambda>q. under p q \<and> \<not> (\<exists>r \<in> set (rm_stuck p h). under q r)) h)"
    using assms(2) by (rule fs_wf_drop_nodes) (blast intro: under_trans)
  ultimately show ?thesis using assms by (auto simp: remove_dir_all_def split: if_splits)
qed

lemma fs_wf_same_files: "hs_fs h' = hs_fs h \<Longrightarrow> fs_wf h' = fs_wf h"
  by (simp add: fs_wf_def)

lemma hs_fs_sleep [host_simps]: "hs_fs (sleep ms h) = hs_fs h"
  by (simp add: sleep_def)

section \<open>Strings that are not blank\<close>

lemma trim_nonblank:
  assumes "char_len c = 1" "\<not> chunk_white [c]"
  shows "trim (c # s) \<noteq> []"
proof -
  have chunks: "utf8_chunks (c # s) = [c] # utf8_chunks s" using assms(1) by simp
  with assms(2) have "trim_start (c # s) = c # s" by (simp add: trim_start_def del: utf8_chunks.simps)
  moreover from assms(2) have "concat (rev (dropWhile chunk_white (rev (utf8_chunks s) @ [[c]]))) \<noteq> []"
    by (auto simp: dropWhile_append dropWhile_eq_Nil_conv)
  ultimately show ?thesis by (simp add: trim_def trim_end_def chunks del: utf8_chunks.simps)
qed

end
