(* ===== verification/Orch_Ledger.thy ===== *)
theory Orch_Ledger
  imports Host_Fs Orch_Apply_Grant
begin

text \<open>
  The clone ledger and the orphan reaper (\<^verbatim>\<open>crates/clone-orchestrator/src/provider/ledger.rs\<close>): one JSON
  file per clone, the liveness of the process that owns it, and the two passes that destroy the clones
  whose owner is gone. The JSON codec is a parameter. An error carries what failed and where, not its
  wording.
\<close>

section \<open>Entries and owners\<close>

definition OWNER_MARKER :: string where
  "OWNER_MARKER = ''.pgb_clone_owner.json''"

record ledger_entry =
  le_clone_id :: string
  le_datadir :: path
  le_port :: "16 word"
  le_owner_pid :: u32
  le_owner_start :: string

record owner_identity =
  oi_pid :: u32
  oi_start :: string

definition pidfile :: "ledger_entry \<Rightarrow> path" where
  "pidfile e = le_datadir e @ [''postmaster.pid'']"

definition entry_owner :: "ledger_entry \<Rightarrow> owner_identity" where
  "entry_owner e = \<lparr>oi_pid = le_owner_pid e, oi_start = le_owner_start e\<rparr>"

datatype tooling =
    LedgerDir path | LedgerEncode | LedgerWrite path | LedgerForget path | LedgerList | LedgerItem
  | LedgerRead path | LedgerDecode path | MarkerEncode | MarkerWrite path | SweepList path | SweepItem
  | CloneRoot path | SockDir | ToolSpawn string | ChmodFailed path | ConfOpen path | ConfAppend path
  | LsnSpawn | LsnFailed | LsnUnexpected string

datatype clone_error =
    Tooling tooling
  | Provision string string
  | Teardown path
  | Governance string
  | Unavailable provider_kind

record ledger_codec =
  enc_entry :: "ledger_entry \<Rightarrow> bytes option"
  dec_entry :: "bytes \<Rightarrow> ledger_entry option"
  enc_owner :: "owner_identity \<Rightarrow> bytes option"
  dec_owner :: "bytes \<Rightarrow> owner_identity option"

section \<open>Liveness\<close>

definition pid_alive :: "host \<Rightarrow> u32 \<Rightarrow> bool" where
  "pid_alive h pid = (if pid = 0 then False else kill_target h pid \<noteq> None)"

definition process_start_time :: "host \<Rightarrow> u32 \<Rightarrow> string option" where
  "process_start_time h pid =
     (if pid = 0 then None
      else (case hs_procs h pid of
          None \<Rightarrow> None
        | Some pr \<Rightarrow> (case pr_lstart pr of
              None \<Rightarrow> None
            | Some out \<Rightarrow> let s = trim out in if s = [] then None else Some s)))"

definition owner_current :: "host \<Rightarrow> u32 \<Rightarrow> owner_identity" where
  "owner_current h pid =
     \<lparr>oi_pid = pid, oi_start = (case process_start_time h pid of Some s \<Rightarrow> s | None \<Rightarrow> [])\<rparr>"

definition is_live :: "host \<Rightarrow> owner_identity \<Rightarrow> bool" where
  "is_live h own =
     (if \<not> pid_alive h (oi_pid own) then False
      else (case process_start_time h (oi_pid own) of
          Some now \<Rightarrow> if oi_start own \<noteq> [] then now = oi_start own else True
        | None \<Rightarrow> True))"

section \<open>The ledger\<close>

text \<open>A ledger is the directory it keeps its files in.\<close>

type_synonym ledger = path

definition ledger_open :: "path \<Rightarrow> host \<Rightarrow> (clone_error + ledger) \<times> host" where
  "ledger_open dir h =
     (case create_dir_all dir h of
        (Inl _, h') \<Rightarrow> (Inl (Tooling (LedgerDir dir)), h')
      | (Inr _, h') \<Rightarrow> (Inr dir, h'))"

definition canonical_dir_from :: "path \<Rightarrow> string option \<Rightarrow> string option \<Rightarrow> string option \<Rightarrow> path" where
  "canonical_dir_from temp_dir explicit xdg_state home =
     (case explicit of
        Some e \<Rightarrow> path_from e
      | None \<Rightarrow>
          let xdg = (case map_option path_from xdg_state of Some p \<Rightarrow> if is_absolute p then Some p else None | None \<Rightarrow> None);
              base = (case xdg of Some p \<Rightarrow> p
                | None \<Rightarrow> (case home of Some hm \<Rightarrow> path_from hm @ [''.local'', ''state''] | None \<Rightarrow> temp_dir))
          in base @ [''pg_brakes'', ''clone-ledger''])"

definition safe_char :: "char \<Rightarrow> char" where
  "safe_char c =
     (if is_ascii_alphabetic c \<or> (48 \<le> (of_char c :: nat) \<and> (of_char c :: nat) \<le> 57)
         \<or> c = CHR ''-'' \<or> c = CHR ''_'' then c else CHR ''_'')"

text \<open>One character of the id gives one character of the name, so a longer UTF-8 sequence becomes one underscore.\<close>

definition entry_path :: "ledger \<Rightarrow> string \<Rightarrow> path" where
  "entry_path dir clone_id =
     dir @ [concat (map (\<lambda>ch. case ch of [c] \<Rightarrow> [safe_char c] | _ \<Rightarrow> ''_'') (utf8_chunks clone_id)) @ ''.json'']"

text \<open>The states \<^verbatim>\<open>record\<close> goes through: a crash may leave any of them.\<close>

definition ledger_record :: "ledger_codec \<Rightarrow> ledger \<Rightarrow> ledger_entry \<Rightarrow> host \<Rightarrow> (clone_error + unit) \<times> host list" where
  "ledger_record codec dir e h =
     (case enc_entry codec e of
        None \<Rightarrow> (Inl (Tooling LedgerEncode), [])
      | Some json \<Rightarrow>
          let p = entry_path dir (le_clone_id e) in
          (case write_states p json h of
             (Inl _, hs) \<Rightarrow> (Inl (Tooling (LedgerWrite p)), hs)
           | (Inr _, hs) \<Rightarrow> (Inr (), hs)))"

definition ledger_forget :: "ledger \<Rightarrow> string \<Rightarrow> host \<Rightarrow> (clone_error + unit) \<times> host" where
  "ledger_forget dir clone_id h =
     (let p = entry_path dir clone_id in
      (case remove_file p h of
         (Inr _, h') \<Rightarrow> (Inr (), h')
       | (Inl NotFound, h') \<Rightarrow> (Inr (), h')
       | (Inl OtherIo, h') \<Rightarrow> (Inl (Tooling (LedgerForget p)), h')))"

fun read_entries :: "ledger_codec \<Rightarrow> host \<Rightarrow> ledger \<Rightarrow> string list \<Rightarrow> clone_error + ledger_entry list" where
  "read_entries codec h dir [] = Inr []"
| "read_entries codec h dir (n # ns) =
     (let p = dir @ [n] in
      if hs_deny h List p then Inl (Tooling LedgerItem)
      else if extension n \<noteq> Some ''json'' then read_entries codec h dir ns
      else (case read_file h p of
          Inl _ \<Rightarrow> Inl (Tooling (LedgerRead p))
        | Inr bs \<Rightarrow> (case dec_entry codec bs of
              None \<Rightarrow> Inl (Tooling (LedgerDecode p))
            | Some e \<Rightarrow> rbind (read_entries codec h dir ns) (\<lambda>es. Inr (e # es)))))"

definition entries :: "ledger_codec \<Rightarrow> ledger \<Rightarrow> host \<Rightarrow> clone_error + ledger_entry list" where
  "entries codec dir h =
     (case read_dir h dir of
        Inl NotFound \<Rightarrow> Inr []
      | Inl OtherIo \<Rightarrow> Inl (Tooling LedgerList)
      | Inr names \<Rightarrow> read_entries codec h dir names)"

section \<open>The marker in a data directory\<close>

definition write_owner_marker :: "ledger_codec \<Rightarrow> path \<Rightarrow> owner_identity \<Rightarrow> host \<Rightarrow> (clone_error + unit) \<times> host list" where
  "write_owner_marker codec datadir own h =
     (case enc_owner codec own of
        None \<Rightarrow> (Inl (Tooling MarkerEncode), [])
      | Some json \<Rightarrow>
          let p = datadir @ [OWNER_MARKER] in
          (case write_states p json h of
             (Inl _, hs) \<Rightarrow> (Inl (Tooling (MarkerWrite p)), hs)
           | (Inr _, hs) \<Rightarrow> (Inr (), hs)))"

definition read_owner_marker :: "ledger_codec \<Rightarrow> host \<Rightarrow> path \<Rightarrow> owner_identity option" where
  "read_owner_marker codec h datadir =
     (case read_file h (datadir @ [OWNER_MARKER]) of Inl _ \<Rightarrow> None | Inr bs \<Rightarrow> dec_owner codec bs)"

definition is_clone_datadir_name :: "string \<Rightarrow> bool" where
  "is_clone_datadir_name name = (take (length ''local-clone-'') name = ''local-clone-'')"

section \<open>Destroying an orphan\<close>

record orphan_alarm =
  oa_clone_id :: string
  oa_datadir :: path
  oa_port :: "16 word"
  oa_owner_pid :: u32
  oa_reaped :: bool

record reap_outcome =
  ro_alarms :: "orphan_alarm list"
  ro_live_skipped :: "string list"

definition signal :: "u32 \<Rightarrow> string \<Rightarrow> host \<Rightarrow> host" where
  "signal pid sig h =
     (case kill_target h pid of
        None \<Rightarrow> h
      | Some pr \<Rightarrow> h\<lparr>hs_procs := (hs_procs h)(pid := leave_within (pr_on pr sig) pr)\<rparr>)"

definition parse_u32 :: "string \<Rightarrow> u32 option" where
  "parse_u32 s =
     (case parse_digits (case s of CHR ''+'' # r \<Rightarrow> r | _ \<Rightarrow> s) of
        None \<Rightarrow> None
      | Some n \<Rightarrow> if n < 2 ^ 32 then Some (word_of_nat n) else None)"

definition postmaster_pid :: "host \<Rightarrow> path \<Rightarrow> u32 option" where
  "postmaster_pid h p =
     (case read_file h p of
        Inl _ \<Rightarrow> None
      | Inr bs \<Rightarrow> (case from_utf8 bs of
            None \<Rightarrow> None
          | Some s \<Rightarrow> if s = [] then None else parse_u32 (trim (hd (split_on (CHR 0x0A) s)))))"

primrec wait_pid_gone :: "u32 \<Rightarrow> nat \<Rightarrow> nat \<Rightarrow> host \<Rightarrow> bool \<times> host" where
  "wait_pid_gone pid 0 ms h = (\<not> pid_alive h pid, h)"
| "wait_pid_gone pid (Suc tries) ms h =
     (if \<not> pid_alive h pid then (True, h) else wait_pid_gone pid tries ms (sleep ms h))"

definition stop_postmaster :: "u32 \<Rightarrow> host \<Rightarrow> host" where
  "stop_postmaster pm h =
     (case wait_pid_gone pm 50 100 (signal pm ''INT'' h) of
        (True, h') \<Rightarrow> h'
      | (False, h') \<Rightarrow> snd (wait_pid_gone pm 50 100 (signal pm ''QUIT'' h')))"

definition destroy_orphan :: "ledger_entry \<Rightarrow> host \<Rightarrow> bool \<times> host" where
  "destroy_orphan e h =
     (let h1 = (case postmaster_pid h (pidfile e) of
                  Some pm \<Rightarrow> if pid_alive h pm then stop_postmaster pm h else h
                | None \<Rightarrow> h);
          h2 = (if exists_path h1 (le_datadir e) then snd (remove_dir_all (le_datadir e) h1) else h1)
      in (\<not> exists_path h2 (le_datadir e), h2))"

section \<open>The reaper\<close>

text \<open>The outcome is filled in as the pass goes, beside the host.\<close>

type_synonym reaping = "reap_outcome \<times> host"

definition skip_live :: "string \<Rightarrow> reap_outcome \<Rightarrow> reap_outcome" where
  "skip_live clone_id out = out\<lparr>ro_live_skipped := ro_live_skipped out @ [clone_id]\<rparr>"

definition orphan_of :: "ledger_entry \<Rightarrow> bool \<Rightarrow> orphan_alarm" where
  "orphan_of e reaped =
     \<lparr>oa_clone_id = le_clone_id e, oa_datadir = le_datadir e, oa_port = le_port e,
      oa_owner_pid = le_owner_pid e, oa_reaped = reaped\<rparr>"

text \<open>Both passes destroy an orphan this way: raise the alarm, and forget the entry once it is gone.\<close>

definition reap_entry :: "ledger \<Rightarrow> ledger_entry \<Rightarrow> (reaping, clone_error, unit) eff" where
  "reap_entry dir e s =
     (let (out, h) = s;
          (reaped, h') = destroy_orphan e h;
          out' = out\<lparr>ro_alarms := ro_alarms out @ [orphan_of e reaped]\<rparr>
      in if reaped then (let (r, h'') = ledger_forget dir (le_clone_id e) h' in (r, (out', h''))) else (Inr (), (out', h')))"

fun reap_entries :: "ledger \<Rightarrow> ledger_entry list \<Rightarrow> (reaping, clone_error, unit) eff" where
  "reap_entries dir [] s = (Inr (), s)"
| "reap_entries dir (e # es) s =
     (if is_live (snd s) (entry_owner e) then reap_entries dir es (skip_live (le_clone_id e) (fst s), snd s)
      else ebind (reap_entry dir e) (\<lambda>_. reap_entries dir es) s)"

definition reap_from_ledger :: "ledger_codec \<Rightarrow> ledger \<Rightarrow> (reaping, clone_error, unit) eff" where
  "reap_from_ledger codec dir s =
     (case entries codec dir (snd s) of Inl e \<Rightarrow> (Inl e, s) | Inr es \<Rightarrow> reap_entries dir es s)"

definition swept_entry :: "string \<Rightarrow> path \<Rightarrow> owner_identity option \<Rightarrow> ledger_entry" where
  "swept_entry name p owner =
     \<lparr>le_clone_id = name, le_datadir = p, le_port = 0,
      le_owner_pid = (case owner of Some own \<Rightarrow> oi_pid own | None \<Rightarrow> 0),
      le_owner_start = (case owner of Some own \<Rightarrow> oi_start own | None \<Rightarrow> [])\<rparr>"

definition sweep_one ::
  "ledger_codec \<Rightarrow> path \<Rightarrow> ledger \<Rightarrow> ledger_entry list \<Rightarrow> string \<Rightarrow> (reaping, clone_error, unit) eff" where
  "sweep_one codec root dir ledger_entries name s =
     (let (out, h) = s; p = root @ [name]; owner = read_owner_marker codec h p in
      if hs_deny h List p then (Inl (Tooling SweepItem), s)
      else if \<not> is_str name then (Inr (), s)
      else if \<not> is_dir h p \<or> \<not> is_clone_datadir_name name then (Inr (), s)
      else if \<exists>a \<in> set (ro_alarms out). oa_datadir a = p then (Inr (), s)
      else if \<exists>e \<in> set ledger_entries. le_datadir e = p \<and> is_live h (entry_owner e)
      then (Inr (), (skip_live name out, h))
      else if (case owner of Some own \<Rightarrow> is_live h own | None \<Rightarrow> False)
      then (Inr (), (skip_live name out, h))
      else reap_entry dir (swept_entry name p owner) s)"

fun sweep_names ::
  "ledger_codec \<Rightarrow> path \<Rightarrow> ledger \<Rightarrow> ledger_entry list \<Rightarrow> string list \<Rightarrow> (reaping, clone_error, unit) eff" where
  "sweep_names codec root dir es [] s = (Inr (), s)"
| "sweep_names codec root dir es (n # ns) s =
     ebind (sweep_one codec root dir es n) (\<lambda>_. sweep_names codec root dir es ns) s"

definition sweep_clone_root :: "ledger_codec \<Rightarrow> path \<Rightarrow> ledger \<Rightarrow> (reaping, clone_error, unit) eff" where
  "sweep_clone_root codec root dir s =
     (case read_dir (snd s) root of
        Inl NotFound \<Rightarrow> (Inr (), s)
      | Inl OtherIo \<Rightarrow> (Inl (Tooling (SweepList root)), s)
      | Inr names \<Rightarrow> (case entries codec dir (snd s) of
            Inl e \<Rightarrow> (Inl e, s)
          | Inr es \<Rightarrow> sweep_names codec root dir es names s))"

definition no_outcome :: reap_outcome where
  "no_outcome = \<lparr>ro_alarms = [], ro_live_skipped = []\<rparr>"

text \<open>An error drops the outcome that was gathered.\<close>

definition reap_orphans :: "ledger_codec \<Rightarrow> ledger \<Rightarrow> host \<Rightarrow> (clone_error + reap_outcome) \<times> host" where
  "reap_orphans codec dir h =
     (case reap_from_ledger codec dir (no_outcome, h) of
        (Inl e, (_, h')) \<Rightarrow> (Inl e, h')
      | (Inr _, (out, h')) \<Rightarrow> (Inr out, h'))"

definition reap_orphans_with_sweep ::
  "ledger_codec \<Rightarrow> ledger \<Rightarrow> path \<Rightarrow> host \<Rightarrow> (clone_error + reap_outcome) \<times> host" where
  "reap_orphans_with_sweep codec dir root h =
     (case ebind (reap_from_ledger codec dir) (\<lambda>_. sweep_clone_root codec root dir) (no_outcome, h) of
        (Inl e, (_, h')) \<Rightarrow> (Inl e, h')
      | (Inr _, (out, h')) \<Rightarrow> (Inr out, h'))"

section \<open>What the reaper leaves alone\<close>

text \<open>A process that is alive was alive before, with the same start time.\<close>

lemma shrinks_pid_alive: "shrinks h h' \<Longrightarrow> pid_alive h' pid \<Longrightarrow> pid_alive h pid"
  using shrinks_kill_target [of h h' pid] by (auto simp: pid_alive_def split: if_splits)

lemma shrinks_start_time:
  assumes "shrinks h h'" "pid_alive h' pid"
  shows "process_start_time h' pid = process_start_time h pid"
proof -
  from assms(2) obtain pr' where p': "hs_procs h' pid = Some pr'"
    by (auto simp: pid_alive_def kill_target_def split: if_splits option.splits)
  with assms(1) obtain pr where "hs_procs h pid = Some pr" "pr_lstart pr' = pr_lstart pr"
    unfolding shrinks_def by blast
  with p' show ?thesis by (simp add: process_start_time_def)
qed

lemma shrinks_is_live: "shrinks h h' \<Longrightarrow> is_live h' own \<Longrightarrow> is_live h own"
  using shrinks_pid_alive [of h h'] shrinks_start_time [of h h']
  by (auto simp: is_live_def split: if_splits option.splits)

lemma shrinks_signal [simp]: "shrinks h (signal pid sig h)"
  by (auto simp: signal_def kill_target_def shrinks_leave split: option.splits if_splits)

lemma hs_fs_signal [host_simps]: "hs_fs (signal pid sig h) = hs_fs h"
  by (simp add: signal_def split: option.splits)

lemma shrinks_wait: "wait_pid_gone pid tries ms h = (r, h') \<Longrightarrow> shrinks h h' \<and> hs_fs h' = hs_fs h"
  by (induction tries arbitrary: h) (auto split: if_splits simp: host_simps intro: shrinks_trans [OF shrinks_sleep])

lemma shrinks_stop: "shrinks h (stop_postmaster pm h) \<and> hs_fs (stop_postmaster pm h) = hs_fs h"
proof -
  obtain b h1 where w1: "wait_pid_gone pm 50 100 (signal pm ''INT'' h) = (b, h1)" by (metis surj_pair)
  obtain c h2 where w2: "wait_pid_gone pm 50 100 (signal pm ''QUIT'' h1) = (c, h2)" by (metis surj_pair)
  have "shrinks h h1" "hs_fs h1 = hs_fs h"
    using shrinks_wait [OF w1] by (auto simp: host_simps intro: shrinks_trans [OF shrinks_signal])
  moreover have "shrinks h1 h2" "hs_fs h2 = hs_fs h1"
    using shrinks_wait [OF w2] by (auto simp: host_simps intro: shrinks_trans [OF shrinks_signal])
  ultimately show ?thesis
    using w1 w2 by (cases b) (auto simp: stop_postmaster_def intro: shrinks_trans)
qed

text \<open>The state in which the removal of an orphan's directory starts.\<close>

definition orphan_stopped :: "ledger_entry \<Rightarrow> host \<Rightarrow> host" where
  "orphan_stopped e h =
     (case postmaster_pid h (pidfile e) of Some pm \<Rightarrow> if pid_alive h pm then stop_postmaster pm h else h | None \<Rightarrow> h)"

lemma shrinks_orphan_stopped: "shrinks h (orphan_stopped e h) \<and> hs_fs (orphan_stopped e h) = hs_fs h"
  using shrinks_stop by (simp add: orphan_stopped_def split: option.splits)

lemma destroy_orphan_stopped:
  "destroy_orphan e h =
     (let h1 = orphan_stopped e h;
          h2 = (if exists_path h1 (le_datadir e) then snd (remove_dir_all (le_datadir e) h1) else h1)
      in (\<not> exists_path h2 (le_datadir e), h2))"
  unfolding destroy_orphan_def orphan_stopped_def by (rule refl)

lemma destroy_orphan_cases:
  assumes "destroy_orphan e h = (reaped, h')"
  obtains (gone) "\<not> exists_path (orphan_stopped e h) (le_datadir e)" "h' = orphan_stopped e h" "reaped"
  | (removal) r where "remove_dir_all (le_datadir e) (orphan_stopped e h) = (r, h')" "reaped = (\<not> exists_path h' (le_datadir e))"
proof (cases "exists_path (orphan_stopped e h) (le_datadir e)")
  case True
  obtain r h2 where m: "remove_dir_all (le_datadir e) (orphan_stopped e h) = (r, h2)" by (metis surj_pair)
  then have "h2 = h'" "reaped = (\<not> exists_path h' (le_datadir e))"
    using assms True by (auto simp: destroy_orphan_stopped)
  with m show ?thesis by (intro removal) simp_all
next
  case False
  then have "h' = orphan_stopped e h" "reaped" using assms by (simp_all add: destroy_orphan_stopped)
  with False show ?thesis by (intro gone)
qed

lemma destroy_orphan_facts:
  assumes "destroy_orphan e h = (reaped, h')"
  shows "shrinks h h'" "fs_wf h \<Longrightarrow> fs_wf h'" "reaped = (\<not> exists_path h' (le_datadir e))"
    "\<not> under (le_datadir e) q \<Longrightarrow> present h' q = present h q"
proof -
  note st = shrinks_orphan_stopped [of h e]
  have "shrinks h h' \<and> (fs_wf h \<longrightarrow> fs_wf h') \<and> reaped = (\<not> exists_path h' (le_datadir e))
    \<and> (\<not> under (le_datadir e) q \<longrightarrow> present h' q = present h q)"
    using assms
  proof (cases rule: destroy_orphan_cases)
    case gone
    have "present h' q = present h q" using st gone(2) by (simp add: present_def)
    moreover have "fs_wf h' = fs_wf h" using st gone(2) fs_wf_same_files by blast
    ultimately show ?thesis using st gone by simp
  next
    case (removal r)
    have "shrinks h h'" using shrinks_trans [OF conjunct1 [OF st] shrinks_remove_dir_all [OF removal(1)]] .
    moreover have "fs_wf h'" if "fs_wf h"
      using fs_wf_remove_dir_all [OF removal(1)] that st fs_wf_same_files by blast
    moreover have "present h' q = present h q" if "\<not> under (le_datadir e) q"
      using remove_dir_all_outside [OF removal(1) that] st by (simp add: present_def)
    ultimately show ?thesis using removal(2) by simp
  qed
  then show "shrinks h h'" "fs_wf h \<Longrightarrow> fs_wf h'" "reaped = (\<not> exists_path h' (le_datadir e))"
    "\<not> under (le_datadir e) q \<Longrightarrow> present h' q = present h q" by auto
qed

lemma ledger_forget_facts:
  assumes "ledger_forget dir i h = (r, h')"
  shows "shrinks h h'" "fs_wf h \<Longrightarrow> fs_wf h'" "q \<noteq> entry_path dir i \<Longrightarrow> present h' q = present h q"
proof -
  obtain r1 where rm: "remove_file (entry_path dir i) h = (r1, h')"
    using assms by (auto simp: ledger_forget_def split: prod.splits sum.splits io_kind.splits)
  show "shrinks h h'" using rm by (rule shrinks_remove_file)
  show "fs_wf h \<Longrightarrow> fs_wf h'" using rm by (rule fs_wf_remove_file)
  show "q \<noteq> entry_path dir i \<Longrightarrow> present h' q = present h q" using remove_file_outside [OF rm] by simp
qed

text \<open>What one reaped entry does: the invariant both passes run on.\<close>

definition alarms_true :: "reap_outcome \<Rightarrow> host \<Rightarrow> bool" where
  "alarms_true out h = (\<forall>a \<in> set (ro_alarms out). oa_reaped a \<longrightarrow> \<not> exists_path h (oa_datadir a))"

text \<open>
  \<open>passes s s'\<close>: the host only lost things, the outcome only grew, and the alarms that say an orphan was
  reaped stay true.
\<close>

definition passes :: "reaping \<Rightarrow> reaping \<Rightarrow> bool" where
  "passes s s' =
     (shrinks (snd s) (snd s') \<and> (fs_wf (snd s) \<longrightarrow> fs_wf (snd s'))
      \<and> set (ro_alarms (fst s)) \<subseteq> set (ro_alarms (fst s'))
      \<and> set (ro_live_skipped (fst s)) \<subseteq> set (ro_live_skipped (fst s'))
      \<and> (alarms_true (fst s) (snd s) \<longrightarrow> alarms_true (fst s') (snd s')))"

lemma passes_refl [simp]: "passes s s"
  by (simp add: passes_def)

lemma passes_trans: "passes a b \<Longrightarrow> passes b c \<Longrightarrow> passes a c"
  unfolding passes_def using shrinks_trans by fast

lemma alarms_true_shrinks: "alarms_true out h \<Longrightarrow> shrinks h h' \<Longrightarrow> alarms_true out h'"
  by (auto simp: alarms_true_def dest: shrinks_exists)

lemma passes_skip [simp]: "passes s (skip_live i (fst s), snd s)"
  by (auto simp: passes_def skip_live_def alarms_true_def)

lemma reap_entry_passes:
  assumes "reap_entry dir e s = (r, s')"
  shows "passes s s'" "\<exists>reaped. orphan_of e reaped \<in> set (ro_alarms (fst s'))"
    "\<not> under (le_datadir e) q \<Longrightarrow> q \<noteq> entry_path dir (le_clone_id e) \<Longrightarrow> present (snd s') q = present (snd s) q"
proof -
  obtain out h where s: "s = (out, h)" by (cases s)
  obtain reaped h1 where d: "destroy_orphan e h = (reaped, h1)" by (metis surj_pair)
  note df = destroy_orphan_facts [OF d]
  let ?out = "out\<lparr>ro_alarms := ro_alarms out @ [orphan_of e reaped]\<rparr>"
  have t: "alarms_true ?out h1" if "alarms_true out h"
    using alarms_true_shrinks [OF that df(1)] df(3) by (auto simp: alarms_true_def orphan_of_def)
  have "fst s' = ?out \<and> shrinks h1 (snd s') \<and> (fs_wf h1 \<longrightarrow> fs_wf (snd s'))
    \<and> (q \<noteq> entry_path dir (le_clone_id e) \<longrightarrow> present (snd s') q = present h1 q)"
  proof (cases reaped)
    case True
    obtain r2 h2 where f: "ledger_forget dir (le_clone_id e) h1 = (r2, h2)" by (metis surj_pair)
    show ?thesis
      using assms True ledger_forget_facts [OF f] by (auto simp: reap_entry_def s d f)
  next
    case False
    then show ?thesis using assms by (auto simp: reap_entry_def s d)
  qed
  then have x: "fst s' = ?out" "shrinks h1 (snd s')" "fs_wf h1 \<Longrightarrow> fs_wf (snd s')"
    "q \<noteq> entry_path dir (le_clone_id e) \<Longrightarrow> present (snd s') q = present h1 q" by auto
  show "passes s s'"
    using x(1-3) df(1,2) t alarms_true_shrinks by (auto simp: passes_def s intro: shrinks_trans)
  show "\<exists>reaped. orphan_of e reaped \<in> set (ro_alarms (fst s'))" using x(1) by auto
  show "\<not> under (le_datadir e) q \<Longrightarrow> q \<noteq> entry_path dir (le_clone_id e) \<Longrightarrow> present (snd s') q = present (snd s) q"
    using x(4) df(4) by (simp add: s)
qed

lemma ebind_eq_cases:
  assumes "ebind m f s = (r, s')"
  obtains (fails) e where "m s = (Inl e, s')" "r = Inl e"
  | (goes) x s1 where "m s = (Inr x, s1)" "f x s1 = (r, s')"
  using assms by (auto simp: ebind_def split: prod.splits sum.splits)

text \<open>The ledger pass: whatever it does is a pass, and a directory is only touched for an entry whose owner was dead.\<close>

lemma reap_entries_passes: "reap_entries dir es s = (r, s') \<Longrightarrow> passes s s'"
proof (induction es arbitrary: s)
  case (Cons e es)
  show ?case
  proof (cases "is_live (snd s) (entry_owner e)")
    case True
    then have "reap_entries dir es (skip_live (le_clone_id e) (fst s), snd s) = (r, s')" using Cons.prems by simp
    from Cons.IH [OF this] show ?thesis by (rule passes_trans [OF passes_skip])
  next
    case False
    with Cons.prems have "ebind (reap_entry dir e) (\<lambda>_. reap_entries dir es) s = (r, s')" by simp
    then show ?thesis
      by (cases rule: ebind_eq_cases) (auto intro: passes_trans dest: reap_entry_passes(1) Cons.IH)
  qed
qed simp

lemma reap_from_ledger_passes: "reap_from_ledger codec dir s = (r, s') \<Longrightarrow> passes s s'"
  by (auto simp: reap_from_ledger_def split: sum.splits dest: reap_entries_passes)

lemma sweep_one_cases:
  assumes "sweep_one codec root dir es n s = (r, s')"
  obtains (same) "s' = s" | (skip) "s' = (skip_live n (fst s), snd s)"
  | (reap) "reap_entry dir (swept_entry n (root @ [n]) (read_owner_marker codec (snd s) (root @ [n]))) s = (r, s')"
      "\<not> (\<exists>e \<in> set es. le_datadir e = root @ [n] \<and> is_live (snd s) (entry_owner e))"
      "\<not> (\<exists>own. read_owner_marker codec (snd s) (root @ [n]) = Some own \<and> is_live (snd s) own)"
  using assms unfolding sweep_one_def by (cases s) (auto split: if_splits option.splits)

lemma sweep_one_passes: "sweep_one codec root dir es n s = (r, s') \<Longrightarrow> passes s s'"
  by (erule sweep_one_cases) (auto dest: reap_entry_passes(1))

lemma sweep_names_passes: "sweep_names codec root dir es ns s = (r, s') \<Longrightarrow> passes s s'"
proof (induction ns arbitrary: s)
  case (Cons n ns)
  then have "ebind (sweep_one codec root dir es n) (\<lambda>_. sweep_names codec root dir es ns) s = (r, s')" by simp
  then show ?case
    by (cases rule: ebind_eq_cases) (auto intro: passes_trans dest: sweep_one_passes Cons.IH)
qed simp

lemma sweep_clone_root_passes: "sweep_clone_root codec root dir s = (r, s') \<Longrightarrow> passes s s'"
  by (auto simp: sweep_clone_root_def split: sum.splits io_kind.splits dest: sweep_names_passes)

text \<open>A ledger that lost files names no entry that it did not name before.\<close>

lemma read_file_shrunk:
  assumes "shrinks h h'" "fs_wf h" "read_file h' p = Inr bs"
  shows "read_file h p = Inr bs"
proof -
  have n: "node_at h' p = Some (File bs)" "\<not> hs_deny h' Read p"
    using assms(3) by (auto simp: read_file_def split: option.splits node.splits if_splits)
  then show ?thesis
    using shrinks_node_at [OF assms(1,2) n(1)] shrinks_deny [OF assms(1)] by (simp add: read_file_def)
qed

lemma read_owner_marker_shrunk:
  "shrinks h h' \<Longrightarrow> fs_wf h \<Longrightarrow> read_owner_marker codec h' p = Some own \<Longrightarrow> read_owner_marker codec h p = Some own"
  by (auto simp: read_owner_marker_def split: sum.splits dest: read_file_shrunk)

lemma read_entries_iff:
  assumes "read_entries codec h dir ns = Inr es"
  shows "e \<in> set es \<longleftrightarrow>
    (\<exists>n \<in> set ns. extension n = Some ''json'' \<and> (\<exists>bs. read_file h (dir @ [n]) = Inr bs \<and> dec_entry codec bs = Some e))"
  using assms
  by (induction codec h dir ns arbitrary: es rule: read_entries.induct)
    (auto simp: rbind_Inr_iff split: if_splits sum.splits option.splits)

lemma child_names_iff: "n \<in> set (child_names h p) \<longleftrightarrow> present h (p @ [n])"
proof
  assume "n \<in> set (child_names h p)"
  then obtain q m where "(q, m) \<in> set (hs_fs h)" "q \<noteq> []" "butlast q = p" "last q = n"
    by (auto simp: child_names_def)
  moreover from this have "p @ [n] = q" using append_butlast_last_id by blast
  ultimately show "present h (p @ [n])" by (force simp: present_def)
next
  assume "present h (p @ [n])"
  then obtain m where "(p @ [n], m) \<in> set (hs_fs h)" by (auto simp: present_def)
  then show "n \<in> set (child_names h p)" by (force simp: child_names_def)
qed

lemma read_dir_Inr: "read_dir h p = Inr ns \<Longrightarrow> ns = child_names h p"
  by (auto simp: read_dir_def split: option.splits node.splits if_splits)

lemma entries_iff:
  assumes "entries codec dir h = Inr es" "fs_wf h" "dir \<noteq> []"
  shows "e \<in> set es \<longleftrightarrow>
    (\<exists>n bs. extension n = Some ''json'' \<and> read_file h (dir @ [n]) = Inr bs \<and> dec_entry codec bs = Some e)"
proof (cases "read_dir h dir")
  case (Inl k)
  then have "k = NotFound" "es = []" using assms(1) by (auto simp: entries_def split: io_kind.splits)
  then have "\<not> present h dir" using Inl by (auto simp: read_dir_def present_node split: option.splits node.splits if_splits)
  then have "\<not> present h (dir @ [n])" for n using fs_wf_above [OF assms(2), of dir "[n]"] assms(3) by (cases "present h (dir @ [n])") (auto simp: present_node)
  then show ?thesis using \<open>es = []\<close> by (auto simp: read_file_def present_node)
next
  case (Inr ns)
  then have "read_entries codec h dir ns = Inr es" using assms(1) by (simp add: entries_def)
  note iff = read_entries_iff [OF this]
  have "n \<in> set ns" if "read_file h (dir @ [n]) = Inr bs" for n bs
    using that read_dir_Inr [OF Inr] by (auto simp: child_names_iff present_node read_file_def split: option.splits)
  then show ?thesis using iff by auto
qed

lemma entries_shrunk:
  assumes "shrinks h h'" "fs_wf h" "fs_wf h'" "dir \<noteq> []"
    "entries codec dir h = Inr es" "entries codec dir h' = Inr es'"
  shows "set es' \<subseteq> set es"
  using entries_iff [OF assms(5,2,4)] entries_iff [OF assms(6,3,4)] read_file_shrunk [OF assms(1,2)] by blast

section \<open>No orphan is overlooked\<close>

text \<open>Somebody who is alive is on record as the owner of the directory \<open>p\<close>: in the ledger or in its marker.\<close>

definition proven_owner :: "ledger_codec \<Rightarrow> ledger_entry list \<Rightarrow> host \<Rightarrow> path \<Rightarrow> owner_identity \<Rightarrow> bool" where
  "proven_owner codec es h p own =
     ((\<exists>e \<in> set es. le_datadir e = p \<and> entry_owner e = own) \<or> read_owner_marker codec h p = Some own)"

text \<open>What a pass may say of a directory it met at \<open>h0\<close>: it is gone, the alarm is up, or it has a live owner.\<close>

definition settled :: "ledger_codec \<Rightarrow> ledger_entry list \<Rightarrow> host \<Rightarrow> path \<Rightarrow> string \<Rightarrow> reaping \<Rightarrow> bool" where
  "settled codec es h0 p name s =
     (\<not> present (snd s) p
      \<or> (\<exists>a \<in> set (ro_alarms (fst s)). oa_datadir a = p \<and> \<not> oa_reaped a)
      \<or> name \<in> set (ro_live_skipped (fst s)) \<and> (\<exists>own. proven_owner codec es h0 p own \<and> is_live h0 own))"

lemma settled_passes: "settled codec es h0 p n s \<Longrightarrow> passes s s' \<Longrightarrow> settled codec es h0 p n s'"
  by (auto simp: settled_def passes_def dest: shrinks_present)

lemma alarmed_is_settled:
  assumes "a \<in> set (ro_alarms (fst s))" "oa_datadir a = p" "alarms_true (fst s) (snd s)" "\<not> hs_deny (snd s) Stat p"
  shows "settled codec es h0 p n s"
  using assms by (auto simp: settled_def alarms_true_def exists_path_def)

lemma sweep_one_settles:
  assumes sw: "sweep_one codec root dir es' n s = (Inr (), s')"
    and h0: "shrinks h0 (snd s)" "fs_wf h0" "\<And>q. \<not> hs_deny h0 Stat q"
    and es: "set es' \<subseteq> set es"
    and name: "is_str n" "is_clone_datadir_name n" "node_at h0 (root @ [n]) = Some Dir"
    and al: "alarms_true (fst s) (snd s)"
  shows "settled codec es h0 (root @ [n]) n s'"
proof -
  let ?p = "root @ [n]"
  have p: "passes s s'" using sw by (rule sweep_one_passes)
  have st: "\<not> hs_deny (snd s) Stat q" for q using h0(3) shrinks_deny [OF h0(1)] by simp
  have live: "settled codec es h0 ?p n (skip_live n (fst s), snd s)"
    if "proven_owner codec es' (snd s) ?p own" "is_live (snd s) own" for own
  proof -
    have "is_live h0 own" using shrinks_is_live [OF h0(1) that(2)] .
    moreover have "proven_owner codec es h0 ?p own"
      using that(1) es read_owner_marker_shrunk [OF h0(1,2)] unfolding proven_owner_def by blast
    ultimately show ?thesis by (auto simp: settled_def skip_live_def)
  qed
  show ?thesis
  proof (cases "is_dir (snd s) ?p")
    case False
    then have "node_at (snd s) ?p \<noteq> Some Dir" using st by (simp add: is_dir_def)
    then have "\<not> present (snd s) ?p" using node_at_shrunk [OF h0(1,2)] name(3) by auto
    then have "settled codec es h0 ?p n s" by (simp add: settled_def)
    then show ?thesis using p by (rule settled_passes)
  next
    case True
    consider (alarmed) a where "a \<in> set (ro_alarms (fst s))" "oa_datadir a = ?p"
      | (owned) own where "proven_owner codec es' (snd s) ?p own" "is_live (snd s) own"
          "s' = (skip_live n (fst s), snd s)"
      | (reap) "reap_entry dir (swept_entry n ?p (read_owner_marker codec (snd s) ?p)) s = (Inr (), s')"
    proof -
      let ?own = "read_owner_marker codec (snd s) ?p"
      have d: "\<not> hs_deny (snd s) List ?p" using sw by (auto simp: sweep_one_def split: prod.splits)
      have nxt: "sweep_one codec root dir es' n s =
        (if \<exists>a \<in> set (ro_alarms (fst s)). oa_datadir a = ?p then (Inr (), s)
         else if (\<exists>e \<in> set es'. le_datadir e = ?p \<and> is_live (snd s) (entry_owner e))
                 \<or> (case ?own of Some own \<Rightarrow> is_live (snd s) own | None \<Rightarrow> False)
         then (Inr (), (skip_live n (fst s), snd s))
         else reap_entry dir (swept_entry n ?p ?own) s)"
        unfolding sweep_one_def using d True name(1,2) by (cases s; cases ?own) auto
      show thesis
      proof (cases "\<exists>a \<in> set (ro_alarms (fst s)). oa_datadir a = ?p")
        case True
        then show thesis using that(1) by blast
      next
        case no: False
        show thesis
        proof (cases "\<exists>own. proven_owner codec es' (snd s) ?p own \<and> is_live (snd s) own")
          case True
          then have "s' = (skip_live n (fst s), snd s)"
            using sw unfolding nxt proven_owner_def by (auto simp: no split: if_splits option.splits)
          then show thesis using True that(2) by blast
        next
          case False
          then show thesis
            using sw that(3) unfolding nxt proven_owner_def by (auto simp: no split: if_splits option.splits)
        qed
      qed
    qed
    then show ?thesis
    proof cases
      case alarmed
      then have "settled codec es h0 ?p n s" using al st by (rule alarmed_is_settled)
      then show ?thesis using p by (rule settled_passes)
    next
      case owned
      then show ?thesis using live by simp
    next
      case reap
      obtain b where b: "orphan_of (swept_entry n ?p (read_owner_marker codec (snd s) ?p)) b \<in> set (ro_alarms (fst s'))"
        using reap_entry_passes(2) [OF reap] by blast
      have "alarms_true (fst s') (snd s')" "hs_deny (snd s') = hs_deny (snd s)"
        using p al by (auto simp: passes_def shrinks_def)
      then show ?thesis using b st by (intro alarmed_is_settled [OF b]) (simp_all add: orphan_of_def swept_entry_def)
    qed
  qed
qed

lemma sweep_names_settles:
  assumes "sweep_names codec root dir es' ns s = (Inr (), s')" "n \<in> set ns"
    and "shrinks h0 (snd s)" "fs_wf h0" "\<And>q. \<not> hs_deny h0 Stat q" "set es' \<subseteq> set es"
    and "is_str n" "is_clone_datadir_name n" "node_at h0 (root @ [n]) = Some Dir" "alarms_true (fst s) (snd s)"
  shows "settled codec es h0 (root @ [n]) n s'"
  using assms(1-3,10)
proof (induction ns arbitrary: s)
  case (Cons m ns)
  then obtain s1 where one: "sweep_one codec root dir es' m s = (Inr (), s1)" and rest: "sweep_names codec root dir es' ns s1 = (Inr (), s')"
    by (auto simp: ebind_Inr_iff)
  have p1: "passes s s1" using one by (rule sweep_one_passes)
  show ?case
  proof (cases "n = m")
    case True
    have "settled codec es h0 (root @ [n]) n s1"
      using sweep_one_settles [OF one [folded True] Cons.prems(3) assms(4,5,6,7,8,9) Cons.prems(4)] .
    then show ?thesis using sweep_names_passes [OF rest] by (rule settled_passes)
  next
    case False
    have "shrinks h0 (snd s1)" "alarms_true (fst s1) (snd s1)"
      using p1 Cons.prems(3,4) by (auto simp: passes_def intro: shrinks_trans)
    then show ?thesis using Cons.IH [OF rest] Cons.prems(2) False by simp
  qed
qed simp

lemma full_pass_cases:
  assumes "reap_orphans_with_sweep codec dir root h = (res, h')"
  obtains (fails) e out where "reap_from_ledger codec dir (no_outcome, h) = (Inl e, (out, h'))" "res = Inl e"
  | (sweeps) s1 r out where "reap_from_ledger codec dir (no_outcome, h) = (Inr (), s1)"
      "sweep_clone_root codec root dir s1 = (r, (out, h'))" "res = rbind r (\<lambda>_. Inr out)"
proof -
  obtain r1 s1 where l: "reap_from_ledger codec dir (no_outcome, h) = (r1, s1)" by (metis surj_pair)
  obtain r2 s2 where w: "sweep_clone_root codec root dir s1 = (r2, s2)" by (metis surj_pair)
  show ?thesis
  proof (cases r1)
    case (Inl e)
    then show ?thesis using assms l fails [of e "fst s1"]
      by (simp add: reap_orphans_with_sweep_def ebind_def split: prod.splits)
  next
    case (Inr u)
    then show ?thesis using assms l w sweeps [of s1 r2 "fst s2"]
      by (auto simp: reap_orphans_with_sweep_def ebind_def split: prod.splits sum.splits)
  qed
qed

lemma no_outcome_true [simp]: "alarms_true no_outcome h"
  by (simp add: alarms_true_def no_outcome_def)

text \<open>
  C28: a full pass of the reaper that returns normally overlooks no clone directory. Whatever the ledger
  says, every directory of the clone root with the owned name prefix is gone when the pass ends, or
  the alarm says it could not be removed, or the pass reports it as skipped and somebody alive is on
  record as its owner, in the ledger or in the marker inside it.
\<close>
theorem reaper_overlooks_no_clone:
  assumes "reap_orphans_with_sweep codec dir root h = (Inr out, h')"
    and "entries codec dir h = Inr es"
    and "fs_wf h" "\<And>q. \<not> hs_deny h Stat q" "dir \<noteq> []" "root \<noteq> []"
    and "is_dir h (root @ [name])" "is_str name" "is_clone_datadir_name name"
  shows "\<not> present h' (root @ [name])
    \<or> (\<exists>a \<in> set (ro_alarms out). oa_datadir a = root @ [name] \<and> \<not> oa_reaped a)
    \<or> name \<in> set (ro_live_skipped out)
        \<and> (\<exists>own. is_live h own \<and> ((\<exists>e \<in> set es. le_datadir e = root @ [name] \<and> entry_owner e = own)
                                \<or> read_owner_marker codec h (root @ [name]) = Some own))"
proof -
  let ?p = "root @ [name]"
  obtain s1 where l: "reap_from_ledger codec dir (no_outcome, h) = (Inr (), s1)"
    and w: "sweep_clone_root codec root dir s1 = (Inr (), (out, h'))"
    using assms(1)
  proof (cases rule: full_pass_cases)
    case (sweeps s1 r out')
    then show ?thesis using that [of s1] by (cases r) auto
  qed simp
  have p1: "passes (no_outcome, h) s1" using l by (rule reap_from_ledger_passes)
  then have f: "shrinks h (snd s1)" "fs_wf (snd s1)" "alarms_true (fst s1) (snd s1)"
    using assms(3) by (auto simp: passes_def)
  have p2: "passes s1 (out, h')" using w by (rule sweep_clone_root_passes)
  have "settled codec es h ?p name (out, h')"
  proof (cases "present (snd s1) ?p")
    case False
    then have "settled codec es h ?p name s1" by (simp add: settled_def)
    then show ?thesis using p2 by (rule settled_passes)
  next
    case True
    then have "node_at (snd s1) root = Some Dir" using fs_wf_above [OF f(2) True] assms(6) by simp
    then obtain es' where es': "entries codec dir (snd s1) = Inr es'"
      and sw: "sweep_names codec root dir es' (child_names (snd s1) root) s1 = (Inr (), (out, h'))"
      using w by (auto simp: sweep_clone_root_def read_dir_def split: if_splits sum.splits)
    have "name \<in> set (child_names (snd s1) root)" using True by (simp add: child_names_iff)
    moreover have "set es' \<subseteq> set es" using entries_shrunk [OF f(1) assms(3) f(2) assms(5) assms(2) es'] .
    moreover have "node_at h ?p = Some Dir" using assms(7) by (simp add: is_dir_def)
    ultimately show ?thesis using sweep_names_settles [OF sw _ f(1) assms(3,4) _ assms(8,9) _ f(3)] by blast
  qed
  then show ?thesis by (auto simp: settled_def proven_owner_def)
qed

section \<open>No live clone is touched\<close>

definition intact :: "path \<Rightarrow> host \<Rightarrow> host \<Rightarrow> bool" where
  "intact p h h' = (\<forall>q. under p q \<longrightarrow> present h' q = present h q)"

lemma intact_trans: "intact p a b \<Longrightarrow> intact p b c \<Longrightarrow> intact p a c"
  by (simp add: intact_def)

lemma intact_refl [simp]: "intact p h h"
  by (simp add: intact_def)

lemma under_common: "under p r \<Longrightarrow> under q r \<Longrightarrow> under p q \<or> under q p"
  by (auto simp: under_iff append_eq_append_conv2)

text \<open>Reaping the entries that are dead at \<open>h'\<close> does not reach \<open>q\<close>.\<close>

definition spared :: "ledger \<Rightarrow> host \<Rightarrow> ledger_entry list \<Rightarrow> path \<Rightarrow> bool" where
  "spared dir h' es q =
     (\<forall>e \<in> set es. is_live h' (entry_owner e) \<or> \<not> under (le_datadir e) q \<and> q \<noteq> entry_path dir (le_clone_id e))"

lemma reap_entries_spares:
  assumes "reap_entries dir es s = (r, s')" "shrinks (snd s') h'" "spared dir h' es q"
  shows "present (snd s') q = present (snd s) q"
  using assms
proof (induction es arbitrary: s)
  case (Cons e es)
  have sp: "spared dir h' es q" using Cons.prems(3) by (simp add: spared_def)
  show ?case
  proof (cases "is_live (snd s) (entry_owner e)")
    case True
    then have "reap_entries dir es (skip_live (le_clone_id e) (fst s), snd s) = (r, s')" using Cons.prems by simp
    from Cons.IH [OF this Cons.prems(2) sp] show ?thesis by simp
  next
    case False
    have "shrinks (snd s) h'"
      using reap_entries_passes [OF Cons.prems(1)] Cons.prems(2) by (auto simp: passes_def intro: shrinks_trans)
    then have "\<not> under (le_datadir e) q \<and> q \<noteq> entry_path dir (le_clone_id e)"
      using False Cons.prems(3) shrinks_is_live by (auto simp: spared_def)
    then have one: "present (snd t) q = present (snd s) q" if "reap_entry dir e s = (x, t)" for x t
      using reap_entry_passes(3) [OF that] by blast
    from False Cons.prems have "ebind (reap_entry dir e) (\<lambda>_. reap_entries dir es) s = (r, s')" by simp
    then show ?thesis
      by (cases rule: ebind_eq_cases) (auto dest: one Cons.IH [OF _ Cons.prems(2) sp])
  qed
qed simp

lemma sweep_one_intact:
  assumes sw: "sweep_one codec root dir es n s = (r, s')" and led: "\<And>i. \<not> under p (entry_path dir i)"
    and p: "p = root @ [name]"
    and own: "n = name \<Longrightarrow> (\<exists>e \<in> set es. le_datadir e = p \<and> is_live (snd s) (entry_owner e))
      \<or> (\<exists>own. read_owner_marker codec (snd s) p = Some own \<and> is_live (snd s) own)"
  shows "intact p (snd s) (snd s')"
  using sw
proof (cases rule: sweep_one_cases)
  case reap
  have "n \<noteq> name" using own p reap(2,3) by auto
  then have a: "\<not> under (root @ [n]) q" if "under p q" for q
    using that under_common [of "root @ [n]" q p] by (auto simp: p under_def)
  have "present (snd s') q = present (snd s) q" if "under p q" for q
    using that a [OF that] led reap_entry_passes(3) [OF reap(1)] by (auto simp: swept_entry_def)
  then show ?thesis by (simp add: intact_def)
qed simp_all

lemma read_file_intact:
  assumes "intact p h h'" "shrinks h h'" "fs_wf h" "under p q"
  shows "read_file h' q = read_file h q"
proof -
  have "node_at h' q = node_at h q"
    using node_at_shrunk [OF assms(2,3), of q] assms(1,4) by (cases "present h q") (auto simp: intact_def present_node)
  moreover have "hs_deny h' = hs_deny h" using assms(2) by (rule shrinks_deny)
  ultimately show ?thesis unfolding read_file_def by presburger
qed

lemma sweep_names_intact:
  assumes "sweep_names codec root dir es ns s = (r, s')" and led: "\<And>i. \<not> under p (entry_path dir i)"
    and p: "p = root @ [name]" and fin: "shrinks (snd s') h'" and wf: "fs_wf (snd s)"
    and own: "(\<exists>e \<in> set es. le_datadir e = p \<and> is_live h' (entry_owner e))
      \<or> (\<exists>own. read_owner_marker codec (snd s) p = Some own \<and> is_live h' own)"
  shows "intact p (snd s) (snd s')"
  using assms(1) wf own fin
proof (induction ns arbitrary: s)
  case (Cons n ns)
  have live: "is_live (snd s) own" if "is_live h' own" for own
    using sweep_names_passes [OF Cons.prems(1)] Cons.prems(4) that
    by (auto simp: passes_def intro: shrinks_is_live shrinks_trans)
  have one: "intact p (snd s) (snd t)" if "sweep_one codec root dir es n s = (x, t)" for x t
    using sweep_one_intact [OF that led p] Cons.prems(3) live by blast
  from Cons.prems(1) have "ebind (sweep_one codec root dir es n) (\<lambda>_. sweep_names codec root dir es ns) s = (r, s')" by simp
  then show ?case
  proof (cases rule: ebind_eq_cases)
    case (goes x s1)
    have q: "passes s s1" using goes(1) by (rule sweep_one_passes)
    then have "fs_wf (snd s1)" using Cons.prems(2) by (simp add: passes_def)
    moreover have "read_owner_marker codec (snd s1) p = read_owner_marker codec (snd s) p"
      using read_file_intact [OF one [OF goes(1)] _ Cons.prems(2), of "p @ [OWNER_MARKER]"] q
      by (simp add: read_owner_marker_def passes_def)
    ultimately have "intact p (snd s1) (snd s')" using Cons.IH [OF goes(2)] Cons.prems(3,4) by simp
    with one [OF goes(1)] show ?thesis by (rule intact_trans)
  qed (rule one)
qed simp

lemma full_pass_facts:
  assumes "reap_orphans_with_sweep codec dir root h = (res, h')" "fs_wf h"
  shows "shrinks h h'" "fs_wf h'"
  using assms
  by (cases rule: full_pass_cases;
      use reap_from_ledger_passes [of codec dir "(no_outcome, h)"] sweep_clone_root_passes [of codec root dir] in
      \<open>fastforce simp: passes_def intro: shrinks_trans\<close>)+

lemma entry_path_outside:
  assumes "dir \<noteq> root" "\<not> under (root @ [name]) dir"
  shows "\<not> under (root @ [name]) (entry_path dir i)"
proof
  assume "under (root @ [name]) (entry_path dir i)"
  then obtain f r where "dir @ [f] = (root @ [name]) @ r" unfolding entry_path_def by (blast dest: underD)
  then show False using assms by (cases r rule: rev_cases) (auto simp: under_iff)
qed

lemma read_owner_marker_intact:
  "intact p h h' \<Longrightarrow> shrinks h h' \<Longrightarrow> fs_wf h \<Longrightarrow> read_owner_marker codec h' p = read_owner_marker codec h p"
  using read_file_intact [of p h h' "p @ [OWNER_MARKER]"] by (simp add: read_owner_marker_def)

text \<open>A ledger file that the pass does not reach is still listed.\<close>

lemma entry_survives:
  assumes "shrinks h h1" "fs_wf h" "fs_wf h1" "dir \<noteq> []" "present h1 (dir @ [n]) = present h (dir @ [n])"
    "extension n = Some ''json''" "read_file h (dir @ [n]) = Inr bs" "dec_entry codec bs = Some e"
    "entries codec dir h1 = Inr es1"
  shows "e \<in> set es1"
proof -
  have "node_at h1 (dir @ [n]) = node_at h (dir @ [n])"
    using node_at_shrunk [OF assms(1,2), of "dir @ [n]"] assms(5) by (cases "present h (dir @ [n])") (auto simp: present_node)
  moreover have "hs_deny h1 = hs_deny h" using assms(1) by (rule shrinks_deny)
  ultimately have "read_file h1 (dir @ [n]) = Inr bs" using assms(7) unfolding read_file_def by presburger
  then show ?thesis using entries_iff [OF assms(9,3,4)] assms(6,8) by blast
qed

lemma reap_from_ledger_spares:
  assumes "reap_from_ledger codec dir s = (r, s')" "shrinks (snd s') h'" "entries codec dir (snd s) = Inr es" "spared dir h' es q"
  shows "present (snd s') q = present (snd s) q"
  using assms reap_entries_spares [of dir es s r s' h' q] by (simp add: reap_from_ledger_def)

lemma sweep_clone_root_cases:
  assumes "sweep_clone_root codec root dir s = (r, s')"
  obtains (nothing) "s' = s" | (names) es ns where "entries codec dir (snd s) = Inr es" "sweep_names codec root dir es ns s = (r, s')"
  using assms by (auto simp: sweep_clone_root_def split: sum.splits io_kind.splits)

text \<open>A clone with a live owner on record, which no dead entry reaches, is left as it was.\<close>

lemma live_clone_intact:
  assumes "reap_orphans_with_sweep codec dir root h = (res, h')" "entries codec dir h = Inr es"
    and "fs_wf h" "dir \<noteq> []" "dir \<noteq> root" "\<not> under (root @ [name]) dir"
    and "is_live h' own"
    and "read_owner_marker codec h (root @ [name]) = Some own
         \<or> (\<exists>n e bs. extension n = Some ''json'' \<and> read_file h (dir @ [n]) = Inr bs \<and> dec_entry codec bs = Some e
              \<and> le_datadir e = root @ [name] \<and> entry_owner e = own \<and> spared dir h' es (dir @ [n]))"
    and "\<And>q. under (root @ [name]) q \<Longrightarrow> spared dir h' es q"
  shows "intact (root @ [name]) h h'"
proof -
  let ?p = "root @ [name]"
  note led = entry_path_outside [OF assms(5,6)]
  have ledger: "intact ?p h (snd s1)"
    if "reap_from_ledger codec dir (no_outcome, h) = (r1, s1)" "shrinks (snd s1) h'" for r1 s1
    unfolding intact_def using reap_from_ledger_spares [OF that, of es] assms(2,9) by simp
  from assms(1) show ?thesis
  proof (cases rule: full_pass_cases)
    case (fails e out)
    then show ?thesis using ledger [OF fails(1)] by simp
  next
    case (sweeps s1 r out)
    have p1: "shrinks h (snd s1)" "fs_wf (snd s1)"
      using reap_from_ledger_passes [OF sweeps(1)] assms(3) by (auto simp: passes_def)
    have sh: "shrinks (snd s1) h'" using sweep_clone_root_passes [OF sweeps(2)] by (simp add: passes_def)
    note l = ledger [OF sweeps(1) sh]
    from sweeps(2) have "intact ?p (snd s1) h'"
    proof (cases rule: sweep_clone_root_cases)
      case nothing
      then show ?thesis by (metis intact_refl snd_conv)
    next
      case (names es' ns)
      have keep: "e \<in> set es'"
        if "extension n = Some ''json''" "read_file h (dir @ [n]) = Inr bs" "dec_entry codec bs = Some e"
           "spared dir h' es (dir @ [n])" for n e bs
        using entry_survives [OF p1(1) assms(3) p1(2) assms(4) _ that(1-3) names(1)]
          reap_from_ledger_spares [OF sweeps(1) sh _ that(4)] assms(2) by simp
      have "(\<exists>e \<in> set es'. le_datadir e = ?p \<and> is_live h' (entry_owner e))
        \<or> (\<exists>own. read_owner_marker codec (snd s1) ?p = Some own \<and> is_live h' own)"
        using assms(8)
      proof
        assume "read_owner_marker codec h ?p = Some own"
        then show ?thesis using read_owner_marker_intact [OF l p1(1) assms(3)] assms(7) by simp
      next
        assume "\<exists>n e bs. extension n = Some ''json'' \<and> read_file h (dir @ [n]) = Inr bs \<and> dec_entry codec bs = Some e
          \<and> le_datadir e = ?p \<and> entry_owner e = own \<and> spared dir h' es (dir @ [n])"
        then show ?thesis using keep assms(7) by blast
      qed
      then show ?thesis using sweep_names_intact [OF names(2) led refl _ p1(2), of h'] by simp
    qed
    with l show ?thesis by (rule intact_trans)
  qed
qed

lemma intact_nodes:
  assumes "intact p h h'" and "shrinks h h'" and "fs_wf h" and "under p q"
  shows "node_at h' q = node_at h q"
proof (cases "present h' q")
  case True
  then show ?thesis by (rule node_at_shrunk [OF assms(2,3)])
next
  case False
  with assms(1,4) have "\<not> present h q" by (simp add: intact_def)
  with False show ?thesis by (simp add: present_node)
qed

text \<open>
  C29: the reaper never touches the clone of a live orchestrator, however its pass ends. On a
  well-formed host, with the ledger and the clone root apart and every ledger entry naming a child
  of that root, as the provider writes them: if every entry for a clone directory has an owner that
  is alive when the pass ends, and the marker in the directory, or a ledger file that is not the file
  of a dead entry too, names such an owner, then every file and directory in it, itself included, is
  there with the contents it had, and none was added.
\<close>

theorem reaper_spares_live_clones:
  assumes pass: "reap_orphans_with_sweep codec dir root h = (res, h')" "entries codec dir h = Inr es"
    and wf: "fs_wf h" "dir \<noteq> []" "\<not> under root dir" "\<not> under dir root"
    and children: "\<And>e. e \<in> set es \<Longrightarrow> \<exists>m. le_datadir e = root @ [m]"
    and live: "\<And>e. e \<in> set es \<Longrightarrow> le_datadir e = root @ [name] \<Longrightarrow> is_live h' (entry_owner e)" "is_live h' own"
    and owner: "read_owner_marker codec h (root @ [name]) = Some own
         \<or> (\<exists>n e bs. extension n = Some ''json'' \<and> read_file h (dir @ [n]) = Inr bs \<and> dec_entry codec bs = Some e
              \<and> le_datadir e = root @ [name] \<and> entry_owner e = own
              \<and> (\<forall>d \<in> set es. dir @ [n] = entry_path dir (le_clone_id d) \<longrightarrow> is_live h' (entry_owner d)))"
    and "under (root @ [name]) q"
  shows "node_at h' q = node_at h q"
proof -
  have out: "dir \<noteq> root" "\<not> under (root @ [name]) dir"
    using wf(3) under_trans [of root "root @ [name]" dir] by auto
  have apart: "\<not> under (le_datadir e) p" if "e \<in> set es" "\<not> under root p" for e p
    using children [OF that(1)] that(2) under_trans [of root _ p] by force
  have inside: "spared dir h' es p" if p: "under (root @ [name]) p" for p
  proof -
    have "p \<noteq> entry_path dir i" for i using entry_path_outside [OF out] p by blast
    moreover have "\<not> under (le_datadir e) p \<or> is_live h' (entry_owner e)" if "e \<in> set es" for e
    proof (cases "le_datadir e = root @ [name]")
      case False
      with children [OF that] obtain m where "le_datadir e = root @ [m]" "m \<noteq> name" by auto
      then show ?thesis using p by (auto simp: under_iff)
    qed (use live(1) that in auto)
    ultimately show ?thesis by (auto simp: spared_def)
  qed
  have "\<not> under root (dir @ [n])" for n
    using wf(3,4) by (auto simp: under_iff append_eq_append_conv2)
  then have "spared dir h' es (dir @ [n])"
    if "\<forall>d \<in> set es. dir @ [n] = entry_path dir (le_clone_id d) \<longrightarrow> is_live h' (entry_owner d)" for n
    using that apart by (auto simp: spared_def)
  then have "intact (root @ [name]) h h'"
    using owner inside by (intro live_clone_intact [OF pass wf(1,2) out live(2)]) blast+
  then show ?thesis by (rule intact_nodes [OF _ full_pass_facts(1) [OF pass(1) wf(1)] wf(1) assms(11)])
qed

section \<open>The postmaster of an orphan\<close>

lemma wait_pid_gone_True: "wait_pid_gone pid tries ms h = (b, h') \<Longrightarrow> b = (\<not> pid_alive h' pid)"
  by (induction tries arbitrary: h) (auto split: if_splits)

lemma wait_pid_gone_leaves:
  assumes "hs_procs h pid = Some pr" "pr_exit pr = Some n" "n \<le> tries * ms" "0 < tries"
  shows "\<not> pid_alive (snd (wait_pid_gone pid tries ms h)) pid"
  using assms
proof (induction tries arbitrary: h pr n)
  case (Suc tries)
  show ?case
  proof (cases "n \<le> ms")
    case True
    then have "hs_procs (sleep ms h) pid = None" using Suc.prems by (simp add: sleep_def)
    then have "\<not> pid_alive (sleep ms h) pid" by (simp add: pid_alive_def kill_target_def)
    then have "\<not> pid_alive h2 pid" if "shrinks (sleep ms h) h2" for h2 using that shrinks_pid_alive by blast
    then show ?thesis
      using shrinks_wait [of pid tries ms "sleep ms h"] by simp (metis surjective_pairing)
  next
    case False
    then have "hs_procs (sleep ms h) pid = Some (pr\<lparr>pr_exit := Some (n - ms)\<rparr>)" using Suc.prems by (simp add: sleep_def)
    moreover have "0 < tries" using Suc.prems(3) False by (cases tries) auto
    ultimately show ?thesis using Suc.IH [of "sleep ms h" _ "n - ms"] Suc.prems False by simp
  qed
qed simp

text \<open>
  Stopping the cluster of an orphan ends within its ten seconds: a postmaster that is gone at most five
  seconds after \<^verbatim>\<open>SIGQUIT\<close> is gone when \<^verbatim>\<open>destroy_orphan\<close> returns, whatever it does with the
  \<^verbatim>\<open>SIGINT\<close> that is sent first.
\<close>
lemma orphan_postmaster_is_stopped:
  assumes "postmaster_pid h (pidfile e) = Some pm" "hs_procs h pm = Some pr"
    and "pr_on pr ''QUIT'' = Some n" "n \<le> 5000" "destroy_orphan e h = (reaped, h')"
  shows "\<not> pid_alive h' pm"
proof -
  have stop: "\<not> pid_alive (stop_postmaster pm h) pm"
  proof -
    obtain b h1 where w1: "wait_pid_gone pm 50 100 (signal pm ''INT'' h) = (b, h1)" by (metis surj_pair)
    obtain c h2 where w2: "wait_pid_gone pm 50 100 (signal pm ''QUIT'' h1) = (c, h2)" by (metis surj_pair)
    have sh: "shrinks h h1" using shrinks_wait [OF w1] shrinks_trans [OF shrinks_signal] by blast
    have "\<not> pid_alive h2 pm" if b: "\<not> b"
    proof -
      obtain pr1 where k1: "kill_target h1 pm = Some pr1" "pm \<noteq> 0"
        using wait_pid_gone_True [OF w1] b by (auto simp: pid_alive_def split: if_splits)
      then have "pr_on pr1 ''QUIT'' = Some n"
        using shrinks_kill_target [OF sh k1(1)] assms(2,3) by (auto simp: kill_target_def split: if_splits)
      then have q: "hs_procs (signal pm ''QUIT'' h1) pm = leave_within (Some n) pr1" using k1(1) by (simp add: signal_def)
      show ?thesis
      proof (cases "leave_within (Some n) pr1")
        case None
        then have "\<not> pid_alive (signal pm ''QUIT'' h1) pm" using q by (simp add: pid_alive_def kill_target_def)
        then show ?thesis using shrinks_pid_alive shrinks_wait [OF w2] by blast
      next
        case (Some pr2)
        then obtain k where "pr_exit pr2 = Some k" "k \<le> 50 * 100"
          using assms(4) by (auto simp: leave_within_def split: if_splits option.splits)
        then show ?thesis using wait_pid_gone_leaves [of "signal pm ''QUIT'' h1" pm pr2 k 50 100] q Some w2 by simp
      qed
    qed
    then show ?thesis using w1 w2 wait_pid_gone_True [OF w1] by (cases b) (auto simp: stop_postmaster_def)
  qed
  have "\<not> pid_alive (orphan_stopped e h) pm"
    using stop assms(1) by (simp add: orphan_stopped_def)
  moreover have "shrinks (orphan_stopped e h) h'"
    using assms(5) by (cases rule: destroy_orphan_cases) (auto intro: shrinks_remove_dir_all)
  ultimately show ?thesis using shrinks_pid_alive by blast
qed

section \<open>A sample host\<close>

text \<open>
  One clone of a dead orchestrator (process 7, on the ledger) and one of a live orchestrator (process 8,
  known by the marker in its directory).
\<close>

definition sample_root :: path where "sample_root = [''/'', ''clones'']"
definition sample_dir :: path where "sample_dir = [''/'', ''ledger'']"

definition dead_entry :: ledger_entry where
  "dead_entry = \<lparr>le_clone_id = ''local-clone-7-1'', le_datadir = sample_root @ [''local-clone-7-1''], le_port = 54361,
    le_owner_pid = 7, le_owner_start = ''Mon''\<rparr>"

definition live_owner :: owner_identity where
  "live_owner = \<lparr>oi_pid = 8, oi_start = ''Tue''\<rparr>"

definition sample_codec :: ledger_codec where
  "sample_codec = \<lparr>enc_entry = (\<lambda>e. Some [1]), dec_entry = (\<lambda>bs. if bs = [1] then Some dead_entry else None),
    enc_owner = (\<lambda>own. Some [2]), dec_owner = (\<lambda>bs. if bs = [2] then Some live_owner else None)\<rparr>"

definition sample_host :: host where
  "sample_host =
     \<lparr>hs_fs = [([''/''], Dir), (sample_root, Dir), (sample_dir, Dir),
        (sample_root @ [''local-clone-7-1''], Dir), (sample_root @ [''local-clone-7-1'', ''base''], File [5]),
        (sample_root @ [''local-clone-8-1''], Dir), (sample_root @ [''local-clone-8-1'', OWNER_MARKER], File [2]),
        (sample_dir @ [''local-clone-7-1.json''], File [1])],
      hs_procs = [8 \<mapsto> \<lparr>pr_lstart = None, pr_foreign = False, pr_exit = None, pr_on = (\<lambda>_. None)\<rparr>],
      hs_kill_runs = True, hs_deny = (\<lambda>_ _. False), hs_survive = (\<lambda>_. False)\<rparr>"

lemmas host_defs = sample_root_def sample_dir_def dead_entry_def live_owner_def sample_codec_def sample_host_def OWNER_MARKER_def

lemma sample_wf: "fs_wf sample_host"
  by (simp add: fs_wf_def host_defs numeral_eq_Suc atLeastLessThanSuc atLeastLessThan_singleton)

lemma sample_entries: "entries sample_codec sample_dir sample_host = Inr [dead_entry]"
  by (simp add: entries_def read_dir_def node_at_def child_names_def extension_def read_file_def host_defs)

lemma sample_dead: "\<not> is_live sample_host (entry_owner dead_entry)"
  by (simp add: is_live_def pid_alive_def kill_target_def entry_owner_def host_defs)

lemma sample_entry_path: "entry_path sample_dir ''local-clone-7-1'' = sample_dir @ [''local-clone-7-1.json'']"
  by (simp add: entry_path_def safe_char_def is_ascii_alphabetic_def char_len_def)

definition sample_swept :: host where
  "sample_swept = drop_nodes (under (le_datadir dead_entry)) sample_host"

definition sample_after :: host where
  "sample_after = drop_nodes (\<lambda>q. q = entry_path sample_dir ''local-clone-7-1'') sample_swept"

definition sample_out :: reap_outcome where
  "sample_out = \<lparr>ro_alarms = [orphan_of dead_entry True], ro_live_skipped = []\<rparr>"

lemma sample_destroyed: "destroy_orphan dead_entry sample_host = (True, sample_swept)"
  by (simp add: destroy_orphan_def postmaster_pid_def pidfile_def read_file_def node_at_def exists_path_def present_def
      remove_dir_all_def sample_swept_def drop_nodes_def under_def host_defs)

lemma sample_forgotten: "ledger_forget sample_dir ''local-clone-7-1'' sample_swept = (Inr (), sample_after)"
  using sample_entry_path
  by (simp add: ledger_forget_def remove_file_def node_at_def sample_after_def sample_swept_def drop_nodes_def under_def host_defs)

lemma sample_ledger_pass: "reap_from_ledger sample_codec sample_dir (no_outcome, sample_host) = (Inr (), (sample_out, sample_after))"
proof -
  have "le_clone_id dead_entry = ''local-clone-7-1''" by (simp add: dead_entry_def)
  then have "reap_entry sample_dir dead_entry (no_outcome, sample_host) = (Inr (), (sample_out, sample_after))"
    by (simp add: reap_entry_def sample_destroyed sample_forgotten sample_out_def no_outcome_def)
  then show ?thesis by (simp add: reap_from_ledger_def sample_entries sample_dead ebind_def)
qed

lemma sample_after_live: "is_live sample_after live_owner"
proof -
  have same: "is_live (drop_nodes P h) own = is_live h own" for P h own
  proof -
    have "kill_target (drop_nodes P h) pid = kill_target h pid" "process_start_time (drop_nodes P h) pid = process_start_time h pid" for pid
      by (simp_all add: kill_target_def process_start_time_def drop_nodes_def)
    then show ?thesis by (simp only: is_live_def pid_alive_def)
  qed
  have "is_live sample_host live_owner"
    by (simp add: is_live_def pid_alive_def kill_target_def process_start_time_def host_defs)
  then show ?thesis by (simp add: sample_after_def sample_swept_def same)
qed

lemma sample_sweep: "sweep_clone_root sample_codec sample_root sample_dir (sample_out, sample_after) =
    (Inr (), (skip_live ''local-clone-8-1'' sample_out, sample_after))"
proof -
  have fs: "hs_fs sample_after = [([''/''], Dir), (sample_root, Dir), (sample_dir, Dir),
        (sample_root @ [''local-clone-8-1''], Dir), (sample_root @ [''local-clone-8-1'', OWNER_MARKER], File [2])]"
      "hs_deny sample_after = (\<lambda>_ _. False)"
    using sample_entry_path by (simp_all add: sample_after_def sample_swept_def drop_nodes_def under_def host_defs)
  have "read_dir sample_after sample_root = Inr [''local-clone-8-1'']"
    by (simp add: read_dir_def node_at_def child_names_def fs host_defs)
  moreover have "entries sample_codec sample_dir sample_after = Inr []"
    by (simp add: entries_def read_dir_def node_at_def child_names_def fs host_defs)
  moreover have "read_owner_marker sample_codec sample_after (sample_root @ [''local-clone-8-1'']) = Some live_owner"
    by (simp add: read_owner_marker_def read_file_def node_at_def fs host_defs)
  moreover have "is_dir sample_after (sample_root @ [''local-clone-8-1''])"
    by (simp add: is_dir_def node_at_def fs host_defs)
  moreover have "is_str ''local-clone-8-1''" by (rule is_str_ascii) (simp add: as_bytes_def)
  moreover have "oa_datadir (orphan_of dead_entry True) \<noteq> sample_root @ [''local-clone-8-1'']"
    by (simp add: orphan_of_def dead_entry_def)
  ultimately show ?thesis
    by (simp add: sweep_clone_root_def sweep_one_def ebind_def sample_after_live fs(2) is_clone_datadir_name_def sample_out_def)
qed

lemma sample_pass: "reap_orphans_with_sweep sample_codec sample_dir sample_root sample_host =
    (Inr (skip_live ''local-clone-8-1'' sample_out), sample_after)"
  by (simp add: reap_orphans_with_sweep_def ebind_def sample_ledger_pass sample_sweep)

lemma sample_names: "is_str ''local-clone-7-1''" "is_clone_datadir_name ''local-clone-7-1''"
  by (rule is_str_ascii, simp add: as_bytes_def) (simp add: is_clone_datadir_name_def)

text \<open>The directory of the dead orchestrator is gone.\<close>

theorem reaper_overlooks_no_clone_witness: "\<not> present sample_after (sample_root @ [''local-clone-7-1''])"
proof -
  let ?p = "sample_root @ [''local-clone-7-1'']"
  have "\<not> present sample_after ?p
    \<or> (\<exists>a \<in> set (ro_alarms (skip_live ''local-clone-8-1'' sample_out)). oa_datadir a = ?p \<and> \<not> oa_reaped a)
    \<or> ''local-clone-7-1'' \<in> set (ro_live_skipped (skip_live ''local-clone-8-1'' sample_out))
        \<and> (\<exists>own. is_live sample_host own \<and> ((\<exists>e \<in> set [dead_entry]. le_datadir e = ?p \<and> entry_owner e = own)
                                \<or> read_owner_marker sample_codec sample_host ?p = Some own))"
    by (rule reaper_overlooks_no_clone [OF sample_pass sample_entries sample_wf _ _ _ _ sample_names])
      (simp_all add: host_defs is_dir_def node_at_def)
  then show ?thesis by (auto simp: skip_live_def sample_out_def orphan_of_def)
qed

text \<open>The file in the directory of the live orchestrator is still there, with its byte.\<close>

theorem reaper_spares_live_clones_witness:
  "node_at sample_after (sample_root @ [''local-clone-8-1'', OWNER_MARKER]) = Some (File [2])"
proof -
  let ?q = "sample_root @ [''local-clone-8-1'', OWNER_MARKER]"
  have "node_at sample_after ?q = node_at sample_host ?q"
  proof (rule reaper_spares_live_clones [OF sample_pass sample_entries sample_wf])
    show "read_owner_marker sample_codec sample_host (sample_root @ [''local-clone-8-1'']) = Some live_owner
      \<or> (\<exists>n e bs. extension n = Some ''json'' \<and> read_file sample_host (sample_dir @ [n]) = Inr bs \<and> dec_entry sample_codec bs = Some e
          \<and> le_datadir e = sample_root @ [''local-clone-8-1''] \<and> entry_owner e = live_owner
          \<and> (\<forall>d \<in> set [dead_entry]. sample_dir @ [n] = entry_path sample_dir (le_clone_id d) \<longrightarrow> is_live sample_after (entry_owner d)))"
      by (rule disjI1) (simp add: read_owner_marker_def read_file_def node_at_def host_defs)
  qed (simp_all add: sample_after_live, simp_all add: host_defs under_def)
  then show ?thesis by (simp add: node_at_def host_defs)
qed

definition stubborn_host :: host where
  "stubborn_host =
     sample_host\<lparr>hs_fs := hs_fs sample_host @ [(sample_root @ [''local-clone-7-1'', ''postmaster.pid''], File (as_bytes ''9''))],
       hs_procs := [9 \<mapsto> \<lparr>pr_lstart = None, pr_foreign = False, pr_exit = None,
         pr_on = (\<lambda>sig. if sig = ''QUIT'' then Some 300 else None)\<rparr>]\<rparr>"

text \<open>A postmaster that ignores the first signal.\<close>

lemma orphan_postmaster_is_stopped_sample: "\<not> pid_alive (snd (destroy_orphan dead_entry stubborn_host)) 9"
proof (rule orphan_postmaster_is_stopped [where n = 300, OF _ _ _ _ surjective_pairing])
  show "postmaster_pid stubborn_host (pidfile dead_entry) = Some 9"
  proof -
    have "read_file stubborn_host (pidfile dead_entry) = Inr (as_bytes ''9'')"
      by (simp add: read_file_def pidfile_def node_at_def stubborn_host_def host_defs)
    moreover have "is_str ''9''" by (rule is_str_ascii) (simp add: as_bytes_def)
    moreover have "\<not> chunk_white ''9''" by (simp add: chunk_white_def chars_def as_bytes_def is_whitespace_def)
    then have "trim ''9'' = ''9''" by (simp add: trim_def trim_start_def trim_end_def char_len_def)
    moreover have "parse_u32 ''9'' = Some 9" by (simp add: parse_u32_def parse_digits_def)
    ultimately show ?thesis by (simp add: postmaster_pid_def)
  qed
qed (simp add: stubborn_host_def)+

end
