(* ===== verification/Orch_Provider.thy ===== *)
theory Orch_Provider
  imports Orch_Ledger
begin

text \<open>
  Clone providers (\<^verbatim>\<open>crates/clone-orchestrator/src/provider.rs\<close>, \<^verbatim>\<open>provider/local.rs\<close> and
  \<^verbatim>\<open>provider/parity.rs\<close>): the governance gate, the funnel that tears a clone down, the three providers,
  and the comparison of row policies and column grants. The external programs are a parameter: a
  program gets its arguments and gives its result and the states of the host it goes through. A
  provision is modelled with every state a crash could leave behind.
\<close>

section \<open>Governance\<close>

datatype data_classification = ProdPii | Synthetic

record clone_governance =
  cg_encryption_at_rest :: bool
  cg_access_log :: string
  cg_owner :: string
  cg_location :: string
  cg_classification :: data_classification

definition section_sign :: string where
  "section_sign = [CHR 0xC2, CHR 0xA7]"

definition noncompliance :: "clone_governance \<Rightarrow> string option" where
  "noncompliance g =
     (if \<not> cg_encryption_at_rest g then Some (''clone is not encrypted at rest (SPEC '' @ section_sign @ ''4)'')
      else if trim (cg_access_log g) = [] then Some (''clone is not access-logged (SPEC '' @ section_sign @ ''4)'')
      else if trim (cg_owner g) = [] then Some (''clone has no documented owner (SPEC '' @ section_sign @ ''4)'')
      else if trim (cg_location g) = [] then Some (''clone has no documented location (SPEC '' @ section_sign @ ''4)'')
      else if cg_classification g \<noteq> ProdPii then Some (''a clone of prod must be prod-PII-classified (SPEC '' @ section_sign @ ''4 clone = prod-classified)'')
      else None)"

definition assert_compliant :: "clone_governance \<Rightarrow> clone_error + unit" where
  "assert_compliant g = (case noncompliance g of Some reason \<Rightarrow> Inl (Governance reason) | None \<Rightarrow> Inr ())"

record clone_handle =
  ch_provider :: provider_kind
  ch_clone_id :: string
  ch_conn :: string
  ch_lsn :: string
  ch_staleness_lsn_bytes :: u64
  ch_governance :: clone_governance

section \<open>The funnel\<close>

text \<open>
  The result of \<^verbatim>\<open>with_clone\<close> with the error the teardown hook was called with, if it was called. A body
  may change the world it runs in.
\<close>

definition with_clone ::
  "('s \<Rightarrow> (clone_error + clone_handle) \<times> 's) \<Rightarrow> (clone_handle \<Rightarrow> 's \<Rightarrow> (clone_error + unit) \<times> 's)
   \<Rightarrow> (clone_handle \<Rightarrow> 's \<Rightarrow> (clone_error + 't) \<times> 's) \<Rightarrow> 's \<Rightarrow> (clone_error + 't) \<times> clone_error option \<times> 's" where
  "with_clone provision destroy body s =
     (case provision s of
        (Inl e, s1) \<Rightarrow> (Inl e, None, s1)
      | (Inr hdl, s1) \<Rightarrow> (case assert_compliant (ch_governance hdl) of
            Inl e \<Rightarrow> (Inl e, None, snd (destroy hdl s1))
          | Inr _ \<Rightarrow>
              let (result, s2) = body hdl s1; (d, s3) = destroy hdl s2
              in (result, (case d of Inl te \<Rightarrow> Some te | Inr _ \<Rightarrow> None), s3)))"

section \<open>The providers without a cluster of their own\<close>

record none_provider =
  np_primary_dsn :: string
  np_owner :: string
  np_access_log :: string

definition none_provision :: "none_provider \<Rightarrow> (clone_error + clone_handle) \<times> none_provider" where
  "none_provision np =
     (Inr \<lparr>ch_provider = KindNone, ch_clone_id = ''primary-intxn'', ch_conn = np_primary_dsn np, ch_lsn = ''0/0'',
           ch_staleness_lsn_bytes = 0,
           ch_governance = \<lparr>cg_encryption_at_rest = True, cg_access_log = np_access_log np, cg_owner = np_owner np,
                            cg_location = np_primary_dsn np, cg_classification = ProdPii\<rparr>\<rparr>, np)"

definition none_destroy :: "clone_handle \<Rightarrow> none_provider \<Rightarrow> (clone_error + unit) \<times> none_provider" where
  "none_destroy hdl np = (Inr (), np)"

record dblab_provider = db_detected :: bool

definition detect_from_env :: "string option \<Rightarrow> dblab_provider" where
  "detect_from_env url = \<lparr>db_detected = (case url of Some v \<Rightarrow> trim v \<noteq> [] | None \<Rightarrow> False)\<rparr>"

definition dblab_provision :: "dblab_provider \<Rightarrow> (clone_error + clone_handle) \<times> dblab_provider" where
  "dblab_provision db =
     (if \<not> db_detected db then (Inl (Unavailable KindDblab), db) else (Inl (Unavailable KindDblab), db))"

definition dblab_destroy :: "clone_handle \<Rightarrow> dblab_provider \<Rightarrow> (clone_error + unit) \<times> dblab_provider" where
  "dblab_destroy hdl db = (Inr (), db)"

section \<open>Runs that may be cut off\<close>

text \<open>A run gives its result and the states of the host it goes through, the last of which it ends in.\<close>

type_synonym 'a hrun = "host \<Rightarrow> (clone_error + 'a) \<times> host list"

definition final :: "host \<Rightarrow> host list \<Rightarrow> host" where
  "final h hs = last (h # hs)"

definition hbind :: "'a hrun \<Rightarrow> ('a \<Rightarrow> 'b hrun) \<Rightarrow> 'b hrun" where
  "hbind m f h =
     (case m h of
        (Inl e, hs) \<Rightarrow> (Inl e, hs)
      | (Inr x, hs) \<Rightarrow> (case f x (final h hs) of (r, hs') \<Rightarrow> (r, hs @ hs')))"

definition hret :: "'a \<Rightarrow> 'a hrun" where
  "hret x h = (Inr x, [])"

text \<open>A call of the system whose failure is reported as \<open>e\<close>, and one whose failure is ignored.\<close>

definition call :: "clone_error \<Rightarrow> (host \<Rightarrow> (io_kind + unit) \<times> host) \<Rightarrow> unit hrun" where
  "call e f h = (case f h of (Inl _, h') \<Rightarrow> (Inl e, [h']) | (Inr _, h') \<Rightarrow> (Inr (), [h']))"

definition attempt :: "(host \<Rightarrow> 'r \<times> host) \<Rightarrow> unit hrun" where
  "attempt f h = (Inr (), [snd (f h)])"

definition remove_if_there :: "path \<Rightarrow> unit hrun" where
  "remove_if_there p h = (if exists_path h p then attempt (remove_dir_all p) h else hret () h)"

section \<open>The local provider\<close>

record primary_ref =
  pf_host :: string
  pf_port :: "16 word"
  pf_repl_user :: string
  pf_dbname :: string

definition u16_str :: "16 word \<Rightarrow> string" where
  "u16_str w = decimal (unat w)"

definition u32_str :: "u32 \<Rightarrow> string" where
  "u32_str w = decimal (unat w)"

definition sql_dsn :: "primary_ref \<Rightarrow> string" where
  "sql_dsn p = ''host='' @ pf_host p @ '' port='' @ u16_str (pf_port p) @ '' user='' @ pf_repl_user p @ '' dbname='' @ pf_dbname p"

record local_clone_config =
  lc_pg_bin :: path
  lc_clone_root :: path
  lc_clone_port :: "16 word"
  lc_primary :: primary_ref
  lc_owner :: string

record local_clone_provider =
  lp_cfg :: local_clone_config
  lp_ledger :: ledger
  lp_seq :: u32

definition local_provider_new :: "local_clone_config \<Rightarrow> ledger \<Rightarrow> local_clone_provider" where
  "local_provider_new cfg ledger = \<lparr>lp_cfg = cfg, lp_ledger = ledger, lp_seq = 0\<rparr>"

text \<open>What running a program gives: it could not be started, it left with success and its output, or it failed.\<close>

datatype ran = SpawnFailed | Succeeded string | Failed string

text \<open>
  Outside the provider: the codec, the programs (by path and arguments), this process and the directory
  for temporary files.
\<close>

record clone_env =
  ce_codec :: ledger_codec
  ce_run :: "path \<Rightarrow> string list \<Rightarrow> host \<Rightarrow> ran \<times> host list"
  ce_pid :: u32
  ce_temp :: path

definition tool :: "local_clone_provider \<Rightarrow> string \<Rightarrow> path" where
  "tool lp name = lc_pg_bin (lp_cfg lp) @ [name]"

definition run_tool :: "clone_env \<Rightarrow> path \<Rightarrow> string list \<Rightarrow> string \<Rightarrow> string hrun" where
  "run_tool env prog args what h =
     (case ce_run env prog args h of
        (SpawnFailed, hs) \<Rightarrow> (Inl (Tooling (ToolSpawn what)), hs)
      | (Failed err, hs) \<Rightarrow> (Inl (Provision what (trim err)), hs)
      | (Succeeded out, hs) \<Rightarrow> (Inr out, hs))"

definition set_mode_0700 :: "path \<Rightarrow> unit hrun" where
  "set_mode_0700 p h =
     (if \<not> present h p \<or> hs_deny h Chmod p then (Inl (Tooling (ChmodFailed p)), []) else (Inr (), []))"

definition append_file :: "path \<Rightarrow> string \<Rightarrow> unit hrun" where
  "append_file p txt h =
     (case node_at h p of
        Some Dir \<Rightarrow> (Inl (Tooling (ConfOpen p)), [])
      | old \<Rightarrow>
          if hs_deny h Open p \<or> (old = None \<and> node_at h (butlast p) \<noteq> Some Dir) then (Inl (Tooling (ConfOpen p)), [])
          else let before = (case old of Some (File bs) \<Rightarrow> bs | _ \<Rightarrow> []) in
            if hs_deny h Write p then (Inl (Tooling (ConfAppend p)), [put_node p (File before) h])
            else (Inr (), [put_node p (File before) h, put_node p (File (before @ as_bytes txt)) h]))"

definition is_hexdigit :: "char \<Rightarrow> bool" where
  "is_hexdigit c =
     (let b = of_char c :: nat in 48 \<le> b \<and> b \<le> 57 \<or> 65 \<le> b \<and> b \<le> 70 \<or> 97 \<le> b \<and> b \<le> 102)"

definition lsn_like :: "string \<Rightarrow> bool" where
  "lsn_like s =
     (let hi = takeWhile (\<lambda>c. c \<noteq> CHR ''/'') s; rest = dropWhile (\<lambda>c. c \<noteq> CHR ''/'') s in
      rest \<noteq> [] \<and> hi \<noteq> [] \<and> tl rest \<noteq> [] \<and> list_all is_hexdigit hi \<and> list_all is_hexdigit (tl rest))"

text \<open>
  The position is read by a one-shot \<^verbatim>\<open>psql\<close> whose answer alone is used: it is a query, and what the
  program may leave on the host, such as its history file, is not followed.
\<close>

definition read_clone_lsn :: "clone_env \<Rightarrow> path \<Rightarrow> string \<Rightarrow> host \<Rightarrow> clone_error + string" where
  "read_clone_lsn env psql conn h =
     (case fst (ce_run env psql [''-X'', ''-q'', conn, ''-tAc'', ''SELECT pg_current_wal_lsn()''] h) of
        SpawnFailed \<Rightarrow> Inl (Tooling LsnSpawn)
      | Failed _ \<Rightarrow> Inl (Tooling LsnFailed)
      | Succeeded out \<Rightarrow> (let lsn = trim out in if lsn_like lsn then Inr lsn else Inl (Tooling (LsnUnexpected lsn))))"

definition path_join :: "path \<Rightarrow> string \<Rightarrow> path" where
  "path_join p s = (let q = path_from s in if is_absolute q then q else p @ q)"

definition clone_id_of :: "clone_env \<Rightarrow> u32 \<Rightarrow> string" where
  "clone_id_of env seq = ''local-clone-'' @ u32_str (ce_pid env) @ ''-'' @ u32_str seq"

definition datadir_of :: "local_clone_config \<Rightarrow> string \<Rightarrow> path" where
  "datadir_of cfg i = path_join (lc_clone_root cfg) i"

definition logfile_of :: "local_clone_config \<Rightarrow> string \<Rightarrow> path" where
  "logfile_of cfg i = path_join (lc_clone_root cfg) (i @ ''.log'')"

definition sockdir_of :: "clone_env \<Rightarrow> local_clone_config \<Rightarrow> path" where
  "sockdir_of env cfg = ce_temp env @ [''pgb-clone-'' @ u16_str (lc_clone_port cfg)]"

definition conn_of :: "local_clone_config \<Rightarrow> string" where
  "conn_of cfg =
     ''host=127.0.0.1 port='' @ u16_str (lc_clone_port cfg) @ '' user='' @ pf_repl_user (lc_primary cfg)
     @ '' dbname='' @ pf_dbname (lc_primary cfg)"

text \<open>Step 0: the directories, with what an earlier clone may have left removed.\<close>

definition prepare_dirs :: "clone_env \<Rightarrow> local_clone_config \<Rightarrow> string \<Rightarrow> unit hrun" where
  "prepare_dirs env cfg i =
     hbind (call (Tooling (CloneRoot (lc_clone_root cfg))) (create_dir_all (lc_clone_root cfg))) (\<lambda>_.
     hbind (set_mode_0700 (lc_clone_root cfg)) (\<lambda>_.
     hbind (remove_if_there (datadir_of cfg i)) (\<lambda>_.
     hbind (remove_if_there (sockdir_of env cfg)) (\<lambda>_.
     call (Tooling SockDir) (create_dir_all (sockdir_of env cfg))))))"

definition provision_entry :: "clone_env \<Rightarrow> local_clone_config \<Rightarrow> string \<Rightarrow> host \<Rightarrow> ledger_entry" where
  "provision_entry env cfg i h =
     (let own = owner_current h (ce_pid env) in
      \<lparr>le_clone_id = i, le_datadir = datadir_of cfg i, le_port = lc_clone_port cfg,
       le_owner_pid = oi_pid own, le_owner_start = oi_start own\<rparr>)"

definition basebackup_args :: "local_clone_config \<Rightarrow> path \<Rightarrow> string list" where
  "basebackup_args cfg datadir =
     [''--pgdata'', display datadir, ''--wal-method=stream'', ''--checkpoint=fast'', ''--progress'', ''--no-sync'',
      ''--host'', pf_host (lc_primary cfg), ''--port'', u16_str (pf_port (lc_primary cfg)),
      ''--username'', pf_repl_user (lc_primary cfg), ''--no-password'']"

definition newline :: string where
  "newline = [CHR 0x0A]"

definition clone_conf :: "clone_env \<Rightarrow> local_clone_config \<Rightarrow> string" where
  "clone_conf env cfg =
     newline @ ''# pg_brakes local clone '' @ [CHR 0xE2, CHR 0x80, CHR 0x94] @ '' isolated rehearsal target (SPEC '' @ section_sign @ ''12)'' @ newline
     @ ''port = '' @ u16_str (lc_clone_port cfg) @ newline
     @ ''listen_addresses = '' @ [CHR 0x27] @ ''127.0.0.1'' @ [CHR 0x27] @ newline
     @ ''unix_socket_directories = '' @ [CHR 0x27] @ display (sockdir_of env cfg) @ [CHR 0x27] @ newline
     @ ''# access-logging the prod-PII clone (SPEC '' @ section_sign @ ''4 clone governance)'' @ newline
     @ ''log_connections = on'' @ newline @ ''log_disconnections = on'' @ newline
     @ ''log_statement = '' @ [CHR 0x27] @ ''all'' @ [CHR 0x27] @ newline @ ''logging_collector = off'' @ newline"

text \<open>Steps 2 to 5, from the base backup to the running cluster.\<close>

definition build_clone :: "clone_env \<Rightarrow> local_clone_provider \<Rightarrow> string \<Rightarrow> owner_identity \<Rightarrow> string hrun" where
  "build_clone env lp i own =
     (let cfg = lp_cfg lp; datadir = datadir_of cfg i in
      hbind (run_tool env (tool lp ''pg_basebackup'') (basebackup_args cfg datadir) ''pg_basebackup'') (\<lambda>_.
      hbind (set_mode_0700 datadir) (\<lambda>_.
      hbind (write_owner_marker (ce_codec env) datadir own) (\<lambda>_.
      hbind (append_file (datadir @ [''postgresql.auto.conf'']) (clone_conf env cfg)) (\<lambda>_.
      hbind (attempt (remove_file (datadir @ [''standby.signal'']))) (\<lambda>_.
      hbind (attempt (remove_file (datadir @ [''recovery.signal'']))) (\<lambda>_.
      run_tool env (tool lp ''pg_ctl'')
        [''-D'', display datadir, ''-l'', display (logfile_of cfg i), ''-w'', ''-t'', ''60'', ''start''] ''pg_ctl start'')))))))"

definition local_handle :: "clone_env \<Rightarrow> local_clone_provider \<Rightarrow> string \<Rightarrow> host \<Rightarrow> clone_handle" where
  "local_handle env lp i h =
     (let cfg = lp_cfg lp in
      \<lparr>ch_provider = KindLocal, ch_clone_id = i, ch_conn = conn_of cfg,
       ch_lsn = (case read_clone_lsn env (tool lp ''psql'') (conn_of cfg) h of Inl _ \<Rightarrow> ''0/0'' | Inr lsn \<Rightarrow> lsn),
       ch_staleness_lsn_bytes = 0,
       ch_governance = \<lparr>cg_encryption_at_rest = True, cg_access_log = display (logfile_of cfg i), cg_owner = lc_owner cfg,
                        cg_location = display (datadir_of cfg i), cg_classification = ProdPii\<rparr>\<rparr>)"

definition provision_run :: "clone_env \<Rightarrow> local_clone_provider \<Rightarrow> string \<Rightarrow> clone_handle hrun" where
  "provision_run env lp i =
     hbind (prepare_dirs env (lp_cfg lp) i) (\<lambda>_.
     hbind (\<lambda>h. hret (provision_entry env (lp_cfg lp) i h) h) (\<lambda>entry.
     hbind (ledger_record (ce_codec env) (lp_ledger lp) entry) (\<lambda>_.
     hbind (build_clone env lp i (entry_owner entry)) (\<lambda>_.
     (\<lambda>h. hret (local_handle env lp i h) h)))))"

text \<open>The provider counts every provision, also one that fails.\<close>

type_synonym local_world = "local_clone_provider \<times> host"

definition local_provision :: "clone_env \<Rightarrow> local_world \<Rightarrow> (clone_error + clone_handle) \<times> local_world" where
  "local_provision env s =
     (let (lp, h) = s; lp' = lp\<lparr>lp_seq := lp_seq lp + 1\<rparr>;
          (r, hs) = provision_run env lp' (clone_id_of env (lp_seq lp')) h
      in (r, (lp', final h hs)))"

definition stop_clone :: "clone_env \<Rightarrow> local_clone_provider \<Rightarrow> path \<Rightarrow> host \<Rightarrow> host" where
  "stop_clone env lp datadir h =
     (if exists_path h (datadir @ [''postmaster.pid''])
      then final h (snd (ce_run env (tool lp ''pg_ctl'')
             [''-D'', display datadir, ''-m'', ''immediate'', ''-w'', ''-t'', ''30'', ''stop''] h))
      else h)"

definition local_destroy :: "clone_env \<Rightarrow> clone_handle \<Rightarrow> local_world \<Rightarrow> (clone_error + unit) \<times> local_world" where
  "local_destroy env hdl s =
     (let (lp, h) = s; cfg = lp_cfg lp; datadir = datadir_of cfg (ch_clone_id hdl);
          h1 = stop_clone env lp datadir h;
          (r, h2) = (if exists_path h1 datadir then remove_dir_all datadir h1 else (Inr (), h1))
      in case r of
           Inl _ \<Rightarrow> (Inl (Teardown datadir), (lp, h2))
         | Inr _ \<Rightarrow>
             let h3 = snd (remove_dir_all (sockdir_of env cfg) h2);
                 h4 = snd (remove_file (logfile_of cfg (ch_clone_id hdl)) h3);
                 (f, h5) = ledger_forget (lp_ledger lp) (ch_clone_id hdl) h4
             in (f, (lp, h5)))"

section \<open>Parity of row policies and column grants\<close>

record rls_policy =
  rp_schema :: string
  rp_table :: string
  rp_policy :: string
  rp_permissive :: string
  rp_roles :: string
  rp_cmd :: string
  rp_using_expr :: string
  rp_check_expr :: string
  rp_rls_enabled :: bool

record column_grant =
  gr_grantee :: string
  gr_schema :: string
  gr_table :: string
  gr_column :: string
  gr_privilege :: string

record parity_report =
  py_rls_missing_on_clone :: "rls_policy list"
  py_rls_extra_on_clone :: "rls_policy list"
  py_grants_missing_on_clone :: "column_grant list"
  py_grants_extra_on_clone :: "column_grant list"

text \<open>The derived orders compare field by field.\<close>

definition rls_key :: "rls_policy \<Rightarrow> string list" where
  "rls_key p =
     [rp_schema p, rp_table p, rp_policy p, rp_permissive p, rp_roles p, rp_cmd p, rp_using_expr p, rp_check_expr p,
      if rp_rls_enabled p then ''1'' else ''0'']"

definition grant_key :: "column_grant \<Rightarrow> string list" where
  "grant_key g = [gr_grantee g, gr_schema g, gr_table g, gr_column g, gr_privilege g]"

text \<open>The difference of two ordered sets, in order.\<close>

definition ordered_difference :: "('a \<Rightarrow> string list) \<Rightarrow> 'a list \<Rightarrow> 'a list \<Rightarrow> 'a list" where
  "ordered_difference key xs ys = sort_key key (remdups (filter (\<lambda>x. x \<notin> set ys) xs))"

definition check_parity :: "rls_policy list \<Rightarrow> rls_policy list \<Rightarrow> column_grant list \<Rightarrow> column_grant list \<Rightarrow> parity_report" where
  "check_parity prod_rls clone_rls prod_grants clone_grants =
     \<lparr>py_rls_missing_on_clone = ordered_difference rls_key prod_rls clone_rls,
      py_rls_extra_on_clone = ordered_difference rls_key clone_rls prod_rls,
      py_grants_missing_on_clone = ordered_difference grant_key prod_grants clone_grants,
      py_grants_extra_on_clone = ordered_difference grant_key clone_grants prod_grants\<rparr>"

definition is_parity :: "parity_report \<Rightarrow> bool" where
  "is_parity r =
     (py_rls_missing_on_clone r = [] \<and> py_rls_extra_on_clone r = []
      \<and> py_grants_missing_on_clone r = [] \<and> py_grants_extra_on_clone r = [])"

definition parity_summary :: "parity_report \<Rightarrow> string" where
  "parity_summary r =
     (if is_parity r then ''RLS/column-grant parity: OK (clone matches prod)''
      else ''RLS/column-grant parity FAILED: rls(-'' @ decimal (length (py_rls_missing_on_clone r)) @ ''/+''
        @ decimal (length (py_rls_extra_on_clone r)) @ '') grants(-'' @ decimal (length (py_grants_missing_on_clone r))
        @ ''/+'' @ decimal (length (py_grants_extra_on_clone r)) @ '')'')"

section \<open>Facts about single steps\<close>

lemma map_of_overwrite:
  "map_of (map (\<lambda>(k, m). if k = p then (k, n) else (k, m)) xs) q = (if q = p \<and> p \<in> fst ` set xs then Some n else map_of xs q)"
proof (induction xs)
  case (Cons x xs)
  then show ?case by (cases x; cases "fst x = p"; cases "q = p") simp_all
qed simp

lemma node_at_put_node: "node_at (put_node p n h) q = (if q = p then Some n else node_at h q)"
proof (cases "present h p")
  case True
  then show ?thesis by (simp add: node_at_def put_node_def present_def map_of_overwrite)
next
  case False
  then have "map_of (hs_fs h) p = None" by (simp add: present_def map_of_eq_None_iff)
  with False show ?thesis by (simp add: node_at_def put_node_def map_add_def split: option.splits)
qed

lemma present_put_node: "present (put_node p n h) q \<longleftrightarrow> q = p \<or> present h q"
  by (simp add: present_node node_at_put_node)

lemma create_dirs_present:
  "create_dirs ps h = (r, h') \<Longrightarrow> present h' q \<Longrightarrow> present h q \<or> q \<in> set ps"
  by (induction ps h arbitrary: r h' rule: create_dirs.induct)
    (auto split: option.splits node.splits if_splits simp: present_put_node)

lemma create_dir_all_present:
  assumes "create_dir_all p h = (r, h')" "present h' q" "\<not> present h q"
  shows "under q p"
  using create_dirs_present [OF assms(1) [unfolded create_dir_all_def] assms(2)] assms(3)
  by (auto simp: ancestors_def under_def)

text \<open>Every state of a run stands in the relation \<open>R\<close> to the state it started in.\<close>

definition runs_within :: "(host \<Rightarrow> host \<Rightarrow> bool) \<Rightarrow> 'a hrun \<Rightarrow> bool" where
  "runs_within R m = (\<forall>h h'. h' \<in> set (snd (m h)) \<longrightarrow> R h h')"

lemma runs_withinD: "runs_within R m \<Longrightarrow> m h = (r, hs) \<Longrightarrow> h' \<in> set hs \<Longrightarrow> R h h'"
  by (auto simp: runs_within_def dest!: spec [of _ h])

lemma final_in: "final h hs \<in> insert h (set hs)"
  by (auto simp: final_def)

lemma runs_within_final: "runs_within R m \<Longrightarrow> reflp R \<Longrightarrow> m h = (r, hs) \<Longrightarrow> R h (final h hs)"
  using final_in [of h hs] runs_withinD [of R m h r hs] by (auto dest: reflpD)

lemma hbind_cases:
  assumes "hbind m f h = (r, hs)"
  obtains (fails) e where "m h = (Inl e, hs)" "r = Inl e"
  | (goes) x hs1 hs2 where "m h = (Inr x, hs1)" "f x (final h hs1) = (r, hs2)" "hs = hs1 @ hs2"
  using assms by (auto simp: hbind_def split: prod.splits sum.splits)

lemma runs_within_hbind:
  assumes "runs_within R m" "\<And>x. runs_within R (f x)" "reflp R" "transp R"
  shows "runs_within R (hbind m f)"
  unfolding runs_within_def
proof (intro allI impI)
  fix h h'
  assume h': "h' \<in> set (snd (hbind m f h))"
  obtain r hs where b: "hbind m f h = (r, hs)" by (metis surj_pair)
  then show "R h h'"
  proof (cases rule: hbind_cases)
    case (fails e)
    then show ?thesis using h' b runs_withinD [OF assms(1)] by auto
  next
    case (goes x hs1 hs2)
    have "R h (final h hs1)" using runs_within_final [OF assms(1,3) goes(1)] .
    then show ?thesis
      using h' b goes runs_withinD [OF assms(1)] runs_withinD [OF assms(2)] transpD [OF assms(4)] by auto
  qed
qed

lemma runs_within_hret: "runs_within R (hret x)"
  by (simp add: runs_within_def hret_def)

lemma runs_within_call: "(\<And>h r h'. f h = (r, h') \<Longrightarrow> R h h') \<Longrightarrow> runs_within R (call e f)"
  by (auto simp: runs_within_def call_def split: prod.splits sum.splits)

lemma runs_within_attempt: "(\<And>h r h'. f h = (r, h') \<Longrightarrow> R h h') \<Longrightarrow> runs_within R (attempt f)"
  by (auto simp: runs_within_def attempt_def) (metis surj_pair snd_conv)

lemma runs_within_set_mode: "runs_within R (set_mode_0700 p)"
  by (simp add: runs_within_def set_mode_0700_def)

section \<open>Where a provision writes\<close>

text \<open>Nothing new appears under \<open>d\<close>.\<close>

definition adds_outside :: "path \<Rightarrow> host \<Rightarrow> host \<Rightarrow> bool" where
  "adds_outside d h h' = (\<forall>q. under d q \<longrightarrow> present h' q \<longrightarrow> present h q)"

definition keeps_node :: "path \<Rightarrow> host \<Rightarrow> host \<Rightarrow> bool" where
  "keeps_node p h h' = (node_at h' p = node_at h p)"

lemma adds_outside_preorder: "reflp (adds_outside d)" "transp (adds_outside d)"
  by (auto simp: adds_outside_def reflp_def transp_def)

lemma keeps_node_preorder: "reflp (keeps_node p)" "transp (keeps_node p)"
  by (auto simp: keeps_node_def reflp_def transp_def)

lemma shrinks_adds_outside: "shrinks h h' \<Longrightarrow> adds_outside d h h'"
  by (auto simp: adds_outside_def dest: shrinks_present)

lemma create_dir_all_adds_outside: "create_dir_all p h = (r, h') \<Longrightarrow> \<not> under d p \<Longrightarrow> adds_outside d h h'"
  unfolding adds_outside_def using create_dir_all_present under_trans by metis

lemma remove_if_there_adds_outside: "runs_within (adds_outside d) (remove_if_there p)"
proof -
  have "adds_outside d h (snd (remove_dir_all p h))" for h
    by (rule shrinks_adds_outside) (rule shrinks_remove_dir_all [OF surjective_pairing])
  then show ?thesis by (simp add: runs_within_def remove_if_there_def attempt_def hret_def)
qed

lemma write_states_adds_outside:
  "write_states p bs h = (r, hs) \<Longrightarrow> h' \<in> set hs \<Longrightarrow> \<not> under d p \<Longrightarrow> adds_outside d h h'"
  by (auto simp: write_states_def adds_outside_def present_put_node split: if_splits)

lemma prepare_adds_outside:
  assumes "\<not> under d (lc_clone_root cfg)" "\<not> under d (sockdir_of env cfg)"
  shows "runs_within (adds_outside d) (prepare_dirs env cfg i)"
  unfolding prepare_dirs_def
  by (intro runs_within_hbind adds_outside_preorder runs_within_call runs_within_set_mode remove_if_there_adds_outside)
    (erule create_dir_all_adds_outside, rule assms)+

lemma node_at_drop_nodes: "\<not> P p \<Longrightarrow> node_at (drop_nodes P h) p = node_at h p"
proof -
  assume P: "\<not> P p"
  have "map_of (filter (\<lambda>(q, _). \<not> P q) xs) p = map_of xs p" for xs :: "(path \<times> node) list"
    using P by (induction xs) auto
  then show ?thesis by (simp add: node_at_def drop_nodes_def)
qed

lemma remove_file_keeps: "remove_file q h = (r, h') \<Longrightarrow> p \<noteq> q \<Longrightarrow> keeps_node p h h'"
  by (auto simp: remove_file_def keeps_node_def node_at_drop_nodes split: option.splits node.splits if_splits)

lemma write_states_keeps: "write_states q bs h = (r, hs) \<Longrightarrow> h' \<in> set hs \<Longrightarrow> p \<noteq> q \<Longrightarrow> keeps_node p h h'"
  by (auto simp: write_states_def keeps_node_def node_at_put_node split: if_splits)

lemma write_owner_marker_keeps:
  "p \<noteq> datadir @ [OWNER_MARKER] \<Longrightarrow> runs_within (keeps_node p) (write_owner_marker codec datadir own)"
  by (auto simp: runs_within_def write_owner_marker_def split: option.splits prod.splits sum.splits dest: write_states_keeps)

lemma append_file_keeps: "p \<noteq> q \<Longrightarrow> runs_within (keeps_node p) (append_file q txt)"
  by (auto simp: runs_within_def append_file_def keeps_node_def node_at_put_node split: option.splits node.splits if_splits)

text \<open>The programs leave the node at \<open>p\<close> alone.\<close>

definition tools_keep :: "clone_env \<Rightarrow> path \<Rightarrow> bool" where
  "tools_keep env p = (\<forall>prog args h h'. h' \<in> set (snd (ce_run env prog args h)) \<longrightarrow> keeps_node p h h')"

lemma run_tool_keeps: "tools_keep env p \<Longrightarrow> runs_within (keeps_node p) (run_tool env prog args what)"
  unfolding runs_within_def run_tool_def tools_keep_def
  by (auto split: prod.splits ran.splits) (metis snd_conv)+

lemma build_clone_keeps:
  assumes "tools_keep env p" "\<not> under (datadir_of (lp_cfg lp) i) p"
  shows "runs_within (keeps_node p) (build_clone env lp i own)"
proof -
  have ne: "p \<noteq> datadir_of (lp_cfg lp) i @ [f]" for f using assms(2) by auto
  have rm: "runs_within (keeps_node p) (attempt (remove_file (datadir_of (lp_cfg lp) i @ [f])))" for f
    using ne by (intro runs_within_attempt) (auto intro: remove_file_keeps)
  show ?thesis
    unfolding build_clone_def Let_def
    by (intro runs_within_hbind keeps_node_preorder run_tool_keeps assms(1) runs_within_set_mode
        write_owner_marker_keeps append_file_keeps ne rm)
qed

section \<open>Names\<close>

lemma slash_free_decimal: "CHR ''/'' \<notin> set (decimal n)"
proof
  assume "CHR ''/'' \<in> set (decimal n)"
  from decimal_digits [OF this] show False by simp
qed

lemma path_join_plain:
  assumes "CHR ''/'' \<notin> set s" "s \<noteq> []" "s \<noteq> ''.''"
  shows "path_join p s = p @ [s]"
  using assms by (auto simp: path_join_def path_from_def split_on_none is_absolute_def)

lemma slash_free_clone_id: "CHR ''/'' \<notin> set (clone_id_of env seq)"
  using slash_free_decimal by (simp add: clone_id_of_def u32_str_def)

lemma datadir_of_clone_id: "datadir_of cfg (clone_id_of env seq) = lc_clone_root cfg @ [clone_id_of env seq]"
  unfolding datadir_of_def using slash_free_clone_id by (intro path_join_plain) (simp_all add: clone_id_of_def)

text \<open>The name of a ledger file, without its suffix, has no dot.\<close>

definition safe_name :: "string \<Rightarrow> string" where
  "safe_name clone_id = concat (map (\<lambda>ch. case ch of [c] \<Rightarrow> [safe_char c] | _ \<Rightarrow> ''_'') (utf8_chunks clone_id))"

lemma entry_path_safe: "entry_path dir i = dir @ [safe_name i @ ''.json'']"
  by (simp add: entry_path_def safe_name_def)

lemma safe_char_no_dot: "safe_char c \<noteq> CHR ''.''"
  by (cases "c = CHR ''.''") (auto simp: safe_char_def is_ascii_alphabetic_def)

lemma safe_name_no_dot: "CHR ''.'' \<notin> set (safe_name i)"
  using safe_char_no_dot by (auto simp: safe_name_def split: list.splits) (metis safe_char_no_dot)

lemma safe_name_nonempty: "i \<noteq> [] \<Longrightarrow> safe_name i \<noteq> []"
  by (cases i) (auto simp: safe_name_def split: list.splits)

lemma extension_of_entry:
  assumes "i \<noteq> []"
  shows "extension (safe_name i @ ''.json'') = Some ''json''"
proof -
  have "split_on (CHR ''.'') (safe_name i @ CHR ''.'' # ''json'') = [safe_name i, ''json'']"
    using split_on_append [OF safe_name_no_dot, of i "''json''"] by (simp add: split_on_none)
  then show ?thesis using safe_name_nonempty [OF assms] by (simp add: extension_def)
qed

section \<open>The breadcrumb\<close>

lemma ledger_record_Inr:
  assumes "ledger_record codec dir e h = (Inr (), hs)"
  obtains json where "enc_entry codec e = Some json" "node_at h dir = Some Dir"
    "hs = [put_node (entry_path dir (le_clone_id e)) (File []) h, put_node (entry_path dir (le_clone_id e)) (File json) h]"
  using assms
  by (auto simp: ledger_record_def write_states_def entry_path_def split: option.splits prod.splits sum.splits if_splits)

lemma ledger_record_adds_outside:
  "\<not> under d (entry_path dir (le_clone_id e)) \<Longrightarrow> runs_within (adds_outside d) (ledger_record codec dir e)"
  by (auto simp: runs_within_def ledger_record_def split: option.splits prod.splits sum.splits dest: write_states_adds_outside)

text \<open>A provision is the preparation, the record, and then the copy.\<close>

lemma provision_run_cases:
  assumes "provision_run env lp i h = (r, hs)"
  obtains (early) e where "prepare_dirs env (lp_cfg lp) i h = (Inl e, hs)" "r = Inl e"
  | (unrecorded) hs1 hs2 e entry where "prepare_dirs env (lp_cfg lp) i h = (Inr (), hs1)"
      "entry = provision_entry env (lp_cfg lp) i (final h hs1)"
      "ledger_record (ce_codec env) (lp_ledger lp) entry (final h hs1) = (Inl e, hs2)" "hs = hs1 @ hs2" "r = Inl e"
  | (copied) hs1 hs2 hs3 r3 entry where "prepare_dirs env (lp_cfg lp) i h = (Inr (), hs1)"
      "entry = provision_entry env (lp_cfg lp) i (final h hs1)"
      "ledger_record (ce_codec env) (lp_ledger lp) entry (final h hs1) = (Inr (), hs2)"
      "build_clone env lp i (entry_owner entry) (final (final h hs1) hs2) = (r3, hs3)" "hs = hs1 @ hs2 @ hs3"
      "r = rbind r3 (\<lambda>_. Inr (local_handle env lp i (final (final (final h hs1) hs2) hs3)))"
proof -
  obtain r1 hs1 where m1: "prepare_dirs env (lp_cfg lp) i h = (r1, hs1)" by (metis surj_pair)
  let ?e = "provision_entry env (lp_cfg lp) i (final h hs1)"
  obtain r2 hs2 where m2: "ledger_record (ce_codec env) (lp_ledger lp) ?e (final h hs1) = (r2, hs2)" by (metis surj_pair)
  obtain r3 hs3 where m3: "build_clone env lp i (entry_owner ?e) (final (final h hs1) hs2) = (r3, hs3)" by (metis surj_pair)
  have nil: "final x [] = x" for x by (simp add: final_def)
  show ?thesis
  proof (cases r1)
    case (Inl e)
    then show ?thesis using assms m1 early [of e] by (simp add: provision_run_def hbind_def)
  next
    case r1: (Inr u)
    show ?thesis
    proof (cases r2)
      case (Inl e)
      then show ?thesis using assms m1 m2 r1 unrecorded [of hs1 ?e e hs2]
        by (simp add: provision_run_def hbind_def hret_def nil)
    next
      case (Inr u2)
      then show ?thesis using assms m1 m2 m3 r1 copied [of hs1 ?e hs2 r3 hs3]
        by (cases r3) (simp_all add: provision_run_def hbind_def hret_def nil)
    qed
  qed
qed

text \<open>
  C30: whenever a provision is cut off, a copy of the primary on disk has its breadcrumb: in every state the
  provision goes through, whatever its outcome, a node under the clone's data directory that was not
  there before implies that the ledger file of this clone is complete and holds an entry for this
  directory with this process as its owner. This is what the reaper needs after a crash. The programs
  that are run are only assumed not to touch that ledger file.
\<close>
theorem breadcrumb_precedes_the_copy:
  assumes i_def: "i = clone_id_of env seq"
    and d_def: "d = datadir_of (lp_cfg lp) i" and led_def: "led = entry_path (lp_ledger lp) i"
    and run: "provision_run env lp i h = (r, hs)" "hc \<in> set hs"
    and scope: "tools_keep env led" "\<not> under d led" "\<not> under d (sockdir_of env (lp_cfg lp))"
    and new_node: "under d q" "present hc q" "\<not> present h q"
  shows "\<exists>e json. node_at hc led = Some (File json) \<and> enc_entry (ce_codec env) e = Some json
           \<and> le_clone_id e = i \<and> le_datadir e = d \<and> le_owner_pid e = ce_pid env"
proof -
  have "d = lc_clone_root (lp_cfg lp) @ [i]" unfolding d_def i_def by (rule datadir_of_clone_id)
  then have "\<not> under d (lc_clone_root (lp_cfg lp))" by (auto simp: under_iff)
  then have prep: "runs_within (adds_outside d) (prepare_dirs env (lp_cfg lp) i)"
    using scope(3) by (rule prepare_adds_outside)
  have rec: "runs_within (adds_outside d) (ledger_record (ce_codec env) (lp_ledger lp) e)" if "le_clone_id e = i" for e
    using scope(2) that by (intro ledger_record_adds_outside) (simp add: led_def)
  have new: "\<not> adds_outside d h hc" using new_node by (auto simp: adds_outside_def)
  have ent: "le_clone_id (provision_entry env (lp_cfg lp) i x) = i" "le_datadir (provision_entry env (lp_cfg lp) i x) = d"
    "le_owner_pid (provision_entry env (lp_cfg lp) i x) = ce_pid env" for x
    by (simp_all add: provision_entry_def owner_current_def d_def)
  have recorded: "adds_outside d h x" if "x \<in> set hs1 \<or> x \<in> set hs2"
    and m1: "prepare_dirs env (lp_cfg lp) i h = (Inr (), hs1)" and le: "le_clone_id e = i"
    and m2: "ledger_record (ce_codec env) (lp_ledger lp) e (final h hs1) = (r2, hs2)" for x hs1 hs2 e r2
    using that(1) runs_withinD [OF prep m1] runs_withinD [OF rec [OF le] m2]
      runs_within_final [OF prep adds_outside_preorder(1) m1] transpD [OF adds_outside_preorder(2)] by blast
  from run(1) show ?thesis
  proof (cases rule: provision_run_cases)
    case (early e)
    then show ?thesis using runs_withinD [OF prep early(1) run(2)] new by blast
  next
    case (unrecorded hs1 hs2 e entry)
    then show ?thesis using recorded [OF _ unrecorded(1) _ unrecorded(3)] ent run(2) new by auto
  next
    case (copied hs1 hs2 hs3 r3 entry)
    then have hc: "hc \<in> set hs3" using recorded [OF _ copied(1) _ copied(3)] ent run(2) new by auto
    obtain json where j: "enc_entry (ce_codec env) entry = Some json"
      and f: "node_at (final (final h hs1) hs2) led = Some (File json)"
      using copied(3) by (rule ledger_record_Inr) (simp add: final_def node_at_put_node led_def copied(2) ent)
    have "runs_within (keeps_node led) (build_clone env lp i (entry_owner entry))"
      using scope(1,2) unfolding d_def by (rule build_clone_keeps)
    from runs_withinD [OF this copied(4) hc] have "node_at hc led = Some (File json)" using f by (simp add: keeps_node_def)
    then show ?thesis using j ent copied(2) by blast
  qed
qed

section \<open>A crash while the breadcrumb is written\<close>

lemma read_entries_stops:
  assumes "n \<in> set ns" "extension n = Some ''json''" "\<And>bs. read_file h (dir @ [n]) = Inr bs \<Longrightarrow> dec_entry codec bs = None"
  shows "\<exists>e. read_entries codec h dir ns = Inl e"
  using assms(1)
proof (induction ns)
  case (Cons m ns)
  then show ?case using assms(2,3) by (auto split: sum.splits option.splits)
qed simp

lemma listed_file_is_read:
  assumes "entries codec dir h = Inr es" "fs_wf h" "dir \<noteq> []" "node_at h (dir @ [n]) = Some (File bs)" "extension n = Some ''json''"
  shows "read_file h (dir @ [n]) = Inr bs"
proof (rule ccontr)
  assume no: "\<not> ?thesis"
  have p: "present h (dir @ [n])" using assms(4) by (simp add: present_node)
  then have "node_at h dir = Some Dir" using fs_wf_above [OF assms(2) p assms(3)] by simp
  then have "read_entries codec h dir (child_names h dir) = Inr es"
    using assms(1) by (auto simp: entries_def read_dir_def split: if_splits)
  moreover have "\<exists>e. read_entries codec h dir (child_names h dir) = Inl e"
    using p no assms(4,5) by (intro read_entries_stops [of n]) (auto simp: child_names_iff read_file_def split: if_splits)
  ultimately show False by simp
qed

lemma undecodable_stops_reaper:
  assumes "node_at h (dir @ [n]) = Some (File bs)" "extension n = Some ''json''" "dec_entry codec bs = None" "node_at h dir = Some Dir"
  shows "\<exists>e. reap_orphans_with_sweep codec dir root h = (Inl e, h)"
proof -
  have "present h (dir @ [n])" using assms(1) by (simp add: present_node)
  then have "\<exists>e. read_entries codec h dir (child_names h dir) = Inl e"
    using assms by (intro read_entries_stops) (auto simp: child_names_iff read_file_def split: if_splits)
  then have "\<exists>e. entries codec dir h = Inl e"
    using assms(4) by (auto simp: entries_def read_dir_def)
  then show ?thesis by (auto simp: reap_orphans_with_sweep_def reap_from_ledger_def ebind_def)
qed

text \<open>
  The ledger file is written in place, so a provision that dies while it writes its breadcrumb stops the
  reaper altogether. Every provision that succeeds goes through a state in which its ledger file is
  empty. From a host with these files, whatever became of the processes, every later pass fails on
  that file and changes nothing: the sweep of the clone root, which is meant to be independent of the
  ledger, is not reached, and the clones of other dead orchestrators stay.
\<close>
lemma torn_breadcrumb_stops_reaper:
  assumes "provision_run env lp (clone_id_of env seq) h = (Inr hdl, hs)"
    and "dec_entry (ce_codec env) [] = None"
  shows "\<exists>hc \<in> set hs. \<forall>h2 root. hs_fs h2 = hs_fs hc \<longrightarrow>
           (\<exists>e. reap_orphans_with_sweep (ce_codec env) (lp_ledger lp) root h2 = (Inl e, h2))"
  using assms(1)
proof (cases rule: provision_run_cases)
  case (copied hs1 hs2 hs3 r3 entry)
  let ?i = "clone_id_of env seq" and ?l = "lp_ledger lp" and ?h = "final h hs1"
  have i: "le_clone_id entry = ?i" by (simp add: copied(2) provision_entry_def)
  obtain json where "hs2 = [put_node (entry_path ?l ?i) (File []) ?h, put_node (entry_path ?l ?i) (File json) ?h]"
    and dir: "node_at ?h ?l = Some Dir"
    using copied(3) by (rule ledger_record_Inr) (simp add: i)
  then have hc: "put_node (entry_path ?l ?i) (File []) ?h \<in> set hs" using copied(5) by simp
  have "\<exists>e. reap_orphans_with_sweep (ce_codec env) ?l root h2 = (Inl e, h2)"
    if "hs_fs h2 = hs_fs (put_node (entry_path ?l ?i) (File []) ?h)" for h2 root
  proof (rule undecodable_stops_reaper)
    have eq: "node_at h2 p = node_at (put_node (entry_path ?l ?i) (File []) ?h) p" for p using that by (simp add: node_at_def)
    show "node_at h2 (?l @ [safe_name ?i @ ''.json'']) = Some (File [])" by (simp add: eq node_at_put_node entry_path_safe)
    show "extension (safe_name ?i @ ''.json'') = Some ''json''" by (rule extension_of_entry) (simp add: clone_id_of_def)
    show "dec_entry (ce_codec env) [] = None" by (rule assms(2))
    show "node_at h2 ?l = Some Dir" using dir by (simp add: eq node_at_put_node entry_path_def)
  qed
  with hc show ?thesis by blast
qed simp_all

section \<open>Teardown\<close>

text \<open>
  What the funnel relies on: a destroy that reports success leaves nothing of the clone. The funnel then
  leaves nothing either, unless it called the teardown hook, and runs the body on a compliant clone only.
\<close>

locale clone_provider =
  fixes provision :: "'s \<Rightarrow> (clone_error + clone_handle) \<times> 's"
    and destroy :: "clone_handle \<Rightarrow> 's \<Rightarrow> (clone_error + unit) \<times> 's"
    and gone :: "clone_handle \<Rightarrow> 's \<Rightarrow> bool"
  assumes destroy_gone: "destroy hdl s = (Inr (), s') \<Longrightarrow> gone hdl s'"
begin

lemma funnel_tears_down:
  assumes "with_clone provision destroy body s = (r, None, s')" "fst (provision s) = Inr hdl"
    "noncompliance (ch_governance hdl) = None"
  shows "gone hdl s'"
proof -
  obtain s1 where p: "provision s = (Inr hdl, s1)" using assms(2) by (metis prod.collapse)
  obtain r2 s2 where b: "body hdl s1 = (r2, s2)" by (metis surj_pair)
  obtain d s3 where t: "destroy hdl s2 = (d, s3)" by (metis surj_pair)
  have "d = Inr ()" "s3 = s'" using assms(1,3) p b t
    by (auto simp: with_clone_def assert_compliant_def split: sum.splits)
  then show ?thesis using destroy_gone t by blast
qed

lemma body_sees_compliant_clone:
  assumes "with_clone provision destroy body s = (r, hook, s')"
    and "\<And>hdl s1. noncompliance (ch_governance hdl) = None \<Longrightarrow> body hdl s1 = body' hdl s1"
  shows "with_clone provision destroy body' s = (r, hook, s')"
  using assms
  by (auto simp: with_clone_def assert_compliant_def split: prod.splits sum.splits option.splits)

end

definition local_gone :: "clone_handle \<Rightarrow> local_world \<Rightarrow> bool" where
  "local_gone hdl s =
     (\<not> exists_path (snd s) (datadir_of (lp_cfg (fst s)) (ch_clone_id hdl))
      \<and> node_at (snd s) (entry_path (lp_ledger (fst s)) (ch_clone_id hdl)) = None)"

lemma ledger_forget_gone: "ledger_forget dir i h = (Inr (), h') \<Longrightarrow> node_at h' (entry_path dir i) = None"
  by (auto simp: ledger_forget_def remove_file_def node_at_def drop_nodes_def map_of_eq_None_iff
      split: option.splits node.splits if_splits)

lemma local_destroy_gone:
  assumes "local_destroy env hdl s = (Inr (), s')"
  shows "local_gone hdl s'"
proof -
  obtain lp h where s: "s = (lp, h)" by (cases s)
  let ?d = "datadir_of (lp_cfg lp) (ch_clone_id hdl)" and ?i = "ch_clone_id hdl"
  let ?h1 = "stop_clone env lp ?d h"
  obtain r h2 where rm: "(if exists_path ?h1 ?d then remove_dir_all ?d ?h1 else (Inr (), ?h1)) = (r, h2)" by (metis surj_pair)
  let ?h3 = "snd (remove_dir_all (sockdir_of env (lp_cfg lp)) h2)"
  let ?h4 = "snd (remove_file (logfile_of (lp_cfg lp) ?i) ?h3)"
  obtain f h5 where fg: "ledger_forget (lp_ledger lp) ?i ?h4 = (f, h5)" by (metis surj_pair)
  have x: "r = Inr ()" "f = Inr ()" "s' = (lp, h5)"
    using assms rm fg by (auto simp: local_destroy_def s split: sum.splits)
  have "\<not> exists_path h2 ?d"
    using rm x(1) remove_dir_all_Inr [of ?d ?h1 h2 ?d] by (auto simp: exists_path_def split: if_splits)
  moreover have "shrinks h2 h5"
    by (rule shrinks_trans [OF shrinks_remove_dir_all [OF surjective_pairing]
          shrinks_trans [OF shrinks_remove_file [OF surjective_pairing] ledger_forget_facts(1) [OF fg]]])
  ultimately have "\<not> exists_path h5 ?d" using shrinks_exists by blast
  then show ?thesis using ledger_forget_gone [OF fg [unfolded x(2)]] by (simp add: local_gone_def x(3))
qed

interpretation local_clones: clone_provider "local_provision env" "local_destroy env" local_gone for env
  by unfold_locales (rule local_destroy_gone)

text \<open>The other two providers make no cluster, so nothing of theirs is left to be torn down.\<close>

interpretation baseline: clone_provider none_provision none_destroy "\<lambda>_ _. True"
  by unfold_locales simp

interpretation dblab: clone_provider dblab_provision dblab_destroy "\<lambda>_ _. True"
  by unfold_locales simp

text \<open>
  C31: no clone outlives its use. When the funnel made a compliant clone with the local provider and did not
  call its teardown hook, then, whatever the body did and returned, the data directory of the clone
  does not exist any more and its ledger file is gone.
\<close>
theorem clone_does_not_outlive_its_use:
  assumes "with_clone (local_provision env) (local_destroy env) body s = (r, None, (lp', h'))"
    and "fst (local_provision env s) = Inr hdl" "noncompliance (ch_governance hdl) = None"
  shows "\<not> exists_path h' (datadir_of (lp_cfg lp') (ch_clone_id hdl))
    \<and> node_at h' (entry_path (lp_ledger lp') (ch_clone_id hdl)) = None"
  using local_clones.funnel_tears_down [OF assms] by (simp add: local_gone_def)

section \<open>A provision that fails after the copy\<close>

definition keeps_present :: "path \<Rightarrow> host \<Rightarrow> host \<Rightarrow> bool" where
  "keeps_present p h h' = (present h p \<longrightarrow> present h' p)"

lemma keeps_present_preorder: "reflp (keeps_present p)" "transp (keeps_present p)"
  by (auto simp: keeps_present_def reflp_def transp_def)

text \<open>The programs do not remove \<open>p\<close>.\<close>

definition tools_keep_present :: "clone_env \<Rightarrow> path \<Rightarrow> bool" where
  "tools_keep_present env p = (\<forall>prog args h h'. h' \<in> set (snd (ce_run env prog args h)) \<longrightarrow> keeps_present p h h')"

lemma run_tool_keeps_present: "tools_keep_present env p \<Longrightarrow> runs_within (keeps_present p) (run_tool env prog args what)"
  unfolding runs_within_def run_tool_def tools_keep_present_def
  by (auto split: prod.splits ran.splits) (metis snd_conv)+

lemma write_owner_marker_keeps_present: "runs_within (keeps_present p) (write_owner_marker codec datadir own)"
  by (auto simp: runs_within_def write_owner_marker_def write_states_def keeps_present_def present_put_node
      split: option.splits prod.splits sum.splits if_splits)

lemma append_file_keeps_present: "runs_within (keeps_present p) (append_file q txt)"
  by (auto simp: runs_within_def append_file_def keeps_present_def present_put_node split: option.splits node.splits if_splits)

lemma configure_keeps_present:
  assumes "tools_keep_present env d"
  shows "runs_within (keeps_present d)
    (hbind (write_owner_marker codec d own) (\<lambda>_.
     hbind (append_file conf txt) (\<lambda>_.
     hbind (attempt (remove_file (d @ [a]))) (\<lambda>_.
     hbind (attempt (remove_file (d @ [b]))) (\<lambda>_. run_tool env prog args what)))))"
proof -
  have rm: "runs_within (keeps_present d) (attempt (remove_file (d @ [f])))" for f
  proof (rule runs_within_attempt)
    show "keeps_present d h h'" if "remove_file (d @ [f]) h = (r, h')" for h r h'
      using remove_file_outside [OF that, of d] by (simp add: keeps_present_def)
  qed
  show ?thesis
    by (intro runs_within_hbind keeps_present_preorder write_owner_marker_keeps_present append_file_keeps_present rm
        run_tool_keeps_present assms)
qed

lemma run_tool_error: "run_tool env prog args what h = (Inl (Provision w m), hs) \<Longrightarrow> w = what"
  by (auto simp: run_tool_def split: prod.splits ran.splits)

lemma final_append: "final h (hs1 @ hs2) = final (final h hs1) hs2"
  by (simp add: final_def)

lemma failed_start_leaves_datadir:
  assumes "build_clone env lp i own h = (Inl (Provision ''pg_ctl start'' m), hs)"
    and "tools_keep_present env (datadir_of (lp_cfg lp) i)"
  shows "present (final h hs) (datadir_of (lp_cfg lp) i)"
  using assms(1) unfolding build_clone_def Let_def
proof (cases rule: hbind_cases)
  case (fails e)
  then show ?thesis by (auto dest: run_tool_error)
next
  case (goes x hs1 hs2)
  let ?d = "datadir_of (lp_cfg lp) i"
  from goes(2) show ?thesis
  proof (cases rule: hbind_cases)
    case (fails e)
    then show ?thesis by (auto simp: set_mode_0700_def split: if_splits)
  next
    case goes2: (goes y hs3 hs4)
    then have "present (final h hs1) ?d" "hs3 = []" by (auto simp: set_mode_0700_def split: if_splits)
    moreover have "keeps_present ?d (final (final h hs1) hs3) (final (final (final h hs1) hs3) hs4)"
      using runs_within_final [OF configure_keeps_present [OF assms(2)] keeps_present_preorder(1) goes2(2)] .
    moreover have "final x [] = x" for x by (simp add: final_def)
    ultimately show ?thesis using goes(3) goes2(3) by (simp add: keeps_present_def final_append)
  qed
qed

lemma local_provision_run:
  "local_provision env (lp, h) = (r, (lp', h')) \<Longrightarrow>
    \<exists>hs. provision_run env lp' (clone_id_of env (lp_seq lp')) h = (r, hs) \<and> h' = final h hs"
  by (auto simp: local_provision_def split: prod.splits)

lemma prepare_error: "prepare_dirs env cfg i h = (Inl e, hs) \<Longrightarrow> \<exists>t. e = Tooling t"
  by (auto simp: prepare_dirs_def hbind_def call_def set_mode_0700_def remove_if_there_def attempt_def hret_def
      split: prod.splits sum.splits if_splits)

lemma record_error: "ledger_record codec dir e h = (Inl x, hs) \<Longrightarrow> \<exists>t. x = Tooling t"
  by (auto simp: ledger_record_def split: option.splits prod.splits sum.splits)

lemma failed_start_state:
  assumes run: "provision_run env lp i h = (Inl (Provision ''pg_ctl start'' m), hs)"
    and tools: "tools_keep env (entry_path (lp_ledger lp) i)" "tools_keep_present env (datadir_of (lp_cfg lp) i)"
    and out: "\<not> under (datadir_of (lp_cfg lp) i) (entry_path (lp_ledger lp) i)"
  obtains e json where "present (final h hs) (datadir_of (lp_cfg lp) i)"
    "node_at (final h hs) (entry_path (lp_ledger lp) i) = Some (File json)" "enc_entry (ce_codec env) e = Some json"
    "le_datadir e = datadir_of (lp_cfg lp) i" "le_owner_pid e = ce_pid env"
  using run
proof (cases rule: provision_run_cases)
  case (early e)
  then show ?thesis using prepare_error by blast
next
  case (unrecorded hs1 hs2 e entry)
  then show ?thesis using record_error by blast
next
  case (copied hs1 hs2 hs3 r3 entry)
  let ?l = "entry_path (lp_ledger lp) i"
  have ent: "le_clone_id entry = i" "le_datadir entry = datadir_of (lp_cfg lp) i" "le_owner_pid entry = ce_pid env"
    by (simp_all add: copied(2) provision_entry_def owner_current_def)
  have r3: "r3 = Inl (Provision ''pg_ctl start'' m)" using copied(6) by (cases r3) auto
  have fin: "final h hs = final (final (final h hs1) hs2) hs3" by (simp add: copied(5) final_append)
  obtain json where j: "enc_entry (ce_codec env) entry = Some json" "node_at (final (final h hs1) hs2) ?l = Some (File json)"
    using copied(3) by (rule ledger_record_Inr) (simp add: final_def node_at_put_node ent)
  have "keeps_node ?l (final (final h hs1) hs2) (final h hs)"
    unfolding fin using runs_within_final [OF build_clone_keeps [OF tools(1) out] keeps_node_preorder(1) copied(4)] .
  moreover have "present (final h hs) (datadir_of (lp_cfg lp) i)"
    unfolding fin using copied(4) failed_start_leaves_datadir [OF _ tools(2)] r3 by blast
  ultimately show ?thesis using that j ent by (simp add: keeps_node_def)
qed

text \<open>
  A provision whose cluster does not start is not torn down, although the copy of the primary is
  complete: the funnel returns the error without calling destroy or its hook, the data directory and
  the ledger file stay, and as long as the owners on the ledger are alive, which includes the process
  that failed, no pass of the reaper touches the directory.
\<close>
lemma failed_start_keeps_the_copy:
  assumes run: "local_provision env (lp, h) = (Inl (Provision ''pg_ctl start'' m), (lp', h1))"
    and i: "i = clone_id_of env (lp_seq lp')"
    and tools: "tools_keep env (entry_path (lp_ledger lp') i)" "tools_keep_present env (datadir_of (lp_cfg lp') i)"
    and out: "\<not> under (datadir_of (lp_cfg lp') i) (entry_path (lp_ledger lp') i)" "lp_ledger lp' \<noteq> lc_clone_root (lp_cfg lp')" "lp_ledger lp' \<noteq> []"
    and codec: "\<And>e json. enc_entry (ce_codec env) e = Some json \<Longrightarrow> dec_entry (ce_codec env) json = Some e"
    and pass: "fs_wf h1" "entries (ce_codec env) (lp_ledger lp') h1 = Inr es"
      "reap_orphans_with_sweep (ce_codec env) (lp_ledger lp') (lc_clone_root (lp_cfg lp')) h1 = (res, h2)"
      "\<And>e. e \<in> set es \<Longrightarrow> is_live h2 (entry_owner e)"
  shows "with_clone (local_provision env) (local_destroy env) body (lp, h) = (Inl (Provision ''pg_ctl start'' m), None, (lp', h1))
    \<and> present h1 (datadir_of (lp_cfg lp') i) \<and> present h2 (datadir_of (lp_cfg lp') i)"
proof -
  let ?root = "lc_clone_root (lp_cfg lp')" and ?dir = "lp_ledger lp'"
  have d: "datadir_of (lp_cfg lp') i = ?root @ [i]" unfolding i by (rule datadir_of_clone_id)
  obtain hs where "provision_run env lp' i h = (Inl (Provision ''pg_ctl start'' m), hs)" "h1 = final h hs"
    using local_provision_run [OF run] i by blast
  then obtain e json where p: "present h1 (?root @ [i])"
    and f: "node_at h1 (?dir @ [safe_name i @ ''.json'']) = Some (File json)" and j: "dec_entry (ce_codec env) json = Some e"
    and e: "le_datadir e = ?root @ [i]"
    using failed_start_state [OF _ tools out(1)] codec unfolding d entry_path_safe by metis
  have ext: "extension (safe_name i @ ''.json'') = Some ''json''" using extension_of_entry [of i] by (simp add: i clone_id_of_def)
  have nd: "\<not> under (?root @ [i]) ?dir" using out(1) under_trans [of "?root @ [i]" ?dir] by (auto simp: d entry_path_safe)
  have sp: "spared ?dir h2 es q" for q using pass(4) by (simp add: spared_def)
  have "read_file h1 (?dir @ [safe_name i @ ''.json'']) = Inr json"
    using listed_file_is_read [OF pass(2,1) out(3) f ext] .
  moreover from this have "e \<in> set es" using entries_iff [OF pass(2,1) out(3)] ext j by blast
  then have "is_live h2 (entry_owner e)" by (rule pass(4))
  ultimately have "intact (?root @ [i]) h1 h2"
    using live_clone_intact [OF pass(3,2,1) out(3,2) nd, of "entry_owner e"] ext j e sp by blast
  then have "present h2 (?root @ [i])" using p by (simp add: intact_def)
  then show ?thesis using p run by (simp add: d with_clone_def)
qed

section \<open>Parity\<close>

lemma ordered_difference_empty: "ordered_difference key xs ys = [] \<longleftrightarrow> set xs \<subseteq> set ys"
proof -
  have "set (ordered_difference key xs ys) = set xs - set ys" by (auto simp: ordered_difference_def)
  then show ?thesis by (metis Diff_eq_empty_iff set_empty)
qed

text \<open>
  The parity gate is exactly equality of what was captured: the report says parity if and only if the
  clone has the row policies and the column grants of the primary, in whatever order and however often
  they were captured.
\<close>
lemma parity_iff_same_policies_and_grants:
  "is_parity (check_parity prod_rls clone_rls prod_grants clone_grants) \<longleftrightarrow>
     set prod_rls = set clone_rls \<and> set prod_grants = set clone_grants"
  by (auto simp: is_parity_def check_parity_def ordered_difference_empty)

section \<open>A sample provision\<close>

definition demo_id :: string where "demo_id = ''local-clone-7-1''"
definition demo_datadir :: path where "demo_datadir = sample_root @ [demo_id]"
definition demo_led :: path where "demo_led = sample_dir @ [''local-clone-7-1.json'']"
definition demo_sock :: path where "demo_sock = [''/'', ''tmp'', ''pgb-clone-5'']"

definition demo_entry :: ledger_entry where
  "demo_entry = \<lparr>le_clone_id = demo_id, le_datadir = demo_datadir, le_port = 5, le_owner_pid = 7, le_owner_start = []\<rparr>"

definition demo_codec :: ledger_codec where
  "demo_codec = \<lparr>enc_entry = (\<lambda>e. if e = demo_entry then Some [1] else None), dec_entry = (\<lambda>bs. if bs = [1] then Some demo_entry else None),
    enc_owner = (\<lambda>own. Some [2]), dec_owner = (\<lambda>bs. None)\<rparr>"

text \<open>Programs that copy a primary of one file, and start the cluster if \<open>ok\<close>.\<close>

definition demo_run :: "bool \<Rightarrow> path \<Rightarrow> string list \<Rightarrow> host \<Rightarrow> ran \<times> host list" where
  "demo_run ok prog args h =
     (if last prog = ''pg_basebackup''
      then (Succeeded [], [put_node demo_datadir Dir h, put_node (demo_datadir @ [''PG_VERSION'']) (File [5]) (put_node demo_datadir Dir h)])
      else if last args = ''start'' \<and> ok then (Succeeded [], []) else (Failed [], []))"

definition demo_env :: "bool \<Rightarrow> clone_env" where
  "demo_env ok = \<lparr>ce_codec = demo_codec, ce_run = demo_run ok, ce_pid = 7, ce_temp = [''/'', ''tmp'']\<rparr>"

definition demo_provider :: local_clone_provider where
  "demo_provider =
     \<lparr>lp_cfg = \<lparr>lc_pg_bin = [''/'', ''bin''], lc_clone_root = sample_root, lc_clone_port = 5,
        lc_primary = \<lparr>pf_host = ''h'', pf_port = 6, pf_repl_user = ''u'', pf_dbname = ''d''\<rparr>, lc_owner = ''dba''\<rparr>,
      lp_ledger = sample_dir, lp_seq = 1\<rparr>"

definition demo_host :: host where
  "demo_host =
     \<lparr>hs_fs = [([''/''], Dir), (sample_root, Dir), (sample_dir, Dir), ([''/'', ''tmp''], Dir)],
      hs_procs = [7 \<mapsto> \<lparr>pr_lstart = None, pr_foreign = False, pr_exit = None, pr_on = (\<lambda>_. None)\<rparr>],
      hs_kill_runs = True, hs_deny = (\<lambda>_ _. False), hs_survive = (\<lambda>_. False)\<rparr>"

definition demo_prepared :: host where "demo_prepared = put_node demo_sock Dir demo_host"
definition demo_recorded :: host where "demo_recorded = put_node demo_led (File [1]) demo_prepared"

definition demo_copied :: host where
  "demo_copied = put_node (demo_datadir @ [''PG_VERSION'']) (File [5]) (put_node demo_datadir Dir demo_recorded)"

definition demo_marked :: host where
  "demo_marked = put_node (demo_datadir @ [OWNER_MARKER]) (File [2]) demo_copied"

definition demo_conf :: path where "demo_conf = demo_datadir @ [''postgresql.auto.conf'']"

definition demo_built :: host where
  "demo_built = put_node demo_conf (File (as_bytes (clone_conf (demo_env True) (lp_cfg demo_provider)))) demo_marked"

lemmas demo_paths = demo_datadir_def demo_led_def demo_sock_def demo_conf_def demo_id_def OWNER_MARKER_def sample_root_def sample_dir_def
lemmas demo_hosts = demo_prepared_def demo_recorded_def demo_copied_def demo_marked_def demo_built_def

lemma demo_names:
  "clone_id_of (demo_env ok) 1 = demo_id" "datadir_of (lp_cfg demo_provider) demo_id = demo_datadir"
  "entry_path sample_dir demo_id = demo_led" "sockdir_of (demo_env ok) (lp_cfg demo_provider) = demo_sock"
proof -
  have d: "decimal 7 = ''7''" "decimal (Suc 0) = ''1''" "decimal 5 = ''5''"
    by (simp_all add: decimal.simps [of 7] decimal.simps [of "Suc 0"] decimal.simps [of 5] char_of_def bit_0)
  show i: "clone_id_of (demo_env ok) 1 = demo_id" for ok by (simp add: clone_id_of_def u32_str_def demo_env_def demo_id_def d)
  show "datadir_of (lp_cfg demo_provider) demo_id = demo_datadir"
    using datadir_of_clone_id [of "lp_cfg demo_provider" "demo_env True" 1] by (simp add: i demo_provider_def demo_datadir_def)
  show "entry_path sample_dir demo_id = demo_led" by (simp add: sample_entry_path demo_id_def demo_led_def)
  show "sockdir_of (demo_env ok) (lp_cfg demo_provider) = demo_sock"
    by (simp add: sockdir_of_def demo_env_def demo_provider_def u16_str_def d demo_sock_def)
qed

lemma demo_nodes: "node_at demo_host p = map_of [([''/''], Dir), (sample_root, Dir), (sample_dir, Dir), ([''/'', ''tmp''], Dir)] p"
  by (simp add: node_at_def demo_host_def)

lemma demo_permits: "hs_deny demo_host op p = False" "hs_deny (put_node q n h) = hs_deny h" "hs_procs (put_node q n h) = hs_procs h"
  by (simp_all add: demo_host_def put_node_def)

lemma demo_prepare: "prepare_dirs (demo_env ok) (lp_cfg demo_provider) demo_id demo_host = (Inr (), [demo_host, demo_prepared])"
proof -
  have root: "create_dir_all sample_root demo_host = (Inr (), demo_host)"
    by (simp add: create_dir_all_def ancestors_def demo_nodes demo_paths)
  have sock: "create_dir_all demo_sock demo_host = (Inr (), demo_prepared)"
    by (simp add: create_dir_all_def ancestors_def demo_nodes demo_prepared_def demo_permits demo_paths)
  have "lc_clone_root (lp_cfg demo_provider) = sample_root" by (simp add: demo_provider_def)
  moreover have "present demo_host sample_root" "\<not> present demo_host demo_datadir" "\<not> present demo_host demo_sock"
    by (simp_all add: present_node demo_nodes demo_paths)
  ultimately show ?thesis
    by (simp add: prepare_dirs_def demo_names hbind_def call_def root sock set_mode_0700_def remove_if_there_def
        exists_path_def hret_def final_def demo_permits)
qed

lemma demo_record:
  "provision_entry (demo_env ok) (lp_cfg demo_provider) demo_id demo_prepared = demo_entry"
  "ledger_record demo_codec sample_dir demo_entry demo_prepared = (Inr (), [put_node demo_led (File []) demo_prepared, demo_recorded])"
proof -
  show "provision_entry (demo_env ok) (lp_cfg demo_provider) demo_id demo_prepared = demo_entry"
    unfolding provision_entry_def demo_names
    by (simp add: owner_current_def process_start_time_def demo_env_def demo_prepared_def demo_permits demo_host_def
        demo_entry_def demo_provider_def)
  have "entry_path sample_dir (le_clone_id demo_entry) = demo_led" using demo_names(3) by (simp add: demo_entry_def)
  then show "ledger_record demo_codec sample_dir demo_entry demo_prepared = (Inr (), [put_node demo_led (File []) demo_prepared, demo_recorded])"
    by (simp add: ledger_record_def demo_codec_def write_states_def node_at_put_node demo_nodes demo_permits demo_prepared_def
        demo_recorded_def demo_paths)
qed

lemma demo_build:
  "\<exists>hs. build_clone (demo_env ok) demo_provider demo_id own demo_recorded =
     (if ok then Inr [] else Inl (Provision ''pg_ctl start'' []), hs) \<and> demo_copied \<in> set hs \<and> final demo_recorded hs = demo_built"
proof -
  have "write_owner_marker demo_codec demo_datadir own demo_copied =
      (Inr (), [put_node (demo_datadir @ [OWNER_MARKER]) (File []) demo_copied, demo_marked])"
    by (simp add: write_owner_marker_def demo_codec_def write_states_def node_at_put_node demo_nodes demo_permits demo_hosts demo_paths)
  moreover have "append_file demo_conf (clone_conf (demo_env True) (lp_cfg demo_provider)) demo_marked =
      (Inr (), [put_node demo_conf (File []) demo_marked, demo_built])"
    by (simp add: append_file_def node_at_put_node demo_nodes demo_permits demo_hosts demo_paths)
  moreover have "present demo_copied demo_datadir" "\<not> hs_deny demo_copied Chmod demo_datadir"
    by (simp_all add: present_put_node demo_permits demo_hosts)
  moreover have "remove_file (demo_datadir @ [''standby.signal'']) demo_built = (Inl NotFound, demo_built)"
      "remove_file (demo_datadir @ [''recovery.signal'']) demo_built = (Inl NotFound, demo_built)"
    by (simp_all add: remove_file_def node_at_put_node demo_nodes demo_hosts demo_paths)
  moreover have "clone_conf (demo_env ok) (lp_cfg demo_provider) = clone_conf (demo_env True) (lp_cfg demo_provider)"
    by (simp add: clone_conf_def demo_names)
  moreover have "trim [] = []" by (simp add: trim_def trim_start_def trim_end_def)
  ultimately show ?thesis
    by (simp add: build_clone_def demo_names hbind_def run_tool_def demo_env_def demo_run_def tool_def set_mode_0700_def
        attempt_def final_def demo_copied_def [symmetric] demo_conf_def [symmetric])
qed

lemma demo_provision:
  obtains hs where "provision_run (demo_env ok) demo_provider demo_id demo_host =
      (if ok then Inr (local_handle (demo_env ok) demo_provider demo_id demo_built) else Inl (Provision ''pg_ctl start'' []), hs)"
    "demo_copied \<in> set hs" "final demo_host hs = demo_built"
proof -
  obtain hs where b: "build_clone (demo_env ok) demo_provider demo_id (entry_owner demo_entry) demo_recorded =
      (if ok then Inr [] else Inl (Provision ''pg_ctl start'' []), hs)" "demo_copied \<in> set hs" "final demo_recorded hs = demo_built"
    using demo_build by blast
  have c: "ce_codec (demo_env ok) = demo_codec" "lp_ledger demo_provider = sample_dir"
    by (simp_all add: demo_env_def demo_provider_def)
  have "provision_run (demo_env ok) demo_provider demo_id demo_host =
      (if ok then Inr (local_handle (demo_env ok) demo_provider demo_id demo_built) else Inl (Provision ''pg_ctl start'' []),
       [demo_host, demo_prepared] @ [put_node demo_led (File []) demo_prepared, demo_recorded] @ hs)"
    using b(3) by (simp add: provision_run_def hbind_def demo_prepare demo_record c hret_def final_def b(1) split: if_splits)
  moreover have "final demo_host ([demo_host, demo_prepared] @ [put_node demo_led (File []) demo_prepared, demo_recorded] @ hs) = demo_built"
    using b(3) by (simp add: final_def)
  ultimately show ?thesis using that b(2) by simp
qed

lemma demo_tools_keep: "tools_keep (demo_env ok) demo_led" "tools_keep_present (demo_env ok) demo_datadir"
  by (auto simp: tools_keep_def tools_keep_present_def keeps_node_def keeps_present_def demo_env_def demo_run_def
      node_at_put_node present_put_node demo_paths)

lemma demo_apart: "\<not> under demo_datadir demo_led" "\<not> under demo_datadir demo_sock"
  by (simp_all add: under_def demo_paths)

text \<open>The state after the copy of the first file.\<close>

theorem breadcrumb_precedes_the_copy_witness:
  "\<exists>e json. node_at demo_copied demo_led = Some (File json) \<and> enc_entry demo_codec e = Some json
     \<and> le_clone_id e = demo_id \<and> le_datadir e = demo_datadir \<and> le_owner_pid e = 7"
proof -
  obtain r hs where "provision_run (demo_env True) demo_provider demo_id demo_host = (r, hs)" "demo_copied \<in> set hs"
    by (rule demo_provision [of True])
  moreover have "present demo_copied (demo_datadir @ [''PG_VERSION''])" by (simp add: demo_copied_def present_put_node)
  moreover have "\<not> present demo_host (demo_datadir @ [''PG_VERSION''])" by (simp add: present_node demo_nodes demo_paths)
  moreover have "lp_ledger demo_provider = sample_dir" by (simp add: demo_provider_def)
  ultimately have "\<exists>e json. node_at demo_copied demo_led = Some (File json) \<and> enc_entry (ce_codec (demo_env True)) e = Some json
     \<and> le_clone_id e = demo_id \<and> le_datadir e = demo_datadir \<and> le_owner_pid e = ce_pid (demo_env True)"
    using breadcrumb_precedes_the_copy [of demo_id "demo_env True" 1 demo_datadir demo_provider demo_led demo_host r hs demo_copied
        "demo_datadir @ [''PG_VERSION'']"] demo_tools_keep(1) demo_apart by (simp add: demo_names)
  then show ?thesis by (simp add: demo_env_def)
qed

text \<open>The sample provision, cut off in its ledger write.\<close>

lemma torn_breadcrumb_stops_reaper_sample:
  "\<exists>hc :: host. hs_fs hc \<noteq> [] \<and> (\<forall>h2 root. hs_fs h2 = hs_fs hc \<longrightarrow> (\<exists>e. reap_orphans_with_sweep demo_codec sample_dir root h2 = (Inl e, h2)))"
proof -
  obtain hs where "provision_run (demo_env True) demo_provider demo_id demo_host =
      (Inr (local_handle (demo_env True) demo_provider demo_id demo_built), hs)"
    using demo_provision [of True] by auto
  then have run: "provision_run (demo_env True) demo_provider (clone_id_of (demo_env True) 1) demo_host =
      (Inr (local_handle (demo_env True) demo_provider demo_id demo_built), hs)" by (simp add: demo_names)
  have c: "ce_codec (demo_env True) = demo_codec" "lp_ledger demo_provider = sample_dir" "dec_entry demo_codec [] = None"
    by (simp_all add: demo_env_def demo_provider_def demo_codec_def)
  from torn_breadcrumb_stops_reaper [OF run, unfolded c(1,2), OF c(3)]
  obtain hc :: host where hc: "\<forall>h2 root. hs_fs h2 = hs_fs hc \<longrightarrow> (\<exists>e. reap_orphans_with_sweep demo_codec sample_dir root h2 = (Inl e, h2))"
    by blast
  have "hs_fs hc \<noteq> []"
  proof
    assume "hs_fs hc = []"
    then have "reap_orphans_with_sweep demo_codec sample_dir root hc = (Inr no_outcome, hc)" for root
      by (simp add: reap_orphans_with_sweep_def reap_from_ledger_def entries_def read_dir_def node_at_def ebind_def sweep_clone_root_def)
    then show False using hc by (metis Inl_Inr_False fst_conv)
  qed
  with hc show ?thesis by blast
qed

lemma demo_compliant: "noncompliance (ch_governance (local_handle (demo_env ok) demo_provider demo_id demo_built)) = None"
proof -
  have w: "trim (CHR ''/'' # s) \<noteq> []" "trim (CHR ''d'' # s) \<noteq> []" for s
    by (rule trim_nonblank; simp add: char_len_def chunk_white_def chars_def as_bytes_def is_whitespace_def)+
  have "logfile_of (lp_cfg demo_provider) demo_id = sample_root @ [demo_id @ ''.log'']"
    unfolding logfile_of_def using path_join_plain [of "demo_id @ ''.log''" sample_root] by (simp add: demo_provider_def demo_id_def)
  moreover have "lc_owner (lp_cfg demo_provider) = ''dba''" by (simp add: demo_provider_def)
  ultimately show ?thesis
    using w by (simp add: noncompliance_def local_handle_def demo_names display_def demo_datadir_def sample_root_def)
qed

lemma permissive_destroy:
  assumes "\<And>op p. \<not> hs_deny h op p" "node_at h (datadir_of (lp_cfg lp) (ch_clone_id hdl)) = Some Dir"
    "\<not> present h (datadir_of (lp_cfg lp) (ch_clone_id hdl) @ [''postmaster.pid''])"
    "node_at h (entry_path (lp_ledger lp) (ch_clone_id hdl)) \<noteq> Some Dir" "fs_wf h"
  shows "fst (local_destroy env hdl (lp, h)) = Inr ()"
proof -
  let ?d = "datadir_of (lp_cfg lp) (ch_clone_id hdl)" and ?l = "entry_path (lp_ledger lp) (ch_clone_id hdl)"
  have stop: "stop_clone env lp ?d h = h" using assms(3) by (simp add: stop_clone_def exists_path_def)
  have ex: "exists_path h ?d" "remove_dir_all ?d h = (Inr (), drop_nodes (under ?d) h)"
    using assms(1,2) by (auto simp: exists_path_def present_node remove_dir_all_def)
  have forget: "fst (ledger_forget (lp_ledger lp) (ch_clone_id hdl) h') = Inr ()" if "shrinks h h'" for h'
  proof -
    have "node_at h' ?l \<noteq> Some Dir" "\<not> hs_deny h' Remove ?l"
      using shrinks_node_at [OF that assms(5)] assms(1,4) shrinks_deny [OF that] by auto
    then show ?thesis by (auto simp: ledger_forget_def remove_file_def split: option.splits node.splits)
  qed
  have "shrinks h (snd (remove_file f (snd (remove_dir_all k (drop_nodes (under ?d) h)))))" for f k
    by (intro shrinks_trans [OF shrinks_drop_nodes shrinks_trans [OF shrinks_remove_dir_all [OF surjective_pairing]
          shrinks_remove_file [OF surjective_pairing]]])
  then show ?thesis using forget by (simp add: local_destroy_def stop ex prod.case_eq_if)
qed

lemma demo_built_files: "hs_fs demo_built =
    [([''/''], Dir), (sample_root, Dir), (sample_dir, Dir), ([''/'', ''tmp''], Dir), (demo_sock, Dir), (demo_led, File [1]),
     (demo_datadir, Dir), (demo_datadir @ [''PG_VERSION''], File [5]), (demo_datadir @ [OWNER_MARKER], File [2]),
     (demo_conf, File (as_bytes (clone_conf (demo_env True) (lp_cfg demo_provider))))]"
  by (simp add: demo_hosts put_node_def present_def demo_host_def demo_paths)

lemma demo_built_wf: "fs_wf demo_built"
  by (simp add: fs_wf_def demo_built_files demo_paths numeral_eq_Suc atLeastLessThanSuc atLeastLessThan_singleton)

lemma demo_built_permits: "hs_deny demo_built op p = False"
  by (simp add: demo_hosts demo_permits)

text \<open>The world the sample starts in, before its first provision.\<close>

definition demo_start :: local_world where
  "demo_start = (demo_provider\<lparr>lp_seq := 0\<rparr>, demo_host)"

lemma demo_local_provision:
  "local_provision (demo_env ok) demo_start =
     (if ok then Inr (local_handle (demo_env ok) demo_provider demo_id demo_built) else Inl (Provision ''pg_ctl start'' []),
      (demo_provider, demo_built))"
proof -
  obtain hs where h: "provision_run (demo_env ok) demo_provider demo_id demo_host =
      (if ok then Inr (local_handle (demo_env ok) demo_provider demo_id demo_built) else Inl (Provision ''pg_ctl start'' []), hs)"
    "final demo_host hs = demo_built" by (rule demo_provision)
  have p: "demo_provider\<lparr>lp_seq := 1\<rparr> = demo_provider" "lp_seq demo_provider = 1"
    by (simp_all add: demo_provider_def)
  show ?thesis using h by (simp add: p local_provision_def demo_start_def demo_names split: if_splits)
qed

text \<open>A rehearsal that fails.\<close>

definition demo_body :: "clone_handle \<Rightarrow> local_world \<Rightarrow> (clone_error + unit) \<times> local_world" where
  "demo_body hdl s = (Inl (Tooling LsnFailed), s)"

theorem clone_does_not_outlive_its_use_witness:
  "\<not> exists_path (snd (snd (snd (with_clone (local_provision (demo_env True)) (local_destroy (demo_env True)) demo_body demo_start)))) demo_datadir"
proof -
  let ?h = "local_handle (demo_env True) demo_provider demo_id demo_built"
  have i: "ch_clone_id ?h = demo_id" by (simp add: local_handle_def)
  have l: "lp_ledger demo_provider = sample_dir" by (simp add: demo_provider_def)
  have "fst (local_destroy (demo_env True) ?h (demo_provider, demo_built)) = Inr ()"
  proof (rule permissive_destroy)
    show "\<not> hs_deny demo_built op p" for op p by (simp add: demo_built_permits)
    show "node_at demo_built (datadir_of (lp_cfg demo_provider) (ch_clone_id ?h)) = Some Dir"
      unfolding i demo_names by (simp add: node_at_def demo_built_files demo_paths)
    show "\<not> present demo_built (datadir_of (lp_cfg demo_provider) (ch_clone_id ?h) @ [''postmaster.pid''])"
      unfolding i demo_names by (simp add: present_def demo_built_files demo_paths)
    show "node_at demo_built (entry_path (lp_ledger demo_provider) (ch_clone_id ?h)) \<noteq> Some Dir"
      unfolding i l demo_names by (simp add: node_at_def demo_built_files demo_paths)
  qed (rule demo_built_wf)
  then obtain s' where d: "local_destroy (demo_env True) ?h (demo_provider, demo_built) = (Inr (), s')" by (metis prod.collapse)
  have lp: "fst s' = demo_provider" using d by (auto simp: local_destroy_def split: prod.splits sum.splits)
  have "with_clone (local_provision (demo_env True)) (local_destroy (demo_env True)) demo_body demo_start = (Inl (Tooling LsnFailed), None, s')"
    using d demo_compliant [of True] by (simp add: with_clone_def demo_local_provision demo_body_def assert_compliant_def)
  moreover from this have "with_clone (local_provision (demo_env True)) (local_destroy (demo_env True)) demo_body demo_start =
      (Inl (Tooling LsnFailed), None, (demo_provider, snd s'))" using lp by (metis prod.collapse)
  from clone_does_not_outlive_its_use [OF this, of ?h]
  have "\<not> exists_path (snd s') demo_datadir" using demo_compliant by (simp add: demo_local_provision i demo_names)
  ultimately show ?thesis by simp
qed

text \<open>The cluster of the sample does not start; the orchestrator lives on and the reaper runs.\<close>

lemma demo_built_entries: "entries demo_codec sample_dir demo_built = Inr [demo_entry]"
proof -
  have "child_names demo_built sample_dir = [''local-clone-7-1.json'']"
    by (simp add: child_names_def demo_built_files demo_paths)
  moreover have "node_at demo_built sample_dir = Some Dir" "node_at demo_built (sample_dir @ [''local-clone-7-1.json'']) = Some (File [1])"
    by (simp_all add: node_at_def demo_built_files demo_paths)
  moreover have "extension ''local-clone-7-1.json'' = Some ''json''" by (simp add: extension_def)
  moreover have "dec_entry demo_codec [1] = Some demo_entry" by (simp add: demo_codec_def)
  ultimately show ?thesis
    by (simp add: entries_def read_dir_def read_file_def demo_built_permits)
qed

lemma demo_owner_lives:
  assumes "reap_orphans_with_sweep demo_codec sample_dir sample_root demo_built = (res, h2)"
  shows "is_live h2 (entry_owner demo_entry)"
proof -
  have live: "is_live demo_built (entry_owner demo_entry)"
    by (simp add: is_live_def pid_alive_def kill_target_def process_start_time_def entry_owner_def demo_entry_def
        demo_hosts demo_permits put_node_def demo_host_def)
  have "reap_from_ledger demo_codec sample_dir (no_outcome, demo_built) = (Inr (), (skip_live demo_id no_outcome, demo_built))"
    using live by (simp add: reap_from_ledger_def demo_built_entries demo_entry_def)
  moreover have "read_dir demo_built sample_root = Inr [demo_id]"
    by (simp add: read_dir_def node_at_def child_names_def demo_built_files demo_built_permits demo_paths)
  then have "sweep_clone_root demo_codec sample_root sample_dir (s, demo_built) =
      sweep_names demo_codec sample_root sample_dir [demo_entry] [demo_id] (s, demo_built)" for s
    by (simp add: sweep_clone_root_def demo_built_entries)
  moreover have "snd s' = demo_built" if "sweep_names demo_codec sample_root sample_dir [demo_entry] [demo_id] (s, demo_built) = (r, s')" for s r s'
  proof -
    have owned: "le_datadir demo_entry = sample_root @ [demo_id]" by (simp add: demo_entry_def demo_datadir_def)
    have "sweep_one demo_codec sample_root sample_dir [demo_entry] demo_id (s, demo_built) = (r, s')"
      using that [unfolded sweep_names.simps] by (cases rule: ebind_eq_cases) simp_all
    then show ?thesis
    proof (cases rule: sweep_one_cases)
      case reap
      then have False using live owned unfolding snd_conv by (metis list.set_intros(1))
      then show ?thesis ..
    qed simp_all
  qed
  ultimately have "h2 = demo_built"
    using assms unfolding reap_orphans_with_sweep_def ebind_def
    by (simp only: prod.case sum.case) (auto simp del: sweep_names.simps split: prod.splits sum.splits)
  then show ?thesis using live by simp
qed

lemma failed_start_keeps_the_copy_sample:
  "present (snd (reap_orphans_with_sweep demo_codec sample_dir sample_root demo_built)) demo_datadir"
proof -
  have c: "ce_codec (demo_env False) = demo_codec" "lp_ledger demo_provider = sample_dir"
    "lc_clone_root (lp_cfg demo_provider) = sample_root" "lp_seq demo_provider = 1"
    by (simp_all add: demo_env_def demo_provider_def)
  have run: "local_provision (demo_env False) (demo_provider\<lparr>lp_seq := 0\<rparr>, demo_host) =
      (Inl (Provision ''pg_ctl start'' []), (demo_provider, demo_built))"
    using demo_local_provision [of False] by (simp add: demo_start_def)
  obtain res h2 where pass: "reap_orphans_with_sweep demo_codec sample_dir sample_root demo_built = (res, h2)" by (metis surj_pair)
  have "present h2 (datadir_of (lp_cfg demo_provider) demo_id)"
  proof (rule conjunct2 [OF conjunct2 [OF failed_start_keeps_the_copy [OF run, where body = demo_body and i = demo_id]]], unfold c demo_names)
    show "dec_entry demo_codec json = Some e" if "enc_entry demo_codec e = Some json" for e json
      using that by (simp add: demo_codec_def split: if_splits)
    show "is_live h2 (entry_owner e)" if "e \<in> set [demo_entry]" for e using demo_owner_lives [OF pass] that by simp
  qed (rule refl demo_tools_keep demo_apart demo_built_wf demo_built_entries pass | simp add: demo_paths)+
  then show ?thesis by (simp add: demo_names pass)
qed

end
