(* ===== verification/Orch_Conn.thy ===== *)
theory Orch_Conn
  imports Orch_Apply_Safety Orch_Revert Orch_Provider
begin

text \<open>
  The PostgreSQL connections behind the engines (\<^verbatim>\<open>crates/clone-orchestrator/src/conn.rs\<close>): the rehearsal,
  the apply connection and the revert connection, as instances of the interfaces the dry run, the
  guarded apply and the revert are modelled over. The server and the client library are a parameter:
  a fixed catalogue query is an operation with its typed answer, and a statement whose text the code
  builds is sent as that text. The SQL parser is a parameter that gives the parts the code looks at.
\<close>

section \<open>The server\<close>

record pg_error =
  pe_code :: "string option"
  pe_text :: string

datatype pg_type = INT2 | INT4 | INT8 | TEXT | VARCHAR | BPCHAR | NAME | BYTEA | OtherType string

text \<open>A cell as the client library decodes it; \<open>COther\<close> has no decoding the code asks for.\<close>

datatype pg_cell = CInt2 "16 word" | CInt4 "32 word" | CInt8 "64 word" | CText string | CBytes bytes | CNull | COther

type_synonym pg_row = "(string \<times> pg_type \<times> pg_cell) list"

text \<open>A bound parameter.\<close>

datatype sql_val = SqlInt i64 | SqlText string | SqlBytes bytes

type_synonym counters = "i64 \<times> i64 \<times> i64"

record 's pg_client =
  pg_batch :: "string \<Rightarrow> ('s, pg_error, unit) eff"
  pg_select :: "string \<Rightarrow> ('s, pg_error, pg_row list) eff"
  pg_execute :: "string \<Rightarrow> sql_val list \<Rightarrow> ('s, pg_error, u64) eff"
  pg_transaction :: "('s, pg_error, unit) eff"
  pg_rollback :: "('s, pg_error, unit) eff"
  pg_provolatile :: "string \<Rightarrow> string option \<Rightarrow> ('s, pg_error, bool \<times> nat) eff"
  pg_pk_types :: "string \<Rightarrow> string \<Rightarrow> ('s, pg_error, string list) eff"
  pg_pk_columns :: "string \<Rightarrow> string \<Rightarrow> ('s, pg_error, string list) eff"
  pg_column_type :: "string \<Rightarrow> string \<Rightarrow> string \<Rightarrow> ('s, pg_error, string list) eff"
  pg_all_columns :: "string \<Rightarrow> string \<Rightarrow> ('s, pg_error, string list) eff"
  pg_xact_tables :: "('s, pg_error, (string \<times> counters) list) eff"
  pg_restore_point :: "string \<Rightarrow> ('s, pg_error, string) eff"
  pg_wal_lsn :: "('s, pg_error, string) eff"
  pg_wal_insert_lsn :: "('s, pg_error, string) eff"
  pg_wal_lsn_diff :: "string \<Rightarrow> string \<Rightarrow> ('s, pg_error, i64) eff"
  pg_cascade_children :: "string \<Rightarrow> string \<Rightarrow> ('s, pg_error, (string \<times> string) list) eff"
  pg_fk_columns :: "string \<Rightarrow> string \<Rightarrow> string \<Rightarrow> string \<Rightarrow> ('s, pg_error, string list) eff"
  pg_row_triggers :: "string \<Rightarrow> string \<Rightarrow> nat \<Rightarrow> ('s, pg_error, string list) eff"
  pg_lock_modes :: "string \<Rightarrow> string \<Rightarrow> ('s, pg_error, string list) eff"
  pg_now :: "'s \<Rightarrow> u64"

text \<open>What the code reads of a parsed statement: the assignment targets and the rendered predicate.\<close>

datatype set_target = ColumnName "string list" | TupleTarget

datatype conn_stmt =
    UpdateStmt "set_target list" "string option"
  | DeleteStmt "string option"
  | SelectStmt "string option"
  | OtherStmt

section \<open>Text\<close>

definition quote_ident :: "string \<Rightarrow> string" where
  "quote_ident c = [CHR 0x22] @ c @ [CHR 0x22]"

definition split_relation :: "string \<Rightarrow> string \<times> string" where
  "split_relation relation =
     (let sc = takeWhile (\<lambda>c. c \<noteq> CHR ''.'') relation; rest = dropWhile (\<lambda>c. c \<noteq> CHR ''.'') relation in
      if rest = [] then (''public'', relation) else (sc, tl rest))"

text \<open>\<^verbatim>\<open>rsplit_once('.')\<close> of a function name.\<close>

definition split_proc_name :: "string \<Rightarrow> string option \<times> string" where
  "split_proc_name name =
     (let back = rev name; last_part = takeWhile (\<lambda>c. c \<noteq> CHR ''.'') back; rest = dropWhile (\<lambda>c. c \<noteq> CHR ''.'') back in
      if rest = [] then (None, name) else (Some (rev (tl rest)), rev last_part))"

definition trim_quotes :: "string \<Rightarrow> string" where
  "trim_quotes s = rev (dropWhile (\<lambda>c. c = CHR 0x22) (rev (dropWhile (\<lambda>c. c = CHR 0x22) s)))"

fun set_columns :: "set_target list \<Rightarrow> string + string list" where
  "set_columns [] = Inr []"
| "set_columns (ColumnName parts # ts) =
     (if parts = [] then Inl ''empty SET column name''
      else rbind (set_columns ts) (\<lambda>cols. Inr (trim_quotes (last parts) # cols)))"
| "set_columns (TupleTarget # ts) = Inl ''tuple SET target is not supported''"

definition update_set_columns :: "(string \<Rightarrow> string + conn_stmt list) \<Rightarrow> string \<Rightarrow> string + string list" where
  "update_set_columns parse sql =
     (case parse sql of
        Inl e \<Rightarrow> Inl (''parse error: '' @ e)
      | Inr (UpdateStmt targets _ # _) \<Rightarrow>
          if targets = [] then Inl ''UPDATE has no SET assignments'' else set_columns targets
      | Inr _ \<Rightarrow> Inl ''forward statement is not a plain UPDATE'')"

definition conn_extract_where :: "(string \<Rightarrow> string + conn_stmt list) \<Rightarrow> string \<Rightarrow> string" where
  "conn_extract_where parse statement =
     (case parse statement of
        Inl _ \<Rightarrow> ''true''
      | Inr (UpdateStmt _ (Some e) # _) \<Rightarrow> e
      | Inr (DeleteStmt (Some e) # _) \<Rightarrow> e
      | Inr (SelectStmt (Some e) # _) \<Rightarrow> e
      | Inr _ \<Rightarrow> ''true'')"

definition is_valid_lsn :: "string \<Rightarrow> bool" where
  "is_valid_lsn s = lsn_like s"

definition parse_lock_mode :: "string \<Rightarrow> lock_mode option" where
  "parse_lock_mode s =
     (if s = ''AccessShareLock'' then Some AccessShareLock
      else if s = ''RowShareLock'' then Some RowShareLock
      else if s = ''RowExclusiveLock'' then Some RowExclusiveLock
      else if s = ''ShareUpdateExclusiveLock'' then Some ShareUpdateExclusiveLock
      else if s = ''ShareLock'' then Some ShareLock
      else if s = ''ShareRowExclusiveLock'' then Some ShareRowExclusiveLock
      else if s = ''ExclusiveLock'' then Some ExclusiveLock
      else if s = ''AccessExclusiveLock'' then Some AccessExclusiveLock
      else None)"

section \<open>Cells\<close>

fun try_int :: "pg_type \<Rightarrow> pg_cell \<Rightarrow> i64 option option" where
  "try_int INT2 (CInt2 w) = Some (Some (scast w))"
| "try_int INT4 (CInt4 w) = Some (Some (scast w))"
| "try_int INT8 (CInt8 w) = Some (Some w)"
| "try_int ty CNull = Some None"
| "try_int ty c = None"

text \<open>The captured value of a cell; absent when the type is not one that is restored exactly, or does not decode.\<close>

definition image_value_of :: "pg_type \<Rightarrow> pg_cell \<Rightarrow> image_value option" where
  "image_value_of ty c =
     (if ty \<in> {INT2, INT4, INT8}
      then map_option (\<lambda>v. case v of Some i \<Rightarrow> PkInt i | None \<Rightarrow> PkNull) (try_int ty c)
      else if ty \<in> {TEXT, VARCHAR, BPCHAR, NAME}
      then (case c of CText s \<Rightarrow> Some (PkText s) | CNull \<Rightarrow> Some PkNull | _ \<Rightarrow> None)
      else if ty = BYTEA then (case c of CBytes b \<Rightarrow> Some (PkBytes b) | CNull \<Rightarrow> Some PkNull | _ \<Rightarrow> None)
      else None)"

definition image_value_at :: "pg_row \<Rightarrow> nat \<Rightarrow> apply_error + image_value" where
  "image_value_at row i =
     (case (if i < length row then Some (row ! i) else None) of
        None \<Rightarrow> Inl (ApplyBackend (BackendMsg ''no such column''))
      | Some (name, ty, c) \<Rightarrow> (case image_value_of ty c of
            None \<Rightarrow> Inl (ApplyBackend (BackendMsg (''reading pre-image column '' @ name)))
          | Some v \<Rightarrow> Inr v))"

text \<open>The integer key at the first column of a row, which must be an \<^verbatim>\<open>int4\<close>.\<close>

definition row_id :: "string \<Rightarrow> pg_row \<Rightarrow> apply_error + i32" where
  "row_id relation row =
     (case row of
        (_, INT4, CInt4 w) # _ \<Rightarrow> Inr w
      | _ \<Rightarrow> Inl (ApplyBackend (BackendMsg (''non-int4 PK on '' @ relation))))"

text \<open>A key value for the checksum; a type without a decoding is folded to text, and a null key would be a panic.\<close>

definition pk_value_at :: "pg_row \<Rightarrow> nat \<Rightarrow> pk_value option" where
  "pk_value_at row i =
     (case (if i < length row then Some (row ! i) else None) of
        None \<Rightarrow> None
      | Some (_, ty, c) \<Rightarrow>
          if ty \<in> {INT2, INT4, INT8} then (case try_int ty c of Some (Some v) \<Rightarrow> Some (PkInt v) | _ \<Rightarrow> None)
          else if ty \<in> {TEXT, VARCHAR, BPCHAR, NAME} then (case c of CText s \<Rightarrow> Some (PkText s) | _ \<Rightarrow> None)
          else if ty = BYTEA then (case c of CBytes b \<Rightarrow> Some (PkBytes b) | _ \<Rightarrow> None)
          else Some (PkText (case c of CText s \<Rightarrow> s | _ \<Rightarrow> ''<unprintable col '' @ decimal i @ ''>'')))"

definition pk_tuple_from_row :: "pg_row \<Rightarrow> nat \<Rightarrow> string + pk_tuple" where
  "pk_tuple_from_row row n =
     (let vals = map (pk_value_at row) [0..<n] in
      if None \<in> set vals then Inl ''panic''
      else case tuple_new (map the vals) of Inl _ \<Rightarrow> Inl ''empty primary-key tuple'' | Inr t \<Rightarrow> Inr t)"

section \<open>Counters\<close>

definition xact_map :: "(string \<times> counters) list \<Rightarrow> (string, counters) btree" where
  "xact_map rows = foldl (\<lambda>m (r, c). bt_insert r c m) [] rows"

definition count_delta :: "i64 \<Rightarrow> i64 \<Rightarrow> u64" where
  "count_delta now base = (let d = now - base in if sint d < 0 then 0 else d)"

text \<open>The relations whose counters moved, with the three differences.\<close>

definition moved :: "(string, counters) btree \<Rightarrow> (string, counters) btree \<Rightarrow> (string \<times> u64 \<times> u64 \<times> u64) list" where
  "moved base after =
     sort_key fst (concat (map (\<lambda>(rel, (i, u, d)).
       let (bi, bu, bd) = (case bt_get base rel of Some c \<Rightarrow> c | None \<Rightarrow> (0, 0, 0));
           di = count_delta i bi; du = count_delta u bu; dd = count_delta d bd
       in if di + du + dd = 0 then [] else [(rel, di, du, dd)]) after))"

section \<open>The rehearsal\<close>

type_synonym ('s, 'a) txn = "('s, string, 'a) eff"

text \<open>A query whose error is kept as its text.\<close>

definition ask :: "('s, pg_error, 'a) eff \<Rightarrow> ('s, 'a) txn" where
  "ask q s = (case q s of (Inl e, s') \<Rightarrow> (Inl (pe_text e), s') | (Inr x, s') \<Rightarrow> (Inr x, s'))"

definition resolve_provolatile :: "'s pg_client \<Rightarrow> string \<Rightarrow> ('s, volatility) txn" where
  "resolve_provolatile pg name =
     (let (schema, proc_name) = split_proc_name name in
      ebind (ask (pg_provolatile pg proc_name schema)) (\<lambda>(any_volatile, n).
      eret (if n = 0 then UnknownFn else if any_volatile then VolatileFn else Stable)))"

definition conn_volatility_of :: "'s pg_client \<Rightarrow> string \<Rightarrow> 's \<Rightarrow> volatility \<times> 's" where
  "conn_volatility_of pg name s =
     (case resolve_provolatile pg name s of (Inr v, s') \<Rightarrow> (v, s') | (Inl _, s') \<Rightarrow> (UnknownFn, s'))"

datatype pk_shape = NoPk | SingleInt4 | OtherShape

definition target_pk_int4_shape :: "'s pg_client \<Rightarrow> string \<Rightarrow> ('s, pk_shape) txn" where
  "target_pk_int4_shape pg relation =
     (let (schema, table) = split_relation relation in
      ebind (ask (pg_pk_types pg schema table)) (\<lambda>types.
      eret (case types of [] \<Rightarrow> NoPk | [t] \<Rightarrow> if t = ''int4'' then SingleInt4 else OtherShape | _ \<Rightarrow> OtherShape)))"

definition pk_columns :: "'s pg_client \<Rightarrow> string \<Rightarrow> ('s, string list) txn" where
  "pk_columns pg relation = (let (schema, table) = split_relation relation in ask (pg_pk_columns pg schema table))"

definition single_pk_column_name :: "'s pg_client \<Rightarrow> string \<Rightarrow> 's \<Rightarrow> string option \<times> 's" where
  "single_pk_column_name pg relation s =
     (case pk_columns pg relation s of
        (Inr [single], s') \<Rightarrow> (Some single, s')
      | (_, s') \<Rightarrow> (None, s'))"

definition capturable_types :: "string list" where
  "capturable_types = [''int2'', ''int4'', ''int8'', ''text'', ''varchar'', ''bpchar'', ''name'', ''bytea'']"

fun uncapturable_columns :: "'s pg_client \<Rightarrow> string \<Rightarrow> string list \<Rightarrow> ('s, string list) txn" where
  "uncapturable_columns pg relation [] s = (Inr [], s)"
| "uncapturable_columns pg relation (col # cols) s =
     (let (schema, table) = split_relation relation in
      ebind (ask (pg_column_type pg schema table col)) (\<lambda>types.
      ebind (uncapturable_columns pg relation cols) (\<lambda>bad.
      eret (case types of t # _ \<Rightarrow> if t \<in> set capturable_types then bad else col # bad | [] \<Rightarrow> col # bad))) s)"

definition conn_certify_apply_shape ::
  "(string \<Rightarrow> string + conn_stmt list) \<Rightarrow> 's pg_client \<Rightarrow> string \<Rightarrow> write_kind \<Rightarrow> string \<Rightarrow> 's \<Rightarrow> string option \<times> 's" where
  "conn_certify_apply_shape parse pg statement kind relation s =
     (case target_pk_int4_shape pg relation s of
        (Inl e, s1) \<Rightarrow> (Some (''could not resolve PK shape: '' @ e), s1)
      | (Inr OtherShape, s1) \<Rightarrow> (Some ''target relation does not have a single int4 primary key'', s1)
      | (Inr _, s1) \<Rightarrow>
          if kind = Update
          then (case update_set_columns parse statement of
              Inl e \<Rightarrow> (Some (''cannot determine the UPDATE SET-clause columns: '' @ e), s1)
            | Inr cols \<Rightarrow> (case uncapturable_columns pg relation cols s1 of
                  (Inl e, s2) \<Rightarrow> (Some (''could not resolve SET-column types: '' @ e), s2)
                | (Inr bad, s2) \<Rightarrow> (if bad = [] then None else Some ''UPDATE writes columns that cannot be captured'', s2)))
          else (None, s1))"

definition conn_pk_column :: "bool \<Rightarrow> 's pg_client \<Rightarrow> string \<Rightarrow> 's \<Rightarrow> string option \<times> 's" where
  "conn_pk_column gate pg relation s = (if \<not> gate then (None, s) else single_pk_column_name pg relation s)"

text \<open>The checksum of the keys in a list of rows.\<close>

definition checksum_rows ::
  "(bytes \<Rightarrow> bytes) \<Rightarrow> (bytes \<Rightarrow> string) \<Rightarrow> string \<Rightarrow> nat \<Rightarrow> pg_row list \<Rightarrow> string + pk_checksum" where
  "checksum_rows sha256 hex_encode relation n rows =
     (case foldl (\<lambda>acc row. rbind acc (\<lambda>b. rbind (pk_tuple_from_row row n) (\<lambda>t.
             case psb_push b t of Inl _ \<Rightarrow> Inl ''inconsistent arity'' | Inr b' \<Rightarrow> Inr b'))) (Inr (for_relation relation)) rows of
        Inl e \<Rightarrow> Inl e
      | Inr b \<Rightarrow> (case psb_finalize sha256 hex_encode b of Inl _ \<Rightarrow> Inl ''refused'' | Inr c \<Rightarrow> Inr c))"

definition run_forward_capturing_pks ::
  "(bytes \<Rightarrow> bytes) \<Rightarrow> (bytes \<Rightarrow> string) \<Rightarrow> 's pg_client \<Rightarrow> string \<Rightarrow> string \<Rightarrow> string list \<Rightarrow> ('s, affected_table) txn" where
  "run_forward_capturing_pks sha256 hex_encode pg statement relation pk_cols =
     (if pk_cols = [] then eret \<lparr>at_relation = relation, at_checksum = None, at_rows = 0\<rparr>
      else
      ebind (ask (pg_select pg (statement @ '' RETURNING '' @ join_with '', '' (map quote_ident pk_cols)))) (\<lambda>rows.
      ebind (elift (checksum_rows sha256 hex_encode relation (length pk_cols) rows)) (\<lambda>c.
      eret \<lparr>at_relation = relation, at_checksum = Some c, at_rows = word_of_nat (length rows)\<rparr>)))"

definition cascade_sql :: "string \<Rightarrow> string \<Rightarrow> string list \<Rightarrow> string list \<Rightarrow> string list \<Rightarrow> string \<Rightarrow> string" where
  "cascade_sql child_rel target child_pk fk_cols parent_pk where_clause =
     ''SELECT '' @ join_with '', '' (map (\<lambda>c. ''ch.'' @ quote_ident c) child_pk) @ '' FROM '' @ child_rel @ '' ch JOIN ''
     @ target @ '' pa ON ''
     @ join_with '' AND '' (map (\<lambda>(c, p). ''ch.'' @ quote_ident c @ '' = pa.'' @ quote_ident p) (zip fk_cols parent_pk))
     @ '' WHERE '' @ where_clause"

definition fk_child_columns :: "'s pg_client \<Rightarrow> string \<Rightarrow> string \<Rightarrow> ('s, string list) txn" where
  "fk_child_columns pg child_rel parent =
     (let (cs, ct) = split_relation child_rel; (ps, pt) = split_relation parent in ask (pg_fk_columns pg cs ct ps pt))"

fun capture_children ::
  "(bytes \<Rightarrow> bytes) \<Rightarrow> (bytes \<Rightarrow> string) \<Rightarrow> 's pg_client \<Rightarrow> string \<Rightarrow> string \<Rightarrow> (string \<times> string) list \<Rightarrow> ('s, affected_table list) txn" where
  "capture_children sha256 hex_encode pg target where_clause [] s = (Inr [], s)"
| "capture_children sha256 hex_encode pg target where_clause ((cs, ct) # fks) s =
     (let child_rel = cs @ ''.'' @ ct in
      ebind (pk_columns pg child_rel) (\<lambda>child_pk.
      ebind (if child_pk = [] then eret \<lparr>at_relation = child_rel, at_checksum = None, at_rows = 0\<rparr>
             else
             ebind (fk_child_columns pg child_rel target) (\<lambda>fk_cols.
             ebind (pk_columns pg target) (\<lambda>parent_pk.
             ebind (ask (pg_select pg (cascade_sql child_rel target child_pk fk_cols parent_pk where_clause))) (\<lambda>rows.
             ebind (elift (checksum_rows sha256 hex_encode child_rel (length child_pk) rows)) (\<lambda>c.
             eret \<lparr>at_relation = child_rel, at_checksum = Some c, at_rows = word_of_nat (length rows)\<rparr>)))))
        (\<lambda>t. ebind (capture_children sha256 hex_encode pg target where_clause fks) (\<lambda>ts. eret (t # ts)))) s)"

definition capture_cascades ::
  "(bytes \<Rightarrow> bytes) \<Rightarrow> (bytes \<Rightarrow> string) \<Rightarrow> (string \<Rightarrow> string + conn_stmt list) \<Rightarrow> 's pg_client \<Rightarrow> string \<Rightarrow> string \<Rightarrow> ('s, affected_table list) txn" where
  "capture_cascades sha256 hex_encode parse pg target statement =
     (let (schema, table) = split_relation target in
      ebind (ask (pg_cascade_children pg schema table)) (\<lambda>fks.
      capture_children sha256 hex_encode pg target (conn_extract_where parse statement) fks))"

definition trigger_mask :: "write_kind \<Rightarrow> nat" where
  "trigger_mask kind = (case kind of Update \<Rightarrow> 16 | Delete \<Rightarrow> 8)"

definition trigger_names :: "'s pg_client \<Rightarrow> string \<Rightarrow> write_kind \<Rightarrow> ('s, string list) txn" where
  "trigger_names pg relation kind =
     (let (schema, table) = split_relation relation in ask (pg_row_triggers pg schema table (trigger_mask kind)))"

definition locks_on :: "'s pg_client \<Rightarrow> string \<Rightarrow> ('s, lock_held list) txn" where
  "locks_on pg relation =
     (let (schema, table) = split_relation relation in
      ebind (ask (pg_lock_modes pg schema table)) (\<lambda>modes.
      eret (map (\<lambda>m. \<lparr>lk_relation = relation, lk_mode = m, lk_held_ms = 0\<rparr>) (List.map_filter parse_lock_mode modes))))"

definition xact_full_effect :: "'s pg_client \<Rightarrow> (string, counters) btree \<Rightarrow> ('s, relation_effect list) txn" where
  "xact_full_effect pg baseline =
     ebind (ask (pg_xact_tables pg)) (\<lambda>rows.
     eret (map (\<lambda>(rel, i, u, d). \<lparr>re_relation = rel, re_counts = op_counts_new i u d\<rparr>) (moved baseline (xact_map rows))))"

definition current_wal_lsn :: "'s pg_client \<Rightarrow> ('s, string) txn" where
  "current_wal_lsn pg = ask (pg_wal_lsn pg)"

definition txn_wal_lsn :: "'s pg_client \<Rightarrow> ('s, string) txn" where
  "txn_wal_lsn pg = ask (pg_wal_insert_lsn pg)"

definition wal_diff :: "'s pg_client \<Rightarrow> string \<Rightarrow> string \<Rightarrow> ('s, u64) txn" where
  "wal_diff pg before after =
     (if \<not> is_valid_lsn before \<or> \<not> is_valid_lsn after then efail ''invalid LSN literal''
      else ebind (ask (pg_wal_lsn_diff pg after before)) (\<lambda>n. eret (if sint n < 0 then 0 else n)))"

text \<open>What happens inside the transaction of a rehearsal.\<close>

definition measure ::
  "(bytes \<Rightarrow> bytes) \<Rightarrow> (bytes \<Rightarrow> string) \<Rightarrow> (string \<Rightarrow> string + conn_stmt list) \<Rightarrow> 's pg_client
    \<Rightarrow> string \<Rightarrow> string \<Rightarrow> write_kind \<Rightarrow> string \<Rightarrow> ('s, measurement) txn" where
  "measure sha256 hex_encode parse pg clone_lsn statement kind relation =
     ebind (ask (pg_xact_tables pg)) (\<lambda>base_rows.
     ebind (pk_columns pg relation) (\<lambda>pk_cols.
     ebind (if kind = Delete then capture_cascades sha256 hex_encode parse pg relation statement else eret []) (\<lambda>cascades.
     ebind (trigger_names pg relation kind) (\<lambda>trigger_list.
     ebind (txn_wal_lsn pg) (\<lambda>wal_before s.
     let t0 = pg_now pg s in
     ebind (run_forward_capturing_pks sha256 hex_encode pg statement relation pk_cols) (\<lambda>target s1.
     let duration = sat_sub (pg_now pg s1) t0 in
     ebind (txn_wal_lsn pg) (\<lambda>wal_after.
     ebind (wal_diff pg wal_before wal_after) (\<lambda>wal_bytes.
     ebind (locks_on pg relation) (\<lambda>locks.
     ebind (xact_full_effect pg (xact_map base_rows)) (\<lambda>full_effect.
     eret \<lparr>m_target = target, m_cascades = cascades, m_full_effect = full_effect,
           m_triggers_fired = map (\<lambda>n. \<lparr>tf_name = n, tf_rows = at_rows target\<rparr>) trigger_list, m_locks = locks,
           m_duration_ms = duration, m_wal_bytes = wal_bytes, m_constraint_violations = [], m_clone_lsn = clone_lsn,
           m_staleness_lsn_bytes = 0\<rparr>)))) s1) s)))))"

text \<open>A transaction that is dropped by an early return rolls back too, and ignores how that went.\<close>

definition rehearse ::
  "(bytes \<Rightarrow> bytes) \<Rightarrow> (bytes \<Rightarrow> string) \<Rightarrow> (string \<Rightarrow> string + conn_stmt list) \<Rightarrow> 's pg_client
    \<Rightarrow> string \<Rightarrow> write_kind \<Rightarrow> string \<Rightarrow> ('s, measurement) txn" where
  "rehearse sha256 hex_encode parse pg statement kind relation =
     ebind (current_wal_lsn pg) (\<lambda>clone_lsn.
     ebind (ask (pg_transaction pg)) (\<lambda>_ s.
     case measure sha256 hex_encode parse pg clone_lsn statement kind relation s of
       (Inl e, s1) \<Rightarrow> (Inl e, snd (pg_rollback pg s1))
     | (Inr m, s1) \<Rightarrow> ebind (ask (pg_rollback pg)) (\<lambda>_. eret m) s1))"

definition pg_rehearsal ::
  "(bytes \<Rightarrow> bytes) \<Rightarrow> (bytes \<Rightarrow> string) \<Rightarrow> (string \<Rightarrow> string + conn_stmt list) \<Rightarrow> bool \<Rightarrow> 's pg_client \<Rightarrow> 's rehearsal" where
  "pg_rehearsal sha256 hex_encode parse gate pg =
     \<lparr>rh_volatility_of = conn_volatility_of pg, rh_certify_apply_shape = conn_certify_apply_shape parse pg,
      rh_self_determined_pk_column = conn_pk_column gate pg, rh_rehearse = rehearse sha256 hex_encode parse pg\<rparr>"

lemma rehearsal_ends_in_rollback:
  assumes "pg_wal_lsn pg s = (Inr lsn, s1)" and "pg_transaction pg s1 = (Inr (), s2)"
  shows "\<exists>s3. snd (rehearse sha256 hex_encode parse pg statement kind relation s) = snd (pg_rollback pg s3)"
  using assms by (auto simp: rehearse_def current_wal_lsn_def ebind_def ask_def split: prod.splits sum.splits) (metis snd_conv)+

section \<open>The apply connection\<close>

definition QUERY_CANCELED :: string where "QUERY_CANCELED = ''57014''"
definition T_R_SERIALIZATION_FAILURE :: string where "T_R_SERIALIZATION_FAILURE = ''40001''"

definition classify_apply :: "pg_error \<Rightarrow> u64 \<Rightarrow> apply_error" where
  "classify_apply e timeout_ms =
     (case pe_code e of
        Some c \<Rightarrow> if c = QUERY_CANCELED then ApplyTimeout timeout_ms
                  else if c = T_R_SERIALIZATION_FAILURE then SerializationFailure
                  else ApplyBackend (BackendMsg (pe_text e))
      | None \<Rightarrow> ApplyBackend (BackendMsg (pe_text e)))"

definition plain_apply :: "pg_error \<Rightarrow> apply_error" where
  "plain_apply e = ApplyBackend (BackendMsg (pe_text e))"

record 's apply_session =
  as_server :: 's
  as_baseline :: "(string, counters) btree"
  as_wal_baseline :: "string option"
  as_in_txn :: bool
  as_timeout :: u64

definition apply_session_new :: "'s \<Rightarrow> 's apply_session" where
  "apply_session_new s = \<lparr>as_server = s, as_baseline = [], as_wal_baseline = None, as_in_txn = False, as_timeout = 0\<rparr>"

type_synonym ('s, 'a) applying = "('s apply_session, apply_error, 'a) eff"

text \<open>A call of the server from the session, with the classification of its error.\<close>

definition on_server :: "(pg_error \<Rightarrow> 's apply_session \<Rightarrow> apply_error) \<Rightarrow> ('s, pg_error, 'a) eff \<Rightarrow> ('s, 'a) applying" where
  "on_server err q a =
     (case q (as_server a) of
        (Inl e, s') \<Rightarrow> (Inl (err e a), a\<lparr>as_server := s'\<rparr>)
      | (Inr x, s') \<Rightarrow> (Inr x, a\<lparr>as_server := s'\<rparr>))"

definition timed :: "pg_error \<Rightarrow> 's apply_session \<Rightarrow> apply_error" where
  "timed e a = classify_apply e (as_timeout a)"

definition untimed :: "pg_error \<Rightarrow> 's apply_session \<Rightarrow> apply_error" where
  "untimed e a = plain_apply e"

definition update_session :: "('s apply_session \<Rightarrow> 's apply_session) \<Rightarrow> ('s, unit) applying" where
  "update_session f a = (Inr (), f a)"

definition read_xact_raw :: "'s pg_client \<Rightarrow> ('s, (string, counters) btree) applying" where
  "read_xact_raw pg = ebind (on_server timed (pg_xact_tables pg)) (\<lambda>rows. eret (xact_map rows))"

definition conn_create_restore_point :: "'s pg_client \<Rightarrow> string \<Rightarrow> ('s, string) applying" where
  "conn_create_restore_point pg label = on_server untimed (pg_restore_point pg label)"

definition begin_sql :: "u64 \<Rightarrow> string" where
  "begin_sql timeout_ms =
     ''BEGIN ISOLATION LEVEL REPEATABLE READ; SET LOCAL statement_timeout = '' @ decimal (unat timeout_ms) @ '';''"

definition conn_begin :: "'s pg_client \<Rightarrow> u64 \<Rightarrow> ('s, unit) applying" where
  "conn_begin pg timeout_ms =
     ebind (on_server (\<lambda>e _. classify_apply e timeout_ms) (pg_batch pg (begin_sql timeout_ms))) (\<lambda>_.
     ebind (update_session (\<lambda>a. a\<lparr>as_in_txn := True, as_timeout := timeout_ms\<rparr>)) (\<lambda>_.
     ebind (read_xact_raw pg) (\<lambda>baseline.
     ebind (update_session (\<lambda>a. a\<lparr>as_baseline := baseline\<rparr>)) (\<lambda>_.
     ebind (on_server (\<lambda>e _. classify_apply e timeout_ms) (pg_wal_insert_lsn pg)) (\<lambda>lsn.
     update_session (\<lambda>a. a\<lparr>as_wal_baseline := Some lsn\<rparr>))))))"

definition conn_xact_wal_bytes :: "'s pg_client \<Rightarrow> ('s, u64) applying" where
  "conn_xact_wal_bytes pg a =
     (case as_wal_baseline a of
        None \<Rightarrow> (Inl (ApplyBackend (BackendMsg ''WAL baseline not captured (begin not called)'')), a)
      | Some before \<Rightarrow>
          ebind (on_server timed (pg_wal_insert_lsn pg)) (\<lambda>after.
          ebind (on_server untimed (pg_wal_lsn_diff pg after before)) (\<lambda>n.
          eret (if sint n < 0 then 0 else n))) a)"

definition conn_apply_pk_column :: "'s pg_client \<Rightarrow> string \<Rightarrow> 's apply_session \<Rightarrow> string option \<times> 's apply_session" where
  "conn_apply_pk_column pg relation a =
     (case single_pk_column_name pg relation (as_server a) of (r, s') \<Rightarrow> (r, a\<lparr>as_server := s'\<rparr>))"

definition all_columns :: "'s pg_client \<Rightarrow> string \<Rightarrow> ('s, string list) applying" where
  "all_columns pg relation =
     (let (schema, table) = split_relation relation in on_server untimed (pg_all_columns pg schema table))"

definition image_columns ::
  "(string \<Rightarrow> string + conn_stmt list) \<Rightarrow> 's pg_client \<Rightarrow> string \<Rightarrow> write_kind \<Rightarrow> string \<Rightarrow> ('s, string list) applying" where
  "image_columns parse pg forward_sql kind relation =
     (case kind of
        Update \<Rightarrow> (case update_set_columns parse forward_sql of
            Inl e \<Rightarrow> efail (ApplyBackend (BackendMsg (''cannot determine the UPDATE SET-clause columns: '' @ e)))
          | Inr cols \<Rightarrow> eret cols)
      | Delete \<Rightarrow> all_columns pg relation)"

text \<open>The key first, then every written column that is not there yet.\<close>

definition select_columns :: "string list \<Rightarrow> string list" where
  "select_columns image_cols =
     foldl (\<lambda>acc c. if c \<noteq> ''id'' \<and> c \<notin> set acc then acc @ [c] else acc) [''id''] image_cols"

definition preimage_sql :: "string list \<Rightarrow> string \<Rightarrow> string \<Rightarrow> string" where
  "preimage_sql cols relation where_sql =
     ''SELECT '' @ join_with '', '' (map quote_ident cols) @ '' FROM '' @ relation @ '' WHERE '' @ where_sql
     @ '' ORDER BY id FOR UPDATE''"

fun row_image :: "string list \<Rightarrow> nat \<Rightarrow> pg_row \<Rightarrow> apply_error + (string \<times> image_value) list" where
  "row_image [] i row = Inr []"
| "row_image (c # cs) i row =
     rbind (image_value_at row i) (\<lambda>v. rbind (row_image cs (Suc i) row) (\<lambda>vs. Inr ((c, v) # vs)))"

type_synonym preimages = "i64 \<Rightarrow> (string \<times> image_value) list option"

fun collect_preimages :: "string \<Rightarrow> string list \<Rightarrow> pg_row list \<Rightarrow> preimages \<Rightarrow> apply_error + preimages" where
  "collect_preimages relation cols [] pre = Inr pre"
| "collect_preimages relation cols (row # rows) pre =
     rbind (row_id relation row) (\<lambda>i.
     rbind (row_image cols 0 row) (\<lambda>img.
     collect_preimages relation cols rows (pre(scast i \<mapsto> img))))"

fun collect_written :: "string \<Rightarrow> preimages \<Rightarrow> pg_row list \<Rightarrow> apply_error + captured_row list" where
  "collect_written relation pre [] = Inr []"
| "collect_written relation pre (row # rows) =
     rbind (row_id relation row) (\<lambda>i.
     let pk = tuple_single (PkInt (scast i)) in
     case pre (scast i) of
       None \<Rightarrow> Inl (MissingPreImage relation pk)
     | Some img \<Rightarrow> rbind (collect_written relation pre rows) (\<lambda>ws. Inr (\<lparr>cr_pk = pk, cr_before_image = img\<rparr> # ws)))"

definition conn_apply_forward ::
  "(string \<Rightarrow> string + conn_stmt list) \<Rightarrow> 's pg_client \<Rightarrow> string \<Rightarrow> string \<Rightarrow> write_kind \<Rightarrow> string \<Rightarrow> string list
    \<Rightarrow> ('s, forward_result) applying" where
  "conn_apply_forward parse pg forward_sql where_sql kind relation _ =
     ebind (image_columns parse pg forward_sql kind relation) (\<lambda>image_cols.
     let select_cols = select_columns image_cols in
     ebind (on_server timed (pg_select pg (preimage_sql select_cols relation where_sql))) (\<lambda>preimage_rows.
     ebind (elift (collect_preimages relation select_cols preimage_rows (\<lambda>_. None))) (\<lambda>preimage.
     ebind (on_server timed (pg_select pg (forward_sql @ '' RETURNING id''))) (\<lambda>returned.
     ebind (elift (collect_written relation preimage returned)) (\<lambda>written.
     eret (case kind of
         Update \<Rightarrow> with_written_columns (forward_new written) image_cols
       | Delete \<Rightarrow> forward_new written))))))"

definition conn_xact_tuple_deltas :: "'s pg_client \<Rightarrow> ('s, relation_change list) applying" where
  "conn_xact_tuple_deltas pg =
     ebind (read_xact_raw pg) (\<lambda>after a.
       (Inr (map (\<lambda>(rel, i, u, d). \<lparr>rc_relation = rel, rc_ins = i, rc_upd = u, rc_del = d\<rparr>) (moved (as_baseline a) after)), a))"

definition conn_commit :: "'s pg_client \<Rightarrow> ('s, unit) applying" where
  "conn_commit pg =
     ebind (on_server untimed (pg_batch pg ''COMMIT'')) (\<lambda>_. update_session (\<lambda>a. a\<lparr>as_in_txn := False\<rparr>))"

definition conn_rollback :: "'s pg_client \<Rightarrow> ('s, unit) applying" where
  "conn_rollback pg a =
     (if as_in_txn a
      then (Inr (), a\<lparr>as_server := snd (pg_batch pg ''ROLLBACK'' (as_server a)), as_in_txn := False\<rparr>)
      else (Inr (), a))"

definition pg_apply_conn ::
  "(string \<Rightarrow> string + conn_stmt list) \<Rightarrow> 's pg_client \<Rightarrow> string \<Rightarrow> string \<Rightarrow> 's apply_session apply_conn" where
  "pg_apply_conn parse pg forward_sql where_sql =
     \<lparr>ac_create_restore_point = conn_create_restore_point pg, ac_begin = conn_begin pg,
      ac_xact_wal_bytes = conn_xact_wal_bytes pg, ac_self_determined_pk_column = conn_apply_pk_column pg,
      ac_apply_forward = conn_apply_forward parse pg forward_sql where_sql,
      ac_xact_tuple_deltas = conn_xact_tuple_deltas pg, ac_commit = conn_commit pg, ac_rollback = conn_rollback pg\<rparr>"

section \<open>The revert connection\<close>

fun from_concrete :: "image_value \<Rightarrow> sql_val option" where
  "from_concrete (PkInt i) = Some (SqlInt i)"
| "from_concrete (PkText s) = Some (SqlText s)"
| "from_concrete (PkBytes b) = Some (SqlBytes b)"
| "from_concrete PkNull = None"

text \<open>The placeholder of a value, with the parameters bound so far.\<close>

definition bind_push :: "sql_val option \<Rightarrow> sql_val list \<Rightarrow> string \<times> sql_val list" where
  "bind_push v owned =
     (case v of
        None \<Rightarrow> (''NULL'', owned)
      | Some sv \<Rightarrow>
          let owned' = owned @ [sv]; n = length owned' in
          ((case sv of SqlInt _ \<Rightarrow> ''$'' @ decimal n @ ''::int8'' | _ \<Rightarrow> ''$'' @ decimal n), owned'))"

fun bind_columns :: "(string \<times> image_value) list \<Rightarrow> sql_val list \<Rightarrow> (string \<times> string) list \<times> sql_val list" where
  "bind_columns [] owned = ([], owned)"
| "bind_columns ((col, val) # cols) owned =
     (let (ph, owned1) = bind_push (from_concrete val) owned; (rest, owned2) = bind_columns cols owned1
      in ((col, ph) # rest, owned2))"

definition pk_int :: "revert_row \<Rightarrow> revert_error + i64" where
  "pk_int row = (case rr_pk row of PkInt i # _ \<Rightarrow> Inr i | _ \<Rightarrow> Inl (RevertBackend ''bad pk''))"

record 's revert_session =
  rs_server :: 's
  rs_in_txn :: bool

type_synonym ('s, 'a) reverting = "('s revert_session, revert_error, 'a) eff"

definition at_server :: "('s, pg_error, 'a) eff \<Rightarrow> ('s, 'a) reverting" where
  "at_server q r =
     (case q (rs_server r) of
        (Inl e, s') \<Rightarrow> (Inl (RevertBackend (pe_text e)), r\<lparr>rs_server := s'\<rparr>)
      | (Inr x, s') \<Rightarrow> (Inr x, r\<lparr>rs_server := s'\<rparr>))"

definition set_in_txn :: "bool \<Rightarrow> ('s, unit) reverting" where
  "set_in_txn b r = (Inr (), r\<lparr>rs_in_txn := b\<rparr>)"

definition revert_begin :: "'s pg_client \<Rightarrow> ('s, unit) reverting" where
  "revert_begin pg = ebind (at_server (pg_batch pg ''BEGIN'')) (\<lambda>_. set_in_txn True)"

text \<open>The statement and its parameters that put one updated row back.\<close>

definition update_statement :: "string \<Rightarrow> revert_row \<Rightarrow> i64 \<Rightarrow> string \<times> sql_val list" where
  "update_statement relation row i =
     (let cols = filter (\<lambda>(c, _). c \<noteq> ''id'') (rr_before_image row);
          (sets, owned) = bind_columns cols [];
          (id_ph, owned') = bind_push (Some (SqlInt i)) owned
      in (''UPDATE '' @ relation @ '' SET '' @ join_with '', '' (map (\<lambda>(c, ph). quote_ident c @ '' = '' @ ph) sets)
          @ '' WHERE id = '' @ id_ph, owned'))"

definition restore_update_row :: "'s pg_client \<Rightarrow> string \<Rightarrow> revert_row \<Rightarrow> ('s, u64) reverting" where
  "restore_update_row pg relation row =
     ebind (elift (pk_int row)) (\<lambda>i.
     if filter (\<lambda>(c, _). c \<noteq> ''id'') (rr_before_image row) = []
     then efail (RevertBackend ''inverse row has no non-PK pre-image columns to restore'')
     else (case update_statement relation row i of (sql, params) \<Rightarrow> at_server (pg_execute pg sql params)))"

definition insert_statement :: "string \<Rightarrow> revert_row \<Rightarrow> string \<times> sql_val list" where
  "insert_statement relation row =
     (let (cols, owned) = bind_columns (rr_before_image row) []
      in (''INSERT INTO '' @ relation @ ''('' @ join_with '', '' (map (\<lambda>(c, _). quote_ident c) cols) @ '') VALUES (''
          @ join_with '', '' (map snd cols) @ '')'', owned))"

definition restore_insert_row :: "'s pg_client \<Rightarrow> string \<Rightarrow> revert_row \<Rightarrow> ('s, u64) reverting" where
  "restore_insert_row pg relation row =
     (if rr_before_image row = [] then efail (RevertBackend ''inverse row has no pre-image columns to re-insert'')
      else (case insert_statement relation row of (sql, params) \<Rightarrow> at_server (pg_execute pg sql params)))"

fun restore_rows :: "(revert_row \<Rightarrow> ('s, u64) reverting) \<Rightarrow> revert_row list \<Rightarrow> u64 \<Rightarrow> ('s, u64) reverting" where
  "restore_rows one [] n r = (Inr n, r)"
| "restore_rows one (row # rows) n r = ebind (one row) (\<lambda>k. restore_rows one rows (n + k)) r"

definition revert_commit :: "'s pg_client \<Rightarrow> ('s, unit) reverting" where
  "revert_commit pg = ebind (at_server (pg_batch pg ''COMMIT'')) (\<lambda>_. set_in_txn False)"

definition revert_rollback :: "'s pg_client \<Rightarrow> ('s, unit) reverting" where
  "revert_rollback pg r =
     (if rs_in_txn r then (Inr (), r\<lparr>rs_server := snd (pg_batch pg ''ROLLBACK'' (rs_server r)), rs_in_txn := False\<rparr>)
      else (Inr (), r))"

definition pg_revert_conn :: "'s pg_client \<Rightarrow> 's revert_session revert_conn" where
  "pg_revert_conn pg =
     \<lparr>rv_begin = revert_begin pg,
      rv_restore_update = (\<lambda>relation rows. restore_rows (restore_update_row pg relation) rows 0),
      rv_restore_insert = (\<lambda>relation rows. restore_rows (restore_insert_row pg relation) rows 0),
      rv_commit = revert_commit pg, rv_rollback = revert_rollback pg\<rparr>"

section \<open>What is captured is what is put back\<close>

text \<open>
  What PostgreSQL stores when a bound parameter is assigned to a column: an integer is narrowed to
  the width of the column or refused, text and bytes are stored as they are, and the null literal
  fits every type.
\<close>

definition narrowed :: "('n::len word \<Rightarrow> pg_cell) \<Rightarrow> i64 \<Rightarrow> pg_cell option" where
  "narrowed mk i = (if sint (scast i :: 'n word) = sint i then Some (mk (scast i)) else None)"

fun assign_cast :: "pg_type \<Rightarrow> sql_val option \<Rightarrow> pg_cell option" where
  "assign_cast ty None = Some CNull"
| "assign_cast INT2 (Some (SqlInt i)) = narrowed CInt2 i"
| "assign_cast INT4 (Some (SqlInt i)) = narrowed CInt4 i"
| "assign_cast INT8 (Some (SqlInt i)) = Some (CInt8 i)"
| "assign_cast BYTEA (Some (SqlBytes b)) = Some (CBytes b)"
| "assign_cast ty (Some (SqlText t)) = (if ty \<in> {TEXT, VARCHAR, BPCHAR, NAME} then Some (CText t) else None)"
| "assign_cast ty v = None"

text \<open>What a placeholder of a statement stands for, given the bound parameters.\<close>

definition reads_as :: "string \<Rightarrow> sql_val list \<Rightarrow> sql_val option \<Rightarrow> bool" where
  "reads_as ph params v =
     (case v of
        None \<Rightarrow> ph = ''NULL''
      | Some sv \<Rightarrow> (\<exists>n. 0 < n \<and> n \<le> length params \<and> params ! (n - 1) = sv
          \<and> ph = (case sv of SqlInt _ \<Rightarrow> ''$'' @ decimal n @ ''::int8'' | _ \<Rightarrow> ''$'' @ decimal n)))"

text \<open>Every assignment stores the cell the row had in the column of that name.\<close>

definition stores_row :: "string list \<Rightarrow> pg_row \<Rightarrow> (string \<times> string) list \<Rightarrow> sql_val list \<Rightarrow> bool" where
  "stores_row cols row sets params =
     (\<forall>(col, ph) \<in> set sets. \<exists>j < length row. j < length cols \<and> col = cols ! j
        \<and> (\<exists>v. reads_as ph params v \<and> assign_cast (fst (snd (row ! j))) v = Some (snd (snd (row ! j)))))"

lemma sint_widen:
  fixes w :: "'n::len word"
  assumes "LENGTH('n) \<le> LENGTH('m::len)"
  shows "sint (scast w :: 'm word) = sint w"
  using assms by (simp add: sint_up_scast is_up)

lemma scast_narrow_widen:
  fixes w :: "'n::len word"
  assumes "LENGTH('n) \<le> LENGTH('m::len)"
  shows "(scast (scast w :: 'm word) :: 'n word) = w"
proof -
  have "(scast (scast w :: 'm word) :: 'n word) = word_of_int (sint (scast w :: 'm word))" by (rule scast_eq)
  then show ?thesis by (simp only: sint_widen [OF assms] of_int_sint scast_id)
qed

lemma narrowed_widened:
  "narrowed CInt2 (scast (w :: 16 word)) = Some (CInt2 w)"
  "narrowed CInt4 (scast (v :: 32 word)) = Some (CInt4 v)"
  by (simp_all add: narrowed_def scast_narrow_widen sint_widen)

lemma capture_is_lossless:
  assumes "image_value_of ty c = Some v"
  shows "assign_cast ty (from_concrete v) = Some c"
  using assms
  by (cases ty; cases c) (auto simp: image_value_of_def narrowed_widened)

lemma bind_push_reads:
  assumes "bind_push v owned = (ph, owned')" "owned' @ ys = params"
  shows "reads_as ph params v"
  using assms
  by (auto simp: bind_push_def reads_as_def Let_def nth_append split: option.splits sql_val.splits
      intro!: exI [where x = "Suc (length owned)"])

lemma bind_push_extends: "bind_push v owned = (ph, owned') \<Longrightarrow> \<exists>ys. owned' = owned @ ys"
  by (auto simp: bind_push_def Let_def split: option.splits)

lemma bind_columns_reads:
  assumes "bind_columns cols owned = (sets, owned')"
  shows "(\<exists>ys. owned' = owned @ ys)
    \<and> (\<forall>ys. list_all2 (\<lambda>(c, v) (c', ph). c' = c \<and> reads_as ph (owned' @ ys) (from_concrete v)) cols sets)"
  using assms
proof (induction cols owned arbitrary: sets owned' rule: bind_columns.induct)
  case (2 col v cols owned)
  obtain ph owned1 where p: "bind_push (from_concrete v) owned = (ph, owned1)" by fastforce
  obtain rest owned2 where r: "bind_columns cols owned1 = (rest, owned2)" by fastforce
  have e: "sets = (col, ph) # rest" "owned' = owned2" using "2.prems" p r by simp_all
  note ih = "2.IH" [OF p [symmetric] refl r]
  show ?case
    using ih bind_push_extends [OF p] bind_push_reads [OF p] by (fastforce simp: e)
qed simp

lemma row_image_cells:
  assumes "row_image cols i row = Inr img"
  shows "map fst img = cols \<and> (\<forall>j < length cols. i + j < length row
    \<and> image_value_of (fst (snd (row ! (i + j)))) (snd (snd (row ! (i + j)))) = Some (snd (img ! j)))"
  using assms
proof (induction cols i row arbitrary: img rule: row_image.induct)
  case (2 c cs i row)
  obtain v vs where v: "image_value_at row i = Inr v" and vs: "row_image cs (Suc i) row = Inr vs" and e: "img = (c, v) # vs"
    using "2.prems" by (auto simp: rbind_def split: sum.splits)
  have one: "i < length row \<and> image_value_of (fst (snd (row ! i))) (snd (snd (row ! i))) = Some v"
    using v by (auto simp: image_value_at_def split: option.splits if_splits prod.splits)
  show ?case using "2.IH" [OF vs] one by (auto simp: e nth_Cons less_Suc_eq_0_disj split: nat.splits)
qed simp

lemma collected_preimage:
  assumes "collect_preimages relation cols rows pre = Inr pre'" "pre' k = Some img"
  shows "pre k = Some img
    \<or> (\<exists>row \<in> set rows. \<exists>i. row_id relation row = Inr i \<and> scast i = k \<and> row_image cols 0 row = Inr img)"
  using assms
proof (induction relation cols rows pre rule: collect_preimages.induct)
  case (2 relation cols row rows pre)
  obtain i im where i: "row_id relation row = Inr i" and im: "row_image cols 0 row = Inr im"
    and rest: "collect_preimages relation cols rows (pre(scast i \<mapsto> im)) = Inr pre'"
    using "2.prems"(1) by (auto simp: rbind_def split: sum.splits)
  show ?case using "2.IH" [OF rest "2.prems"(2)] i im by (auto split: if_splits)
qed simp

lemma collected_written:
  assumes "collect_written relation pre rows = Inr ws"
  shows "list_all2 (\<lambda>row c. \<exists>i. row_id relation row = Inr i \<and> cr_pk c = tuple_single (PkInt (scast i))
    \<and> pre (scast i) = Some (cr_before_image c)) rows ws"
  using assms
  by (induction relation pre rows arbitrary: ws rule: collect_written.induct)
    (auto simp: rbind_def Let_def split: sum.splits option.splits)

text \<open>The capture of a forward write, split into what the server answered and what was made of it.\<close>

lemma forward_capture:
  assumes "conn_apply_forward parse pg forward_sql where_sql kind relation casc a = (Inr fw, a')"
  shows "\<exists>cols a1 rows s1 returned pre.
    image_columns parse pg forward_sql kind relation a = (Inr cols, a1)
    \<and> pg_select pg (preimage_sql (select_columns cols) relation where_sql) (as_server a1) = (Inr rows, s1)
    \<and> pg_select pg (forward_sql @ '' RETURNING id'') s1 = (Inr returned, as_server a')
    \<and> collect_preimages relation (select_columns cols) rows (\<lambda>_. None) = Inr pre
    \<and> collect_written relation pre returned = Inr (fw_written fw)"
proof -
  obtain cols a1 where c: "image_columns parse pg forward_sql kind relation a = (Inr cols, a1)"
    using assms by (auto simp: conn_apply_forward_def ebind_def split: prod.splits sum.splits)
  obtain r s1 where r: "pg_select pg (preimage_sql (select_columns cols) relation where_sql) (as_server a1) = (r, s1)"
    by fastforce
  obtain r2 s2 where r2: "pg_select pg (forward_sql @ '' RETURNING id'') s1 = (r2, s2)" by fastforce
  have w: "fw_written (with_written_columns f cs) = fw_written f" for f cs by (simp add: with_written_columns_def)
  have n: "fw_written (forward_new ws) = ws" for ws by (simp add: forward_new_def)
  show ?thesis
    using assms c r r2
    by (cases kind) (auto simp: conn_apply_forward_def ebind_def on_server_def Let_def w n
        split: prod.splits sum.splits)
qed

lemma set_select_columns: "set (select_columns cols) = insert ''id'' (set cols)"
proof -
  have "set (foldl (\<lambda>acc c. if c \<noteq> ''id'' \<and> c \<notin> set acc then acc @ [c] else acc) acc cols) = set acc \<union> set cols"
    if "''id'' \<in> set acc" for acc
    using that by (induction cols arbitrary: acc) auto
  then show ?thesis by (simp add: select_columns_def)
qed

lemma bound_columns_store_row:
  assumes img: "row_image cols 0 row = Inr img" and sub: "set vals \<subseteq> set img"
    and bind: "bind_columns vals [] = (sets, owned)"
  shows "stores_row cols row sets (owned @ ys)"
  unfolding stores_row_def
proof (clarify, goal_cases)
  case (1 col ph)
  have "list_all2 (\<lambda>(c, v) (c', ph). c' = c \<and> reads_as ph (owned @ ys) (from_concrete v)) vals sets"
    using bind_columns_reads [OF bind] by simp
  then obtain v where v: "(col, v) \<in> set vals" and reads: "reads_as ph (owned @ ys) (from_concrete v)"
    using 1 by (fastforce simp: list_all2_conv_all_nth in_set_conv_nth)
  obtain j where j: "j < length img" "img ! j = (col, v)" using v sub by (metis in_set_conv_nth subsetD)
  have cells: "map fst img = cols" "\<forall>j < length cols. j < length row
      \<and> image_value_of (fst (snd (row ! j))) (snd (snd (row ! j))) = Some (snd (img ! j))"
    using row_image_cells [OF img] by simp_all
  have "j < length cols" "cols ! j = col" using j cells(1) by auto
  then show ?case using cells(2) j reads capture_is_lossless by (metis snd_conv)
qed

lemma bound_names: "bind_columns vals owned = (sets, owned') \<Longrightarrow> map fst sets = map fst vals"
  by (drule bind_columns_reads) (auto simp: list_all2_conv_all_nth list_eq_iff_nth_eq prod.case_eq_if)

text \<open>
  The production connection keeps its side of the revert's contract: it captures no cascade rows, and
  every captured row has a column; none is named like the stamp unless the table has such a column.
\<close>

lemma production_capture_restorable:
  assumes "conn_apply_forward parse pg forward_sql where_sql kind relation casc a = (Inr fw, a')"
    and "\<And>cols a1. image_columns parse pg forward_sql kind relation a = (Inr cols, a1) \<Longrightarrow> RELATION_STAMP \<notin> set cols"
  shows "fw_cascade_preimages fw = []" and "\<forall>row \<in> set (fw_written fw). restorable row"
proof -
  show "fw_cascade_preimages fw = []"
    using assms(1) by (cases kind) (auto simp: conn_apply_forward_def ebind_def Let_def with_written_columns_def
        forward_new_def split: prod.splits sum.splits)
  obtain cols a1 rows returned pre where c: "image_columns parse pg forward_sql kind relation a = (Inr cols, a1)"
    and pre: "collect_preimages relation (select_columns cols) rows (\<lambda>_. None) = Inr pre"
    and written: "collect_written relation pre returned = Inr (fw_written fw)"
    using forward_capture [OF assms(1)] by blast
  show "\<forall>row \<in> set (fw_written fw). restorable row"
  proof
    fix row assume "row \<in> set (fw_written fw)"
    then obtain k where "pre k = Some (cr_before_image row)"
      using collected_written [OF written] by (auto simp: list_all2_conv_all_nth in_set_conv_nth)
    then obtain r where "row_image (select_columns cols) 0 r = Inr (cr_before_image row)"
      using collected_preimage [OF pre] by blast
    then have "map fst (cr_before_image row) = select_columns cols" by (blast dest: row_image_cells)
    then have "fst ` set (cr_before_image row) = insert ''id'' (set cols)"
      by (metis set_map set_select_columns)
    then show "restorable row" using assms(2) [OF c] by (auto simp: restorable_def RELATION_STAMP_def)
  qed
qed

text \<open>
  C27: whatever the server answers, a row that the apply connection captured for the inverse is a row
  the server returned under the lock before the write: the statements that restore it address the
  row by the key it was read with, assign every column the write named (all of the read columns, for
  a re-insert), and what they bind stores exactly the cells that were read. A value of a type that
  would not survive the way is an error of the apply.
\<close>

theorem restore_stores_what_was_read:
  assumes forward: "conn_apply_forward parse pg forward_sql where_sql kind relation casc a = (Inr fw, a')"
    and captured: "c \<in> set (fw_written fw)"
  shows "\<exists>cols a1 rows s1 row i sets params id_ph ins_sets ins_params.
    image_columns parse pg forward_sql kind relation a = (Inr cols, a1)
    \<and> pg_select pg (preimage_sql (select_columns cols) relation where_sql) (as_server a1) = (Inr rows, s1)
    \<and> row \<in> set rows \<and> row_id relation row = Inr i \<and> pk_int (to_revert c) = Inr (scast i)
    \<and> update_statement relation (to_revert c) (scast i)
        = (''UPDATE '' @ relation @ '' SET '' @ join_with '', '' (map (\<lambda>(c, ph). quote_ident c @ '' = '' @ ph) sets)
           @ '' WHERE id = '' @ id_ph, params)
    \<and> reads_as id_ph params (Some (SqlInt (scast i)))
    \<and> set (map fst sets) = set cols - {''id''} \<and> stores_row (select_columns cols) row sets params
    \<and> insert_statement relation (to_revert c)
        = (''INSERT INTO '' @ relation @ ''('' @ join_with '', '' (map (\<lambda>(c, _). quote_ident c) ins_sets) @ '') VALUES (''
           @ join_with '', '' (map snd ins_sets) @ '')'', ins_params)
    \<and> map fst ins_sets = select_columns cols \<and> stores_row (select_columns cols) row ins_sets ins_params"
proof -
  obtain cols a1 rows s1 returned pre where
    ans: "image_columns parse pg forward_sql kind relation a = (Inr cols, a1)"
      "pg_select pg (preimage_sql (select_columns cols) relation where_sql) (as_server a1) = (Inr rows, s1)"
    and pre: "collect_preimages relation (select_columns cols) rows (\<lambda>_. None) = Inr pre"
    and written: "collect_written relation pre returned = Inr (fw_written fw)"
    using forward_capture [OF forward] by blast
  obtain k where k: "cr_pk c = tuple_single (PkInt (scast (k :: i32)))" "pre (scast k) = Some (cr_before_image c)"
    using collected_written [OF written] captured by (fastforce simp: list_all2_conv_all_nth in_set_conv_nth)
  obtain row i where row: "row \<in> set rows" "row_id relation row = Inr i" and i: "scast i = (scast k :: i64)"
    and img: "row_image (select_columns cols) 0 row = Inr (cr_before_image c)"
    using collected_preimage [OF pre k(2)] by auto
  obtain sets owned where b: "bind_columns (filter (\<lambda>(c, _). c \<noteq> ''id'') (cr_before_image c)) [] = (sets, owned)"
    by fastforce
  obtain id_ph params where p: "bind_push (Some (SqlInt (scast i))) owned = (id_ph, params)" by fastforce
  obtain ins_sets ins_params where ib: "bind_columns (cr_before_image c) [] = (ins_sets, ins_params)" by fastforce
  obtain ys where ys: "params = owned @ ys" using bind_push_extends [OF p] by blast
  have names: "map fst (cr_before_image c) = select_columns cols" using row_image_cells [OF img] by simp
  have "set (map fst sets) = set (map fst (cr_before_image c)) - {''id''}"
    unfolding bound_names [OF b] by force
  then have "set (map fst sets) = set cols - {''id''}" unfolding names set_select_columns by simp
  moreover have "stores_row (select_columns cols) row sets params"
    using bound_columns_store_row [OF img _ b] ys by auto
  moreover have "stores_row (select_columns cols) row ins_sets ins_params"
    using bound_columns_store_row [OF img _ ib, where ys = "[]"] by simp
  moreover have "reads_as id_ph params (Some (SqlInt (scast i)))"
    using bind_push_reads [OF p, where ys = "[]"] by simp
  moreover have "pk_int (to_revert c) = Inr (scast i)"
    by (simp add: pk_int_def to_revert_def k(1) tuple_single_def i)
  moreover have "update_statement relation (to_revert c) (scast i)
      = (''UPDATE '' @ relation @ '' SET '' @ join_with '', '' (map (\<lambda>(c, ph). quote_ident c @ '' = '' @ ph) sets)
         @ '' WHERE id = '' @ id_ph, params)"
    by (simp add: update_statement_def to_revert_def b p Let_def)
  moreover have "insert_statement relation (to_revert c)
      = (''INSERT INTO '' @ relation @ ''('' @ join_with '', '' (map (\<lambda>(c, _). quote_ident c) ins_sets) @ '') VALUES (''
         @ join_with '', '' (map snd ins_sets) @ '')'', ins_params)"
    by (simp add: insert_statement_def to_revert_def ib)
  moreover have "map fst ins_sets = select_columns cols" using bound_names [OF ib] names by simp
  ultimately show ?thesis using ans row by blast
qed

section \<open>A sample server\<close>

text \<open>
  A server that keeps the statements it was sent: a batch succeeds, a select that takes locks answers
  with the locked rows and any other with the keys of these rows, and the catalogue knows one
  \<^verbatim>\<open>int4\<close> key column of the given name.
\<close>

definition refused :: pg_error where
  "refused = \<lparr>pe_code = None, pe_text = ''connection reset''\<rparr>"

definition pg_sample_server :: "string \<Rightarrow> pg_row list \<Rightarrow> bool \<Rightarrow> string list pg_client" where
  "pg_sample_server key rows counters_fail =
     \<lparr>pg_batch = (\<lambda>q s. (Inr (), s @ [q])),
      pg_select = (\<lambda>q s. (Inr (if take 6 q = ''SELECT'' then rows else map (take 1) rows), s @ [q])),
      pg_execute = (\<lambda>q vs s. (Inr 1, s @ [q])),
      pg_transaction = (\<lambda>s. (Inr (), s @ [''BEGIN''])), pg_rollback = (\<lambda>s. (Inr (), s @ [''ROLLBACK''])),
      pg_provolatile = (\<lambda>_ _ s. (Inr (False, 1), s)), pg_pk_types = (\<lambda>_ _ s. (Inr [''int4''], s)),
      pg_pk_columns = (\<lambda>_ _ s. (Inr [key], s)), pg_column_type = (\<lambda>_ _ _ s. (Inr [''text''], s)),
      pg_all_columns = (\<lambda>_ _ s. (Inr [''id'', ''owner''], s)),
      pg_xact_tables = (\<lambda>s. (if counters_fail then Inl refused else Inr [], s)),
      pg_restore_point = (\<lambda>_ s. (Inr ''0/1'', s)), pg_wal_lsn = (\<lambda>s. (Inr ''0/1'', s)),
      pg_wal_insert_lsn = (\<lambda>s. (Inr ''0/1'', s)), pg_wal_lsn_diff = (\<lambda>_ _ s. (Inr 0, s)),
      pg_cascade_children = (\<lambda>_ _ s. (Inr [], s)), pg_fk_columns = (\<lambda>_ _ _ _ s. (Inr [], s)),
      pg_row_triggers = (\<lambda>_ _ _ s. (Inr [], s)), pg_lock_modes = (\<lambda>_ _ s. (Inr [], s)), pg_now = (\<lambda>_. 0)\<rparr>"

definition pg_sample_row :: "32 word \<Rightarrow> string \<Rightarrow> pg_row" where
  "pg_sample_row i owner = [(''id'', INT4, CInt4 i), (''owner'', TEXT, CText owner)]"

definition pg_sample_parse :: "string \<Rightarrow> string + conn_stmt list" where
  "pg_sample_parse sql = Inr [UpdateStmt [ColumnName [''owner'']] (Some ''id < 9'')]"

definition pg_sample_update :: string where
  "pg_sample_update = ''UPDATE accounts SET owner = 'x' WHERE id < 9''"

lemmas pg_sample_server_defs = pg_sample_server_def pg_sample_row_def pg_sample_parse_def pg_sample_update_def

definition pg_sample_forward :: "pg_row list \<Rightarrow> apply_error + forward_result" where
  "pg_sample_forward rows = fst (conn_apply_forward pg_sample_parse (pg_sample_server ''key'' rows False) pg_sample_update ''id < 9''
     Update ''accounts'' [] (apply_session_new []))"

lemma pg_sample_forward_one:
  "pg_sample_forward [pg_sample_row 7 ''ann''] = Inr \<lparr>fw_written = [\<lparr>cr_pk = [PkInt 7],
     cr_before_image = [(''id'', PkInt 7), (''owner'', PkText ''ann'')]\<rparr>], fw_cascade_preimages = [], fw_written_columns = [''owner'']\<rparr>"
  by code_simp

lemma pg_sample_forward_two:
  "pg_sample_forward [pg_sample_row 7 ''ann'', pg_sample_row 7 ''bob''] = Inr \<lparr>fw_written =
     [\<lparr>cr_pk = [PkInt 7], cr_before_image = [(''id'', PkInt 7), (''owner'', PkText ''bob'')]\<rparr>,
      \<lparr>cr_pk = [PkInt 7], cr_before_image = [(''id'', PkInt 7), (''owner'', PkText ''bob'')]\<rparr>],
     fw_cascade_preimages = [], fw_written_columns = [''owner'']\<rparr>"
  by code_simp

theorem restore_stores_what_was_read_witness:
  "\<exists>row sets params. row \<in> set [pg_sample_row 7 ''ann'']
    \<and> fst (update_statement ''accounts'' \<lparr>rr_pk = [PkInt 7], rr_before_image = [(''id'', PkInt 7), (''owner'', PkText ''ann'')]\<rparr> 7)
      = ''UPDATE accounts SET '' @ [CHR 0x22] @ ''owner'' @ [CHR 0x22] @ '' = $1 WHERE id = $2::int8''
    \<and> set (map fst sets) = {''owner''} \<and> stores_row [''id'', ''owner''] row sets params"
proof -
  let ?pg = "pg_sample_server ''key'' [pg_sample_row 7 ''ann''] False" and ?a = "apply_session_new [] :: string list apply_session"
  obtain fw a' where run: "conn_apply_forward pg_sample_parse ?pg pg_sample_update ''id < 9'' Update ''accounts'' [] ?a = (Inr fw, a')"
    and fw: "fw_written fw = [\<lparr>cr_pk = [PkInt 7], cr_before_image = [(''id'', PkInt 7), (''owner'', PkText ''ann'')]\<rparr>]"
    using pg_sample_forward_one unfolding pg_sample_forward_def by (metis forward_result.select_convs(1) prod.collapse)
  have cols: "image_columns pg_sample_parse ?pg pg_sample_update Update ''accounts'' ?a = (Inr [''owner''], ?a)" by code_simp
  have sel: "select_columns [''owner''] = [''id'', ''owner'']" by code_simp
  have rows: "fst (pg_select ?pg (preimage_sql [''id'', ''owner''] ''accounts'' ''id < 9'') s) = Inr [pg_sample_row 7 ''ann'']" for s
    by (simp add: pg_sample_server_def preimage_sql_def)
  have sql: "fst (update_statement ''accounts'' \<lparr>rr_pk = [PkInt 7], rr_before_image = [(''id'', PkInt 7), (''owner'', PkText ''ann'')]\<rparr> 7)
      = ''UPDATE accounts SET '' @ [CHR 0x22] @ ''owner'' @ [CHR 0x22] @ '' = $1 WHERE id = $2::int8''" by code_simp
  let ?c = "\<lparr>cr_pk = [PkInt 7], cr_before_image = [(''id'', PkInt 7), (''owner'', PkText ''ann'')]\<rparr>"
  have "?c \<in> set (fw_written fw)" by (simp add: fw)
  from restore_stores_what_was_read [OF run this] obtain cs a1 rs s1 row sets params where
    c: "image_columns pg_sample_parse ?pg pg_sample_update Update ''accounts'' ?a = (Inr cs, a1)"
    and r: "pg_select ?pg (preimage_sql (select_columns cs) ''accounts'' ''id < 9'') (as_server a1) = (Inr rs, s1)"
    and w: "row \<in> set rs" "set (map fst sets) = set cs - {''id''}" "stores_row (select_columns cs) row sets params"
    by (elim exE conjE) (rule that)
  have "cs = [''owner'']" using c cols by simp
  then have "rs = [pg_sample_row 7 ''ann'']" using r rows by (metis Inr_inject fst_conv sel)
  show ?thesis
    by (intro exI [where x = row] exI [where x = sets] exI [where x = params] conjI sql)
      (use w \<open>cs = _\<close> \<open>rs = _\<close> in \<open>simp_all add: sel\<close>)
qed

text \<open>
  When \<^verbatim>\<open>BEGIN\<close> succeeds and one of the two readings that the connection takes before it returns
  fails, the guarded apply ends with that error and sends no \<^verbatim>\<open>ROLLBACK\<close>: the server is where the
  failed reading left it, inside the transaction, and the connection object of the next apply over
  the same client does not know of it, so its own rollback sends nothing either.
\<close>

lemma failed_begin_leaves_txn_open:
  assumes grant: "br_proposal_id br = pid" "from_grant br relation = Inr predicted" "predicted_total_tuples br \<le> max_rows cap"
      "br_wal_bytes br \<le> max_wal_bytes cap" "certify (operation_from_dry_run kind br) = Inr op" "\<not> pitr_enabled pitr"
    and began: "pg_batch pg (begin_sql t) (as_server a) = (Inr (), s1)" "t = statement_timeout_ms (br_duration_ms br)"
    and failed: "pg_xact_tables pg s1 = (Inl e, s2)
      \<or> (\<exists>rows s1'. pg_xact_tables pg s1 = (Inr rows, s1') \<and> pg_wal_insert_lsn pg s1' = (Inl e, s2))"
  shows "\<exists>a'. guarded_apply sha256 hex_encode pid kind relation br cap pitr (pg_apply_conn parse pg forward_sql where_sql)
        pause_point clk a = (Inl (classify_apply e t), a')
      \<and> as_in_txn a' \<and> as_server a' = s2
      \<and> conn_rollback pg (apply_session_new (as_server a')) = (Inr (), apply_session_new s2)"
proof -
  have "\<exists>a'. conn_begin pg t a = (Inl (classify_apply e t), a') \<and> as_in_txn a' \<and> as_server a' = s2"
    using began(1) failed
    by (auto simp: conn_begin_def ebind_def on_server_def update_session_def read_xact_raw_def timed_def)
  then show ?thesis
    using grant began(2)
    by (auto simp: guarded_apply_def guarded_txn_def create_fence_def ebind_def pg_apply_conn_def Let_def conn_rollback_def
        apply_session_new_def not_less)
qed

lemma failed_begin_leaves_txn_open_sample:
  "\<exists>a'. guarded_apply (\<lambda>_. []) (\<lambda>_. []) ''p'' Update ''t'' sample_br \<lparr>max_rows = 2, max_wal_bytes = 20\<rparr> \<lparr>pitr_enabled = False\<rparr>
      (pg_apply_conn pg_sample_parse (pg_sample_server ''id'' [] True) pg_sample_update ''id < 9'') (\<lambda>_ a. a)
      (clock_starting_at 0) (apply_session_new []) = (Inl (ApplyBackend (BackendMsg ''connection reset'')), a')
    \<and> as_in_txn a' \<and> as_server a' = [begin_sql 1000]"
proof -
  have t: "statement_timeout_ms (br_duration_ms sample_br) = 1000"
    by (simp add: sample_br_def statement_timeout_ms_def MIN_STATEMENT_TIMEOUT_MS_def STATEMENT_TIMEOUT_MULTIPLIER_def sat_mul_def)
  have c: "classify_apply refused 1000 = ApplyBackend (BackendMsg ''connection reset'')"
    by (simp add: classify_apply_def refused_def)
  have g: "br_proposal_id sample_br = ''p''" "predicted_total_tuples sample_br \<le> 2" "br_wal_bytes sample_br \<le> 20"
    by (simp_all add: sample_defs)
  have p: "from_grant sample_br ''t'' = Inr (projr (from_grant sample_br ''t''))"
    "certify (operation_from_dry_run Update sample_br) = Inr (projr (certify (operation_from_dry_run Update sample_br)))"
    by code_simp+
  let ?pg = "pg_sample_server ''id'' [] True"
  have began: "pg_batch ?pg (begin_sql 1000) (as_server (apply_session_new [])) = (Inr (), [begin_sql 1000])"
    and failed: "pg_xact_tables ?pg [begin_sql 1000] = (Inl refused, [begin_sql 1000])"
    by (simp_all add: pg_sample_server_def apply_session_new_def)
  have caps: "predicted_total_tuples sample_br \<le> max_rows \<lparr>max_rows = 2, max_wal_bytes = 20\<rparr>"
    "br_wal_bytes sample_br \<le> max_wal_bytes \<lparr>max_rows = 2, max_wal_bytes = 20\<rparr>" using g by simp_all
  have off: "\<not> pitr_enabled \<lparr>pitr_enabled = False\<rparr>" by simp
  show ?thesis
    by (rule exE [OF failed_begin_leaves_txn_open [OF g(1) p(1) caps p(2) off began t [symmetric] disjI1 [OF failed]]],
        elim conjE, rule exI, intro conjI) (simp_all only: c)
qed

text \<open>
  On a table whose one \<^verbatim>\<open>int4\<close> key is not the column \<^verbatim>\<open>id\<close> the shape is certified, and when two
  rows of an update have the same \<^verbatim>\<open>id\<close> the apply connection captures the second image for both: what
  the first row held is in no pre-image, and the coverage of rows and columns still holds.
\<close>

lemma equal_ids_lose_a_preimage:
  "fst (conn_certify_apply_shape pg_sample_parse (pg_sample_server ''key'' [pg_sample_row 7 ''ann'', pg_sample_row 7 ''bob''] False)
      pg_sample_update Update ''accounts'' []) = None
    \<and> (\<exists>fw. pg_sample_forward [pg_sample_row 7 ''ann'', pg_sample_row 7 ''bob''] = Inr fw
      \<and> assert_written_column_coverage Update ''accounts'' fw = Inr ()
      \<and> map cr_before_image (fw_written fw) = replicate 2 [(''id'', PkInt 7), (''owner'', PkText ''bob'')])"
proof -
  have "fst (conn_certify_apply_shape pg_sample_parse (pg_sample_server ''key'' [pg_sample_row 7 ''ann'', pg_sample_row 7 ''bob''] False)
      pg_sample_update Update ''accounts'' []) = None" by code_simp
  moreover have "assert_written_column_coverage Update ''accounts'' \<lparr>fw_written =
     [\<lparr>cr_pk = [PkInt 7], cr_before_image = [(''id'', PkInt 7), (''owner'', PkText ''bob'')]\<rparr>,
      \<lparr>cr_pk = [PkInt 7], cr_before_image = [(''id'', PkInt 7), (''owner'', PkText ''bob'')]\<rparr>],
     fw_cascade_preimages = [], fw_written_columns = [''owner'']\<rparr> = Inr ()" by code_simp
  ultimately show ?thesis using pg_sample_forward_two by (simp add: numeral_2_eq_2)
qed

end
