(* ===== verification/Mcp_Server.thy ===== *)
theory Mcp_Server
  imports Wire_Classifier Policy_Intent Policy_Risk Audit_Chain "HOL-Library.AList"
begin

text \<open>
  The server the agent talks to (\<^verbatim>\<open>crates/mcp/src\<close>): the block contract and the posture
  (\<^verbatim>\<open>contract.rs\<close>), the nine tools and their schemas (\<^verbatim>\<open>catalog.rs\<close>), the client of the apply daemon
  (\<^verbatim>\<open>applyd.rs\<close>), the transport to the proxy (\<^verbatim>\<open>proxy.rs\<close>), the reader of the audit tail
  (\<^verbatim>\<open>audit.rs\<close>) and the tools with their dispatch (\<^verbatim>\<open>server.rs\<close>). The sockets, the client library and
  the JSON codec are parameters; messages of other components enter as the text they carry.
\<close>

section \<open>JSON\<close>

text \<open>Numbers as the library keeps them: without a sign, negative, or floating, of which only the text is kept.\<close>

datatype json =
    JNull
  | JBool bool
  | JUint u64
  | JSint i64
  | JFloat string
  | JStr string
  | JArr "json list"
  | JObj "(string \<times> json) list"

fun json_get :: "json \<Rightarrow> string \<Rightarrow> json option" where
  "json_get (JObj kvs) k = map_of kvs k"
| "json_get _ k = None"

fun as_u64 :: "json \<Rightarrow> u64 option" where
  "as_u64 (JUint n) = Some n"
| "as_u64 _ = None"

fun as_bool :: "json \<Rightarrow> bool option" where
  "as_bool (JBool b) = Some b"
| "as_bool _ = None"

fun as_str :: "json \<Rightarrow> string option" where
  "as_str (JStr s) = Some s"
| "as_str _ = None"

definition get_or_null :: "json \<Rightarrow> string \<Rightarrow> json" where
  "get_or_null v k = (case json_get v k of Some x \<Rightarrow> x | None \<Rightarrow> JNull)"

section \<open>The contract\<close>

datatype block_status = Blocked

record block_contract =
  bc_status :: block_status
  bc_code :: string
  bc_reason :: string
  bc_remedy :: string
  bc_retryable :: bool

definition block_new :: "string \<Rightarrow> string \<Rightarrow> string \<Rightarrow> bool \<Rightarrow> block_contract" where
  "block_new code reason remedy retryable =
     \<lparr>bc_status = Blocked, bc_code = code, bc_reason = reason, bc_remedy = remedy, bc_retryable = retryable\<rparr>"

text \<open>The arrow \<^verbatim>\<open>U+2192\<close> and the dash \<^verbatim>\<open>U+2014\<close> in their UTF-8 encoding.\<close>

definition arrow :: string where
  "arrow = [CHR 0xE2, CHR 0x86, CHR 0x92]"

definition dash :: string where
  "dash = [CHR 0xE2, CHR 0x80, CHR 0x94]"

definition unimplemented_block :: "string \<Rightarrow> string \<Rightarrow> block_contract" where
  "unimplemented_block name tracking =
     block_new ''UNIMPLEMENTED'' (''the `'' @ name @ ''` tool is not wired yet in this MCP skeleton (EPIC #83 PR1)'')
       (''tracked: '' @ tracking @ ''; the read paths land in #83 PR2, the write paths in #83 PR3'') False"

definition read_only_block :: "string \<Rightarrow> block_contract" where
  "read_only_block detail =
     block_new ''READ_ONLY'' (''this tool runs read-only statements; this looks like a '' @ detail)
       (''use propose_write '' @ arrow @ '' dry_run '' @ arrow @ '' apply_write for changes'') False"

definition proxy_unavailable :: "string \<Rightarrow> block_contract" where
  "proxy_unavailable detail =
     block_new ''PROXY_UNAVAILABLE'' (''the proxy connection is unavailable: '' @ detail)
       (''the proxy may be down or the backend session ended (e.g. a warden terminate, restart, or idle reset); retry ''
         @ dash @ '' the read will re-dial the proxy'') True"

definition wall_denied :: "string \<Rightarrow> block_contract" where
  "wall_denied detail =
     block_new ''WALL_DENIED'' (''the proxy/WALL denied this read (least-privilege default-deny): '' @ detail)
       ''the hardened agent role has no SELECT on this relation; request access to a whitelisted relation'' False"

definition proxy_blocked :: "string \<Rightarrow> block_contract" where
  "proxy_blocked detail =
     block_new ''PROXY_BLOCKED'' (''the proxy refused this read at the deterministic floor: '' @ detail)
       ''adjust the statement to a permitted read, or use the write lifecycle for changes'' False"

record whoami_result =
  wa_role :: string
  wa_session_id :: string
  wa_security_boundary :: bool
  wa_boundary :: string
  wa_tools :: "string list"

definition whoami_new :: "string \<Rightarrow> string \<Rightarrow> string list \<Rightarrow> whoami_result" where
  "whoami_new role session_id tls =
     \<lparr>wa_role = role, wa_session_id = session_id, wa_security_boundary = False,
      wa_boundary = ''the deterministic floor (proxy + WALL + applyd + warden) is the real security boundary; ''
        @ ''this MCP layer is cooperative and adds no privilege'',
      wa_tools = tls\<rparr>"

section \<open>The catalog\<close>

definition TOOL_NAMES :: "string list" where
  "TOOL_NAMES = [''whoami'', ''discover_schema'', ''query'', ''explain_plan'', ''propose_write'', ''dry_run'',
     ''apply_write'', ''request_elevation'', ''get_audit'']"

record tool_spec =
  ts_name :: string
  ts_description :: string
  ts_input_schema :: json

definition string_prop :: "string \<Rightarrow> json" where
  "string_prop description = JObj [(''type'', JStr ''string''), (''description'', JStr description)]"

definition integer_prop :: "string \<Rightarrow> json" where
  "integer_prop description = JObj [(''type'', JStr ''integer''), (''description'', JStr description)]"

definition object_schema :: "(string \<times> json) list \<Rightarrow> string list \<Rightarrow> json" where
  "object_schema props required =
     JObj [(''type'', JStr ''object''), (''properties'', JObj props), (''required'', JArr (map JStr required)),
       (''additionalProperties'', JBool False)]"

definition catalog :: "tool_spec list" where
  "catalog =
     [\<lparr>ts_name = ''whoami'', ts_description = ''Report the agent'' @ [CHR 0x27] @ ''s role and posture (MCP is not a security boundary).'',
       ts_input_schema = object_schema [] []\<rparr>,
      \<lparr>ts_name = ''discover_schema'', ts_description = ''List accessible schema (tables/columns) through the proxy.'',
       ts_input_schema = object_schema [] []\<rparr>,
      \<lparr>ts_name = ''query'', ts_description = ''Run a read-only statement through the proxy (cost/byte budgeted).'',
       ts_input_schema = object_schema
         [(''sql'', string_prop ''The read-only statement to execute through the proxy.''),
          (''application_name'', string_prop ''Optional application_name tag carried to the proxy/warden.'')] [''sql'']\<rparr>,
      \<lparr>ts_name = ''explain_plan'', ts_description = ''EXPLAIN (never ANALYZE) a statement through the proxy.'',
       ts_input_schema = object_schema
         [(''sql'', string_prop ''The read-only statement to EXPLAIN (never EXPLAIN ANALYZE).'')] [''sql'']\<rparr>,
      \<lparr>ts_name = ''propose_write'', ts_description = ''Create a TTL'' @ [CHR 0x27] @ ''d write proposal in core (state lives in core).'',
       ts_input_schema = object_schema
         [(''sql'', string_prop ''The candidate write statement to rehearse + later apply.''),
          (''expected_rows'', integer_prop ''Optional row-count expectation (the confirm_rows seed).''),
          (''application_name'', string_prop ''Optional application_name tag carried to the proxy/warden.'')] [''sql'']\<rparr>,
      \<lparr>ts_name = ''dry_run'',
       ts_description = ''Rehearse a proposal '' @ arrow @ '' blast radius (bounded row/WAL-byte estimate vs the WriteCap).'',
       ts_input_schema = object_schema [(''proposal_id'', string_prop ''The proposal id minted by propose_write.'')] [''proposal_id'']\<rparr>,
      \<lparr>ts_name = ''apply_write'', ts_description = ''Apply a dry-run proposal under the grant-gated WriteCap floor (needs confirm_rows).'',
       ts_input_schema = object_schema
         [(''proposal_id'', string_prop ''The dry-run proposal to apply.''),
          (''confirm_rows'', integer_prop ''The confirm_rows forcing function: must equal the dry-run total.''),
          (''confirm_token'', string_prop ''The opaque token returned by dry_run (echoed back).'')] [''proposal_id'']\<rparr>,
      \<lparr>ts_name = ''request_elevation'',
       ts_description = ''Open an approval-request ticket for a blocked action ('' @ [CHR 0xC2, CHR 0xA7] @ ''14).'',
       ts_input_schema = object_schema
         [(''proposal_id'', string_prop ''The dry-run proposal to elevate.''),
          (''reason'', string_prop ''A human-readable reason recorded in the request.'')] [''proposal_id'', ''reason'']\<rparr>,
      \<lparr>ts_name = ''get_audit'', ts_description = ''Read the hash-chained audit for this session.'',
       ts_input_schema = object_schema [(''limit'', integer_prop ''Max records to return (clamped to a sane window).'')] []\<rparr>]"

section \<open>The client of the apply daemon\<close>

definition DEFAULT_TIMEOUT_MS :: u64 where
  "DEFAULT_TIMEOUT_MS = 30000"

record applyd_config =
  ad_socket_path :: string
  ad_role :: string
  ad_session_id :: string
  ad_timeout_ms :: u64

record wire_block =
  wb_code :: string
  wb_remedy :: string
  wb_retryable :: bool

record rpc_error_wire =
  ew_message :: string
  ew_data :: "wire_block option"

record rpc_reply =
  rp_result :: "json option"
  rp_error :: "rpc_error_wire option"

datatype applyd_outcome = ApplydOk json | ApplydBlocked block_contract

text \<open>
  The wire: a socket is dialled, a line is exchanged for a line on it. What a step of an exchange that
  fails reports is its text; the whole exchange may run out of time. \<open>wr_render\<close> and \<open>wr_reply\<close> are the
  codec of a request and of a reply.
\<close>

datatype exchanged =
    WriteFailed string
  | FlushFailed string
  | ReadFailed string
  | EndOfFile
  | LineRead string
  | Elapsed

record ('c, 'w) applyd_wire =
  wr_dial :: "string \<Rightarrow> ('w, string, 'c) eff"
  wr_exchange :: "'c \<Rightarrow> string \<Rightarrow> 'w \<Rightarrow> exchanged \<times> 'w"
  wr_render :: "json \<Rightarrow> string + string"
  wr_reply :: "string \<Rightarrow> string + rpc_reply"

record 'c applyd_client =
  cl_config :: applyd_config
  cl_conn :: "'c option"
  cl_next_id :: u64

definition applyd_client_new :: "applyd_config \<Rightarrow> 'c applyd_client" where
  "applyd_client_new config = \<lparr>cl_config = config, cl_conn = None, cl_next_id = 1\<rparr>"

datatype wire_error = WireLost string | WireTimeout

definition block_of :: "rpc_error_wire \<Rightarrow> block_contract" where
  "block_of err =
     (case ew_data err of
        Some d \<Rightarrow> block_new (wb_code d) (ew_message err)
          (if wb_remedy d = [] then ''see the applyd error for the next step'' else wb_remedy d) (wb_retryable d)
      | None \<Rightarrow> block_new ''APPLYD_ERROR''
          (if ew_message err = [] then ''applyd returned an error with no recoverable data'' else ew_message err)
          ''retry; if it persists, inspect the applyd daemon logs'' False)"

definition map_response :: "rpc_reply \<Rightarrow> applyd_outcome" where
  "map_response resp =
     (case rp_error resp of
        Some err \<Rightarrow> ApplydBlocked (block_of err)
      | None \<Rightarrow> (case rp_result resp of
            Some v \<Rightarrow> ApplydOk v
          | None \<Rightarrow> ApplydBlocked (block_new ''APPLYD_ERROR'' ''applyd returned a response with neither result nor error''
              ''retry; if it persists, inspect the applyd daemon logs'' False)))"

definition applyd_unavailable :: "string \<Rightarrow> block_contract" where
  "applyd_unavailable detail =
     block_new ''APPLYD_UNAVAILABLE'' (''the applyd write daemon is unavailable: '' @ detail)
       (''the applyd daemon may be down or the socket was reset; retry '' @ dash @ '' the write will re-dial the applyd socket'') True"

definition applyd_timeout :: "string \<Rightarrow> u64 \<Rightarrow> block_contract" where
  "applyd_timeout method timeout_ms =
     block_new ''APPLYD_UNAVAILABLE'' (''the applyd `'' @ method @ ''` call timed out after '' @ decimal (unat timeout_ms) @ ''ms'')
       (''the applyd daemon did not respond in time; retry '' @ dash @ '' the write will re-dial'') True"

definition applyd_dial :: "('c, 'w) applyd_wire \<Rightarrow> applyd_config \<Rightarrow> ('w, block_contract, 'c) eff" where
  "applyd_dial wire config w =
     (case wr_dial wire (ad_socket_path config) w of
        (Inl e, w') \<Rightarrow> (Inl (applyd_unavailable (''could not connect to the applyd socket at '' @ ad_socket_path config @ '': '' @ e)), w')
      | (Inr c, w') \<Rightarrow> (Inr c, w'))"

definition request_json :: "u64 \<Rightarrow> string \<Rightarrow> json \<Rightarrow> json" where
  "request_json i method params =
     JObj [(''jsonrpc'', JStr ''2.0''), (''id'', JUint i), (''method'', JStr method), (''params'', params)]"

definition round_trip ::
  "('c, 'w) applyd_wire \<Rightarrow> 'c \<Rightarrow> u64 \<Rightarrow> string \<Rightarrow> json \<Rightarrow> 'w \<Rightarrow> (wire_error + rpc_reply) \<times> 'w" where
  "round_trip wire conn i method params w =
     (case wr_render wire (request_json i method params) of
        Inl e \<Rightarrow> (Inl (WireLost e), w)
      | Inr line \<Rightarrow>
          (case wr_exchange wire conn (line @ [CHR 0x0A]) w of (ex, w') \<Rightarrow>
            (case ex of
               WriteFailed e \<Rightarrow> Inl (WireLost e)
             | FlushFailed e \<Rightarrow> Inl (WireLost e)
             | ReadFailed e \<Rightarrow> Inl (WireLost e)
             | EndOfFile \<Rightarrow> Inl (WireLost ''applyd socket closed (EOF)'')
             | LineRead resp_line \<Rightarrow>
                 (case wr_reply wire (trim resp_line) of
                    Inl e \<Rightarrow> Inl (WireLost (''unparseable applyd response line: '' @ e))
                  | Inr resp \<Rightarrow> Inr resp)
             | Elapsed \<Rightarrow> Inl WireTimeout, w')))"

text \<open>The attempts that are left; the code makes the attempts 0 and 1.\<close>

fun call_attempts ::
  "('c, 'w) applyd_wire \<Rightarrow> string \<Rightarrow> json \<Rightarrow> nat list \<Rightarrow> 'c applyd_client \<times> 'w \<Rightarrow> applyd_outcome \<times> 'c applyd_client \<times> 'w" where
  "call_attempts wire method params [] (cl, w) = (ApplydBlocked (applyd_unavailable ''exhausted reconnect attempts''), cl, w)"
| "call_attempts wire method params (attempt # later) (cl, w) =
     (case (case cl_conn cl of Some c \<Rightarrow> (Inr c, w) | None \<Rightarrow> applyd_dial wire (cl_config cl) w) of
        (Inl block, w1) \<Rightarrow> (ApplydBlocked block, cl, w1)
      | (Inr conn, w1) \<Rightarrow>
          let cl1 = cl\<lparr>cl_conn := Some conn, cl_next_id := cl_next_id cl + 1\<rparr> in
          (case round_trip wire conn (cl_next_id cl) method params w1 of
             (Inr resp, w2) \<Rightarrow> (map_response resp, cl1, w2)
           | (Inl (WireLost detail), w2) \<Rightarrow>
               if attempt = 0 then call_attempts wire method params later (cl1\<lparr>cl_conn := None\<rparr>, w2)
               else (ApplydBlocked (applyd_unavailable detail), cl1\<lparr>cl_conn := None\<rparr>, w2)
           | (Inl WireTimeout, w2) \<Rightarrow>
               (ApplydBlocked (applyd_timeout method (ad_timeout_ms (cl_config cl))), cl1\<lparr>cl_conn := None\<rparr>, w2)))"

definition applyd_call ::
  "('c, 'w) applyd_wire \<Rightarrow> string \<Rightarrow> json \<Rightarrow> 'c applyd_client \<times> 'w \<Rightarrow> applyd_outcome \<times> 'c applyd_client \<times> 'w" where
  "applyd_call wire method params = call_attempts wire method params [0, 1]"

definition client_propose ::
  "('c, 'w) applyd_wire \<Rightarrow> string \<Rightarrow> u64 option \<Rightarrow> 'c applyd_client \<times> 'w \<Rightarrow> applyd_outcome \<times> 'c applyd_client \<times> 'w" where
  "client_propose wire sql expected_rows s =
     applyd_call wire ''propose''
       (JObj ([(''sql'', JStr sql), (''role'', JStr (ad_role (cl_config (fst s)))), (''session_id'', JStr (ad_session_id (cl_config (fst s))))]
         @ (case expected_rows of Some n \<Rightarrow> [(''expected_rows'', JUint n)] | None \<Rightarrow> []))) s"

definition client_dry_run ::
  "('c, 'w) applyd_wire \<Rightarrow> string \<Rightarrow> 'c applyd_client \<times> 'w \<Rightarrow> applyd_outcome \<times> 'c applyd_client \<times> 'w" where
  "client_dry_run wire proposal_id = applyd_call wire ''dry_run'' (JObj [(''proposal_id'', JStr proposal_id)])"

definition client_request_elevation ::
  "('c, 'w) applyd_wire \<Rightarrow> string \<Rightarrow> string \<Rightarrow> 'c applyd_client \<times> 'w \<Rightarrow> applyd_outcome \<times> 'c applyd_client \<times> 'w" where
  "client_request_elevation wire proposal_id reason =
     applyd_call wire ''request_elevation'' (JObj [(''proposal_id'', JStr proposal_id), (''reason'', JStr reason)])"

definition apply_params :: "string \<Rightarrow> u64 \<Rightarrow> string option \<Rightarrow> json" where
  "apply_params pid rows token =
     JObj ([(''proposal_id'', JStr pid), (''confirm_rows'', JUint rows)]
       @ (case token of Some t \<Rightarrow> [(''confirm_token'', JStr t)] | None \<Rightarrow> []))"

definition client_apply ::
  "('c, 'w) applyd_wire \<Rightarrow> string \<Rightarrow> u64 \<Rightarrow> string option \<Rightarrow> 'c applyd_client \<times> 'w \<Rightarrow> applyd_outcome \<times> 'c applyd_client \<times> 'w" where
  "client_apply wire proposal_id confirm_rows confirm_token =
     applyd_call wire ''apply'' (apply_params proposal_id confirm_rows confirm_token)"

section \<open>The transport to the proxy\<close>

definition DEFAULT_APP_NAME :: string where
  "DEFAULT_APP_NAME = ''pgb_mcp''"

datatype tls_mode = TlsDisabled | TlsRustls "bytes list"

record proxy_endpoint =
  pe_host :: string
  pe_port :: "16 word"
  pe_database :: string
  pe_user :: string
  pe_password :: string
  pe_application_name :: string
  pe_tls :: tls_mode
  pe_statement_timeout_ms :: u64

text \<open>The settings of the client library: the startup option is set when there is a timeout.\<close>

record pg_settings =
  st_host :: string
  st_port :: "16 word"
  st_dbname :: string
  st_user :: string
  st_password :: string
  st_application_name :: string
  st_options :: "string option"

definition mcp_pg_config :: "proxy_endpoint \<Rightarrow> pg_settings" where
  "mcp_pg_config c =
     \<lparr>st_host = pe_host c, st_port = pe_port c, st_dbname = pe_database c, st_user = pe_user c, st_password = pe_password c,
      st_application_name = pe_application_name c,
      st_options = (if pe_statement_timeout_ms c > 0
        then Some (''-c statement_timeout='' @ decimal (unat (pe_statement_timeout_ms c))) else None)\<rparr>"

text \<open>A cell, by the first type it decodes as; a floating number that is not finite has no JSON form.\<close>

datatype float_value = Finite string | NotFinite

datatype mcp_cell =
    CellBool "bool option"
  | CellInt8 "i64 option"
  | CellInt4 "i32 option"
  | CellInt2 "16 word option"
  | CellFloat8 "float_value option"
  | CellFloat4 "float_value option"
  | CellJson "json option"
  | CellText "string option"
  | CellOther string

type_synonym mcp_row = "(string \<times> mcp_cell) list"

definition json_int :: "i64 \<Rightarrow> json" where
  "json_int i = (if sint i < 0 then JSint i else JUint i)"

definition json_float :: "float_value option \<Rightarrow> json" where
  "json_float v = (case v of Some (Finite t) \<Rightarrow> JFloat t | _ \<Rightarrow> JNull)"

fun column_value_to_json :: "mcp_cell \<Rightarrow> json" where
  "column_value_to_json (CellBool v) = (case v of Some b \<Rightarrow> JBool b | None \<Rightarrow> JNull)"
| "column_value_to_json (CellInt8 v) = (case v of Some i \<Rightarrow> json_int i | None \<Rightarrow> JNull)"
| "column_value_to_json (CellInt4 v) = (case v of Some i \<Rightarrow> json_int (scast i) | None \<Rightarrow> JNull)"
| "column_value_to_json (CellInt2 v) = (case v of Some i \<Rightarrow> json_int (scast i) | None \<Rightarrow> JNull)"
| "column_value_to_json (CellFloat8 v) = json_float v"
| "column_value_to_json (CellFloat4 v) = json_float v"
| "column_value_to_json (CellJson v) = (case v of Some j \<Rightarrow> j | None \<Rightarrow> JNull)"
| "column_value_to_json (CellText v) = (case v of Some t \<Rightarrow> JStr t | None \<Rightarrow> JNull)"
| "column_value_to_json (CellOther type_name) = JStr (''<unrepresentable '' @ type_name @ ''>'')"

text \<open>Columns of the same name replace each other.\<close>

definition mcp_row_to_json :: "mcp_row \<Rightarrow> json" where
  "mcp_row_to_json row = JObj (foldl (\<lambda>kvs (name, c). AList.update name (column_value_to_json c) kvs) [] row)"

record pg_failure =
  pf_db_error :: "(string \<times> string) option"
  pf_text :: string

datatype read_error = ConnectionLost string | Denied block_contract

definition starts_with :: "string \<Rightarrow> string \<Rightarrow> bool" where
  "starts_with p s = (take (length p) s = p)"

definition classify_pg_error :: "pg_failure \<Rightarrow> read_error" where
  "classify_pg_error err =
     (case pf_db_error err of
        Some (code, message) \<Rightarrow>
          if code = ''42501'' then Denied (wall_denied message)
          else if starts_with ''08'' code \<or> code = ''57P01'' \<or> code = ''57P02'' \<or> code = ''57P03'' then ConnectionLost message
          else Denied (proxy_blocked message)
      | None \<Rightarrow> ConnectionLost (pf_text err))"

record ('c, 'w) proxy_wire =
  pw_add_root :: "bytes \<Rightarrow> string option"
  pw_connect :: "pg_settings \<Rightarrow> bytes list option \<Rightarrow> ('w, string, 'c) eff"
  pw_query :: "'c \<Rightarrow> string \<Rightarrow> ('w, pg_failure, mcp_row list) eff"
  pw_schema_columns :: "'c \<Rightarrow> string \<Rightarrow> ('w, pg_failure, (string \<times> string \<times> string \<times> string) list) eff"
  pw_as_f64 :: "json \<Rightarrow> string option"
  pw_json_text :: "json \<Rightarrow> string"

record 'c proxy_transport =
  pt_config :: proxy_endpoint
  pt_client :: "'c option"

definition proxy_transport_new :: "proxy_endpoint \<Rightarrow> 'c proxy_transport" where
  "proxy_transport_new config = \<lparr>pt_config = config, pt_client = None\<rparr>"

fun bad_root :: "(bytes \<Rightarrow> string option) \<Rightarrow> bytes list \<Rightarrow> string option" where
  "bad_root add [] = None"
| "bad_root add (der # ders) = (case add der of Some e \<Rightarrow> Some e | None \<Rightarrow> bad_root add ders)"

definition connect_or_block ::
  "('c, 'w) proxy_wire \<Rightarrow> pg_settings \<Rightarrow> bytes list option \<Rightarrow> ('w, block_contract, 'c) eff" where
  "connect_or_block wire cfg roots w =
     (case pw_connect wire cfg roots w of (Inl e, w') \<Rightarrow> (Inl (proxy_unavailable e), w') | (Inr c, w') \<Rightarrow> (Inr c, w'))"

definition proxy_dial :: "('c, 'w) proxy_wire \<Rightarrow> proxy_endpoint \<Rightarrow> ('w, block_contract, 'c) eff" where
  "proxy_dial wire config =
     (case pe_tls config of
        TlsDisabled \<Rightarrow> connect_or_block wire (mcp_pg_config config) None
      | TlsRustls roots \<Rightarrow>
          (case bad_root (pw_add_root wire) roots of
             Some e \<Rightarrow> efail (proxy_unavailable (''bad proxy trust anchor: '' @ e))
           | None \<Rightarrow> connect_or_block wire (mcp_pg_config config) (Some roots)))"

fun with_client_attempts ::
  "('c, 'w) proxy_wire \<Rightarrow> ('c \<Rightarrow> ('w, read_error, 'a) eff) \<Rightarrow> nat list \<Rightarrow> ('c proxy_transport \<times> 'w, block_contract, 'a) eff" where
  "with_client_attempts wire f [] s = (Inl (proxy_unavailable ''exhausted reconnect attempts''), s)"
| "with_client_attempts wire f (attempt # later) (pt, w) =
     (case (case pt_client pt of Some c \<Rightarrow> (Inr c, w) | None \<Rightarrow> proxy_dial wire (pt_config pt) w) of
        (Inl block, w1) \<Rightarrow> (Inl block, pt, w1)
      | (Inr c, w1) \<Rightarrow>
          (case f c w1 of
             (Inr v, w2) \<Rightarrow> (Inr v, pt\<lparr>pt_client := Some c\<rparr>, w2)
           | (Inl (ConnectionLost detail), w2) \<Rightarrow>
               if attempt = 0 then with_client_attempts wire f later (pt\<lparr>pt_client := None\<rparr>, w2)
               else (Inl (proxy_unavailable detail), pt\<lparr>pt_client := None\<rparr>, w2)
           | (Inl (Denied block), w2) \<Rightarrow> (Inl block, pt\<lparr>pt_client := Some c\<rparr>, w2)))"

definition with_client ::
  "('c, 'w) proxy_wire \<Rightarrow> ('c \<Rightarrow> ('w, read_error, 'a) eff) \<Rightarrow> ('c proxy_transport \<times> 'w, block_contract, 'a) eff" where
  "with_client wire f = with_client_attempts wire f [0, 1]"

text \<open>A query with its error classified.\<close>

definition classified :: "('w, pg_failure, 'a) eff \<Rightarrow> ('w, read_error, 'a) eff" where
  "classified q w = (case q w of (Inl e, w') \<Rightarrow> (Inl (classify_pg_error e), w') | (Inr x, w') \<Rightarrow> (Inr x, w'))"

definition proxy_query :: "('c, 'w) proxy_wire \<Rightarrow> string \<Rightarrow> ('c proxy_transport \<times> 'w, block_contract, json list) eff" where
  "proxy_query wire sql = with_client wire (\<lambda>c. ebind (classified (pw_query wire c sql)) (\<lambda>rows. eret (map mcp_row_to_json rows)))"

definition explain_sql :: "string \<Rightarrow> string" where
  "explain_sql inner_sql = ''EXPLAIN (FORMAT JSON) '' @ inner_sql"

text \<open>The plan is the first column of the first row, when it decodes as JSON.\<close>

definition plan_from_rows :: "('c, 'w) proxy_wire \<Rightarrow> mcp_row list \<Rightarrow> string \<times> string" where
  "plan_from_rows wire rows =
     (let plan_value = (case rows of ((_, CellJson (Some j)) # _) # _ \<Rightarrow> j | _ \<Rightarrow> JNull);
          cost = (case plan_value of
              JArr (t # _) \<Rightarrow> Option.bind (Option.bind (json_get t ''Plan'') (\<lambda>p. json_get p ''Total Cost'')) (pw_as_f64 wire)
            | _ \<Rightarrow> None)
      in (pw_json_text wire plan_value, case cost of Some c \<Rightarrow> c | None \<Rightarrow> ''0.0''))"

definition proxy_explain :: "('c, 'w) proxy_wire \<Rightarrow> string \<Rightarrow> ('c proxy_transport \<times> 'w, block_contract, string \<times> string) eff" where
  "proxy_explain wire inner_sql =
     with_client wire (\<lambda>c. ebind (classified (pw_query wire c (explain_sql inner_sql))) (\<lambda>rows. eret (plan_from_rows wire rows)))"

definition schema_sql :: string where
  "schema_sql = ''SELECT table_schema AS schema, table_name AS '' @ [CHR 0x22] @ ''table'' @ [CHR 0x22] @ '', column_name AS '' @ [CHR 0x22]
     @ ''column'' @ [CHR 0x22] @ '', data_type AS '' @ [CHR 0x22] @ ''type'' @ [CHR 0x22]
     @ '' FROM information_schema.columns WHERE table_schema NOT IN ('' @ [CHR 0x27] @ ''pg_catalog'' @ [CHR 0x27] @ '', '' @ [CHR 0x27]
     @ ''information_schema'' @ [CHR 0x27] @ '') ORDER BY table_schema, table_name, ordinal_position''"

definition proxy_discover_schema ::
  "('c, 'w) proxy_wire \<Rightarrow> ('c proxy_transport \<times> 'w, block_contract, (string \<times> string \<times> string \<times> string) list) eff" where
  "proxy_discover_schema wire = with_client wire (\<lambda>c. classified (pw_schema_columns wire c schema_sql))"

definition schema_column :: "string \<times> string \<times> string \<times> string \<Rightarrow> json" where
  "schema_column c =
     (case c of (sch, tab, col, ty) \<Rightarrow>
       JObj [(''schema'', JStr sch), (''table'', JStr tab), (''column'', JStr col), (''data_type'', JStr ty)])"

section \<open>The audit tail\<close>

definition clamp_limit :: "u64 \<Rightarrow> u64" where
  "clamp_limit limit = (if limit = 0 then 50 else min limit 1000)"

fun decision_upper :: "decision \<Rightarrow> string" where
  "decision_upper DecisionAllow = ''ALLOW''"
| "decision_upper DecisionBlock = ''BLOCK''"
| "decision_upper DecisionReject = ''REJECT''"

definition audit_view :: "'i audit_record \<Rightarrow> json" where
  "audit_view rec =
     JObj [(''seq'', JUint (au_seq (ar_payload rec))), (''decision'', JStr (decision_upper (au_decision (ar_payload rec)))),
       (''statement_class'', JStr (au_reason_code (ar_payload rec)))]"

text \<open>The reader: its DSN and the blocking task that connects and loads the chain, which may itself fail.\<close>

datatype ('e, 'a) joined = JoinFailed string | Joined "'e + 'a"

definition audit_tail ::
  "(string \<Rightarrow> 'w \<Rightarrow> (string, 'i audit_record list) joined \<times> 'w) \<Rightarrow> string \<Rightarrow> u64 \<Rightarrow> ('w, block_contract, json list) eff" where
  "audit_tail load_task dsn limit w =
     (case load_task dsn w of (result, w') \<Rightarrow>
       (case result of
          Joined (Inr chain) \<Rightarrow> Inr (map audit_view (drop (length chain - unat (clamp_limit limit)) chain))
        | Joined (Inl detail) \<Rightarrow> Inl (block_new ''AUDIT_UNAVAILABLE'' (''the `_meta` audit tail could not be read: '' @ detail)
            (''the audit `_meta` DB may be unreachable or unconfigured; retry, or check PGB_META_DSN / the reader role'' @ [CHR 0x27] @ ''s SELECT grant'') True)
        | JoinFailed join_err \<Rightarrow> Inl (block_new ''AUDIT_UNAVAILABLE'' (''the audit read task failed: '' @ join_err)
            ''retry the get_audit call'' True), w'))"

section \<open>The tools\<close>

record ('pc, 'ac) mcp_server =
  mp_role :: string
  mp_session_id :: string
  mp_proxy :: "'pc proxy_transport option"
  mp_applyd :: "'ac applyd_client option"
  mp_audit :: "string option"

definition mcp_new :: "string \<Rightarrow> string \<Rightarrow> ('pc, 'ac) mcp_server" where
  "mcp_new role session_id = \<lparr>mp_role = role, mp_session_id = session_id, mp_proxy = None, mp_applyd = None, mp_audit = None\<rparr>"

definition with_proxy :: "'pc proxy_transport \<Rightarrow> ('pc, 'ac) mcp_server \<Rightarrow> ('pc, 'ac) mcp_server" where
  "with_proxy pt m = m\<lparr>mp_proxy := Some pt\<rparr>"

definition with_applyd :: "'ac applyd_client \<Rightarrow> ('pc, 'ac) mcp_server \<Rightarrow> ('pc, 'ac) mcp_server" where
  "with_applyd cl m = m\<lparr>mp_applyd := Some cl\<rparr>"

definition with_audit :: "string \<Rightarrow> ('pc, 'ac) mcp_server \<Rightarrow> ('pc, 'ac) mcp_server" where
  "with_audit dsn m = m\<lparr>mp_audit := Some dsn\<rparr>"

text \<open>What the server is given: the SQL parser and visitor of the classifier, the two wires, and the task that loads the audit chain.\<close>

record ('pc, 'ac, 'i, 'w) mcp_env =
  me_parse_sql :: "string \<Rightarrow> sq_statement list option"
  me_visit :: "sq_statement \<Rightarrow> expr_node list"
  me_proxy :: "('pc, 'w) proxy_wire"
  me_applyd :: "('ac, 'w) applyd_wire"
  me_load :: "string \<Rightarrow> 'w \<Rightarrow> (string, 'i audit_record list) joined \<times> 'w"

definition me_is_read :: "('pc, 'ac, 'i, 'w) mcp_env \<Rightarrow> string \<Rightarrow> bool" where
  "me_is_read env sql = (classify_sql (me_parse_sql env) (me_visit env) sql = ClassRead)"

datatype tool_result = ToolOk json | ToolError json

definition block_json :: "block_contract \<Rightarrow> json" where
  "block_json b =
     JObj [(''status'', JStr ''blocked''), (''code'', JStr (bc_code b)), (''reason'', JStr (bc_reason b)),
       (''remedy'', JStr (bc_remedy b)), (''retryable'', JBool (bc_retryable b))]"

definition structured_block :: "block_contract \<Rightarrow> tool_result" where
  "structured_block b = ToolError (block_json b)"

definition whoami_json :: "whoami_result \<Rightarrow> json" where
  "whoami_json wa =
     JObj [(''role'', JStr (wa_role wa)), (''session_id'', JStr (wa_session_id wa)),
       (''security_boundary'', JBool (wa_security_boundary wa)), (''boundary'', JStr (wa_boundary wa)),
       (''tools'', JArr (map JStr (wa_tools wa)))]"

definition no_proxy_block :: block_contract where
  "no_proxy_block = proxy_unavailable ''no proxy endpoint is configured (set PGB_PROXY_HOST/PORT/DB/USER/PASSWORD)''"

definition no_applyd_block :: block_contract where
  "no_applyd_block =
     block_new ''APPLYD_UNAVAILABLE'' ''no applyd write daemon is configured (set PGB_APPLYD_SOCKET)''
       ''configure the applyd socket path; retry once the write daemon is up'' True"

type_synonym ('pc, 'ac, 'w) tool = "('pc, 'ac) mcp_server \<times> 'w \<Rightarrow> tool_result \<times> ('pc, 'ac) mcp_server \<times> 'w"

text \<open>A tool that needs the proxy, and one that needs the daemon.\<close>

definition through_proxy ::
  "('pc proxy_transport \<times> 'w, block_contract, 'a) eff \<Rightarrow> ('a \<Rightarrow> json) \<Rightarrow> ('pc, 'ac, 'w) tool" where
  "through_proxy run show_result s =
     (case s of (m, w) \<Rightarrow> (case mp_proxy m of
        None \<Rightarrow> (structured_block no_proxy_block, m, w)
      | Some pt \<Rightarrow> (case run (pt, w) of
            (Inl block, pt', w') \<Rightarrow> (structured_block block, m\<lparr>mp_proxy := Some pt'\<rparr>, w')
          | (Inr x, pt', w') \<Rightarrow> (ToolOk (show_result x), m\<lparr>mp_proxy := Some pt'\<rparr>, w'))))"

definition through_applyd ::
  "('ac applyd_client \<times> 'w \<Rightarrow> applyd_outcome \<times> 'ac applyd_client \<times> 'w) \<Rightarrow> (json \<Rightarrow> json) \<Rightarrow> ('pc, 'ac, 'w) tool" where
  "through_applyd run show_result s =
     (case s of (m, w) \<Rightarrow> (case mp_applyd m of
        None \<Rightarrow> (structured_block no_applyd_block, m, w)
      | Some cl \<Rightarrow> (case run (cl, w) of
            (ApplydBlocked block, cl', w') \<Rightarrow> (structured_block block, m\<lparr>mp_applyd := Some cl'\<rparr>, w')
          | (ApplydOk x, cl', w') \<Rightarrow> (ToolOk (show_result x), m\<lparr>mp_applyd := Some cl'\<rparr>, w'))))"

definition rows_json :: "json list \<Rightarrow> json" where
  "rows_json rows = JObj [(''status'', JStr ''ok''), (''rows'', JArr rows), (''rowCount'', JUint (word_of_nat (length rows)))]"

definition tool_query :: "('pc, 'ac, 'i, 'w) mcp_env \<Rightarrow> string \<Rightarrow> ('pc, 'ac, 'w) tool" where
  "tool_query env sql s =
     (if \<not> me_is_read env sql then (structured_block (read_only_block ''write/DDL or stacked statement''), s)
      else through_proxy (proxy_query (me_proxy env) sql) rows_json s)"

definition tool_explain :: "('pc, 'ac, 'i, 'w) mcp_env \<Rightarrow> string \<Rightarrow> ('pc, 'ac, 'w) tool" where
  "tool_explain env sql s =
     (if \<not> me_is_read env sql
      then (structured_block (read_only_block ''write/DDL or stacked statement (explain_plan plans read-only statements)''), s)
      else through_proxy (proxy_explain (me_proxy env) sql)
        (\<lambda>(plan, cost). JObj [(''status'', JStr ''ok''), (''plan'', JStr plan), (''cost'', JFloat cost)]) s)"

definition tool_discover_schema :: "('pc, 'ac, 'i, 'w) mcp_env \<Rightarrow> ('pc, 'ac, 'w) tool" where
  "tool_discover_schema env =
     through_proxy (proxy_discover_schema (me_proxy env))
       (\<lambda>columns. JObj [(''status'', JStr ''ok''), (''columns'', JArr (map schema_column columns))])"

definition tool_get_audit :: "('pc, 'ac, 'i, 'w) mcp_env \<Rightarrow> u64 \<Rightarrow> ('pc, 'ac, 'w) tool" where
  "tool_get_audit env limit s =
     (case s of (m, w) \<Rightarrow> (case mp_audit m of
        None \<Rightarrow> (structured_block (block_new ''AUDIT_UNAVAILABLE'' ''no `_meta` audit reader is configured (set PGB_META_DSN)''
          ''configure the `_meta` reader DSN to read the audit tail'' True), m, w)
      | Some dsn \<Rightarrow> (case audit_tail (me_load env) dsn limit w of
            (Inl block, w') \<Rightarrow> (structured_block block, m, w')
          | (Inr records, w') \<Rightarrow> (ToolOk (JObj [(''status'', JStr ''ok''), (''records'', JArr records)]), m, w'))))"

definition tool_propose_write :: "('pc, 'ac, 'i, 'w) mcp_env \<Rightarrow> string \<Rightarrow> u64 option \<Rightarrow> ('pc, 'ac, 'w) tool" where
  "tool_propose_write env sql expected_rows =
     through_applyd (client_propose (me_applyd env) sql expected_rows)
       (\<lambda>result. JObj [(''status'', JStr ''ok''), (''proposal_id'', get_or_null result ''proposal_id''),
          (''ttl_millis'', get_or_null result ''ttl_millis'')])"

fun verdict_upper :: "verdict \<Rightarrow> string" where
  "verdict_upper Allow = ''ALLOW''"
| "verdict_upper Escalate = ''ESCALATE''"
| "verdict_upper Hold = ''HOLD''"
| "verdict_upper Block = ''BLOCK''"

text \<open>The verdict of the stub is shown; it sees the measured row count and nothing else of the write.\<close>

definition stub_risk :: "u64 \<Rightarrow> risk_verdict" where
  "stub_risk total_rows =
     allow_stub_assess \<lparr>ri_sql = [], ri_schema = [],
       ri_measured_stats = \<lparr>ms_rows_affected = Some total_rows, ms_bytes = None, ms_estimated_cost = None, ms_wal_bytes = None\<rparr>,
       ri_intent_tiers = ()\<rparr>"

definition risk_json :: "risk_verdict \<Rightarrow> json" where
  "risk_json risk =
     JObj [(''verdict'', JStr (verdict_upper (rv_verdict risk))),
       (''reason'', JStr (case rv_reason risk of EngineReason r \<Rightarrow> r | ClampedToFloor _ _ \<Rightarrow> [])), (''confidence'', JFloat ''1.0'')]"

definition dry_run_json :: "json \<Rightarrow> json" where
  "dry_run_json result =
     (let total_rows = (case Option.bind (json_get result ''total_rows'') as_u64 of Some n \<Rightarrow> n | None \<Rightarrow> 0);
          reversible = (case Option.bind (json_get result ''reversible'') as_bool of Some b \<Rightarrow> b | None \<Rightarrow> False)
      in JObj [(''status'', JStr ''ok''),
           (''blast_radius'', JObj [(''total_rows'', JUint total_rows), (''pk_set_checksum'', get_or_null result ''pk_set_checksum''),
              (''reversible'', JBool reversible)]),
           (''risk'', risk_json (stub_risk total_rows)), (''confirm_token'', get_or_null result ''confirm_token'')])"

definition tool_dry_run :: "('pc, 'ac, 'i, 'w) mcp_env \<Rightarrow> string \<Rightarrow> ('pc, 'ac, 'w) tool" where
  "tool_dry_run env proposal_id = through_applyd (client_dry_run (me_applyd env) proposal_id) dry_run_json"

definition tool_request_elevation :: "('pc, 'ac, 'i, 'w) mcp_env \<Rightarrow> string \<Rightarrow> string \<Rightarrow> ('pc, 'ac, 'w) tool" where
  "tool_request_elevation env proposal_id reason =
     through_applyd (client_request_elevation (me_applyd env) proposal_id reason)
       (\<lambda>result. JObj [(''status'', JStr ''ok''), (''request_id'', get_or_null result ''request_id''),
          (''ttl_millis'', get_or_null result ''ttl_millis''), (''cap_max_rows'', get_or_null result ''cap_max_rows''),
          (''cap_max_wal_bytes'', get_or_null result ''cap_max_wal_bytes''),
          (''side_effecting_triggers'', case json_get result ''side_effecting_triggers'' of Some x \<Rightarrow> x | None \<Rightarrow> JArr [])])"

definition tool_apply_write :: "('pc, 'ac, 'i, 'w) mcp_env \<Rightarrow> string \<Rightarrow> u64 option \<Rightarrow> string option \<Rightarrow> ('pc, 'ac, 'w) tool" where
  "tool_apply_write env proposal_id confirm_rows confirm_token s =
     (case confirm_rows of
        None \<Rightarrow> (structured_block (block_new ''CONFIRM_REQUIRED''
            (''apply requires confirm_rows: confirm the dry-run'' @ [CHR 0x27] @ ''s affected row count first'')
            ''re-call apply_write with confirm_rows set to the dry_run blast_radius.total_rows'' True), s)
      | Some rows \<Rightarrow>
          through_applyd (client_apply (me_applyd env) proposal_id rows confirm_token)
            (\<lambda>result. JObj [(''status'', JStr ''ok''),
               (''applied'', JBool (case Option.bind (json_get result ''applied'') as_bool of Some b \<Rightarrow> b | None \<Rightarrow> True)),
               (''reversible'', JBool (case Option.bind (json_get result ''reversible'') as_bool of Some b \<Rightarrow> b | None \<Rightarrow> False))]) s)"

definition arg_str :: "(string \<times> json) list \<Rightarrow> string \<Rightarrow> string" where
  "arg_str args key = (case Option.bind (map_of args key) as_str of Some t \<Rightarrow> t | None \<Rightarrow> [])"

text \<open>A call of a tool; a name that is no tool is an error of the protocol.\<close>

definition mcp_dispatch ::
  "('pc, 'ac, 'i, 'w) mcp_env \<Rightarrow> string \<Rightarrow> (string \<times> json) list \<Rightarrow> ('pc, 'ac) mcp_server \<times> 'w
    \<Rightarrow> (string + tool_result) \<times> ('pc, 'ac) mcp_server \<times> 'w" where
  "mcp_dispatch env name args s =
     (let run = (\<lambda>tool. case tool s of (r, s') \<Rightarrow> (Inr r, s')) in
      if name = ''whoami'' then (Inr (ToolOk (whoami_json (whoami_new (mp_role (fst s)) (mp_session_id (fst s)) TOOL_NAMES))), s)
      else if name = ''query'' then run (tool_query env (arg_str args ''sql''))
      else if name = ''explain_plan'' then run (tool_explain env (arg_str args ''sql''))
      else if name = ''discover_schema'' then run (tool_discover_schema env)
      else if name = ''get_audit''
      then run (tool_get_audit env (case Option.bind (map_of args ''limit'') as_u64 of Some n \<Rightarrow> n | None \<Rightarrow> 0))
      else if name = ''propose_write''
      then run (tool_propose_write env (arg_str args ''sql'') (Option.bind (map_of args ''expected_rows'') as_u64))
      else if name = ''dry_run'' then run (tool_dry_run env (arg_str args ''proposal_id''))
      else if name = ''request_elevation''
      then run (tool_request_elevation env (arg_str args ''proposal_id'') (arg_str args ''reason''))
      else if name = ''apply_write''
      then run (tool_apply_write env (arg_str args ''proposal_id'') (Option.bind (map_of args ''confirm_rows'') as_u64)
             (Option.bind (map_of args ''confirm_token'') as_str))
      else (Inl (''no such tool: '' @ name), s))"

text \<open>The tools as they are listed, and a call as the protocol delivers it.\<close>

definition list_tools :: "(string \<times> string \<times> (string \<times> json) list) list" where
  "list_tools = map (\<lambda>spec. (ts_name spec, ts_description spec,
     case ts_input_schema spec of JObj kvs \<Rightarrow> kvs | _ \<Rightarrow> [])) catalog"

definition call_tool ::
  "('pc, 'ac, 'i, 'w) mcp_env \<Rightarrow> string \<Rightarrow> (string \<times> json) list option \<Rightarrow> ('pc, 'ac) mcp_server \<times> 'w
    \<Rightarrow> (string + tool_result) \<times> ('pc, 'ac) mcp_server \<times> 'w" where
  "call_tool env name arguments = mcp_dispatch env name (case arguments of Some args \<Rightarrow> args | None \<Rightarrow> [])"

section \<open>What every tool answers\<close>

text \<open>The tools that are dispatched are the tools that are listed.\<close>

lemma listed_names: "map fst list_tools = TOOL_NAMES"
  by (simp add: list_tools_def catalog_def TOOL_NAMES_def)

lemma dispatched_iff_listed: "(\<exists>e. fst (mcp_dispatch env name args s) = Inl e) \<longleftrightarrow> name \<notin> fst ` set list_tools"
proof -
  have "(\<exists>e. fst (mcp_dispatch env name args s) = Inl e) \<longleftrightarrow> name \<notin> set TOOL_NAMES"
    by (auto simp: mcp_dispatch_def TOOL_NAMES_def Let_def prod.case_eq_if)
  then show ?thesis by (simp add: listed_names [symmetric])
qed

lemma through_answers_block:
  "fst (through_proxy run shown s) = ToolError j \<Longrightarrow> \<exists>b. j = block_json b"
  "fst (through_applyd run' shown' s) = ToolError j \<Longrightarrow> \<exists>b. j = block_json b"
  by (auto simp: through_proxy_def through_applyd_def structured_block_def split: prod.splits option.splits sum.splits applyd_outcome.splits)

text \<open>A denial is always the block contract, whatever the proxy, the daemon or the audit store did.\<close>

lemma denials_are_blocks:
  assumes "fst (mcp_dispatch env name args s) = Inr (ToolError j)"
  shows "\<exists>b. j = block_json b"
proof -
  have audit: "fst (tool_get_audit env limit s) = ToolError j \<Longrightarrow> \<exists>b. j = block_json b" for limit
    by (auto simp: tool_get_audit_def structured_block_def split: prod.splits option.splits sum.splits)
  show ?thesis
    using assms
    by (auto simp: mcp_dispatch_def tool_query_def tool_explain_def tool_discover_schema_def tool_propose_write_def tool_dry_run_def
        tool_request_elevation_def tool_apply_write_def structured_block_def prod.case_eq_if Let_def
        split: if_splits option.splits dest: through_answers_block audit)
qed

lemma audit_tail_bounded: "fst (audit_tail load_task dsn limit w) = Inr records \<Longrightarrow> length records \<le> 1000"
proof -
  have "unat (clamp_limit limit) \<le> 1000"
  proof (cases "limit = 0")
    case False
    have "min limit 1000 \<le> 1000" by simp
    then have "unat (min limit 1000) \<le> unat (1000 :: u64)" by (simp only: word_le_nat_alt)
    with False show ?thesis by (simp add: clamp_limit_def)
  qed (simp add: clamp_limit_def)
  then show "fst (audit_tail load_task dsn limit w) = Inr records \<Longrightarrow> length records \<le> 1000"
    by (auto simp: audit_tail_def split: prod.splits joined.splits sum.splits)
qed

end
