(* ===== verification/Mcp_Start.thy ===== *)
theory Mcp_Start
  imports Mcp_Server Process_Start
begin

text \<open>
  The start of the agent's server (\<^verbatim>\<open>crates/mcp/src/bin/pgb_mcp.rs\<close>): the server it builds from the
  environment, the optional policy and the trust anchors. The environment, the files, the YAML parser
  and the PEM reader are parameters.
\<close>

record ('p, 'io) mcp_start_env =
  mse_getenv :: "string \<Rightarrow> string option"
  mse_pid :: u32
  mse_read_to_string :: "string \<Rightarrow> 'io + string"
  mse_read :: "string \<Rightarrow> 'io + bytes"
  mse_certificates :: "bytes \<Rightarrow> string + bytes list"
  mse_from_yaml :: "string \<Rightarrow> 'p + policy_config"

datatype ('p, 'io) mcp_start_error =
    McpPolicyUnreadable string 'io
  | McpPolicyInvalid string "'p policy_error"
  | McpNoCa
  | McpCaUnreadable string 'io
  | McpCaUnparsed string
  | McpCaEmpty string
  | McpNotANumber string

definition mcp_env_or :: "('p, 'io) mcp_start_env \<Rightarrow> string \<Rightarrow> string \<Rightarrow> string" where
  "mcp_env_or env key dflt = (case mse_getenv env key of Some v \<Rightarrow> if v \<noteq> [] then v else dflt | None \<Rightarrow> dflt)"

text \<open>Anything else than the eight words is as if the variable were not set.\<close>

definition mcp_env_bool :: "('p, 'io) mcp_start_env \<Rightarrow> string \<Rightarrow> bool option" where
  "mcp_env_bool env key =
     (case mse_getenv env key of
        None \<Rightarrow> None
      | Some v \<Rightarrow>
          let t = to_ascii_lowercase (trim v) in
          if t = ''true'' \<or> t = ''1'' \<or> t = ''yes'' \<or> t = ''on'' then Some True
          else if t = ''false'' \<or> t = ''0'' \<or> t = ''no'' \<or> t = ''off'' then Some False
          else None)"

definition nonempty_env :: "('p, 'io) mcp_start_env \<Rightarrow> string \<Rightarrow> string option" where
  "nonempty_env env key = (case mse_getenv env key of Some v \<Rightarrow> if v \<noteq> [] then Some v else None | None \<Rightarrow> None)"

definition resolve_meta_dsn :: "policy_config option \<Rightarrow> ('p, 'io) mcp_start_env \<Rightarrow> string option" where
  "resolve_meta_dsn policy env =
     (case nonempty_env env ''PGB_META_DSN'' of
        Some dsn \<Rightarrow> Some dsn
      | None \<Rightarrow>
          Option.bind policy (\<lambda>p. Option.bind (pc_audit_target p) (\<lambda>target.
            let base = dsn_target_dsn target in
            case nonempty_env env ''PGB_META_PASSWORD'' of Some pw \<Rightarrow> Some (base @ '' password='' @ pw) | None \<Rightarrow> Some base)))"

definition mcp_load_policy :: "('p, 'io) mcp_start_env \<Rightarrow> ('p, 'io) mcp_start_error + policy_config option" where
  "mcp_load_policy env =
     (case nonempty_env env ''PGB_POLICY_PATH'' of
        None \<Rightarrow> Inr None
      | Some path \<Rightarrow>
          (case mse_read_to_string env path of
             Inl e \<Rightarrow> Inl (McpPolicyUnreadable path e)
           | Inr yaml \<Rightarrow> (case load_from_yaml (mse_from_yaml env) yaml of
                 Inl e \<Rightarrow> Inl (McpPolicyInvalid path e)
               | Inr cfg \<Rightarrow> Inr (Some cfg))))"

definition build_tls :: "('p, 'io) mcp_start_env \<Rightarrow> ('p, 'io) mcp_start_error + tls_mode" where
  "build_tls env =
     (let ca_path = nonempty_env env ''PGB_PROXY_TLS_CA'';
          require_tls = (case mcp_env_bool env ''PGB_PROXY_REQUIRE_TLS'' of Some b \<Rightarrow> b | None \<Rightarrow> ca_path \<noteq> None) in
      if \<not> require_tls then Inr TlsDisabled
      else case ca_path of
        None \<Rightarrow> Inl McpNoCa
      | Some path \<Rightarrow>
          (case mse_read env path of
             Inl e \<Rightarrow> Inl (McpCaUnreadable path e)
           | Inr pem \<Rightarrow> (case mse_certificates env pem of
                 Inl e \<Rightarrow> Inl (McpCaUnparsed e)
               | Inr roots \<Rightarrow> if roots = [] then Inl (McpCaEmpty path) else Inr (TlsRustls roots))))"

definition number_or :: "string \<Rightarrow> 'a option \<Rightarrow> ('p, 'io) mcp_start_error + 'a" where
  "number_or key n = (case n of Some k \<Rightarrow> Inr k | None \<Rightarrow> Inl (McpNotANumber key))"

definition build_server :: "('p, 'io) mcp_start_env \<Rightarrow> ('p, 'io) mcp_start_error + ('pc, 'ac) mcp_server" where
  "build_server env =
     (let role = mcp_env_or env ''PGB_ROLE'' ''pgb_agent'';
          session_id = mcp_env_or env ''PGB_SESSION_ID'' (''mcp-'' @ decimal (unat (mse_pid env))) in
      rbind (mcp_load_policy env) (\<lambda>policy.
      rbind (number_or ''PGB_PROXY_PORT'' (parse_u16 (mcp_env_or env ''PGB_PROXY_PORT'' ''6432''))) (\<lambda>port.
      rbind (build_tls env) (\<lambda>tls.
      rbind (number_or ''PGB_STATEMENT_TIMEOUT_MS'' (parse_u64 (mcp_env_or env ''PGB_STATEMENT_TIMEOUT_MS'' ''30000''))) (\<lambda>timeout.
      let proxy_cfg = \<lparr>pe_host = mcp_env_or env ''PGB_PROXY_HOST'' ''127.0.0.1'', pe_port = port,
            pe_database = mcp_env_or env ''PGB_PROXY_DB'' ''postgres'', pe_user = mcp_env_or env ''PGB_PROXY_USER'' ''pgb_agent'',
            pe_password = mcp_env_or env ''PGB_PROXY_PASSWORD'' [],
            pe_application_name = mcp_env_or env ''PGB_PROXY_APP_NAME'' DEFAULT_APP_NAME, pe_tls = tls,
            pe_statement_timeout_ms = timeout\<rparr>;
          server = with_proxy (proxy_transport_new proxy_cfg) (mcp_new role session_id) in
      rbind (case nonempty_env env ''PGB_APPLYD_SOCKET'' of
          None \<Rightarrow> Inr server
        | Some socket_path \<Rightarrow>
            rbind (number_or ''PGB_APPLYD_TIMEOUT_MS''
                (parse_u64 (mcp_env_or env ''PGB_APPLYD_TIMEOUT_MS'' (decimal (unat DEFAULT_TIMEOUT_MS))))) (\<lambda>timeout_ms.
            Inr (with_applyd (applyd_client_new \<lparr>ad_socket_path = socket_path, ad_role = role, ad_session_id = session_id,
              ad_timeout_ms = timeout_ms\<rparr>) server))) (\<lambda>server.
      Inr (case resolve_meta_dsn policy env of Some dsn \<Rightarrow> with_audit dsn server | None \<Rightarrow> server)))))))"

section \<open>What a started server is\<close>

lemma build_tls_clear_iff:
  "build_tls env = Inr TlsDisabled \<longleftrightarrow>
     mcp_env_bool env ''PGB_PROXY_REQUIRE_TLS'' = Some False
     \<or> mcp_env_bool env ''PGB_PROXY_REQUIRE_TLS'' = None \<and> nonempty_env env ''PGB_PROXY_TLS_CA'' = None"
  by (auto simp: build_tls_def Let_def split: option.splits sum.splits if_splits)

lemma build_tls_roots: "build_tls env = Inr (TlsRustls roots) \<Longrightarrow> roots \<noteq> []"
  by (auto simp: build_tls_def Let_def split: option.splits sum.splits if_splits)

text \<open>
  A server that starts writes under the role and session it reports, trusts at least one anchor when
  it verifies the proxy at all, and reads the audit log from the override or from the policy's target.
\<close>

lemma started_server:
  assumes "build_server env = Inr m"
  shows "(\<exists>pt. mp_proxy m = Some pt \<and> pt_client pt = None \<and> build_tls env = Inr (pe_tls (pt_config pt)))
    \<and> (\<forall>cl. mp_applyd m = Some cl \<longrightarrow> cl_conn cl = None \<and> ad_role (cl_config cl) = mp_role m
         \<and> ad_session_id (cl_config cl) = mp_session_id m)
    \<and> (\<exists>policy. mcp_load_policy env = Inr policy \<and> mp_audit m = resolve_meta_dsn policy env)"
  using assms
  by (auto simp: build_server_def rbind_Inr_iff Let_def with_proxy_def with_applyd_def with_audit_def mcp_new_def
      proxy_transport_new_def applyd_client_new_def split: option.splits)

text \<open>
  The connection to the proxy, with the agent's password on it, is in the clear although nothing asks
  for that: without a certificate authority a value of the switch that is no word is taken for none.
\<close>

lemma unreadable_switch_is_clear:
  assumes "mse_getenv env ''PGB_PROXY_REQUIRE_TLS'' = Some v" "mse_getenv env ''PGB_PROXY_TLS_CA'' = None"
    and "to_ascii_lowercase (trim v) \<notin> {''true'', ''1'', ''yes'', ''on'', ''false'', ''0'', ''no'', ''off''}"
  shows "build_tls env = Inr TlsDisabled"
  using assms by (simp add: build_tls_clear_iff mcp_env_bool_def nonempty_env_def)

end
