(* ===== verification/Mcp_Agent.thy ===== *)
theory Mcp_Agent
  imports Mcp_Server Applyd_Safety Applyd_Line
begin

text \<open>
  What an agent can reach through the tools: every line that goes to the apply daemon and every
  statement that goes to the proxy, over any sequence of calls and any behaviour of the wires, and
  what follows for the daemon at the other end of the socket.
\<close>

section \<open>What a session sends\<close>

datatype sent = ToDaemon string | ToProxy string

text \<open>The environment with the lines and statements written into a log.\<close>

definition quietly :: "('w \<Rightarrow> 'a \<times> 'w) \<Rightarrow> 'w \<times> sent list \<Rightarrow> 'a \<times> 'w \<times> sent list" where
  "quietly f = (\<lambda>(w, log). case f w of (r, w') \<Rightarrow> (r, (w', log)))"

definition log_env :: "('pc, 'ac, 'i, 'w) mcp_env \<Rightarrow> ('pc, 'ac, 'i, 'w \<times> sent list) mcp_env" where
  "log_env env =
     (let ax = me_applyd env; px = me_proxy env
      in \<lparr>me_parse_sql = me_parse_sql env, me_visit = me_visit env,
          me_proxy =
            \<lparr>pw_add_root = pw_add_root px, pw_connect = (\<lambda>cfg roots. quietly (pw_connect px cfg roots)),
             pw_query = (\<lambda>c sql (w, log). case pw_query px c sql w of (r, w') \<Rightarrow> (r, (w', log @ [ToProxy sql]))),
             pw_schema_columns = (\<lambda>c sql (w, log). case pw_schema_columns px c sql w of (r, w') \<Rightarrow> (r, (w', log @ [ToProxy sql]))),
             pw_as_f64 = pw_as_f64 px, pw_json_text = pw_json_text px\<rparr>,
          me_applyd =
            \<lparr>wr_dial = (\<lambda>path. quietly (wr_dial ax path)),
             wr_exchange = (\<lambda>c line (w, log). case wr_exchange ax c line w of (r, w') \<Rightarrow> (r, (w', log @ [ToDaemon line]))),
             wr_render = wr_render ax, wr_reply = wr_reply ax\<rparr>,
          me_load = (\<lambda>dsn. quietly (me_load env dsn))\<rparr>)"

text \<open>Any calls, one after the other.\<close>

fun agent_session ::
  "('pc, 'ac, 'i, 'w) mcp_env \<Rightarrow> (string \<times> (string \<times> json) list option) list \<Rightarrow> ('pc, 'ac) mcp_server \<times> 'w \<Rightarrow> ('pc, 'ac) mcp_server \<times> 'w" where
  "agent_session env [] s = s"
| "agent_session env ((name, args) # calls) s = agent_session env calls (snd (call_tool env name args s))"

text \<open>What may be sent: for the daemon a request of one of four methods, with the configured role and session on a proposal.\<close>

definition agent_request :: "applyd_config \<Rightarrow> string \<Rightarrow> json \<Rightarrow> bool" where
  "agent_request config mth params =
     (mth \<in> {''dry_run'', ''request_elevation'', ''apply''}
      \<or> mth = ''propose'' \<and> json_get params ''role'' = Some (JStr (ad_role config))
         \<and> json_get params ''session_id'' = Some (JStr (ad_session_id config)))"

lemma agent_request_iff:
  "agent_request config mth params \<longleftrightarrow>
     mth \<in> {''propose'', ''dry_run'', ''request_elevation'', ''apply''}
     \<and> (mth = ''propose'' \<longrightarrow> json_get params ''role'' = Some (JStr (ad_role config))
         \<and> json_get params ''session_id'' = Some (JStr (ad_session_id config)))"
  by (auto simp: agent_request_def)

definition permitted :: "('pc, 'ac, 'i, 'w) mcp_env \<Rightarrow> applyd_config option \<Rightarrow> sent \<Rightarrow> bool" where
  "permitted env config x =
     (case x of
        ToDaemon line \<Rightarrow> (\<exists>c i mth params ln. config = Some c \<and> agent_request c mth params
          \<and> wr_render (me_applyd env) (request_json i mth params) = Inr ln \<and> line = ln @ [CHR 0x0A])
      | ToProxy sql \<Rightarrow> me_is_read env sql \<or> (\<exists>inner. me_is_read env inner \<and> sql = explain_sql inner) \<or> sql = schema_sql)"

text \<open>The configuration of the client is fixed, and the log only grows, by permitted entries.\<close>

definition daemon_config :: "('pc, 'ac) mcp_server \<Rightarrow> applyd_config option" where
  "daemon_config m = map_option cl_config (mp_applyd m)"

definition sends_permitted ::
  "('pc, 'ac, 'i, 'w) mcp_env \<Rightarrow> ('pc, 'ac) mcp_server \<times> 'w \<times> sent list \<Rightarrow> ('pc, 'ac) mcp_server \<times> 'w \<times> sent list \<Rightarrow> bool" where
  "sends_permitted env s s' =
     (daemon_config (fst s') = daemon_config (fst s)
      \<and> (\<exists>new. snd (snd s') = snd (snd s) @ new \<and> list_all (permitted env (daemon_config (fst s))) new))"

lemma sends_permitted_refl: "sends_permitted env s s"
  by (simp add: sends_permitted_def)

lemma sends_permitted_trans: "sends_permitted env s s' \<Longrightarrow> sends_permitted env s' s'' \<Longrightarrow> sends_permitted env s s''"
  by (fastforce simp: sends_permitted_def)

lemma logged_simps:
  "me_parse_sql (log_env env) = me_parse_sql env" "me_visit (log_env env) = me_visit env"
  "wr_render (me_applyd (log_env env)) = wr_render (me_applyd env)" "wr_reply (me_applyd (log_env env)) = wr_reply (me_applyd env)"
  by (simp_all add: log_env_def Let_def)

lemma logged_is_read [simp]: "me_is_read (log_env env) sql = me_is_read env sql"
  by (simp add: me_is_read_def logged_simps)

lemma logged_dial: "snd (snd (wr_dial (me_applyd (log_env env)) path w)) = snd w"
  by (cases w) (simp add: log_env_def quietly_def Let_def split: prod.split)

lemma logged_exchange: "snd (snd (wr_exchange (me_applyd (log_env env)) c line w)) = snd w @ [ToDaemon line]"
  by (cases w) (simp add: log_env_def quietly_def Let_def split: prod.split)

lemma logged_connect: "snd (snd (pw_connect (me_proxy (log_env env)) cfg roots w)) = snd w"
  by (cases w) (simp add: log_env_def quietly_def Let_def split: prod.split)

lemma logged_query: "snd (snd (pw_query (me_proxy (log_env env)) c sql w)) = snd w @ [ToProxy sql]"
  by (cases w) (simp add: log_env_def quietly_def Let_def split: prod.split)

lemma logged_schema: "snd (snd (pw_schema_columns (me_proxy (log_env env)) c sql w)) = snd w @ [ToProxy sql]"
  by (cases w) (simp add: log_env_def quietly_def Let_def split: prod.split)

lemma logged_load: "snd (snd (me_load (log_env env) dsn w)) = snd w"
  by (cases w) (simp add: log_env_def quietly_def Let_def split: prod.split)

section \<open>The daemon's client\<close>

definition extends_log :: "(sent \<Rightarrow> bool) \<Rightarrow> 'w \<times> sent list \<Rightarrow> 'w \<times> sent list \<Rightarrow> bool" where
  "extends_log P w w' = (\<exists>new. snd w' = snd w @ new \<and> list_all P new)"

lemma extends_log_same: "snd w' = snd w \<Longrightarrow> extends_log P w w'"
  by (simp add: extends_log_def)

lemma extends_log_one: "snd w' = snd w @ [x] \<Longrightarrow> P x \<Longrightarrow> extends_log P w w'"
  by (simp add: extends_log_def)

lemma extends_log_trans: "extends_log P w w' \<Longrightarrow> extends_log P w' w'' \<Longrightarrow> extends_log P w w''"
  by (fastforce simp: extends_log_def)

lemma round_trip_extends:
  assumes "round_trip (me_applyd (log_env env)) conn i mth params w = (r, w')" "agent_request c mth params"
  shows "extends_log (permitted env (Some c)) w w'"
proof (cases "wr_render (me_applyd env) (request_json i mth params)")
  case (Inl e)
  with assms(1) show ?thesis by (simp add: round_trip_def logged_simps extends_log_same)
next
  case (Inr ln)
  with assms(1) have "w' = snd (wr_exchange (me_applyd (log_env env)) conn (ln @ [CHR 0x0A]) w)"
    by (auto simp: round_trip_def logged_simps split: prod.splits)
  then have "snd w' = snd w @ [ToDaemon (ln @ [CHR 0x0A])]" by (simp add: logged_exchange)
  moreover have "permitted env (Some c) (ToDaemon (ln @ [CHR 0x0A]))" using assms(2) Inr by (auto simp: permitted_def)
  ultimately show ?thesis by (rule extends_log_one)
qed

lemma applyd_dial_extends: "applyd_dial (me_applyd (log_env env)) config w = (r, w') \<Longrightarrow> snd w' = snd w"
  using logged_dial [of env "ad_socket_path config" w]
  by (auto simp: applyd_dial_def split: prod.splits sum.splits)

lemma call_attempts_extends:
  assumes "call_attempts (me_applyd (log_env env)) mth params attempts (cl, w) = (r, cl', w')"
    and "agent_request (cl_config cl) mth params"
  shows "cl_config cl' = cl_config cl \<and> extends_log (permitted env (Some (cl_config cl))) w w'"
  using assms
proof (induction attempts arbitrary: cl w)
  case Nil
  then show ?case by (simp add: extends_log_same)
next
  case (Cons attempt later)
  let ?wire = "me_applyd (log_env env)"
  obtain d w1 where d: "(case cl_conn cl of Some c \<Rightarrow> (Inr c, w) | None \<Rightarrow> applyd_dial ?wire (cl_config cl) w) = (d, w1)" by (metis prod.exhaust)
  then have dialled: "snd w1 = snd w"
    using applyd_dial_extends [of env "cl_config cl" w d w1] by (auto split: option.splits)
  show ?case
  proof (cases d)
    case (Inl block)
    with Cons.prems d dialled show ?thesis by (simp add: extends_log_same)
  next
    case (Inr conn)
    obtain q w2 where q: "round_trip ?wire conn (cl_next_id cl) mth params w1 = (q, w2)" by (metis prod.exhaust)
    have one: "extends_log (permitted env (Some (cl_config cl))) w w2"
      using round_trip_extends [OF q Cons.prems(2)] dialled by (simp add: extends_log_def)
    let ?lost = "cl\<lparr>cl_next_id := cl_next_id cl + 1, cl_conn := None\<rparr>"
    note ih = Cons.IH [of ?lost w2]
    show ?thesis
      using Cons.prems d Inr q one ih extends_log_trans [OF one, of w']
      by (auto simp: Let_def split: sum.splits wire_error.splits if_splits)
  qed
qed

lemma applyd_call_extends:
  assumes "applyd_call (me_applyd (log_env env)) mth params (cl, w) = (r, cl', w')"
    and "agent_request (cl_config cl) mth params"
  shows "cl_config cl' = cl_config cl \<and> extends_log (permitted env (Some (cl_config cl))) w w'"
  using call_attempts_extends assms unfolding applyd_call_def by blast

text \<open>A tool over the daemon sends what its client call sends.\<close>

lemma through_applyd_permitted:
  assumes "\<And>cl w r cl' w'. run (cl, w) = (r, cl', w') \<Longrightarrow>
      cl_config cl' = cl_config cl \<and> extends_log (permitted env (Some (cl_config cl))) w w'"
  shows "sends_permitted env s (snd (through_applyd run shown s))"
proof -
  obtain m w where s: "s = (m, w)" by (cases s)
  show ?thesis
  proof (cases "mp_applyd m")
    case None
    then show ?thesis by (simp add: s through_applyd_def sends_permitted_refl)
  next
    case (Some cl)
    obtain r cl' w' where run: "run (cl, w) = (r, cl', w')" by (metis prod.exhaust)
    from assms [OF run] run Some show ?thesis
      by (auto simp: s through_applyd_def sends_permitted_def daemon_config_def extends_log_def split: applyd_outcome.split)
  qed
qed

lemma client_requests:
  "agent_request c ''propose'' (JObj ([(''sql'', JStr sql), (''role'', JStr (ad_role c)), (''session_id'', JStr (ad_session_id c))] @ more_params))"
  "agent_request c ''dry_run'' p" "agent_request c ''request_elevation'' p" "agent_request c ''apply'' p"
  by (simp_all add: agent_request_def)

lemma over_call_permitted:
  assumes "\<And>cl w. run (cl, w) = applyd_call (me_applyd (log_env env)) mth (params (cl_config cl)) (cl, w)"
    and "\<And>c. agent_request c mth (params c)"
  shows "sends_permitted env s (snd (through_applyd run shown s))"
  by (rule through_applyd_permitted) (metis applyd_call_extends assms)

lemma write_tools_permitted:
  "sends_permitted env s (snd (tool_propose_write (log_env env) sql expected s))"
  "sends_permitted env s (snd (tool_dry_run (log_env env) pid s))"
  "sends_permitted env s (snd (tool_request_elevation (log_env env) pid reason s))"
  "sends_permitted env s (snd (tool_apply_write (log_env env) pid rows token s))"
proof -
  show "sends_permitted env s (snd (tool_propose_write (log_env env) sql expected s))"
    unfolding tool_propose_write_def
    by (rule over_call_permitted [where params = "\<lambda>c. JObj ([(''sql'', JStr sql), (''role'', JStr (ad_role c)),
          (''session_id'', JStr (ad_session_id c))] @ (case expected of Some n \<Rightarrow> [(''expected_rows'', JUint n)] | None \<Rightarrow> []))"])
      (simp only: client_propose_def fst_conv, rule client_requests)
  show "sends_permitted env s (snd (tool_dry_run (log_env env) pid s))"
    unfolding tool_dry_run_def by (rule over_call_permitted) (simp only: client_dry_run_def, rule client_requests)
  show "sends_permitted env s (snd (tool_request_elevation (log_env env) pid reason s))"
    unfolding tool_request_elevation_def
    by (rule over_call_permitted) (simp only: client_request_elevation_def, rule client_requests)
  show "sends_permitted env s (snd (tool_apply_write (log_env env) pid rows token s))"
  proof (cases rows)
    case (Some n)
    show ?thesis unfolding tool_apply_write_def Some option.case
      by (rule over_call_permitted) (simp only: client_apply_def, rule client_requests)
  qed (simp add: tool_apply_write_def sends_permitted_refl)
qed

section \<open>The proxy's client\<close>

lemma proxy_dial_extends: "proxy_dial (me_proxy (log_env env)) config w = (r, w') \<Longrightarrow> snd w' = snd w"
  using logged_connect [of env "mcp_pg_config config" _ w]
  by (auto simp: proxy_dial_def connect_or_block_def split: tls_mode.splits option.splits prod.splits sum.splits) (metis snd_conv)+

lemma with_client_extends:
  assumes f: "\<And>c w r w'. f c w = (r, w') \<Longrightarrow> extends_log P w w'"
  shows "with_client_attempts (me_proxy (log_env env)) f attempts (pt, w) = (r, pt', w') \<Longrightarrow> extends_log P w w'"
proof (induction attempts arbitrary: pt w)
  case Nil
  then show ?case by (simp add: extends_log_same)
next
  case (Cons attempt later)
  let ?wire = "me_proxy (log_env env)"
  obtain d w1 where d: "(case pt_client pt of Some c \<Rightarrow> (Inr c, w) | None \<Rightarrow> proxy_dial ?wire (pt_config pt) w) = (d, w1)"
    by (metis prod.exhaust)
  then have dialled: "snd w1 = snd w"
    using proxy_dial_extends [of env "pt_config pt" w d w1] by (auto split: option.splits)
  show ?case
  proof (cases d)
    case (Inl block)
    with Cons.prems d dialled show ?thesis by (simp add: extends_log_same)
  next
    case (Inr c)
    obtain q w2 where q: "f c w1 = (q, w2)" by (metis prod.exhaust)
    have one: "extends_log P w w2" using f [OF q] dialled by (simp add: extends_log_def)
    show ?thesis
      using Cons.prems d Inr q one Cons.IH [of "pt\<lparr>pt_client := None\<rparr>" w2] extends_log_trans [OF one]
      by (auto split: sum.splits read_error.splits if_splits)
  qed
qed

lemma through_proxy_permitted:
  assumes "\<And>pt w r pt' w'. run (pt, w) = (r, pt', w') \<Longrightarrow> extends_log (permitted env (daemon_config (fst s))) w w'"
  shows "sends_permitted env s (snd (through_proxy run shown s))"
proof -
  obtain m w where s: "s = (m, w)" by (cases s)
  show ?thesis
  proof (cases "mp_proxy m")
    case None
    then show ?thesis by (simp add: s through_proxy_def sends_permitted_refl)
  next
    case (Some pt)
    obtain r pt' w' where run: "run (pt, w) = (r, pt', w')" by (metis prod.exhaust)
    from assms [OF run] run Some show ?thesis
      by (auto simp: s through_proxy_def sends_permitted_def daemon_config_def extends_log_def split: sum.split)
  qed
qed

lemma classified_query_extends:
  "ebind (classified (pw_query (me_proxy (log_env env)) c sql)) g w = (r, w') \<Longrightarrow> (\<And>x w. snd (g x w) = w) \<Longrightarrow>
     P (ToProxy sql) \<Longrightarrow> extends_log P w w'"
  using logged_query [of env c sql w]
  by (auto simp: ebind_def classified_def split: prod.splits sum.splits intro!: extends_log_one) (metis snd_conv)+

lemma read_tools_permitted:
  "sends_permitted env s (snd (tool_query (log_env env) sql s))"
  "sends_permitted env s (snd (tool_explain (log_env env) sql s))"
  "sends_permitted env s (snd (tool_discover_schema (log_env env) s))"
proof -
  show "sends_permitted env s (snd (tool_query (log_env env) sql s))"
  proof (cases "me_is_read env sql")
    case True
    then have "permitted env (daemon_config (fst s)) (ToProxy sql)" by (simp add: permitted_def)
    with True show ?thesis
      unfolding tool_query_def proxy_query_def with_client_def
      by (auto intro!: through_proxy_permitted elim!: with_client_extends [rotated] classified_query_extends)
  qed (simp add: tool_query_def sends_permitted_refl)
  show "sends_permitted env s (snd (tool_explain (log_env env) sql s))"
  proof (cases "me_is_read env sql")
    case True
    then have "permitted env (daemon_config (fst s)) (ToProxy (explain_sql sql))" by (auto simp: permitted_def)
    with True show ?thesis
      unfolding tool_explain_def proxy_explain_def with_client_def
      by (auto intro!: through_proxy_permitted elim!: with_client_extends [rotated] classified_query_extends)
  qed (simp add: tool_explain_def sends_permitted_refl)
  have "extends_log (permitted env cfg) w w'"
    if "classified (pw_schema_columns (me_proxy (log_env env)) c schema_sql) w = (r, w')" for cfg c w r w'
    using that logged_schema [of env c schema_sql w]
    by (auto simp: classified_def permitted_def split: prod.splits sum.splits intro!: extends_log_one)
  then show "sends_permitted env s (snd (tool_discover_schema (log_env env) s))"
    unfolding tool_discover_schema_def proxy_discover_schema_def with_client_def
    by (auto intro!: through_proxy_permitted elim!: with_client_extends [rotated])
qed

section \<open>A session\<close>

lemma get_audit_permitted: "sends_permitted env s (snd (tool_get_audit (log_env env) limit s))"
proof -
  obtain m w where s: "s = (m, w)" by (cases s)
  show ?thesis
  proof (cases "mp_audit m")
    case (Some dsn)
    obtain r w' where load: "me_load (log_env env) dsn w = (r, w')" by (metis prod.exhaust)
    then have "snd w' = snd w" using logged_load [of env dsn w] by simp
    with load Some show ?thesis
      by (auto simp: s tool_get_audit_def audit_tail_def sends_permitted_def split: joined.split sum.split)
  qed (simp add: s tool_get_audit_def sends_permitted_refl)
qed

lemmas tools_permitted = read_tools_permitted write_tools_permitted get_audit_permitted

lemma dispatch_permitted: "sends_permitted env s (snd (mcp_dispatch (log_env env) name args s))"
proof -
  have run: "snd (case x of (r, s') \<Rightarrow> (Inr r, s')) = snd x" for x :: "tool_result \<times> 'x"
    by (simp add: prod.case_eq_if)
  show ?thesis unfolding mcp_dispatch_def Let_def by (simp add: run tools_permitted sends_permitted_refl)
qed

lemma session_permitted: "sends_permitted env s (agent_session (log_env env) calls s)"
proof (induction calls arbitrary: s)
  case (Cons call calls)
  obtain name args where call: "call = (name, args)" by (cases call)
  have "sends_permitted env s (snd (call_tool (log_env env) name args s))"
    unfolding call_tool_def by (rule dispatch_permitted)
  from sends_permitted_trans [OF this Cons.IH] show ?case by (simp add: call)
qed (simp add: sends_permitted_refl)

text \<open>
  C16: whatever tools an agent calls, with whatever arguments, and however the proxy, the daemon and
  the audit store answer, a statement that the server sends to the proxy is one the classifier takes
  for a read, the plan-only explanation of one, or the fixed schema query; and a line it sends to the
  apply daemon is a request to propose, rehearse, elevate or apply, never to approve, in which a
  proposal carries the configured role and session.
\<close>

theorem agent_reaches_only_reads_and_requests:
  assumes "agent_session (log_env env) calls (m, w, []) = (m', w', log)" and "x \<in> set log"
  shows "case x of
      ToProxy sql \<Rightarrow> me_is_read env sql \<or> (\<exists>inner. me_is_read env inner \<and> sql = explain_sql inner) \<or> sql = schema_sql
    | ToDaemon line \<Rightarrow> (\<exists>c i mth params ln. daemon_config m = Some c \<and> line = ln @ [CHR 0x0A]
        \<and> wr_render (me_applyd env) (request_json i mth params) = Inr ln
        \<and> mth \<in> {''propose'', ''dry_run'', ''request_elevation'', ''apply''}
        \<and> (mth = ''propose'' \<longrightarrow> json_get params ''role'' = Some (JStr (ad_role c))
            \<and> json_get params ''session_id'' = Some (JStr (ad_session_id c))))"
proof -
  have "permitted env (daemon_config m) x"
    using session_permitted [of env "(m, w, [])" calls] assms by (auto simp: sends_permitted_def list_all_iff)
  then show ?thesis
  proof (cases x)
    case (ToDaemon line)
    with \<open>permitted env (daemon_config m) x\<close> obtain c i mth params ln where "daemon_config m = Some c" "agent_request c mth params"
      "wr_render (me_applyd env) (request_json i mth params) = Inr ln" "line = ln @ [CHR 0x0A]"
      by (auto simp: permitted_def)
    then show ?thesis unfolding ToDaemon sent.case agent_request_iff
      by (intro exI [of _ c] exI [of _ i] exI [of _ mth] exI [of _ params] exI [of _ ln]) simp
  qed (simp add: permitted_def)
qed

text \<open>The calls the daemon decodes from the lines of an agent.\<close>

lemma agent_line_calls:
  fixes js :: "json rpc_codec"
  assumes codec: "\<And>i mth params ln. wr_render (me_applyd env) (request_json i mth params) = Inr ln \<Longrightarrow>
      js_request js ln = Inr \<lparr>rq_jsonrpc = ''2.0'', rq_id = JUint i, rq_method = mth, rq_params = params\<rparr>"
    and session: "agent_session (log_env env) calls (m, w, []) = (m', w', log)" and sent: "ToDaemon line \<in> set log"
    and decoded: "snd (decode_line js (butlast line)) = (Inr call :: ('v, 'r) rpc_error + daemon_call)"
  shows "(\<forall>rid approver key nonce ttl. call \<noteq> Approve rid approver key nonce ttl) \<and> (\<forall>limit. call \<noteq> GetAudit limit)"
proof -
  have "permitted env (daemon_config m) (ToDaemon line)"
    using session_permitted [of env "(m, w, [])" calls] session sent by (auto simp: sends_permitted_def list_all_iff)
  then obtain c i mth params ln where r: "agent_request c mth params"
    and ln: "wr_render (me_applyd env) (request_json i mth params) = Inr ln" "line = ln @ [CHR 0x0A]"
    by (auto simp: permitted_def)
  have "mth \<in> {''propose'', ''dry_run'', ''request_elevation'', ''apply''}" using r by (auto simp: agent_request_def)
  then show ?thesis
    using decoded codec [OF ln(1)]
    by (auto simp: ln(2) decode_line_def JSONRPC_VERSION_def method_parse_def rbind_Inr_iff split: sum.splits)
qed

text \<open>
  C11: an agent that has the tools and nothing else cannot change the database. Whatever tools it
  calls, if what the daemon handles are lines the agent's server sent, in any order, repeated or
  dropped, no apply of the daemon ever commits. The codec reads back what it rendered.
\<close>

theorem agent_alone_never_commits:
  fixes js :: "json rpc_codec" and evs :: "('v, 'r) daemon_event list"
  assumes codec: "\<And>i mth params ln. wr_render (me_applyd env) (request_json i mth params) = Inr ln \<Longrightarrow>
      js_request js ln = Inr \<lparr>rq_jsonrpc = ''2.0'', rq_id = JUint i, rq_method = mth, rq_params = params\<rparr>"
    and session: "agent_session (log_env env) calls (m, w, []) = (m', w', log)"
    and run: "daemon_run cr from_bytes senv load rh conn vk evs svc"
    and lines: "\<And>call clk r tr. (call, clk, r, tr) \<in> set evs \<Longrightarrow>
      \<exists>line. ToDaemon line \<in> set log \<and> snd (decode_line js (butlast line)) = (Inr call :: ('v, 'r) rpc_error + daemon_call)"
  shows "filter committed evs = []"
proof -
  have "approval ev = None" if inside: "ev \<in> set evs" for ev
  proof -
    obtain call clk r tr where ev: "ev = (call, clk, r, tr)" by (cases ev)
    obtain line where "ToDaemon line \<in> set log" "snd (decode_line js (butlast line)) = (Inr call :: ('v, 'r) rpc_error + daemon_call)"
      using lines inside ev by blast
    from agent_line_calls [OF codec session this] show ?thesis by (auto simp: ev approval_def split: daemon_call.splits)
  qed
  then have "List.map_filter approval evs = []" by (auto simp: map_filter_def filter_empty_conv)
  then have "ins_used (sv_apply_nonces svc) = {}" using daemon_run_nonces [OF run] by (simp add: nonces_ok_def)
  moreover have "length (filter committed evs) \<le> card (ins_used (sv_apply_nonces svc))"
    using daemon_run_nonces [OF run] by (simp only: nonces_ok_def)
  ultimately show ?thesis by simp
qed

section \<open>An answer that is lost\<close>

text \<open>
  A wire to the daemon that handles each line as the daemon does, and whose first answer does not
  arrive: the socket closes after the call was handled.
\<close>

definition lossy_wire ::
  "'j rpc_codec \<Rightarrow> (daemon_call \<Rightarrow> ('d, ('v, 'r) rpc_error, daemon_result) eff) \<Rightarrow> (json \<Rightarrow> string + string)
    \<Rightarrow> (('j, 'v, 'r) rpc_response \<Rightarrow> string) \<Rightarrow> (string \<Rightarrow> string + rpc_reply) \<Rightarrow> (unit, 'd \<times> bool) applyd_wire" where
  "lossy_wire js handle render encode reply =
     \<lparr>wr_dial = (\<lambda>_ w. (Inr (), w)),
      wr_exchange = (\<lambda>_ line (d, lost). case dispatch_line js handle (butlast line) d of
        (resp, d') \<Rightarrow> (if lost then LineRead (encode resp) else EndOfFile, d', True)),
      wr_render = render, wr_reply = reply\<rparr>"

lemma applied_is_gone:
  assumes "daemon_dispatch cr from_bytes senv load rh conn (Apply pid rows token) clk st = (Inr res, st')"
  shows "daemon_dispatch cr from_bytes senv load rh conn (Apply pid rows' token') clk' st' = (Inl proposal_not_found, st')"
proof -
  obtain svc s h c where st: "st = (svc, s, h, c)" by (cases st)
  obtain svc' s' h' c' where st': "st' = (svc', s', h', c')" by (cases st')
  from assms have "bt_get (sv_proposals svc') pid = None"
    by (auto simp: st st' daemon_dispatch_def service_apply_def apply_returning_inverse_def to_response_def Let_def bt_get_remove
        split: option.splits prod.splits sum.splits if_splits)
  then show ?thesis by (simp add: st' daemon_dispatch_def apply_sql_for_def live_record_def)
qed

lemma decoded_apply:
  assumes "js_request js ln = Inr \<lparr>rq_jsonrpc = ''2.0'', rq_id = i, rq_method = ''apply'', rq_params = params\<rparr>"
    and "js_apply js params = Inr (pid, rows, token)"
  shows "dispatch_line js handle ln d =
     (case handle (Apply pid rows token) d of (Inl e, d') \<Rightarrow> (response_err i e, d') | (Inr res, d') \<Rightarrow> (response_ok i res, d'))"
  using assms by (simp add: dispatch_line_def decode_line_def JSONRPC_VERSION_def method_parse_def)

definition wire_block_of :: "('v, 'r) rpc_error \<Rightarrow> wire_block" where
  "wire_block_of e = \<lparr>wb_code = bd_code (re_data e), wb_remedy = bd_remedy (re_data e), wb_retryable = bd_retryable (re_data e)\<rparr>"

text \<open>
  C39: when the socket closes after the daemon committed an apply and before its answer arrived, the
  client sends the apply a second time, and the tool reports that no such proposal exists: the agent
  is told the write was refused, while the daemon is in the state after it.
\<close>

theorem lost_answer_hides_a_commit:
  fixes js :: "json rpc_codec" and senv :: "('v, 'r, 'h, 's) service_env"
  assumes wire: "me_applyd env = lossy_wire js (\<lambda>call. daemon_dispatch cr from_bytes senv load rh conn call clk) render encode reply"
    and client: "mp_applyd m = Some cl"
    and applied: "daemon_dispatch cr from_bytes senv load rh conn (Apply pid rows token) clk st = (Inr res, st')"
    and renders: "\<And>i. i \<in> {cl_next_id cl, cl_next_id cl + 1} \<Longrightarrow> \<exists>ln. render (request_json i ''apply'' (apply_params pid rows token)) = Inr ln
        \<and> js_request js ln = Inr \<lparr>rq_jsonrpc = ''2.0'', rq_id = JUint i, rq_method = ''apply'', rq_params = apply_params pid rows token\<rparr>"
    and decodes: "js_apply js (apply_params pid rows token) = Inr (pid, rows, token)"
    and replies: "\<And>i. reply (trim (encode (response_err i proposal_not_found))) = Inr \<lparr>rp_result = None, rp_error = Some
        \<lparr>ew_message = wording (re_message (proposal_not_found :: ('v, 'r) rpc_error)), ew_data = Some (wire_block_of (proposal_not_found :: ('v, 'r) rpc_error))\<rparr>\<rparr>"
  shows "\<exists>m' b. tool_apply_write env pid (Some rows) token (m, st, False) = (ToolError (block_json b), m', st', True)
      \<and> bc_code b = ''PROPOSAL_NOT_FOUND''"
proof -
  let ?handle = "\<lambda>call. daemon_dispatch cr from_bytes senv load rh conn call clk"
  let ?n = "cl_next_id cl" and ?p = "apply_params pid rows token"
  obtain l1 where l1: "render (request_json ?n ''apply'' ?p) = Inr l1"
    "js_request js l1 = Inr \<lparr>rq_jsonrpc = ''2.0'', rq_id = JUint ?n, rq_method = ''apply'', rq_params = ?p\<rparr>"
    using renders [of ?n] by auto
  obtain l2 where l2: "render (request_json (?n + 1) ''apply'' ?p) = Inr l2"
    "js_request js l2 = Inr \<lparr>rq_jsonrpc = ''2.0'', rq_id = JUint (?n + 1), rq_method = ''apply'', rq_params = ?p\<rparr>"
    using renders [of "?n + 1"] by auto
  have first: "dispatch_line js ?handle l1 st = (response_ok (JUint ?n) res, st')"
    using applied by (simp add: decoded_apply [OF l1(2) decodes])
  have second: "dispatch_line js ?handle l2 st' = (response_err (JUint (?n + 1)) proposal_not_found, st')"
    by (simp add: decoded_apply [OF l2(2) decodes] applied_is_gone [OF applied])
  have one: "round_trip (me_applyd env) () ?n ''apply'' ?p (st, False) = (Inl (WireLost ''applyd socket closed (EOF)''), st', True)"
    by (simp add: round_trip_def wire lossy_wire_def l1(1) first)
  let ?block = "block_of \<lparr>ew_message = wording (re_message (proposal_not_found :: ('v, 'r) rpc_error)),
     ew_data = Some (wire_block_of (proposal_not_found :: ('v, 'r) rpc_error))\<rparr>"
  have two: "\<exists>rep. round_trip (me_applyd env) () (?n + 1) ''apply'' ?p (st', True) = (Inr rep, st', True) \<and> map_response rep = ApplydBlocked ?block"
    by (simp add: round_trip_def wire lossy_wire_def l2(1) second replies map_response_def)
  have redial: "applyd_dial (me_applyd env) config w = (Inr (), w)" for config w
    by (simp add: applyd_dial_def wire lossy_wire_def)
  have dial: "(case cl_conn cl of Some u \<Rightarrow> (Inr u, w) | None \<Rightarrow> applyd_dial (me_applyd env) (cl_config cl) w) = (Inr (), w)" for w
    by (simp add: redial split: option.split)
  have "\<exists>cl'. client_apply (me_applyd env) pid rows token (cl, st, False) = (ApplydBlocked ?block, cl', st', True)"
    using one two by (auto simp: client_apply_def applyd_call_def dial redial Let_def)
  moreover have "bc_code ?block = ''PROPOSAL_NOT_FOUND''"
    by (simp add: block_of_def block_new_def wire_block_of_def proposal_not_found_def code_error_def split: prod.split)
  ultimately show ?thesis
    by (auto simp: tool_apply_write_def through_applyd_def client structured_block_def)
qed

section \<open>Samples\<close>

text \<open>A codec that knows two apply requests by the number of their id, and a proxy that answers with no rows.\<close>

definition two_renders :: "json \<Rightarrow> json \<Rightarrow> string + string" where
  "two_renders params j =
     (if j = request_json 1 ''apply'' params then Inr ''one'' else if j = request_json 2 ''apply'' params then Inr ''two'' else Inl ''too long'')"

definition two_codec :: "json \<Rightarrow> string \<times> u64 \<times> string option \<Rightarrow> json rpc_codec" where
  "two_codec params call =
     \<lparr>js_null = JNull,
      js_request = (\<lambda>ln. if ln = ''one'' then Inr \<lparr>rq_jsonrpc = ''2.0'', rq_id = JUint 1, rq_method = ''apply'', rq_params = params\<rparr>
         else if ln = ''two'' then Inr \<lparr>rq_jsonrpc = ''2.0'', rq_id = JUint 2, rq_method = ''apply'', rq_params = params\<rparr> else Inl ''unknown''),
      js_propose = (\<lambda>_. Inl []), js_dry_run = (\<lambda>_. Inl []), js_elevation = (\<lambda>_. Inl []), js_approve = (\<lambda>_. Inl []),
      js_apply = (\<lambda>_. Inr call), js_get_audit = (\<lambda>_. Inl [])\<rparr>"

definition sample_proxy_wire :: "(unit, 'w) proxy_wire" where
  "sample_proxy_wire =
     \<lparr>pw_add_root = (\<lambda>_. None), pw_connect = (\<lambda>_ _ w. (Inr (), w)), pw_query = (\<lambda>_ _ w. (Inr [], w)),
      pw_schema_columns = (\<lambda>_ _ w. (Inr [], w)), pw_as_f64 = (\<lambda>_. None), pw_json_text = (\<lambda>_. [])\<rparr>"

definition sample_mcp_env :: "('ac, 'w) applyd_wire \<Rightarrow> (unit, 'ac, unit, 'w) mcp_env" where
  "sample_mcp_env wire =
     \<lparr>me_parse_sql = (\<lambda>_. Some [StQuery nested_writer]), me_visit = (\<lambda>_. []), me_proxy = sample_proxy_wire, me_applyd = wire,
      me_load = (\<lambda>_ w. (Joined (Inr []), w))\<rparr>"

definition sample_mcp :: "(unit, unit) mcp_server" where
  "sample_mcp = with_applyd (applyd_client_new \<lparr>ad_socket_path = ''/run/applyd.sock'', ad_role = ''app'', ad_session_id = ''s1'',
     ad_timeout_ms = DEFAULT_TIMEOUT_MS\<rparr>) (mcp_new ''app'' ''s1'')"

text \<open>An apply that fails to arrive at all: the daemon is down.\<close>

definition down_wire :: "(unit, unit) applyd_wire" where
  "down_wire = \<lparr>wr_dial = (\<lambda>_ w. (Inr (), w)), wr_exchange = (\<lambda>_ _ w. (EndOfFile, w)), wr_render = two_renders (apply_params ''p'' 1 None),
     wr_reply = (\<lambda>_. Inl [])\<rparr>"

lemma request_json_inject:
  "request_json i m p = request_json j n q \<longleftrightarrow> i = j \<and> m = n \<and> p = q"
  by (auto simp: request_json_def)

lemma sample_apply_session:
  "agent_session (log_env (sample_mcp_env down_wire)) [(''apply_write'', Some [(''proposal_id'', JStr ''p''), (''confirm_rows'', JUint 1)])]
     (sample_mcp, (), []) = (sample_mcp\<lparr>mp_applyd := Some \<lparr>cl_config = cl_config (the (mp_applyd sample_mcp)), cl_conn = None, cl_next_id = 3\<rparr>\<rparr>, (),
       [ToDaemon (''one'' @ [CHR 0x0A]), ToDaemon (''two'' @ [CHR 0x0A])])"
  by (simp add: call_tool_def mcp_dispatch_def sample_mcp_def with_applyd_def mcp_new_def applyd_client_new_def tool_apply_write_def
      through_applyd_def client_apply_def applyd_call_def applyd_dial_def round_trip_def log_env_def quietly_def sample_mcp_env_def down_wire_def
      two_renders_def request_json_inject arg_str_def Let_def structured_block_def)

theorem agent_reaches_only_reads_and_requests_witness:
  "\<exists>c i mth params ln. daemon_config sample_mcp = Some c \<and> ''two'' @ [CHR 0x0A] = ln @ [CHR 0x0A]
    \<and> two_renders (apply_params ''p'' 1 None) (request_json i mth params) = Inr ln
    \<and> mth \<in> {''propose'', ''dry_run'', ''request_elevation'', ''apply''}"
proof -
  have render: "wr_render (me_applyd (sample_mcp_env down_wire)) = two_renders (apply_params ''p'' 1 None)"
    by (simp add: sample_mcp_env_def down_wire_def)
  show ?thesis
    using agent_reaches_only_reads_and_requests [OF sample_apply_session, of "ToDaemon (''two'' @ [CHR 0x0A])"]
    unfolding render sent.case by (elim meta_mp [THEN exE] exE) (simp, metis)
qed

lemma two_codec_reads_back:
  assumes "two_renders params (request_json i mth ps) = Inr ln"
  shows "js_request (two_codec params call) ln = Inr \<lparr>rq_jsonrpc = ''2.0'', rq_id = JUint i, rq_method = mth, rq_params = ps\<rparr>"
  using assms by (auto simp: two_renders_def two_codec_def request_json_inject split: if_splits)

theorem agent_alone_never_commits_witness:
  "\<exists>evs svc. sample_daemon_run evs svc \<and> map fst evs = [Apply ''p'' 1 None] \<and> filter committed evs = []"
proof -
  have "sample_daemon_run [] sample_start" unfolding sample_start_def by (rule daemon_run.start)
  moreover have "sample_dispatch (Apply ''p'' 1 None) sample_start = (Inl proposal_not_found, sample_start, (), (), (), [])"
    by (simp add: sample_dispatch_def traced_dispatch_def apply_sql_for_def live_record_def sample_service_defs)
  ultimately have run: "sample_daemon_run [(Apply ''p'' 1 None, clock_starting_at 10, Inl proposal_not_found, [])] sample_start"
    (is "sample_daemon_run ?evs _") using sample_call [of "[]"] by simp
  let ?params = "apply_params ''p'' 1 None"
  have render: "wr_render (me_applyd (sample_mcp_env down_wire)) = two_renders ?params"
    by (simp add: sample_mcp_env_def down_wire_def)
  have decoded: "snd (decode_line (two_codec ?params (''p'', 1, None)) ''one'') = (Inr (Apply ''p'' 1 None) :: (unit, unit) rpc_error + daemon_call)"
    by (simp add: decode_line_def two_codec_def JSONRPC_VERSION_def method_parse_def)
  have "filter committed ?evs = []"
  proof (rule agent_alone_never_commits [OF _ sample_apply_session run, where js = "two_codec ?params (''p'', 1, None)"])
    show "js_request (two_codec ?params (''p'', 1, None)) ln = Inr \<lparr>rq_jsonrpc = ''2.0'', rq_id = JUint i, rq_method = mth, rq_params = params\<rparr>"
      if "wr_render (me_applyd (sample_mcp_env down_wire)) (request_json i mth params) = Inr ln" for i mth params ln
      using that two_codec_reads_back unfolding render by blast
    show "\<exists>line. ToDaemon line \<in> set [ToDaemon (''one'' @ [CHR 0x0A]), ToDaemon (''two'' @ [CHR 0x0A])]
        \<and> snd (decode_line (two_codec ?params (''p'', 1, None)) (butlast line)) = (Inr call :: (unit, unit) rpc_error + daemon_call)"
      if "(call, clk, r, tr) \<in> set ?evs" for call clk r tr
      using that decoded by (intro exI [of _ "''one'' @ [CHR 0x0A]"]) simp
  qed
  with run show ?thesis by fastforce
qed

definition committed_dispatch ::
  "daemon_call \<Rightarrow> (sample_daemon \<times> intent_tiers in_memory_sink \<times> unit \<times> unit, (unit, unit) rpc_error, daemon_result) eff" where
  "committed_dispatch call =
     daemon_dispatch sample_cr (\<lambda>_. ()) logging_env (\<lambda>_. Inr []) daemon_rehearsal daemon_conn call (clock_starting_at 10)"

lemma sample_committed:
  "\<exists>res st'. committed_dispatch (Apply sample_pid 1 None) (sample_requested Approved [(sample_pid, daemon_grant)], in_memory_sink_new, (), ())
     = (Inr res, st')"
proof -
  have "live_record sample_pid (clock_starting_at 10) (sample_requested Approved [(sample_pid, daemon_grant)]) = Some (sample_record (Some sample_dry))"
    by (simp add: live_record_def sample_service_defs)
  then have "apply_sql_for logging_env sample_pid (clock_starting_at 10) (sample_requested Approved [(sample_pid, daemon_grant)]) = Some (''U'', ''true'')"
    by (simp add: apply_sql_for_def extract_where_def logging_env_def daemon_env_def sample_record_def sample_proposal_def)
  with sample_service_apply show ?thesis by (auto simp: committed_dispatch_def daemon_dispatch_def to_response_def)
qed

definition gone_reply :: rpc_reply where
  "gone_reply = \<lparr>rp_result = None, rp_error = Some \<lparr>ew_message = [], ew_data = Some (wire_block_of (proposal_not_found :: (unit, unit) rpc_error))\<rparr>\<rparr>"

theorem lost_answer_hides_a_commit_witness:
  "\<exists>res st' m' b. committed_dispatch (Apply sample_pid 1 None)
      (sample_requested Approved [(sample_pid, daemon_grant)], in_memory_sink_new, (), ()) = (Inr res, st')
    \<and> tool_apply_write (sample_mcp_env (lossy_wire (two_codec (apply_params sample_pid 1 None) (sample_pid, 1, None)) committed_dispatch
        (two_renders (apply_params sample_pid 1 None)) (\<lambda>_. []) (\<lambda>_. Inr gone_reply))) sample_pid (Some 1) None
        (sample_mcp, (sample_requested Approved [(sample_pid, daemon_grant)], in_memory_sink_new, (), ()), False)
      = (ToolError (block_json b), m', st', True)
    \<and> bc_code b = ''PROPOSAL_NOT_FOUND''"
proof -
  let ?params = "apply_params sample_pid 1 None" and ?st = "(sample_requested Approved [(sample_pid, daemon_grant)], in_memory_sink_new, (), ())"
  let ?js = "two_codec ?params (sample_pid, 1, None)"
  let ?env = "sample_mcp_env (lossy_wire ?js committed_dispatch (two_renders ?params) (\<lambda>_. []) (\<lambda>_. Inr gone_reply)) :: (unit, unit, unit, _) mcp_env"
  obtain res st' where applied: "committed_dispatch (Apply sample_pid 1 None) ?st = (Inr res, st')" using sample_committed by blast
  obtain cl where cl: "mp_applyd sample_mcp = Some cl" "cl_next_id cl = 1" by (simp add: sample_mcp_def with_applyd_def applyd_client_new_def)
  have "\<exists>m' b. tool_apply_write ?env sample_pid (Some 1) None (sample_mcp, ?st, False) = (ToolError (block_json b), m', st', True)
      \<and> bc_code b = ''PROPOSAL_NOT_FOUND''"
  proof (rule lost_answer_hides_a_commit [OF _ cl(1) applied [unfolded committed_dispatch_def], where js = ?js and wording = "\<lambda>_. []"])
    show "me_applyd ?env = lossy_wire ?js (\<lambda>call. daemon_dispatch sample_cr (\<lambda>_. ()) logging_env (\<lambda>_. Inr []) daemon_rehearsal daemon_conn call
        (clock_starting_at 10)) (two_renders ?params) (\<lambda>_. []) (\<lambda>_. Inr gone_reply)"
      by (simp add: sample_mcp_env_def committed_dispatch_def [abs_def])
    show "\<exists>ln. two_renders ?params (request_json i ''apply'' ?params) = Inr ln
        \<and> js_request ?js ln = Inr \<lparr>rq_jsonrpc = ''2.0'', rq_id = JUint i, rq_method = ''apply'', rq_params = ?params\<rparr>"
      if "i \<in> {cl_next_id cl, cl_next_id cl + 1}" for i
      using that by (auto simp: cl(2) two_renders_def two_codec_def request_json_inject)
  qed (simp_all add: two_codec_def gone_reply_def)
  with applied show ?thesis by blast
qed

section \<open>The retries end\<close>

definition grows :: "nat \<Rightarrow> 'w \<times> sent list \<Rightarrow> 'w \<times> sent list \<Rightarrow> bool" where
  "grows n w w' = (length (snd w') \<le> length (snd w) + n)"

lemma round_trip_grows: "round_trip (me_applyd (log_env env)) conn i mth params w = (r, w') \<Longrightarrow> grows 1 w w'"
  using logged_exchange [of env conn _ w]
  by (auto simp: round_trip_def logged_simps grows_def split: prod.splits sum.splits) (metis le_refl length_append_singleton snd_conv)+

lemma call_attempts_grows:
  "call_attempts (me_applyd (log_env env)) mth params attempts (cl, w) = (r, cl', w') \<Longrightarrow> grows (length attempts) w w'"
proof (induction attempts arbitrary: cl w)
  case (Cons attempt later)
  let ?wire = "me_applyd (log_env env)"
  obtain d w1 where d: "(case cl_conn cl of Some c \<Rightarrow> (Inr c, w) | None \<Rightarrow> applyd_dial ?wire (cl_config cl) w) = (d, w1)"
    by (metis prod.exhaust)
  then have dialled: "snd w1 = snd w"
    using applyd_dial_extends [of env "cl_config cl" w d w1] by (auto split: option.splits)
  show ?case
  proof (cases d)
    case (Inr conn)
    obtain q w2 where q: "round_trip ?wire conn (cl_next_id cl) mth params w1 = (q, w2)" by (metis prod.exhaust)
    have "grows 1 w w2" using round_trip_grows [OF q] dialled by (simp add: grows_def)
    then show ?thesis
      using Cons.prems d Inr q Cons.IH [of "cl\<lparr>cl_next_id := cl_next_id cl + 1, cl_conn := None\<rparr>" w2]
      by (auto simp: Let_def grows_def split: sum.splits wire_error.splits if_splits)
  qed (use Cons.prems d dialled in \<open>simp add: grows_def\<close>)
qed (simp add: grows_def)

lemma with_client_grows:
  assumes f: "\<And>c w r w'. f c w = (r, w') \<Longrightarrow> grows 1 w w'"
  shows "with_client_attempts (me_proxy (log_env env)) f attempts (pt, w) = (r, pt', w') \<Longrightarrow> grows (length attempts) w w'"
proof (induction attempts arbitrary: pt w)
  case (Cons attempt later)
  let ?wire = "me_proxy (log_env env)"
  obtain d w1 where d: "(case pt_client pt of Some c \<Rightarrow> (Inr c, w) | None \<Rightarrow> proxy_dial ?wire (pt_config pt) w) = (d, w1)"
    by (metis prod.exhaust)
  then have dialled: "snd w1 = snd w"
    using proxy_dial_extends [of env "pt_config pt" w d w1] by (auto split: option.splits)
  show ?case
  proof (cases d)
    case (Inr c)
    obtain q w2 where q: "f c w1 = (q, w2)" by (metis prod.exhaust)
    have "grows 1 w w2" using f [OF q] dialled by (simp add: grows_def)
    then show ?thesis
      using Cons.prems d Inr q Cons.IH [of "pt\<lparr>pt_client := None\<rparr>" w2]
      by (auto simp: grows_def split: sum.splits read_error.splits if_splits)
  qed (use Cons.prems d dialled in \<open>simp add: grows_def\<close>)
qed (simp add: grows_def)

lemma through_applyd_grows:
  assumes "\<And>cl w. run (cl, w) = applyd_call (me_applyd (log_env env)) mth (params cl) (cl, w)"
  shows "grows 2 (snd s) (snd (snd (through_applyd run shown s)))"
proof -
  have two: "grows 2 w w'" if "run (cl, w) = (r, cl', w')" for cl w r cl' w'
    using call_attempts_grows [OF that [unfolded assms applyd_call_def]] by (simp add: numeral_2_eq_2)
  show ?thesis
    by (auto simp: through_applyd_def grows_def split: prod.splits option.splits applyd_outcome.splits dest!: two)
qed

lemma through_proxy_grows:
  assumes "\<And>c w r w'. f c w = (r, w') \<Longrightarrow> grows 1 w w'"
  shows "grows 2 (snd s) (snd (snd (through_proxy (with_client (me_proxy (log_env env)) f) shown s)))"
proof -
  have two: "grows 2 w w'" if "with_client (me_proxy (log_env env)) f (pt, w) = (r, pt', w')" for pt w r pt' w'
    using with_client_grows [where f = f, OF assms that [unfolded with_client_def]] by (simp add: numeral_2_eq_2)
  show ?thesis
    by (auto simp: through_proxy_def grows_def split: prod.splits option.splits sum.splits dest!: two)
qed

lemma extends_one_grows: "snd w' = snd w @ [x] \<Longrightarrow> grows 1 w w'" and extends_none_grows: "snd w' = snd w \<Longrightarrow> grows n w w'"
  by (simp_all add: grows_def)

lemma classified_query_grows:
  assumes "ebind (classified (pw_query (me_proxy (log_env env)) c sql)) g w = (r, w')" and g: "\<And>x w. snd (g x w) = w"
  shows "grows 1 w w'"
proof -
  obtain q w1 where q: "pw_query (me_proxy (log_env env)) c sql w = (q, w1)" by (metis prod.exhaust)
  have "w' = w1" using assms(1) g q by (cases q) (simp_all add: ebind_def classified_def, metis snd_conv)
  then show ?thesis using logged_query [of env c sql w] q by (intro extends_one_grows) simp
qed

lemma classified_schema_grows:
  assumes "classified (pw_schema_columns (me_proxy (log_env env)) c sql) w = (r, w')"
  shows "grows 1 w w'"
proof -
  obtain q w1 where q: "pw_schema_columns (me_proxy (log_env env)) c sql w = (q, w1)" by (metis prod.exhaust)
  have "w' = w1" using assms q by (cases q) (auto simp: classified_def)
  then show ?thesis using logged_schema [of env c sql w] q by (intro extends_one_grows) simp
qed

lemma tools_grow:
  "grows 2 (snd s) (snd (snd (tool_query (log_env env) sql s)))"
  "grows 2 (snd s) (snd (snd (tool_explain (log_env env) sql s)))"
  "grows 2 (snd s) (snd (snd (tool_discover_schema (log_env env) s)))"
  "grows 2 (snd s) (snd (snd (tool_propose_write (log_env env) sql expected s)))"
  "grows 2 (snd s) (snd (snd (tool_dry_run (log_env env) pid s)))"
  "grows 2 (snd s) (snd (snd (tool_request_elevation (log_env env) pid reason s)))"
  "grows 2 (snd s) (snd (snd (tool_apply_write (log_env env) pid rows token s)))"
  "grows 2 (snd s) (snd (snd (tool_get_audit (log_env env) limit s)))"
proof -
  have none: "grows 2 (snd s) (snd s)" by (simp add: grows_def)
  show "grows 2 (snd s) (snd (snd (tool_query (log_env env) sql s)))"
    unfolding tool_query_def proxy_query_def by (auto intro!: through_proxy_grows none elim: classified_query_grows)
  show "grows 2 (snd s) (snd (snd (tool_explain (log_env env) sql s)))"
    unfolding tool_explain_def proxy_explain_def by (auto intro!: through_proxy_grows none elim: classified_query_grows)
  show "grows 2 (snd s) (snd (snd (tool_discover_schema (log_env env) s)))"
    unfolding tool_discover_schema_def proxy_discover_schema_def by (intro through_proxy_grows classified_schema_grows)
  show "grows 2 (snd s) (snd (snd (tool_propose_write (log_env env) sql expected s)))"
    unfolding tool_propose_write_def by (rule through_applyd_grows) (simp only: client_propose_def fst_conv)
  show "grows 2 (snd s) (snd (snd (tool_dry_run (log_env env) pid s)))"
    unfolding tool_dry_run_def by (rule through_applyd_grows) (simp only: client_dry_run_def)
  show "grows 2 (snd s) (snd (snd (tool_request_elevation (log_env env) pid reason s)))"
    unfolding tool_request_elevation_def by (rule through_applyd_grows) (simp only: client_request_elevation_def)
  show "grows 2 (snd s) (snd (snd (tool_apply_write (log_env env) pid rows token s)))"
  proof (cases rows)
    case (Some n)
    show ?thesis unfolding tool_apply_write_def Some option.case by (rule through_applyd_grows) (simp only: client_apply_def)
  qed (simp add: tool_apply_write_def grows_def)
  show "grows 2 (snd s) (snd (snd (tool_get_audit (log_env env) limit s)))"
  proof -
    obtain m w where s: "s = (m, w)" by (cases s)
    show ?thesis
    proof (cases "mp_audit m")
      case (Some dsn)
      obtain r w' where load: "me_load (log_env env) dsn w = (r, w')" by (metis prod.exhaust)
      then have "snd w' = snd w" using logged_load [of env dsn w] by simp
      with load Some show ?thesis by (auto simp: s tool_get_audit_def audit_tail_def grows_def split: joined.split sum.split)
    qed (simp add: s tool_get_audit_def grows_def)
  qed
qed

lemma dispatch_grows: "grows 2 (snd s) (snd (snd (mcp_dispatch (log_env env) name args s)))"
proof -
  have run: "snd (case x of (r, s') \<Rightarrow> (Inr r, s')) = snd x" for x :: "tool_result \<times> 'x" by (simp add: prod.case_eq_if)
  have none: "grows 2 w w" for w :: "'w \<times> sent list" by (simp add: grows_def)
  show ?thesis unfolding mcp_dispatch_def Let_def by (simp add: run tools_grow none)
qed

text \<open>
  C40: a tool call ends: however the sockets fail, the retry loops of both clients stop by themselves
  after two attempts, so more attempts would change nothing and the answer for exhausted attempts is
  never given, and one call sends at most two lines or statements.
\<close>

theorem tool_calls_end_after_two_attempts:
  "call_attempts wire mth params (0 # 1 # extra) s = applyd_call wire mth params s
    \<and> with_client_attempts pwire f (0 # 1 # extra) t = with_client pwire f t
    \<and> length (snd (snd (snd (mcp_dispatch (log_env env) name args (m, w, log))))) \<le> length log + 2"
proof -
  have "call_attempts wire mth params (Suc 0 # extra) s' = call_attempts wire mth params [Suc 0] s'" for s'
    by (cases s') (simp add: Let_def split: prod.split sum.split wire_error.split)
  then have "call_attempts wire mth params (0 # 1 # extra) s = applyd_call wire mth params s"
    by (cases s) (simp add: applyd_call_def Let_def del: call_attempts.simps(2)
        add: call_attempts.simps(2) [of _ _ _ 0] split: prod.split sum.split wire_error.split)
  moreover have "with_client_attempts pwire f (Suc 0 # extra) t' = with_client_attempts pwire f [Suc 0] t'" for t'
    by (cases t') (simp split: prod.split sum.split read_error.split)
  then have "with_client_attempts pwire f (0 # 1 # extra) t = with_client pwire f t"
    by (cases t) (simp add: with_client_def del: with_client_attempts.simps(2)
        add: with_client_attempts.simps(2) [of _ _ 0] split: prod.split sum.split read_error.split)
  moreover have "grows 2 (w, log) (snd (snd (mcp_dispatch (log_env env) name args (m, w, log))))"
    using dispatch_grows [of "(m, w, log)"] by simp
  ultimately show ?thesis by (simp add: grows_def)
qed

end
