(* ===== verification/Cli_Doctor.thy ===== *)
theory Cli_Doctor
  imports Cli_Approval Process_Start Wire_Classifier
begin

text \<open>
  The preflight of an installation (\<^verbatim>\<open>crates/cli/src/doctor.rs\<close> and the doctor of
  \<^verbatim>\<open>crates/cli/src/main.rs\<close>): the report and when it passes, the checks of the two roles, of the
  pg_hba rules and of the audit log, and the run that connects, asks the catalogs and reports. The
  connection and its answers to the queries are parameters, and so is the text of an error message.
\<close>

section \<open>The report\<close>

datatype check_status = CheckPass | CheckFail | CheckWarn

fun status_text :: "check_status \<Rightarrow> string" where
  "status_text CheckPass = ''PASS''"
| "status_text CheckFail = ''FAIL''"
| "status_text CheckWarn = ''WARN''"

record check_result =
  cr_name :: string
  cr_status :: check_status
  cr_detail :: string
  cr_advisory :: bool

definition check_pass :: "string \<Rightarrow> string \<Rightarrow> check_result" where
  "check_pass name detail = \<lparr>cr_name = name, cr_status = CheckPass, cr_detail = detail, cr_advisory = False\<rparr>"

definition check_fail :: "string \<Rightarrow> string \<Rightarrow> check_result" where
  "check_fail name detail = \<lparr>cr_name = name, cr_status = CheckFail, cr_detail = detail, cr_advisory = False\<rparr>"

definition check_advisory :: "string \<Rightarrow> check_status \<Rightarrow> string \<Rightarrow> check_result" where
  "check_advisory name status detail = \<lparr>cr_name = name, cr_status = status, cr_detail = detail, cr_advisory = True\<rparr>"

definition is_blocking :: "check_result \<Rightarrow> bool" where
  "is_blocking c = (\<not> cr_advisory c \<and> cr_status c \<noteq> CheckPass)"

record doctor_report = dr_checks :: "check_result list"

definition report_new :: doctor_report where
  "report_new = \<lparr>dr_checks = []\<rparr>"

definition report_push :: "check_result \<Rightarrow> doctor_report \<Rightarrow> doctor_report" where
  "report_push c r = r\<lparr>dr_checks := dr_checks r @ [c]\<rparr>"

definition passed :: "doctor_report \<Rightarrow> bool" where
  "passed r = (dr_checks r \<noteq> [] \<and> \<not> list_ex is_blocking (dr_checks r))"

definition em_dash :: string where
  "em_dash = [CHR 0xE2, CHR 0x80, CHR 0x94]"

text \<open>The tag is padded on the left to sixteen characters; all its characters are ASCII.\<close>

definition check_line :: "check_result \<Rightarrow> string" where
  "check_line c =
     (let tag = (if cr_advisory c \<and> cr_status c \<noteq> CheckPass then status_text (cr_status c) @ '' (advisory)''
                 else status_text (cr_status c))
      in ''  ['' @ replicate (16 - length tag) CHR '' '' @ tag @ ''] '' @ cr_name c @ '': '' @ cr_detail c @ [CHR 0x0A])"

definition report_render :: "doctor_report \<Rightarrow> string" where
  "report_render r =
     concat (map check_line (dr_checks r))
     @ (if passed r
        then ''doctor: PREFLIGHT PASSED '' @ em_dash @ '' the deterministic floor is in place; safe to point an agent at this database.''
        else ''doctor: PREFLIGHT FAILED (fail-closed) '' @ em_dash @ '' do NOT point an agent at this database until every check above passes.'')"

section \<open>The checks\<close>

record role_attrs =
  is_superuser :: bool
  can_create_db :: bool
  can_create_role :: bool
  can_replicate :: bool
  can_bypass_rls :: bool

definition quoted :: "string \<Rightarrow> string" where
  "quoted s = ''`'' @ s @ ''`''"

definition i64_text :: "i64 \<Rightarrow> string" where
  "i64_text n = (if sint n < 0 then ''-'' @ decimal (nat (- sint n)) else decimal (nat (sint n)))"

definition escalation_attrs :: "role_attrs \<Rightarrow> string list" where
  "escalation_attrs a =
     (if can_create_db a then [''CREATEDB''] else []) @ (if can_create_role a then [''CREATEROLE''] else [])
     @ (if can_replicate a then [''REPLICATION''] else []) @ (if can_bypass_rls a then [''BYPASSRLS''] else [])"

definition push_attr_checks :: "string \<Rightarrow> role_attrs \<Rightarrow> check_result list \<Rightarrow> check_result list" where
  "push_attr_checks role a out =
     out
     @ [let name = role @ ''_not_superuser'' in
        if is_superuser a
        then check_fail name (quoted role @ '' is SUPERUSER '' @ em_dash @ '' the floor requires NOSUPERUSER'')
        else check_pass name (quoted role @ '' is NOSUPERUSER'')]
     @ [let name = role @ ''_no_escalation_attrs''; bad = escalation_attrs a in
        if bad = [] then check_pass name (quoted role @ '' is NOCREATEDB/NOCREATEROLE/NOREPLICATION/NOBYPASSRLS'')
        else check_fail name (quoted role @ '' still has: '' @ join_with '', '' bad @ '' (all must be cleared)'')]"

definition check_agent_hardening :: "string \<Rightarrow> role_attrs option \<Rightarrow> i64 \<Rightarrow> i64 \<Rightarrow> check_result list" where
  "check_agent_hardening role attrs membership_count write_grant_count =
     (case attrs of
        None \<Rightarrow> [check_fail ''agent_role_present''
          (''role '' @ quoted role @ '' does NOT exist (apply deploy/sql/10_hardened_role.sql)'')]
      | Some a \<Rightarrow>
          push_attr_checks role a [check_pass ''agent_role_present'' (''role '' @ quoted role @ '' exists'')]
          @ [if membership_count = 0
             then check_pass ''agent_member_of_nothing''
               (quoted role @ '' is a member of no roles (no predefined-role grants)'')
             else check_fail ''agent_member_of_nothing''
               (quoted role @ '' is a member of '' @ i64_text membership_count @ '' role(s) '' @ em_dash
                 @ '' the WALL requires member-of-nothing (strip every pg_* predefined role)'')]
          @ [if write_grant_count = 0
             then check_pass ''agent_no_write_grant''
               (quoted role @ '' holds NO INSERT/UPDATE/DELETE/TRUNCATE grant on any user table'')
             else check_fail ''agent_no_write_grant''
               (quoted role @ '' holds '' @ i64_text write_grant_count @ '' write grant(s) on user tables '' @ em_dash
                 @ '' the read WALL must have NO write grant anywhere'')])"

definition check_applier_dml :: "string \<Rightarrow> role_attrs option \<Rightarrow> i64 \<Rightarrow> bool \<Rightarrow> check_result list" where
  "check_applier_dml role attrs membership_count has_create_on_schema =
     (case attrs of
        None \<Rightarrow> [check_fail ''applier_role_present''
          (''role '' @ quoted role @ '' does NOT exist (apply deploy/sql/10_hardened_role.sql)'')]
      | Some a \<Rightarrow>
          push_attr_checks role a [check_pass ''applier_role_present'' (''role '' @ quoted role @ '' exists'')]
          @ [if membership_count = 0
             then check_pass ''applier_member_of_nothing'' (quoted role @ '' is a member of no roles'')
             else check_fail ''applier_member_of_nothing''
               (quoted role @ '' is a member of '' @ i64_text membership_count @ '' role(s) '' @ em_dash
                 @ '' the applier must be member-of-nothing'')]
          @ [if has_create_on_schema
             then check_fail ''applier_no_ddl''
               (quoted role @ '' has CREATE on the application schema '' @ em_dash
                 @ '' the applier is DML-only and must NOT be able to DDL (REVOKE CREATE ON SCHEMA ''
                 @ [CHR 0xE2, CHR 0x80, CHR 0xA6] @ '' FROM '' @ role @ '')'')
             else check_pass ''applier_no_ddl'' (quoted role @ '' has NO CREATE on the application schema (cannot DDL)'')])"

record hba_rule =
  hr_conn_type :: string
  hr_user_name :: "string list"
  hr_address :: string

definition wide_open :: "string \<Rightarrow> bool" where
  "wide_open addr =
     (let a = trim addr in a = ''0.0.0.0/0'' \<or> a = ''::/0'' \<or> eq_ignore_ascii_case a ''all'')"

definition offending_rule :: "string \<Rightarrow> hba_rule \<Rightarrow> bool" where
  "offending_rule agent r =
     ((hr_conn_type r = ''host'' \<or> hr_conn_type r = ''hostssl'' \<or> hr_conn_type r = ''hostnossl'')
      \<and> list_ex (\<lambda>u. u = agent \<or> eq_ignore_ascii_case u ''all'') (hr_user_name r)
      \<and> wide_open (hr_address r))"

definition check_hba_boundary :: "string \<Rightarrow> hba_rule list option \<Rightarrow> check_result" where
  "check_hba_boundary agent_role rules =
     (case rules of
        None \<Rightarrow> check_advisory ''hba_origin_restricted'' CheckWarn
          (''pg_hba_file_rules is not readable here (needs elevated privileges) '' @ em_dash
            @ '' verify the agent role is permitted ONLY from the proxy host out-of-band (deploy/hba/)'')
      | Some rs \<Rightarrow>
          if rs = [] then check_advisory ''hba_origin_restricted'' CheckWarn
            (''no readable pg_hba host rules '' @ em_dash @ '' verify the agent-role boundary out-of-band (deploy/hba/)'')
          else
          let offending = filter (offending_rule (to_ascii_lowercase agent_role)) rs in
          if offending = [] then check_advisory ''hba_origin_restricted'' CheckPass
            (''no wide-open pg_hba host rule reaches '' @ quoted agent_role
              @ '' (the proxy-host boundary is the deploy-time pg_hba'' @ [CHR 0x27] @ ''s job; this is a best-effort sanity check)'')
          else check_advisory ''hba_origin_restricted'' CheckWarn
            (''a wide-open pg_hba host rule appears to reach '' @ quoted agent_role @ '' ('' @ decimal (length offending)
              @ '' rule(s) from 0.0.0.0/0 '' @ [CHR 0xC2, CHR 0xB7] @ '' ::/0 '' @ [CHR 0xC2, CHR 0xB7] @ '' all) '' @ em_dash
              @ '' restrict the agent role to the proxy host (deploy/hba/)''))"

section \<open>The run\<close>

text \<open>
  The connection: opening one for a DSN, and its answers, each with the state it leaves. A query
  gives rows, \<^verbatim>\<open>query_one\<close> the one value, and a failure its message. The first column of
  \<^verbatim>\<open>pg_hba_file_rules\<close> may be NULL. A run opens one connection for each of at most two DSNs, so opening
  is a function of the DSN.
\<close>

record 'c doctor_db =
  db_connect :: "string \<Rightarrow> string + 'c"
  db_attrs :: "string \<Rightarrow> string list \<Rightarrow> ('c, string, role_attrs list) eff"
  db_count :: "string \<Rightarrow> string list \<Rightarrow> ('c, string, i64) eff"
  db_flag :: "string \<Rightarrow> string list \<Rightarrow> ('c, string, bool) eff"
  db_rules :: "string \<Rightarrow> ('c, string, (string option \<times> string list \<times> string) list) eff"

record 'io doctor_text =
  tx_secret :: "secret_error \<Rightarrow> string"
  tx_boot :: "'io boot_error \<Rightarrow> string"
  tx_break :: "chain_break \<Rightarrow> string"

datatype ('p, 'io) doctor_error =
    DoctorPolicyUnreadable string 'io
  | DoctorPolicyInvalid string "'p policy_error"
  | DoctorTarget target_resolution_error
  | DoctorNoPassword
  | DoctorUnreachable resolved_target string
  | DoctorRoles string string
  | DoctorMemberships string string
  | DoctorGrants string string
  | DoctorCreate string string
  | DoctorPanic

definition cli_env_or :: "('i, 's, 'f, 'io, 'p) proc_env \<Rightarrow> string \<Rightarrow> string \<Rightarrow> string" where
  "cli_env_or env key dflt = (case pe_getenv env key of Some v \<Rightarrow> if v \<noteq> [] then v else dflt | None \<Rightarrow> dflt)"

definition load_doctor_policy :: "('i, 's, 'f, 'io, 'p) proc_env \<Rightarrow> ('p, 'io) doctor_error + policy_config option" where
  "load_doctor_policy env =
     (case pe_getenv env ''PGB_POLICY_PATH'' of
        None \<Rightarrow> Inr None
      | Some path \<Rightarrow>
          if path = [] then Inr None
          else
          (case pe_read_to_string env path of
             Inl e \<Rightarrow> Inl (DoctorPolicyUnreadable path e)
           | Inr yaml \<Rightarrow> (case load_from_yaml (pe_from_yaml env) yaml of
                 Inl e \<Rightarrow> Inl (DoctorPolicyInvalid path e)
               | Inr cfg \<Rightarrow> Inr (Some cfg))))"

definition resolve_doctor_target ::
  "policy_config option \<Rightarrow> (string \<Rightarrow> string option) \<Rightarrow> ('p, 'io) doctor_error + resolved_target" where
  "resolve_doctor_target policy getenv =
     (case resolve
        \<lparr>tr_policy_target = Option.bind policy pc_primary, tr_host_override = getenv ''PGB_BACKEND_HOST'',
         tr_port_override = getenv ''PGB_BACKEND_PORT'', tr_db_override = getenv ''PGB_BACKEND_DB'',
         tr_role_override = getenv ''PGB_BACKEND_ROLE'', tr_default_database = ''postgres'',
         tr_default_role = ''pgb_agent'', tr_host_env_key = ''PGB_BACKEND_HOST'', tr_port_env_key = ''PGB_BACKEND_PORT'',
         tr_policy_hint = ''policy.yaml `primary:` (the BYO primary target, SPEC '' @ [CHR 0xC2, CHR 0xA7] @ ''0.5)''\<rparr> of
        Inl e \<Rightarrow> Inl (DoctorTarget e)
      | Inr t \<Rightarrow> Inr t)"

definition ATTRS_SQL :: string where
  "ATTRS_SQL = ''SELECT rolsuper, rolcreatedb, rolcreaterole, rolreplication, rolbypassrls FROM pg_roles WHERE rolname = $1''"

definition MEMBERS_SQL :: string where
  "MEMBERS_SQL = ''SELECT count(*)::bigint FROM pg_auth_members m JOIN pg_roles a ON a.oid = m.member WHERE a.rolname = $1''"

definition GRANTS_SQL :: string where
  "GRANTS_SQL = ''SELECT count(*)::bigint FROM ( SELECT DISTINCT table_schema, table_name FROM information_schema.role_table_grants WHERE grantee = $1 AND privilege_type IN ('INSERT','UPDATE','DELETE','TRUNCATE') AND table_schema NOT IN ('pg_catalog','information_schema') ) g''"

definition CREATE_SQL :: string where
  "CREATE_SQL = ''SELECT coalesce(has_schema_privilege($1, $2, 'CREATE'), false)''"

definition HBA_SQL :: string where
  "HBA_SQL = ''SELECT type, coalesce(user_name, ARRAY[]::text[]), coalesce(address, '' @ [CHR 0x27, CHR 0x27] @ '') FROM pg_hba_file_rules''"

text \<open>A failed query ends the run; the connection is dropped with its state.\<close>

definition asked :: "(string \<Rightarrow> 'e) \<Rightarrow> ('c, string, 'a) eff \<Rightarrow> ('c, 'e, 'a) eff" where
  "asked err q c = (case q c of (Inl e, c') \<Rightarrow> (Inl (err e), c') | (Inr x, c') \<Rightarrow> (Inr x, c'))"

definition doctor_role_checks ::
  "'c doctor_db \<Rightarrow> string \<Rightarrow> string \<Rightarrow> bool \<Rightarrow> ('c, ('p, 'io) doctor_error, check_result list) eff" where
  "doctor_role_checks db role app_schema is_agent =
     ebind (asked (DoctorRoles role) (db_attrs db ATTRS_SQL [role])) (\<lambda>attr_rows.
     let attrs = (case attr_rows of [] \<Rightarrow> None | r # _ \<Rightarrow> Some r) in
     ebind (asked (DoctorMemberships role) (db_count db MEMBERS_SQL [role])) (\<lambda>membership_count.
     if is_agent then
       ebind (asked (DoctorGrants role) (db_count db GRANTS_SQL [role])) (\<lambda>write_grant_count.
       eret (check_agent_hardening role attrs membership_count write_grant_count))
     else
       ebind (asked (DoctorCreate role) (db_flag db CREATE_SQL [role, app_schema])) (\<lambda>has_create.
       eret (check_applier_dml role attrs membership_count has_create))))"

text \<open>Reading a NULL as a \<^verbatim>\<open>String\<close> panics.\<close>

definition doctor_hba_check :: "'c doctor_db \<Rightarrow> string \<Rightarrow> ('c, ('p, 'io) doctor_error, check_result) eff" where
  "doctor_hba_check db agent_role c =
     (case db_rules db HBA_SQL c of
        (Inl _, c') \<Rightarrow> (Inr (check_hba_boundary agent_role None), c')
      | (Inr rows, c') \<Rightarrow>
          if list_ex (\<lambda>(ty, _). ty = None) rows then (Inl DoctorPanic, c')
          else (Inr (check_hba_boundary agent_role (Some (map (\<lambda>(ty, users, addr).
                  \<lparr>hr_conn_type = the ty, hr_user_name = map to_ascii_lowercase users, hr_address = addr\<rparr>) rows))), c'))"

definition cli_nonempty_env :: "('i, 's, 'f, 'io, 'p) proc_env \<Rightarrow> string \<Rightarrow> string option" where
  "cli_nonempty_env env key = (case pe_getenv env key of Some v \<Rightarrow> if v \<noteq> [] then Some v else None | None \<Rightarrow> None)"

definition cli_anchor_interval :: "('i, 's, 'f, 'io, 'p) proc_env \<Rightarrow> u64" where
  "cli_anchor_interval env =
     (case Option.bind (pe_getenv env ''PGB_ANCHOR_INTERVAL_MS'') parse_u64 of Some n \<Rightarrow> n | None \<Rightarrow> 60000)"

definition doctor_meta_check ::
  "'io doctor_text \<Rightarrow> ('i, 's, 'f, 'io, 'p) proc_env \<Rightarrow> 'f \<Rightarrow> check_result \<times> 'f" where
  "doctor_meta_check tx env f =
     (case (cli_nonempty_env env ''PGB_META_DSN'', cli_nonempty_env env ''PGB_AUDIT_SIGNING_KEY'', cli_nonempty_env env ''PGB_ANCHOR_PATH'') of
        (Some dsn, Some key, Some anchor) \<Rightarrow>
          (case secret_put AUDIT_SIGNING_KEY_ID (as_bytes key) secret_store_new of
             (Inl e, _) \<Rightarrow> (check_fail ''meta_chain_verifies'' (''audit key load failed: '' @ tx_secret tx e), f)
           | (Inr _, store) \<Rightarrow>
             (case connect_with_anchor (pe_audit env) dsn store (cli_anchor_interval env) anchor f of
                (Inl e, f1) \<Rightarrow> (check_fail ''meta_chain_reachable''
                  (''the `_meta` audit DB is unreachable / chain not installed (fail-closed): '' @ tx_boot tx e), f1)
              | (Inr (b, s), f1) \<Rightarrow>
                (case load_chain (pe_audit env) (b, s, f1) of
                   (Inr records, _, _, f2) \<Rightarrow>
                     (case verify_meta_chain (be_hasher (pe_audit env)) records of
                        Inr summary \<Rightarrow> check_pass ''meta_chain_verifies''
                          (''the `_meta` audit chain is installed and VERIFIES ('' @ decimal (cs_len summary) @ '' records, head ''
                            @ cs_head summary @ '')'')
                      | Inl brk \<Rightarrow> check_fail ''meta_chain_verifies''
                          (''the `_meta` chain FAILED within-chain verification at '' @ tx_break tx brk), f2)
                 | (Inl e, _, _, f2) \<Rightarrow>
                     (check_fail ''meta_chain_verifies'' (''could not load the `_meta` chain (fail-closed): '' @ tx_boot tx e), f2))))
      | _ \<Rightarrow> (check_advisory ''meta_chain_verifies'' CheckWarn
          (''PGB_META_DSN / PGB_AUDIT_SIGNING_KEY / PGB_ANCHOR_PATH not all set '' @ em_dash
            @ '' skipping the `_meta` chain verification (set them to verify the audit chain here)''), f))"

definition replica_checks :: "'c doctor_db \<Rightarrow> policy_config option \<Rightarrow> string \<Rightarrow> check_result list" where
  "replica_checks db policy password =
     (case Option.bind policy pc_replica_target of
        None \<Rightarrow> []
      | Some replica \<Rightarrow>
          let at = dt_host replica @ '':'' @ decimal (unat (dt_port replica)) in
          (case db_connect db (dsn_target_dsn replica @ '' password='' @ password) of
             Inr _ \<Rightarrow> [check_pass ''replica_reachable'' (''connected to the read replica at '' @ at)]
           | Inl e \<Rightarrow> [check_fail ''replica_reachable''
               (''replica configured but unreachable at '' @ at @ '' (fail-closed): '' @ e)]))"

text \<open>What the run asks the primary, in order: the two roles, then the rules.\<close>

definition primary_checks ::
  "'c doctor_db \<Rightarrow> string \<Rightarrow> string \<Rightarrow> string \<Rightarrow> ('c, ('p, 'io) doctor_error, check_result list) eff" where
  "primary_checks db agent_role applier_role app_schema =
     ebind (doctor_role_checks db agent_role app_schema True) (\<lambda>agent.
     ebind (doctor_role_checks db applier_role app_schema False) (\<lambda>applier.
     ebind (doctor_hba_check db agent_role) (\<lambda>hba.
     eret (agent @ applier @ [hba]))))"

text \<open>The report of a run that reached the primary.\<close>

definition primary_report :: "resolved_target \<Rightarrow> check_result list \<Rightarrow> doctor_report" where
  "primary_report target checks =
     foldl (\<lambda>r c. report_push c r)
       (report_push (check_pass ''primary_reachable''
          (''connected to the primary at '' @ rt_host target @ '':'' @ decimal (unat (rt_port target)) @ ''/'' @ rt_database target
            @ '' as '' @ quoted (rt_role target))) report_new)
       checks"

definition run_doctor ::
  "'io doctor_text \<Rightarrow> 'c doctor_db \<Rightarrow> ('i, 's, 'f, 'io, 'p) proc_env \<Rightarrow> ('f, ('p, 'io) doctor_error, bool \<times> string) eff" where
  "run_doctor tx db env =
     ebind (elift (load_doctor_policy env)) (\<lambda>policy.
     ebind (elift (resolve_doctor_target policy (pe_getenv env))) (\<lambda>target.
     let agent_role = cli_env_or env ''PGB_AGENT_ROLE'' ''pgb_agent'';
         applier_role = cli_env_or env ''PGB_APPLIER_ROLE'' ''pgb_applier'';
         app_schema = cli_env_or env ''PGB_APP_SCHEMA'' ''public'' in
     ebind (elift (case pe_getenv env ''PGB_DOCTOR_PASSWORD'' of None \<Rightarrow> Inl DoctorNoPassword | Some p \<Rightarrow> Inr p)) (\<lambda>password.
     ebind (elift (case db_connect db (to_credential_less_dsn target @ '' password='' @ password) of
         Inl e \<Rightarrow> Inl (DoctorUnreachable target e) | Inr c \<Rightarrow> Inr c)) (\<lambda>client.
     ebind (elift (fst (primary_checks db agent_role applier_role app_schema client))) (\<lambda>checks f.
     (case doctor_meta_check tx env f of
        (meta, f') \<Rightarrow>
          let report = primary_report target (checks @ replica_checks db policy password @ [meta])
          in (Inr (passed report, ''pgb-cli doctor '' @ em_dash @ '' BYO preflight (SPEC '' @ [CHR 0xC2, CHR 0xA7] @ ''0.5):''
               @ [CHR 0x0A] @ report_render report), f')))))))"

section \<open>When the preflight passes\<close>

lemma is_blocking_simps [simp]:
  "\<not> is_blocking (check_pass n d)" "is_blocking (check_fail n d)" "\<not> is_blocking (check_advisory n st d)"
  by (simp_all add: is_blocking_def check_pass_def check_fail_def check_advisory_def)

lemma pushed_one: "dr_checks (report_push c r) = dr_checks r @ [c]"
  by (simp add: report_push_def)

lemma pushed_checks [simp]: "dr_checks (foldl (\<lambda>r c. report_push c r) r cs) = dr_checks r @ cs"
  by (induction cs arbitrary: r) (simp_all add: report_push_def)

definition hardened_attrs :: role_attrs where
  "hardened_attrs = \<lparr>is_superuser = False, can_create_db = False, can_create_role = False, can_replicate = False, can_bypass_rls = False\<rparr>"

lemma push_attr_checks_iff:
  "list_ex is_blocking (push_attr_checks role a out) \<longleftrightarrow> list_ex is_blocking out \<or> a \<noteq> hardened_attrs"
  by (cases a) (auto simp: push_attr_checks_def escalation_attrs_def hardened_attrs_def)

lemma agent_checks_iff:
  "list_ex is_blocking (check_agent_hardening role attrs m w) \<longleftrightarrow> \<not> (attrs = Some hardened_attrs \<and> m = 0 \<and> w = 0)"
  by (auto simp: check_agent_hardening_def push_attr_checks_iff split: option.split)

lemma applier_checks_iff:
  "list_ex is_blocking (check_applier_dml role attrs m create) \<longleftrightarrow> \<not> (attrs = Some hardened_attrs \<and> m = 0 \<and> \<not> create)"
  by (auto simp: check_applier_dml_def push_attr_checks_iff split: option.split)

lemma hba_never_blocks: "\<not> is_blocking (check_hba_boundary role rules)"
  by (simp add: check_hba_boundary_def split: option.split)

text \<open>What the catalogs answer for a hardened agent, and for an applier that cannot create.\<close>

definition agent_floor :: "'c doctor_db \<Rightarrow> string \<Rightarrow> 'c \<Rightarrow> 'c \<Rightarrow> bool" where
  "agent_floor db role c c' =
     (\<exists>rows c1 c2. db_attrs db ATTRS_SQL [role] c = (Inr (hardened_attrs # rows), c1)
        \<and> db_count db MEMBERS_SQL [role] c1 = (Inr 0, c2) \<and> db_count db GRANTS_SQL [role] c2 = (Inr 0, c'))"

definition applier_floor :: "'c doctor_db \<Rightarrow> string \<Rightarrow> string \<Rightarrow> 'c \<Rightarrow> 'c \<Rightarrow> bool" where
  "applier_floor db role schema c c' =
     (\<exists>rows c1 c2. db_attrs db ATTRS_SQL [role] c = (Inr (hardened_attrs # rows), c1)
        \<and> db_count db MEMBERS_SQL [role] c1 = (Inr 0, c2) \<and> db_flag db CREATE_SQL [role, schema] c2 = (Inr False, c'))"

definition rules_readable :: "'c doctor_db \<Rightarrow> 'c \<Rightarrow> bool" where
  "rules_readable db c =
     (case fst (db_rules db HBA_SQL c) of Inl _ \<Rightarrow> True | Inr rows \<Rightarrow> list_all (\<lambda>(ty, _). ty \<noteq> None) rows)"

text \<open>The audit log: not configured here, or it loads and verifies.\<close>

definition log_floor :: "('i, 's, 'f, 'io, 'p) proc_env \<Rightarrow> 'f \<Rightarrow> bool" where
  "log_floor env f =
     (case (cli_nonempty_env env ''PGB_META_DSN'', cli_nonempty_env env ''PGB_AUDIT_SIGNING_KEY'', cli_nonempty_env env ''PGB_ANCHOR_PATH'') of
        (Some dsn, Some key, Some anchor) \<Rightarrow>
          \<exists>b s f1 records s1. connect_with_anchor (pe_audit env) dsn (signing_store key) (cli_anchor_interval env) anchor f = (Inr (b, s), f1)
            \<and> be_load (pe_audit env) s = (Inr records, s1) \<and> verify_chain (be_hasher (pe_audit env)) records = Inr ()
      | _ \<Rightarrow> True)"

lemma asked_Inr: "asked err q c = (Inr x, c') \<longleftrightarrow> q c = (Inr x, c')"
  by (auto simp: asked_def split: prod.splits sum.splits)

lemma first_row: "(case rows of [] \<Rightarrow> None | r # _ \<Rightarrow> Some r) = Some a \<longleftrightarrow> (\<exists>rs. rows = a # rs)"
  by (cases rows) auto

lemma fst_Inr_iff: "fst p = Inr x \<longleftrightarrow> (\<exists>s. p = (Inr x, s))"
  by (cases p) simp

lemma agent_checks_pass:
  "(\<exists>cs. doctor_role_checks db role schema True c = (Inr cs, c') \<and> \<not> list_ex is_blocking cs) \<longleftrightarrow> agent_floor db role c c'"
  unfolding doctor_role_checks_def agent_floor_def ebind_Inr_iff asked_Inr Let_def
  by (fastforce simp: agent_checks_iff eret_def ebind_Inr_iff asked_Inr first_row)

lemma applier_checks_pass:
  "(\<exists>cs. doctor_role_checks db role schema False c = (Inr cs, c') \<and> \<not> list_ex is_blocking cs) \<longleftrightarrow> applier_floor db role schema c c'"
  unfolding doctor_role_checks_def applier_floor_def ebind_Inr_iff asked_Inr Let_def
  by (fastforce simp: applier_checks_iff eret_def ebind_Inr_iff asked_Inr first_row)

lemma hba_check_pass:
  "(\<exists>chk. doctor_hba_check db role c = (Inr chk, c') \<and> \<not> is_blocking chk) \<longleftrightarrow> rules_readable db c \<and> snd (db_rules db HBA_SQL c) = c'"
  by (cases "db_rules db HBA_SQL c")
    (auto simp: doctor_hba_check_def rules_readable_def hba_never_blocks list_all_iff list_ex_iff split: sum.splits if_splits)

lemma primary_checks_pass:
  "(\<exists>cs. fst (primary_checks db agent applier schema c) = (Inr cs :: ('p, 'io) doctor_error + check_result list) \<and> \<not> list_ex is_blocking cs)
    \<longleftrightarrow> (\<exists>c1 c2. agent_floor db agent c c1 \<and> applier_floor db applier schema c1 c2 \<and> rules_readable db c2)"
proof -
  have parts: "list_ex is_blocking (xs @ ys @ [chk]) \<longleftrightarrow> list_ex is_blocking xs \<or> list_ex is_blocking ys \<or> is_blocking chk"
    for xs ys chk by simp
  have "(\<exists>cs. fst (primary_checks db agent applier schema c) = (Inr cs :: ('p, 'io) doctor_error + check_result list) \<and> \<not> list_ex is_blocking cs)
    \<longleftrightarrow> (\<exists>xs c1 ys c2 chk c3. doctor_role_checks db agent schema True c = (Inr xs :: ('p, 'io) doctor_error + check_result list, c1)
      \<and> doctor_role_checks db applier schema False c1 = (Inr ys :: ('p, 'io) doctor_error + check_result list, c2)
      \<and> doctor_hba_check db agent c2 = (Inr chk :: ('p, 'io) doctor_error + check_result, c3)
      \<and> \<not> list_ex is_blocking (xs @ ys @ [chk]))"
    unfolding primary_checks_def fst_Inr_iff ebind_Inr_iff eret_def by blast
  then have "(\<exists>cs. fst (primary_checks db agent applier schema c) = (Inr cs :: ('p, 'io) doctor_error + check_result list) \<and> \<not> list_ex is_blocking cs)
    \<longleftrightarrow> (\<exists>c1 c2 c3. (\<exists>cs. doctor_role_checks db agent schema True c = (Inr cs :: ('p, 'io) doctor_error + check_result list, c1) \<and> \<not> list_ex is_blocking cs)
      \<and> (\<exists>cs. doctor_role_checks db applier schema False c1 = (Inr cs :: ('p, 'io) doctor_error + check_result list, c2) \<and> \<not> list_ex is_blocking cs)
      \<and> (\<exists>chk. doctor_hba_check db agent c2 = (Inr chk :: ('p, 'io) doctor_error + check_result, c3) \<and> \<not> is_blocking chk))"
    unfolding parts by blast
  then show ?thesis unfolding agent_checks_pass applier_checks_pass hba_check_pass by blast
qed

lemma verify_meta_chain_ok: "(\<exists>summary. verify_meta_chain h records = Inr summary) \<longleftrightarrow> verify_chain h records = Inr ()"
  by (cases "verify_chain h records") (simp_all add: verify_meta_chain_def rbind_def)

lemma meta_check_pass: "\<not> is_blocking (fst (doctor_meta_check tx env f)) \<longleftrightarrow> log_floor env f"
proof -
  have key: "k \<noteq> []" if "cli_nonempty_env env n = Some k" for n k
    using that by (simp add: cli_nonempty_env_def split: option.splits if_splits)
  have load: "is_blocking (fst (case load_chain (pe_audit env) (b, s, f1) of
       (Inr records, _, _, f2) \<Rightarrow> (case verify_meta_chain (be_hasher (pe_audit env)) records of
          Inr summary \<Rightarrow> check_pass n (d summary) | Inl brk \<Rightarrow> check_fail n' (d' brk), f2)
     | (Inl e, _, _, f2) \<Rightarrow> (check_fail n'' (d'' e), f2)))
     \<longleftrightarrow> \<not> (\<exists>records s1. be_load (pe_audit env) s = (Inr records, s1) \<and> verify_chain (be_hasher (pe_audit env)) records = Inr ())"
    for b s f1 n n' n'' d d' d''
    by (cases "be_load (pe_audit env) s")
      (auto simp: load_chain_def verify_meta_chain_ok [symmetric] split: sum.split)
  show ?thesis
    by (auto simp: doctor_meta_check_def log_floor_def put_fresh_secret(1) load dest: key split: option.split sum.split prod.split)
qed

lemma primary_report_passes:
  "passed (primary_report target (checks @ replicas @ [meta])) \<longleftrightarrow>
     \<not> list_ex is_blocking checks \<and> \<not> list_ex is_blocking replicas \<and> \<not> is_blocking meta"
  by (simp add: primary_report_def passed_def report_new_def pushed_one)

lemma option_Inr_iff: "(case x of None \<Rightarrow> Inl e | Some y \<Rightarrow> Inr y) = Inr z \<longleftrightarrow> x = Some z"
  by (cases x) simp_all

text \<open>
  C13: the preflight passes exactly when it saw the floor: the policy and the target resolved, the
  primary was reached, the agent and then the applier exist without any of the five attributes and
  without memberships, the agent without write grants and the applier without the right to create in
  the schema, the rules could be read if at all, a configured replica was reached, and the audit log,
  where it is configured here, loads and verifies.
\<close>

theorem doctor_passes_iff_floor_observed:
  fixes env :: "('i, 's, 'f, 'io, 'p) proc_env"
  shows "(\<exists>out f'. run_doctor tx db env f = (Inr (True, out), f')) \<longleftrightarrow>
    (\<exists>policy target password c0 c1 c2.
       load_doctor_policy env = Inr policy
     \<and> resolve_doctor_target policy (pe_getenv env) = (Inr target :: ('p, 'io) doctor_error + resolved_target)
     \<and> pe_getenv env ''PGB_DOCTOR_PASSWORD'' = Some password
     \<and> db_connect db (to_credential_less_dsn target @ '' password='' @ password) = Inr c0
     \<and> agent_floor db (cli_env_or env ''PGB_AGENT_ROLE'' ''pgb_agent'') c0 c1
     \<and> applier_floor db (cli_env_or env ''PGB_APPLIER_ROLE'' ''pgb_applier'') (cli_env_or env ''PGB_APP_SCHEMA'' ''public'') c1 c2
     \<and> rules_readable db c2
     \<and> (case Option.bind policy pc_replica_target of None \<Rightarrow> True
        | Some replica \<Rightarrow> is_ok (db_connect db (dsn_target_dsn replica @ '' password='' @ password)))
     \<and> log_floor env f)"
proof -
  have replica: "list_ex is_blocking (replica_checks db policy password) \<longleftrightarrow>
      \<not> (case Option.bind policy pc_replica_target of None \<Rightarrow> True
          | Some replica \<Rightarrow> is_ok (db_connect db (dsn_target_dsn replica @ '' password='' @ password)))" for policy password
    by (simp add: replica_checks_def is_ok_def split: option.split sum.split)
  let ?checks = "primary_checks db (cli_env_or env ''PGB_AGENT_ROLE'' ''pgb_agent'')
    (cli_env_or env ''PGB_APPLIER_ROLE'' ''pgb_applier'') (cli_env_or env ''PGB_APP_SCHEMA'' ''public'')"
  have "(\<exists>out f'. run_doctor tx db env f = (Inr (True, out), f')) \<longleftrightarrow>
    (\<exists>policy target password c0. load_doctor_policy env = Inr policy
     \<and> resolve_doctor_target policy (pe_getenv env) = (Inr target :: ('p, 'io) doctor_error + resolved_target)
     \<and> pe_getenv env ''PGB_DOCTOR_PASSWORD'' = Some password
     \<and> db_connect db (to_credential_less_dsn target @ '' password='' @ password) = Inr c0
     \<and> (\<exists>cs. fst (?checks c0) = (Inr cs :: ('p, 'io) doctor_error + check_result list) \<and> \<not> list_ex is_blocking cs)
     \<and> \<not> list_ex is_blocking (replica_checks db policy password)
     \<and> \<not> is_blocking (fst (doctor_meta_check tx env f)))"
    unfolding run_doctor_def Let_def ebind_elift_Inr_iff rcase_Inr_iff option_Inr_iff
    by (cases "doctor_meta_check tx env f")
      (simp only: prod.case prod.inject sum.inject primary_report_passes option_Inr_iff rcase_Inr_iff fst_conv simp_thms, blast)
  then show ?thesis unfolding primary_checks_pass meta_check_pass replica by blast
qed

section \<open>What the preflight does not see\<close>

text \<open>
  C38: the preflight does not compare the log with the anchor. After an owner of the anchor started on
  a log, and the log was replaced by another one that verifies, the check of the log passes although
  it was given the anchor file and the key, and every process refuses to start on that log.
\<close>

theorem doctor_passes_a_replaced_log:
  fixes penv :: "('i, 's, 'f, 'io, 'p) proc_env"
  assumes settings: "cli_nonempty_env penv ''PGB_META_DSN'' = Some dsn'" "cli_nonempty_env penv ''PGB_AUDIT_SIGNING_KEY'' = Some key"
      "cli_nonempty_env penv ''PGB_ANCHOR_PATH'' = Some path" "cli_anchor_interval penv = interval'"
    and durable: "durable (pe_audit penv) path" and hex: "\<And>bs. be_hex_decode (pe_audit penv) (be_hex_encode (pe_audit penv) bs) = Some bs"
    and first: "connect_with_anchor (pe_audit penv) dsn (signing_store key) interval path f0 = (Inr (b0, s0), f1)"
      "be_load (pe_audit penv) s0 = (Inr xs, s0')" "boot (pe_audit penv) Owner now (b0, s0, f1) = (Inr u, b1, s1, f2)"
    and nxt: "connect_with_anchor (pe_audit penv) dsn' (signing_store key) interval' path f2 = (Inr (b2, s2), f3)"
      "be_load (pe_audit penv) s2 = (Inr ys, s2')"
    and replaced: "ys \<noteq> xs" "verify_chain (be_hasher (pe_audit penv)) ys = Inr ()"
    and sound: "hasher_sound (be_hasher (pe_audit penv)) (ar_payload ` (set xs \<union> set ys))"
  shows "cr_status (fst (doctor_meta_check tx penv f2)) = CheckPass
    \<and> (\<exists>e. fst (boot (pe_audit penv) role now' (b2, s2, f3)) = Inl e)"
proof -
  have key: "key \<noteq> []" using settings(2) by (simp add: cli_nonempty_env_def split: option.splits if_splits)
  obtain summary where "verify_meta_chain (be_hasher (pe_audit penv)) ys = Inr summary"
    using verify_meta_chain_ok replaced(2) by blast
  then have "cr_status (fst (doctor_meta_check tx penv f2)) = CheckPass"
    by (simp add: doctor_meta_check_def settings put_fresh_secret(1) [OF key] nxt load_chain_def check_pass_def)
  moreover from connect_handle_ok [OF durable first(1)] obtain k
    where k: "from_secret_store (secret_get (signing_store key)) AUDIT_SIGNING_KEY_ID = Inr k" and handle: "handle_ok (pe_audit penv) path k b0 f1"
      and fresh: "an_last_anchor_at (ab_anchorer b0) = None" by blast
  note started = owner_started [OF durable handle fresh first(2,3)]
  have "boot_verdict (be_hasher (pe_audit penv)) xs ys
      = (Inl :: 'io boot_error \<Rightarrow> 'io boot_error + unit) (AnchorHeadMismatch (fst (head_of xs)) (fst (head_of ys)) (fst (snd (head_of xs))))"
    using same_head_iff [OF started(1) replaced(2) sound] replaced by (simp add: boot_verdict_def)
  with next_boot [OF started(2) k nxt hex] have "\<exists>e. fst (boot (pe_audit penv) role now' (b2, s2, f3)) = Inl e"
    by (cases role) (auto simp del: boot.simps)
  ultimately show ?thesis ..
qed

definition doctored_env :: "(unit, unit audit_record list, string list option, unit, unit) proc_env" where
  "doctored_env =
     \<lparr>pe_getenv = map_of [(''PGB_META_DSN'', ''b''), (''PGB_AUDIT_SIGNING_KEY'', [CHR 0x01]), (''PGB_ANCHOR_PATH'', ''p''),
        (''PGB_ANCHOR_INTERVAL_MS'', ''0'')],
      pe_read_to_string = (\<lambda>_. Inr []), pe_from_yaml = (\<lambda>_. Inr start_policy), pe_is_address = (\<lambda>_. True),
      pe_audit = sample_boot_env\<rparr>"

definition doctored_text :: "unit doctor_text" where
  "doctored_text = \<lparr>tx_secret = (\<lambda>_. []), tx_boot = (\<lambda>_. []), tx_break = (\<lambda>_. [])\<rparr>"

theorem doctor_passes_a_replaced_log_witness:
  "cr_status (fst (doctor_meta_check doctored_text doctored_env (Some [sample_render (entry_for sample_boot_env boot_key [])]))) = CheckPass
    \<and> (\<exists>e. fst (boot sample_boot_env Verify 0 (boot_handle [entry_for sample_boot_env boot_key []], sample_log 1,
         Some [sample_render (entry_for sample_boot_env boot_key [])])) = Inl e)"
proof -
  have env: "pe_audit doctored_env = sample_boot_env" by (simp add: doctored_env_def)
  have settings: "cli_nonempty_env doctored_env ''PGB_META_DSN'' = Some ''b''"
    "cli_nonempty_env doctored_env ''PGB_AUDIT_SIGNING_KEY'' = Some [CHR 0x01]"
    "cli_nonempty_env doctored_env ''PGB_ANCHOR_PATH'' = Some ''p''" "cli_anchor_interval doctored_env = 0"
    by (simp_all add: doctored_env_def cli_nonempty_env_def cli_anchor_interval_def parse_u64_def parse_digits_def)
  obtain b1 where first: "boot sample_boot_env Owner 0 (boot_handle [], [], Some []) =
      (Inr (), b1, [], Some [sample_render (entry_for sample_boot_env boot_key [])])" using sample_first_boot by blast
  have load: "be_load sample_boot_env s = (Inr s, s)" for s by (simp add: sample_env_def)
  have log: "sample_log 1 \<noteq> []" "verify_chain (be_hasher sample_boot_env) (sample_log 1) = Inr ()"
    "hasher_sound (be_hasher sample_boot_env) (ar_payload ` (set [] \<union> set (sample_log 1)))"
    using sample_log_one [of 1] sample_log_ok sample_log_sound by (auto simp: sample_env_def)
  show ?thesis
    using doctor_passes_a_replaced_log [of doctored_env, unfolded env,
      OF settings sample_durable sample_hex sample_first_connects [folded start_store] load first
        sample_next_connects [folded start_store] load log] .
qed

text \<open>
  The catalog view splits a CIDR into an address and a netmask, so an address it gives holds no slash.
  On such rows the only rules that raise the warning are those with the address \<open>all\<close>: a rule that
  opens every IPv4 address to every role passes.
\<close>

lemma trim_keeps: "set (trim s) \<subseteq> set s"
proof -
  have drop: "set (concat (dropWhile P xss)) \<subseteq> set (concat xss)" for P and xss :: "string list"
    using set_dropWhileD by fastforce
  have "set (trim_end s) \<subseteq> set s" for s
  proof -
    have "set (concat (rev (dropWhile chunk_white (rev (utf8_chunks s))))) \<subseteq> set (concat (utf8_chunks s))"
      using set_dropWhileD [of _ chunk_white "rev (utf8_chunks s)"] by (auto simp del: concat_utf8_chunks)
    then show ?thesis unfolding trim_end_def by simp
  qed
  moreover have "set (trim_start s) \<subseteq> set s"
    unfolding trim_start_def using drop [of chunk_white "utf8_chunks s"] by simp
  ultimately show ?thesis unfolding trim_def by blast
qed

lemma wide_open_without_slash: "CHR ''/'' \<notin> set addr \<Longrightarrow> wide_open addr \<longleftrightarrow> eq_ignore_ascii_case (trim addr) ''all''"
  using trim_keeps [of addr] by (auto simp: wide_open_def)

lemma split_cidr_passes:
  assumes "rows \<noteq> []" and "\<And>ty users addr. (ty, users, addr) \<in> set rows \<Longrightarrow>
      ty \<noteq> None \<and> CHR ''/'' \<notin> set addr \<and> \<not> eq_ignore_ascii_case (trim addr) ''all''"
    and "db_rules db HBA_SQL c = (Inr rows, c')"
  shows "\<exists>chk. doctor_hba_check db role c = (Inr chk, c') \<and> cr_status chk = CheckPass"
proof -
  let ?rules = "map (\<lambda>(ty, users, addr). \<lparr>hr_conn_type = the ty, hr_user_name = map to_ascii_lowercase users, hr_address = addr\<rparr>) rows"
  have "filter (offending_rule agent) ?rules = []" for agent
    using assms(2) wide_open_without_slash by (fastforce simp: filter_empty_conv offending_rule_def)
  then have "cr_status (check_hba_boundary role (Some ?rules)) = CheckPass"
    using assms(1) by (simp add: check_hba_boundary_def check_advisory_def)
  moreover have "\<not> list_ex (\<lambda>(ty, _). ty = None) rows" using assms(2) by (fastforce simp: list_ex_iff)
  ultimately show ?thesis using assms(3) by (simp add: doctor_hba_check_def)
qed

text \<open>A line of pg_hba.conf that does not parse has no type in the view, and the preflight dies on it.\<close>

lemma unparsed_rule_panics:
  assumes "db_rules db HBA_SQL c = (Inr rows, c')" and "(None, users, addr) \<in> set rows"
  shows "doctor_hba_check db role c = (Inl DoctorPanic, c')"
  using assms by (force simp: doctor_hba_check_def list_ex_iff)

text \<open>An installation that passes: a primary from the environment, and catalogs that answer for two hardened roles.\<close>

definition sound_env :: "(unit, unit audit_record list, string list option, unit, unit) proc_env" where
  "sound_env = doctored_env\<lparr>pe_getenv := map_of [(''PGB_BACKEND_HOST'', ''db''), (''PGB_BACKEND_PORT'', ''6432''), (''PGB_DOCTOR_PASSWORD'', ''x'')]\<rparr>"

definition hardened_db :: "unit doctor_db" where
  "hardened_db = \<lparr>db_connect = (\<lambda>_. Inr ()), db_attrs = (\<lambda>_ _. eret [hardened_attrs]), db_count = (\<lambda>_ _. eret 0),
     db_flag = (\<lambda>_ _. eret False), db_rules = (\<lambda>_. eret [])\<rparr>"

theorem doctor_passes_iff_floor_observed_witness:
  "\<exists>out f'. run_doctor doctored_text hardened_db sound_env (Some []) = (Inr (True, out), f')"
proof -
  have getenv: "pe_getenv sound_env ''PGB_BACKEND_HOST'' = Some ''db''" "pe_getenv sound_env ''PGB_BACKEND_PORT'' = Some ''6432''"
    "pe_getenv sound_env ''PGB_BACKEND_DB'' = None" "pe_getenv sound_env ''PGB_BACKEND_ROLE'' = None"
    "pe_getenv sound_env ''PGB_DOCTOR_PASSWORD'' = Some ''x''" "pe_getenv sound_env ''PGB_POLICY_PATH'' = None"
    "pe_getenv sound_env ''PGB_META_DSN'' = None"
    by (simp_all add: sound_env_def)
  have policy: "load_doctor_policy sound_env = Inr None" by (simp add: load_doctor_policy_def getenv)
  have "\<exists>t. resolve_doctor_target None (pe_getenv sound_env) = (Inr t :: (unit, unit) doctor_error + resolved_target)"
    by (simp add: resolve_doctor_target_def getenv resolve_def or_policy_def resolve_port_def parse_u16_def
        parse_digits_def reject_resolved_injection_def reject_dsn_injection_def chars_def as_bytes_def illegal_dsn_char_def
        is_whitespace_def is_control_def)
  then obtain t where target: "resolve_doctor_target None (pe_getenv sound_env) = (Inr t :: (unit, unit) doctor_error + resolved_target)" ..
  have floor: "agent_floor hardened_db role () ()" "applier_floor hardened_db role schema () ()" "rules_readable hardened_db ()" for role schema
    by (auto simp: agent_floor_def applier_floor_def rules_readable_def hardened_db_def eret_def)
  have log: "log_floor sound_env (Some [])" by (simp add: log_floor_def cli_nonempty_env_def getenv)
  have connect: "db_connect hardened_db dsn = Inr ()" for dsn by (simp add: hardened_db_def)
  show ?thesis unfolding doctor_passes_iff_floor_observed
    by (intro exI [of _ None] exI [of _ t] exI [of _ "''x''"] exI [of _ "()"]) (simp add: policy target getenv floor log connect)
qed

end
