(* ===== verification/Cli_Webhook.thy ===== *)
theory Cli_Webhook
  imports Cli_Approval Policy_Config
begin

text \<open>
  The senders of the webhook (\<^verbatim>\<open>crates/cli/src/webhook.rs\<close>): the HTTP sender with its URL, the request
  it writes and the status it reads, and the recorder. The JSON of a payload, the debug form of a
  string and the TCP stream are parameters.
\<close>

section \<open>The URL\<close>

record parsed_url =
  pu_host :: string
  pu_port :: "16 word"
  pu_path :: string

text \<open>\<^verbatim>\<open>str::rsplit_once\<close> at a one-byte separator.\<close>

definition rsplit_once :: "char \<Rightarrow> string \<Rightarrow> (string \<times> string) option" where
  "rsplit_once c s =
     (if c \<in> set s then Some (rev (tl (dropWhile (\<lambda>x. x \<noteq> c) (rev s))), rev (takeWhile (\<lambda>x. x \<noteq> c) (rev s))) else None)"

definition parse_http_url :: "string \<Rightarrow> webhook_error + parsed_url" where
  "parse_http_url url =
     (if take 7 url \<noteq> ''http://'' then Inl (InvalidUrl url)
      else
      let rest = drop 7 url;
          authority = takeWhile (\<lambda>c. c \<noteq> CHR ''/'') rest;
          path = (if CHR ''/'' \<in> set rest then dropWhile (\<lambda>c. c \<noteq> CHR ''/'') rest else ''/'') in
      if authority = [] then Inl (InvalidUrl url)
      else
      rbind (case rsplit_once CHR '':'' authority of
          Some (h, p) \<Rightarrow> (case parse_u16 p of None \<Rightarrow> Inl (InvalidUrl url) | Some port \<Rightarrow> Inr (h, port))
        | None \<Rightarrow> Inr (authority, 80)) (\<lambda>(host, port).
      if host = [] then Inl (InvalidUrl url)
      else Inr \<lparr>pu_host = host, pu_port = port, pu_path = path\<rparr>))"

section \<open>The answer\<close>

text \<open>The first of \<^verbatim>\<open>str::lines\<close>: up to the first line feed, and without a carriage return before it.\<close>

definition first_line :: "string \<Rightarrow> string option" where
  "first_line s =
     (if s = [] then None
      else let l = takeWhile (\<lambda>c. c \<noteq> CHR 0x0A) s in
        Some (if CHR 0x0A \<in> set s \<and> l \<noteq> [] \<and> last l = CHR 0x0D then butlast l else l))"

text \<open>\<^verbatim>\<open>str::split_whitespace\<close> on the characters of a string.\<close>

fun words_of :: "string \<Rightarrow> string list \<Rightarrow> string list" where
  "words_of acc [] = (if acc = [] then [] else [acc])"
| "words_of acc (ch # chs) =
     (if chunk_white ch then (if acc = [] then words_of [] chs else acc # words_of [] chs) else words_of (acc @ ch) chs)"

definition split_whitespace :: "string \<Rightarrow> string list" where
  "split_whitespace s = words_of [] (utf8_chunks s)"

record webhook_codec =
  wc_to_json :: "webhook_payload \<Rightarrow> string"
  wc_debug :: "string \<Rightarrow> string"

definition parse_status_code :: "webhook_codec \<Rightarrow> string \<Rightarrow> webhook_error + 16 word" where
  "parse_status_code wc response =
     (case first_line response of
        None \<Rightarrow> Inl (WebhookTransport ''empty webhook response'')
      | Some line \<Rightarrow>
          (case (case split_whitespace line of _ # c # _ \<Rightarrow> parse_u16 c | _ \<Rightarrow> None) of
             None \<Rightarrow> Inl (WebhookTransport (''malformed webhook status line: '' @ wc_debug wc line))
           | Some code \<Rightarrow> Inr code))"

section \<open>The senders\<close>

record http_sender =
  hs_url :: string
  hs_timeout_millis :: u64

definition http_sender_new :: "string \<Rightarrow> http_sender" where
  "http_sender_new url = \<lparr>hs_url = url, hs_timeout_millis = 5000\<rparr>"

definition with_timeout :: "u64 \<Rightarrow> http_sender \<Rightarrow> http_sender" where
  "with_timeout t hs = hs\<lparr>hs_timeout_millis := t\<rparr>"

record 'w tcp =
  tcp_connect :: "string \<Rightarrow> 16 word \<Rightarrow> ('w, string, unit) eff"
  tcp_read_timeout :: "u64 \<Rightarrow> ('w, string, unit) eff"
  tcp_write_timeout :: "u64 \<Rightarrow> ('w, string, unit) eff"
  tcp_write_all :: "string \<Rightarrow> ('w, string, unit) eff"
  tcp_flush :: "('w, string, unit) eff"
  tcp_read_to_string :: "('w, string, string) eff"

definition crlf :: string where
  "crlf = [CHR 0x0D, CHR 0x0A]"

definition post_request :: "parsed_url \<Rightarrow> string \<Rightarrow> string" where
  "post_request u body =
     ''POST '' @ pu_path u @ '' HTTP/1.1'' @ crlf @ ''Host: '' @ pu_host u @ crlf @ ''Content-Type: application/json'' @ crlf
     @ ''Content-Length: '' @ decimal (length body) @ crlf @ ''Connection: close'' @ crlf @ crlf @ body"

definition transport :: "('w, string, 'a) eff \<Rightarrow> ('w, webhook_error, 'a) eff" where
  "transport m w = (case m w of (Inl e, w') \<Rightarrow> (Inl (WebhookTransport e), w') | (Inr x, w') \<Rightarrow> (Inr x, w'))"

definition http_send :: "webhook_codec \<Rightarrow> 'w tcp \<Rightarrow> http_sender \<Rightarrow> webhook_payload \<Rightarrow> ('w, webhook_error, unit) eff" where
  "http_send wc tcp hs payload =
     ebind (elift (parse_http_url (hs_url hs))) (\<lambda>u.
     let body = wc_to_json wc payload in
     ebind (transport (tcp_connect tcp (pu_host u) (pu_port u))) (\<lambda>_.
     ebind (transport (tcp_read_timeout tcp (hs_timeout_millis hs))) (\<lambda>_.
     ebind (transport (tcp_write_timeout tcp (hs_timeout_millis hs))) (\<lambda>_.
     ebind (transport (tcp_write_all tcp (post_request u body))) (\<lambda>_.
     ebind (transport (tcp_flush tcp)) (\<lambda>_.
     ebind (transport (tcp_read_to_string tcp)) (\<lambda>response.
     ebind (elift (parse_status_code wc response)) (\<lambda>status.
     if 200 \<le> status \<and> status < 300 then eret () else efail (WebhookStatus status)))))))))"

record recording_sender =
  rw_sent :: "webhook_payload list"
  rw_fail :: bool

definition recording_new :: recording_sender where
  "recording_new = \<lparr>rw_sent = [], rw_fail = False\<rparr>"

definition recording_failing :: recording_sender where
  "recording_failing = \<lparr>rw_sent = [], rw_fail = True\<rparr>"

definition recording_send :: "webhook_payload \<Rightarrow> (recording_sender, webhook_error, unit) eff" where
  "recording_send payload rw =
     (if rw_fail rw then Inl (WebhookTransport ''configured to fail'') else Inr (), rw\<lparr>rw_sent := rw_sent rw @ [payload]\<rparr>)"

section \<open>Correctness\<close>

lemma rsplit_once_last: "c \<notin> set p \<Longrightarrow> rsplit_once c (h @ c # p) = Some (h, p)"
  by (auto simp: rsplit_once_def dropWhile_append takeWhile_append)

text \<open>A URL of a host, a port and a path reads back, whatever colons the host holds.\<close>

lemma url_round_trip:
  assumes "host \<noteq> []" and "CHR ''/'' \<notin> set host" and "path = CHR ''/'' # rest"
  shows "parse_http_url (''http://'' @ host @ CHR '':'' # decimal (unat port) @ path) = Inr \<lparr>pu_host = host, pu_port = port, pu_path = path\<rparr>"
proof -
  have plain: "c \<notin> set (decimal n)" if "c = CHR '':'' \<or> c = CHR ''/'' \<or> c = CHR ''+''" for c n
    using that decimal_digits [of c n] by auto
  have port: "parse_u16 (decimal (unat port)) = Some port"
  proof -
    have "(case decimal (unat port) of CHR ''+'' # r \<Rightarrow> r | _ \<Rightarrow> decimal (unat port)) = decimal (unat port)"
      using plain [of "CHR ''+''" "unat port"] by (auto split: list.split char.split bool.split)
    moreover have "unat port < 2 ^ 16" using unsigned_less [of port] by simp
    ultimately show ?thesis unfolding parse_u16_def by simp
  qed
  let ?auth = "host @ CHR '':'' # decimal (unat port)"
  have slash: "CHR ''/'' \<notin> set ?auth" using assms(2) plain by auto
  then have split: "takeWhile (\<lambda>c. c \<noteq> CHR ''/'') (?auth @ path) = ?auth" "dropWhile (\<lambda>c. c \<noteq> CHR ''/'') (?auth @ path) = path"
    by (auto simp: takeWhile_append dropWhile_append assms(3))
  have once: "rsplit_once CHR '':'' ?auth = Some (host, decimal (unat port))" using plain by (simp add: rsplit_once_last)
  show ?thesis
    using split once port assms by (simp add: parse_http_url_def)
qed

text \<open>The sender says it delivered only when the whole request was written and a status of the 200s was read.\<close>

lemma transport_Inr: "transport m w = (Inr x, w') \<longleftrightarrow> m w = (Inr x, w')"
  by (auto simp: transport_def split: prod.splits sum.splits)

lemma delivered_means_accepted:
  assumes "http_send wc tcp hs payload w = (Inr (), w')"
  shows "\<exists>u w1 w2 w3 w4 response code. parse_http_url (hs_url hs) = Inr u \<and> tcp_connect tcp (pu_host u) (pu_port u) w = (Inr (), w1)
    \<and> tcp_write_all tcp (post_request u (wc_to_json wc payload)) w2 = (Inr (), w3)
    \<and> tcp_read_to_string tcp w4 = (Inr response, w') \<and> parse_status_code wc response = Inr code \<and> 200 \<le> code \<and> code < 300"
  using assms unfolding http_send_def Let_def ebind_Inr_iff transport_Inr elift_def
  by (auto simp: eret_def efail_def split: if_splits)

text \<open>
  The outcome of the webhook is in no record: the log after a request for elevation is the same for
  every sender that leaves the log alone.
\<close>

lemma webhook_outcome_not_logged:
  assumes "\<And>p s. snd (fe_send env p s) = s"
  shows "snd (snd (flow_request_elevation (env\<lparr>fe_send := \<lambda>p s. (Inl err, s)\<rparr>) i p who op ttl clk (flow, s)))
    = snd (snd (flow_request_elevation env i p who op ttl clk (flow, s)))"
  by (simp add: flow_request_elevation_def audit_step_def Let_def prod.case_eq_if assms
      split: elevation_eligibility.split sum.split option.split)

end
