(* ===== verification/Cli_Main.thy ===== *)
theory Cli_Main
  imports Cli_Doctor Cli_Webhook
begin

text \<open>
  The command line (\<^verbatim>\<open>crates/cli/src/main.rs\<close>): the check of the shared log, the demonstration of the
  approval flow on it or in memory, the key generator and the choice of a command with its exit code.
  What a command prints on its standard output is a list of lines or blocks. The random generator, the
  bytes of a key, the clock at each reading, the sink and the texts of errors are parameters.
\<close>

section \<open>The check of the log\<close>

datatype 'io verify_error =
    VerifyMissing string
  | VerifyEmpty string
  | VerifySecret secret_error
  | VerifyBoot "'io boot_error"
  | VerifyLoad "'io boot_error"
  | VerifyBroken chain_break
  | VerifyAnchoring "'io boot_error"
  | VerifyNoAnchor
  | VerifyHead string string

definition required :: "('i, 's, 'f, 'io, 'p) proc_env \<Rightarrow> string \<Rightarrow> 'io verify_error + string" where
  "required env key = (case pe_getenv env key of None \<Rightarrow> Inl (VerifyMissing key) | Some v \<Rightarrow> Inr v)"

definition nonempty :: "string \<Rightarrow> string \<Rightarrow> 'io verify_error + unit" where
  "nonempty key v = (if v = [] then Inl (VerifyEmpty key) else Inr ())"

definition verify_printed :: "chain_summary \<Rightarrow> anchor_entry \<Rightarrow> string list" where
  "verify_printed summary anchored =
     (''pgb-cli verify: the shared `_meta` chain VERIFIES ('' @ decimal (cs_len summary)
        @ '' records) and the durable anchored head MATCHES the chain head.'' @ [CHR 0x0A] @ ''  head = '' @ cs_head summary
        @ [CHR 0x0A] @ ''  anchored_seq = '' @ decimal (unat (ae_seq anchored)) @ [CHR 0x0A] @ ''  decisions by reason_code:'')
     # map (\<lambda>(code, n). ''    '' @ code @ replicate (32 - length (utf8_chunks code)) CHR '' '' @ '' x'' @ decimal n)
         (cs_reason_code_counts summary)"

text \<open>The steps behind the settings: connect, read and verify, anchor, and compare the anchored head.\<close>

definition verify_steps ::
  "('i, 's, 'f, 'io) boot_env \<Rightarrow> u64 \<Rightarrow> (audit_boot \<times> 's \<times> 'f, 'io verify_error, string list) eff" where
  "verify_steps env now =
     ebind (\<lambda>st. case load_chain env st of (Inl e, st') \<Rightarrow> (Inl (VerifyLoad e), st') | (Inr rs, st') \<Rightarrow> (Inr rs, st')) (\<lambda>records.
     ebind (elift (case verify_meta_chain (be_hasher env) records of Inl brk \<Rightarrow> Inl (VerifyBroken brk) | Inr sm \<Rightarrow> Inr sm)) (\<lambda>summary.
     ebind (\<lambda>st. case verify_then_anchor env now st of (Inl e, st') \<Rightarrow> (Inl (VerifyAnchoring e), st') | (Inr u, st') \<Rightarrow> (Inr u, st')) (\<lambda>_.
     (\<lambda>(b, s, f).
        (case latest (ab_worm b) of
           None \<Rightarrow> Inl VerifyNoAnchor
         | Some anchored \<Rightarrow>
             if ae_head_hash anchored \<noteq> cs_head summary then Inl (VerifyHead (ae_head_hash anchored) (cs_head summary))
             else Inr (verify_printed summary anchored), b, s, f)))))"

definition run_verify ::
  "('i, 's, 'f, 'io, 'p) proc_env \<Rightarrow> u64 \<Rightarrow> ('f, 'io verify_error, string list) eff" where
  "run_verify env now =
     ebind (elift (required env ''PGB_META_DSN'')) (\<lambda>dsn.
     ebind (elift (nonempty ''PGB_META_DSN'' dsn)) (\<lambda>_.
     ebind (elift (required env ''PGB_AUDIT_SIGNING_KEY'')) (\<lambda>key.
     ebind (elift (required env ''PGB_ANCHOR_PATH'')) (\<lambda>anchor_path.
     ebind (elift (nonempty ''PGB_ANCHOR_PATH'' anchor_path)) (\<lambda>_.
     (case secret_put AUDIT_SIGNING_KEY_ID (as_bytes key) secret_store_new of
        (Inl e, _) \<Rightarrow> efail (VerifySecret e)
      | (Inr _, store) \<Rightarrow> (\<lambda>f.
          case connect_with_anchor (pe_audit env) dsn store (cli_anchor_interval env) anchor_path f of
            (Inl e, f1) \<Rightarrow> (Inl (VerifyBoot e), f1)
          | (Inr (b, s), f1) \<Rightarrow> (case verify_steps (pe_audit env) now (b, s, f1) of (r, _, _, f2) \<Rightarrow> (r, f2)))))))))"

section \<open>The demonstration\<close>

datatype 'io demo_error =
    DemoMissing string
  | DemoEmpty string
  | DemoSecret secret_error
  | DemoBoot "'io boot_error"
  | DemoStartup "'io boot_error"
  | DemoElevation elevation_error
  | DemoApprove approve_error
  | DemoNoRequest
  | DemoAnchor "'io boot_error"

definition demo_proposal :: request_proposal where
  "demo_proposal =
     \<lparr>rp_proposal_id = ''p-demo-1'',
      rp_statement_text = ''UPDATE public.orders SET status='fixed' WHERE id = $1'',
      rp_normalized_params = [''42''], rp_role = ''app_writer'', rp_session_id = ''sess-demo'', rp_dry_run_lsn = ''3A/7F00C8'',
      rp_cap = \<lparr>max_rows = 1, max_wal_bytes = 4096\<rparr>\<rparr>"

text \<open>The flow of the demonstration sends its webhook to a recorder; its log is the caller's sink.\<close>

definition demo_env ::
  "(intent_tiers new_entry \<Rightarrow> u64 \<Rightarrow> ('s, sink_error, intent_tiers audit_record) eff) \<Rightarrow> (flow_reason \<Rightarrow> string)
    \<Rightarrow> ('s \<times> recording_sender) flow_env" where
  "demo_env app disp =
     \<lparr>fe_append = (\<lambda>e ts (s, rw). case app e ts s of (r, s') \<Rightarrow> (r, s', rw)),
      fe_send = (\<lambda>p (s, rw). case recording_send p rw of (r, rw') \<Rightarrow> (r, s, rw')),
      fe_display = disp\<rparr>"

definition bool_text :: "bool \<Rightarrow> string" where
  "bool_text b = (if b then ''true'' else ''false'')"

text \<open>The three steps; the clock is read anew at each of them.\<close>

definition run_flow ::
  "('k, 'sk) grant_crypto \<Rightarrow> 's flow_env \<Rightarrow> 'sk \<Rightarrow> 'k \<Rightarrow> (nat \<Rightarrow> clock) \<Rightarrow> ('s, 'io demo_error, string list) eff" where
  "run_flow cr env signing_key verifying_key clk s0 =
     (let flow = flow_new verifying_key in_memory_new; i = ''req-demo-1'' in
      case flow_request_elevation env i demo_proposal ''agent-demo'' (OpUpdate True True) 60000 (clk 0) (flow, s0) of
        (Inl e, _, s1) \<Rightarrow> (Inl (DemoElevation e), s1)
      | (Inr outcome, flow1, s1) \<Rightarrow>
          let approver = principal_approver ''human-alice'';
              line1 = ''1) request_elevation -> '' @ ar_code (eo_contract outcome) @ '' (request '' @ ar_request_id (eo_contract outcome)
                @ '', webhook delivered='' @ bool_text (is_ok (eo_webhook outcome)) @ '')'' in
          (case flow_approve cr env i approver signing_key ''nonce-demo-1'' 30000 (clk 1) (flow1, s1) of
             (Inl e, _, s2) \<Rightarrow> (Inl (DemoApprove e), s2)
           | (Inr grant, flow2, s2) \<Rightarrow>
               let line2 = ''2) approve -> grant signed by '' @ quoted (pn_id approver) in
               (case store_get i (fl_store flow2) of
                  None \<Rightarrow> (Inl DemoNoRequest, s2)
                | Some request \<Rightarrow>
                    let live = to_binding (aq_proposal request) ''nonce-demo-1'' (gb_expiry_unix_millis (gt_binding grant)) in
                    (case verify_at_apply cr env in_memory_consume grant live (clk 2) (flow2, s2) of
                       (Inr _, _, s3) \<Rightarrow>
                         (Inr [line1, line2, ''3) verify_at_apply -> VERIFIED (grant binds to the approved proposal)''], s3)
                     | (Inl e, _, s3) \<Rightarrow>
                         (Inr [line1, line2, ''3) verify_at_apply -> REJECTED: '' @ fe_display env (ReasonGrant e)], s3)))))"

record ('k, 'sk, 's, 'f, 'io, 'p, 'c) cli_world =
  cw_proc :: "(intent_tiers, 's, 'f, 'io, 'p) proc_env"
  cw_text :: "'io doctor_text"
  cw_db :: "'c doctor_db"
  cw_crypto :: "('k, 'sk) grant_crypto"
  cw_key :: 'sk
  cw_seed_bytes :: "'sk \<Rightarrow> bytes"
  cw_public_bytes :: "'k \<Rightarrow> bytes"
  cw_append :: "intent_tiers new_entry \<Rightarrow> u64 \<Rightarrow> ('s, sink_error, intent_tiers audit_record) eff"
  cw_display :: "flow_reason \<Rightarrow> string"
  cw_clock :: "nat \<Rightarrow> clock"

definition demo_flow ::
  "('k, 'sk, 's, 'f, 'io, 'p, 'c) cli_world
    \<Rightarrow> (intent_tiers new_entry \<Rightarrow> u64 \<Rightarrow> ('x, sink_error, intent_tiers audit_record) eff) \<Rightarrow> ('x, 'io demo_error, string list) eff" where
  "demo_flow cw app x =
     (case run_flow (cw_crypto cw) (demo_env app (cw_display cw)) (cw_key cw) (gc_verifying_key (cw_crypto cw) (cw_key cw))
         (\<lambda>n. cw_clock cw (Suc n)) (x, recording_new) of
        (r, x', _) \<Rightarrow> (r, x'))"

text \<open>On the shared log: start, run the flow on its sink, anchor what it appended.\<close>

definition demo_shared ::
  "('k, 'sk, 's, 'f, 'io, 'p, 'c) cli_world \<Rightarrow> string \<Rightarrow> string \<Rightarrow> ('f, 'io demo_error, string list) eff" where
  "demo_shared cw dsn key f =
     (let env = cw_proc cw; audit = pe_audit env in
      case pe_getenv env ''PGB_ANCHOR_PATH'' of
        None \<Rightarrow> (Inl (DemoMissing ''PGB_ANCHOR_PATH''), f)
      | Some anchor_path \<Rightarrow>
      if anchor_path = [] then (Inl (DemoEmpty ''PGB_ANCHOR_PATH''), f)
      else
      (case secret_put AUDIT_SIGNING_KEY_ID (as_bytes key) secret_store_new of
         (Inl e, _) \<Rightarrow> (Inl (DemoSecret e), f)
       | (Inr _, store) \<Rightarrow>
      (case connect_with_anchor audit dsn store (cli_anchor_interval env) anchor_path f of
         (Inl e, f1) \<Rightarrow> (Inl (DemoBoot e), f1)
       | (Inr (b, s), f1) \<Rightarrow>
      (case verify_then_anchor audit (monotonic_millis (cw_clock cw 0)) (b, s, f1) of
         (Inl e, _, _, f2) \<Rightarrow> (Inl (DemoStartup e), f2)
       | (Inr _, b2, s2, f2) \<Rightarrow>
      (case demo_flow cw (cw_append cw) s2 of
         (Inl e, _) \<Rightarrow> (Inl e, f2)
       | (Inr printed, s3) \<Rightarrow>
      (case boot_maybe_anchor audit (monotonic_millis (cw_clock cw 4)) (b2, s3, f2) of
         (Inl e, _, _, f3) \<Rightarrow> (Inl (DemoAnchor e), f3)
       | (Inr _, st) \<Rightarrow>
           (case load_chain audit st of
              (r, _, _, f4) \<Rightarrow>
                (Inr (printed @ [''audit: '' @ decimal (case r of Inr records \<Rightarrow> length records | Inl _ \<Rightarrow> 0)
                   @ '' records on the SHARED, durably-anchored `_meta` chain; chain verified against its prior anchored head before extending'']), f4))))))))"

text \<open>In memory, behind a shared sink.\<close>

definition demo_in_memory :: "('k, 'sk, 's, 'f, 'io, 'p, 'c) cli_world \<Rightarrow> 'io demo_error + string list" where
  "demo_in_memory cw =
     (let h = be_hasher (pe_audit (cw_proc cw)) in
      case demo_flow cw (shared_append (in_memory_append h)) \<lparr>ss_inner = in_memory_sink_new, ss_poisoned = False\<rparr> of
        (Inl e, _) \<Rightarrow> Inl e
      | (Inr printed, sink) \<Rightarrow>
          Inr (printed @ [''audit: '' @ decimal (case shared_load_chain in_memory_load_chain sink of Inr records \<Rightarrow> length records | Inl _ \<Rightarrow> 0)
            @ '' records (in-memory), chain intact='' @ bool_text (is_ok (sink_verify h (shared_load_chain in_memory_load_chain) sink))]))"

definition run_demo :: "('k, 'sk, 's, 'f, 'io, 'p, 'c) cli_world \<Rightarrow> ('f, 'io demo_error, string list) eff" where
  "run_demo cw f =
     (case (cli_nonempty_env (cw_proc cw) ''PGB_META_DSN'', cli_nonempty_env (cw_proc cw) ''PGB_AUDIT_SIGNING_KEY'') of
        (Some dsn, Some key) \<Rightarrow> demo_shared cw dsn key f
      | _ \<Rightarrow> (demo_in_memory cw, f))"

section \<open>The commands\<close>

definition run_keygen :: "('k, 'sk, 's, 'f, 'io, 'p, 'c) cli_world \<Rightarrow> string list" where
  "run_keygen cw =
     [gc_hex_encode (cw_crypto cw) (cw_seed_bytes cw (cw_key cw)),
      gc_hex_encode (cw_crypto cw) (cw_public_bytes cw (gc_verifying_key (cw_crypto cw) (cw_key cw)))]"

definition cli_usage :: string where
  "cli_usage =
     join_with [CHR 0x0A] [
       ''pgb-cli '' @ em_dash @ '' pg_brakes approval CLI (SPEC '' @ [CHR 0xC2, CHR 0xA7] @ ''14 MVP).'',
       ''usage:'',
       ''  pgb-cli approve <request-id>   sign a proposal-bound grant (human approver)'',
       ''  pgb-cli demo                   run request -> approve -> verify-at-apply'',
       ''  pgb-cli verify                 load + verify the shared `_meta` chain + anchored head'',
       ''  pgb-cli doctor                 BYO preflight: reachability + WALL hardening + applier DML-only'',
       ''                                 + pg_hba boundary + _meta chain (fail-closed; non-zero on any failure)'',
       ''  pgb-cli keygen                 print a fresh Ed25519 approver keypair (seed hex, then pubkey hex)'',
       [],
       ''Set PGB_META_DSN (audit-writer DSN) + PGB_AUDIT_SIGNING_KEY to run the demo'',
       ''against the SHARED, persistent, anchored `_meta` chain (the one the proxy'',
       ''also writes); otherwise the demo runs in-process on an in-memory chain.'',
       ''`verify` needs PGB_META_DSN + PGB_AUDIT_SIGNING_KEY + PGB_ANCHOR_PATH.'',
       ''`doctor` reads PGB_POLICY_PATH (the BYO DSN targets) + PGB_DOCTOR_PASSWORD'',
       ''(the primary connect secret); env PGB_BACKEND_* override the policy target.'',
       ''It optionally checks the `_meta` chain when PGB_META_DSN is set.'']"

text \<open>
  The choice of a command: what it prints on the standard output and its exit code; a message on the
  standard error is left out, and so is what a failed command printed before it failed. A panic exits
  with 101.
\<close>

definition cli_main ::
  "('k, 'sk, 's, 'f, 'io, 'p, 'c) cli_world \<Rightarrow> string list \<Rightarrow> 'f \<Rightarrow> (string list \<times> u8) \<times> 'f" where
  "cli_main cw args f =
     (let command = (if 1 < length args then Some (args ! 1) else None) in
      if command = Some ''approve'' then (([], 2), f)
      else if command = Some ''demo'' then
        (case run_demo cw f of
           (Inr printed, f') \<Rightarrow> ((printed, 0), f')
         | (Inl e, f') \<Rightarrow> (([], if e = DemoNoRequest then 101 else 1), f'))
      else if command = Some ''verify'' then
        (case run_verify (cw_proc cw) (monotonic_millis (cw_clock cw 0)) f of
           (Inr printed, f') \<Rightarrow> ((printed, 0), f')
         | (Inl _, f') \<Rightarrow> (([], 1), f'))
      else if command = Some ''keygen'' then ((run_keygen cw, 0), f)
      else if command = Some ''doctor'' then
        (case run_doctor (cw_text cw) (cw_db cw) (cw_proc cw) f of
           (Inr (ok, printed), f') \<Rightarrow> (([printed], if ok then 0 else 1), f')
         | (Inl e, f') \<Rightarrow> (([], if e = DoctorPanic then 101 else 1), f'))
      else (([cli_usage], 0), f))"

section \<open>Correctness\<close>

text \<open>
  The exit code of the preflight is zero only when it passed; but a command the program does not know,
  a misspelt one too, prints the usage and exits with zero.
\<close>

lemma doctor_exit_code:
  "snd (fst (cli_main cw [prog, ''doctor''] f)) = 0 \<longleftrightarrow> (\<exists>out f'. run_doctor (cw_text cw) (cw_db cw) (cw_proc cw) f = (Inr (True, out), f'))"
  by (auto simp: cli_main_def split: prod.splits sum.splits if_splits)

lemma unknown_command_exits_zero:
  "c \<notin> {''approve'', ''demo'', ''verify'', ''keygen'', ''doctor''} \<Longrightarrow> cli_main cw (prog # c # others) f = (([cli_usage], 0), f)"
  by (simp add: cli_main_def)

text \<open>
  A log that the check accepted verifies, and the anchor file then ends with an entry for a log with
  the same head: the one that was read again before it was anchored.
\<close>

lemma file_holds_fun: "file_holds env path f es \<Longrightarrow> file_holds env path f es' \<Longrightarrow> es' = es"
  by (auto simp: file_holds_def)

lemma summary_head: "verify_meta_chain h records = Inr summary \<Longrightarrow> cs_head summary = fst (head_of records)"
  by (auto simp: verify_meta_chain_def rbind_Inr_iff head_of_def)

lemma verify_pins_what_it_read:
  assumes durable: "durable (pe_audit env) path" and path: "pe_getenv env ''PGB_ANCHOR_PATH'' = Some path"
    and ok: "run_verify env now f = (Inr printed, f')"
  shows "\<exists>records again k. verify_chain (be_hasher (pe_audit env)) records = Inr () \<and> verify_chain (be_hasher (pe_audit env)) again = Inr ()
    \<and> Audit_Boot.pinned (pe_audit env) path k f' again \<and> fst (head_of again) = fst (head_of records)"
proof -
  from ok path obtain dsn key where put: "(case secret_put AUDIT_SIGNING_KEY_ID (as_bytes key) secret_store_new of
        (Inl e, _) \<Rightarrow> efail (VerifySecret e)
      | (Inr _, store) \<Rightarrow> (\<lambda>f.
          case connect_with_anchor (pe_audit env) dsn store (cli_anchor_interval env) path f of
            (Inl e, f1) \<Rightarrow> (Inl (VerifyBoot e), f1)
          | (Inr (b, s), f1) \<Rightarrow> (case verify_steps (pe_audit env) now (b, s, f1) of (r, _, _, f2) \<Rightarrow> (r, f2)))) f = (Inr printed, f')"
    unfolding run_verify_def ebind_elift_Inr_iff required_def option_Inr_iff by auto
  then obtain store b s f1 st where connect: "connect_with_anchor (pe_audit env) dsn store (cli_anchor_interval env) path f = (Inr (b, s), f1)"
    and steps: "verify_steps (pe_audit env) now (b, s, f1) = (Inr printed, st)" and f': "snd (snd st) = f'"
    by (cases "secret_put AUDIT_SIGNING_KEY_ID (as_bytes key) secret_store_new")
      (auto simp: efail_def split: prod.splits sum.splits)
  from steps obtain records s1 summary b2 s2 f2 anchored where read: "be_load (pe_audit env) s = (Inr records, s1)"
    and summary: "verify_meta_chain (be_hasher (pe_audit env)) records = Inr summary"
    and anchor: "boot (pe_audit env) Owner now (b, s1, f1) = (Inr (), b2, s2, f2)" and st: "st = (b2, s2, f2)"
    and latest: "latest (ab_worm b2) = Some anchored" "ae_head_hash anchored = cs_head summary"
    by (auto simp: verify_steps_def ebind_Inr_iff elift_def load_chain_def split: prod.splits sum.splits option.splits if_splits)
  from connect_handle_ok [OF durable connect] obtain k where handle: "handle_ok (pe_audit env) path k b f1"
    and fresh: "an_last_anchor_at (ab_anchorer b) = None" by blast
  from anchor obtain again s1' where again: "be_load (pe_audit env) s1 = (Inr again, s1')"
    by (auto simp: verify_then_anchor_def ebind_Inr_iff load_chain_def split: prod.splits sum.splits)
  note started = owner_started [OF durable handle fresh again anchor]
  from started(2) obtain es where es: "file_holds (pe_audit env) path f2 (es @ [entry_for (pe_audit env) k again])" unfolding Audit_Boot.pinned_def ..
  from started(3) have "wa_entries (ab_worm b2) = es @ [entry_for (pe_audit env) k again]"
    using file_holds_fun [OF es] by (simp add: handle_ok_def)
  with latest(1) have "anchored = entry_for (pe_audit env) k again" by (simp add: latest_def)
  then have "ae_head_hash anchored = fst (head_of again)" by (simp add: entry_for_def split: prod.split)
  with latest(2) summary_head [OF summary] have "fst (head_of again) = fst (head_of records)" by simp
  moreover have "verify_chain (be_hasher (pe_audit env)) records = Inr ()" using summary verify_meta_chain_ok by blast
  moreover have "f2 = f'" using st f' by simp
  ultimately show ?thesis using started(1,2) by blast
qed

text \<open>
  An approval and the application compose: with a correct hex codec and signature scheme, the grant
  that was signed for a request is accepted for that request's live binding, before it expires and
  with an unspent nonce; and it is accepted once.
\<close>

lemma approved_grant_verifies_once:
  assumes hex: "\<And>bs. gc_hex_decode cr (gc_hex_encode cr bs) = Some bs"
    and sig: "\<And>msg. length (gc_sign cr sk msg) = 64 \<and> gc_verify_strict cr (gc_verifying_key cr sk) msg (gc_sign cr sk msg)"
    and wf: "bt_wf (st_requests (fl_store flow))" and key: "fl_verifying_key flow = gc_verifying_key cr sk"
    and approve: "flow_approve cr env i approver sk nonce ttl clk (flow, s) = (Inr grant, flow1, s1)"
    and fresh: "nonce \<notin> ins_used (fl_nonces flow)" and time: "now_unix_millis clk' < sat_add (now_unix_millis clk) ttl"
  shows "\<exists>request flow2 s2. store_get i (fl_store flow1) = Some request
    \<and> verify_at_apply cr env in_memory_consume grant (to_binding (aq_proposal request) nonce (gb_expiry_unix_millis (gt_binding grant)))
        clk' (flow1, s1) = (Inr (), flow2, s2)
    \<and> fst (verify_at_apply cr env in_memory_consume grant (to_binding (aq_proposal request) nonce (gb_expiry_unix_millis (gt_binding grant)))
        clk' (flow2, s2)) = Inl ReplayedNonce"
proof -
  let ?expiry = "sat_add (now_unix_millis clk) ttl"
  from approve obtain request where pending: "bt_get (st_requests (fl_store flow)) i = Some request" "aq_status request = Pending"
    and grant: "grant = grant_sign (gc_sha256 cr) (gc_hex_encode cr) (gc_sign cr sk) (to_binding (aq_proposal request) nonce ?expiry)"
    and flow1: "flow1 = flow\<lparr>fl_store := (fl_store flow)\<lparr>st_requests :=
        bt_insert i (request\<lparr>aq_status := Approved\<rparr>) (st_requests (fl_store flow))\<rparr>\<rparr>"
    by (auto simp: flow_approve_def pending_for_approval_def store_resolve_def Let_def split: sum.splits option.splits if_splits prod.splits)
  have get: "store_get i (fl_store flow1) = Some (request\<lparr>aq_status := Approved\<rparr>)"
    by (simp add: flow1 store_get_def bt_get_insert [OF wf])
  let ?b = "to_binding (aq_proposal request) nonce ?expiry"
  have fields: "gb_expiry_unix_millis ?b = ?expiry" "gb_nonce ?b = nonce" "gt_binding grant = ?b"
    by (simp_all add: to_binding_def grant grant_sign_def)
  have nonces: "fl_nonces flow1 = fl_nonces flow" "fl_verifying_key flow1 = gc_verifying_key cr sk" by (simp_all add: flow1 key)
  note verdict = signed_grant_verifies [where hex_decode = "gc_hex_decode cr" and hex_encode = "gc_hex_encode cr" and sign = "gc_sign cr sk"
      and verify_strict = "gc_verify_strict cr (gc_verifying_key cr sk)" and ?sha256.0 = "gc_sha256 cr" and b = ?b and clk = clk',
      OF hex sig, folded grant, unfolded fields]
  from time have late: "\<not> ?expiry \<le> now_unix_millis clk'" by simp
  obtain flow2 s2 where first: "verify_at_apply cr env in_memory_consume grant ?b clk' (flow1, s1) = (Inr (), flow2, s2)"
    and spent: "nonce \<in> ins_used (fl_nonces flow2)" "fl_verifying_key flow2 = gc_verifying_key cr sk"
    using late fresh by (auto simp: verify_at_apply_def nonces verdict Let_def)
  have "fst (verify_at_apply cr env in_memory_consume grant ?b clk' (flow2, s2)) = Inl ReplayedNonce"
    using late spent by (simp add: verify_at_apply_def verdict Let_def)
  with get first show ?thesis by (simp add: fields)
qed

text \<open>The demonstration therefore ends with an accepted grant, when its steps are in time.\<close>

lemma demo_request:
  "\<exists>outcome s1. flow_request_elevation env ''req-demo-1'' demo_proposal ''agent-demo'' (OpUpdate True True) 60000 clk (flow_new vk nonces, s)
    = (Inr outcome, \<lparr>fl_store = \<lparr>st_requests = [(''req-demo-1'', \<lparr>aq_id = ''req-demo-1'', aq_proposal = demo_proposal,
         aq_requester_id = ''agent-demo'', aq_created_unix_millis = now_unix_millis clk, aq_ttl_millis = 60000, aq_status = Pending\<rparr>)]\<rparr>,
       fl_verifying_key = vk, fl_nonces = nonces\<rparr>, s1)"
  by (simp add: flow_request_elevation_def gate_for_elevation_def store_request_elevation_def flow_new_def store_new_def store_get_def
      bt_contains_def prod.case_eq_if)

lemma demo_flow_verifies:
  assumes hex: "\<And>bs. gc_hex_decode cr (gc_hex_encode cr bs) = Some bs"
    and sig: "\<And>msg. length (gc_sign cr sk msg) = 64 \<and> gc_verify_strict cr (gc_verifying_key cr sk) msg (gc_sign cr sk msg)"
    and time: "now_unix_millis (clk 1) < sat_add (now_unix_millis (clk 0)) 60000" "now_unix_millis (clk 2) < sat_add (now_unix_millis (clk 1)) 30000"
  shows "\<exists>line1 line2 s'. run_flow cr env sk (gc_verifying_key cr sk) clk s =
    (Inr [line1, line2, ''3) verify_at_apply -> VERIFIED (grant binds to the approved proposal)''], s')"
proof -
  let ?request = "\<lparr>aq_id = ''req-demo-1'', aq_proposal = demo_proposal, aq_requester_id = ''agent-demo'',
    aq_created_unix_millis = now_unix_millis (clk 0), aq_ttl_millis = 60000, aq_status = Pending\<rparr>"
  let ?flow = "\<lparr>fl_store = \<lparr>st_requests = [(''req-demo-1'', ?request)]\<rparr>, fl_verifying_key = gc_verifying_key cr sk, fl_nonces = in_memory_new\<rparr>"
  obtain outcome s1 where requested: "flow_request_elevation env ''req-demo-1'' demo_proposal ''agent-demo'' (OpUpdate True True) 60000 (clk 0)
      (flow_new (gc_verifying_key cr sk) in_memory_new, s) = (Inr outcome, ?flow, s1)"
    using demo_request [of env "clk 0" "gc_verifying_key cr sk" in_memory_new s] by (elim exE)
  have "\<not> request_is_expired ?request (now_unix_millis (clk 1))" using time(1) by (simp add: request_is_expired_def expires_at_def)
  then obtain grant flow2 s2 where approved: "flow_approve cr env ''req-demo-1'' (principal_approver ''human-alice'') sk ''nonce-demo-1'' 30000 (clk 1)
      (?flow, s1) = (Inr grant, flow2, s2)"
    by (simp add: flow_approve_def pending_for_approval_def store_resolve_def authorize_def can_approve_def principal_approver_def)
  from approved_grant_verifies_once [OF hex sig _ _ approved _ time(2)] obtain request flow3 s3
    where "store_get ''req-demo-1'' (fl_store flow2) = Some request"
      "verify_at_apply cr env in_memory_consume grant (to_binding (aq_proposal request) ''nonce-demo-1'' (gb_expiry_unix_millis (gt_binding grant)))
        (clk 2) (flow2, s2) = (Inr (), flow3, s3)"
    by (auto simp: bt_wf_def in_memory_new_def)
  with requested approved show ?thesis by (simp add: run_flow_def Let_def)
qed

end
