(* ===== verification/Spec2Isabelle.thy ===== *)
theory Spec2Isabelle
  imports
    Core_Session Core_Pk_Checksum Core_Inverse Core_Blast_Radius
    Orch_Dry_Run Orch_Apply Orch_Apply_Safety Orch_Revert Orch_Reversibility Orch_Apply_Grant Orch_Predicate
    Policy_Risk Policy_Grant Policy_Config
    Audit_Chain Audit_Anchor
    Wire_Buf Wire_Frontend Wire_Backend Wire_Classifier
    Proxy_Meter Proxy_Gate Fuel_Effect Proxy_Scram Proxy_Session Proxy_Session_Safety Proxy_Serve
    Warden
    Policy_Intent Cli_Approval Applyd_Service Applyd_Safety Applyd_Line
    Audit_Boot Audit_Pg Proxy_Threaded_Sink Process_Start
    Host_Fs Orch_Ledger Orch_Provider Orch_Conn
    Mcp_Server Mcp_Start Mcp_Agent
    Cli_Doctor Cli_Webhook Cli_Main
begin

text \<open>
  A verification library for pg\_brakes, a control plane between AI agents and a production
  PostgreSQL. An agent talks to a server of nine tools. Its reads go through a proxy that speaks the
  PostgreSQL wire protocol, lets classified reads through, meters what comes back and records each
  decision. Its writes go to a daemon: a statement becomes a proposal; a dry run on a clone measures
  its effect and assembles a blast-radius record; a human signs a grant that binds the statement, the
  record and a ceiling; the guarded apply runs the statement in one transaction and commits only when
  every guard holds for what the server reports; the captured pre-images form an inverse that a
  revert can run. A watchdog terminates runaway sessions. Decisions go to a hash-chained audit log
  whose head is anchored outside.

  \<^bold>\<open>Theories and sources\<close> (crates are under \<^verbatim>\<open>src/crates\<close>)

  \<^item> Shared: \<open>Base_Prelude\<close> (machine integers with saturating arithmetic, results as sums with \<open>rbind\<close>,
    effects as state-passing functions that may fail with \<open>eff\<close> and \<open>ebind\<close>, byte strings, UTF-8,
    decimal rendering), \<open>Tighten_Order\<close>, \<open>Prefix_Code\<close> and \<open>Btree_Map\<close> (the locales several components
    share: operations that only tighten, self-delimiting encodings, and \<^verbatim>\<open>BTreeMap\<close> as a sorted
    association list), \<open>Fuel_Effect\<close> (effects that may run out of fuel, with a small Hoare logic over
    their traces), \<open>Host_Fs\<close> (paths, files and processes of a host).
  \<^item> Domain types: \<open>Core_Session\<close> (\<^verbatim>\<open>core/clock.rs\<close>, \<^verbatim>\<open>core/session.rs\<close>), \<open>Core_Pk_Checksum\<close>
    (\<^verbatim>\<open>core/pk_checksum.rs\<close>), \<open>Core_Inverse\<close> (\<^verbatim>\<open>core/inverse.rs\<close>), \<open>Core_Blast_Radius\<close>
    (\<^verbatim>\<open>core/blast_radius.rs\<close>).
  \<^item> Write path, in \<^verbatim>\<open>clone-orchestrator\<close>: \<open>Orch_Dry_Run\<close> (\<^verbatim>\<open>proposal.rs\<close>, \<^verbatim>\<open>dry_run.rs\<close>), \<open>Orch_Predicate\<close>
    (\<^verbatim>\<open>predicate.rs\<close>, with a semantics of predicates over rows), \<open>Orch_Apply\<close> (\<^verbatim>\<open>apply.rs\<close>, over an
    arbitrary connection and an arbitrary action at the barrier), \<open>Orch_Apply_Safety\<close> (the calls a run
    makes and the protocol they follow), \<open>Orch_Revert\<close> (\<^verbatim>\<open>revert.rs\<close>), \<open>Orch_Reversibility\<close> (dry run,
    apply and revert joined), \<open>Orch_Apply_Grant\<close> (\<^verbatim>\<open>apply_grant.rs\<close>), \<open>Orch_Conn\<close> (\<^verbatim>\<open>conn.rs\<close>: the
    rehearsal, apply and revert connections as instances of those interfaces).
  \<^item> Clones: \<open>Orch_Ledger\<close> (\<^verbatim>\<open>provider/ledger.rs\<close>: breadcrumbs and the reaper), \<open>Orch_Provider\<close>
    (\<^verbatim>\<open>provider.rs\<close>, \<^verbatim>\<open>provider/local.rs\<close>, \<^verbatim>\<open>provider/parity.rs\<close>, with every state a provision goes
    through).
  \<^item> Policy and approval: \<open>Policy_Risk\<close> (\<^verbatim>\<open>policy/verdict.rs\<close>, \<^verbatim>\<open>risk.rs\<close>), \<open>Policy_Grant\<close>
    (\<^verbatim>\<open>policy/grant.rs\<close>), \<open>Policy_Config\<close> (\<^verbatim>\<open>policy/config.rs\<close>), \<open>Policy_Intent\<close> (\<^verbatim>\<open>policy/intent.rs\<close>),
    \<open>Cli_Approval\<close> (the approval flow of \<^verbatim>\<open>cli\<close>), \<open>Cli_Webhook\<close> (\<^verbatim>\<open>cli/webhook.rs\<close>), \<open>Cli_Doctor\<close>
    (\<^verbatim>\<open>cli/doctor.rs\<close> and the preflight of \<^verbatim>\<open>cli/main.rs\<close>), \<open>Cli_Main\<close> (the other commands of
    \<^verbatim>\<open>cli/main.rs\<close>).
  \<^item> Audit: \<open>Audit_Chain\<close> (\<^verbatim>\<open>audit/record.rs\<close>, \<^verbatim>\<open>chain.rs\<close>, \<^verbatim>\<open>sink.rs\<close>), \<open>Audit_Anchor\<close> (\<^verbatim>\<open>kms.rs\<close>,
    \<^verbatim>\<open>anchor.rs\<close>), \<open>Audit_Boot\<close> (\<^verbatim>\<open>boot.rs\<close>, \<^verbatim>\<open>secret.rs\<close>: the start on a persisted log), \<open>Audit_Pg\<close> (the
    PostgreSQL sink as a step relation over processes that append concurrently).
  \<^item> Wire: \<open>Wire_Buf\<close> (\<^verbatim>\<open>pgwire/buf.rs\<close>, \<^verbatim>\<open>codec.rs\<close>), \<open>Wire_Frontend\<close> (\<^verbatim>\<open>frontend.rs\<close>, \<^verbatim>\<open>detector.rs\<close>,
    \<^verbatim>\<open>scram.rs\<close>), \<open>Wire_Backend\<close> (\<^verbatim>\<open>backend.rs\<close>), \<open>Wire_Classifier\<close> (\<^verbatim>\<open>classifier.rs\<close>).
  \<^item> Proxy: \<open>Proxy_Meter\<close> and \<open>Proxy_Gate\<close> (budgets, the plan gate), \<open>Proxy_Scram\<close> (\<^verbatim>\<open>scram.rs\<close>),
    \<open>Proxy_Session\<close> (\<^verbatim>\<open>session.rs\<close>: relay and query loop), \<open>Proxy_Session_Safety\<close> (what reaches the
    backend and the agent), \<open>Proxy_Serve\<close> (a connection from its first byte), \<open>Proxy_Threaded_Sink\<close>.
  \<^item> Processes: \<open>Warden\<close> (the watchdog), \<open>Applyd_Service\<close>, \<open>Applyd_Safety\<close> and \<open>Applyd_Line\<close> (the apply
    daemon: its operations, any run of calls, and the lines of a connection), \<open>Process_Start\<close> (the
    start of the proxy and the daemon), \<open>Mcp_Server\<close> (\<^verbatim>\<open>mcp\<close>: the tools and the two clients), \<open>Mcp_Start\<close>
    (\<^verbatim>\<open>mcp/bin/pgb_mcp.rs\<close>) and \<open>Mcp_Agent\<close> (what a session of tool calls sends, and the server joined
    with the daemon).

  \<^bold>\<open>Correspondence\<close>. A struct is a record, an enum a datatype, a \<^verbatim>\<open>u64\<close> a 64-bit word, a \<^verbatim>\<open>String\<close> its
  list of UTF-8 bytes as characters, a \<^verbatim>\<open>Result\<close> a sum with the error on the left, and a method with
  \<^verbatim>\<open>&mut self\<close> a function that returns the changed state. Error messages that are formatted prose are
  constructors carrying the formatted values, or the text they carry. Traits (\<^verbatim>\<open>ApplyConn\<close>,
  \<^verbatim>\<open>RevertConn\<close>, \<^verbatim>\<open>Rehearsal\<close>, \<^verbatim>\<open>CloneProvider\<close>, \<^verbatim>\<open>NonceStore\<close>, \<^verbatim>\<open>Sink\<close>) are records of functions or function
  arguments, so the theorems hold for every implementation; a locale states what a client relies on
  where there is such a contract, and is interpreted on the definitions of the provider.

  \<^bold>\<open>What the lemmas show\<close>. Safety of the write path: a commit implies the guards, the grant, the
  approval and an audit entry; the captured rows are the rows that were read, and a revert binds
  exactly their cells; an agent that has only the tools never commits. Safety of the read path: only
  gated frames reach the backend, after authentication and the pinned settings, and what is relayed
  stays within the caps. The audit log: tampering is seen, concurrent appends form one chain, a start
  accepts only the pinned log. The preflight passes exactly on the floor it observed.
  Clones: the breadcrumb precedes the copy, the reaper overlooks no orphan and leaves the files of the
  living as they were. Codecs: round trips of the wire messages. Liveness and termination: an
  answer within the caps and the room of the window is relayed, retries end. Several theorems and lemmas
  prove a defect, or that a gate lets something pass that its documentation refuses; the text in front
  of them says so.

  \<^bold>\<open>Parameters\<close>. SHA-256, HMAC, PBKDF2, base64, the hex codec, Ed25519, random bytes, canonical JSON,
  the JSON, YAML and PEM readers, the SQL parser and its visitor, \<^verbatim>\<open>to_lowercase\<close> on Unicode, floating
  point, the environment, files and processes of the host where \<open>Host_Fs\<close> does not model them, the
  PostgreSQL programs and server, the wording of messages and all sockets are arguments. A theorem that
  needs something of them says so as a hypothesis: that hashing does not collide on the inputs at hand,
  that a codec inverts, that a signature verifies what it signed, that clock readings do not go back.

  \<^bold>\<open>Bounds\<close>. A loop is a structural recursion over the data it consumes or carries a termination
  proof. The loops of the proxy and of the watchdog, which run as long as their peers do, take fuel,
  one unit for each iteration; a run that is out of fuel is a run observed so far, the safety theorems
  hold for every fuel, and \<open>answer_within_caps_is_relayed\<close> shows that one unit for each frame is
  enough. Lengths that the code casts to \<^verbatim>\<open>u32\<close> or \<^verbatim>\<open>u64\<close> are cast in the model as well, and the theorems
  that need them small say so (\<open>tuple_wf\<close>, \<open>binding_wf\<close>, \<open>frontend_ok\<close>).

  \<^bold>\<open>Not modelled\<close>. Accept loops, threads and the sockets themselves; loading of TLS keys; the
  protocol library that serves the tools over stdio; derived (de)serialization; the thread barrier,
  the benchmark, the spikes, the fuzzing targets and the tests. They are input, output or test code
  around the operations above.
\<close>

end
